(* ===== verification/Prelude.thy ===== *)
theory Prelude
  imports Main "HOL-Library.Word"
begin

text \<open>
  Shared vocabulary of the development: Go's errors, results and 64-bit integers, the
  operations of \<^verbatim>\<open>strings\<close> and \<^verbatim>\<open>slices\<close> the program calls, the dynamically typed triple
  object (\<^verbatim>\<open>any\<close>), the graph record types every component reads and writes, and the lemmas
  on them that carry the component proofs.

  Conventions. A Go \<^verbatim>\<open>string\<close> is a list of bytes (HOL's \<open>string\<close>). A Go \<^verbatim>\<open>error\<close>
  result is \<open>gerror option\<close> (\<open>None\<close> is \<^verbatim>\<open>nil\<close>); a pair of value and error is
  \<open>gerror + 'a\<close>. Error texts keep the head of their format string; formatted arguments are
  dropped, and everything the program branches on (sentinels, typed errors, codes, wrapping) is kept.
  An effect on the graph threads an explicit world \<open>'w\<close>.
\<close>

named_theorems vocab_strings \<open>literal values of the closed vocabularies\<close>
named_theorems pred_strings \<open>literal values of the registered predicates\<close>

section \<open>Errors\<close>

text \<open>The classification of \<^verbatim>\<open>projection.MutationError\<close> that the program inspects.\<close>

datatype mutation_kind =
    MutationConflict | MutationNotFound | MutationRevisionConflict | MutationCommitUnknown
  | MutationOther string

datatype commit_state = CommitNotCommitted | CommitCommitted | CommitUnknown

datatype gerror =
    Errorf string
  | Wrapf string gerror
  | Wrapf2 string gerror gerror
  | UnknownValueError string string "string list"
  | OutOfBoundsError string int int int
  | ErrNoRollRequired
  | ErrEntityExists
  | ErrEntityNotFound
  | ErrIndexNotReady
  | RejectionError int string string string gerror
  | CommitError string string "string list" gerror
  | RejectedActionError string gerror
  | IllegalTransitionError string string string string
  | RecordError string gerror
  | AuthorizationError string
  | MutationError mutation_kind commit_state
  | ClassifiedError string
  | TerminateDelivery gerror
  | IntegrityError gerror
  | AccusationTurnMissing string gerror
  | PermanentProgressError gerror
  | ProgressTurnMissing string gerror
  | CaseOrderError string string string string string
  | OversizeError string
  | AbsentActorError string
  | DetailLostError gerror
  | FieldError string "gerror option" string
  | External string

text \<open>
  \<^verbatim>\<open>errors.As\<close> walks the tree of wrapped errors in pre-order and returns the first match of
  its selector.
\<close>

fun errors_As :: "(gerror \<Rightarrow> 'a option) \<Rightarrow> gerror \<Rightarrow> 'a option" where
  "errors_As f (Wrapf s e) =
     (case f (Wrapf s e) of Some x \<Rightarrow> Some x | None \<Rightarrow> errors_As f e)"
| "errors_As f (Wrapf2 s e1 e2) =
     (case f (Wrapf2 s e1 e2) of Some x \<Rightarrow> Some x
      | None \<Rightarrow> (case errors_As f e1 of Some x \<Rightarrow> Some x | None \<Rightarrow> errors_As f e2))"
| "errors_As f (RejectionError i ty tgt c e) =
     (case f (RejectionError i ty tgt c e) of Some x \<Rightarrow> Some x | None \<Rightarrow> errors_As f e)"
| "errors_As f (CommitError b tgt ws e) =
     (case f (CommitError b tgt ws e) of Some x \<Rightarrow> Some x | None \<Rightarrow> errors_As f e)"
| "errors_As f (RejectedActionError a e) =
     (case f (RejectedActionError a e) of Some x \<Rightarrow> Some x | None \<Rightarrow> errors_As f e)"
| "errors_As f (RecordError t e) =
     (case f (RecordError t e) of Some x \<Rightarrow> Some x | None \<Rightarrow> errors_As f e)"
| "errors_As f (TerminateDelivery e) =
     (case f (TerminateDelivery e) of Some x \<Rightarrow> Some x | None \<Rightarrow> errors_As f e)"
| "errors_As f (IntegrityError e) =
     (case f (IntegrityError e) of Some x \<Rightarrow> Some x | None \<Rightarrow> errors_As f e)"
| "errors_As f (AccusationTurnMissing t e) =
     (case f (AccusationTurnMissing t e) of Some x \<Rightarrow> Some x | None \<Rightarrow> errors_As f e)"
| "errors_As f (PermanentProgressError e) =
     (case f (PermanentProgressError e) of Some x \<Rightarrow> Some x | None \<Rightarrow> errors_As f e)"
| "errors_As f (ProgressTurnMissing t e) =
     (case f (ProgressTurnMissing t e) of Some x \<Rightarrow> Some x | None \<Rightarrow> errors_As f e)"
| "errors_As f (DetailLostError e) =
     (case f (DetailLostError e) of Some x \<Rightarrow> Some x | None \<Rightarrow> errors_As f e)"
| "errors_As f (FieldError n (Some e) d) =
     (case f (FieldError n (Some e) d) of Some x \<Rightarrow> Some x | None \<Rightarrow> errors_As f e)"
| "errors_As f e = f e"

definition errors_Is :: "gerror \<Rightarrow> gerror \<Rightarrow> bool" where
  "errors_Is e target = (errors_As (\<lambda>x. if x = target then Some () else None) e \<noteq> None)"

text \<open>
  A Go validator is a sequence of \<^verbatim>\<open>if err := ...; err != nil { return err }\<close> checks: the
  first check that fails is the result.
\<close>

fun firstErr :: "'e option list \<Rightarrow> 'e option" where
  "firstErr [] = None"
| "firstErr (Some e # _) = Some e"
| "firstErr (None # es) = firstErr es"

definition failIf :: "bool \<Rightarrow> 'e \<Rightarrow> 'e option" where
  "failIf b e = (if b then Some e else None)"

definition wrapErr :: "string \<Rightarrow> gerror option \<Rightarrow> gerror option" where
  "wrapErr s r = map_option (Wrapf s) r"

definition errOf :: "'e + 'a \<Rightarrow> 'e option" where
  "errOf r = (case r of Inl e \<Rightarrow> Some e | Inr _ \<Rightarrow> None)"

text \<open>A loop that validates each element and stops at the first failure.\<close>

fun forErr :: "('a \<Rightarrow> 'e option) \<Rightarrow> 'a list \<Rightarrow> 'e option" where
  "forErr f [] = None"
| "forErr f (x # xs) = (case f x of Some e \<Rightarrow> Some e | None \<Rightarrow> forErr f xs)"

lemma firstErr_None_iff [simp]: "firstErr es = None \<longleftrightarrow> (\<forall>e \<in> set es. e = None)"
  by (induction es rule: firstErr.induct) auto

lemma firstErr_Some: "firstErr es = Some e \<Longrightarrow> Some e \<in> set es"
  by (induction es rule: firstErr.induct) auto

lemma failIf_None [simp]: "failIf b e = None \<longleftrightarrow> \<not> b"
  by (simp add: failIf_def)

lemma failIf_Some [simp]: "failIf b e = Some e' \<longleftrightarrow> b \<and> e' = e"
  by (auto simp: failIf_def)

lemma wrapErr_None [simp]: "wrapErr s r = None \<longleftrightarrow> r = None"
  by (simp add: wrapErr_def)

lemma errOf_None [simp]: "errOf r = None \<longleftrightarrow> (\<exists>x. r = Inr x)"
  by (cases r) (auto simp: errOf_def)

lemma errOf_simps [simp]: "errOf (Inl e) = Some e" "errOf (Inr x) = None"
  by (simp_all add: errOf_def)

lemma forErr_None_iff [simp]: "forErr f xs = None \<longleftrightarrow> (\<forall>x \<in> set xs. f x = None)"
  by (induction xs) (auto split: option.splits)

section \<open>Go integers\<close>

text \<open>
  Go's \<^verbatim>\<open>int\<close> is 64-bit two's complement. Values are HOL integers; \<open>wrap64\<close> is the
  reduction every arithmetic operation of the program performs.
\<close>

definition wrap64 :: "int \<Rightarrow> int" where
  "wrap64 x = (x + 2 ^ 63) mod 2 ^ 64 - 2 ^ 63"

lemma wrap64_id: "- (2 ^ 63) \<le> x \<Longrightarrow> x < 2 ^ 63 \<Longrightarrow> wrap64 x = x"
  by (simp add: wrap64_def)

lemma wrap64_range: "- (2 ^ 63) \<le> wrap64 x" "wrap64 x < 2 ^ 63"
  by (simp_all add: wrap64_def)

text \<open>The loop \<^verbatim>\<open>total := 0; for ... { total += v }\<close>.\<close>

fun sum64_from :: "int \<Rightarrow> int list \<Rightarrow> int" where
  "sum64_from acc [] = acc"
| "sum64_from acc (v # vs) = sum64_from (wrap64 (acc + v)) vs"

abbreviation sum64 :: "int list \<Rightarrow> int" where
  "sum64 \<equiv> sum64_from 0"

text \<open>A sum of few small summands never wraps.\<close>

lemma sum64_from_eq:
  assumes "\<forall>v \<in> set vs. - b \<le> v \<and> v \<le> b"
    and "\<bar>acc\<bar> + int (length vs) * b < 2 ^ 63"
    and "0 \<le> b"
  shows "sum64_from acc vs = acc + sum_list vs"
  using assms
proof (induction vs arbitrary: acc)
  case Nil
  then show ?case by simp
next
  case (Cons v vs)
  have v: "\<bar>v\<bar> \<le> b" using Cons.prems(1) by auto
  have len: "0 \<le> int (length vs) * b" using Cons.prems(3) by simp
  have bound: "\<bar>acc\<bar> + b + int (length vs) * b < 2 ^ 63"
    using Cons.prems(2) by (simp add: algebra_simps)
  have id: "wrap64 (acc + v) = acc + v"
    using v len bound by (intro wrap64_id) linarith+
  have "sum64_from (acc + v) vs = acc + v + sum_list vs"
    using Cons.prems v bound by (intro Cons.IH) auto
  with id show ?case by simp
qed

section \<open>Strings and slices\<close>

definition hasPrefix :: "string \<Rightarrow> string \<Rightarrow> bool" where
  "hasPrefix s p = (take (length p) s = p)"

text \<open>\<^verbatim>\<open>strings.CutPrefix\<close>: the rest after the prefix, or \<open>None\<close> for \<^verbatim>\<open>ok = false\<close>.\<close>

definition cutPrefix :: "string \<Rightarrow> string \<Rightarrow> string option" where
  "cutPrefix s p = (if hasPrefix s p then Some (drop (length p) s) else None)"

text \<open>\<^verbatim>\<open>strings.Cut\<close> around the first occurrence of a one-byte separator.\<close>

fun cutAt :: "string \<Rightarrow> char \<Rightarrow> (string \<times> string) option" where
  "cutAt [] c = None"
| "cutAt (x # xs) c =
     (if x = c then Some ([], xs)
      else map_option (\<lambda>(a, b). (x # a, b)) (cutAt xs c))"

text \<open>\<^verbatim>\<open>strings.Split\<close> by a one-byte separator and \<^verbatim>\<open>strings.Join\<close>.\<close>

fun splitOn :: "char \<Rightarrow> string \<Rightarrow> string list" where
  "splitOn c [] = [[]]"
| "splitOn c (x # xs) =
     (if x = c then [] # splitOn c xs
      else (case splitOn c xs of [] \<Rightarrow> [[x]] | y # ys \<Rightarrow> (x # y) # ys))"

fun joinWith :: "string \<Rightarrow> string list \<Rightarrow> string" where
  "joinWith sep [] = []"
| "joinWith sep [x] = x"
| "joinWith sep (x # y # ys) = x @ sep @ joinWith sep (y # ys)"

lemma splitOn_nonempty [simp]: "splitOn c s \<noteq> []"
  by (induction s) (auto split: list.splits)

lemma joinWith_splitOn: "joinWith [c] (splitOn c s) = s"
proof (induction s)
  case (Cons x xs)
  obtain y ys where yys: "splitOn c xs = y # ys"
    using splitOn_nonempty by (metis neq_Nil_conv)
  show ?case using Cons.IH yys by (cases ys) auto
qed simp

lemma splitOn_append_sep:
  "c \<notin> set a \<Longrightarrow> splitOn c (a @ c # b) = a # splitOn c b"
  by (induction a) auto

lemma splitOn_no_sep: "c \<notin> set a \<Longrightarrow> splitOn c a = [a]"
  by (induction a) auto

lemma splitOn_joinWith:
  "xs \<noteq> [] \<Longrightarrow> \<forall>x \<in> set xs. c \<notin> set x \<Longrightarrow> splitOn c (joinWith [c] xs) = xs"
  by (induction "[c]" xs rule: joinWith.induct) (auto simp: splitOn_no_sep splitOn_append_sep)

lemma cutPrefix_Some: "cutPrefix s p = Some r \<longleftrightarrow> s = p @ r"
proof
  assume "cutPrefix s p = Some r"
  then have "take (length p) s = p" and "r = drop (length p) s"
    by (auto simp: cutPrefix_def hasPrefix_def split: if_splits)
  then show "s = p @ r" by (metis append_take_drop_id)
qed (simp add: cutPrefix_def hasPrefix_def)

lemma cutAt_Some: "cutAt s c = Some (a, b) \<Longrightarrow> s = a @ c # b \<and> c \<notin> set a"
  by (induction s arbitrary: a) (auto split: if_splits)

lemma cutAt_append: "c \<notin> set a \<Longrightarrow> cutAt (a @ c # b) c = Some (a, b)"
  by (induction a) auto

text \<open>\<^verbatim>\<open>slices.Index\<close>: the position of the first occurrence, or \<open>-1\<close>.\<close>

fun slicesIndex :: "'a list \<Rightarrow> 'a \<Rightarrow> int" where
  "slicesIndex [] v = -1"
| "slicesIndex (x # xs) v =
     (if x = v then 0 else (let i = slicesIndex xs v in if i < 0 then -1 else i + 1))"

lemma slicesIndex_neg: "slicesIndex xs v < 0 \<longleftrightarrow> v \<notin> set xs"
  by (induction xs) (auto simp: Let_def)

lemma slicesIndex_ge: "-1 \<le> slicesIndex xs v"
  by (induction xs) (auto simp: Let_def)

section \<open>Dynamically typed values\<close>

text \<open>
  A Go \<^verbatim>\<open>float64\<close> is NaN, an infinity, or the dyadic number \<open>m * 2 powr e\<close>.
\<close>

datatype f64 = FNaN | FInf bool | FFin int int

text \<open>
  A triple object is a Go \<^verbatim>\<open>any\<close>. \<open>AOther\<close> is a value of any other dynamic type, by its printed form.
\<close>

datatype any =
    AString string | AInt int | AInt64 int | ABool bool | AFloat64 f64 | ANumber string
  | ANil | AOther string

definition asString :: "any \<Rightarrow> string option" where
  "asString v = (case v of AString s \<Rightarrow> Some s | _ \<Rightarrow> None)"

lemma asString_Some [simp]: "asString v = Some s \<longleftrightarrow> v = AString s"
  by (cases v) (auto simp: asString_def)

lemma asString_AString [simp]: "asString (AString s) = Some s"
  by (simp add: asString_def)

text \<open>Truncation towards zero of a dyadic number.\<close>

definition truncDyadic :: "int \<Rightarrow> int \<Rightarrow> int" where
  "truncDyadic m e =
     (if 0 \<le> e then m * 2 ^ nat e else sgn m * (\<bar>m\<bar> div 2 ^ nat (- e)))"

definition integralDyadic :: "int \<Rightarrow> int \<Rightarrow> bool" where
  "integralDyadic m e = (0 \<le> e \<or> 2 ^ nat (- e) dvd m)"

text \<open>
  \<^verbatim>\<open>value == float64(int(value))\<close> together with \<^verbatim>\<open>int(value)\<close>. Inside the 64-bit range the
  conversion truncates and the way back is exact, so the comparison holds for whole numbers only.
  Outside it Go leaves the conversion to the platform; this is the amd64 answer, the smallest
  integer, which differs from the value.
\<close>

definition floatToInt :: "f64 \<Rightarrow> int option" where
  "floatToInt v =
     (case v of
        FFin m e \<Rightarrow>
          (let t = truncDyadic m e in
           if integralDyadic m e \<and> - (2 ^ 63) \<le> t \<and> t < 2 ^ 63 then Some t else None)
      | _ \<Rightarrow> None)"

text \<open>\<^verbatim>\<open>json.Number.Int64\<close>, that is \<^verbatim>\<open>strconv.ParseInt\<close> in base 10 and 64 bits.\<close>

definition digitVal :: "char \<Rightarrow> int option" where
  "digitVal c =
     (let n = (of_char c :: int) in if 48 \<le> n \<and> n \<le> 57 then Some (n - 48) else None)"

fun parseDigits :: "int \<Rightarrow> string \<Rightarrow> int option" where
  "parseDigits acc [] = Some acc"
| "parseDigits acc (c # cs) =
     (case digitVal c of None \<Rightarrow> None | Some d \<Rightarrow> parseDigits (10 * acc + d) cs)"

definition parseInt64 :: "string \<Rightarrow> int option" where
  "parseInt64 s =
     (let (neg, ds) =
        (case s of c # cs \<Rightarrow> if c = CHR ''-'' then (True, cs)
                           else if c = CHR ''+'' then (False, cs) else (False, s)
         | [] \<Rightarrow> (False, [])) in
      if ds = [] then None
      else (case parseDigits 0 ds of None \<Rightarrow> None
            | Some n \<Rightarrow> (let v = (if neg then - n else n) in
                if - (2 ^ 63) \<le> v \<and> v < 2 ^ 63 then Some v else None)))"

section \<open>Graph records\<close>

text \<open>
  The records of the SemStreams graph, with the fields the program reads or writes. Time is an
  integer count of instants with Go's zero time at \<open>0\<close>.
\<close>

type_synonym time = int

definition time_IsZero :: "time \<Rightarrow> bool" where
  "time_IsZero t = (t = 0)"

record Triple =
  trSubject :: string
  trPredicate :: string
  trObject :: any
  trSource :: string
  trTimestamp :: time
  trConfidence :: f64
  trContext :: string
  trDatatype :: string
  trExpiresAt :: "time option"

record MessageType =
  mtDomain :: string
  mtCategory :: string
  mtVersion :: string

record EntityState =
  esID :: string
  esMessageType :: MessageType
  esVersion :: nat
  esUpdatedAt :: time
  esStorageRef :: "(string \<times> string) option"
  esTriples :: "Triple list"

definition triplesFor :: "EntityState \<Rightarrow> string \<Rightarrow> Triple list" where
  "triplesFor st p = filter (\<lambda>t. trPredicate t = p) (esTriples st)"

text \<open>
  The loop \<^verbatim>\<open>for _, triple := range state.Triples { if triple.Predicate == p { out = append(out,
  triple.Object) } }\<close> that several components repeat.
\<close>

fun objectsIn :: "Triple list \<Rightarrow> string \<Rightarrow> any list" where
  "objectsIn [] p = []"
| "objectsIn (t # ts) p =
     (if trPredicate t = p then trObject t # objectsIn ts p else objectsIn ts p)"

lemma objectsIn_append [simp]: "objectsIn (xs @ ys) p = objectsIn xs p @ objectsIn ys p"
  by (induction xs) auto

lemma objectsIn_filter: "objectsIn ts p = map trObject (filter (\<lambda>t. trPredicate t = p) ts)"
  by (induction ts) auto

section \<open>White space\<close>

text \<open>
  The UTF-8 encodings of the characters with Unicode's White Space property: no encoding is a prefix
  or a suffix of another, so removing the one that matches is what decoding rune by rune does.
\<close>

definition spaceRunes :: "string list" where
  "spaceRunes =
     [[CHR 0x09], [CHR 0x0A], [CHR 0x0B], [CHR 0x0C], [CHR 0x0D], [CHR 0x20],
      [CHR 0xC2, CHR 0x85], [CHR 0xC2, CHR 0xA0], [CHR 0xE1, CHR 0x9A, CHR 0x80],
      [CHR 0xE2, CHR 0x80, CHR 0x80], [CHR 0xE2, CHR 0x80, CHR 0x81],
      [CHR 0xE2, CHR 0x80, CHR 0x82], [CHR 0xE2, CHR 0x80, CHR 0x83],
      [CHR 0xE2, CHR 0x80, CHR 0x84], [CHR 0xE2, CHR 0x80, CHR 0x85],
      [CHR 0xE2, CHR 0x80, CHR 0x86], [CHR 0xE2, CHR 0x80, CHR 0x87],
      [CHR 0xE2, CHR 0x80, CHR 0x88], [CHR 0xE2, CHR 0x80, CHR 0x89],
      [CHR 0xE2, CHR 0x80, CHR 0x8A], [CHR 0xE2, CHR 0x80, CHR 0xA8],
      [CHR 0xE2, CHR 0x80, CHR 0xA9], [CHR 0xE2, CHR 0x80, CHR 0xAF],
      [CHR 0xE2, CHR 0x81, CHR 0x9F], [CHR 0xE3, CHR 0x80, CHR 0x80]]"

text \<open>Every encoding is at least one byte long, so the length of the text is enough fuel.\<close>

fun dropRunes :: "string list \<Rightarrow> nat \<Rightarrow> string \<Rightarrow> string" where
  "dropRunes rs 0 s = s"
| "dropRunes rs (Suc n) s =
     (case List.find (\<lambda>r. take (length r) s = r) rs of
        None \<Rightarrow> s
      | Some r \<Rightarrow> dropRunes rs n (drop (length r) s))"

definition trimLeftSpace :: "string \<Rightarrow> string" where
  "trimLeftSpace s = dropRunes spaceRunes (length s) s"

definition trimRightSpace :: "string \<Rightarrow> string" where
  "trimRightSpace s = rev (dropRunes (map rev spaceRunes) (length s) (rev s))"

definition TrimSpace :: "string \<Rightarrow> string" where
  "TrimSpace s = trimRightSpace (trimLeftSpace s)"

section \<open>Sums and maps\<close>

lemma map_sum_eq_Inr [simp]: "map_sum f g r = Inr y \<longleftrightarrow> (\<exists>x. r = Inr x \<and> y = g x)"
  by (cases r) auto

lemma map_sum_id2 [simp]: "map_sum f id r = Inr y \<longleftrightarrow> r = Inr y"
  by (cases r) auto

lemma map_le_Some: "m \<subseteq>\<^sub>m m' \<Longrightarrow> m i = Some a \<Longrightarrow> m' i = Some a"
  by (metis domI map_le_def)

section \<open>State and errors\<close>

text \<open>
  A call that reads or writes the world returns its result and the world after it, also when it
  fails.
\<close>

type_synonym ('w, 'e, 'a) ME = "'w \<Rightarrow> ('e + 'a) \<times> 'w"

type_synonym ('w, 'a) M = "('w, gerror, 'a) ME"

definition ret :: "'a \<Rightarrow> ('w, 'e, 'a) ME" where
  "ret x = (\<lambda>w. (Inr x, w))"

definition throw :: "'e \<Rightarrow> ('w, 'e, 'a) ME" where
  "throw e = (\<lambda>w. (Inl e, w))"

definition liftR :: "'e + 'a \<Rightarrow> ('w, 'e, 'a) ME" where
  "liftR r = (\<lambda>w. (r, w))"

definition bindM :: "('w, 'e, 'a) ME \<Rightarrow> ('a \<Rightarrow> ('w, 'e, 'b) ME) \<Rightarrow> ('w, 'e, 'b) ME" where
  "bindM m f = (\<lambda>w. case m w of (Inl e, w') \<Rightarrow> (Inl e, w') | (Inr x, w') \<Rightarrow> f x w')"

text \<open>\<open>tryM\<close> hands the error to the continuation, for code that inspects it.\<close>

definition tryM :: "('w, 'e, 'a) ME \<Rightarrow> ('e + 'a \<Rightarrow> ('w, 'f, 'b) ME) \<Rightarrow> ('w, 'f, 'b) ME" where
  "tryM m f = (\<lambda>w. case m w of (r, w') \<Rightarrow> f r w')"

definition mapErr :: "('e \<Rightarrow> 'f) \<Rightarrow> ('w, 'e, 'a) ME \<Rightarrow> ('w, 'f, 'a) ME" where
  "mapErr g m = (\<lambda>w. case m w of (Inl e, w') \<Rightarrow> (Inl (g e), w') | (Inr x, w') \<Rightarrow> (Inr x, w'))"

definition checkM :: "'e option \<Rightarrow> ('w, 'e, 'b) ME \<Rightarrow> ('w, 'e, 'b) ME" where
  "checkM r m = (case r of Some e \<Rightarrow> throw e | None \<Rightarrow> m)"

lemmas M_defs = ret_def throw_def liftR_def bindM_def tryM_def mapErr_def checkM_def

lemma ret_eq [simp]: "ret x w = (r, w') \<longleftrightarrow> r = Inr x \<and> w' = w"
  by (auto simp: ret_def)

lemma throw_eq [simp]: "throw e w = (r, w') \<longleftrightarrow> r = Inl e \<and> w' = w"
  by (auto simp: throw_def)

lemma liftR_eq [simp]: "liftR q w = (r, w') \<longleftrightarrow> q = r \<and> w' = w"
  by (auto simp: liftR_def)

lemma bindM_Inr:
  "bindM m f w = (Inr y, w') \<longleftrightarrow> (\<exists>x w1. m w = (Inr x, w1) \<and> f x w1 = (Inr y, w'))"
  by (auto simp: bindM_def split: prod.splits sum.splits)

lemma bindM_Inl:
  "bindM m f w = (Inl e, w') \<longleftrightarrow>
     m w = (Inl e, w') \<or> (\<exists>x w1. m w = (Inr x, w1) \<and> f x w1 = (Inl e, w'))"
  by (auto simp: bindM_def split: prod.splits sum.splits)

lemma tryM_eq: "tryM m f w = (r, w') \<longleftrightarrow> (\<exists>q w1. m w = (q, w1) \<and> f q w1 = (r, w'))"
  by (auto simp: tryM_def split: prod.splits)

lemma tryM_cases:
  assumes "tryM m f w = (r, w')"
  obtains (Inl) e w1 where "m w = (Inl e, w1)" "f (Inl e) w1 = (r, w')"
  | (Inr) x w1 where "m w = (Inr x, w1)" "f (Inr x) w1 = (r, w')"
proof -
  obtain q w1 where "m w = (q, w1)" "f q w1 = (r, w')" using assms by (auto simp: tryM_eq)
  then show thesis using that by (cases q) auto
qed

lemma bindM_cases:
  assumes "bindM m f w = (r, w')"
  obtains (Inl) e where "m w = (Inl e, w')" "r = Inl e"
  | (Inr) x w1 where "m w = (Inr x, w1)" "f x w1 = (r, w')"
  using assms by (auto simp: bindM_def split: prod.splits sum.splits)

lemma sole_Inr:
  "(case xs of [x] \<Rightarrow> f x | _ \<Rightarrow> throw e) w = (Inr y, w') \<longleftrightarrow> (\<exists>x. xs = [x] \<and> f x w = (Inr y, w'))"
  by (cases xs; cases "tl xs") auto

lemma mapErr_Inr [simp]: "mapErr g m w = (Inr x, w') \<longleftrightarrow> m w = (Inr x, w')"
  by (auto simp: mapErr_def split: prod.splits sum.splits)

lemma mapErr_Inl: "mapErr g m w = (Inl e, w') \<longleftrightarrow> (\<exists>e0. m w = (Inl e0, w') \<and> e = g e0)"
  by (auto simp: mapErr_def split: prod.splits sum.splits)

lemma checkM_simps [simp]: "checkM None m = m" "checkM (Some e) m = throw e"
  by (simp_all add: checkM_def)

lemma checkM_eq:
  "checkM c m w = (r, w') \<longleftrightarrow>
     (\<exists>e. c = Some e \<and> r = Inl e \<and> w' = w) \<or> (c = None \<and> m w = (r, w'))"
  by (cases c) auto

text \<open>
  A property of the world that a call keeps, whatever it returns. \<open>keeps I m\<close> is closed under
  the combinators, which is how the frame lemmas of the components are proved.
\<close>

definition keeps :: "('w \<Rightarrow> 'w \<Rightarrow> bool) \<Rightarrow> ('w, 'e, 'a) ME \<Rightarrow> bool" where
  "keeps R m = (\<forall>w r w'. m w = (r, w') \<longrightarrow> R w w')"

lemma keepsD: "keeps R m \<Longrightarrow> m w = (r, w') \<Longrightarrow> R w w'"
  by (auto simp: keeps_def)

lemma keeps_pure [intro]:
  assumes "reflp R"
  shows "keeps R (ret x)" "keeps R (throw e)" "keeps R (liftR q)"
  using assms by (auto simp: keeps_def reflp_def)

lemma keeps_bindM [intro]:
  assumes "transp R" "keeps R m" "\<And>x. keeps R (f x)"
  shows "keeps R (bindM m f)"
  using assms unfolding keeps_def bindM_def transp_def
  by (fastforce split: prod.splits sum.splits)

lemma keeps_tryM [intro]:
  assumes "transp R" "keeps R m" "\<And>x. keeps R (f x)"
  shows "keeps R (tryM m f)"
  using assms unfolding keeps_def tryM_def transp_def by (fastforce split: prod.splits)

lemma keeps_mapErr [intro]: "keeps R m \<Longrightarrow> keeps R (mapErr g m)"
  unfolding keeps_def mapErr_def by (fastforce split: prod.splits sum.splits)

lemma keeps_checkM [intro]: "reflp R \<Longrightarrow> keeps R m \<Longrightarrow> keeps R (checkM c m)"
  by (cases c) auto

end
