(* ===== verification/Vocab_Enums.thy ===== *)
theory Vocab_Enums
  imports Prelude
begin

text \<open>
  The closed vocabularies of \<^verbatim>\<open>internal/vocabulary\<close>: the generic \<^verbatim>\<open>enum\<close> of
  \<^verbatim>\<open>enum.go\<close> and every registered member set (\<^verbatim>\<open>classes.go\<close>, \<^verbatim>\<open>attributes.go\<close>,
  \<^verbatim>\<open>world.go\<close>, \<^verbatim>\<open>failures.go\<close>, \<^verbatim>\<open>authorization.go\<close>, \<^verbatim>\<open>resolution.go\<close>,
  \<^verbatim>\<open>mystery.go\<close>, \<^verbatim>\<open>caseflow.go\<close>). A Go string enumeration stays a string, so the
  values outside the closed set, which the parsers must refuse, are values of the model too.
  The locale \<open>closed_enum\<close> states what a member set owes its clients and is interpreted on
  each of the registered sets.
\<close>

section \<open>The generic enumeration\<close>

type_synonym Kind = string

record enum =
  en_k :: Kind
  en_values :: "string list"

definition newEnum :: "Kind \<Rightarrow> string list \<Rightarrow> enum" where
  "newEnum k values = \<lparr>en_k = k, en_values = values\<rparr>"

definition enum_all :: "enum \<Rightarrow> string list" where
  "enum_all e = en_values e"

definition enum_valid :: "enum \<Rightarrow> string \<Rightarrow> bool" where
  "enum_valid e v = List.member (en_values e) v"

definition enum_strings :: "enum \<Rightarrow> string list" where
  "enum_strings e = map (\<lambda>v. v) (en_values e)"

definition enum_parse :: "enum \<Rightarrow> string \<Rightarrow> gerror + string" where
  "enum_parse e s =
     (if enum_valid e s then Inr s else Inl (UnknownValueError (en_k e) s (enum_strings e)))"

definition enum_kind :: "enum \<Rightarrow> Kind" where
  "enum_kind e = en_k e"

definition KindPlausibility :: Kind where [vocab_strings]: "KindPlausibility = ''plausibility''"
definition KindRisk :: Kind where [vocab_strings]: "KindRisk = ''risk''"
definition KindConsequence :: Kind where [vocab_strings]: "KindConsequence = ''consequence''"
definition KindOutcomeBand :: Kind where [vocab_strings]: "KindOutcomeBand = ''outcome_band''"
definition KindModifierSource :: Kind where [vocab_strings]: "KindModifierSource = ''modifier_source''"
definition KindEffectType :: Kind where [vocab_strings]: "KindEffectType = ''effect_type''"
definition KindStatus :: Kind where [vocab_strings]: "KindStatus = ''status''"
definition KindAttribute :: Kind where [vocab_strings]: "KindAttribute = ''attribute''"
definition KindRelation :: Kind where [vocab_strings]: "KindRelation = ''relation''"
definition KindEntityKind :: Kind where [vocab_strings]: "KindEntityKind = ''entity_kind''"
definition KindTurnPhase :: Kind where [vocab_strings]: "KindTurnPhase = ''turn_phase''"
definition KindChannelAdapter :: Kind where [vocab_strings]: "KindChannelAdapter = ''channel_adapter''"
definition KindMechanic :: Kind where [vocab_strings]: "KindMechanic = ''mechanic''"
definition KindRNG :: Kind where [vocab_strings]: "KindRNG = ''rng''"
definition KindFailureReason :: Kind where [vocab_strings]: "KindFailureReason = ''failure_reason''"
definition KindAuthorizationReason :: Kind where [vocab_strings]: "KindAuthorizationReason = ''authorization_reason''"
definition KindRollGateMapping :: Kind where [vocab_strings]: "KindRollGateMapping = ''roll_gate_mapping''"
definition KindEvidenceTruthStatus :: Kind where [vocab_strings]: "KindEvidenceTruthStatus = ''evidence_truth_status''"
definition KindEvidenceRevealKind :: Kind where [vocab_strings]: "KindEvidenceRevealKind = ''evidence_reveal_kind''"
definition KindBeliefStance :: Kind where [vocab_strings]: "KindBeliefStance = ''belief_stance''"
definition KindCompanionPolicy :: Kind where [vocab_strings]: "KindCompanionPolicy = ''companion_policy''"
definition KindHintLevel :: Kind where [vocab_strings]: "KindHintLevel = ''hint_level''"
definition KindCompanionTrigger :: Kind where [vocab_strings]: "KindCompanionTrigger = ''companion_trigger''"
definition KindCompanionTriggerSource :: Kind where [vocab_strings]: "KindCompanionTriggerSource = ''companion_trigger_source''"
definition KindCasePhase :: Kind where [vocab_strings]: "KindCasePhase = ''case_phase''"
definition KindCaseLifecycleEventKind :: Kind where [vocab_strings]: "KindCaseLifecycleEventKind = ''case_lifecycle_event_kind''"

section \<open>The registered member sets\<close>

subsection \<open>\<^verbatim>\<open>Plausibility\<close>\<close>

type_synonym Plausibility = string

definition PlausibilityImpossible :: Plausibility where [vocab_strings]: "PlausibilityImpossible = ''impossible''"
definition PlausibilityUnlikely :: Plausibility where [vocab_strings]: "PlausibilityUnlikely = ''unlikely''"
definition PlausibilityPlausible :: Plausibility where [vocab_strings]: "PlausibilityPlausible = ''plausible''"
definition PlausibilityCertain :: Plausibility where [vocab_strings]: "PlausibilityCertain = ''certain''"

definition plausibilityEnum :: enum where
  "plausibilityEnum = newEnum KindPlausibility
    [
      PlausibilityImpossible, PlausibilityUnlikely, PlausibilityPlausible,
      PlausibilityCertain]"

definition Plausibilities :: "Plausibility list" where
  "Plausibilities = enum_all plausibilityEnum"

definition Plausibility_Valid :: "Plausibility \<Rightarrow> bool" where
  "Plausibility_Valid v = enum_valid plausibilityEnum v"

definition ParsePlausibility :: "string \<Rightarrow> gerror + Plausibility" where
  "ParsePlausibility s = enum_parse plausibilityEnum s"

subsection \<open>\<^verbatim>\<open>Risk\<close>\<close>

type_synonym Risk = string

definition RiskNone :: Risk where [vocab_strings]: "RiskNone = ''none''"
definition RiskLow :: Risk where [vocab_strings]: "RiskLow = ''low''"
definition RiskModerate :: Risk where [vocab_strings]: "RiskModerate = ''moderate''"
definition RiskHigh :: Risk where [vocab_strings]: "RiskHigh = ''high''"

definition riskEnum :: enum where
  "riskEnum = newEnum KindRisk
    [
      RiskNone, RiskLow, RiskModerate, RiskHigh]"

definition Risks :: "Risk list" where
  "Risks = enum_all riskEnum"

definition Risk_Valid :: "Risk \<Rightarrow> bool" where
  "Risk_Valid v = enum_valid riskEnum v"

definition ParseRisk :: "string \<Rightarrow> gerror + Risk" where
  "ParseRisk s = enum_parse riskEnum s"

subsection \<open>\<^verbatim>\<open>ConsequenceClass\<close>\<close>

type_synonym ConsequenceClass = string

definition ConsequenceNone :: ConsequenceClass where [vocab_strings]: "ConsequenceNone = ''none''"
definition ConsequenceSetback :: ConsequenceClass where [vocab_strings]: "ConsequenceSetback = ''setback''"
definition ConsequenceHarm :: ConsequenceClass where [vocab_strings]: "ConsequenceHarm = ''harm''"
definition ConsequenceCost :: ConsequenceClass where [vocab_strings]: "ConsequenceCost = ''cost''"
definition ConsequenceComplication :: ConsequenceClass where [vocab_strings]: "ConsequenceComplication = ''complication''"
definition ConsequenceEscalation :: ConsequenceClass where [vocab_strings]: "ConsequenceEscalation = ''escalation''"

definition consequenceEnum :: enum where
  "consequenceEnum = newEnum KindConsequence
    [
      ConsequenceNone, ConsequenceSetback, ConsequenceHarm, ConsequenceCost,
      ConsequenceComplication, ConsequenceEscalation]"

definition Consequences :: "ConsequenceClass list" where
  "Consequences = enum_all consequenceEnum"

definition ConsequenceClass_Valid :: "ConsequenceClass \<Rightarrow> bool" where
  "ConsequenceClass_Valid v = enum_valid consequenceEnum v"

definition ParseConsequence :: "string \<Rightarrow> gerror + ConsequenceClass" where
  "ParseConsequence s = enum_parse consequenceEnum s"

subsection \<open>\<^verbatim>\<open>OutcomeBand\<close>\<close>

type_synonym OutcomeBand = string

definition BandAuto :: OutcomeBand where [vocab_strings]: "BandAuto = ''auto''"
definition BandMiss :: OutcomeBand where [vocab_strings]: "BandMiss = ''miss''"
definition BandPartial :: OutcomeBand where [vocab_strings]: "BandPartial = ''partial''"
definition BandFull :: OutcomeBand where [vocab_strings]: "BandFull = ''full''"

definition outcomeBandEnum :: enum where
  "outcomeBandEnum = newEnum KindOutcomeBand
    [
      BandAuto, BandMiss, BandPartial, BandFull]"

definition OutcomeBands :: "OutcomeBand list" where
  "OutcomeBands = enum_all outcomeBandEnum"

definition OutcomeBand_Valid :: "OutcomeBand \<Rightarrow> bool" where
  "OutcomeBand_Valid v = enum_valid outcomeBandEnum v"

definition ParseOutcomeBand :: "string \<Rightarrow> gerror + OutcomeBand" where
  "ParseOutcomeBand s = enum_parse outcomeBandEnum s"

subsection \<open>\<^verbatim>\<open>ModifierSource\<close>\<close>

type_synonym ModifierSource = string

definition ModifierTrait :: ModifierSource where [vocab_strings]: "ModifierTrait = ''trait''"
definition ModifierEquipment :: ModifierSource where [vocab_strings]: "ModifierEquipment = ''equipment''"
definition ModifierPosition :: ModifierSource where [vocab_strings]: "ModifierPosition = ''position''"
definition ModifierAssistance :: ModifierSource where [vocab_strings]: "ModifierAssistance = ''assistance''"
definition ModifierCondition :: ModifierSource where [vocab_strings]: "ModifierCondition = ''condition''"

definition modifierSourceEnum :: enum where
  "modifierSourceEnum = newEnum KindModifierSource
    [
      ModifierTrait, ModifierEquipment, ModifierPosition, ModifierAssistance,
      ModifierCondition]"

definition ModifierSources :: "ModifierSource list" where
  "ModifierSources = enum_all modifierSourceEnum"

definition ModifierSource_Valid :: "ModifierSource \<Rightarrow> bool" where
  "ModifierSource_Valid v = enum_valid modifierSourceEnum v"

definition ParseModifierSource :: "string \<Rightarrow> gerror + ModifierSource" where
  "ParseModifierSource s = enum_parse modifierSourceEnum s"

subsection \<open>\<^verbatim>\<open>EffectType\<close>\<close>

type_synonym EffectType = string

definition EffectSetAttribute :: EffectType where [vocab_strings]: "EffectSetAttribute = ''set_attribute''"
definition EffectMoveEntity :: EffectType where [vocab_strings]: "EffectMoveEntity = ''move_entity''"
definition EffectAddRelationship :: EffectType where [vocab_strings]: "EffectAddRelationship = ''add_relationship''"
definition EffectRemoveRelationship :: EffectType where [vocab_strings]: "EffectRemoveRelationship = ''remove_relationship''"
definition EffectSetStatus :: EffectType where [vocab_strings]: "EffectSetStatus = ''set_status''"

definition effectTypeEnum :: enum where
  "effectTypeEnum = newEnum KindEffectType
    [
      EffectSetAttribute, EffectMoveEntity, EffectAddRelationship,
      EffectRemoveRelationship, EffectSetStatus]"

definition EffectTypes :: "EffectType list" where
  "EffectTypes = enum_all effectTypeEnum"

definition EffectType_Valid :: "EffectType \<Rightarrow> bool" where
  "EffectType_Valid v = enum_valid effectTypeEnum v"

definition ParseEffectType :: "string \<Rightarrow> gerror + EffectType" where
  "ParseEffectType s = enum_parse effectTypeEnum s"

subsection \<open>\<^verbatim>\<open>Status\<close>\<close>

type_synonym Status = string

definition StatusHealthy :: Status where [vocab_strings]: "StatusHealthy = ''healthy''"
definition StatusWounded :: Status where [vocab_strings]: "StatusWounded = ''wounded''"
definition StatusExhausted :: Status where [vocab_strings]: "StatusExhausted = ''exhausted''"
definition StatusFrightened :: Status where [vocab_strings]: "StatusFrightened = ''frightened''"
definition StatusHidden :: Status where [vocab_strings]: "StatusHidden = ''hidden''"
definition StatusRestrained :: Status where [vocab_strings]: "StatusRestrained = ''restrained''"
definition StatusUnconscious :: Status where [vocab_strings]: "StatusUnconscious = ''unconscious''"
definition StatusDead :: Status where [vocab_strings]: "StatusDead = ''dead''"

definition statusEnum :: enum where
  "statusEnum = newEnum KindStatus
    [
      StatusHealthy, StatusWounded, StatusExhausted, StatusFrightened,
      StatusHidden, StatusRestrained, StatusUnconscious, StatusDead]"

definition Statuses :: "Status list" where
  "Statuses = enum_all statusEnum"

definition Status_Valid :: "Status \<Rightarrow> bool" where
  "Status_Valid v = enum_valid statusEnum v"

definition ParseStatus :: "string \<Rightarrow> gerror + Status" where
  "ParseStatus s = enum_parse statusEnum s"

subsection \<open>\<^verbatim>\<open>TurnPhase\<close>\<close>

type_synonym TurnPhase = string

definition PhaseAccepted :: TurnPhase where [vocab_strings]: "PhaseAccepted = ''accepted''"
definition PhaseInterpreting :: TurnPhase where [vocab_strings]: "PhaseInterpreting = ''interpreting''"
definition PhaseAdjudicating :: TurnPhase where [vocab_strings]: "PhaseAdjudicating = ''adjudicating''"
definition PhaseResolving :: TurnPhase where [vocab_strings]: "PhaseResolving = ''resolving''"
definition PhaseApplying :: TurnPhase where [vocab_strings]: "PhaseApplying = ''applying''"
definition PhaseCompanion :: TurnPhase where [vocab_strings]: "PhaseCompanion = ''companion''"
definition PhaseNarrating :: TurnPhase where [vocab_strings]: "PhaseNarrating = ''narrating''"
definition PhaseComplete :: TurnPhase where [vocab_strings]: "PhaseComplete = ''complete''"
definition PhaseFailed :: TurnPhase where [vocab_strings]: "PhaseFailed = ''failed''"

definition turnPhaseEnum :: enum where
  "turnPhaseEnum = newEnum KindTurnPhase
    [
      PhaseAccepted, PhaseInterpreting, PhaseAdjudicating, PhaseResolving,
      PhaseApplying, PhaseCompanion, PhaseNarrating, PhaseComplete, PhaseFailed]"

definition TurnPhases :: "TurnPhase list" where
  "TurnPhases = enum_all turnPhaseEnum"

definition TurnPhase_Valid :: "TurnPhase \<Rightarrow> bool" where
  "TurnPhase_Valid v = enum_valid turnPhaseEnum v"

definition ParseTurnPhase :: "string \<Rightarrow> gerror + TurnPhase" where
  "ParseTurnPhase s = enum_parse turnPhaseEnum s"

subsection \<open>\<^verbatim>\<open>ChannelAdapter\<close>\<close>

type_synonym ChannelAdapter = string

definition AdapterWebSocket :: ChannelAdapter where [vocab_strings]: "AdapterWebSocket = ''websocket''"

definition channelAdapterEnum :: enum where
  "channelAdapterEnum = newEnum KindChannelAdapter
    [
      AdapterWebSocket]"

definition ChannelAdapters :: "ChannelAdapter list" where
  "ChannelAdapters = enum_all channelAdapterEnum"

definition ChannelAdapter_Valid :: "ChannelAdapter \<Rightarrow> bool" where
  "ChannelAdapter_Valid v = enum_valid channelAdapterEnum v"

definition ParseChannelAdapter :: "string \<Rightarrow> gerror + ChannelAdapter" where
  "ParseChannelAdapter s = enum_parse channelAdapterEnum s"

subsection \<open>\<^verbatim>\<open>Mechanic\<close>\<close>

type_synonym Mechanic = string

definition Mechanic2d6PbtaV1 :: Mechanic where [vocab_strings]: "Mechanic2d6PbtaV1 = ''2d6-pbta/v1''"

definition mechanicEnum :: enum where
  "mechanicEnum = newEnum KindMechanic
    [
      Mechanic2d6PbtaV1]"

definition Mechanics :: "Mechanic list" where
  "Mechanics = enum_all mechanicEnum"

definition Mechanic_Valid :: "Mechanic \<Rightarrow> bool" where
  "Mechanic_Valid v = enum_valid mechanicEnum v"

definition ParseMechanic :: "string \<Rightarrow> gerror + Mechanic" where
  "ParseMechanic s = enum_parse mechanicEnum s"

subsection \<open>\<^verbatim>\<open>RNG\<close>\<close>

type_synonym RNG = string

definition RNGPCGV1 :: RNG where [vocab_strings]: "RNGPCGV1 = ''pcg/v1''"

definition rngEnum :: enum where
  "rngEnum = newEnum KindRNG
    [
      RNGPCGV1]"

definition RNGs :: "RNG list" where
  "RNGs = enum_all rngEnum"

definition RNG_Valid :: "RNG \<Rightarrow> bool" where
  "RNG_Valid v = enum_valid rngEnum v"

definition ParseRNG :: "string \<Rightarrow> gerror + RNG" where
  "ParseRNG s = enum_parse rngEnum s"

subsection \<open>\<^verbatim>\<open>Attribute\<close>\<close>

type_synonym Attribute = string

definition AttributeHealth :: Attribute where [vocab_strings]: "AttributeHealth = ''health''"
definition AttributeStamina :: Attribute where [vocab_strings]: "AttributeStamina = ''stamina''"
definition AttributeResolve :: Attribute where [vocab_strings]: "AttributeResolve = ''resolve''"
definition AttributeQuantity :: Attribute where [vocab_strings]: "AttributeQuantity = ''quantity''"
definition AttributeTension :: Attribute where [vocab_strings]: "AttributeTension = ''tension''"

definition attributeEnum :: enum where
  "attributeEnum = newEnum KindAttribute
    [
      AttributeHealth, AttributeStamina, AttributeResolve, AttributeQuantity,
      AttributeTension]"

definition Attributes :: "Attribute list" where
  "Attributes = enum_all attributeEnum"

definition Attribute_Valid :: "Attribute \<Rightarrow> bool" where
  "Attribute_Valid v = enum_valid attributeEnum v"

definition ParseAttribute :: "string \<Rightarrow> gerror + Attribute" where
  "ParseAttribute s = enum_parse attributeEnum s"

subsection \<open>\<^verbatim>\<open>Relation\<close>\<close>

type_synonym Relation = string

definition RelationAlliedWith :: Relation where [vocab_strings]: "RelationAlliedWith = ''allied-with''"
definition RelationHostileTo :: Relation where [vocab_strings]: "RelationHostileTo = ''hostile-to''"
definition RelationKnows :: Relation where [vocab_strings]: "RelationKnows = ''knows''"
definition RelationCarries :: Relation where [vocab_strings]: "RelationCarries = ''carries''"
definition RelationOwesDebt :: Relation where [vocab_strings]: "RelationOwesDebt = ''owes-debt''"

definition relationEnum :: enum where
  "relationEnum = newEnum KindRelation
    [
      RelationAlliedWith, RelationHostileTo, RelationKnows, RelationCarries,
      RelationOwesDebt]"

definition Relations :: "Relation list" where
  "Relations = enum_all relationEnum"

definition Relation_Valid :: "Relation \<Rightarrow> bool" where
  "Relation_Valid v = enum_valid relationEnum v"

definition ParseRelation :: "string \<Rightarrow> gerror + Relation" where
  "ParseRelation s = enum_parse relationEnum s"

subsection \<open>\<^verbatim>\<open>EntityKind\<close>\<close>

type_synonym EntityKind = string

definition EntityKindCharacter :: EntityKind where [vocab_strings]: "EntityKindCharacter = ''character''"
definition EntityKindItem :: EntityKind where [vocab_strings]: "EntityKindItem = ''item''"
definition EntityKindScene :: EntityKind where [vocab_strings]: "EntityKindScene = ''scene''"
definition EntityKindLocation :: EntityKind where [vocab_strings]: "EntityKindLocation = ''location''"
definition EntityKindPlayer :: EntityKind where [vocab_strings]: "EntityKindPlayer = ''player''"
definition EntityKindCase :: EntityKind where [vocab_strings]: "EntityKindCase = ''case''"
definition EntityKindEvidence :: EntityKind where [vocab_strings]: "EntityKindEvidence = ''evidence''"
definition EntityKindEvent :: EntityKind where [vocab_strings]: "EntityKindEvent = ''event''"
definition EntityKindBelief :: EntityKind where [vocab_strings]: "EntityKindBelief = ''belief''"
definition EntityKindKnowledge :: EntityKind where [vocab_strings]: "EntityKindKnowledge = ''knowledge''"
definition EntityKindRevelation :: EntityKind where [vocab_strings]: "EntityKindRevelation = ''revelation''"
definition EntityKindCompanionBond :: EntityKind where [vocab_strings]: "EntityKindCompanionBond = ''companion-bond''"

definition entityKindEnum :: enum where
  "entityKindEnum = newEnum KindEntityKind
    [
      EntityKindCharacter, EntityKindItem, EntityKindScene, EntityKindLocation,
      EntityKindPlayer, EntityKindCase, EntityKindEvidence, EntityKindEvent,
      EntityKindBelief, EntityKindKnowledge, EntityKindRevelation,
      EntityKindCompanionBond]"

definition EntityKinds :: "EntityKind list" where
  "EntityKinds = enum_all entityKindEnum"

definition EntityKind_Valid :: "EntityKind \<Rightarrow> bool" where
  "EntityKind_Valid v = enum_valid entityKindEnum v"

definition ParseEntityKind :: "string \<Rightarrow> gerror + EntityKind" where
  "ParseEntityKind s = enum_parse entityKindEnum s"

subsection \<open>\<^verbatim>\<open>FailureReason\<close>\<close>

type_synonym FailureReason = string

definition FailureEffectInvalid :: FailureReason where [vocab_strings]: "FailureEffectInvalid = ''effect-invalid''"
definition FailureEffectEntityMissing :: FailureReason where [vocab_strings]: "FailureEffectEntityMissing = ''effect-entity-missing''"
definition FailureEffectEntityKind :: FailureReason where [vocab_strings]: "FailureEffectEntityKind = ''effect-entity-kind''"
definition FailureEffectCommitIncomplete :: FailureReason where [vocab_strings]: "FailureEffectCommitIncomplete = ''effect-commit-incomplete''"
definition FailurePersonaCapExhausted :: FailureReason where [vocab_strings]: "FailurePersonaCapExhausted = ''persona-cap-exhausted''"
definition FailurePersonaLoopFailed :: FailureReason where [vocab_strings]: "FailurePersonaLoopFailed = ''persona-loop-failed''"
definition FailureTurnStranded :: FailureReason where [vocab_strings]: "FailureTurnStranded = ''turn-stranded''"
definition FailureKnowledgeUnauthorized :: FailureReason where [vocab_strings]: "FailureKnowledgeUnauthorized = ''knowledge-unauthorized''"
definition FailureAccusationInvalid :: FailureReason where [vocab_strings]: "FailureAccusationInvalid = ''accusation-invalid''"
definition FailureCaseProgressInvalid :: FailureReason where [vocab_strings]: "FailureCaseProgressInvalid = ''case-progress-invalid''"

definition failureReasonEnum :: enum where
  "failureReasonEnum = newEnum KindFailureReason
    [
      FailureEffectInvalid, FailureEffectEntityMissing, FailureEffectEntityKind,
      FailureEffectCommitIncomplete, FailurePersonaCapExhausted,
      FailurePersonaLoopFailed, FailureTurnStranded,
      FailureKnowledgeUnauthorized, FailureAccusationInvalid,
      FailureCaseProgressInvalid]"

definition FailureReasons :: "FailureReason list" where
  "FailureReasons = enum_all failureReasonEnum"

definition FailureReason_Valid :: "FailureReason \<Rightarrow> bool" where
  "FailureReason_Valid v = enum_valid failureReasonEnum v"

definition ParseFailureReason :: "string \<Rightarrow> gerror + FailureReason" where
  "ParseFailureReason s = enum_parse failureReasonEnum s"

subsection \<open>\<^verbatim>\<open>AuthorizationReason\<close>\<close>

type_synonym AuthorizationReason = string

definition AuthorizationWrongTurn :: AuthorizationReason where [vocab_strings]: "AuthorizationWrongTurn = ''wrong-turn''"
definition AuthorizationWrongCase :: AuthorizationReason where [vocab_strings]: "AuthorizationWrongCase = ''wrong-case''"
definition AuthorizationWrongActor :: AuthorizationReason where [vocab_strings]: "AuthorizationWrongActor = ''wrong-actor''"
definition AuthorizationInvalidTarget :: AuthorizationReason where [vocab_strings]: "AuthorizationInvalidTarget = ''invalid-target''"
definition AuthorizationIneligibleReveal :: AuthorizationReason where [vocab_strings]: "AuthorizationIneligibleReveal = ''ineligible-reveal''"
definition AuthorizationIneligiblePhase :: AuthorizationReason where [vocab_strings]: "AuthorizationIneligiblePhase = ''ineligible-phase''"
definition AuthorizationSolutionLocked :: AuthorizationReason where [vocab_strings]: "AuthorizationSolutionLocked = ''solution-locked''"
definition AuthorizationQuestionTargetMismatch :: AuthorizationReason where [vocab_strings]: "AuthorizationQuestionTargetMismatch = ''question-target-mismatch''"
definition AuthorizationShareSourceUnknown :: AuthorizationReason where [vocab_strings]: "AuthorizationShareSourceUnknown = ''share-source-unknown''"
definition AuthorizationShareTargetUnauthorized :: AuthorizationReason where [vocab_strings]: "AuthorizationShareTargetUnauthorized = ''share-target-unauthorized''"
definition AuthorizationWitnessUnauthorized :: AuthorizationReason where [vocab_strings]: "AuthorizationWitnessUnauthorized = ''witness-unauthorized''"
definition AuthorizationUnsupportedKind :: AuthorizationReason where [vocab_strings]: "AuthorizationUnsupportedKind = ''unsupported-kind''"

definition authorizationReasonEnum :: enum where
  "authorizationReasonEnum = newEnum KindAuthorizationReason
    [
      AuthorizationWrongTurn, AuthorizationWrongCase, AuthorizationWrongActor,
      AuthorizationInvalidTarget, AuthorizationIneligibleReveal,
      AuthorizationIneligiblePhase, AuthorizationSolutionLocked,
      AuthorizationQuestionTargetMismatch, AuthorizationShareSourceUnknown,
      AuthorizationShareTargetUnauthorized, AuthorizationWitnessUnauthorized,
      AuthorizationUnsupportedKind]"

definition AuthorizationReasons :: "AuthorizationReason list" where
  "AuthorizationReasons = enum_all authorizationReasonEnum"

definition AuthorizationReason_Valid :: "AuthorizationReason \<Rightarrow> bool" where
  "AuthorizationReason_Valid v = enum_valid authorizationReasonEnum v"

definition ParseAuthorizationReason :: "string \<Rightarrow> gerror + AuthorizationReason" where
  "ParseAuthorizationReason s = enum_parse authorizationReasonEnum s"

subsection \<open>\<^verbatim>\<open>RollGateMapping\<close>\<close>

type_synonym RollGateMapping = string

definition RollGateMappingV1 :: RollGateMapping where [vocab_strings]: "RollGateMappingV1 = ''roll-gate/v1''"

definition rollGateMappingEnum :: enum where
  "rollGateMappingEnum = newEnum KindRollGateMapping
    [
      RollGateMappingV1]"

definition RollGateMappings :: "RollGateMapping list" where
  "RollGateMappings = enum_all rollGateMappingEnum"

definition RollGateMapping_Valid :: "RollGateMapping \<Rightarrow> bool" where
  "RollGateMapping_Valid v = enum_valid rollGateMappingEnum v"

definition ParseRollGateMapping :: "string \<Rightarrow> gerror + RollGateMapping" where
  "ParseRollGateMapping s = enum_parse rollGateMappingEnum s"

subsection \<open>\<^verbatim>\<open>EvidenceTruthStatus\<close>\<close>

type_synonym EvidenceTruthStatus = string

definition EvidenceTruthClue :: EvidenceTruthStatus where [vocab_strings]: "EvidenceTruthClue = ''clue''"
definition EvidenceTruthRedHerring :: EvidenceTruthStatus where [vocab_strings]: "EvidenceTruthRedHerring = ''red-herring''"

definition evidenceTruthStatusEnum :: enum where
  "evidenceTruthStatusEnum = newEnum KindEvidenceTruthStatus
    [
      EvidenceTruthClue, EvidenceTruthRedHerring]"

definition EvidenceTruthStatuses :: "EvidenceTruthStatus list" where
  "EvidenceTruthStatuses = enum_all evidenceTruthStatusEnum"

definition EvidenceTruthStatus_Valid :: "EvidenceTruthStatus \<Rightarrow> bool" where
  "EvidenceTruthStatus_Valid v = enum_valid evidenceTruthStatusEnum v"

definition ParseEvidenceTruthStatus :: "string \<Rightarrow> gerror + EvidenceTruthStatus" where
  "ParseEvidenceTruthStatus s = enum_parse evidenceTruthStatusEnum s"

subsection \<open>\<^verbatim>\<open>EvidenceRevealKind\<close>\<close>

type_synonym EvidenceRevealKind = string

definition EvidenceRevealObserve :: EvidenceRevealKind where [vocab_strings]: "EvidenceRevealObserve = ''observe''"
definition EvidenceRevealInvestigate :: EvidenceRevealKind where [vocab_strings]: "EvidenceRevealInvestigate = ''investigate''"

definition evidenceRevealKindEnum :: enum where
  "evidenceRevealKindEnum = newEnum KindEvidenceRevealKind
    [
      EvidenceRevealObserve, EvidenceRevealInvestigate]"

definition EvidenceRevealKinds :: "EvidenceRevealKind list" where
  "EvidenceRevealKinds = enum_all evidenceRevealKindEnum"

definition EvidenceRevealKind_Valid :: "EvidenceRevealKind \<Rightarrow> bool" where
  "EvidenceRevealKind_Valid v = enum_valid evidenceRevealKindEnum v"

definition ParseEvidenceRevealKind :: "string \<Rightarrow> gerror + EvidenceRevealKind" where
  "ParseEvidenceRevealKind s = enum_parse evidenceRevealKindEnum s"

subsection \<open>\<^verbatim>\<open>BeliefStance\<close>\<close>

type_synonym BeliefStance = string

definition BeliefAffirms :: BeliefStance where [vocab_strings]: "BeliefAffirms = ''affirms''"
definition BeliefDenies :: BeliefStance where [vocab_strings]: "BeliefDenies = ''denies''"
definition BeliefUncertain :: BeliefStance where [vocab_strings]: "BeliefUncertain = ''uncertain''"

definition beliefStanceEnum :: enum where
  "beliefStanceEnum = newEnum KindBeliefStance
    [
      BeliefAffirms, BeliefDenies, BeliefUncertain]"

definition BeliefStances :: "BeliefStance list" where
  "BeliefStances = enum_all beliefStanceEnum"

definition BeliefStance_Valid :: "BeliefStance \<Rightarrow> bool" where
  "BeliefStance_Valid v = enum_valid beliefStanceEnum v"

definition ParseBeliefStance :: "string \<Rightarrow> gerror + BeliefStance" where
  "ParseBeliefStance s = enum_parse beliefStanceEnum s"

subsection \<open>\<^verbatim>\<open>CompanionPolicy\<close>\<close>

type_synonym CompanionPolicy = string

definition CompanionPolicyReactive :: CompanionPolicy where [vocab_strings]: "CompanionPolicyReactive = ''reactive''"
definition CompanionPolicyBoundedInitiative :: CompanionPolicy where [vocab_strings]: "CompanionPolicyBoundedInitiative = ''bounded-initiative''"

definition companionPolicyEnum :: enum where
  "companionPolicyEnum = newEnum KindCompanionPolicy
    [
      CompanionPolicyReactive, CompanionPolicyBoundedInitiative]"

definition CompanionPolicies :: "CompanionPolicy list" where
  "CompanionPolicies = enum_all companionPolicyEnum"

definition CompanionPolicy_Valid :: "CompanionPolicy \<Rightarrow> bool" where
  "CompanionPolicy_Valid v = enum_valid companionPolicyEnum v"

definition ParseCompanionPolicy :: "string \<Rightarrow> gerror + CompanionPolicy" where
  "ParseCompanionPolicy s = enum_parse companionPolicyEnum s"

subsection \<open>\<^verbatim>\<open>HintLevel\<close>\<close>

type_synonym HintLevel = string

definition HintLevelNudge :: HintLevel where [vocab_strings]: "HintLevelNudge = ''nudge''"
definition HintLevelConnect :: HintLevel where [vocab_strings]: "HintLevelConnect = ''connect''"
definition HintLevelNextStep :: HintLevel where [vocab_strings]: "HintLevelNextStep = ''next-step''"

definition hintLevelEnum :: enum where
  "hintLevelEnum = newEnum KindHintLevel
    [
      HintLevelNudge, HintLevelConnect, HintLevelNextStep]"

definition HintLevels :: "HintLevel list" where
  "HintLevels = enum_all hintLevelEnum"

definition HintLevel_Valid :: "HintLevel \<Rightarrow> bool" where
  "HintLevel_Valid v = enum_valid hintLevelEnum v"

definition ParseHintLevel :: "string \<Rightarrow> gerror + HintLevel" where
  "ParseHintLevel s = enum_parse hintLevelEnum s"

subsection \<open>\<^verbatim>\<open>CompanionTriggerKind\<close>\<close>

type_synonym CompanionTriggerKind = string

definition CompanionTriggerNone :: CompanionTriggerKind where [vocab_strings]: "CompanionTriggerNone = ''none''"
definition CompanionTriggerPlayerHint :: CompanionTriggerKind where [vocab_strings]: "CompanionTriggerPlayerHint = ''player-hint''"
definition CompanionTriggerWarning :: CompanionTriggerKind where [vocab_strings]: "CompanionTriggerWarning = ''warning''"

definition companionTriggerEnum :: enum where
  "companionTriggerEnum = newEnum KindCompanionTrigger
    [
      CompanionTriggerNone, CompanionTriggerPlayerHint, CompanionTriggerWarning]"

definition CompanionTriggers :: "CompanionTriggerKind list" where
  "CompanionTriggers = enum_all companionTriggerEnum"

definition ParseCompanionTrigger :: "string \<Rightarrow> gerror + CompanionTriggerKind" where
  "ParseCompanionTrigger s = enum_parse companionTriggerEnum s"

subsection \<open>\<^verbatim>\<open>CompanionTriggerSource\<close>\<close>

type_synonym CompanionTriggerSource = string

definition CompanionTriggerSourceNone :: CompanionTriggerSource where [vocab_strings]: "CompanionTriggerSourceNone = ''none''"
definition CompanionTriggerSourceCaseDecision :: CompanionTriggerSource where [vocab_strings]: "CompanionTriggerSourceCaseDecision = ''case-decision''"
definition CompanionTriggerSourceResolvedRisk :: CompanionTriggerSource where [vocab_strings]: "CompanionTriggerSourceResolvedRisk = ''resolved-risk''"

definition companionTriggerSourceEnum :: enum where
  "companionTriggerSourceEnum = newEnum KindCompanionTriggerSource
    [
      CompanionTriggerSourceNone, CompanionTriggerSourceCaseDecision,
      CompanionTriggerSourceResolvedRisk]"

definition CompanionTriggerSources :: "CompanionTriggerSource list" where
  "CompanionTriggerSources = enum_all companionTriggerSourceEnum"

definition ParseCompanionTriggerSource :: "string \<Rightarrow> gerror + CompanionTriggerSource" where
  "ParseCompanionTriggerSource s = enum_parse companionTriggerSourceEnum s"

subsection \<open>\<^verbatim>\<open>CasePhase\<close>\<close>

type_synonym CasePhase = string

definition CasePhaseColdOpen :: CasePhase where [vocab_strings]: "CasePhaseColdOpen = ''cold_open''"
definition CasePhaseDiscovery :: CasePhase where [vocab_strings]: "CasePhaseDiscovery = ''discovery''"
definition CasePhaseInvestigation :: CasePhase where [vocab_strings]: "CasePhaseInvestigation = ''investigation''"
definition CasePhaseAccusation :: CasePhase where [vocab_strings]: "CasePhaseAccusation = ''accusation''"
definition CasePhaseDenouement :: CasePhase where [vocab_strings]: "CasePhaseDenouement = ''denouement''"

definition casePhaseEnum :: enum where
  "casePhaseEnum = newEnum KindCasePhase
    [
      CasePhaseColdOpen, CasePhaseDiscovery, CasePhaseInvestigation,
      CasePhaseAccusation, CasePhaseDenouement]"

definition CasePhases :: "CasePhase list" where
  "CasePhases = enum_all casePhaseEnum"

definition CasePhase_Valid :: "CasePhase \<Rightarrow> bool" where
  "CasePhase_Valid v = enum_valid casePhaseEnum v"

definition ParseCasePhase :: "string \<Rightarrow> gerror + CasePhase" where
  "ParseCasePhase s = enum_parse casePhaseEnum s"

subsection \<open>\<^verbatim>\<open>CaseLifecycleEventKind\<close>\<close>

type_synonym CaseLifecycleEventKind = string

definition CaseEventBodyObserved :: CaseLifecycleEventKind where [vocab_strings]: "CaseEventBodyObserved = ''body-observed''"
definition CaseEventInvestigationStarted :: CaseLifecycleEventKind where [vocab_strings]: "CaseEventInvestigationStarted = ''investigation-started''"
definition CaseEventAccusationSubmitted :: CaseLifecycleEventKind where [vocab_strings]: "CaseEventAccusationSubmitted = ''accusation-submitted''"
definition CaseEventAccusationCorrect :: CaseLifecycleEventKind where [vocab_strings]: "CaseEventAccusationCorrect = ''accusation-correct''"

definition caseLifecycleEventKindEnum :: enum where
  "caseLifecycleEventKindEnum = newEnum KindCaseLifecycleEventKind
    [
      CaseEventBodyObserved, CaseEventInvestigationStarted,
      CaseEventAccusationSubmitted, CaseEventAccusationCorrect]"

definition CaseLifecycleEventKinds :: "CaseLifecycleEventKind list" where
  "CaseLifecycleEventKinds = enum_all caseLifecycleEventKindEnum"

definition CaseLifecycleEventKind_Valid :: "CaseLifecycleEventKind \<Rightarrow> bool" where
  "CaseLifecycleEventKind_Valid v = enum_valid caseLifecycleEventKindEnum v"

definition ParseCaseLifecycleEventKind :: "string \<Rightarrow> gerror + CaseLifecycleEventKind" where
  "ParseCaseLifecycleEventKind s = enum_parse caseLifecycleEventKindEnum s"

section \<open>The registry of sets\<close>

definition registeredEnums :: "enum list" where
  "registeredEnums = [
      plausibilityEnum, riskEnum, consequenceEnum, outcomeBandEnum,
      modifierSourceEnum, effectTypeEnum, statusEnum, attributeEnum,
      relationEnum, entityKindEnum, turnPhaseEnum, channelAdapterEnum,
      mechanicEnum, rngEnum, failureReasonEnum, authorizationReasonEnum,
      rollGateMappingEnum, evidenceTruthStatusEnum, evidenceRevealKindEnum,
      beliefStanceEnum, companionPolicyEnum, hintLevelEnum,
      companionTriggerEnum, companionTriggerSourceEnum, casePhaseEnum,
      caseLifecycleEventKindEnum]"

text \<open>\<^verbatim>\<open>Sets\<close> builds a Go map: a later set of the same kind would overwrite an earlier one.\<close>

definition Sets :: "Kind \<rightharpoonup> string list" where
  "Sets = foldl (\<lambda>out e. out(enum_kind e \<mapsto> enum_strings e)) Map.empty registeredEnums"

definition Kinds :: "Kind list" where
  "Kinds = map enum_kind registeredEnums"

section \<open>Derived classifications\<close>

definition RollBands :: "OutcomeBand list" where
  "RollBands = [BandMiss, BandPartial, BandFull]"

definition IsRollBand :: "OutcomeBand \<Rightarrow> bool" where
  "IsRollBand b = (b = BandMiss \<or> b = BandPartial \<or> b = BandFull)"

definition IsTerminal :: "TurnPhase \<Rightarrow> bool" where
  "IsTerminal p = (p = PhaseComplete \<or> p = PhaseFailed)"

lemmas enum_ops = newEnum_def enum_all_def enum_valid_def enum_parse_def enum_strings_def enum_kind_def

lemmas enum_sets =
  plausibilityEnum_def riskEnum_def consequenceEnum_def outcomeBandEnum_def
  modifierSourceEnum_def effectTypeEnum_def statusEnum_def turnPhaseEnum_def
  channelAdapterEnum_def mechanicEnum_def rngEnum_def attributeEnum_def relationEnum_def
  entityKindEnum_def failureReasonEnum_def authorizationReasonEnum_def
  rollGateMappingEnum_def evidenceTruthStatusEnum_def evidenceRevealKindEnum_def
  beliefStanceEnum_def companionPolicyEnum_def hintLevelEnum_def
  companionTriggerEnum_def companionTriggerSourceEnum_def casePhaseEnum_def
  caseLifecycleEventKindEnum_def

lemmas enum_parsers =
  ParsePlausibility_def ParseRisk_def ParseConsequence_def ParseOutcomeBand_def
  ParseModifierSource_def ParseEffectType_def ParseStatus_def ParseTurnPhase_def
  ParseChannelAdapter_def ParseMechanic_def ParseRNG_def ParseAttribute_def
  ParseRelation_def ParseEntityKind_def ParseFailureReason_def
  ParseAuthorizationReason_def ParseRollGateMapping_def ParseEvidenceTruthStatus_def
  ParseEvidenceRevealKind_def ParseBeliefStance_def ParseCompanionPolicy_def
  ParseHintLevel_def ParseCompanionTrigger_def ParseCompanionTriggerSource_def
  ParseCasePhase_def ParseCaseLifecycleEventKind_def

lemmas enum_valids =
  Plausibility_Valid_def Risk_Valid_def ConsequenceClass_Valid_def OutcomeBand_Valid_def
  ModifierSource_Valid_def EffectType_Valid_def Status_Valid_def TurnPhase_Valid_def
  ChannelAdapter_Valid_def Mechanic_Valid_def RNG_Valid_def Attribute_Valid_def
  Relation_Valid_def EntityKind_Valid_def FailureReason_Valid_def
  AuthorizationReason_Valid_def RollGateMapping_Valid_def EvidenceTruthStatus_Valid_def
  EvidenceRevealKind_Valid_def BeliefStance_Valid_def CompanionPolicy_Valid_def
  HintLevel_Valid_def CasePhase_Valid_def CaseLifecycleEventKind_Valid_def

lemmas enum_lists =
  Plausibilities_def Risks_def Consequences_def OutcomeBands_def ModifierSources_def
  EffectTypes_def Statuses_def TurnPhases_def ChannelAdapters_def Mechanics_def RNGs_def
  Attributes_def Relations_def EntityKinds_def FailureReasons_def
  AuthorizationReasons_def RollGateMappings_def EvidenceTruthStatuses_def
  EvidenceRevealKinds_def BeliefStances_def CompanionPolicies_def HintLevels_def
  CompanionTriggers_def CompanionTriggerSources_def CasePhases_def
  CaseLifecycleEventKinds_def

section \<open>The contract of a closed set\<close>

text \<open>
  A member set is non-empty, lists no member twice and never lists the empty string, which is the
  zero value an unset Go field has.
\<close>

locale closed_enum =
  fixes e :: enum
  assumes distinct_values: "distinct (en_values e)"
    and nonempty: "en_values e \<noteq> []"
    and no_empty_member: "[] \<notin> set (en_values e)"
begin

lemma parse_Inr_iff: "enum_parse e s = Inr v \<longleftrightarrow> v = s \<and> s \<in> set (en_values e)"
  by (auto simp: enum_parse_def enum_valid_def)

lemma parse_error:
  "s \<notin> set (en_values e) \<Longrightarrow>
     enum_parse e s = Inl (UnknownValueError (en_k e) s (en_values e))"
  by (simp add: enum_parse_def enum_valid_def enum_strings_def)

lemma valid_iff_parse: "enum_valid e s \<longleftrightarrow> (\<exists>v. enum_parse e s = Inr v)"
  by (auto simp: enum_parse_def enum_valid_def)

lemma zero_value_refused: "\<not> enum_valid e []"
  using no_empty_member by (simp add: enum_valid_def)

lemma parse_roundtrip: "map (enum_parse e) (enum_all e) = map Inr (enum_all e)"
  by (simp add: enum_parse_def enum_valid_def enum_all_def)

end

interpretation plausibility_set: closed_enum plausibilityEnum
  by unfold_locales (simp_all add: plausibilityEnum_def newEnum_def vocab_strings)

interpretation risk_set: closed_enum riskEnum
  by unfold_locales (simp_all add: riskEnum_def newEnum_def vocab_strings)

interpretation consequence_set: closed_enum consequenceEnum
  by unfold_locales (simp_all add: consequenceEnum_def newEnum_def vocab_strings)

interpretation outcomeBand_set: closed_enum outcomeBandEnum
  by unfold_locales (simp_all add: outcomeBandEnum_def newEnum_def vocab_strings)

interpretation modifierSource_set: closed_enum modifierSourceEnum
  by unfold_locales (simp_all add: modifierSourceEnum_def newEnum_def vocab_strings)

interpretation effectType_set: closed_enum effectTypeEnum
  by unfold_locales (simp_all add: effectTypeEnum_def newEnum_def vocab_strings)

interpretation status_set: closed_enum statusEnum
  by unfold_locales (simp_all add: statusEnum_def newEnum_def vocab_strings)

interpretation turnPhase_set: closed_enum turnPhaseEnum
  by unfold_locales (simp_all add: turnPhaseEnum_def newEnum_def vocab_strings)

interpretation channelAdapter_set: closed_enum channelAdapterEnum
  by unfold_locales (simp_all add: channelAdapterEnum_def newEnum_def vocab_strings)

interpretation mechanic_set: closed_enum mechanicEnum
  by unfold_locales (simp_all add: mechanicEnum_def newEnum_def vocab_strings)

interpretation rng_set: closed_enum rngEnum
  by unfold_locales (simp_all add: rngEnum_def newEnum_def vocab_strings)

interpretation attribute_set: closed_enum attributeEnum
  by unfold_locales (simp_all add: attributeEnum_def newEnum_def vocab_strings)

interpretation relation_set: closed_enum relationEnum
  by unfold_locales (simp_all add: relationEnum_def newEnum_def vocab_strings)

interpretation entityKind_set: closed_enum entityKindEnum
  by unfold_locales (simp_all add: entityKindEnum_def newEnum_def vocab_strings)

interpretation failureReason_set: closed_enum failureReasonEnum
  by unfold_locales (simp_all add: failureReasonEnum_def newEnum_def vocab_strings)

interpretation authorizationReason_set: closed_enum authorizationReasonEnum
  by unfold_locales (simp_all add: authorizationReasonEnum_def newEnum_def vocab_strings)

interpretation rollGateMapping_set: closed_enum rollGateMappingEnum
  by unfold_locales (simp_all add: rollGateMappingEnum_def newEnum_def vocab_strings)

interpretation evidenceTruthStatus_set: closed_enum evidenceTruthStatusEnum
  by unfold_locales (simp_all add: evidenceTruthStatusEnum_def newEnum_def vocab_strings)

interpretation evidenceRevealKind_set: closed_enum evidenceRevealKindEnum
  by unfold_locales (simp_all add: evidenceRevealKindEnum_def newEnum_def vocab_strings)

interpretation beliefStance_set: closed_enum beliefStanceEnum
  by unfold_locales (simp_all add: beliefStanceEnum_def newEnum_def vocab_strings)

interpretation companionPolicy_set: closed_enum companionPolicyEnum
  by unfold_locales (simp_all add: companionPolicyEnum_def newEnum_def vocab_strings)

interpretation hintLevel_set: closed_enum hintLevelEnum
  by unfold_locales (simp_all add: hintLevelEnum_def newEnum_def vocab_strings)

interpretation companionTrigger_set: closed_enum companionTriggerEnum
  by unfold_locales (simp_all add: companionTriggerEnum_def newEnum_def vocab_strings)

interpretation companionTriggerSource_set: closed_enum companionTriggerSourceEnum
  by unfold_locales (simp_all add: companionTriggerSourceEnum_def newEnum_def vocab_strings)

interpretation casePhase_set: closed_enum casePhaseEnum
  by unfold_locales (simp_all add: casePhaseEnum_def newEnum_def vocab_strings)

interpretation caseLifecycleEventKind_set: closed_enum caseLifecycleEventKindEnum
  by unfold_locales (simp_all add: caseLifecycleEventKindEnum_def newEnum_def vocab_strings)


end
