(* ===== verification/Vocab_Predicates.thy ===== *)
theory Vocab_Predicates
  imports Vocab_Enums "HOL-Library.AList"
begin

text \<open>
  The predicate registry of \<^verbatim>\<open>internal/vocabulary\<close>: the registered predicates and the groups
  written together (\<^verbatim>\<open>predicates.go\<close>), rule opacity and immutability
  (\<^verbatim>\<open>registration.go\<close>), which entity kinds carry and are pointed at by a predicate and the
  entity-ID grammar (\<^verbatim>\<open>world.go\<close>), the bounded attributes and the relations
  (\<^verbatim>\<open>attributes.go\<close>) and storage references (\<^verbatim>\<open>references.go\<close>).

  A Go map is an association list. Where the program ranges over a map, the lemma that the order
  of the list does not matter is stated with the definition.

  The record \<open>ext\<close> holds the functions of the SemStreams library the program calls and this
  repository does not contain: entity-ID and predicate grammar, the byte limit they share, the
  entity-state contract, the indexing-profile fact graph-ingest adds to a new entity, the JSON
  form of a triple, and the error codes and datatype names it exports; \<open>FormatFloat\<close> is the printed form of a float, which no checked path reaches.
\<close>

type_synonym ('k, 'v) gomap = "('k \<times> 'v) list"

text \<open>The parts of a parsed six-part entity identifier.\<close>

record EntityIDParts =
  ep_Org :: string
  ep_Platform :: string
  ep_Domain :: string
  ep_System :: string
  ep_Type :: string
  ep_Instance :: string

record ext =
  MaxEntityIDBytes :: nat
  ValidateEntityID :: "string \<Rightarrow> gerror option"
  ParseEntityID :: "string \<Rightarrow> gerror + EntityIDParts"
  ValidateEntityIDPrefix :: "string \<Rightarrow> gerror option"
  ParsePredicate :: "string \<Rightarrow> gerror + (string \<times> string \<times> string)"
  FormatFloat :: "f64 \<Rightarrow> string"
  ValidateEntityStateContract :: "EntityState \<Rightarrow> gerror option"
  IsValidIndexingProfile :: "string \<Rightarrow> bool"
  EntityIndexingProfile :: string
  MarshalTriple :: "Triple \<Rightarrow> string"
  ErrorCodeEntityNotFound :: string
  ErrorCodeIndexNotReady :: string
  EntityReferenceDatatype :: string
  MissingUnknown :: string
  ValidateDecodedEntityStates :: "EntityState list \<Rightarrow> gerror option"

section \<open>Registered predicates\<close>

type_synonym Predicate = string

definition TurnPhaseCurrent :: Predicate where [pred_strings]: "TurnPhaseCurrent = ''turn.phase.current''"
definition TurnActionRef :: Predicate where [pred_strings]: "TurnActionRef = ''turn.action.ref''"
definition TurnActionPlayer :: Predicate where [pred_strings]: "TurnActionPlayer = ''turn.action.player''"
definition TurnActionScene :: Predicate where [pred_strings]: "TurnActionScene = ''turn.action.scene''"
definition TurnCaseDecisionRef :: Predicate where [pred_strings]: "TurnCaseDecisionRef = ''turn.case-decision.ref''"
definition TurnCaseDecisionKind :: Predicate where [pred_strings]: "TurnCaseDecisionKind = ''turn.case-decision.kind''"
definition TurnCompanionDecisionRef :: Predicate where [pred_strings]: "TurnCompanionDecisionRef = ''turn.companion-decision.ref''"
definition TurnCompanionStageRef :: Predicate where [pred_strings]: "TurnCompanionStageRef = ''turn.companion-stage.ref''"
definition TurnCompanionTriggerKind :: Predicate where [pred_strings]: "TurnCompanionTriggerKind = ''turn.companion.trigger-kind''"
definition TurnCompanionTriggerSource :: Predicate where [pred_strings]: "TurnCompanionTriggerSource = ''turn.companion.trigger-source''"
definition TurnKnowledgeRef :: Predicate where [pred_strings]: "TurnKnowledgeRef = ''turn.knowledge.ref''"
definition TurnAccusationRef :: Predicate where [pred_strings]: "TurnAccusationRef = ''turn.accusation.ref''"
definition TurnCaseProgressRef :: Predicate where [pred_strings]: "TurnCaseProgressRef = ''turn.case-progress.ref''"
definition TurnVerdictPlausibility :: Predicate where [pred_strings]: "TurnVerdictPlausibility = ''turn.verdict.plausibility''"
definition TurnVerdictRisk :: Predicate where [pred_strings]: "TurnVerdictRisk = ''turn.verdict.risk''"
definition TurnVerdictConsequence :: Predicate where [pred_strings]: "TurnVerdictConsequence = ''turn.verdict.consequence''"
definition TurnVerdictRequiresRoll :: Predicate where [pred_strings]: "TurnVerdictRequiresRoll = ''turn.verdict.requires-roll''"
definition TurnVerdictRef :: Predicate where [pred_strings]: "TurnVerdictRef = ''turn.verdict.ref''"
definition TurnRollBand :: Predicate where [pred_strings]: "TurnRollBand = ''turn.roll.band''"
definition TurnRollTotal :: Predicate where [pred_strings]: "TurnRollTotal = ''turn.roll.total''"
definition TurnRollRef :: Predicate where [pred_strings]: "TurnRollRef = ''turn.roll.ref''"
definition TurnEffectsBatch :: Predicate where [pred_strings]: "TurnEffectsBatch = ''turn.effects.batch''"
definition TurnEffectsRef :: Predicate where [pred_strings]: "TurnEffectsRef = ''turn.effects.ref''"
definition TurnNarrationRef :: Predicate where [pred_strings]: "TurnNarrationRef = ''turn.narration.ref''"
definition TurnResumeAttempts :: Predicate where [pred_strings]: "TurnResumeAttempts = ''turn.resume.attempts''"
definition TurnFailureReason :: Predicate where [pred_strings]: "TurnFailureReason = ''turn.failure.reason''"
definition TurnFailureRef :: Predicate where [pred_strings]: "TurnFailureRef = ''turn.failure.ref''"
definition CampaignSeedValue :: Predicate where [pred_strings]: "CampaignSeedValue = ''campaign.seed.value''"
definition CampaignExperiencePersonaPack :: Predicate where [pred_strings]: "CampaignExperiencePersonaPack = ''campaign.experience.persona-pack''"
definition CampaignExperienceMechanicsPack :: Predicate where [pred_strings]: "CampaignExperienceMechanicsPack = ''campaign.experience.mechanics-pack''"
definition CampaignImportCompleted :: Predicate where [pred_strings]: "CampaignImportCompleted = ''campaign.import.completed''"
definition WorldEntityName :: Predicate where [pred_strings]: "WorldEntityName = ''world.entity.name''"
definition WorldEntityKind :: Predicate where [pred_strings]: "WorldEntityKind = ''world.entity.kind''"
definition WorldEntityDescription :: Predicate where [pred_strings]: "WorldEntityDescription = ''world.entity.description''"
definition PlayerCharacterCurrent :: Predicate where [pred_strings]: "PlayerCharacterCurrent = ''player.character.current''"
definition PlayerTurnCurrent :: Predicate where [pred_strings]: "PlayerTurnCurrent = ''player.turn.current''"
definition PlayerTurnResolved :: Predicate where [pred_strings]: "PlayerTurnResolved = ''player.turn.resolved''"
definition CharacterStatusCurrent :: Predicate where [pred_strings]: "CharacterStatusCurrent = ''character.status.current''"
definition WorldLocationCurrent :: Predicate where [pred_strings]: "WorldLocationCurrent = ''world.location.current''"
definition SceneLocationCurrent :: Predicate where [pred_strings]: "SceneLocationCurrent = ''scene.location.current''"
definition LocationRelationConnectsTo :: Predicate where [pred_strings]: "LocationRelationConnectsTo = ''location.relation.connects-to''"
definition GeoLocationLatitude :: Predicate where [pred_strings]: "GeoLocationLatitude = ''geo.location.latitude''"
definition GeoLocationLongitude :: Predicate where [pred_strings]: "GeoLocationLongitude = ''geo.location.longitude''"
definition CharacterAttributeHealth :: Predicate where [pred_strings]: "CharacterAttributeHealth = ''character.attribute.health''"
definition CharacterAttributeStamina :: Predicate where [pred_strings]: "CharacterAttributeStamina = ''character.attribute.stamina''"
definition CharacterAttributeResolve :: Predicate where [pred_strings]: "CharacterAttributeResolve = ''character.attribute.resolve''"
definition ItemAttributeQuantity :: Predicate where [pred_strings]: "ItemAttributeQuantity = ''item.attribute.quantity''"
definition SceneAttributeTension :: Predicate where [pred_strings]: "SceneAttributeTension = ''scene.attribute.tension''"
definition WorldRelationAlliedWith :: Predicate where [pred_strings]: "WorldRelationAlliedWith = ''world.relation.allied-with''"
definition WorldRelationHostileTo :: Predicate where [pred_strings]: "WorldRelationHostileTo = ''world.relation.hostile-to''"
definition WorldRelationKnows :: Predicate where [pred_strings]: "WorldRelationKnows = ''world.relation.knows''"
definition WorldRelationCarries :: Predicate where [pred_strings]: "WorldRelationCarries = ''world.relation.carries''"
definition WorldRelationOwesDebt :: Predicate where [pred_strings]: "WorldRelationOwesDebt = ''world.relation.owes-debt''"
definition CaseSolutionCulprit :: Predicate where [pred_strings]: "CaseSolutionCulprit = ''case.solution.culprit''"
definition CaseSolutionMethod :: Predicate where [pred_strings]: "CaseSolutionMethod = ''case.solution.method''"
definition CaseSolutionMotive :: Predicate where [pred_strings]: "CaseSolutionMotive = ''case.solution.motive''"
definition CaseRequirementSuspects :: Predicate where [pred_strings]: "CaseRequirementSuspects = ''case.requirement.suspects''"
definition CaseRequirementEvidence :: Predicate where [pred_strings]: "CaseRequirementEvidence = ''case.requirement.evidence''"
definition CaseMemberSuspect :: Predicate where [pred_strings]: "CaseMemberSuspect = ''case.member.suspect''"
definition CaseMemberEvidence :: Predicate where [pred_strings]: "CaseMemberEvidence = ''case.member.evidence''"
definition CaseMemberTimeline :: Predicate where [pred_strings]: "CaseMemberTimeline = ''case.member.timeline''"
definition CaseMemberVictim :: Predicate where [pred_strings]: "CaseMemberVictim = ''case.member.victim''"
definition CaseTimelineOrder :: Predicate where [pred_strings]: "CaseTimelineOrder = ''case.timeline.order''"
definition CaseLifecyclePhase :: Predicate where [pred_strings]: "CaseLifecyclePhase = ''case.lifecycle.phase''"
definition CaseLifecycleEventID :: Predicate where [pred_strings]: "CaseLifecycleEventID = ''case.lifecycle.event-id''"
definition CaseLifecycleEventKindPredicate :: Predicate where [pred_strings]: "CaseLifecycleEventKindPredicate = ''case.lifecycle.event-kind''"
definition CaseLifecycleFromPhase :: Predicate where [pred_strings]: "CaseLifecycleFromPhase = ''case.lifecycle.from-phase''"
definition CaseLifecycleToPhase :: Predicate where [pred_strings]: "CaseLifecycleToPhase = ''case.lifecycle.to-phase''"
definition CaseTransitionSource :: Predicate where [pred_strings]: "CaseTransitionSource = ''case.transition.source''"
definition CaseTransitionAt :: Predicate where [pred_strings]: "CaseTransitionAt = ''case.transition.at''"
definition CaseTransitionFrom :: Predicate where [pred_strings]: "CaseTransitionFrom = ''case.transition.from''"
definition EvidenceTruthStatusCurrent :: Predicate where [pred_strings]: "EvidenceTruthStatusCurrent = ''evidence.truth.status''"
definition EvidenceRevealPhase :: Predicate where [pred_strings]: "EvidenceRevealPhase = ''evidence.reveal.phase''"
definition EvidenceRevealKindPredicate :: Predicate where [pred_strings]: "EvidenceRevealKindPredicate = ''evidence.reveal.kind''"
definition EvidenceRevealTarget :: Predicate where [pred_strings]: "EvidenceRevealTarget = ''evidence.reveal.target''"
definition BeliefActorHolder :: Predicate where [pred_strings]: "BeliefActorHolder = ''belief.actor.holder''"
definition BeliefEvidenceRef :: Predicate where [pred_strings]: "BeliefEvidenceRef = ''belief.evidence.target''"
definition BeliefStanceCurrent :: Predicate where [pred_strings]: "BeliefStanceCurrent = ''belief.stance.current''"
definition KnowledgeActorHolder :: Predicate where [pred_strings]: "KnowledgeActorHolder = ''knowledge.actor.holder''"
definition KnowledgeEvidenceRef :: Predicate where [pred_strings]: "KnowledgeEvidenceRef = ''knowledge.evidence.target''"
definition RevelationEvidenceRef :: Predicate where [pred_strings]: "RevelationEvidenceRef = ''revelation.evidence.target''"
definition RevelationActorHolder :: Predicate where [pred_strings]: "RevelationActorHolder = ''revelation.actor.holder''"
definition RevelationTurnID :: Predicate where [pred_strings]: "RevelationTurnID = ''revelation.turn.id''"
definition RevelationSourceActor :: Predicate where [pred_strings]: "RevelationSourceActor = ''revelation.source.actor''"
definition RevelationTestimonyRef :: Predicate where [pred_strings]: "RevelationTestimonyRef = ''revelation.testimony.ref''"
definition CompanionCandidatePolicy :: Predicate where [pred_strings]: "CompanionCandidatePolicy = ''companion.candidate.policy''"
definition CompanionBondPlayer :: Predicate where [pred_strings]: "CompanionBondPlayer = ''companion.bond.player''"
definition CompanionBondCharacter :: Predicate where [pred_strings]: "CompanionBondCharacter = ''companion.bond.character''"
definition CompanionBondPolicy :: Predicate where [pred_strings]: "CompanionBondPolicy = ''companion.bond.policy''"
definition CompanionBondHintLevel :: Predicate where [pred_strings]: "CompanionBondHintLevel = ''companion.bond.hint-level''"

definition allPredicates :: "Predicate list" where
  "allPredicates = [
    TurnPhaseCurrent, TurnActionRef, TurnActionPlayer, TurnActionScene,
    TurnCaseDecisionRef, TurnCaseDecisionKind, TurnCompanionDecisionRef,
    TurnCompanionStageRef, TurnCompanionTriggerKind, TurnCompanionTriggerSource,
    TurnKnowledgeRef, TurnAccusationRef, TurnCaseProgressRef, TurnVerdictPlausibility,
    TurnVerdictRisk, TurnVerdictConsequence, TurnVerdictRequiresRoll, TurnVerdictRef,
    TurnRollBand, TurnRollTotal, TurnRollRef, TurnEffectsBatch, TurnEffectsRef,
    TurnNarrationRef, TurnResumeAttempts, TurnFailureReason, TurnFailureRef,
    CampaignSeedValue, CampaignExperiencePersonaPack, CampaignExperienceMechanicsPack,
    CampaignImportCompleted, WorldEntityName, WorldEntityKind, WorldEntityDescription,
    PlayerCharacterCurrent, PlayerTurnCurrent, PlayerTurnResolved,
    CharacterStatusCurrent, WorldLocationCurrent, SceneLocationCurrent,
    LocationRelationConnectsTo, GeoLocationLatitude, GeoLocationLongitude,
    CharacterAttributeHealth, CharacterAttributeStamina, CharacterAttributeResolve,
    ItemAttributeQuantity, SceneAttributeTension, WorldRelationAlliedWith,
    WorldRelationHostileTo, WorldRelationKnows, WorldRelationCarries,
    WorldRelationOwesDebt, CaseSolutionCulprit, CaseSolutionMethod, CaseSolutionMotive,
    CaseRequirementSuspects, CaseRequirementEvidence, CaseMemberSuspect,
    CaseMemberEvidence, CaseMemberTimeline, CaseMemberVictim, CaseTimelineOrder,
    CaseLifecyclePhase, CaseLifecycleEventID, CaseLifecycleEventKindPredicate,
    CaseLifecycleFromPhase, CaseLifecycleToPhase, CaseTransitionSource,
    CaseTransitionAt, CaseTransitionFrom, EvidenceTruthStatusCurrent,
    EvidenceRevealPhase, EvidenceRevealKindPredicate, EvidenceRevealTarget,
    BeliefActorHolder, BeliefEvidenceRef, BeliefStanceCurrent, KnowledgeActorHolder,
    KnowledgeEvidenceRef, RevelationEvidenceRef, RevelationActorHolder,
    RevelationTurnID, RevelationSourceActor, RevelationTestimonyRef,
    CompanionCandidatePolicy, CompanionBondPlayer, CompanionBondCharacter,
    CompanionBondPolicy, CompanionBondHintLevel]"

definition AllPredicates :: "Predicate list" where
  "AllPredicates = allPredicates"

section \<open>Predicates that are written together\<close>

definition verdictScalarPredicates :: "Predicate list" where
  "verdictScalarPredicates = [TurnVerdictPlausibility, TurnVerdictRisk, TurnVerdictConsequence, TurnVerdictRequiresRoll]"

definition VerdictScalarPredicates :: "Predicate list" where
  "VerdictScalarPredicates = verdictScalarPredicates"

definition caseDecisionScalarPredicates :: "Predicate list" where
  "caseDecisionScalarPredicates = [TurnCaseDecisionKind]"

definition CaseDecisionScalarPredicates :: "Predicate list" where
  "CaseDecisionScalarPredicates = caseDecisionScalarPredicates"

definition rollScalarPredicates :: "Predicate list" where
  "rollScalarPredicates = [TurnRollBand, TurnRollTotal]"

definition RollScalarPredicates :: "Predicate list" where
  "RollScalarPredicates = rollScalarPredicates"

definition effectScalarPredicates :: "Predicate list" where
  "effectScalarPredicates = [TurnEffectsBatch]"

definition EffectScalarPredicates :: "Predicate list" where
  "EffectScalarPredicates = effectScalarPredicates"

definition narrationScalarPredicates :: "Predicate list" where
  "narrationScalarPredicates = []"

definition NarrationScalarPredicates :: "Predicate list" where
  "NarrationScalarPredicates = narrationScalarPredicates"

definition turnAcceptedPredicates :: "Predicate list" where
  "turnAcceptedPredicates = [TurnPhaseCurrent, TurnActionPlayer, TurnActionScene]"

definition TurnAcceptedPredicates :: "Predicate list" where
  "TurnAcceptedPredicates = turnAcceptedPredicates"

definition turnPhasePredicates :: "Predicate list" where
  "turnPhasePredicates = [TurnPhaseCurrent]"

definition TurnPhasePredicates :: "Predicate list" where
  "TurnPhasePredicates = turnPhasePredicates"

definition turnFailurePredicates :: "Predicate list" where
  "turnFailurePredicates = [TurnPhaseCurrent, TurnFailureReason]"

definition TurnFailurePredicates :: "Predicate list" where
  "TurnFailurePredicates = turnFailurePredicates"

definition turnResumePredicates :: "Predicate list" where
  "turnResumePredicates = [TurnResumeAttempts]"

definition TurnResumePredicates :: "Predicate list" where
  "TurnResumePredicates = turnResumePredicates"

definition playerTurnPredicates :: "Predicate list" where
  "playerTurnPredicates = [PlayerTurnCurrent]"

definition PlayerTurnPredicates :: "Predicate list" where
  "PlayerTurnPredicates = playerTurnPredicates"

definition playerResolvedTurnPredicates :: "Predicate list" where
  "playerResolvedTurnPredicates = [PlayerTurnResolved]"

definition PlayerResolvedTurnPredicates :: "Predicate list" where
  "PlayerResolvedTurnPredicates = playerResolvedTurnPredicates"

definition CaseDecisionNoOpScalarPredicates :: "Predicate list" where
  "CaseDecisionNoOpScalarPredicates = []"

definition ValidatePredicate :: "ext \<Rightarrow> Predicate \<Rightarrow> gerror option" where
  "ValidatePredicate X p = errOf (ParsePredicate X p)"

section \<open>Opacity and immutability\<close>

definition ruleOpaquePredicates :: "Predicate list" where
  "ruleOpaquePredicates = [
    WorldEntityName, WorldEntityDescription, CaseSolutionCulprit, CaseSolutionMethod,
    CaseSolutionMotive, EvidenceTruthStatusCurrent, EvidenceRevealPhase,
    EvidenceRevealKindPredicate, EvidenceRevealTarget, BeliefActorHolder,
    BeliefEvidenceRef, BeliefStanceCurrent]"

definition RuleOpaquePredicates :: "Predicate list" where
  "RuleOpaquePredicates = ruleOpaquePredicates"

definition immutablePredicates :: "Predicate list" where
  "immutablePredicates = [
    CaseSolutionCulprit, CaseSolutionMethod, CaseSolutionMotive,
    EvidenceTruthStatusCurrent]"

definition ImmutablePredicates :: "Predicate list" where
  "ImmutablePredicates = immutablePredicates"

definition IsProtectedPredicate :: "Predicate \<Rightarrow> bool" where
  "IsProtectedPredicate p = List.member immutablePredicates p"

text \<open>
  \<^verbatim>\<open>RegisterPredicates\<close> returns the metadata it hands to the SemStreams registry, in order:
  name, rule opacity, data type.
\<close>

fun checkOpaque :: "Predicate list \<Rightarrow> gerror option" where
  "checkOpaque [] = None"
| "checkOpaque (p # ps) =
     (if List.member allPredicates p then checkOpaque ps
      else Some (Errorf ''predicate is marked rule-opaque but is not one this engine writes''))"

fun registerLoop :: "ext \<Rightarrow> Predicate list \<Rightarrow> gerror + (Predicate \<times> bool \<times> string) list" where
  "registerLoop X [] = Inr []"
| "registerLoop X (p # ps) =
     (case ValidatePredicate X p of
        Some e \<Rightarrow> Inl (Wrapf ''cannot declare predicate'' e)
      | None \<Rightarrow>
          (case registerLoop X ps of
             Inl e \<Rightarrow> Inl e
           | Inr rest \<Rightarrow>
               Inr ((p, List.member ruleOpaquePredicates p,
                     if p = CampaignExperiencePersonaPack \<or> p = CampaignExperienceMechanicsPack
                     then ''string'' else []) # rest)))"

definition RegisterPredicates :: "ext \<Rightarrow> gerror + (Predicate \<times> bool \<times> string) list" where
  "RegisterPredicates X =
     (case checkOpaque ruleOpaquePredicates of
        Some e \<Rightarrow> Inl e
      | None \<Rightarrow> registerLoop X allPredicates)"

section \<open>Bounded attributes and relations\<close>

definition attributePredicates :: "(Attribute, Predicate) gomap" where
  "attributePredicates = [
    (AttributeHealth, CharacterAttributeHealth),
    (AttributeStamina, CharacterAttributeStamina),
    (AttributeResolve, CharacterAttributeResolve),
    (AttributeQuantity, ItemAttributeQuantity),
    (AttributeTension, SceneAttributeTension)]"

definition relationPredicates :: "(Relation, Predicate) gomap" where
  "relationPredicates = [
    (RelationAlliedWith, WorldRelationAlliedWith),
    (RelationHostileTo, WorldRelationHostileTo),
    (RelationKnows, WorldRelationKnows),
    (RelationCarries, WorldRelationCarries),
    (RelationOwesDebt, WorldRelationOwesDebt)]"

record AttributeSpec =
  as_Attribute :: Attribute
  as_Predicate :: Predicate
  as_Min :: int
  as_Max :: int

record AttributeBounds =
  ab_Min :: int
  ab_Max :: int

record AttributeSpecSet =
  specs :: "(Attribute, AttributeSpec) gomap"

definition InBounds :: "AttributeSpec \<Rightarrow> int \<Rightarrow> bool" where
  "InBounds s value = (as_Min s \<le> value \<and> value \<le> as_Max s)"

definition defaultAttributeBounds :: "(Attribute, AttributeBounds) gomap" where
  "defaultAttributeBounds = [
    (AttributeHealth, \<lparr>ab_Min = 0, ab_Max = 10\<rparr>),
    (AttributeStamina, \<lparr>ab_Min = 0, ab_Max = 10\<rparr>),
    (AttributeResolve, \<lparr>ab_Min = 0, ab_Max = 10\<rparr>),
    (AttributeQuantity, \<lparr>ab_Min = 0, ab_Max = 99\<rparr>),
    (AttributeTension, \<lparr>ab_Min = 0, ab_Max = 10\<rparr>)]"

text \<open>The first loop of \<^verbatim>\<open>NewAttributeSpecSet\<close>, over the registered attributes.\<close>

fun buildSpecs ::
  "(Attribute, AttributeBounds) gomap \<Rightarrow> (Attribute, AttributeSpec) gomap \<Rightarrow> Attribute list
     \<Rightarrow> gerror + (Attribute, AttributeSpec) gomap" where
  "buildSpecs bounds acc [] = Inr acc"
| "buildSpecs bounds acc (a # as) =
     (case map_of bounds a of
        None \<Rightarrow> Inl (Errorf ''attribute has no declared bounds'')
      | Some b \<Rightarrow>
          if ab_Max b < ab_Min b then Inl (Errorf ''attribute has an inverted range'')
          else buildSpecs bounds
            (AList.update a \<lparr>as_Attribute = a,
               as_Predicate = (case map_of attributePredicates a of Some p \<Rightarrow> p | None \<Rightarrow> []),
               as_Min = ab_Min b, as_Max = ab_Max b\<rparr> acc) as)"

definition NewAttributeSpecSet ::
  "(Attribute, AttributeBounds) gomap \<Rightarrow> gerror + AttributeSpecSet" where
  "NewAttributeSpecSet bounds =
     (case buildSpecs bounds [] Attributes of
        Inl e \<Rightarrow> Inl e
      | Inr ss \<Rightarrow>
          (case forErr (\<lambda>a. failIf (\<not> Attribute_Valid a)
                   (UnknownValueError KindAttribute a (enum_strings attributeEnum))) (map fst bounds) of
             Some e \<Rightarrow> Inl e
           | None \<Rightarrow> Inr \<lparr>specs = ss\<rparr>))"

text \<open>\<open>Inl\<close> stands for the panic of an invalid default table.\<close>

definition DefaultAttributeSpecs :: "gerror + AttributeSpecSet" where
  "DefaultAttributeSpecs =
     (case NewAttributeSpecSet defaultAttributeBounds of
        Inl e \<Rightarrow> Inl (Wrapf ''vocabulary: default attribute bounds are invalid'' e)
      | Inr s \<Rightarrow> Inr s)"

definition engineAttributeSpecs :: AttributeSpecSet where
  "engineAttributeSpecs =
     (case DefaultAttributeSpecs of Inr s \<Rightarrow> s | Inl _ \<Rightarrow> \<lparr>specs = []\<rparr>)"

definition SpecSet_IsZero :: "AttributeSpecSet \<Rightarrow> bool" where
  "SpecSet_IsZero s = (length (specs s) = 0)"

definition SpecSet_For :: "AttributeSpecSet \<Rightarrow> Attribute \<Rightarrow> AttributeSpec option" where
  "SpecSet_For s a = map_of (specs s) a"

definition SpecSet_Check :: "AttributeSpecSet \<Rightarrow> Attribute \<Rightarrow> int \<Rightarrow> gerror option" where
  "SpecSet_Check s a value =
     (case SpecSet_For s a of
        None \<Rightarrow> Some (UnknownValueError KindAttribute a (enum_strings attributeEnum))
      | Some spec \<Rightarrow>
          failIf (\<not> InBounds spec value) (OutOfBoundsError a value (as_Min spec) (as_Max spec)))"

definition AttributeSpecFor :: "Attribute \<Rightarrow> AttributeSpec option" where
  "AttributeSpecFor a = SpecSet_For engineAttributeSpecs a"

definition CheckAttributeValue :: "Attribute \<Rightarrow> int \<Rightarrow> gerror option" where
  "CheckAttributeValue a value = SpecSet_Check engineAttributeSpecs a value"

definition RelationPredicate :: "Relation \<Rightarrow> Predicate option" where
  "RelationPredicate r = map_of relationPredicates r"

text \<open>
  The reverse lookups range over the map and return the first key whose predicate matches.
\<close>

definition AttributeForPredicate :: "Predicate \<Rightarrow> Attribute option" where
  "AttributeForPredicate p = map_option fst (List.find (\<lambda>(a, q). q = p) attributePredicates)"

definition RelationForPredicate :: "Predicate \<Rightarrow> Relation option" where
  "RelationForPredicate p = map_option fst (List.find (\<lambda>(r, q). q = p) relationPredicates)"

section \<open>World facts: who carries a predicate, who it points at\<close>

definition worldFactSubjectKinds :: "(Predicate, EntityKind list) gomap" where
  "worldFactSubjectKinds = [
    (WorldEntityName, [EntityKindCharacter, EntityKindItem, EntityKindScene,
      EntityKindLocation, EntityKindPlayer, EntityKindCase, EntityKindEvidence,
      EntityKindEvent]),
    (WorldEntityKind, [EntityKindCharacter, EntityKindItem, EntityKindScene,
      EntityKindLocation, EntityKindPlayer, EntityKindCase, EntityKindEvidence,
      EntityKindEvent, EntityKindBelief, EntityKindKnowledge, EntityKindRevelation,
      EntityKindCompanionBond]),
    (WorldEntityDescription, [EntityKindCharacter, EntityKindItem, EntityKindScene,
      EntityKindLocation, EntityKindPlayer, EntityKindCase, EntityKindEvidence,
      EntityKindEvent, EntityKindBelief]),
    (PlayerCharacterCurrent, [EntityKindPlayer]),
    (CharacterAttributeHealth, [EntityKindCharacter]),
    (CharacterAttributeStamina, [EntityKindCharacter]),
    (CharacterAttributeResolve, [EntityKindCharacter]),
    (CharacterStatusCurrent, [EntityKindCharacter]),
    (ItemAttributeQuantity, [EntityKindItem]),
    (SceneAttributeTension, [EntityKindScene]),
    (WorldLocationCurrent, [EntityKindCharacter, EntityKindItem]),
    (SceneLocationCurrent, [EntityKindScene]),
    (LocationRelationConnectsTo, [EntityKindLocation]),
    (GeoLocationLatitude, [EntityKindLocation]),
    (GeoLocationLongitude, [EntityKindLocation]),
    (WorldRelationAlliedWith, [EntityKindCharacter]),
    (WorldRelationHostileTo, [EntityKindCharacter]),
    (WorldRelationKnows, [EntityKindCharacter]),
    (WorldRelationCarries, [EntityKindCharacter]),
    (WorldRelationOwesDebt, [EntityKindCharacter]),
    (CaseSolutionCulprit, [EntityKindCase]),
    (CaseSolutionMethod, [EntityKindCase]),
    (CaseSolutionMotive, [EntityKindCase]),
    (CaseRequirementSuspects, [EntityKindCase]),
    (CaseRequirementEvidence, [EntityKindCase]),
    (CaseMemberSuspect, [EntityKindCase]),
    (CaseMemberEvidence, [EntityKindCase]),
    (CaseMemberTimeline, [EntityKindCase]),
    (CaseMemberVictim, [EntityKindCase]),
    (CaseLifecyclePhase, [EntityKindCase]),
    (CaseLifecycleEventID, [EntityKindCase]),
    (CaseLifecycleEventKindPredicate, [EntityKindCase]),
    (CaseLifecycleFromPhase, [EntityKindCase]),
    (CaseLifecycleToPhase, [EntityKindCase]),
    (CaseTransitionSource, [EntityKindCase]),
    (CaseTransitionAt, [EntityKindCase]),
    (CaseTransitionFrom, [EntityKindCase]),
    (CaseTimelineOrder, [EntityKindEvent]),
    (EvidenceTruthStatusCurrent, [EntityKindEvidence]),
    (EvidenceRevealPhase, [EntityKindEvidence]),
    (EvidenceRevealKindPredicate, [EntityKindEvidence]),
    (EvidenceRevealTarget, [EntityKindEvidence]),
    (BeliefActorHolder, [EntityKindBelief]),
    (BeliefEvidenceRef, [EntityKindBelief]),
    (BeliefStanceCurrent, [EntityKindBelief]),
    (KnowledgeActorHolder, [EntityKindKnowledge]),
    (KnowledgeEvidenceRef, [EntityKindKnowledge]),
    (RevelationEvidenceRef, [EntityKindRevelation]),
    (RevelationActorHolder, [EntityKindRevelation]),
    (RevelationTurnID, [EntityKindRevelation]),
    (RevelationSourceActor, [EntityKindRevelation]),
    (RevelationTestimonyRef, [EntityKindRevelation]),
    (CompanionCandidatePolicy, [EntityKindCharacter]),
    (CompanionBondPlayer, [EntityKindCompanionBond]),
    (CompanionBondCharacter, [EntityKindCompanionBond]),
    (CompanionBondPolicy, [EntityKindCompanionBond]),
    (CompanionBondHintLevel, [EntityKindCompanionBond])]"

definition referenceObjectKinds :: "(Predicate, EntityKind list) gomap" where
  "referenceObjectKinds = [
    (WorldLocationCurrent, [EntityKindLocation]),
    (SceneLocationCurrent, [EntityKindLocation]),
    (LocationRelationConnectsTo, [EntityKindLocation]),
    (PlayerCharacterCurrent, [EntityKindCharacter]),
    (WorldRelationAlliedWith, [EntityKindCharacter]),
    (WorldRelationHostileTo, [EntityKindCharacter]),
    (WorldRelationKnows, [EntityKindCharacter]),
    (WorldRelationCarries, [EntityKindItem]),
    (WorldRelationOwesDebt, [EntityKindCharacter]),
    (CaseSolutionCulprit, [EntityKindCharacter]),
    (CaseSolutionMethod, [EntityKindItem]),
    (CaseSolutionMotive, [EntityKindEvidence]),
    (CaseMemberSuspect, [EntityKindCharacter]),
    (CaseMemberEvidence, [EntityKindEvidence]),
    (CaseMemberTimeline, [EntityKindEvent]),
    (CaseMemberVictim, [EntityKindCharacter]),
    (BeliefActorHolder, [EntityKindCharacter]),
    (EvidenceRevealTarget, [EntityKindCharacter, EntityKindItem, EntityKindScene,
      EntityKindEvidence]),
    (BeliefEvidenceRef, [EntityKindEvidence]),
    (KnowledgeActorHolder, [EntityKindCharacter]),
    (KnowledgeEvidenceRef, [EntityKindEvidence]),
    (RevelationEvidenceRef, [EntityKindEvidence]),
    (RevelationActorHolder, [EntityKindCharacter]),
    (RevelationSourceActor, [EntityKindCharacter]),
    (CompanionBondPlayer, [EntityKindPlayer]),
    (CompanionBondCharacter, [EntityKindCharacter])]"

definition sceneMembershipPredicates :: "Predicate list" where
  "sceneMembershipPredicates = [WorldLocationCurrent]"

definition SceneMembershipPredicates :: "Predicate list" where
  "SceneMembershipPredicates = sceneMembershipPredicates"

definition IsSceneMembership :: "Predicate \<Rightarrow> bool" where
  "IsSceneMembership p = List.member sceneMembershipPredicates p"

definition SubjectKindsFor :: "Predicate \<Rightarrow> EntityKind list option" where
  "SubjectKindsFor p = map_of worldFactSubjectKinds p"

definition ObjectKindsFor :: "Predicate \<Rightarrow> EntityKind list option" where
  "ObjectKindsFor p = map_of referenceObjectKinds p"

definition AllowsObjectKind :: "Predicate \<Rightarrow> EntityKind \<Rightarrow> bool" where
  "AllowsObjectKind p k =
     (case map_of referenceObjectKinds p of None \<Rightarrow> False | Some ks \<Rightarrow> List.member ks k)"

definition IsEntityReference :: "Predicate \<Rightarrow> bool" where
  "IsEntityReference p = (map_of referenceObjectKinds p \<noteq> None)"

definition IsMultiValued :: "Predicate \<Rightarrow> bool" where
  "IsMultiValued p =
     (if List.member [CaseMemberSuspect, CaseMemberEvidence, CaseMemberTimeline,
          EvidenceRevealKindPredicate, EvidenceRevealTarget, LocationRelationConnectsTo] p
      then True
      else RelationForPredicate p \<noteq> None)"

definition WorldFactPredicates :: "Predicate list" where
  "WorldFactPredicates = filter (\<lambda>p. map_of worldFactSubjectKinds p \<noteq> None) allPredicates"

definition EffectWritablePredicateStrings :: "string list" where
  "EffectWritablePredicateStrings =
     filter (\<lambda>p. (AttributeForPredicate p \<noteq> None \<or> p = CharacterStatusCurrent
                  \<or> p = WorldLocationCurrent) \<or> RelationForPredicate p \<noteq> None) allPredicates"

definition AllowsSubjectKind :: "Predicate \<Rightarrow> EntityKind \<Rightarrow> bool" where
  "AllowsSubjectKind p k =
     (case map_of worldFactSubjectKinds p of None \<Rightarrow> False | Some ks \<Rightarrow> List.member ks k)"

section \<open>Entity identifiers\<close>

definition PlatformSegment :: string where
  "PlatformSegment = ''semmachina''"

definition MaxIDSegmentBytes :: "ext \<Rightarrow> nat" where
  "MaxIDSegmentBytes X = MaxEntityIDBytes X div 2"

definition ValidateIDSegment :: "ext \<Rightarrow> string \<Rightarrow> gerror option" where
  "ValidateIDSegment X s =
     firstErr [
       failIf (s = []) (Errorf ''entity-ID segment is required''),
       failIf (MaxIDSegmentBytes X < length s)
         (Errorf ''entity-ID segment exceeds the segment budget''),
       failIf (List.member s CHR ''.'') (Errorf ''entity-ID segment contains a dot''),
       wrapErr ''not a legal entity-ID segment'' (ValidateEntityIDPrefix X s)]"

definition ComposeEntityID ::
  "ext \<Rightarrow> string \<Rightarrow> string \<Rightarrow> string \<Rightarrow> string \<Rightarrow> string \<Rightarrow> gerror + string" where
  "ComposeEntityID X org worldNS template typeSegment inst =
     (let eid = joinWith ''.'' [org, PlatformSegment, worldNS, template, typeSegment, inst] in
      case ValidateEntityID X eid of
        Some e \<Rightarrow> Inl (Wrapf ''composed entity id is not canonical'' e)
      | None \<Rightarrow> Inr eid)"

text \<open>The slice \<^verbatim>\<open>parts[:len(parts)-2]\<close> panics on fewer than two parts.\<close>

definition SiblingTypePrefix :: "ext \<Rightarrow> string \<Rightarrow> string \<Rightarrow> gerror + string" where
  "SiblingTypePrefix X entityID typeSegment =
     (case ValidateEntityID X entityID of
        Some e \<Rightarrow> Inl (Wrapf ''cannot derive a prefix'' e)
      | None \<Rightarrow>
        (case ValidateIDSegment X typeSegment of
           Some e \<Rightarrow> Inl (Wrapf ''cannot derive a sibling prefix'' e)
         | None \<Rightarrow>
           (let parts = splitOn CHR ''.'' entityID in
            if length parts < 2 then Inl (External ''panic: slice bounds out of range'')
            else
              let prefix = joinWith ''.'' (take (length parts - 2) parts @ [typeSegment]) in
              case ValidateEntityIDPrefix X prefix of
                Some e \<Rightarrow> Inl (Wrapf ''prefix is not valid'' e)
              | None \<Rightarrow> Inr prefix)))"

section \<open>Storage references\<close>

definition StorageRefProperty :: string where
  "StorageRefProperty = ''ref''"

definition IsStorageRef :: "ext \<Rightarrow> Predicate \<Rightarrow> bool" where
  "IsStorageRef X p =
     (case ParsePredicate X p of Inl _ \<Rightarrow> False | Inr (_, _, prop) \<Rightarrow> prop = StorageRefProperty)"

definition StorageRefPredicates :: "ext \<Rightarrow> Predicate list" where
  "StorageRefPredicates X = filter (IsStorageRef X) allPredicates"

definition ArtifactSlot :: "ext \<Rightarrow> Predicate \<Rightarrow> gerror + string" where
  "ArtifactSlot X p =
     (case ParsePredicate X p of
        Inl e \<Rightarrow> Inl (Wrapf ''predicate has no artifact slot'' e)
      | Inr (_, category, prop) \<Rightarrow>
          if prop \<noteq> StorageRefProperty then Inl (Errorf ''predicate is not a storage reference'')
          else Inr category)"


section \<open>Facts about the registry\<close>

lemma allPredicates_distinct: "distinct allPredicates"
  by (simp add: allPredicates_def pred_strings)

lemma AttributeForPredicate_Some_iff:
  "AttributeForPredicate p = Some a \<longleftrightarrow> map_of attributePredicates a = Some p"
  by (auto simp: AttributeForPredicate_def attributePredicates_def pred_strings vocab_strings
      split: if_splits)

lemma RelationForPredicate_Some_iff:
  "RelationForPredicate p = Some r \<longleftrightarrow> RelationPredicate r = Some p"
  by (auto simp: RelationForPredicate_def RelationPredicate_def relationPredicates_def
      pred_strings vocab_strings split: if_splits)

lemma find_Some_in: "List.find P xs = Some x \<Longrightarrow> P x \<and> x \<in> set xs"
  by (induction xs) (auto split: if_splits)

text \<open>
  Both reverse lookups range over a Go map, whose order is random. The answer does not depend on
  it: a table with pairwise distinct values finds the same key in every order.
\<close>

lemma find_value_any_order:
  assumes "distinct (map snd al)" and "set al' = set al"
  shows "map_option fst (List.find (\<lambda>(k, q). q = p) al') =
         map_option fst (List.find (\<lambda>(k, q). q = p) al)"
proof (cases "\<exists>k. (k, p) \<in> set al")
  case True
  then obtain k where k: "(k, p) \<in> set al" by blast
  have uniq: "\<And>kv. kv \<in> set al \<Longrightarrow> snd kv = p \<Longrightarrow> kv = (k, p)"
    using assms(1) k by (metis distinct_map inj_onD snd_conv)
  have here: "\<And>xs. set xs = set al \<Longrightarrow> List.find (\<lambda>(k, q). q = p) xs = Some (k, p)"
  proof -
    fix xs assume xs: "set xs = set al"
    obtain y where y: "List.find (\<lambda>(k, q). q = p) xs = Some y"
      using k xs by (cases "List.find (\<lambda>(k, q). q = p) xs") (auto simp: find_None_iff)
    then have "y \<in> set al \<and> snd y = p"
      using xs by (auto dest: find_Some_in split: prod.splits)
    then show "List.find (\<lambda>(k, q). q = p) xs = Some (k, p)" using y uniq by auto
  qed
  show ?thesis using here assms(2) by simp
next
  case False
  then have "List.find (\<lambda>(k, q). q = p) al = None" "List.find (\<lambda>(k, q). q = p) al' = None"
    using assms(2) by (auto simp: find_None_iff)
  then show ?thesis by simp
qed

lemma attributePredicates_values_distinct: "distinct (map snd attributePredicates)"
  by (simp add: attributePredicates_def pred_strings)

lemma relationPredicates_values_distinct: "distinct (map snd relationPredicates)"
  by (simp add: relationPredicates_def pred_strings)

definition writable :: "Predicate \<Rightarrow> bool" where
  "writable p = (AttributeForPredicate p \<noteq> None \<or> p = CharacterStatusCurrent
                  \<or> p = WorldLocationCurrent \<or> RelationForPredicate p \<noteq> None)"

lemma writable_iff:
  "writable p \<longleftrightarrow>
     p \<in> {CharacterAttributeHealth, CharacterAttributeStamina, CharacterAttributeResolve,
          ItemAttributeQuantity, SceneAttributeTension, CharacterStatusCurrent,
          WorldLocationCurrent, WorldRelationAlliedWith, WorldRelationHostileTo,
          WorldRelationKnows, WorldRelationCarries, WorldRelationOwesDebt}"
  by (auto simp: writable_def AttributeForPredicate_def RelationForPredicate_def
      attributePredicates_def relationPredicates_def split: if_splits)

lemma set_EffectWritablePredicateStrings:
  "set EffectWritablePredicateStrings = {p \<in> set allPredicates. writable p}"
  by (auto simp: EffectWritablePredicateStrings_def writable_def)

lemma writable_not_protected: "writable p \<Longrightarrow> \<not> IsProtectedPredicate p"
  by (auto simp: writable_iff IsProtectedPredicate_def immutablePredicates_def pred_strings)

lemma writable_registered: "writable p \<Longrightarrow> p \<in> set allPredicates"
  by (auto simp: writable_iff allPredicates_def)

lemma relation_multi: "RelationForPredicate p \<noteq> None \<Longrightarrow> IsMultiValued p"
  by (simp add: IsMultiValued_def)

lemma writable_not_authored_multi:
  "writable p \<Longrightarrow> p \<notin> {CaseMemberSuspect, CaseMemberEvidence, CaseMemberTimeline,
     EvidenceRevealKindPredicate, EvidenceRevealTarget, LocationRelationConnectsTo}"
  by (auto simp: writable_iff pred_strings)

lemma writable_multi_iff: "writable p \<Longrightarrow> IsMultiValued p \<longleftrightarrow> RelationForPredicate p \<noteq> None"
  using writable_not_authored_multi [of p] by (simp add: IsMultiValued_def)

lemma IsEntityReference_iff: "IsEntityReference p \<longleftrightarrow> p \<in> set (map fst referenceObjectKinds)"
  by (simp add: IsEntityReference_def map_of_eq_None_iff)

lemma RelationForPredicate_iff:
  "RelationForPredicate p \<noteq> None \<longleftrightarrow>
     p \<in> {WorldRelationAlliedWith, WorldRelationHostileTo, WorldRelationKnows,
          WorldRelationCarries, WorldRelationOwesDebt}"
  by (simp add: RelationForPredicate_def relationPredicates_def)

lemma scalar_not_reference:
  "p \<in> {CharacterAttributeHealth, CharacterAttributeStamina, CharacterAttributeResolve,
        ItemAttributeQuantity, SceneAttributeTension, CharacterStatusCurrent} \<Longrightarrow>
   \<not> IsEntityReference p"
  unfolding IsEntityReference_iff referenceObjectKinds_def by (auto simp: pred_strings)

lemma relation_is_reference:
  "p = WorldLocationCurrent \<or> RelationForPredicate p \<noteq> None \<Longrightarrow> IsEntityReference p"
  unfolding IsEntityReference_iff RelationForPredicate_iff referenceObjectKinds_def by auto

lemma writable_reference_iff:
  "writable p \<Longrightarrow> IsEntityReference p \<longleftrightarrow> p = WorldLocationCurrent \<or> RelationForPredicate p \<noteq> None"
  using scalar_not_reference relation_is_reference unfolding writable_iff RelationForPredicate_iff
  by blast

section \<open>The engine's own attribute bounds\<close>

lemma engineAttributeSpecs_eq: "DefaultAttributeSpecs = Inr engineAttributeSpecs"
  by (simp add: DefaultAttributeSpecs_def engineAttributeSpecs_def NewAttributeSpecSet_def
      defaultAttributeBounds_def Attributes_def Attribute_Valid_def attributeEnum_def
      newEnum_def enum_all_def enum_valid_def failIf_def vocab_strings)

lemma AttributeSpecFor_eq:
  "AttributeSpecFor a =
     (case map_of defaultAttributeBounds a of
        None \<Rightarrow> None
      | Some b \<Rightarrow> Some \<lparr>as_Attribute = a, as_Predicate = the (map_of attributePredicates a),
                       as_Min = ab_Min b, as_Max = ab_Max b\<rparr>)"
  by (simp add: AttributeSpecFor_def SpecSet_For_def engineAttributeSpecs_def
      DefaultAttributeSpecs_def NewAttributeSpecSet_def attributePredicates_def
      defaultAttributeBounds_def Attributes_def Attribute_Valid_def attributeEnum_def
      newEnum_def enum_all_def enum_valid_def failIf_def vocab_strings)

lemma CheckAttributeValue_None_iff:
  "CheckAttributeValue a v = None \<longleftrightarrow>
     (\<exists>b. map_of defaultAttributeBounds a = Some b \<and> ab_Min b \<le> v \<and> v \<le> ab_Max b)"
  by (auto simp: CheckAttributeValue_def SpecSet_Check_def InBounds_def
      AttributeSpecFor_eq[unfolded AttributeSpecFor_def] split: option.splits)

lemma AttributeSpecFor_predicate:
  "AttributeSpecFor a = Some spec \<Longrightarrow> AttributeForPredicate (as_Predicate spec) = Some a"
  unfolding AttributeForPredicate_Some_iff AttributeSpecFor_eq
  by (auto simp: defaultAttributeBounds_def attributePredicates_def vocab_strings split: if_splits)

end
