(* ===== verification/Vocab_Resolution.thy ===== *)
theory Vocab_Resolution
  imports Vocab_Predicates
begin

text \<open>
  The tables that sequence and resolve a turn: the phase ranks and edges of \<^verbatim>\<open>phases.go\<close>, the
  mechanic and roll-gate registries of \<^verbatim>\<open>resolution.go\<close>, and the stage artifacts of
  \<^verbatim>\<open>artifacts.go\<close>. The locale \<open>phase_graph\<close> states what a sequencing table promises
  the recorder (ranks grow along edges, terminal phases have no way out, every other phase has
  one) and derives that no run of edges ever returns to a phase it left.
\<close>

section \<open>Phases\<close>

definition phaseRanks :: "(TurnPhase, int) gomap" where
  "phaseRanks = [
     (PhaseAccepted, 0), (PhaseInterpreting, 1), (PhaseAdjudicating, 2), (PhaseResolving, 3),
     (PhaseApplying, 4), (PhaseCompanion, 5), (PhaseNarrating, 6), (PhaseComplete, 7),
     (PhaseFailed, 7)]"

definition phasePredecessors :: "(TurnPhase, TurnPhase list) gomap" where
  "phasePredecessors = [
     (PhaseAccepted, []),
     (PhaseInterpreting, [PhaseAccepted]),
     (PhaseAdjudicating, [PhaseInterpreting]),
     (PhaseResolving, [PhaseAdjudicating]),
     (PhaseApplying, [PhaseAdjudicating, PhaseResolving]),
     (PhaseCompanion, [PhaseApplying]),
     (PhaseNarrating, [PhaseCompanion]),
     (PhaseComplete, [PhaseNarrating]),
     (PhaseFailed, [PhaseAccepted, PhaseInterpreting, PhaseAdjudicating, PhaseResolving,
        PhaseApplying, PhaseCompanion, PhaseNarrating])]"

definition PhaseRank :: "TurnPhase \<Rightarrow> int option" where
  "PhaseRank p = map_of phaseRanks p"

definition PhasePredecessors :: "TurnPhase \<Rightarrow> TurnPhase list option" where
  "PhasePredecessors p =
     (case map_of phaseRanks p of
        None \<Rightarrow> None
      | Some _ \<Rightarrow> Some (case map_of phasePredecessors p of None \<Rightarrow> [] | Some ps \<Rightarrow> ps))"

definition PhaseFollows :: "TurnPhase \<Rightarrow> TurnPhase \<Rightarrow> bool" where
  "PhaseFollows from to =
     List.member (case map_of phasePredecessors to of None \<Rightarrow> [] | Some ps \<Rightarrow> ps) from"

section \<open>Mechanics\<close>

record MechanicSpec =
  ms_Mechanic :: Mechanic
  ms_Dice :: nat
  ms_Faces :: nat
  ms_MaxMissTotal :: int
  ms_MaxPartialTotal :: int

definition BandForTotal :: "MechanicSpec \<Rightarrow> int \<Rightarrow> OutcomeBand" where
  "BandForTotal s tot =
     (if tot \<le> ms_MaxMissTotal s then BandMiss
      else if tot \<le> ms_MaxPartialTotal s then BandPartial
      else BandFull)"

definition MinDiceTotal :: "MechanicSpec \<Rightarrow> nat" where
  "MinDiceTotal s = ms_Dice s"

definition MaxDiceTotal :: "MechanicSpec \<Rightarrow> nat" where
  "MaxDiceTotal s = ms_Dice s * ms_Faces s"

definition ValidDie :: "MechanicSpec \<Rightarrow> int \<Rightarrow> bool" where
  "ValidDie s v = (1 \<le> v \<and> v \<le> int (ms_Faces s))"

definition mechanicSpecs :: "(Mechanic, MechanicSpec) gomap" where
  "mechanicSpecs = [
     (Mechanic2d6PbtaV1,
      \<lparr>ms_Mechanic = Mechanic2d6PbtaV1, ms_Dice = 2, ms_Faces = 6, ms_MaxMissTotal = 6,
       ms_MaxPartialTotal = 9\<rparr>)]"

definition MechanicSpecFor :: "Mechanic \<Rightarrow> gerror + MechanicSpec" where
  "MechanicSpecFor m =
     (case map_of mechanicSpecs m of
        None \<Rightarrow> Inl (UnknownValueError KindMechanic m (enum_strings mechanicEnum))
      | Some spec \<Rightarrow> Inr spec)"

definition MechanicSpecs :: "MechanicSpec list" where
  "MechanicSpecs = List.map_filter (\<lambda>m. map_of mechanicSpecs m) Mechanics"

section \<open>The advisory roll gate\<close>

definition rollGateMappings :: "(RollGateMapping, Plausibility \<Rightarrow> Risk \<Rightarrow> bool) gomap" where
  "rollGateMappings = [
     (RollGateMappingV1,
      \<lambda>p r. (p = PlausibilityUnlikely \<or> p = PlausibilityPlausible) \<and> r \<noteq> RiskNone)]"

definition RollGateMappingVersion :: RollGateMapping where
  "RollGateMappingVersion = RollGateMappingV1"

definition AdviseRollGate :: "RollGateMapping \<Rightarrow> Plausibility \<Rightarrow> Risk \<Rightarrow> gerror + bool" where
  "AdviseRollGate mapping p r =
     (case map_of rollGateMappings mapping of
        None \<Rightarrow> Inl (UnknownValueError KindRollGateMapping mapping (enum_strings rollGateMappingEnum))
      | Some advise \<Rightarrow>
          if \<not> Plausibility_Valid p
          then Inl (UnknownValueError KindPlausibility p (enum_strings plausibilityEnum))
          else if \<not> Risk_Valid r
          then Inl (UnknownValueError KindRisk r (enum_strings riskEnum))
          else Inr (advise p r))"

definition RequiresRoll :: "Plausibility \<Rightarrow> Risk \<Rightarrow> gerror + bool" where
  "RequiresRoll p r = AdviseRollGate RollGateMappingVersion p r"

definition BandsForVerdict :: "bool \<Rightarrow> OutcomeBand list" where
  "BandsForVerdict requiresRoll = (if requiresRoll then RollBands else [BandAuto])"

section \<open>Stage artifacts\<close>

definition stageArtifacts :: "(TurnPhase, Predicate list) gomap" where
  "stageArtifacts = [
     (PhaseAccepted, []),
     (PhaseInterpreting, [TurnCaseDecisionRef]),
     (PhaseAdjudicating, verdictScalarPredicates @ [TurnVerdictRef]),
     (PhaseResolving, rollScalarPredicates @ [TurnRollRef]),
     (PhaseApplying, effectScalarPredicates @ [TurnEffectsRef]),
     (PhaseCompanion, [TurnCompanionStageRef, TurnCompanionDecisionRef]),
     (PhaseNarrating, narrationScalarPredicates @ [TurnNarrationRef]),
     (PhaseComplete, []),
     (PhaseFailed, [])]"

definition stageWitness :: "(TurnPhase, Predicate) gomap" where
  "stageWitness = [
     (PhaseInterpreting, TurnCaseDecisionRef),
     (PhaseAdjudicating, TurnVerdictRef),
     (PhaseResolving, TurnRollRef),
     (PhaseApplying, TurnEffectsBatch),
     (PhaseCompanion, TurnCompanionStageRef),
     (PhaseNarrating, TurnNarrationRef)]"

definition StageArtifacts :: "TurnPhase \<Rightarrow> Predicate list option" where
  "StageArtifacts p = map_of stageArtifacts p"

definition StageWitness :: "TurnPhase \<Rightarrow> Predicate option" where
  "StageWitness p = map_of stageWitness p"

section \<open>The contract of a sequencing table\<close>

locale phase_graph =
  fixes rank :: "'p \<Rightarrow> int option"
    and follows :: "'p \<Rightarrow> 'p \<Rightarrow> bool"
    and terminal :: "'p \<Rightarrow> bool"
  assumes follows_ranks: "follows a b \<Longrightarrow> \<exists>i j. rank a = Some i \<and> rank b = Some j \<and> i < j"
    and terminal_stuck: "terminal a \<Longrightarrow> \<not> follows a b"
    and live_moves: "rank a = Some i \<Longrightarrow> \<not> terminal a \<Longrightarrow> \<exists>b. terminal b \<and> follows a b"
begin

lemma run_ranks:
  "follows\<^sup>+\<^sup>+ a b \<Longrightarrow> \<exists>i j. rank a = Some i \<and> rank b = Some j \<and> i < j"
proof (induction rule: tranclp_induct)
  case (base y)
  then show ?case by (rule follows_ranks)
next
  case (step y z)
  then show ?case using follows_ranks [of y z] by force
qed

lemma no_return: "follows\<^sup>+\<^sup>+ a b \<Longrightarrow> a \<noteq> b"
  using run_ranks by fastforce

lemma terminal_absorbs: "terminal a \<Longrightarrow> follows\<^sup>*\<^sup>* a b \<Longrightarrow> b = a"
  by (metis converse_rtranclpE terminal_stuck)

lemma can_end: "rank a = Some i \<Longrightarrow> \<exists>b. terminal b \<and> follows\<^sup>*\<^sup>* a b"
  using live_moves by (cases "terminal a") blast+

end

lemmas phase_tables = phaseRanks_def phasePredecessors_def

lemma turnPhase_cases:
  assumes "PhaseRank p = Some i"
  obtains "p = PhaseAccepted" "i = 0" | "p = PhaseInterpreting" "i = 1"
    | "p = PhaseAdjudicating" "i = 2" | "p = PhaseResolving" "i = 3" | "p = PhaseApplying" "i = 4"
    | "p = PhaseCompanion" "i = 5" | "p = PhaseNarrating" "i = 6" | "p = PhaseComplete" "i = 7"
    | "p = PhaseFailed" "i = 7"
  using assms by (auto simp: PhaseRank_def phaseRanks_def split: if_splits)

lemma PhaseFollows_iff:
  "PhaseFollows from to \<longleftrightarrow>
     (to = PhaseInterpreting \<and> from = PhaseAccepted)
   \<or> (to = PhaseAdjudicating \<and> from = PhaseInterpreting)
   \<or> (to = PhaseResolving \<and> from = PhaseAdjudicating)
   \<or> (to = PhaseApplying \<and> from \<in> {PhaseAdjudicating, PhaseResolving})
   \<or> (to = PhaseCompanion \<and> from = PhaseApplying)
   \<or> (to = PhaseNarrating \<and> from = PhaseCompanion)
   \<or> (to = PhaseComplete \<and> from = PhaseNarrating)
   \<or> (to = PhaseFailed \<and> from \<in> {PhaseAccepted, PhaseInterpreting, PhaseAdjudicating,
        PhaseResolving, PhaseApplying, PhaseCompanion, PhaseNarrating})"
  by (auto simp: PhaseFollows_def phasePredecessors_def vocab_strings split: if_splits)

interpretation turn_phases: phase_graph PhaseRank PhaseFollows IsTerminal
proof unfold_locales
  fix a b assume "PhaseFollows a b"
  then show "\<exists>i j. PhaseRank a = Some i \<and> PhaseRank b = Some j \<and> i < j"
    unfolding PhaseFollows_iff
    by (elim disjE conjE insertE emptyE) (simp_all add: PhaseRank_def phaseRanks_def vocab_strings)
next
  fix a b assume "IsTerminal a"
  then show "\<not> PhaseFollows a b"
    unfolding PhaseFollows_iff IsTerminal_def by (auto simp: vocab_strings)
next
  fix a i assume a: "PhaseRank a = Some i" and "\<not> IsTerminal a"
  then have "PhaseFollows a PhaseFailed"
    by (cases rule: turnPhase_cases) (simp_all add: PhaseFollows_iff IsTerminal_def)
  moreover have "IsTerminal PhaseFailed" by (simp add: IsTerminal_def)
  ultimately show "\<exists>b. IsTerminal b \<and> PhaseFollows a b" by blast
qed

lemma PhaseRank_Some_iff: "(\<exists>i. PhaseRank p = Some i) \<longleftrightarrow> TurnPhase_Valid p"
  by (auto simp: PhaseRank_def phaseRanks_def TurnPhase_Valid_def enum_valid_def turnPhaseEnum_def
      newEnum_def)

lemma ParseTurnPhase_Inr: "ParseTurnPhase s = Inr p \<longleftrightarrow> p = s \<and> TurnPhase_Valid s"
  by (auto simp: ParseTurnPhase_def TurnPhase_Valid_def enum_parse_def)

text \<open>The happy path reaches \<^verbatim>\<open>complete\<close> from every live phase.\<close>

lemma every_live_phase_can_complete:
  assumes "TurnPhase_Valid p" and "\<not> IsTerminal p"
  shows "PhaseFollows\<^sup>*\<^sup>* p PhaseComplete"
proof -
  have n: "PhaseFollows\<^sup>*\<^sup>* PhaseNarrating PhaseComplete"
    by (intro r_into_rtranclp) (simp add: PhaseFollows_iff)
  have c: "PhaseFollows\<^sup>*\<^sup>* PhaseCompanion PhaseComplete"
    by (rule converse_rtranclp_into_rtranclp [OF _ n]) (simp add: PhaseFollows_iff)
  have ap: "PhaseFollows\<^sup>*\<^sup>* PhaseApplying PhaseComplete"
    by (rule converse_rtranclp_into_rtranclp [OF _ c]) (simp add: PhaseFollows_iff)
  have r: "PhaseFollows\<^sup>*\<^sup>* PhaseResolving PhaseComplete"
    by (rule converse_rtranclp_into_rtranclp [OF _ ap]) (simp add: PhaseFollows_iff)
  have ad: "PhaseFollows\<^sup>*\<^sup>* PhaseAdjudicating PhaseComplete"
    by (rule converse_rtranclp_into_rtranclp [OF _ ap]) (simp add: PhaseFollows_iff)
  have i: "PhaseFollows\<^sup>*\<^sup>* PhaseInterpreting PhaseComplete"
    by (rule converse_rtranclp_into_rtranclp [OF _ ad]) (simp add: PhaseFollows_iff)
  have ac: "PhaseFollows\<^sup>*\<^sup>* PhaseAccepted PhaseComplete"
    by (rule converse_rtranclp_into_rtranclp [OF _ i]) (simp add: PhaseFollows_iff)
  obtain k where "PhaseRank p = Some k" using assms(1) PhaseRank_Some_iff by blast
  then show ?thesis
    using n c ap r ad i ac assms(2)
    by (cases rule: turnPhase_cases) (simp_all add: IsTerminal_def)
qed

lemma MechanicSpecFor_Inr:
  "MechanicSpecFor m = Inr s \<longleftrightarrow> m = Mechanic2d6PbtaV1 \<and>
     s = \<lparr>ms_Mechanic = Mechanic2d6PbtaV1, ms_Dice = 2, ms_Faces = 6, ms_MaxMissTotal = 6,
          ms_MaxPartialTotal = 9\<rparr>"
  by (auto simp: MechanicSpecFor_def mechanicSpecs_def)

end
