(* ===== verification/Payload_Core.thy ===== *)
theory Payload_Core
  imports Vocab_Resolution
begin

text \<open>
  The parts of \<^verbatim>\<open>internal/payload\<close> every payload shares: field requirements
  (\<^verbatim>\<open>constants.go\<close>), the identity of an action and of its turn (\<^verbatim>\<open>playeraction.go\<close>) and the
  projection of a payload onto graph triples (\<^verbatim>\<open>triples.go\<close>). The lemmas say exactly which
  triples a successful projection writes.
\<close>

section \<open>Field requirements\<close>

definition payload_Domain :: string where "payload_Domain = ''semmachina''"
definition SchemaVersion :: string where "SchemaVersion = ''v1''"

definition TurnIDPrefix :: string where "TurnIDPrefix = ''turn-''"

definition MaxActionIDBytes :: "ext \<Rightarrow> nat" where
  "MaxActionIDBytes X = MaxIDSegmentBytes X - length TurnIDPrefix"

definition requireNonEmpty :: "string \<Rightarrow> string \<Rightarrow> gerror option" where
  "requireNonEmpty field v = failIf (v = []) (Errorf (field @ '' is required''))"

definition requireIDSegment :: "ext \<Rightarrow> string \<Rightarrow> string \<Rightarrow> gerror option" where
  "requireIDSegment X field v = wrapErr field (ValidateIDSegment X v)"

definition requireActionID :: "ext \<Rightarrow> string \<Rightarrow> string \<Rightarrow> gerror option" where
  "requireActionID X field v =
     firstErr [
       requireIDSegment X field v,
       failIf (MaxActionIDBytes X < length v) (Errorf (field @ '' would exceed the segment budget''))]"

definition RequireActionID :: "ext \<Rightarrow> string \<Rightarrow> gerror option" where
  "RequireActionID X actionID = requireActionID X ''action_id'' actionID"

definition requireEntityID :: "ext \<Rightarrow> string \<Rightarrow> string \<Rightarrow> gerror option" where
  "requireEntityID X field v =
     firstErr [
       failIf (v = []) (Errorf (field @ '' is required'')),
       wrapErr (field @ '' is not a canonical six-part entity ID'') (ValidateEntityID X v)]"

section \<open>Action and turn identity\<close>

definition TurnIDForAction :: "string \<Rightarrow> string" where
  "TurnIDForAction actionID = (if actionID = [] then [] else TurnIDPrefix @ actionID)"

definition ActionIDForTurn :: "ext \<Rightarrow> string \<Rightarrow> gerror + string" where
  "ActionIDForTurn X turnID =
     (case requireIDSegment X ''turn_id'' turnID of
        Some e \<Rightarrow> Inl e
      | None \<Rightarrow>
        (case cutPrefix turnID TurnIDPrefix of
           None \<Rightarrow> Inl (Errorf ''turn id does not begin with the turn prefix'')
         | Some actionID \<Rightarrow>
           (case requireActionID X ''action_id'' actionID of
              Some e \<Rightarrow> Inl e
            | None \<Rightarrow> Inr actionID)))"

definition RequireTurnEntityID :: "ext \<Rightarrow> string \<Rightarrow> string \<Rightarrow> gerror option" where
  "RequireTurnEntityID X turnID turnEntityID =
     firstErr [
       requireIDSegment X ''turn_id'' turnID,
       requireEntityID X ''turn entity id'' turnEntityID,
       failIf (last (splitOn CHR ''.'' turnEntityID) \<noteq> turnID)
         (Errorf ''turn entity id addresses another turn'')]"

section \<open>Storage references\<close>

definition RefScheme :: string where "RefScheme = ''obj://''"
definition RefSeparator :: char where "RefSeparator = CHR ''/''"

definition RequireStorageRef :: "string \<Rightarrow> string \<Rightarrow> gerror option" where
  "RequireStorageRef field v =
     (case cutPrefix v RefScheme of
        None \<Rightarrow> Some (Errorf (field @ '' is not a storage reference''))
      | Some rest \<Rightarrow>
          (case cutAt rest RefSeparator of
             None \<Rightarrow> Some (Errorf (field @ '' carries no key''))
           | Some (inst, key) \<Rightarrow>
               firstErr [
                 failIf (key = []) (Errorf (field @ '' carries no key'')),
                 failIf (inst = []) (Errorf (field @ '' names no storage instance''))]))"

section \<open>Projection of a payload onto triples\<close>

definition MaxProseBytes :: nat where "MaxProseBytes = 16 * 1024"

definition MaxTripleObjectBytes :: "ext \<Rightarrow> nat" where
  "MaxTripleObjectBytes X = MaxEntityIDBytes X"

text \<open>
  \<open>tp_payload\<close> is \<open>None\<close> for a nil payload and otherwise what its \<^verbatim>\<open>Validate\<close> returns.
\<close>

record tripleProjection =
  tp_payload :: "gerror option option"
  tp_subject :: string
  tp_turnID :: string
  tp_playerSubject :: string
  tp_source :: string
  tp_at :: time
  tp_registered :: "Predicate list"
  tp_objects :: "(Predicate, any) gomap"
  tp_refPredicate :: Predicate
  tp_refName :: string
  tp_ref :: string
  tp_refless :: bool
  tp_scalarless :: bool

definition projection0 :: "gerror option \<Rightarrow> string \<Rightarrow> string \<Rightarrow> string \<Rightarrow> time \<Rightarrow> tripleProjection" where
  "projection0 validated subject turnID source at =
     \<lparr>tp_payload = Some validated, tp_subject = subject, tp_turnID = turnID, tp_playerSubject = [],
      tp_source = source, tp_at = at, tp_registered = [], tp_objects = [], tp_refPredicate = [],
      tp_refName = [], tp_ref = [], tp_refless = False, tp_scalarless = False\<rparr>"

definition checkSubject :: "ext \<Rightarrow> tripleProjection \<Rightarrow> gerror option" where
  "checkSubject X p =
     (if tp_playerSubject p = [] then RequireTurnEntityID X (tp_turnID p) (tp_subject p)
      else firstErr [
        requireIDSegment X ''turn_id'' (tp_turnID p),
        requireEntityID X ''player entity id'' (tp_subject p),
        failIf (tp_subject p \<noteq> tp_playerSubject p)
          (Errorf ''triples land on an entity the payload is not about'')])"

text \<open>The loop over the registered predicates: no duplicate, and a field for each.\<close>

fun checkRegistered :: "(Predicate, any) gomap \<Rightarrow> Predicate list \<Rightarrow> Predicate list \<Rightarrow> gerror option" where
  "checkRegistered objs seen [] = None"
| "checkRegistered objs seen (q # qs) =
     (if List.member seen q then Some (Errorf ''predicate is registered twice'')
      else case map_of objs q of
        None \<Rightarrow> Some (Errorf ''no field supplies registered predicate'')
      | Some _ \<Rightarrow> checkRegistered objs (q # seen) qs)"

definition checkPredicateSet :: "tripleProjection \<Rightarrow> gerror option" where
  "checkPredicateSet p =
     firstErr [
       failIf (tp_scalarless p \<and> tp_refless p)
         (Errorf ''triple projection is both scalar-less and reference-less''),
       (if tp_scalarless p
        then failIf (length (tp_registered p) \<noteq> 0) (Errorf ''scalar-less projection registers predicates'')
        else failIf (length (tp_registered p) = 0) (Errorf ''triple projection registers no predicates'')),
       checkRegistered (tp_objects p) [] (tp_registered p),
       (if tp_refless p
        then failIf (tp_refPredicate p \<noteq> [] \<or> tp_ref p \<noteq> [] \<or> tp_refName p \<noteq> [])
               (Errorf ''reference-less projection carries a reference'')
        else firstErr [
          failIf (tp_refPredicate p = []) (Errorf ''triple projection has no reference predicate''),
          failIf (tp_refName p = []) (Errorf ''reference predicate has no field name''),
          failIf (List.member (tp_registered p) (tp_refPredicate p))
            (Errorf ''reference predicate is also a scalar predicate'')]),
       failIf (length (tp_objects p) \<noteq> length (tp_registered p))
         (Errorf ''triple projection supplies an unregistered predicate'')]"

definition f64_one :: f64 where "f64_one = FFin 1 0"

definition projectionTriple :: "tripleProjection \<Rightarrow> Predicate \<Rightarrow> any \<Rightarrow> Triple" where
  "projectionTriple p predicate object =
     \<lparr>trSubject = tp_subject p, trPredicate = predicate, trObject = object, trSource = tp_source p,
      trTimestamp = tp_at p, trConfidence = f64_one, trContext = tp_turnID p, trDatatype = [],
      trExpiresAt = None\<rparr>"

definition checkTripleObject :: "ext \<Rightarrow> Predicate \<Rightarrow> any \<Rightarrow> gerror option" where
  "checkTripleObject X predicate object =
     (case ParsePredicate X predicate of
        Inl e \<Rightarrow> Some (Wrapf ''predicate would be rejected by the graph write gate'' e)
      | Inr _ \<Rightarrow>
          (case object of
             AString v \<Rightarrow>
               if v = [] then Some (Errorf ''predicate has an empty object'')
               else if MaxTripleObjectBytes X < length v
               then Some (Errorf ''predicate carries an object over the triple-object budget'')
               else if IsStorageRef X predicate
               then RequireStorageRef (''the object of '' @ predicate) v
               else None
           | ABool _ \<Rightarrow>
               failIf (IsStorageRef X predicate) (Errorf ''a storage reference is a pointer'')
           | AInt _ \<Rightarrow>
               failIf (IsStorageRef X predicate) (Errorf ''a storage reference is a pointer'')
           | ANil \<Rightarrow> Some (Errorf ''predicate has no object'')
           | _ \<Rightarrow> Some (Errorf ''only closed-vocabulary scalars may become triples'')))"

text \<open>\<^verbatim>\<open>p.objects[predicate]\<close> of an absent key is nil.\<close>

definition objectAt :: "(Predicate, any) gomap \<Rightarrow> Predicate \<Rightarrow> any" where
  "objectAt objs q = (case map_of objs q of None \<Rightarrow> ANil | Some v \<Rightarrow> v)"

fun projectScalars :: "ext \<Rightarrow> tripleProjection \<Rightarrow> Predicate list \<Rightarrow> gerror + Triple list" where
  "projectScalars X p [] = Inr []"
| "projectScalars X p (q # qs) =
     (case checkTripleObject X q (objectAt (tp_objects p) q) of
        Some e \<Rightarrow> Inl e
      | None \<Rightarrow>
          (case projectScalars X p qs of
             Inl e \<Rightarrow> Inl e
           | Inr ts \<Rightarrow> Inr (projectionTriple p q (objectAt (tp_objects p) q) # ts)))"

definition build :: "ext \<Rightarrow> tripleProjection \<Rightarrow> gerror + Triple list" where
  "build X p =
     (case tp_payload p of
        None \<Rightarrow> Inl (Errorf ''triple projection has no payload to validate'')
      | Some validated \<Rightarrow>
          (case firstErr [
               validated,
               checkSubject X p,
               requireNonEmpty ''triple source'' (tp_source p),
               failIf (time_IsZero (tp_at p)) (Errorf ''triple projection requires a timestamp''),
               checkPredicateSet p,
               (if tp_refless p then None else requireNonEmpty (tp_refName p) (tp_ref p))] of
             Some e \<Rightarrow> Inl e
           | None \<Rightarrow>
               (case projectScalars X p (tp_registered p) of
                  Inl e \<Rightarrow> Inl e
                | Inr ts \<Rightarrow>
                    if tp_refless p then Inr ts
                    else (case checkTripleObject X (tp_refPredicate p) (AString (tp_ref p)) of
                        Some e \<Rightarrow> Inl e
                      | None \<Rightarrow>
                          Inr (ts @ [projectionTriple p (tp_refPredicate p) (AString (tp_ref p))])))))"

section \<open>Identity lemmas\<close>

lemma TurnIDForAction_inject: "TurnIDForAction a = TurnIDForAction b \<longleftrightarrow> a = b"
  by (auto simp: TurnIDForAction_def TurnIDPrefix_def)

text \<open>
  The identity round trip, for a grammar in which a prefixed segment stays a segment
  while it fits.
\<close>

lemma ActionIDForTurn_TurnIDForAction:
  assumes "requireActionID X ''action_id'' a = None"
    and "ValidateEntityIDPrefix X (TurnIDPrefix @ a) = None"
  shows "ActionIDForTurn X (TurnIDForAction a) = Inr a"
proof -
  have a: "a \<noteq> []" "CHR ''.'' \<notin> set a" "length a \<le> MaxActionIDBytes X"
    using assms(1) by (auto simp: requireActionID_def requireIDSegment_def ValidateIDSegment_def)
  then have "length (TurnIDPrefix @ a) \<le> MaxIDSegmentBytes X"
    by (cases a) (auto simp: MaxActionIDBytes_def TurnIDPrefix_def)
  then have "requireIDSegment X ''turn_id'' (TurnIDPrefix @ a) = None"
    using a assms(2)
    by (auto simp: requireIDSegment_def ValidateIDSegment_def TurnIDPrefix_def)
  moreover have "cutPrefix (TurnIDPrefix @ a) TurnIDPrefix = Some a"
    by (simp add: cutPrefix_Some)
  ultimately show ?thesis
    using a assms(1) by (simp add: ActionIDForTurn_def TurnIDForAction_def)
qed

lemma ActionIDForTurn_Inr: "ActionIDForTurn X t = Inr a \<Longrightarrow> t = TurnIDForAction a"
  by (auto simp: ActionIDForTurn_def TurnIDForAction_def cutPrefix_Some requireActionID_def
      requireIDSegment_def ValidateIDSegment_def split: option.splits)

lemma RequireTurnEntityID_None:
  "RequireTurnEntityID X t eid = None \<Longrightarrow>
     eid \<noteq> [] \<and> last (splitOn CHR ''.'' eid) = t \<and> ValidateEntityID X eid = None
     \<and> requireIDSegment X ''turn_id'' t = None"
  by (auto simp: RequireTurnEntityID_def requireEntityID_def)

section \<open>What a projection writes\<close>

lemma checkRegistered_None:
  "checkRegistered objs seen qs = None \<Longrightarrow>
     distinct qs \<and> set qs \<inter> set seen = {} \<and> (\<forall>q \<in> set qs. \<exists>v. map_of objs q = Some v)"
proof (induction qs arbitrary: seen)
  case (Cons q qs)
  then have "\<exists>v. map_of objs q = Some v" "q \<notin> set seen" "checkRegistered objs (q # seen) qs = None"
    by (auto split: if_splits option.splits)
  with Cons.IH [of "q # seen"] show ?case by auto
qed simp

lemma projectScalars_Inr:
  "projectScalars X p qs = Inr ts \<Longrightarrow>
     ts = map (\<lambda>q. projectionTriple p q (objectAt (tp_objects p) q)) qs
     \<and> (\<forall>q \<in> set qs. checkTripleObject X q (objectAt (tp_objects p) q) = None)"
  by (induction qs arbitrary: ts) (auto split: option.splits sum.splits)

definition refTriples :: "tripleProjection \<Rightarrow> Triple list" where
  "refTriples p =
     (if tp_refless p then [] else [projectionTriple p (tp_refPredicate p) (AString (tp_ref p))])"

lemma build_Inr:
  assumes "build X p = Inr ts"
  shows "ts = map (\<lambda>q. projectionTriple p q (objectAt (tp_objects p) q)) (tp_registered p) @ refTriples p"
    and "tp_payload p = Some None"
    and "checkSubject X p = None"
    and "tp_source p \<noteq> []" "\<not> time_IsZero (tp_at p)"
    and "distinct (map trPredicate ts)"
proof -
  obtain v where v: "tp_payload p = Some v"
    using assms by (auto simp: build_def split: option.splits)
  obtain ss where ss: "projectScalars X p (tp_registered p) = Inr ss"
    and first: "v = None" "checkSubject X p = None" "tp_source p \<noteq> []" "\<not> time_IsZero (tp_at p)"
      "checkPredicateSet p = None"
    and ts: "ts = ss @ refTriples p"
    using assms
    by (auto simp: build_def v refTriples_def requireNonEmpty_def
        split: option.splits sum.splits if_splits)
  show eq: "ts = map (\<lambda>q. projectionTriple p q (objectAt (tp_objects p) q)) (tp_registered p) @ refTriples p"
    using ts projectScalars_Inr [OF ss] by simp
  show "tp_payload p = Some None" "checkSubject X p = None" "tp_source p \<noteq> []"
    "\<not> time_IsZero (tp_at p)" using v first by auto
  have "distinct (tp_registered p)"
    using first(5) checkRegistered_None by (auto simp: checkPredicateSet_def)
  moreover have "tp_refless p \<or> tp_refPredicate p \<notin> set (tp_registered p)"
    using first(5) by (auto simp: checkPredicateSet_def)
  ultimately show "distinct (map trPredicate ts)"
    unfolding eq by (auto simp: refTriples_def projectionTriple_def comp_def)
qed

end
