(* ===== verification/Payload_Turn.thy ===== *)
theory Payload_Turn
  imports Payload_Core
begin

text \<open>
  The payloads that start a turn and record its progress: the player's action
  (\<^verbatim>\<open>playeraction.go\<close>), the turn's phase record (\<^verbatim>\<open>turnstate.go\<close>), the two player pointers
  (\<^verbatim>\<open>playerturn.go\<close>, \<^verbatim>\<open>playerresolvedturn.go\<close>), the resume counter
  (\<^verbatim>\<open>turnresume.go\<close>) and the narration pointer (\<^verbatim>\<open>turnnarration.go\<close>): their validators and
  the triples they project to. Each projection is characterised by an exact statement of what it
  writes.
\<close>

section \<open>Schemas\<close>

definition CategoryPlayerAction :: string where "CategoryPlayerAction = ''player_action''"
definition CategoryTurnState :: string where "CategoryTurnState = ''turn_state''"
definition CategoryPlayerTurn :: string where "CategoryPlayerTurn = ''player_turn''"
definition CategoryPlayerResolvedTurn :: string where
  "CategoryPlayerResolvedTurn = ''player_resolved_turn''"
definition CategoryTurnResume :: string where "CategoryTurnResume = ''turn_resume''"
definition CategoryTurnNarration :: string where "CategoryTurnNarration = ''turn_narration''"

definition payloadSchema :: "string \<Rightarrow> MessageType" where
  "payloadSchema category =
     \<lparr>mtDomain = payload_Domain, mtCategory = category, mtVersion = SchemaVersion\<rparr>"

definition PlayerAction_Schema :: MessageType where
  "PlayerAction_Schema = payloadSchema CategoryPlayerAction"

definition TurnState_Schema :: MessageType where
  "TurnState_Schema = payloadSchema CategoryTurnState"

section \<open>The player's action\<close>

definition MaxActionTextBytes :: nat where "MaxActionTextBytes = 4 * 1024"

record ChannelBinding =
  cb_Adapter :: ChannelAdapter
  cb_ReplyTo :: string

definition ChannelBinding_Validate :: "ChannelBinding \<Rightarrow> gerror option" where
  "ChannelBinding_Validate c =
     firstErr [
       errOf (ParseChannelAdapter (cb_Adapter c)),
       requireNonEmpty ''channel.reply_to'' (cb_ReplyTo c)]"

record PlayerAction =
  pa_ActionID :: string
  pa_PlayerID :: string
  pa_CampaignID :: string
  pa_SceneID :: string
  pa_Text :: string
  pa_ArrivedAt :: time
  pa_Channel :: ChannelBinding

definition PlayerAction_Validate :: "ext \<Rightarrow> PlayerAction \<Rightarrow> gerror option" where
  "PlayerAction_Validate X a =
     firstErr [
       requireActionID X ''action_id'' (pa_ActionID a),
       requireEntityID X ''player_id'' (pa_PlayerID a),
       requireEntityID X ''campaign_id'' (pa_CampaignID a),
       requireEntityID X ''scene_id'' (pa_SceneID a),
       requireNonEmpty ''text'' (pa_Text a),
       failIf (MaxActionTextBytes < length (pa_Text a)) (Errorf ''text exceeds the action-text budget''),
       failIf (time_IsZero (pa_ArrivedAt a)) (Errorf ''arrived_at is required''),
       ChannelBinding_Validate (pa_Channel a)]"

section \<open>The phase record\<close>

record TurnState =
  ts_TurnID :: string
  ts_Phase :: TurnPhase
  ts_PlayerID :: string
  ts_SceneID :: string
  ts_ActionRef :: string
  ts_Reason :: FailureReason
  ts_DetailRef :: string

definition TurnState_Validate :: "ext \<Rightarrow> TurnState \<Rightarrow> gerror option" where
  "TurnState_Validate X s =
     firstErr [
       requireIDSegment X ''turn_id'' (ts_TurnID s),
       errOf (ParseTurnPhase (ts_Phase s)),
       (if ts_Phase s = PhaseAccepted
        then firstErr [
          requireEntityID X ''player_id'' (ts_PlayerID s),
          requireEntityID X ''scene_id'' (ts_SceneID s),
          wrapErr ''the player's words are fiction'' (requireNonEmpty ''action_ref'' (ts_ActionRef s))]
        else firstErr [
          failIf (ts_PlayerID s \<noteq> [] \<or> ts_SceneID s \<noteq> [])
            (Errorf ''phase carries a player or scene reference''),
          failIf (ts_ActionRef s \<noteq> []) (Errorf ''phase carries an action reference'')]),
       (if ts_Phase s = PhaseFailed
        then errOf (ParseFailureReason (ts_Reason s))
        else firstErr [
          failIf (ts_Reason s \<noteq> []) (Errorf ''phase carries failure reason''),
          failIf (ts_DetailRef s \<noteq> []) (Errorf ''phase carries a failure detail reference'')])]"

definition TurnState_projection :: "ext \<Rightarrow> TurnState \<Rightarrow> string \<Rightarrow> string \<Rightarrow> time \<Rightarrow> tripleProjection" where
  "TurnState_projection X s turnEntityID source at =
     (let p = projection0 (TurnState_Validate X s) turnEntityID (ts_TurnID s) source at in
      if ts_Phase s = PhaseAccepted
      then p\<lparr>tp_registered := TurnAcceptedPredicates,
             tp_objects := [(TurnPhaseCurrent, AString (ts_Phase s)),
                            (TurnActionPlayer, AString (ts_PlayerID s)),
                            (TurnActionScene, AString (ts_SceneID s))],
             tp_refPredicate := TurnActionRef,
             tp_refName := ''action ref'',
             tp_ref := ts_ActionRef s\<rparr>
      else if ts_Phase s = PhaseFailed
      then (let q = p\<lparr>tp_registered := TurnFailurePredicates,
                      tp_objects := [(TurnPhaseCurrent, AString (ts_Phase s)),
                                     (TurnFailureReason, AString (ts_Reason s))]\<rparr> in
            if ts_DetailRef s = [] then q\<lparr>tp_refless := True\<rparr>
            else q\<lparr>tp_refPredicate := TurnFailureRef, tp_refName := ''failure detail ref'',
                   tp_ref := ts_DetailRef s\<rparr>)
      else p\<lparr>tp_registered := TurnPhasePredicates,
             tp_objects := [(TurnPhaseCurrent, AString (ts_Phase s))],
             tp_refless := True\<rparr>)"

definition TurnState_Triples :: "ext \<Rightarrow> TurnState \<Rightarrow> string \<Rightarrow> string \<Rightarrow> time \<Rightarrow> gerror + Triple list" where
  "TurnState_Triples X s turnEntityID source at = build X (TurnState_projection X s turnEntityID source at)"

section \<open>The player's pointers\<close>

record PlayerTurn =
  pt_PlayerID :: string
  pt_TurnID :: string
  pt_TurnEntityID :: string

definition PlayerTurn_Validate :: "ext \<Rightarrow> PlayerTurn \<Rightarrow> gerror option" where
  "PlayerTurn_Validate X p =
     firstErr [
       requireEntityID X ''player_id'' (pt_PlayerID p),
       RequireTurnEntityID X (pt_TurnID p) (pt_TurnEntityID p)]"

definition PlayerTurn_Triples :: "ext \<Rightarrow> PlayerTurn \<Rightarrow> string \<Rightarrow> string \<Rightarrow> time \<Rightarrow> gerror + Triple list" where
  "PlayerTurn_Triples X p playerEntityID source at =
     build X ((projection0 (PlayerTurn_Validate X p) playerEntityID (pt_TurnID p) source at)
       \<lparr>tp_playerSubject := pt_PlayerID p,
        tp_registered := PlayerTurnPredicates,
        tp_objects := [(PlayerTurnCurrent, AString (pt_TurnEntityID p))],
        tp_refless := True\<rparr>)"

record PlayerResolvedTurn =
  prt_PlayerID :: string
  prt_TurnID :: string
  prt_TurnEntityID :: string

definition PlayerResolvedTurn_Validate :: "ext \<Rightarrow> PlayerResolvedTurn \<Rightarrow> gerror option" where
  "PlayerResolvedTurn_Validate X p =
     firstErr [
       requireEntityID X ''player_id'' (prt_PlayerID p),
       RequireTurnEntityID X (prt_TurnID p) (prt_TurnEntityID p)]"

definition PlayerResolvedTurn_Triples ::
    "ext \<Rightarrow> PlayerResolvedTurn \<Rightarrow> string \<Rightarrow> string \<Rightarrow> time \<Rightarrow> gerror + Triple list" where
  "PlayerResolvedTurn_Triples X p playerEntityID source at =
     build X ((projection0 (PlayerResolvedTurn_Validate X p) playerEntityID (prt_TurnID p) source at)
       \<lparr>tp_playerSubject := prt_PlayerID p,
        tp_registered := PlayerResolvedTurnPredicates,
        tp_objects := [(PlayerTurnResolved, AString (prt_TurnEntityID p))],
        tp_refless := True\<rparr>)"

section \<open>The resume counter\<close>

text \<open>Go's \<^verbatim>\<open>int\<close> is 64-bit here, so the conversions between \<^verbatim>\<open>int\<close> and \<^verbatim>\<open>int64\<close> are exact.\<close>

definition wholeInt :: "any \<Rightarrow> int option" where
  "wholeInt object =
     (case object of
        AInt value \<Rightarrow> Some value
      | AInt64 value \<Rightarrow> Some value
      | AFloat64 value \<Rightarrow> floatToInt value
      | ANumber value \<Rightarrow> parseInt64 value
      | _ \<Rightarrow> None)"

definition ResumeAttemptsFromTriples :: "Triple list \<Rightarrow> gerror + int" where
  "ResumeAttemptsFromTriples triples =
     (case objectsIn triples TurnResumeAttempts of
        [] \<Rightarrow> Inr 0
      | [object] \<Rightarrow>
          (case wholeInt object of
             None \<Rightarrow> Inl (Errorf ''want a whole number of attempts'')
           | Some attempts \<Rightarrow>
               if attempts < 1 then Inl (Errorf ''a persisted count must be positive'')
               else Inr attempts)
      | _ \<Rightarrow> Inl (Errorf ''holds several values for the single-valued predicate''))"

record TurnResume =
  tu_TurnID :: string
  tu_Attempts :: int

definition TurnResume_Validate :: "ext \<Rightarrow> TurnResume \<Rightarrow> gerror option" where
  "TurnResume_Validate X r =
     firstErr [
       requireIDSegment X ''turn_id'' (tu_TurnID r),
       failIf (tu_Attempts r < 1) (Errorf ''turn records resume attempts below one'')]"

definition TurnResume_Triples :: "ext \<Rightarrow> TurnResume \<Rightarrow> string \<Rightarrow> string \<Rightarrow> time \<Rightarrow> gerror + Triple list" where
  "TurnResume_Triples X r turnEntityID source at =
     build X ((projection0 (TurnResume_Validate X r) turnEntityID (tu_TurnID r) source at)
       \<lparr>tp_registered := TurnResumePredicates,
        tp_objects := [(TurnResumeAttempts, AInt (tu_Attempts r))],
        tp_refless := True\<rparr>)"

section \<open>The narration pointer\<close>

record TurnNarration =
  tn_TurnID :: string
  tn_NarrationRef :: string

definition TurnNarration_Validate :: "ext \<Rightarrow> TurnNarration \<Rightarrow> gerror option" where
  "TurnNarration_Validate X n =
     firstErr [
       requireIDSegment X ''turn_id'' (tn_TurnID n),
       requireNonEmpty ''narration ref'' (tn_NarrationRef n)]"

definition TurnNarration_Triples ::
    "ext \<Rightarrow> TurnNarration \<Rightarrow> string \<Rightarrow> string \<Rightarrow> time \<Rightarrow> gerror + Triple list" where
  "TurnNarration_Triples X n turnEntityID source at =
     build X ((projection0 (TurnNarration_Validate X n) turnEntityID (tn_TurnID n) source at)
       \<lparr>tp_registered := NarrationScalarPredicates,
        tp_scalarless := True,
        tp_refPredicate := TurnNarrationRef,
        tp_refName := ''narration ref'',
        tp_ref := tn_NarrationRef n\<rparr>)"

section \<open>What the records write\<close>

lemmas turn_groups =
  TurnAcceptedPredicates_def turnAcceptedPredicates_def TurnFailurePredicates_def
  turnFailurePredicates_def TurnPhasePredicates_def turnPhasePredicates_def
  PlayerTurnPredicates_def playerTurnPredicates_def PlayerResolvedTurnPredicates_def
  playerResolvedTurnPredicates_def TurnResumePredicates_def turnResumePredicates_def
  NarrationScalarPredicates_def narrationScalarPredicates_def

text \<open>The triple a projection writes for a record, by its coordinates.\<close>

definition recordTriple :: "string \<Rightarrow> string \<Rightarrow> string \<Rightarrow> time \<Rightarrow> Predicate \<Rightarrow> any \<Rightarrow> Triple" where
  "recordTriple subject turnID source at predicate object =
     \<lparr>trSubject = subject, trPredicate = predicate, trObject = object, trSource = source,
      trTimestamp = at, trConfidence = f64_one, trContext = turnID, trDatatype = [],
      trExpiresAt = None\<rparr>"

lemma projectionTriple_eq:
  "projectionTriple p q v = recordTriple (tp_subject p) (tp_turnID p) (tp_source p) (tp_at p) q v"
  by (simp add: projectionTriple_def recordTriple_def)

lemma recordTriple_fields [simp]:
  "trSubject (recordTriple s t src at q v) = s" "trPredicate (recordTriple s t src at q v) = q"
  "trObject (recordTriple s t src at q v) = v" "trSource (recordTriple s t src at q v) = src"
  "trContext (recordTriple s t src at q v) = t"
  by (simp_all add: recordTriple_def)

lemma turn_predicates_distinct [simp]:
  "TurnPhaseCurrent \<noteq> TurnActionPlayer" "TurnPhaseCurrent \<noteq> TurnActionScene"
  "TurnActionPlayer \<noteq> TurnActionScene" "TurnPhaseCurrent \<noteq> TurnFailureReason"
  "TurnActionPlayer \<noteq> TurnPhaseCurrent" "TurnActionScene \<noteq> TurnPhaseCurrent"
  "TurnActionScene \<noteq> TurnActionPlayer" "TurnFailureReason \<noteq> TurnPhaseCurrent"
  by (simp_all add: pred_strings)

lemma phase_names_distinct [simp]:
  "PhaseAccepted \<noteq> PhaseFailed" "PhaseFailed \<noteq> PhaseAccepted"
  by (simp_all add: vocab_strings)

definition TurnState_fields :: "TurnState \<Rightarrow> (Predicate \<times> any) list" where
  "TurnState_fields s =
     (TurnPhaseCurrent, AString (ts_Phase s)) #
     (if ts_Phase s = PhaseAccepted
      then [(TurnActionPlayer, AString (ts_PlayerID s)), (TurnActionScene, AString (ts_SceneID s)),
            (TurnActionRef, AString (ts_ActionRef s))]
      else if ts_Phase s = PhaseFailed
      then (TurnFailureReason, AString (ts_Reason s)) #
        (if ts_DetailRef s = [] then [] else [(TurnFailureRef, AString (ts_DetailRef s))])
      else [])"

lemma TurnState_Triples_Inr:
  assumes "TurnState_Triples X s eid source at = Inr ts"
  shows "ts = map (\<lambda>(q, v). recordTriple eid (ts_TurnID s) source at q v) (TurnState_fields s)"
    and "TurnState_Validate X s = None"
    and "RequireTurnEntityID X (ts_TurnID s) eid = None"
    and "distinct (map trPredicate ts)"
    and "source \<noteq> []" and "at \<noteq> 0"
proof -
  note b = build_Inr [OF assms [unfolded TurnState_Triples_def]]
  have v: "tp_payload (TurnState_projection X s eid source at) = Some (TurnState_Validate X s)"
    and p: "tp_playerSubject (TurnState_projection X s eid source at) = []"
    and f: "tp_subject (TurnState_projection X s eid source at) = eid"
      "tp_turnID (TurnState_projection X s eid source at) = ts_TurnID s"
      "tp_source (TurnState_projection X s eid source at) = source"
      "tp_at (TurnState_projection X s eid source at) = at"
    by (simp_all add: TurnState_projection_def projection0_def Let_def)
  show "TurnState_Validate X s = None" using b(2) v by simp
  show "RequireTurnEntityID X (ts_TurnID s) eid = None"
    using b(3) by (simp add: checkSubject_def p f)
  show "distinct (map trPredicate ts)" by (fact b(6))
  show "source \<noteq> []" "at \<noteq> 0" using b(4,5) f by (simp_all add: time_IsZero_def)
  show "ts = map (\<lambda>(q, v). recordTriple eid (ts_TurnID s) source at q v) (TurnState_fields s)"
    unfolding b(1) projectionTriple_eq refTriples_def f
    by (simp add: TurnState_projection_def projection0_def Let_def turn_groups objectAt_def
        TurnState_fields_def)
qed

lemma playerSubject_projection_Inr:
  assumes "build X ((projection0 v eid turnID source at)
      \<lparr>tp_playerSubject := player, tp_registered := [q], tp_objects := [(q, AString tgt)],
       tp_refless := True\<rparr>) = Inr ts"
    and "player \<noteq> []"
  shows "v = None" "eid = player" "ts = [recordTriple eid turnID source at q (AString tgt)]"
    and "source \<noteq> []" and "at \<noteq> 0"
  using build_Inr [OF assms(1)] assms(2)
  by (simp_all add: projection0_def checkSubject_def refTriples_def projectionTriple_eq objectAt_def
      time_IsZero_def)

lemma PlayerTurn_Triples_Inr:
  assumes "PlayerTurn_Triples X p eid source at = Inr ts" and "pt_PlayerID p \<noteq> []"
  shows "PlayerTurn_Validate X p = None" and "eid = pt_PlayerID p"
    and "ts = [recordTriple eid (pt_TurnID p) source at PlayerTurnCurrent (AString (pt_TurnEntityID p))]"
  using playerSubject_projection_Inr
    [OF assms(1) [unfolded PlayerTurn_Triples_def PlayerTurnPredicates_def playerTurnPredicates_def] assms(2)]
  by simp_all

lemma PlayerResolvedTurn_Triples_Inr:
  assumes "PlayerResolvedTurn_Triples X p eid source at = Inr ts" and "prt_PlayerID p \<noteq> []"
  shows "PlayerResolvedTurn_Validate X p = None" and "eid = prt_PlayerID p"
    and "ts = [recordTriple eid (prt_TurnID p) source at PlayerTurnResolved (AString (prt_TurnEntityID p))]"
  using playerSubject_projection_Inr
    [OF assms(1) [unfolded PlayerResolvedTurn_Triples_def PlayerResolvedTurnPredicates_def playerResolvedTurnPredicates_def] assms(2)]
  by simp_all

text \<open>
  A counter survives the graph: reading back the triples of a valid resume record gives the
  count that was written, whatever else the turn entity holds.
\<close>

lemma ResumeAttempts_roundtrip:
  assumes "TurnResume_Triples X r eid source at = Inr ts"
    and "objectsIn others TurnResumeAttempts = []"
  shows "ResumeAttemptsFromTriples (others @ ts) = Inr (tu_Attempts r)"
proof -
  note b = build_Inr [OF assms(1) [unfolded TurnResume_Triples_def]]
  have "TurnResume_Validate X r = None" using b(2) by (simp add: projection0_def)
  then have "1 \<le> tu_Attempts r" by (simp add: TurnResume_Validate_def)
  moreover have "objectsIn ts TurnResumeAttempts = [AInt (tu_Attempts r)]"
    unfolding b(1)
    by (simp add: projection0_def refTriples_def projectionTriple_eq turn_groups objectAt_def)
  ultimately show ?thesis
    using assms(2) by (simp add: ResumeAttemptsFromTriples_def wholeInt_def)
qed

lemma ResumeAttemptsFromTriples_nonneg:
  "ResumeAttemptsFromTriples ts = Inr n \<Longrightarrow> 0 \<le> n"
  by (auto simp: ResumeAttemptsFromTriples_def split: list.splits option.splits if_splits)

end
