(* ===== verification/Projection_Contract.thy ===== *)
theory Projection_Contract
  imports Payload_Core
begin

text \<open>
  \<^verbatim>\<open>internal/projectioncontract/contracts.go\<close>: the projection contracts the mutation client is
  built with. A contract names the predicates an entity is born with and the groups of predicates
  a reconcile replaces as a whole. The lemmas show what the effect applier relies on: every
  predicate an effect may write belongs to exactly one group of the effect contract, and no group
  of a turn's state or of an effect's target shares a predicate with a sibling.
\<close>

record Target =
  tg_Contract :: string
  tg_Group :: string

datatype ProjectionMode = ModeReconcile

record PredicateGroup =
  pg_Name :: string
  pg_Mode :: ProjectionMode
  pg_Predicates :: "string list"

record Contract =
  co_Name :: string
  co_MessageType :: string
  co_EntityPattern :: string
  co_BirthPredicates :: "string list"
  co_Groups :: "PredicateGroup list"

section \<open>Names\<close>

named_theorems contract_names \<open>literal names of the contracts\<close>

definition CampaignBirthContract :: string where [contract_names]: "CampaignBirthContract = ''campaign-birth''"
definition CampaignStateContract :: string where [contract_names]: "CampaignStateContract = ''campaign-state''"
definition TurnBirthContract :: string where [contract_names]: "TurnBirthContract = ''turn-birth''"
definition TurnStateContract :: string where [contract_names]: "TurnStateContract = ''turn-state''"
definition TurnCompanionTriggerContract :: string where
  [contract_names]: "TurnCompanionTriggerContract = ''turn-companion-trigger''"
definition TurnCompanionResultContract :: string where
  [contract_names]: "TurnCompanionResultContract = ''turn-companion-result''"
definition PlayerStateContract :: string where [contract_names]: "PlayerStateContract = ''player-state''"
definition CompanionBondContract :: string where [contract_names]: "CompanionBondContract = ''companion-bond''"
definition CaseLifecycleContract :: string where [contract_names]: "CaseLifecycleContract = ''case-lifecycle''"
definition EffectTargetContract :: string where
  [contract_names]: "EffectTargetContract = ''effect-target-state''"
definition KnowledgeBirthContract :: string where
  [contract_names]: "KnowledgeBirthContract = ''knowledge-birth''"
definition RevelationBirthContract :: string where
  [contract_names]: "RevelationBirthContract = ''revelation-birth''"

definition target :: "string \<Rightarrow> string \<Rightarrow> Target" where
  "target contract grp = \<lparr>tg_Contract = contract, tg_Group = grp\<rparr>"

named_theorems target_names \<open>the reconcile targets\<close>

definition CampaignImport :: Target where [target_names]: "CampaignImport = target CampaignStateContract ''import''"
definition TurnPhaseState :: Target where [target_names]: "TurnPhaseState = target TurnStateContract ''phase-state''"
definition TurnAccusation :: Target where [target_names]: "TurnAccusation = target TurnStateContract ''accusation''"
definition TurnCaseProgress :: Target where
  [target_names]: "TurnCaseProgress = target TurnStateContract ''case-progress''"
definition TurnKnowledge :: Target where [target_names]: "TurnKnowledge = target TurnStateContract ''knowledge''"
definition TurnNarrationGroup :: Target where
  [target_names]: "TurnNarrationGroup = target TurnStateContract ''narration''"
definition TurnResumeGroup :: Target where [target_names]: "TurnResumeGroup = target TurnStateContract ''resume''"
definition TurnCaseDecision :: Target where
  [target_names]: "TurnCaseDecision = target TurnStateContract ''case-decision''"
definition TurnVerdict :: Target where [target_names]: "TurnVerdict = target TurnStateContract ''verdict''"
definition TurnRoll :: Target where [target_names]: "TurnRoll = target TurnStateContract ''roll''"
definition TurnEffectMarker :: Target where
  [target_names]: "TurnEffectMarker = target TurnStateContract ''effect-marker''"
definition TurnCompanionTrigger :: Target where
  [target_names]: "TurnCompanionTrigger = target TurnCompanionTriggerContract ''trigger''"
definition TurnCompanionResult :: Target where
  [target_names]: "TurnCompanionResult = target TurnCompanionResultContract ''result''"
definition PlayerCurrentTurn :: Target where
  [target_names]: "PlayerCurrentTurn = target PlayerStateContract ''current-turn''"
definition PlayerResolvedTurnGroup :: Target where
  [target_names]: "PlayerResolvedTurnGroup = target PlayerStateContract ''resolved-turn''"
definition CompanionBondHint :: Target where [target_names]: "CompanionBondHint = target CompanionBondContract ''hint''"
definition CaseLifecycleReceipt :: Target where
  [target_names]: "CaseLifecycleReceipt = target CaseLifecycleContract ''lifecycle-receipt''"
definition EffectTargetAttributes :: Target where
  [target_names]: "EffectTargetAttributes = target EffectTargetContract ''attributes''"
definition EffectTargetStatus :: Target where
  [target_names]: "EffectTargetStatus = target EffectTargetContract ''status''"
definition EffectTargetLocation :: Target where
  [target_names]: "EffectTargetLocation = target EffectTargetContract ''location''"
definition EffectTargetRelationships :: Target where
  [target_names]: "EffectTargetRelationships = target EffectTargetContract ''relationships''"

section \<open>Groups and contracts\<close>

definition group :: "string \<Rightarrow> Predicate list \<Rightarrow> PredicateGroup" where
  "group name predicates = \<lparr>pg_Name = name, pg_Mode = ModeReconcile, pg_Predicates = predicates\<rparr>"

definition EffectTargetForPredicate :: "Predicate \<Rightarrow> Target option" where
  "EffectTargetForPredicate predicate =
     (case AttributeForPredicate predicate of
        Some _ \<Rightarrow> Some EffectTargetAttributes
      | None \<Rightarrow>
        (case RelationForPredicate predicate of
           Some _ \<Rightarrow> Some EffectTargetRelationships
         | None \<Rightarrow>
             if predicate = CharacterStatusCurrent then Some EffectTargetStatus
             else if predicate = WorldLocationCurrent then Some EffectTargetLocation
             else None))"

text \<open>
  The Go loop appends each world-fact predicate to the list of its target; the list a target ends
  with is the sublist of the predicates routed to it.
\<close>

definition effectTargetGroups :: "PredicateGroup list" where
  "effectTargetGroups =
     map (\<lambda>t. group (tg_Group t) (filter (\<lambda>p. EffectTargetForPredicate p = Some t) WorldFactPredicates))
       [EffectTargetAttributes, EffectTargetStatus, EffectTargetLocation, EffectTargetRelationships]"

definition birthContract :: "string \<Rightarrow> string \<Rightarrow> string \<Rightarrow> Predicate list \<Rightarrow> Contract" where
  "birthContract name ty pattern birth =
     \<lparr>co_Name = name, co_MessageType = ty, co_EntityPattern = pattern, co_BirthPredicates = birth,
      co_Groups = []\<rparr>"

definition stateContract :: "string \<Rightarrow> string \<Rightarrow> string \<Rightarrow> PredicateGroup list \<Rightarrow> Contract" where
  "stateContract name ty pattern grps =
     \<lparr>co_Name = name, co_MessageType = ty, co_EntityPattern = pattern, co_BirthPredicates = [],
      co_Groups = grps\<rparr>"

definition contractType :: "string \<Rightarrow> string" where
  "contractType category = payload_Domain @ ''.'' @ category @ ''.'' @ SchemaVersion"

definition Contracts :: "Contract list" where
  "Contracts =
     (let turnPattern = ''*.semmachina.*.*.turn.*'';
          worldType = contractType ''world_entity'';
          turnType = contractType ''turn_state'';
          campaignType = contractType ''campaign_entity''
      in [
        birthContract CampaignBirthContract campaignType ''*.semmachina.*.*.campaign.*''
          [CampaignSeedValue, CampaignExperiencePersonaPack, CampaignExperienceMechanicsPack],
        stateContract CampaignStateContract campaignType ''*.semmachina.*.*.campaign.*''
          [group ''import'' [CampaignImportCompleted]],
        birthContract TurnBirthContract turnType turnPattern
          [TurnPhaseCurrent, TurnActionPlayer, TurnActionScene, TurnActionRef],
        stateContract TurnStateContract turnType turnPattern [
          group ''phase-state'' [TurnPhaseCurrent, TurnFailureReason, TurnFailureRef],
          group ''accusation'' [TurnAccusationRef],
          group ''case-progress'' [TurnCaseProgressRef],
          group ''knowledge'' [TurnKnowledgeRef],
          group ''narration'' [TurnNarrationRef],
          group ''resume'' [TurnResumeAttempts],
          group ''case-decision'' [TurnCaseDecisionRef, TurnCaseDecisionKind],
          group ''verdict'' [TurnVerdictPlausibility, TurnVerdictRisk, TurnVerdictConsequence,
            TurnVerdictRequiresRoll, TurnVerdictRef],
          group ''roll'' [TurnRollBand, TurnRollTotal, TurnRollRef],
          group ''effect-marker'' [TurnEffectsBatch, TurnEffectsRef]],
        stateContract TurnCompanionTriggerContract turnType turnPattern
          [group ''trigger'' [TurnCompanionTriggerKind, TurnCompanionTriggerSource]],
        stateContract TurnCompanionResultContract turnType turnPattern
          [group ''result'' [TurnCompanionStageRef, TurnCompanionTriggerKind,
             TurnCompanionTriggerSource, TurnCompanionDecisionRef]],
        stateContract PlayerStateContract worldType ''*.semmachina.*.*.player.*''
          [group ''current-turn'' [PlayerTurnCurrent], group ''resolved-turn'' [PlayerTurnResolved]],
        stateContract CompanionBondContract worldType ''*.semmachina.*.*.companion-bond.*''
          [group ''hint'' [CompanionBondHintLevel]],
        stateContract CaseLifecycleContract worldType ''*.semmachina.*.*.case.*''
          [group ''lifecycle-receipt'' [CaseLifecycleEventID, CaseLifecycleEventKindPredicate,
             CaseLifecycleFromPhase, CaseLifecycleToPhase]],
        stateContract EffectTargetContract worldType ''*.semmachina.*.*.*.*'' effectTargetGroups,
        birthContract KnowledgeBirthContract (contractType ''knowledge_grant_entity'')
          ''*.semmachina.*.*.knowledge.*''
          [WorldEntityKind, KnowledgeActorHolder, KnowledgeEvidenceRef],
        birthContract RevelationBirthContract (contractType ''revelation_receipt_entity'')
          ''*.semmachina.*.*.revelation.*''
          [WorldEntityKind, RevelationEvidenceRef, RevelationActorHolder, RevelationTurnID,
           RevelationSourceActor, RevelationTestimonyRef]])"

fun findGroup :: "PredicateGroup list \<Rightarrow> string \<Rightarrow> string list option" where
  "findGroup [] name = None"
| "findGroup (g # gs) name = (if pg_Name g = name then Some (pg_Predicates g) else findGroup gs name)"

fun predicatesLoop :: "Contract list \<Rightarrow> Target \<Rightarrow> string list" where
  "predicatesLoop [] t = []"
| "predicatesLoop (c # cs) t =
     (if co_Name c \<noteq> tg_Contract t then predicatesLoop cs t
      else case findGroup (co_Groups c) (tg_Group t) of
        Some ps \<Rightarrow> ps
      | None \<Rightarrow> predicatesLoop cs t)"

definition Predicates :: "Target \<Rightarrow> string list" where
  "Predicates t = predicatesLoop Contracts t"

definition BirthPredicates :: "string \<Rightarrow> string list" where
  "BirthPredicates name =
     (case List.find (\<lambda>c. co_Name c = name) Contracts of
        None \<Rightarrow> []
      | Some c \<Rightarrow> co_BirthPredicates c)"

section \<open>What each group holds\<close>

lemmas contract_tables = Contracts_def birthContract_def stateContract_def group_def target_def Let_def

lemma Predicates_turn:
  "Predicates TurnPhaseState = [TurnPhaseCurrent, TurnFailureReason, TurnFailureRef]"
  "Predicates TurnEffectMarker = [TurnEffectsBatch, TurnEffectsRef]"
  "Predicates TurnRoll = [TurnRollBand, TurnRollTotal, TurnRollRef]"
  "Predicates PlayerCurrentTurn = [PlayerTurnCurrent]"
  "Predicates PlayerResolvedTurnGroup = [PlayerTurnResolved]"
  by (simp_all add: Predicates_def contract_tables target_names contract_names)

lemma Predicates_effect_contract:
  "tg_Contract t = EffectTargetContract \<Longrightarrow>
     Predicates t = (case findGroup effectTargetGroups (tg_Group t) of Some ps \<Rightarrow> ps | None \<Rightarrow> [])"
  by (simp add: Predicates_def contract_tables contract_names split: option.split)

lemma effect_target_fields:
  "tg_Contract EffectTargetAttributes = EffectTargetContract" "tg_Group EffectTargetAttributes = ''attributes''"
  "tg_Contract EffectTargetStatus = EffectTargetContract" "tg_Group EffectTargetStatus = ''status''"
  "tg_Contract EffectTargetLocation = EffectTargetContract" "tg_Group EffectTargetLocation = ''location''"
  "tg_Contract EffectTargetRelationships = EffectTargetContract"
  "tg_Group EffectTargetRelationships = ''relationships''"
  by (simp_all add: target_names target_def)

lemma Predicates_effect_eq:
  assumes "t \<in> {EffectTargetAttributes, EffectTargetStatus, EffectTargetLocation, EffectTargetRelationships}"
  shows "Predicates t = filter (\<lambda>p. EffectTargetForPredicate p = Some t) WorldFactPredicates"
proof -
  have c: "tg_Contract t = EffectTargetContract" using assms effect_target_fields by auto
  have "findGroup effectTargetGroups (tg_Group t) =
      Some (filter (\<lambda>p. EffectTargetForPredicate p = Some t) WorldFactPredicates)"
    using assms by (elim insertE emptyE) (simp_all add: effectTargetGroups_def group_def effect_target_fields)
  then show ?thesis by (simp add: Predicates_effect_contract [OF c])
qed

lemma EffectTargetForPredicate_cases:
  assumes "EffectTargetForPredicate p = Some t"
  shows "t \<in> {EffectTargetAttributes, EffectTargetStatus, EffectTargetLocation, EffectTargetRelationships}"
    and "writable p"
  using assms by (auto simp: EffectTargetForPredicate_def writable_def split: option.splits if_splits)

lemma EffectTargetForPredicate_total: "writable p \<Longrightarrow> \<exists>t. EffectTargetForPredicate p = Some t"
  by (auto simp: EffectTargetForPredicate_def writable_def split: option.splits)

lemma set_Predicates_effect:
  assumes "t \<in> {EffectTargetAttributes, EffectTargetStatus, EffectTargetLocation, EffectTargetRelationships}"
  shows "p \<in> set (Predicates t) \<longleftrightarrow> p \<in> set WorldFactPredicates \<and> EffectTargetForPredicate p = Some t"
  by (simp add: Predicates_effect_eq [OF assms])

lemma writable_world_fact: "writable p \<Longrightarrow> p \<in> set WorldFactPredicates"
proof -
  assume "writable p"
  moreover have "writable p \<Longrightarrow> p \<in> set (map fst worldFactSubjectKinds)"
    unfolding writable_iff worldFactSubjectKinds_def by auto
  ultimately show ?thesis
    using writable_registered by (auto simp: WorldFactPredicates_def map_of_eq_None_iff)
qed

text \<open>The effect groups partition the writable predicates.\<close>

lemma effect_group_member:
  "EffectTargetForPredicate p = Some t \<Longrightarrow> p \<in> set (Predicates t)"
  using EffectTargetForPredicate_cases [of p t]
  by (auto simp: set_Predicates_effect intro: writable_world_fact)

lemma effect_group_writable:
  assumes "EffectTargetForPredicate q = Some t" and "p \<in> set (Predicates t)"
  shows "EffectTargetForPredicate p = Some t" and "writable p"
  using assms EffectTargetForPredicate_cases [of q t] EffectTargetForPredicate_cases(2) [of p t]
  by (auto simp: set_Predicates_effect)

text \<open>
  The lists of the groups the engine writes, as an equation evaluation uses.
\<close>

lemma writable_predicates: "filter writable allPredicates =
  [CharacterStatusCurrent, WorldLocationCurrent, CharacterAttributeHealth, CharacterAttributeStamina, CharacterAttributeResolve, ItemAttributeQuantity, SceneAttributeTension, WorldRelationAlliedWith, WorldRelationHostileTo, WorldRelationKnows, WorldRelationCarries, WorldRelationOwesDebt]"
  by (simp add: allPredicates_def writable_iff pred_strings)

lemma filter_refine: "(\<And>x. P x \<Longrightarrow> Q x) \<Longrightarrow> filter P xs = filter P (filter Q xs)"
  by (induction xs) auto

lemma effect_predicates:
  "filter (\<lambda>p. EffectTargetForPredicate p = Some t) WorldFactPredicates =
   filter (\<lambda>p. EffectTargetForPredicate p = Some t) (filter writable allPredicates)"
proof -
  have "filter (\<lambda>p. EffectTargetForPredicate p = Some t) WorldFactPredicates =
      filter (\<lambda>p. EffectTargetForPredicate p = Some t) (filter writable WorldFactPredicates)"
    by (rule filter_refine) (rule EffectTargetForPredicate_cases(2))
  moreover have "filter writable WorldFactPredicates = filter writable allPredicates"
    unfolding WorldFactPredicates_def filter_filter
    using writable_world_fact by (intro filter_cong) (auto simp: WorldFactPredicates_def)
  ultimately show ?thesis by simp
qed

lemma EffectTargetForPredicate_names:
  "EffectTargetForPredicate CharacterStatusCurrent = Some EffectTargetStatus"
  "EffectTargetForPredicate WorldLocationCurrent = Some EffectTargetLocation"
  "EffectTargetForPredicate CharacterAttributeHealth = Some EffectTargetAttributes"
  "EffectTargetForPredicate CharacterAttributeStamina = Some EffectTargetAttributes"
  "EffectTargetForPredicate CharacterAttributeResolve = Some EffectTargetAttributes"
  "EffectTargetForPredicate ItemAttributeQuantity = Some EffectTargetAttributes"
  "EffectTargetForPredicate SceneAttributeTension = Some EffectTargetAttributes"
  "EffectTargetForPredicate WorldRelationAlliedWith = Some EffectTargetRelationships"
  "EffectTargetForPredicate WorldRelationHostileTo = Some EffectTargetRelationships"
  "EffectTargetForPredicate WorldRelationKnows = Some EffectTargetRelationships"
  "EffectTargetForPredicate WorldRelationCarries = Some EffectTargetRelationships"
  "EffectTargetForPredicate WorldRelationOwesDebt = Some EffectTargetRelationships"
  by (simp_all add: EffectTargetForPredicate_def AttributeForPredicate_def RelationForPredicate_def
      attributePredicates_def relationPredicates_def pred_strings)

lemma effect_targets_distinct [simp]:
  "EffectTargetAttributes \<noteq> EffectTargetStatus" "EffectTargetStatus \<noteq> EffectTargetAttributes"
  "EffectTargetAttributes \<noteq> EffectTargetLocation" "EffectTargetLocation \<noteq> EffectTargetAttributes"
  "EffectTargetAttributes \<noteq> EffectTargetRelationships" "EffectTargetRelationships \<noteq> EffectTargetAttributes"
  "EffectTargetStatus \<noteq> EffectTargetLocation" "EffectTargetLocation \<noteq> EffectTargetStatus"
  "EffectTargetStatus \<noteq> EffectTargetRelationships" "EffectTargetRelationships \<noteq> EffectTargetStatus"
  "EffectTargetLocation \<noteq> EffectTargetRelationships" "EffectTargetRelationships \<noteq> EffectTargetLocation"
  by (simp_all add: target_names target_def)

lemma Predicates_effect:
  "Predicates EffectTargetAttributes = [CharacterAttributeHealth, CharacterAttributeStamina,
     CharacterAttributeResolve, ItemAttributeQuantity, SceneAttributeTension]"
  "Predicates EffectTargetStatus = [CharacterStatusCurrent]"
  "Predicates EffectTargetLocation = [WorldLocationCurrent]"
  "Predicates EffectTargetRelationships = [WorldRelationAlliedWith, WorldRelationHostileTo,
     WorldRelationKnows, WorldRelationCarries, WorldRelationOwesDebt]"
  by (simp_all add: Predicates_effect_eq effect_predicates writable_predicates
      EffectTargetForPredicate_names)

lemma effectTargetGroups_code [code]:
  "effectTargetGroups = [
     group (tg_Group EffectTargetAttributes) [CharacterAttributeHealth, CharacterAttributeStamina,
       CharacterAttributeResolve, ItemAttributeQuantity, SceneAttributeTension],
     group (tg_Group EffectTargetStatus) [CharacterStatusCurrent],
     group (tg_Group EffectTargetLocation) [WorldLocationCurrent],
     group (tg_Group EffectTargetRelationships) [WorldRelationAlliedWith, WorldRelationHostileTo,
       WorldRelationKnows, WorldRelationCarries, WorldRelationOwesDebt]]"
  by (simp add: effectTargetGroups_def effect_predicates writable_predicates EffectTargetForPredicate_names)

lemma Predicates_code [code]:
  "Predicates t =
     (if t = EffectTargetStatus then [CharacterStatusCurrent]
      else if t = EffectTargetLocation then [WorldLocationCurrent]
      else if t = EffectTargetAttributes then [CharacterAttributeHealth, CharacterAttributeStamina,
        CharacterAttributeResolve, ItemAttributeQuantity, SceneAttributeTension]
      else if t = EffectTargetRelationships then [WorldRelationAlliedWith, WorldRelationHostileTo,
        WorldRelationKnows, WorldRelationCarries, WorldRelationOwesDebt]
      else if t = TurnEffectMarker then [TurnEffectsBatch, TurnEffectsRef]
      else if t = TurnPhaseState then [TurnPhaseCurrent, TurnFailureReason, TurnFailureRef]
      else if t = PlayerCurrentTurn then [PlayerTurnCurrent]
      else if t = PlayerResolvedTurnGroup then [PlayerTurnResolved]
      else predicatesLoop Contracts t)"
  by (simp add: Predicates_effect Predicates_turn) (simp add: Predicates_def)

lemma BirthPredicates_code [code]:
  "BirthPredicates name =
     (if name = TurnBirthContract then [TurnPhaseCurrent, TurnActionPlayer, TurnActionScene, TurnActionRef]
      else if name = CampaignBirthContract
      then [CampaignSeedValue, CampaignExperiencePersonaPack, CampaignExperienceMechanicsPack]
      else if name = KnowledgeBirthContract
      then [WorldEntityKind, KnowledgeActorHolder, KnowledgeEvidenceRef]
      else if name = RevelationBirthContract
      then [WorldEntityKind, RevelationEvidenceRef, RevelationActorHolder, RevelationTurnID,
           RevelationSourceActor, RevelationTestimonyRef]
      else [])"
  by (simp add: BirthPredicates_def contract_tables contract_names)

end
