(* ===== verification/Graphio.thy ===== *)
theory Graphio
  imports Payload_Turn Projection_Contract "HOL-Library.Multiset" "HOL-Library.List_Lexorder"
    "HOL-Library.Char_ord"
begin

text \<open>
  \<^verbatim>\<open>internal/graphio\<close>: the engine's client for the graph. Its operations (\<^verbatim>\<open>store.go\<close>) call
  the SemStreams mutation client, which is not part of the program: it is the record
  \<open>MutationClient\<close> of the three calls the store makes, over an arbitrary world. The locale
  \<open>mutation_client\<close> states what the SemStreams documentation promises of them, over the
  authoritative state \<open>ents\<close> of the world: reads change nothing, a create is atomic
  create-or-fail, a reconcile makes one predicate group equal the desired facts and leaves every
  other fact alone, and a call that reports failure did all of its work or none. The locale
  \<open>graph_store\<close> is what the store promises the engine, and the sublocale proof shows that the
  store's error handling (conflict mapping, commit-unknown rereads) delivers it.
\<close>

section \<open>Messages of the mutation client\<close>

record MutationMetadata =
  md_RequestID :: string
  md_Source :: string
  md_Timestamp :: time

record CreateMutation =
  cm_Contract :: string
  cm_Entity :: EntityState
  cm_Triples :: "Triple list"
  cm_Metadata :: MutationMetadata

record ReconcileMutation =
  rm_Contract :: string
  rm_Group :: string
  rm_EntityID :: string
  rm_Desired :: "Triple list"

record MutationReceipt =
  re_Entity :: "EntityState option"
  re_KVRevision :: nat

record ExactEntity =
  ex_Entity :: "EntityState option"
  ex_KVRevision :: nat

record 'w MutationClient =
  mc_Create :: "CreateMutation \<Rightarrow> ('w, MutationReceipt) M"
  mc_Reconcile :: "ReconcileMutation \<Rightarrow> ('w, MutationReceipt) M"
  mc_ReadAuthoritative :: "string \<Rightarrow> ('w, ExactEntity option) M"

section \<open>Classification of errors\<close>

definition mutationErrorOf :: "gerror \<Rightarrow> (mutation_kind \<times> commit_state) option" where
  "mutationErrorOf err =
     errors_As (\<lambda>e. case e of MutationError k c \<Rightarrow> Some (k, c) | _ \<Rightarrow> None) err"

definition mutationKind :: "gerror \<Rightarrow> mutation_kind option" where
  "mutationKind err = map_option fst (mutationErrorOf err)"

definition codeOf :: "gerror \<Rightarrow> string" where
  "codeOf err =
     (case errors_As (\<lambda>e. case e of ClassifiedError c \<Rightarrow> Some c | _ \<Rightarrow> None) err of
        Some code \<Rightarrow> code
      | None \<Rightarrow> [])"

definition isRevisionConflict :: "gerror \<Rightarrow> bool" where
  "isRevisionConflict err = (mutationErrorOf err = Some (MutationRevisionConflict, CommitNotCommitted))"

section \<open>Retries\<close>

definition revisionConflictAttempts :: nat where "revisionConflictAttempts = 4"

text \<open>
  \<open>ctxErr\<close> is what \<^verbatim>\<open>ctx.Err()\<close> returns before each attempt; \<open>lastErr\<close> is the
  error of the previous attempt.
\<close>

fun retryLoop :: "(nat \<Rightarrow> gerror option) \<Rightarrow> ('w, unit) M \<Rightarrow> nat \<Rightarrow> nat \<Rightarrow> gerror option \<Rightarrow> ('w, unit) M" where
  "retryLoop ctxErr operation attempt 0 lastErr =
     (case lastErr of None \<Rightarrow> ret () | Some e \<Rightarrow> throw e)"
| "retryLoop ctxErr operation attempt (Suc n) lastErr =
     checkM (ctxErr attempt)
       (tryM operation (\<lambda>r. case r of
          Inr _ \<Rightarrow> ret ()
        | Inl e \<Rightarrow> if isRevisionConflict e then retryLoop ctxErr operation (Suc attempt) n (Some e)
                   else throw e))"

definition RetryRevisionConflict :: "(nat \<Rightarrow> gerror option) \<Rightarrow> ('w, unit) M \<Rightarrow> ('w, unit) M" where
  "RetryRevisionConflict ctxErr operation = retryLoop ctxErr operation 0 revisionConflictAttempts None"

section \<open>Matching what the graph holds\<close>

definition f64IsNaN :: "f64 \<Rightarrow> bool" where
  "f64IsNaN v = (v = FNaN)"

definition f64IsOne :: "f64 \<Rightarrow> bool" where
  "f64IsOne v = (case v of FFin m e \<Rightarrow> integralDyadic m e \<and> truncDyadic m e = 1 | _ \<Rightarrow> False)"

text \<open>\<^verbatim>\<open>reflect.DeepEqual\<close> on two triples: NaN differs from itself.\<close>

definition tripleDeepEqual :: "Triple \<Rightarrow> Triple \<Rightarrow> bool" where
  "tripleDeepEqual a b =
     (a = b \<and> \<not> f64IsNaN (trConfidence a) \<and> trObject a \<noteq> AFloat64 FNaN)"

definition triplesEqual :: "ext \<Rightarrow> Triple list \<Rightarrow> Triple list \<Rightarrow> bool" where
  "triplesEqual X resident desired =
     list_all2 tripleDeepEqual (sort_key (MarshalTriple X) resident) (sort_key (MarshalTriple X) desired)"

definition groupMatches :: "ext \<Rightarrow> EntityState option \<Rightarrow> Triple list \<Rightarrow> string list \<Rightarrow> bool" where
  "groupMatches X state desired predicates =
     (case state of
        None \<Rightarrow> False
      | Some st \<Rightarrow>
          length predicates \<noteq> 0 \<and>
          triplesEqual X (filter (\<lambda>t. List.member predicates (trPredicate t)) (esTriples st)) desired)"

definition createEnvelopeMatches :: "EntityState option \<Rightarrow> EntityState option \<Rightarrow> bool" where
  "createEnvelopeMatches got want =
     (case (got, want) of
        (Some g, Some v) \<Rightarrow>
          esID g = esID v \<and> esMessageType g = esMessageType v \<and> esStorageRef g = esStorageRef v
          \<and> (if esVersion v = 0 then esVersion g = 1 else esVersion g = esVersion v)
          \<and> (if time_IsZero (esUpdatedAt v) then \<not> time_IsZero (esUpdatedAt g)
             else esUpdatedAt g = esUpdatedAt v)
      | _ \<Rightarrow> False)"

definition indexingFactValid :: "ext \<Rightarrow> string \<Rightarrow> Triple \<Rightarrow> bool" where
  "indexingFactValid X gotID triple =
     (trSubject triple = gotID \<and> trSource triple = ''graph-ingest-indexing-profile''
      \<and> \<not> time_IsZero (trTimestamp triple) \<and> f64IsOne (trConfidence triple)
      \<and> trContext triple = [] \<and> trDatatype triple = [] \<and> trExpiresAt triple = None
      \<and> (case asString (trObject triple) of None \<Rightarrow> False | Some profile \<Rightarrow> IsValidIndexingProfile X profile))"

text \<open>
  The loop over the stored triples: it fails on a second or an invalid indexing fact and collects
  the others. The result is the resident facts and the count of indexing facts.
\<close>

fun birthLoop :: "ext \<Rightarrow> string \<Rightarrow> nat \<Rightarrow> Triple list \<Rightarrow> (Triple list \<times> nat) option" where
  "birthLoop X gotID n [] = Some ([], n)"
| "birthLoop X gotID n (t # ts) =
     (if trPredicate t = EntityIndexingProfile X
      then (if n + 1 \<noteq> 1 \<or> \<not> indexingFactValid X gotID t then None
            else birthLoop X gotID (n + 1) ts)
      else map_option (\<lambda>(rs, m). (t # rs, m)) (birthLoop X gotID n ts))"

definition birthMatches :: "ext \<Rightarrow> EntityState option \<Rightarrow> EntityState option \<Rightarrow> Triple list \<Rightarrow> string list \<Rightarrow> bool" where
  "birthMatches X got want desired predicates =
     (createEnvelopeMatches got want
      \<and> (\<forall>t \<in> set desired. List.member predicates (trPredicate t))
      \<and> (case got of
           None \<Rightarrow> False
         | Some g \<Rightarrow>
             (case birthLoop X (esID g) 0 (esTriples g) of
                None \<Rightarrow> False
              | Some (resident, n) \<Rightarrow> n = 1 \<and> triplesEqual X resident desired)))"

section \<open>The store\<close>

record CreateResult =
  cr_Entity :: "EntityState option"
  cr_Revision :: nat

definition createMetadata :: "string \<Rightarrow> Triple list \<Rightarrow> MutationMetadata" where
  "createMetadata entityID triples =
     (case triples of
        [] \<Rightarrow> \<lparr>md_RequestID = entityID, md_Source = ''semmachina-create'', md_Timestamp = 0\<rparr>
      | t # _ \<Rightarrow> \<lparr>md_RequestID = entityID, md_Source = trSource t, md_Timestamp = trTimestamp t\<rparr>)"

definition CreateEntity :: "ext \<Rightarrow> 'w MutationClient \<Rightarrow> string \<Rightarrow> EntityState option \<Rightarrow> ('w, CreateResult) M" where
  "CreateEntity X mutations contract entity =
     (case entity of
        None \<Rightarrow> throw (Errorf ''create requires an entity'')
      | Some ent \<Rightarrow>
        checkM (wrapErr ''create entity'' (ValidateEntityStateContract X ent))
        (if contract = [] then throw (Errorf ''create requires a projection contract'')
         else
           let triples = map (\<lambda>t. t\<lparr>trContext := esID ent\<rparr>) (esTriples ent);
               bare = ent\<lparr>esTriples := []\<rparr>
           in tryM (mc_Create mutations
                 \<lparr>cm_Contract = contract, cm_Entity = bare, cm_Triples = triples,
                  cm_Metadata = createMetadata (esID ent) triples\<rparr>)
              (\<lambda>r. case r of
                 Inr receipt \<Rightarrow> ret \<lparr>cr_Entity = re_Entity receipt, cr_Revision = re_KVRevision receipt\<rparr>
               | Inl err \<Rightarrow>
                   if mutationKind err = Some MutationConflict
                   then throw (Wrapf2 ''create entity'' ErrEntityExists err)
                   else if mutationKind err = Some MutationCommitUnknown
                   then tryM (mc_ReadAuthoritative mutations (esID ent)) (\<lambda>rd. case rd of
                          Inr (Some exact) \<Rightarrow>
                            if birthMatches X (ex_Entity exact) (Some bare) triples (BirthPredicates contract)
                            then ret \<lparr>cr_Entity = ex_Entity exact, cr_Revision = ex_KVRevision exact\<rparr>
                            else throw (Wrapf ''create entity'' err)
                        | _ \<Rightarrow> throw (Wrapf ''create entity'' err))
                   else throw (Wrapf ''create entity'' err))))"

definition GetEntity :: "ext \<Rightarrow> 'w MutationClient \<Rightarrow> string \<Rightarrow> ('w, EntityState) M" where
  "GetEntity X mutations eid =
     (if eid = [] then throw (Errorf ''get requires an entity id'')
      else tryM (mc_ReadAuthoritative mutations eid) (\<lambda>r. case r of
          Inl err \<Rightarrow>
            if mutationKind err = Some MutationNotFound \<or> codeOf err = ErrorCodeEntityNotFound X
            then throw (Wrapf2 ''get entity'' ErrEntityNotFound err)
            else throw (Wrapf ''get entity'' err)
        | Inr exact \<Rightarrow>
            (case exact of
               None \<Rightarrow> throw (Errorf ''get entity: invalid exact authority response'')
             | Some ex \<Rightarrow>
                 (case ex_Entity ex of
                    None \<Rightarrow> throw (Errorf ''get entity: invalid exact authority response'')
                  | Some ent \<Rightarrow>
                      if ex_KVRevision ex = 0
                      then throw (Errorf ''get entity: invalid exact authority response'')
                      else ret ent))))"

definition Reconcile ::
    "ext \<Rightarrow> 'w MutationClient \<Rightarrow> Target \<Rightarrow> string \<Rightarrow> Triple list \<Rightarrow> ('w, EntityState) M" where
  "Reconcile X mutations tgt entityID desired =
     (if entityID = [] then throw (Errorf ''reconcile requires an entity id'')
      else if tg_Contract tgt = [] \<or> tg_Group tgt = []
      then throw (Errorf ''reconcile requires a projection contract and group'')
      else tryM (mc_Reconcile mutations
             \<lparr>rm_Contract = tg_Contract tgt, rm_Group = tg_Group tgt, rm_EntityID = entityID,
              rm_Desired = desired\<rparr>)
        (\<lambda>r. case r of
           Inl err \<Rightarrow>
             if mutationKind err = Some MutationNotFound
             then throw (Wrapf2 ''reconcile'' ErrEntityNotFound err)
             else if mutationKind err = Some MutationCommitUnknown
             then tryM (mc_ReadAuthoritative mutations entityID) (\<lambda>rd. case rd of
                    Inr (Some exact) \<Rightarrow>
                      if groupMatches X (ex_Entity exact) desired (Predicates tgt)
                      then (case ex_Entity exact of
                              Some ent \<Rightarrow> ret ent
                            | None \<Rightarrow> throw (Wrapf ''reconcile'' err))
                      else throw (Wrapf ''reconcile'' err)
                  | _ \<Rightarrow> throw (Wrapf ''reconcile'' err))
             else throw (Wrapf ''reconcile'' err)
         | Inr receipt \<Rightarrow>
             (case re_Entity receipt of
                None \<Rightarrow> throw (Errorf ''reconcile returned no entity'')
              | Some ent \<Rightarrow> ret ent)))"

section \<open>Queries\<close>

text \<open>
  The query operations send one encoded request and decode one reply. A requester is the calls they
  make with the codecs applied: the outer error is the transport's, the inner one the decoder's.
\<close>

record MissingEntity =
  me_ID :: string
  me_Reason :: string

record EntityBatchResponse =
  br_Entities :: "EntityState list"
  br_Missing :: "MissingEntity list"

record IncomingEntry =
  ie_Predicate :: string
  ie_FromEntityID :: string

record 'w Requester =
  rq_Batch :: "string list \<Rightarrow> ('w, gerror + EntityBatchResponse) M"
  rq_Prefix :: "string \<Rightarrow> string \<Rightarrow> int \<Rightarrow> ('w, gerror + (EntityState list \<times> string)) M"
  rq_Incoming :: "string \<Rightarrow> ('w, gerror + IncomingEntry list) M"
  rq_PredicateValue :: "string \<Rightarrow> string \<Rightarrow> int \<Rightarrow> ('w, gerror + string list) M"

text \<open>The loop that reports every requested id the reply does not account for.\<close>

fun unaccounted :: "ext \<Rightarrow> string list \<Rightarrow> string list \<Rightarrow> MissingEntity list" where
  "unaccounted X accounted [] = []"
| "unaccounted X accounted (i # ids) =
     (if List.member accounted i then unaccounted X accounted ids
      else \<lparr>me_ID = i, me_Reason = MissingUnknown X\<rparr> # unaccounted X (i # accounted) ids)"

definition GetEntities :: "ext \<Rightarrow> 'w Requester \<Rightarrow> string list \<Rightarrow> ('w, EntityBatchResponse) M" where
  "GetEntities X rq ids =
     (if ids = [] then ret \<lparr>br_Entities = [], br_Missing = []\<rparr>
      else bindM (mapErr (Wrapf ''batch query'') (rq_Batch rq ids)) (\<lambda>reply.
        bindM (mapErr (Wrapf ''decode batch query response'') (liftR reply)) (\<lambda>response.
        checkM (ValidateDecodedEntityStates X (br_Entities response))
          (ret (let accounted = map esID (br_Entities response) @ map me_ID (br_Missing response)
                in response\<lparr>br_Missing := br_Missing response @ unaccounted X accounted ids\<rparr>)))))"

definition EntitiesWithPrefix ::
    "ext \<Rightarrow> 'w Requester \<Rightarrow> string \<Rightarrow> string \<Rightarrow> int \<Rightarrow> ('w, EntityState list \<times> string) M" where
  "EntitiesWithPrefix X rq prefix cursor limit =
     (if prefix = [] then throw (Errorf ''prefix query requires a prefix'')
      else bindM (mapErr (Wrapf ''prefix query'') (rq_Prefix rq prefix cursor limit)) (\<lambda>reply.
        bindM (mapErr (Wrapf ''decode prefix query response'') (liftR reply)) (\<lambda>(entities, nextCursor).
        checkM (ValidateDecodedEntityStates X entities) (ret (entities, nextCursor)))))"

definition IncomingRelationships :: "ext \<Rightarrow> 'w Requester \<Rightarrow> string \<Rightarrow> ('w, IncomingEntry list) M" where
  "IncomingRelationships X rq entityID =
     (if entityID = [] then throw (Errorf ''incoming query requires an entity id'')
      else bindM (mapErr (\<lambda>err.
              if codeOf err = ErrorCodeIndexNotReady X then Wrapf2 ''incoming edges'' ErrIndexNotReady err
              else Wrapf ''incoming edges'' err) (rq_Incoming rq entityID)) (\<lambda>reply.
        mapErr (Wrapf ''decode incoming edges'') (liftR reply)))"

definition EntitiesByPredicateValue ::
    "'w Requester \<Rightarrow> string \<Rightarrow> string \<Rightarrow> int \<Rightarrow> ('w, string list) M" where
  "EntitiesByPredicateValue rq predicate v limit =
     (if predicate = [] then throw (Errorf ''predicate-value query requires a predicate'')
      else if v = [] then throw (Errorf ''predicate-value query requires a value'')
      else if limit \<le> 0 then throw (Errorf ''predicate-value query requires a positive limit'')
      else bindM (mapErr (Wrapf ''predicate-value query'') (rq_PredicateValue rq predicate v limit)) (\<lambda>reply.
        bindM (mapErr (Wrapf ''decode predicate-value query'') (liftR reply)) (\<lambda>entities.
        if limit < int (length entities)
        then throw (Errorf ''predicate-value query returned too many entities'')
        else ret entities)))"

section \<open>The interfaces\<close>

text \<open>
  What a graph write is about: the multiset of objects an entity holds for a predicate. Sources,
  timestamps and contexts are provenance and may be normalised by the graph.
\<close>

definition fact :: "Triple \<Rightarrow> string \<times> any" where
  "fact t = (trPredicate t, trObject t)"

definition facts :: "Triple list \<Rightarrow> (string \<times> any) multiset" where
  "facts ts = image_mset fact (mset ts)"

definition reconciled :: "string list \<Rightarrow> Triple list \<Rightarrow> EntityState \<Rightarrow> EntityState \<Rightarrow> bool" where
  "reconciled G desired e e' =
     (esID e' = esID e \<and> esMessageType e' = esMessageType e
      \<and> filter_mset (\<lambda>f. fst f \<notin> set G) (facts (esTriples e')) =
        filter_mset (\<lambda>f. fst f \<notin> set G) (facts (esTriples e))
      \<and> filter_mset (\<lambda>f. fst f \<in> set G) (facts (esTriples e')) = facts desired)"

definition born :: "ext \<Rightarrow> EntityState \<Rightarrow> EntityState \<Rightarrow> bool" where
  "born X ent e' =
     (esID e' = esID ent \<and> esMessageType e' = esMessageType ent
      \<and> filter_mset (\<lambda>f. fst f \<noteq> EntityIndexingProfile X) (facts (esTriples e')) = facts (esTriples ent))"

text \<open>No error of the library carries the sentinels that the store itself adds.\<close>

definition foreign :: "gerror \<Rightarrow> bool" where
  "foreign err = (\<not> errors_Is err ErrEntityNotFound \<and> \<not> errors_Is err ErrEntityExists)"

locale mutation_client =
  fixes X :: ext
    and c :: "'w MutationClient"
    and ents :: "'w \<Rightarrow> string \<Rightarrow> EntityState option"
  assumes read_frame: "mc_ReadAuthoritative c i w = (r, w') \<Longrightarrow> ents w' = ents w"
    and read_ok:
      "mc_ReadAuthoritative c i w = (Inr (Some x), w') \<Longrightarrow> ex_Entity x = Some e \<Longrightarrow> ents w i = Some e"
    and read_absent:
      "mc_ReadAuthoritative c i w = (Inl err, w') \<Longrightarrow>
         mutationKind err = Some MutationNotFound \<or> codeOf err = ErrorCodeEntityNotFound X \<Longrightarrow>
         ents w i = None"
    and read_foreign: "mc_ReadAuthoritative c i w = (Inl err, w') \<Longrightarrow> foreign err"
    and reconcile_done:
      "mc_Reconcile c m w = (Inr rc, w') \<Longrightarrow>
         \<exists>e e'. ents w (rm_EntityID m) = Some e
           \<and> reconciled (Predicates (target (rm_Contract m) (rm_Group m))) (rm_Desired m) e e'
           \<and> ents w' = (ents w)(rm_EntityID m \<mapsto> e')
           \<and> (re_Entity rc = None \<or> re_Entity rc = Some e')"
    and reconcile_failed:
      "mc_Reconcile c m w = (Inl err, w') \<Longrightarrow>
         ents w' = ents w \<or>
         (\<exists>e e'. ents w (rm_EntityID m) = Some e
           \<and> reconciled (Predicates (target (rm_Contract m) (rm_Group m))) (rm_Desired m) e e'
           \<and> ents w' = (ents w)(rm_EntityID m \<mapsto> e'))"
    and reconcile_not_committed:
      "mc_Reconcile c m w = (Inl err, w') \<Longrightarrow>
         mutationErrorOf err = Some (k, CommitNotCommitted) \<Longrightarrow> ents w' = ents w"
    and create_done:
      "mc_Create c b w = (Inr rc, w') \<Longrightarrow>
         ents w (esID (cm_Entity b)) = None
         \<and> (\<exists>e'. born X ((cm_Entity b)\<lparr>esTriples := cm_Triples b\<rparr>) e'
              \<and> ents w' = (ents w)(esID (cm_Entity b) \<mapsto> e')
              \<and> (re_Entity rc = None \<or> re_Entity rc = Some e'))"
    and create_failed:
      "mc_Create c b w = (Inl err, w') \<Longrightarrow>
         ents w' = ents w \<or>
         (ents w (esID (cm_Entity b)) = None
          \<and> (\<exists>e'. born X ((cm_Entity b)\<lparr>esTriples := cm_Triples b\<rparr>) e'
               \<and> ents w' = (ents w)(esID (cm_Entity b) \<mapsto> e')))"
    and create_conflict:
      "mc_Create c b w = (Inl err, w') \<Longrightarrow> mutationKind err = Some MutationConflict \<Longrightarrow>
         ents w' = ents w \<and> ents w (esID (cm_Entity b)) \<noteq> None"
    and create_foreign: "mc_Create c b w = (Inl err, w') \<Longrightarrow> foreign err"
    and validate_foreign: "ValidateEntityStateContract X ent = Some err \<Longrightarrow> foreign err"

text \<open>The store operations the engine's components are given.\<close>

record 'w GraphStore =
  gs_CreateEntity :: "string \<Rightarrow> EntityState option \<Rightarrow> ('w, CreateResult) M"
  gs_GetEntity :: "string \<Rightarrow> ('w, EntityState) M"
  gs_Reconcile :: "Target \<Rightarrow> string \<Rightarrow> Triple list \<Rightarrow> ('w, EntityState) M"

definition graphioStore :: "ext \<Rightarrow> 'w MutationClient \<Rightarrow> 'w GraphStore" where
  "graphioStore X c =
     \<lparr>gs_CreateEntity = CreateEntity X c, gs_GetEntity = GetEntity X c, gs_Reconcile = Reconcile X c\<rparr>"

locale graph_store =
  fixes X :: ext
    and S :: "'w GraphStore"
    and ents :: "'w \<Rightarrow> string \<Rightarrow> EntityState option"
  assumes get_frame: "gs_GetEntity S i w = (r, w') \<Longrightarrow> ents w' = ents w"
    and get_ok: "gs_GetEntity S i w = (Inr e, w') \<Longrightarrow> ents w i = Some e"
    and get_absent:
      "gs_GetEntity S i w = (Inl err, w') \<Longrightarrow> errors_Is err ErrEntityNotFound \<Longrightarrow> ents w i = None"
    and put_ok:
      "gs_Reconcile S t i ds w = (Inr e', w') \<Longrightarrow>
         \<exists>e. ents w i = Some e \<and> reconciled (Predicates t) ds e e' \<and> ents w' = (ents w)(i \<mapsto> e')"
    and put_failed:
      "gs_Reconcile S t i ds w = (Inl err, w') \<Longrightarrow>
         ents w' = ents w \<or>
         (\<exists>e e'. ents w i = Some e \<and> reconciled (Predicates t) ds e e' \<and> ents w' = (ents w)(i \<mapsto> e'))"
    and birth_ok:
      "gs_CreateEntity S ct (Some ent) w = (Inr res, w') \<Longrightarrow>
         (\<exists>e'. born X ent e' \<and> ents w' = (ents w)(esID ent \<mapsto> e')
           \<and> (cr_Entity res = None \<or> cr_Entity res = Some e')
           \<and> (ents w (esID ent) = None \<or> ents w (esID ent) = Some e'))"
    and birth_failed:
      "gs_CreateEntity S ct (Some ent) w = (Inl err, w') \<Longrightarrow>
         ents w' = ents w \<or>
         (ents w (esID ent) = None \<and> (\<exists>e'. born X ent e' \<and> ents w' = (ents w)(esID ent \<mapsto> e')))"
    and birth_exists:
      "gs_CreateEntity S ct (Some ent) w = (Inl err, w') \<Longrightarrow> errors_Is err ErrEntityExists \<Longrightarrow>
         ents w' = ents w \<and> ents w (esID ent) \<noteq> None"

section \<open>The store keeps its promises\<close>

lemma mset_map_sort_key: "mset (map f (sort_key g xs)) = mset (map f xs)"
  by (metis mset_map mset_sort)

lemma filter_mset_disjoint: "(\<And>x. P x \<Longrightarrow> Q x) \<Longrightarrow> filter_mset P (filter_mset Q M) = filter_mset P M"
  by (rule multiset_eqI) auto

lemma objectsIn_facts:
  "mset (objectsIn ts p) = image_mset snd (filter_mset (\<lambda>f. fst f = p) (facts ts))"
  by (induction ts) (simp_all add: facts_def fact_def)

lemma facts_append [simp]: "facts (xs @ ys) = facts xs + facts ys"
  by (simp add: facts_def)

lemma facts_Nil [simp]: "facts [] = {#}"
  by (simp add: facts_def)

lemma facts_filter: "facts (filter (\<lambda>t. P (trPredicate t)) ts) = filter_mset (\<lambda>f. P (fst f)) (facts ts)"
  by (induction ts) (simp_all add: facts_def fact_def)

lemma reconciled_objects:
  assumes "reconciled G ds e e'"
  shows "mset (objectsIn (esTriples e') p) =
    (if p \<in> set G then mset (objectsIn ds p) else mset (objectsIn (esTriples e) p))"
proof (cases "p \<in> set G")
  case True
  then have "filter_mset (\<lambda>f. fst f = p) (facts (esTriples e')) =
      filter_mset (\<lambda>f. fst f = p) (filter_mset (\<lambda>f. fst f \<in> set G) (facts (esTriples e')))"
    by (intro filter_mset_disjoint [symmetric]) auto
  with True assms show ?thesis by (simp add: objectsIn_facts reconciled_def)
next
  case False
  have drop_group: "filter_mset (\<lambda>f. fst f = p) (facts ts) =
      filter_mset (\<lambda>f. fst f = p) (filter_mset (\<lambda>f. fst f \<notin> set G) (facts ts))" for ts
    using False by (intro filter_mset_disjoint [symmetric]) auto
  have "filter_mset (\<lambda>f. fst f \<notin> set G) (facts (esTriples e')) =
      filter_mset (\<lambda>f. fst f \<notin> set G) (facts (esTriples e))"
    using assms by (simp add: reconciled_def)
  then have "filter_mset (\<lambda>f. fst f = p) (facts (esTriples e')) =
      filter_mset (\<lambda>f. fst f = p) (facts (esTriples e))"
    by (simp only: drop_group)
  with False show ?thesis by (simp add: objectsIn_facts)
qed

lemma reconciled_envelope:
  "reconciled G ds e e' \<Longrightarrow> esID e' = esID e \<and> esMessageType e' = esMessageType e"
  by (simp add: reconciled_def)

lemma born_objects:
  assumes "born X ent e'" and "p \<noteq> EntityIndexingProfile X"
  shows "mset (objectsIn (esTriples e') p) = mset (objectsIn (esTriples ent) p)"
proof -
  have "filter_mset (\<lambda>f. fst f = p) (facts (esTriples e')) =
      filter_mset (\<lambda>f. fst f = p) (filter_mset (\<lambda>f. fst f \<noteq> EntityIndexingProfile X) (facts (esTriples e')))"
    using assms(2) by (intro filter_mset_disjoint [symmetric]) auto
  with assms(1) show ?thesis by (simp add: objectsIn_facts born_def)
qed

lemma triplesEqual_mset: "triplesEqual X a b \<Longrightarrow> mset a = mset b"
proof -
  assume "triplesEqual X a b"
  then have "list_all2 (=) (sort_key (MarshalTriple X) a) (sort_key (MarshalTriple X) b)"
    unfolding triplesEqual_def by (rule list_all2_mono) (simp add: tripleDeepEqual_def)
  then have "sort_key (MarshalTriple X) a = sort_key (MarshalTriple X) b" by (simp add: list_all2_eq)
  then show ?thesis by (metis mset_sort)
qed

lemma groupMatches_reconciled:
  assumes "groupMatches X (Some e) ds G"
  shows "reconciled G ds e e"
proof -
  have "mset (filter (\<lambda>t. trPredicate t \<in> set G) (esTriples e)) = mset ds"
    using assms by (auto simp: groupMatches_def dest: triplesEqual_mset)
  then have "facts (filter (\<lambda>t. trPredicate t \<in> set G) (esTriples e)) = facts ds"
    by (simp add: facts_def)
  then show ?thesis
    using facts_filter [of "\<lambda>p. p \<in> set G" "esTriples e"] by (simp add: reconciled_def)
qed

lemma birthLoop_facts:
  "birthLoop X i n ts = Some (rs, m) \<Longrightarrow>
     facts rs = filter_mset (\<lambda>f. fst f \<noteq> EntityIndexingProfile X) (facts ts)"
  by (induction ts arbitrary: n rs m)
    (auto simp: facts_def fact_def split: if_splits)

lemma birthMatches_Some: "birthMatches X got want ts ps \<Longrightarrow> \<exists>g. got = Some g"
  by (cases got) (auto simp: birthMatches_def createEnvelopeMatches_def)

lemma birthMatches_born:
  assumes "birthMatches X (Some g) (Some (ent\<lparr>esTriples := []\<rparr>)) ts ps" and "facts ts = facts (esTriples ent)"
  shows "born X ent g"
proof -
  obtain rs n where l: "birthLoop X (esID g) 0 (esTriples g) = Some (rs, n)" and t: "triplesEqual X rs ts"
    using assms(1) by (auto simp: birthMatches_def split: option.splits)
  have "esID g = esID ent" "esMessageType g = esMessageType ent"
    using assms(1) by (auto simp: birthMatches_def createEnvelopeMatches_def)
  moreover have "facts rs = facts ts" using triplesEqual_mset [OF t] by (simp add: facts_def)
  ultimately show ?thesis
    using birthLoop_facts [OF l] assms(2) by (simp add: born_def)
qed

lemma errors_Is_wraps [simp]:
  "t \<noteq> Wrapf s e \<Longrightarrow> errors_Is (Wrapf s e) t = errors_Is e t"
  "t \<noteq> Wrapf2 s e1 e2 \<Longrightarrow> errors_Is (Wrapf2 s e1 e2) t = (errors_Is e1 t \<or> errors_Is e2 t)"
  by (auto simp: errors_Is_def split: option.splits)

lemma errors_Is_atoms [simp]:
  "errors_Is (Errorf s) t \<longleftrightarrow> t = Errorf s" "errors_Is ErrEntityExists t \<longleftrightarrow> t = ErrEntityExists"
  "errors_Is ErrEntityNotFound t \<longleftrightarrow> t = ErrEntityNotFound"
  by (auto simp: errors_Is_def)

lemma facts_context: "facts (map (\<lambda>t. t\<lparr>trContext := x\<rparr>) ts) = facts ts"
  by (induction ts) (simp_all add: facts_def fact_def)

context mutation_client
begin

lemma GetEntity_frame: "GetEntity X c i w = (r, w') \<Longrightarrow> ents w' = ents w"
  using read_frame
  by (auto simp: GetEntity_def elim!: tryM_cases split: if_splits option.splits)

lemma GetEntity_ok: "GetEntity X c i w = (Inr e, w') \<Longrightarrow> ents w i = Some e"
  using read_ok
  by (auto simp: GetEntity_def elim!: tryM_cases split: if_splits option.splits)

lemma GetEntity_absent:
  "GetEntity X c i w = (Inl err, w') \<Longrightarrow> errors_Is err ErrEntityNotFound \<Longrightarrow> ents w i = None"
  using read_absent read_foreign
  by (auto simp: GetEntity_def foreign_def elim!: tryM_cases split: if_splits option.splits)

lemma target_eta: "target (tg_Contract t) (tg_Group t) = t"
  by (simp add: target_def)

lemma Reconcile_ok:
  assumes "Reconcile X c t i ds w = (Inr e', w')"
  shows "\<exists>e. ents w i = Some e \<and> reconciled (Predicates t) ds e e' \<and> ents w' = (ents w)(i \<mapsto> e')"
proof -
  let ?m = "\<lparr>rm_Contract = tg_Contract t, rm_Group = tg_Group t, rm_EntityID = i, rm_Desired = ds\<rparr>"
  obtain r w1 where m: "mc_Reconcile c ?m w = (r, w1)" by fastforce
  show ?thesis
  proof (cases r)
    case (Inr rc)
    with m assms have "re_Entity rc = Some e'" "w' = w1"
      by (auto simp: Reconcile_def elim!: tryM_cases split: if_splits option.splits)
    then show ?thesis using reconcile_done [OF m [unfolded Inr]] by (auto simp: target_eta)
  next
    case (Inl err)
    with m assms obtain exact where
      rd: "mc_ReadAuthoritative c i w1 = (Inr (Some exact), w')" and e: "ex_Entity exact = Some e'"
      and g: "groupMatches X (Some e') ds (Predicates t)"
      by (auto simp: Reconcile_def elim!: tryM_cases split: if_splits option.splits)
    have w': "ents w' = ents w1" "ents w1 i = Some e'" using read_frame rd read_ok [OF rd e] by auto
    from reconcile_failed [OF m [unfolded Inl]] show ?thesis
    proof
      assume "ents w1 = ents w"
      then show ?thesis
        using w' groupMatches_reconciled [OF g] by (intro exI [of _ e']) (auto simp: fun_upd_idem)
    qed (use w' in \<open>auto simp: target_eta\<close>)
  qed
qed

lemma Reconcile_failed:
  assumes "Reconcile X c t i ds w = (Inl err, w')"
  shows "ents w' = ents w \<or>
    (\<exists>e e'. ents w i = Some e \<and> reconciled (Predicates t) ds e e' \<and> ents w' = (ents w)(i \<mapsto> e'))"
proof (cases "w' = w")
  case False
  let ?m = "\<lparr>rm_Contract = tg_Contract t, rm_Group = tg_Group t, rm_EntityID = i, rm_Desired = ds\<rparr>"
  obtain r w1 where m: "mc_Reconcile c ?m w = (r, w1)" by fastforce
  have "ents w' = ents w1"
    using m assms False read_frame
    by (auto simp: Reconcile_def elim!: tryM_cases split: if_splits option.splits)
  moreover have "ents w1 = ents w \<or>
    (\<exists>e e'. ents w i = Some e \<and> reconciled (Predicates t) ds e e' \<and> ents w1 = (ents w)(i \<mapsto> e'))"
    using reconcile_done [of ?m w] reconcile_failed [of ?m w] m
    by (cases r) (auto simp: target_eta)
  ultimately show ?thesis by simp
qed simp

lemma create_triples:
  "born X ((cm_Entity b)\<lparr>esTriples := cm_Triples b\<rparr>) e' \<longleftrightarrow> born X ent e'"
  if "cm_Entity b = ent\<lparr>esTriples := []\<rparr>"
    and "cm_Triples b = map (\<lambda>t. t\<lparr>trContext := esID ent\<rparr>) (esTriples ent)"
  using that by (simp add: born_def facts_context)

lemma CreateEntity_cases:
  assumes "CreateEntity X c ct (Some ent) w = (r, w')"
  obtains "w' = w" "\<exists>err. r = Inl err \<and> \<not> errors_Is err ErrEntityExists"
  | rc :: MutationReceipt where "r = Inr \<lparr>cr_Entity = re_Entity rc, cr_Revision = re_KVRevision rc\<rparr>"
      "ents w (esID ent) = None"
      "\<exists>e'. born X ent e' \<and> ents w' = (ents w)(esID ent \<mapsto> e') \<and> (re_Entity rc = None \<or> re_Entity rc = Some e')"
  | err where "r = Inl (Wrapf2 ''create entity'' ErrEntityExists err)"
      "ents w' = ents w" "ents w (esID ent) \<noteq> None"
  | exact :: ExactEntity and e' where "r = Inr \<lparr>cr_Entity = Some e', cr_Revision = ex_KVRevision exact\<rparr>"
      "born X ent e'" "ents w' (esID ent) = Some e'"
      "ents w' = ents w \<or> (ents w (esID ent) = None \<and> ents w' = (ents w)(esID ent \<mapsto> e'))"
  | err where "r = Inl (Wrapf ''create entity'' err)" "\<not> errors_Is err ErrEntityExists"
      "ents w' = ents w \<or>
       (ents w (esID ent) = None \<and> (\<exists>e'. born X ent e' \<and> ents w' = (ents w)(esID ent \<mapsto> e')))"
proof -
  let ?ts = "map (\<lambda>t. t\<lparr>trContext := esID ent\<rparr>) (esTriples ent)"
  let ?b = "\<lparr>cm_Contract = ct, cm_Entity = ent\<lparr>esTriples := []\<rparr>, cm_Triples = ?ts,
             cm_Metadata = createMetadata (esID ent) ?ts\<rparr>"
  have born: "born X ((cm_Entity ?b)\<lparr>esTriples := cm_Triples ?b\<rparr>) e' = born X ent e'" for e'
    by (rule create_triples) simp_all
  show thesis
  proof (cases "ValidateEntityStateContract X ent \<noteq> None \<or> ct = []")
    case True
    then show thesis
      using assms that(1) validate_foreign
      by (auto simp: CreateEntity_def checkM_eq wrapErr_def foreign_def)
  next
    case False
    obtain q w1 where m: "mc_Create c ?b w = (q, w1)" by fastforce
    show thesis
    proof (cases q)
      case (Inr rc)
      with m assms False have "r = Inr \<lparr>cr_Entity = re_Entity rc, cr_Revision = re_KVRevision rc\<rparr>" "w' = w1"
        by (auto simp: CreateEntity_def Let_def wrapErr_def tryM_eq)
      then show thesis using create_done [OF m [unfolded Inr], unfolded born] that(2) [of rc] by simp
    next
      case (Inl err)
      note failed = create_failed [OF m [unfolded Inl], unfolded born]
      have foreign: "\<not> errors_Is err ErrEntityExists"
        using create_foreign [OF m [unfolded Inl]] by (simp add: foreign_def)
      consider "mutationKind err = Some MutationConflict" | "mutationKind err = Some MutationCommitUnknown"
        | "mutationKind err \<noteq> Some MutationConflict" "mutationKind err \<noteq> Some MutationCommitUnknown"
        by blast
      then show thesis
      proof cases
        case 1
        with m assms False Inl have "r = Inl (Wrapf2 ''create entity'' ErrEntityExists err)" "w' = w1"
          by (auto simp: CreateEntity_def Let_def wrapErr_def tryM_eq)
        then show thesis using create_conflict [OF m [unfolded Inl] 1] that(3) by simp
      next
        case 2
        obtain rd w2 where rd: "mc_ReadAuthoritative c (esID ent) w1 = (rd, w2)" by fastforce
        have w2: "ents w2 = ents w1" by (rule read_frame [OF rd])
        have outcome: "w' = w2 \<and> (r = Inl (Wrapf ''create entity'' err) \<or>
          (\<exists>exact e'. rd = Inr (Some exact) \<and> ex_Entity exact = Some e'
             \<and> birthMatches X (Some e') (Some (ent\<lparr>esTriples := []\<rparr>)) ?ts (BirthPredicates ct)
             \<and> r = Inr \<lparr>cr_Entity = Some e', cr_Revision = ex_KVRevision exact\<rparr>))"
          using m assms False Inl 2 rd birthMatches_Some
          by (fastforce simp: CreateEntity_def Let_def wrapErr_def tryM_eq
              split: sum.splits option.splits if_splits)
        then consider "w' = w2" "r = Inl (Wrapf ''create entity'' err)"
          | exact e' where "w' = w2" "rd = Inr (Some exact)" "ex_Entity exact = Some e'"
            "birthMatches X (Some e') (Some (ent\<lparr>esTriples := []\<rparr>)) ?ts (BirthPredicates ct)"
            "r = Inr \<lparr>cr_Entity = Some e', cr_Revision = ex_KVRevision exact\<rparr>"
          by blast
        then show thesis
        proof cases
          case 1
          with failed w2 foreign that(5) show thesis by (simp cong: conj_cong)
        next
          case (2 exact e')
          have "born X ent e'" by (rule birthMatches_born [OF 2(4)]) (simp add: facts_context)
          moreover have "ents w1 (esID ent) = Some e'" using read_ok rd 2 by blast
          moreover have "ents w1 = ents w \<or> (ents w (esID ent) = None \<and> ents w1 = (ents w)(esID ent \<mapsto> e'))"
            using failed calculation(2) by auto
          ultimately show thesis using that(4) 2(1,5) w2 by simp
        qed
      next
        case 3
        with m assms False Inl have "r = Inl (Wrapf ''create entity'' err)" "w' = w1"
          by (auto simp: CreateEntity_def Let_def wrapErr_def tryM_eq)
        with failed foreign that(5) show thesis by (simp cong: conj_cong)
      qed
    qed
  qed
qed

lemma CreateEntity_ok:
  assumes "CreateEntity X c ct (Some ent) w = (Inr res, w')"
  shows "\<exists>e'. born X ent e' \<and> ents w' = (ents w)(esID ent \<mapsto> e')
    \<and> (cr_Entity res = None \<or> cr_Entity res = Some e')
    \<and> (ents w (esID ent) = None \<or> ents w (esID ent) = Some e')"
  using assms by (cases rule: CreateEntity_cases) (auto simp: fun_upd_idem)

lemma CreateEntity_failed:
  assumes "CreateEntity X c ct (Some ent) w = (Inl err, w')"
  shows "ents w' = ents w \<or>
    (ents w (esID ent) = None \<and> (\<exists>e'. born X ent e' \<and> ents w' = (ents w)(esID ent \<mapsto> e')))"
  using assms by (cases rule: CreateEntity_cases) auto

lemma CreateEntity_exists:
  assumes "CreateEntity X c ct (Some ent) w = (Inl err, w')" and "errors_Is err ErrEntityExists"
  shows "ents w' = ents w \<and> ents w (esID ent) \<noteq> None"
  using assms(1) by (cases rule: CreateEntity_cases) (use assms(2) in auto)

end

sublocale mutation_client \<subseteq> graphio_store: graph_store X "graphioStore X c" ents
  by unfold_locales
    (auto simp: graphioStore_def intro: GetEntity_frame GetEntity_ok GetEntity_absent Reconcile_ok
      dest: Reconcile_failed CreateEntity_ok CreateEntity_failed CreateEntity_exists)

context mutation_client
begin

lemma store_contract: "graph_store X (graphioStore X c) ents"
  by unfold_locales

end

section \<open>The graph as a function of facts\<close>

text \<open>The abstract state of the graph: the objects each entity holds for each predicate.\<close>

definition graphOf :: "(string \<Rightarrow> EntityState option) \<Rightarrow> string \<Rightarrow> Predicate \<Rightarrow> any multiset" where
  "graphOf E i p = (case E i of None \<Rightarrow> {#} | Some e \<Rightarrow> mset (objectsIn (esTriples e) p))"

abbreviation objs :: "('w \<Rightarrow> string \<Rightarrow> EntityState option) \<Rightarrow> 'w \<Rightarrow> string \<Rightarrow> Predicate \<Rightarrow> any multiset" where
  "objs ents w \<equiv> graphOf (ents w)"

context graph_store
begin

lemma get_objs: "gs_GetEntity S i w = (Inr e, w') \<Longrightarrow> mset (objectsIn (esTriples e) p) = objs ents w i p"
  by (simp add: graphOf_def get_ok)

lemma get_keeps_objs: "gs_GetEntity S i w = (r, w') \<Longrightarrow> objs ents w' = objs ents w"
  by (simp add: get_frame)

lemma put_objs:
  assumes "gs_Reconcile S t i ds w = (Inr e', w')"
  shows "objs ents w' j p =
    (if j = i \<and> p \<in> set (Predicates t) then mset (objectsIn ds p) else objs ents w j p)"
  using put_ok [OF assms] by (auto simp: graphOf_def reconciled_objects)

lemma put_failed_objs:
  assumes "gs_Reconcile S t i ds w = (Inl err, w')"
  shows "objs ents w' = objs ents w \<or>
    (\<forall>j p. objs ents w' j p =
       (if j = i \<and> p \<in> set (Predicates t) then mset (objectsIn ds p) else objs ents w j p))"
  using put_failed [OF assms] by (auto simp: graphOf_def reconciled_objects fun_eq_iff)

lemma put_exists: "gs_Reconcile S t i ds w = (Inr e', w') \<Longrightarrow> ents w i \<noteq> None"
  using put_ok by fastforce

lemma put_dom:
  assumes "gs_Reconcile S t i ds w = (r, w')"
  shows "dom (ents w') = dom (ents w)"
proof (cases r)
  case (Inl err)
  from put_failed [OF assms [unfolded Inl]] show ?thesis by (auto split: if_splits)
next
  case (Inr e')
  from put_ok [OF assms [unfolded Inr]] show ?thesis by (auto split: if_splits)
qed

end

end
