(* ===== verification/Payload_Verdict.thy ===== *)
theory Payload_Verdict
  imports Payload_Core
begin

text \<open>
  The payloads of adjudication and resolution: modifiers (\<^verbatim>\<open>modifier.go\<close>), effect intents
  (\<^verbatim>\<open>effect.go\<close>) and their batch (\<^verbatim>\<open>effectbatch.go\<close>), the verdict with its banded effects
  (\<^verbatim>\<open>verdict.go\<close>) and the roll (\<^verbatim>\<open>rollresult.go\<close>). The lemmas give each validator's meaning:
  which mutation a valid intent stands for, that legal modifiers leave every band within reach of
  the dice, and that a valid roll has exactly the total and band its dice and modifiers give.
\<close>

section \<open>Modifiers\<close>

definition MinModifierValue :: int where "MinModifierValue = -3"
definition MaxModifierValue :: int where "MaxModifierValue = 3"
definition MaxModifiers :: nat where "MaxModifiers = 4"
definition MinModifierTotal :: int where "MinModifierTotal = -2"
definition MaxModifierTotal :: int where "MaxModifierTotal = 4"
definition MaxModifierNoteBytes :: nat where "MaxModifierNoteBytes = 256"

record Modifier =
  mo_Source :: ModifierSource
  mo_Value :: int
  mo_Note :: string

definition Modifier_Validate :: "Modifier \<Rightarrow> gerror option" where
  "Modifier_Validate m =
     firstErr [
       errOf (ParseModifierSource (mo_Source m)),
       failIf (mo_Value m < MinModifierValue \<or> MaxModifierValue < mo_Value m)
         (Errorf ''modifier value is outside its bounds''),
       failIf (MaxModifierNoteBytes < length (mo_Note m)) (Errorf ''modifier note exceeds the note budget'')]"

definition SumModifiers :: "Modifier list \<Rightarrow> int" where
  "SumModifiers modifiers = sum64 (map mo_Value modifiers)"

definition checkModifierTotal :: "int \<Rightarrow> gerror option" where
  "checkModifierTotal tot =
     failIf (tot < MinModifierTotal \<or> MaxModifierTotal < tot) (Errorf ''summed modifiers are out of bounds'')"

definition validateModifiers :: "Modifier list \<Rightarrow> gerror option" where
  "validateModifiers modifiers =
     firstErr [
       failIf (MaxModifiers < length modifiers) (Errorf ''modifiers exceed the cap''),
       forErr (\<lambda>m. wrapErr ''modifier'' (Modifier_Validate m)) modifiers,
       checkModifierTotal (SumModifiers modifiers)]"

section \<open>Effect intents\<close>

record EffectIntent =
  ei_Type :: EffectType
  ei_Target :: string
  ei_Attribute :: Attribute
  ei_Value :: "int option"
  ei_Status :: Status
  ei_Location :: string
  ei_Relation :: Relation
  ei_Object :: string

definition populated :: "EffectIntent \<Rightarrow> (string \<times> bool) list" where
  "populated i = [
     (''attribute'', ei_Attribute i \<noteq> []), (''value'', ei_Value i \<noteq> None),
     (''status'', ei_Status i \<noteq> []), (''location'', ei_Location i \<noteq> []),
     (''relation'', ei_Relation i \<noteq> []), (''object'', ei_Object i \<noteq> [])]"

definition requireOnly :: "EffectIntent \<Rightarrow> string list \<Rightarrow> gerror option" where
  "requireOnly i allowed =
     forErr (\<lambda>(field, set_p).
         if set_p \<and> \<not> List.member allowed field then Some (Errorf (ei_Type i @ '' must not carry '' @ field))
         else if \<not> set_p \<and> List.member allowed field then Some (Errorf (ei_Type i @ '' requires '' @ field))
         else None)
       (populated i)"

definition EffectIntent_Validate :: "ext \<Rightarrow> EffectIntent \<Rightarrow> gerror option" where
  "EffectIntent_Validate X i =
     firstErr [
       errOf (ParseEffectType (ei_Type i)),
       requireEntityID X ''target'' (ei_Target i),
       (if ei_Type i = EffectSetAttribute
        then firstErr [
          requireOnly i [''attribute'', ''value''],
          (case ei_Value i of
             None \<Rightarrow> Some (Errorf (ei_Type i @ '' requires value''))
           | Some v \<Rightarrow> CheckAttributeValue (ei_Attribute i) v)]
        else if ei_Type i = EffectSetStatus
        then firstErr [requireOnly i [''status''], errOf (ParseStatus (ei_Status i))]
        else if ei_Type i = EffectMoveEntity
        then firstErr [requireOnly i [''location''], requireEntityID X ''location'' (ei_Location i)]
        else if ei_Type i = EffectAddRelationship \<or> ei_Type i = EffectRemoveRelationship
        then firstErr [
          requireOnly i [''relation'', ''object''],
          errOf (ParseRelation (ei_Relation i)),
          requireEntityID X ''object'' (ei_Object i)]
        else Some (Errorf ''effect type has no validation rule''))]"

definition stringsOf :: "string list \<Rightarrow> string list" where
  "stringsOf values = map (\<lambda>v. v) values"

definition EffectIntent_Mutation :: "ext \<Rightarrow> EffectIntent \<Rightarrow> gerror + (Predicate \<times> any)" where
  "EffectIntent_Mutation X i =
     (case EffectIntent_Validate X i of
        Some e \<Rightarrow> Inl e
      | None \<Rightarrow>
        if ei_Type i = EffectSetAttribute
        then (case AttributeSpecFor (ei_Attribute i) of
                None \<Rightarrow> Inl (UnknownValueError KindAttribute (ei_Attribute i) (stringsOf Attributes))
              | Some spec \<Rightarrow> Inr (as_Predicate spec, AInt (the (ei_Value i))))
        else if ei_Type i = EffectSetStatus
        then Inr (CharacterStatusCurrent, AString (ei_Status i))
        else if ei_Type i = EffectMoveEntity
        then Inr (WorldLocationCurrent, AString (ei_Location i))
        else if ei_Type i = EffectAddRelationship \<or> ei_Type i = EffectRemoveRelationship
        then (case RelationPredicate (ei_Relation i) of
                None \<Rightarrow> Inl (UnknownValueError KindRelation (ei_Relation i) (stringsOf Relations))
              | Some predicate \<Rightarrow> Inr (predicate, AString (ei_Object i)))
        else Inl (UnknownValueError KindEffectType (ei_Type i) (stringsOf EffectTypes)))"

section \<open>Effect batches\<close>

definition BatchIDForTurn :: "string \<Rightarrow> string" where
  "BatchIDForTurn turnID = (if turnID = [] then [] else ''batch-'' @ turnID)"

record EffectBatch =
  eb_BatchID :: string
  eb_TurnID :: string
  eb_Band :: OutcomeBand
  eb_Intents :: "EffectIntent list"

definition NewEffectBatch :: "string \<Rightarrow> OutcomeBand \<Rightarrow> EffectIntent list \<Rightarrow> EffectBatch" where
  "NewEffectBatch turnID band intents =
     \<lparr>eb_BatchID = BatchIDForTurn turnID, eb_TurnID = turnID, eb_Band = band, eb_Intents = intents\<rparr>"

definition EffectBatch_Validate :: "ext \<Rightarrow> EffectBatch \<Rightarrow> gerror option" where
  "EffectBatch_Validate X b =
     firstErr [
       requireIDSegment X ''turn_id'' (eb_TurnID b),
       failIf (eb_BatchID b \<noteq> BatchIDForTurn (eb_TurnID b)) (Errorf ''batch_id is not derived from turn_id''),
       errOf (ParseOutcomeBand (eb_Band b)),
       forErr (\<lambda>i. wrapErr ''intent'' (EffectIntent_Validate X i)) (eb_Intents b)]"

definition EffectBatch_Triples ::
    "ext \<Rightarrow> EffectBatch \<Rightarrow> string \<Rightarrow> string \<Rightarrow> string \<Rightarrow> time \<Rightarrow> gerror + Triple list" where
  "EffectBatch_Triples X b turnEntityID batchRef source at =
     build X ((projection0 (EffectBatch_Validate X b) turnEntityID (eb_TurnID b) source at)
       \<lparr>tp_registered := EffectScalarPredicates,
        tp_objects := [(TurnEffectsBatch, AString (eb_BatchID b))],
        tp_refPredicate := TurnEffectsRef,
        tp_refName := ''effect batch ref'',
        tp_ref := batchRef\<rparr>)"

section \<open>Verdicts\<close>

definition MaxRationaleBytes :: nat where "MaxRationaleBytes = 2 * 1024"

record VerdictScalars =
  vs_Plausibility :: Plausibility
  vs_Risk :: Risk
  vs_Consequence :: ConsequenceClass
  vs_RequiresRoll :: bool

definition VerdictScalars_Validate :: "VerdictScalars \<Rightarrow> gerror option" where
  "VerdictScalars_Validate s =
     firstErr [
       errOf (ParsePlausibility (vs_Plausibility s)),
       errOf (ParseRisk (vs_Risk s)),
       errOf (ParseConsequence (vs_Consequence s))]"

record RollGateExpectation =
  rg_Plausibility :: Plausibility
  rg_Risk :: Risk
  rg_Reported :: bool
  rg_Advised :: bool
  rg_Mapping :: RollGateMapping

definition Agrees :: "RollGateExpectation \<Rightarrow> bool" where
  "Agrees e = (rg_Reported e = rg_Advised e)"

definition RollGateExpectation_Validate :: "RollGateExpectation \<Rightarrow> gerror option" where
  "RollGateExpectation_Validate e =
     (case AdviseRollGate (rg_Mapping e) (rg_Plausibility e) (rg_Risk e) of
        Inl err \<Rightarrow> Some err
      | Inr advised \<Rightarrow>
          failIf (advised \<noteq> rg_Advised e) (Errorf ''roll gate records another advice than its mapping gives''))"

definition RollGate :: "VerdictScalars \<Rightarrow> gerror + RollGateExpectation" where
  "RollGate s =
     (case RequiresRoll (vs_Plausibility s) (vs_Risk s) of
        Inl err \<Rightarrow> Inl err
      | Inr advised \<Rightarrow>
          Inr \<lparr>rg_Plausibility = vs_Plausibility s, rg_Risk = vs_Risk s,
               rg_Reported = vs_RequiresRoll s, rg_Advised = advised,
               rg_Mapping = RollGateMappingVersion\<rparr>)"

type_synonym EffectBands = "(OutcomeBand, EffectIntent list) gomap"

text \<open>\<^verbatim>\<open>b[band]\<close> of an absent key is the nil slice.\<close>

definition bandIntents :: "EffectBands \<Rightarrow> OutcomeBand \<Rightarrow> EffectIntent list" where
  "bandIntents b band = (case map_of b band of None \<Rightarrow> [] | Some intents \<Rightarrow> intents)"

definition EffectBands_Validate :: "ext \<Rightarrow> EffectBands \<Rightarrow> bool \<Rightarrow> gerror option" where
  "EffectBands_Validate X b requiresRoll =
     (let required = BandsForVerdict requiresRoll in
      firstErr [
        failIf (length b \<noteq> length required) (Errorf ''verdict declares the wrong number of bands''),
        forErr (\<lambda>band. failIf (map_of b band = None) (Errorf ''verdict is missing a band'')) required,
        forErr (\<lambda>band. forErr (\<lambda>i. wrapErr ''band intent'' (EffectIntent_Validate X i)) (bandIntents b band))
          required])"

definition EffectBands_For :: "EffectBands \<Rightarrow> OutcomeBand \<Rightarrow> gerror + EffectIntent list" where
  "EffectBands_For b band =
     (case map_of b band of
        None \<Rightarrow> Inl (Errorf ''verdict declares no such band'')
      | Some intents \<Rightarrow> Inr intents)"

record Verdict =
  ve_TurnID :: string
  ve_ActionID :: string
  ve_SceneID :: string
  ve_Scalars :: VerdictScalars
  ve_Modifiers :: "Modifier list"
  ve_Bands :: EffectBands
  ve_Rationale :: string

definition Verdict_Validate :: "ext \<Rightarrow> Verdict \<Rightarrow> gerror option" where
  "Verdict_Validate X v =
     firstErr [
       requireIDSegment X ''turn_id'' (ve_TurnID v),
       requireActionID X ''action_id'' (ve_ActionID v),
       requireEntityID X ''scene_id'' (ve_SceneID v),
       VerdictScalars_Validate (ve_Scalars v),
       validateModifiers (ve_Modifiers v),
       failIf (MaxRationaleBytes < length (ve_Rationale v)) (Errorf ''rationale exceeds the rationale budget''),
       EffectBands_Validate X (ve_Bands v) (vs_RequiresRoll (ve_Scalars v))]"

definition Verdict_Triples ::
    "ext \<Rightarrow> Verdict \<Rightarrow> string \<Rightarrow> string \<Rightarrow> string \<Rightarrow> time \<Rightarrow> gerror + Triple list" where
  "Verdict_Triples X v turnEntityID verdictRef source at =
     build X ((projection0 (Verdict_Validate X v) turnEntityID (ve_TurnID v) source at)
       \<lparr>tp_registered := VerdictScalarPredicates,
        tp_objects := [(TurnVerdictPlausibility, AString (vs_Plausibility (ve_Scalars v))),
                       (TurnVerdictRisk, AString (vs_Risk (ve_Scalars v))),
                       (TurnVerdictConsequence, AString (vs_Consequence (ve_Scalars v))),
                       (TurnVerdictRequiresRoll, ABool (vs_RequiresRoll (ve_Scalars v)))],
        tp_refPredicate := TurnVerdictRef,
        tp_refName := ''verdict ref'',
        tp_ref := verdictRef\<rparr>)"

section \<open>Rolls\<close>

record SeedSource =
  ss_CampaignID :: string
  ss_TurnID :: string

record RollResult =
  rr_TurnID :: string
  rr_Mechanic :: Mechanic
  rr_RNGVersion :: RNG
  rr_Seed :: SeedSource
  rr_Dice :: "int list"
  rr_Modifiers :: "Modifier list"
  rr_ModifierTotal :: int
  rr_Total :: int
  rr_Band :: OutcomeBand

definition validateRollArithmetic ::
    "MechanicSpec \<Rightarrow> int list \<Rightarrow> Modifier list \<Rightarrow> int \<Rightarrow> int \<Rightarrow> gerror option" where
  "validateRollArithmetic spec dice modifiers modifierTotal tot =
     firstErr [
       failIf (length dice \<noteq> ms_Dice spec) (Errorf ''mechanic rolls another number of dice''),
       forErr (\<lambda>die. failIf (\<not> ValidDie spec die) (Errorf ''die value is out of range'')) dice,
       validateModifiers modifiers,
       failIf (SumModifiers modifiers \<noteq> modifierTotal)
         (Errorf ''modifier_total does not match the summed modifiers''),
       failIf (wrap64 (sum64 dice + modifierTotal) \<noteq> tot)
         (Errorf ''total does not match dice plus modifiers'')]"

definition requireBandForTotal :: "MechanicSpec \<Rightarrow> int \<Rightarrow> OutcomeBand \<Rightarrow> gerror option" where
  "requireBandForTotal spec tot band =
     failIf (BandForTotal spec tot \<noteq> band) (Errorf ''band does not match total'')"

definition RollResult_Validate :: "ext \<Rightarrow> RollResult \<Rightarrow> gerror option" where
  "RollResult_Validate X r =
     (case requireIDSegment X ''turn_id'' (rr_TurnID r) of
        Some e \<Rightarrow> Some e
      | None \<Rightarrow>
        (case MechanicSpecFor (rr_Mechanic r) of
           Inl e \<Rightarrow> Some e
         | Inr spec \<Rightarrow>
             firstErr [
               errOf (ParseRNG (rr_RNGVersion r)),
               requireEntityID X ''seed.campaign_id'' (ss_CampaignID (rr_Seed r)),
               failIf (ss_TurnID (rr_Seed r) \<noteq> rr_TurnID r) (Errorf ''seed.turn_id does not match turn_id''),
               validateRollArithmetic spec (rr_Dice r) (rr_Modifiers r) (rr_ModifierTotal r) (rr_Total r),
               errOf (ParseOutcomeBand (rr_Band r)),
               failIf (\<not> IsRollBand (rr_Band r)) (Errorf ''band is not selectable by a roll''),
               requireBandForTotal spec (rr_Total r) (rr_Band r)]))"

definition RollResult_Triples ::
    "ext \<Rightarrow> RollResult \<Rightarrow> string \<Rightarrow> string \<Rightarrow> string \<Rightarrow> time \<Rightarrow> gerror + Triple list" where
  "RollResult_Triples X r turnEntityID rollRef source at =
     build X ((projection0 (RollResult_Validate X r) turnEntityID (rr_TurnID r) source at)
       \<lparr>tp_registered := RollScalarPredicates,
        tp_objects := [(TurnRollBand, AString (rr_Band r)), (TurnRollTotal, AInt (rr_Total r))],
        tp_refPredicate := TurnRollRef,
        tp_refName := ''roll ref'',
        tp_ref := rollRef\<rparr>)"

section \<open>Modifiers stay within the reach of the dice\<close>

lemma validateModifiers_None:
  assumes "validateModifiers ms = None"
  shows "SumModifiers ms = sum_list (map mo_Value ms)"
    and "-2 \<le> SumModifiers ms" and "SumModifiers ms \<le> 4" and "length ms \<le> 4"
proof -
  have len: "length ms \<le> 4" and each: "\<forall>m \<in> set ms. -3 \<le> mo_Value m \<and> mo_Value m \<le> 3"
    using assms
    by (auto simp: validateModifiers_def MaxModifiers_def Modifier_Validate_def
        MinModifierValue_def MaxModifierValue_def)
  show "length ms \<le> 4" by (fact len)
  show "-2 \<le> SumModifiers ms" "SumModifiers ms \<le> 4"
    using assms
    by (simp_all add: validateModifiers_def checkModifierTotal_def MinModifierTotal_def
        MaxModifierTotal_def)
  have "sum64_from 0 (map mo_Value ms) = 0 + sum_list (map mo_Value ms)"
    using each len by (intro sum64_from_eq [where b = 3]) auto
  then show "SumModifiers ms = sum_list (map mo_Value ms)" by (simp add: SumModifiers_def)
qed

text \<open>Some pair of dice selects each roll band, at every legal modifier total.\<close>

lemma bands_reachable:
  assumes "MechanicSpecFor m = Inr spec" and "-2 \<le> t" and "t \<le> 4" and "band \<in> set RollBands"
  shows "\<exists>dice. length dice = ms_Dice spec \<and> (\<forall>d \<in> set dice. ValidDie spec d)
           \<and> BandForTotal spec (sum_list dice + t) = band"
proof -
  have spec: "ms_Dice spec = 2" "ms_Faces spec = 6" "ms_MaxMissTotal spec = 6"
    "ms_MaxPartialTotal spec = 9"
    using assms(1) by (simp_all add: MechanicSpecFor_Inr)
  have "\<exists>a b. 1 \<le> a \<and> a \<le> 6 \<and> 1 \<le> b \<and> b \<le> 6 \<and> BandForTotal spec (a + b + t) = band"
  proof -
    consider "band = BandMiss" | "band = BandPartial" | "band = BandFull"
      using assms(4) by (auto simp: RollBands_def)
    then show ?thesis
    proof cases
      case 1
      then show ?thesis using assms(2,3) spec
        by (intro exI [of _ 1]) (simp add: BandForTotal_def)
    next
      case 2
      then show ?thesis using assms(2,3) spec
        by (intro exI [of _ "if 2 \<le> t then 2 else 5"] exI [of _ "if 2 \<le> t then 3 else if t < 0 then 4 else 2"])
          (auto simp: BandForTotal_def)
    next
      case 3
      then show ?thesis using assms(2,3) spec
        by (intro exI [of _ 6]) (simp add: BandForTotal_def)
    qed
  qed
  then obtain a b where "1 \<le> a" "a \<le> 6" "1 \<le> b" "b \<le> 6" "BandForTotal spec (a + b + t) = band"
    by blast
  then show ?thesis
    using spec by (intro exI [of _ "[a, b]"]) (simp add: ValidDie_def)
qed

section \<open>What an intent means\<close>

lemmas effectType_names = EffectSetAttribute_def EffectMoveEntity_def EffectAddRelationship_def
  EffectRemoveRelationship_def EffectSetStatus_def

lemma effectType_distinct [simp]:
  "EffectSetAttribute \<noteq> EffectSetStatus" "EffectSetStatus \<noteq> EffectSetAttribute"
  "EffectSetAttribute \<noteq> EffectMoveEntity" "EffectMoveEntity \<noteq> EffectSetAttribute"
  "EffectSetAttribute \<noteq> EffectAddRelationship" "EffectAddRelationship \<noteq> EffectSetAttribute"
  "EffectSetAttribute \<noteq> EffectRemoveRelationship" "EffectRemoveRelationship \<noteq> EffectSetAttribute"
  "EffectSetStatus \<noteq> EffectMoveEntity" "EffectMoveEntity \<noteq> EffectSetStatus"
  "EffectSetStatus \<noteq> EffectAddRelationship" "EffectAddRelationship \<noteq> EffectSetStatus"
  "EffectSetStatus \<noteq> EffectRemoveRelationship" "EffectRemoveRelationship \<noteq> EffectSetStatus"
  "EffectMoveEntity \<noteq> EffectAddRelationship" "EffectAddRelationship \<noteq> EffectMoveEntity"
  "EffectMoveEntity \<noteq> EffectRemoveRelationship" "EffectRemoveRelationship \<noteq> EffectMoveEntity"
  "EffectAddRelationship \<noteq> EffectRemoveRelationship" "EffectRemoveRelationship \<noteq> EffectAddRelationship"
  by (simp_all add: effectType_names)

lemma ParseRelation_predicate:
  "ParseRelation r = Inr q \<Longrightarrow> \<exists>p. RelationPredicate r = Some p"
  by (auto simp: ParseRelation_def enum_parse_def enum_valid_def relationEnum_def newEnum_def
      RelationPredicate_def relationPredicates_def split: if_splits)

lemma CheckAttributeValue_spec:
  "CheckAttributeValue a v = None \<Longrightarrow>
     \<exists>spec. AttributeSpecFor a = Some spec \<and> as_Min spec \<le> v \<and> v \<le> as_Max spec"
  by (auto simp: CheckAttributeValue_None_iff AttributeSpecFor_eq)

lemma intent_type_cases:
  assumes "EffectIntent_Validate X i = None"
  obtains "ei_Type i = EffectSetAttribute" | "ei_Type i = EffectSetStatus"
  | "ei_Type i = EffectMoveEntity" | "ei_Type i = EffectAddRelationship"
  | "ei_Type i = EffectRemoveRelationship"
  using assms by (auto simp: EffectIntent_Validate_def split: if_splits)

text \<open>A valid intent always names a mutation, and always of a writable predicate.\<close>

lemma Mutation_total:
  assumes "EffectIntent_Validate X i = None"
  shows "\<exists>p v. EffectIntent_Mutation X i = Inr (p, v)"
  using assms
proof (cases rule: intent_type_cases)
  case 1
  then obtain v where "CheckAttributeValue (ei_Attribute i) v = None"
    using assms by (auto simp: EffectIntent_Validate_def split: option.splits)
  then obtain spec where "AttributeSpecFor (ei_Attribute i) = Some spec"
    using CheckAttributeValue_spec by blast
  then show ?thesis using 1 assms by (simp add: EffectIntent_Mutation_def)
qed (use assms ParseRelation_predicate in
    \<open>fastforce simp: EffectIntent_Mutation_def EffectIntent_Validate_def\<close>)+

lemma Mutation_writable:
  assumes "EffectIntent_Mutation X i = Inr (p, v)"
  shows "writable p"
  using assms AttributeSpecFor_predicate
  by (auto simp: EffectIntent_Mutation_def writable_def RelationForPredicate_Some_iff
      split: option.splits if_splits)

lemma Mutation_Validate: "EffectIntent_Mutation X i = Inr pv \<Longrightarrow> EffectIntent_Validate X i = None"
  by (auto simp: EffectIntent_Mutation_def split: option.splits)

section \<open>Bands and rolls\<close>

lemma EffectBands_For_total:
  "EffectBands_Validate X b r = None \<Longrightarrow> band \<in> set (BandsForVerdict r) \<Longrightarrow>
     \<exists>intents. EffectBands_For b band = Inr intents
       \<and> (\<forall>i \<in> set intents. EffectIntent_Validate X i = None)"
  by (fastforce simp: EffectBands_Validate_def EffectBands_For_def bandIntents_def Let_def
      split: option.splits)

lemma RollGate_validates: "RollGate s = Inr e \<Longrightarrow> RollGateExpectation_Validate e = None"
  by (auto simp: RollGate_def RollGateExpectation_Validate_def RequiresRoll_def split: sum.splits)

lemma dice_sum:
  assumes "length dice = 2" and "\<forall>d \<in> set dice. 1 \<le> d \<and> d \<le> 6"
  shows "sum64 dice = sum_list dice" and "2 \<le> sum_list dice" and "sum_list dice \<le> 12"
proof -
  obtain a b where d: "dice = [a, b]"
    using assms(1) by (auto simp: length_Suc_conv numeral_2_eq_2)
  have "sum64_from 0 dice = 0 + sum_list dice"
    using assms by (intro sum64_from_eq [where b = 6]) auto
  then show "sum64 dice = sum_list dice" by simp
  show "2 \<le> sum_list dice" "sum_list dice \<le> 12" using assms(2) d by auto
qed

lemma RollResult_Validate_None:
  assumes "RollResult_Validate X r = None"
  shows "rr_Mechanic r = Mechanic2d6PbtaV1"
    and "length (rr_Dice r) = 2" and "\<forall>d \<in> set (rr_Dice r). 1 \<le> d \<and> d \<le> 6"
    and "rr_ModifierTotal r = sum_list (map mo_Value (rr_Modifiers r))"
    and "rr_Total r = sum_list (rr_Dice r) + sum_list (map mo_Value (rr_Modifiers r))"
    and "rr_Band r = (if rr_Total r \<le> 6 then BandMiss else if rr_Total r \<le> 9 then BandPartial else BandFull)"
proof -
  obtain spec where s: "MechanicSpecFor (rr_Mechanic r) = Inr spec"
    using assms by (auto simp: RollResult_Validate_def split: option.splits sum.splits)
  then have spec: "ms_Dice spec = 2" "ms_Faces spec = 6" "ms_MaxMissTotal spec = 6"
    "ms_MaxPartialTotal spec = 9" and m: "rr_Mechanic r = Mechanic2d6PbtaV1"
    by (simp_all add: MechanicSpecFor_Inr)
  have arith: "validateRollArithmetic spec (rr_Dice r) (rr_Modifiers r) (rr_ModifierTotal r) (rr_Total r) = None"
    and band: "requireBandForTotal spec (rr_Total r) (rr_Band r) = None"
    using assms s by (auto simp: RollResult_Validate_def split: option.splits)
  have len: "length (rr_Dice r) = 2" and dice: "\<forall>d \<in> set (rr_Dice r). 1 \<le> d \<and> d \<le> 6"
    and vm: "validateModifiers (rr_Modifiers r) = None"
    and mt: "rr_ModifierTotal r = SumModifiers (rr_Modifiers r)"
    and tot: "rr_Total r = wrap64 (sum64 (rr_Dice r) + rr_ModifierTotal r)"
    using arith spec by (auto simp: validateRollArithmetic_def ValidDie_def)
  note d = dice_sum [OF len dice] and v = validateModifiers_None [OF vm]
  show "rr_Mechanic r = Mechanic2d6PbtaV1" "length (rr_Dice r) = 2"
    "\<forall>d \<in> set (rr_Dice r). 1 \<le> d \<and> d \<le> 6" by (fact m len dice)+
  show "rr_ModifierTotal r = sum_list (map mo_Value (rr_Modifiers r))" using mt v(1) by simp
  have "wrap64 (sum64 (rr_Dice r) + rr_ModifierTotal r) = sum64 (rr_Dice r) + rr_ModifierTotal r"
    using d v mt by (intro wrap64_id) simp_all
  then show "rr_Total r = sum_list (rr_Dice r) + sum_list (map mo_Value (rr_Modifiers r))"
    using tot d(1) mt v(1) by simp
  show "rr_Band r = (if rr_Total r \<le> 6 then BandMiss else if rr_Total r \<le> 9 then BandPartial else BandFull)"
    using band spec by (auto simp: requireBandForTotal_def BandForTotal_def)
qed

end
