(* ===== verification/Effect_Plan.thy ===== *)
theory Effect_Plan
  imports Graphio Payload_Verdict
begin

text \<open>
  \<^verbatim>\<open>internal/effect/plan.go\<close>: folding the intents of a batch into the writes that apply it.
  Every intent is checked against the graph before anything is written (bounds, existence, kinds,
  self references, double writes), and the accepted plan is turned into one projection per touched
  predicate group. A violation is the pair of its code and its error. The resolver's cache
  \<^verbatim>\<open>seen\<close> is part of the state the fold threads, next to the world.

  The lemmas relate a plan to an abstract specification: \<open>specStep\<close> says what one intent does to
  the objects of one predicate of one entity, and an accepted plan holds, for every predicate it
  touches, exactly the objects that folding \<open>specStep\<close> over the batch gives.
\<close>

section \<open>Violations\<close>

type_synonym violation = "FailureReason \<times> gerror"

definition invalid :: "string \<Rightarrow> violation" where
  "invalid s = (FailureEffectInvalid, Errorf s)"

definition missing :: "string \<Rightarrow> violation" where
  "missing s = (FailureEffectEntityMissing, Errorf s)"

definition wrongKind :: "gerror \<Rightarrow> violation" where
  "wrongKind e = (FailureEffectEntityKind, e)"

section \<open>Reading the entities an intent names\<close>

record entityView =
  ev_state :: EntityState
  ev_kind :: EntityKind

definition entityView_triplesFor :: "entityView \<Rightarrow> Predicate \<Rightarrow> Triple list" where
  "entityView_triplesFor v p = filter (\<lambda>t. trPredicate t = p) (esTriples (ev_state v))"

definition kindOf :: "EntityState \<Rightarrow> violation + EntityKind" where
  "kindOf state =
     (case objectsIn (esTriples state) WorldEntityKind of
        [] \<Rightarrow> Inl (wrongKind (Errorf ''entity declares no kind''))
      | [declared] \<Rightarrow>
          (case asString declared of
             None \<Rightarrow> Inl (wrongKind (Errorf ''entity declares a kind that is not a string''))
           | Some s \<Rightarrow>
               (case ParseEntityKind s of
                  Inl err \<Rightarrow> Inl (wrongKind (Wrapf ''entity'' err))
                | Inr kind \<Rightarrow> Inr kind))
      | _ \<Rightarrow> Inl (wrongKind (Errorf ''entity declares several kinds'')))"

type_synonym 'w resolving = "'w \<times> (string, entityView) gomap"

definition view :: "'w GraphStore \<Rightarrow> string \<Rightarrow> ('w resolving, violation, entityView) ME" where
  "view S i = (\<lambda>(w, seen).
     case map_of seen i of
       Some v \<Rightarrow> (Inr v, (w, seen))
     | None \<Rightarrow>
         (case gs_GetEntity S i w of
            (Inl err, w') \<Rightarrow>
              (Inl (if errors_Is err ErrEntityNotFound then missing ''entity does not exist''
                    else (FailureEffectEntityMissing, Wrapf ''read entity'' err)), (w', seen))
          | (Inr state, w') \<Rightarrow>
              (case kindOf state of
                 Inl kindErr \<Rightarrow> (Inl kindErr, (w', seen))
               | Inr kind \<Rightarrow>
                   (let v = \<lparr>ev_state = state, ev_kind = kind\<rparr> in (Inr v, (w', (i, v) # seen))))))"

section \<open>Plans\<close>

record objectWrite =
  ow_object :: any
  ow_resident :: "Triple option"

record predicateWrite =
  pw_predicate :: Predicate
  pw_objects :: "objectWrite list"
  pw_reference :: bool
  pw_multi :: bool
  pw_named :: "string list"

record targetWrite =
  tw_entityID :: string
  tw_resident :: "EntityState option"
  tw_order :: "Predicate list"
  tw_writes :: "(Predicate, predicateWrite) gomap"

record plan =
  pl_order :: "string list"
  pl_targets :: "(string, targetWrite) gomap"

definition emptyPlan :: plan where
  "emptyPlan = \<lparr>pl_order = [], pl_targets = []\<rparr>"

definition newTarget :: "string \<Rightarrow> targetWrite" where
  "newTarget i = \<lparr>tw_entityID = i, tw_resident = None, tw_order = [], tw_writes = []\<rparr>"

text \<open>\<^verbatim>\<open>plan.target\<close>: the write of an entity, created and ordered on first use.\<close>

definition plan_target :: "plan \<Rightarrow> string \<Rightarrow> plan \<times> targetWrite" where
  "plan_target p i =
     (case map_of (pl_targets p) i of
        Some existing \<Rightarrow> (p, existing)
      | None \<Rightarrow>
          (p\<lparr>pl_order := pl_order p @ [i], pl_targets := AList.update i (newTarget i) (pl_targets p)\<rparr>,
           newTarget i))"

section \<open>Folding one value\<close>

fun decimalNat :: "nat \<Rightarrow> string" where
  "decimalNat n =
     (if n < 10 then [char_of (48 + n)] else decimalNat (n div 10) @ [char_of (48 + n mod 10)])"

text \<open>\<^verbatim>\<open>fmt.Sprint\<close> of an object.\<close>

definition sprint :: "ext \<Rightarrow> any \<Rightarrow> string" where
  "sprint X v =
     (case v of
        AString s \<Rightarrow> s
      | AInt n \<Rightarrow> (if n < 0 then ''-'' else []) @ decimalNat (nat \<bar>n\<bar>)
      | AInt64 n \<Rightarrow> (if n < 0 then ''-'' else []) @ decimalNat (nat \<bar>n\<bar>)
      | ABool b \<Rightarrow> (if b then ''true'' else ''false'')
      | AFloat64 x \<Rightarrow> FormatFloat X x
      | ANumber s \<Rightarrow> s
      | ANil \<Rightarrow> ''<nil>''
      | AOther s \<Rightarrow> s)"

fun withObject :: "ext \<Rightarrow> objectWrite list \<Rightarrow> string \<Rightarrow> any \<Rightarrow> objectWrite list" where
  "withObject X objects key object =
     (if List.list_ex (\<lambda>o1. sprint X (ow_object o1) = key) objects then objects
      else objects @ [\<lparr>ow_object = object, ow_resident = None\<rparr>])"

definition withoutObject :: "ext \<Rightarrow> objectWrite list \<Rightarrow> string \<Rightarrow> objectWrite list" where
  "withoutObject X objects key = filter (\<lambda>o1. sprint X (ow_object o1) \<noteq> key) objects"

text \<open>The loop over the resident triples of a multi-valued predicate.\<close>

fun residentObjects :: "Triple list \<Rightarrow> violation + objectWrite list" where
  "residentObjects [] = Inr []"
| "residentObjects (t # ts) =
     (case asString (trObject t) of
        None \<Rightarrow> Inl (invalid ''entity records an object that is not a string for an entity-valued predicate'')
      | Some _ \<Rightarrow>
          (case residentObjects ts of
             Inl v \<Rightarrow> Inl v
           | Inr os \<Rightarrow> Inr (\<lparr>ow_object = trObject t, ow_resident = Some t\<rparr> # os)))"

definition entryFor :: "targetWrite \<Rightarrow> entityView \<Rightarrow> Predicate \<Rightarrow> violation + (predicateWrite \<times> targetWrite)" where
  "entryFor tw tgt p =
     (case map_of (tw_writes tw) p of
        Some existing \<Rightarrow> Inr (existing, tw)
      | None \<Rightarrow>
          (let entry = \<lparr>pw_predicate = p, pw_objects = [], pw_reference = IsEntityReference p,
                        pw_multi = IsMultiValued p, pw_named = []\<rparr>;
               put = (\<lambda>e. Inr (e, tw\<lparr>tw_writes := AList.update p e (tw_writes tw),
                                     tw_order := tw_order tw @ [p]\<rparr>))
           in if pw_multi entry
              then (case residentObjects (entityView_triplesFor tgt p) of
                      Inl v \<Rightarrow> Inl v
                    | Inr os \<Rightarrow> put (entry\<lparr>pw_objects := os\<rparr>))
              else put entry))"

definition foldValue ::
    "ext \<Rightarrow> targetWrite \<Rightarrow> entityView \<Rightarrow> Predicate \<Rightarrow> any \<Rightarrow> EffectType \<Rightarrow> violation + targetWrite" where
  "foldValue X tw tgt p object effectType =
     (let tw0 = (if tw_resident tw = None then tw\<lparr>tw_resident := Some (ev_state tgt)\<rparr> else tw) in
      case entryFor tw0 tgt p of
        Inl v \<Rightarrow> Inl v
      | Inr (entry, tw1) \<Rightarrow>
          (let key = sprint X object;
               put = (\<lambda>e. Inr (tw1\<lparr>tw_writes := AList.update p e (tw_writes tw1)\<rparr>))
           in if \<not> pw_multi entry
              then (if pw_named entry \<noteq> []
                    then Inl (invalid ''predicate is single-valued and this batch sets it twice'')
                    else put (entry\<lparr>pw_named := [key],
                                    pw_objects := [\<lparr>ow_object = object, ow_resident = None\<rparr>]\<rparr>))
              else if List.member (pw_named entry) key
              then Inl (invalid ''this batch names the object twice'')
              else if effectType = EffectRemoveRelationship
              then put (entry\<lparr>pw_named := key # pw_named entry,
                              pw_objects := withoutObject X (pw_objects entry) key\<rparr>)
              else put (entry\<lparr>pw_named := key # pw_named entry,
                              pw_objects := withObject X (pw_objects entry) key object\<rparr>)))"

section \<open>Checking one intent\<close>

definition validateEffectPredicate :: "Predicate \<Rightarrow> violation option" where
  "validateEffectPredicate p =
     failIf (IsProtectedPredicate p) (invalid ''predicate is immutable authored truth'')"

definition checkBounds :: "AttributeSpecSet \<Rightarrow> Predicate \<Rightarrow> any \<Rightarrow> violation option" where
  "checkBounds bnds p object =
     (case AttributeForPredicate p of
        None \<Rightarrow> None
      | Some attribute \<Rightarrow>
          (case object of
             AInt v \<Rightarrow> map_option (\<lambda>err. (FailureEffectInvalid, err)) (SpecSet_Check bnds attribute v)
           | _ \<Rightarrow> Some (invalid ''predicate is a bounded attribute but the intent supplies another type'')))"

definition checkReferencedObject ::
    "'w GraphStore \<Rightarrow> Predicate \<Rightarrow> string \<Rightarrow> any \<Rightarrow> ('w resolving, violation, unit) ME" where
  "checkReferencedObject S p targetID object =
     (case asString object of
        None \<Rightarrow> throw (invalid ''predicate expects an entity reference'')
      | Some objectID \<Rightarrow>
          if objectID = targetID then throw (invalid ''an entity cannot stand in that relation to itself'')
          else bindM (view S objectID) (\<lambda>v.
            if AllowsObjectKind p (ev_kind v) then ret ()
            else throw (wrongKind (Errorf ''predicate cannot point at this kind''))))"

definition foldIntent ::
    "ext \<Rightarrow> 'w GraphStore \<Rightarrow> AttributeSpecSet \<Rightarrow> plan \<Rightarrow> EffectIntent \<Rightarrow> ('w resolving, violation, plan) ME" where
  "foldIntent X S bnds built intent =
     (case EffectIntent_Mutation X intent of
        Inl err \<Rightarrow> throw (FailureEffectInvalid, err)
      | Inr (p, object) \<Rightarrow>
          checkM (validateEffectPredicate p)
          (checkM (checkBounds bnds p object)
          (bindM (view S (ei_Target intent)) (\<lambda>tgt.
           if \<not> AllowsSubjectKind p (ev_kind tgt)
           then throw (wrongKind (Errorf ''predicate cannot be carried by this kind''))
           else bindM (if IsEntityReference p then checkReferencedObject S p (ei_Target intent) object else ret ())
             (\<lambda>_. let (built', tw) = plan_target built (ei_Target intent) in
                case foldValue X tw tgt p object (ei_Type intent) of
                  Inl v \<Rightarrow> throw v
                | Inr tw' \<Rightarrow>
                    ret (built'\<lparr>pl_targets := AList.update (ei_Target intent) tw' (pl_targets built')\<rparr>))))))"

fun buildLoop ::
    "ext \<Rightarrow> 'w GraphStore \<Rightarrow> AttributeSpecSet \<Rightarrow> int \<Rightarrow> plan \<Rightarrow> EffectIntent list \<Rightarrow>
      ('w resolving, gerror, plan) ME" where
  "buildLoop X S bnds index built [] = ret built"
| "buildLoop X S bnds index built (i # is) =
     bindM (mapErr (\<lambda>(code, err). RejectionError index (ei_Type i) (ei_Target i) code err)
             (foldIntent X S bnds built i))
       (\<lambda>built'. buildLoop X S bnds (index + 1) built' is)"

definition buildPlan ::
    "ext \<Rightarrow> 'w GraphStore \<Rightarrow> AttributeSpecSet \<Rightarrow> EffectBatch \<Rightarrow> ('w, plan) M" where
  "buildPlan X S bnds batch = (\<lambda>w.
     case buildLoop X S bnds 0 emptyPlan (eb_Intents batch) (w, []) of (r, (w', _)) \<Rightarrow> (r, w'))"

section \<open>The projections of a plan\<close>

record projectionWrite =
  pj_target :: Target
  pj_triples :: "Triple list"

text \<open>The first loop of \<^verbatim>\<open>projections\<close>: the touched predicates of each target, in first-use order.\<close>

definition touch :: "(Target, Predicate list) gomap \<Rightarrow> Predicate \<Rightarrow> (Target, Predicate list) gomap" where
  "touch touched p =
     (case EffectTargetForPredicate p of
        None \<Rightarrow> touched
      | Some t \<Rightarrow>
          (case map_of touched t of
             None \<Rightarrow> touched @ [(t, [p])]
           | Some ps \<Rightarrow> AList.update t (ps @ [p]) touched))"

definition writeTriple ::
    "ext \<Rightarrow> string \<Rightarrow> string \<Rightarrow> string \<Rightarrow> time \<Rightarrow> predicateWrite \<Rightarrow> Predicate \<Rightarrow> objectWrite \<Rightarrow> Triple" where
  "writeTriple X entityID source context at entry p v =
     (case ow_resident v of
        Some t \<Rightarrow> t
      | None \<Rightarrow>
          \<lparr>trSubject = entityID, trPredicate = p, trObject = ow_object v, trSource = source,
           trTimestamp = at, trConfidence = f64_one, trContext = context,
           trDatatype = (if pw_reference entry then EntityReferenceDatatype X else []),
           trExpiresAt = None\<rparr>)"

text \<open>Every predicate in \<^verbatim>\<open>order\<close> has an entry; a missing one would be a nil dereference in Go.\<close>

definition targetTriples ::
    "ext \<Rightarrow> targetWrite \<Rightarrow> string \<Rightarrow> string \<Rightarrow> time \<Rightarrow> Target \<Rightarrow> Predicate list \<Rightarrow> Triple list" where
  "targetTriples X tw source context at t touched =
     (case tw_resident tw of
        None \<Rightarrow> []
      | Some e \<Rightarrow>
          filter (\<lambda>tr. List.member (Predicates t) (trPredicate tr) \<and> \<not> List.member touched (trPredicate tr))
            (esTriples e)) @
     concat (map (\<lambda>p.
         if EffectTargetForPredicate p \<noteq> Some t then []
         else (case map_of (tw_writes tw) p of
                 None \<Rightarrow> []
               | Some entry \<Rightarrow>
                   map (writeTriple X (tw_entityID tw) source context at entry p) (pw_objects entry)))
       (tw_order tw))"

definition projections ::
    "ext \<Rightarrow> targetWrite \<Rightarrow> string \<Rightarrow> string \<Rightarrow> time \<Rightarrow> projectionWrite list" where
  "projections X tw source context at =
     map (\<lambda>(t, touched). \<lparr>pj_target = t, pj_triples = targetTriples X tw source context at t touched\<rparr>)
       (foldl touch [] (tw_order tw))"

section \<open>The abstract meaning of a batch\<close>

definition specObjects :: "EffectType \<Rightarrow> Predicate \<Rightarrow> any \<Rightarrow> any multiset \<Rightarrow> any multiset" where
  "specObjects ty p object M =
     (if \<not> IsMultiValued p then {#object#}
      else if ty = EffectRemoveRelationship then filter_mset (\<lambda>x. x \<noteq> object) M
      else if object \<in># M then M else add_mset object M)"

type_synonym factGraph = "string \<Rightarrow> Predicate \<Rightarrow> any multiset"

definition specWrite :: "string \<Rightarrow> EffectType \<Rightarrow> Predicate \<Rightarrow> any \<Rightarrow> factGraph \<Rightarrow> factGraph" where
  "specWrite i ty p object G = G(i := (G i)(p := specObjects ty p object (G i p)))"

definition specStep :: "ext \<Rightarrow> EffectIntent \<Rightarrow> factGraph \<Rightarrow> factGraph" where
  "specStep X i G =
     (case EffectIntent_Mutation X i of
        Inl _ \<Rightarrow> G
      | Inr (p, object) \<Rightarrow> specWrite (ei_Target i) (ei_Type i) p object G)"

definition specBatch :: "ext \<Rightarrow> EffectIntent list \<Rightarrow> factGraph \<Rightarrow> factGraph" where
  "specBatch X is G = fold (specStep X) is G"

text \<open>The state of an accepted intent: what the checks of \<open>foldIntent\<close> established.\<close>

definition seenOK :: "(string \<Rightarrow> EntityState option) \<Rightarrow> (string, entityView) gomap \<Rightarrow> bool" where
  "seenOK E seen =
     (\<forall>i v. map_of seen i = Some v \<longrightarrow> E i = Some (ev_state v) \<and> kindOf (ev_state v) = Inr (ev_kind v))"

definition kindIn :: "(string \<Rightarrow> EntityState option) \<Rightarrow> string \<Rightarrow> EntityKind \<Rightarrow> bool" where
  "kindIn E i k = (\<exists>e. E i = Some e \<and> kindOf e = Inr k)"

definition intentOK :: "ext \<Rightarrow> AttributeSpecSet \<Rightarrow> (string \<Rightarrow> EntityState option) \<Rightarrow> EffectIntent \<Rightarrow> bool" where
  "intentOK X bnds E i =
     (case EffectIntent_Mutation X i of
        Inl _ \<Rightarrow> False
      | Inr (p, object) \<Rightarrow>
          checkBounds bnds p object = None
          \<and> (\<exists>k. kindIn E (ei_Target i) k \<and> AllowsSubjectKind p k)
          \<and> (IsEntityReference p \<longrightarrow>
               (\<exists>oid k. object = AString oid \<and> oid \<noteq> ei_Target i \<and> kindIn E oid k \<and> AllowsObjectKind p k)))"

definition entryOK :: "any multiset \<Rightarrow> Predicate \<Rightarrow> predicateWrite \<Rightarrow> bool" where
  "entryOK M p entry =
     (writable p \<and> pw_multi entry = IsMultiValued p
      \<and> mset (map ow_object (pw_objects entry)) = M
      \<and> (\<forall>v \<in> set (pw_objects entry). \<forall>t. ow_resident v = Some t \<longrightarrow> trPredicate t = p \<and> trObject t = ow_object v)
      \<and> (IsMultiValued p \<longrightarrow> (\<forall>v \<in> set (pw_objects entry). \<exists>s. ow_object v = AString s)))"

definition targetOK :: "(string \<Rightarrow> EntityState option) \<Rightarrow> (Predicate \<Rightarrow> any multiset) \<Rightarrow> string \<Rightarrow> targetWrite \<Rightarrow> bool" where
  "targetOK E g i tw =
     (tw_entityID tw = i
      \<and> (tw_resident tw = None \<and> tw_writes tw = [] \<or> tw_resident tw = E i \<and> E i \<noteq> None)
      \<and> set (tw_order tw) = dom (map_of (tw_writes tw)) \<and> distinct (tw_order tw)
      \<and> (\<forall>p. case map_of (tw_writes tw) p of
               None \<Rightarrow> g p = graphOf E i p
             | Some entry \<Rightarrow> entryOK (g p) p entry))"

definition planOK :: "(string \<Rightarrow> EntityState option) \<Rightarrow> factGraph \<Rightarrow> plan \<Rightarrow> bool" where
  "planOK E G p =
     (set (pl_order p) = dom (map_of (pl_targets p)) \<and> distinct (pl_order p)
      \<and> (\<forall>i. case map_of (pl_targets p) i of
               None \<Rightarrow> G i = graphOf E i
             | Some tw \<Rightarrow> targetOK E (G i) i tw \<and> tw_resident tw \<noteq> None))"

section \<open>Folding a value implements its specification\<close>

lemma residentObjects_Inr:
  "residentObjects ts = Inr os \<Longrightarrow>
     map ow_object os = map trObject ts \<and> map ow_resident os = map Some ts
     \<and> (\<forall>v \<in> set os. \<exists>s. ow_object v = AString s)"
  by (induction ts arbitrary: os) (auto split: option.splits sum.splits)

lemma residentObjects_entry:
  assumes "residentObjects (entityView_triplesFor v p) = Inr os" and "x \<in> set os" and "ow_resident x = Some t"
  shows "trPredicate t = p \<and> trObject t = ow_object x"
proof -
  note r = residentObjects_Inr [OF assms(1)]
  obtain n where n: "n < length os" "os ! n = x" using assms(2) by (auto simp: in_set_conv_nth)
  have len: "length (entityView_triplesFor v p) = length os" using r by (metis length_map)
  have "map ow_resident os ! n = map Some (entityView_triplesFor v p) ! n" using r by simp
  then have "entityView_triplesFor v p ! n = t" using n len assms(3) by simp
  moreover have "map ow_object os ! n = map trObject (entityView_triplesFor v p) ! n" using r by simp
  moreover have "entityView_triplesFor v p ! n \<in> set (entityView_triplesFor v p)" using n len by simp
  ultimately show ?thesis using n len by (auto simp: entityView_triplesFor_def)
qed

lemma sprint_string [simp]: "sprint X (AString s) = s"
  by (simp add: sprint_def)

lemma withObject_mset:
  assumes "\<forall>v \<in> set os. \<exists>s. ow_object v = AString s"
  shows "mset (map ow_object (withObject X os s (AString s))) =
    (let M = mset (map ow_object os) in if AString s \<in># M then M else add_mset (AString s) M)"
proof -
  have "(\<exists>v \<in> set os. sprint X (ow_object v) = s) \<longleftrightarrow> AString s \<in># mset (map ow_object os)"
    using assms by (force simp: image_iff)
  then show ?thesis by (auto simp: list_ex_iff Let_def)
qed

lemma withoutObject_mset:
  assumes "\<forall>v \<in> set os. \<exists>s. ow_object v = AString s"
  shows "mset (map ow_object (withoutObject X os s)) = filter_mset (\<lambda>x. x \<noteq> AString s) (mset (map ow_object os))"
  using assms by (induction os) (auto simp: withoutObject_def)

lemma withObject_set: "x \<in> set (withObject X os k v) \<Longrightarrow> x \<in> set os \<or> x = \<lparr>ow_object = v, ow_resident = None\<rparr>"
  by (auto split: if_splits)

lemma targetOK_at:
  "targetOK E g i tw \<Longrightarrow>
     (case map_of (tw_writes tw) p of None \<Rightarrow> g p = graphOf E i p | Some entry \<Rightarrow> entryOK (g p) p entry)"
  by (simp add: targetOK_def)

lemma entryFor_Inr:
  assumes ok: "targetOK E g i tw" and E: "E i = Some (ev_state v)" and w: "writable p"
    and r: "entryFor tw v p = Inr (entry, tw')"
  shows "tw_entityID tw' = i" and "tw_resident tw' = tw_resident tw"
    and "map_of (tw_writes tw') = (map_of (tw_writes tw))(p \<mapsto> entry)"
    and "set (tw_order tw') = insert p (set (tw_order tw)) \<and> distinct (tw_order tw')"
    and "pw_multi entry = IsMultiValued p"
    and "IsMultiValued p \<Longrightarrow> entryOK (g p) p entry"
proof -
  have dom: "set (tw_order tw) = dom (map_of (tw_writes tw)) \<and> distinct (tw_order tw)" and eid: "tw_entityID tw = i"
    using ok by (auto simp: targetOK_def)
  have all: "tw_entityID tw' = i \<and> tw_resident tw' = tw_resident tw
      \<and> map_of (tw_writes tw') = (map_of (tw_writes tw))(p \<mapsto> entry)
      \<and> (set (tw_order tw') = insert p (set (tw_order tw)) \<and> distinct (tw_order tw'))
      \<and> pw_multi entry = IsMultiValued p \<and> (IsMultiValued p \<longrightarrow> entryOK (g p) p entry)"
  proof (cases "map_of (tw_writes tw) p")
    case (Some entry0)
    have "entryOK (g p) p entry0" using targetOK_at [OF ok, of p] Some by simp
    with Some r dom eid show ?thesis
      by (auto simp: entryFor_def entryOK_def fun_upd_idem)
  next
    case None
    have gp: "g p = graphOf E i p" using targetOK_at [OF ok, of p] None by simp
    show ?thesis
    proof (cases "IsMultiValued p")
      case True
      then obtain os where os: "residentObjects (entityView_triplesFor v p) = Inr os"
        and e: "entry = \<lparr>pw_predicate = p, pw_objects = os, pw_reference = IsEntityReference p,
                          pw_multi = IsMultiValued p, pw_named = []\<rparr>"
        and t: "tw' = tw\<lparr>tw_writes := AList.update p entry (tw_writes tw), tw_order := tw_order tw @ [p]\<rparr>"
        using r None by (auto simp: entryFor_def Let_def split: sum.splits)
      have "mset (map ow_object os) = graphOf E i p"
        using residentObjects_Inr [OF os] E
        by (simp add: graphOf_def objectsIn_filter entityView_triplesFor_def)
      then show ?thesis
        using t e gp w eid dom None residentObjects_Inr [OF os] residentObjects_entry [OF os]
        by (auto simp: entryOK_def update_conv')
    next
      case False
      then show ?thesis using r None eid dom by (auto simp: entryFor_def Let_def update_conv')
    qed
  qed
  then show "tw_entityID tw' = i" "tw_resident tw' = tw_resident tw"
    "map_of (tw_writes tw') = (map_of (tw_writes tw))(p \<mapsto> entry)"
    "set (tw_order tw') = insert p (set (tw_order tw)) \<and> distinct (tw_order tw')"
    "pw_multi entry = IsMultiValued p" by blast+
  show "IsMultiValued p \<Longrightarrow> entryOK (g p) p entry" using all by blast
qed

lemma foldValue_OK:
  assumes ok: "targetOK E g i tw" and E: "E i = Some (ev_state v)" and w: "writable p"
    and obj: "IsMultiValued p \<Longrightarrow> \<exists>s. object = AString s"
    and r: "foldValue X tw v p object ty = Inr tw'"
  shows "targetOK E (g(p := specObjects ty p object (g p))) i tw' \<and> tw_resident tw' \<noteq> None"
proof -
  define tw0 where "tw0 = (if tw_resident tw = None then tw\<lparr>tw_resident := Some (ev_state v)\<rparr> else tw)"
  have ok0: "targetOK E g i tw0" and res0: "tw_resident tw0 = E i"
    using ok E by (auto simp: targetOK_def tw0_def)
  obtain entry tw1 where e1: "entryFor tw0 v p = Inr (entry, tw1)"
    using r by (auto simp: foldValue_def tw0_def [symmetric] split: sum.splits)
  note en = entryFor_Inr [OF ok0 E w e1]
  have "\<exists>e. tw' = tw1\<lparr>tw_writes := AList.update p e (tw_writes tw1)\<rparr>
      \<and> entryOK (specObjects ty p object (g p)) p e"
  proof (cases "IsMultiValued p")
    case False
    then show ?thesis
      using r e1 en(5) w
      by (auto simp: foldValue_def tw0_def [symmetric] Let_def entryOK_def specObjects_def split: if_splits)
  next
    case True
    obtain s where s: "object = AString s" using obj True by blast
    have eok: "entryOK (g p) p entry" by (rule en(6) [OF True])
    then have strs: "\<forall>x \<in> set (pw_objects entry). \<exists>s. ow_object x = AString s"
      using True by (simp add: entryOK_def)
    show ?thesis
    proof (cases "ty = EffectRemoveRelationship")
      case rem: True
      have "entryOK (specObjects ty p object (g p)) p
          (entry\<lparr>pw_named := s # pw_named entry, pw_objects := withoutObject X (pw_objects entry) s\<rparr>)"
        using eok True rem s withoutObject_mset [OF strs, of X s]
        by (simp add: entryOK_def specObjects_def) (auto simp: withoutObject_def)
      with r e1 en(5) True rem s show ?thesis
        by (auto simp: foldValue_def tw0_def [symmetric] Let_def split: if_splits)
    next
      case add: False
      have "entryOK (specObjects ty p object (g p)) p
          (entry\<lparr>pw_named := s # pw_named entry, pw_objects := withObject X (pw_objects entry) s object\<rparr>)"
        using eok True add s withObject_mset [OF strs, of X s]
        by (simp add: entryOK_def specObjects_def Let_def del: withObject.simps)
          (auto dest!: withObject_set simp del: withObject.simps)
      with r e1 en(5) True add s show ?thesis
        by (auto simp: foldValue_def tw0_def [symmetric] Let_def simp del: withObject.simps split: if_splits)
    qed
  qed
  then obtain e where t: "tw' = tw1\<lparr>tw_writes := AList.update p e (tw_writes tw1)\<rparr>"
    and eok: "entryOK (specObjects ty p object (g p)) p e" by blast
  have m: "map_of (tw_writes tw') = (map_of (tw_writes tw0))(p \<mapsto> e)"
    using t en(3) by (simp add: update_conv')
  have "case map_of (tw_writes tw') q of
      None \<Rightarrow> (g(p := specObjects ty p object (g p))) q = graphOf E i q
    | Some entry \<Rightarrow> entryOK ((g(p := specObjects ty p object (g p))) q) q entry" for q
    using targetOK_at [OF ok0, of q] eok m by (cases "q = p") (auto split: option.splits)
  moreover have "set (tw_order tw0) = dom (map_of (tw_writes tw0))" using ok0 by (simp add: targetOK_def)
  ultimately show ?thesis
    using t en(1,2,4) m res0 E by (simp add: targetOK_def)
qed

section \<open>Folding an intent only reads\<close>

lemma planOK_empty: "planOK E (graphOf E) emptyPlan"
  by (simp add: planOK_def emptyPlan_def)

lemma seenOK_empty: "seenOK E []"
  by (simp add: seenOK_def)

lemma planOK_at:
  "planOK E G p \<Longrightarrow>
     (case map_of (pl_targets p) i of None \<Rightarrow> G i = graphOf E i
      | Some tw \<Rightarrow> targetOK E (G i) i tw \<and> tw_resident tw \<noteq> None)"
  by (simp add: planOK_def)

lemma plan_target_OK:
  assumes "planOK E G p" and "plan_target p i = (p', tw)"
  shows "targetOK E (G i) i tw" and "set (pl_order p') = insert i (set (pl_order p))" and "distinct (pl_order p')"
    and "map_of (pl_targets p') = (map_of (pl_targets p))(i \<mapsto> tw)"
proof -
  have d: "set (pl_order p) = dom (map_of (pl_targets p))" "distinct (pl_order p)"
    using assms(1) by (simp_all add: planOK_def)
  show "targetOK E (G i) i tw"
  proof (cases "map_of (pl_targets p) i")
    case None
    then show ?thesis
      using planOK_at [OF assms(1), of i] assms(2)
      by (auto simp: plan_target_def targetOK_def newTarget_def)
  next
    case (Some existing)
    then show ?thesis using planOK_at [OF assms(1), of i] assms(2) by (simp add: plan_target_def)
  qed
  show "set (pl_order p') = insert i (set (pl_order p))" "distinct (pl_order p')"
    "map_of (pl_targets p') = (map_of (pl_targets p))(i \<mapsto> tw)"
    using assms(2) d by (auto simp: plan_target_def update_conv' fun_upd_idem split: option.splits)
qed

lemma planOK_update:
  assumes "planOK E G p" and "plan_target p i = (p', tw)"
    and "targetOK E g i tw'" and "tw_resident tw' \<noteq> None"
  shows "planOK E (G(i := g)) (p'\<lparr>pl_targets := AList.update i tw' (pl_targets p')\<rparr>)"
proof -
  note pt = plan_target_OK [OF assms(1,2)]
  have m: "map_of (AList.update i tw' (pl_targets p')) = (map_of (pl_targets p))(i \<mapsto> tw')"
    by (simp add: update_conv' pt(4))
  have "case map_of (AList.update i tw' (pl_targets p')) j of
      None \<Rightarrow> (G(i := g)) j = graphOf E j
    | Some tw \<Rightarrow> targetOK E ((G(i := g)) j) j tw \<and> tw_resident tw \<noteq> None" for j
    using planOK_at [OF assms(1), of j] assms(3,4) m by (cases "j = i") (auto split: option.splits)
  moreover have "set (pl_order p) = dom (map_of (pl_targets p))" using assms(1) by (simp add: planOK_def)
  ultimately show ?thesis using pt(2,3) m by (simp add: planOK_def)
qed

context graph_store
begin

lemma view_Inr:
  assumes "view S i (w, seen) = (Inr v, (w', seen'))" and "seenOK (ents w) seen"
  shows "ents w' = ents w" and "seenOK (ents w) seen'" and "ents w i = Some (ev_state v)"
    and "kindOf (ev_state v) = Inr (ev_kind v)"
  using assms get_frame get_ok
  by (auto simp: view_def seenOK_def Let_def split: option.splits prod.splits sum.splits if_splits)

lemma view_frame: "view S i (w, seen) = (r, (w', seen')) \<Longrightarrow> ents w' = ents w"
  using get_frame
  by (auto simp: view_def Let_def split: option.splits prod.splits sum.splits if_splits)

lemma checkReferencedObject_frame:
  "checkReferencedObject S p t o1 (w, seen) = (r, (w', seen')) \<Longrightarrow> ents w' = ents w"
  using view_frame
  by (fastforce simp: checkReferencedObject_def elim!: bindM_cases split: option.splits if_splits)

lemma checkReferencedObject_Inr:
  assumes "checkReferencedObject S p t o1 (w, seen) = (Inr u, (w', seen'))" and "seenOK (ents w) seen"
  shows "ents w' = ents w" and "seenOK (ents w) seen'"
    and "\<exists>oid k. o1 = AString oid \<and> oid \<noteq> t \<and> kindIn (ents w) oid k \<and> AllowsObjectKind p k"
proof -
  obtain oid v where o: "o1 = AString oid" "oid \<noteq> t" and v: "view S oid (w, seen) = (Inr v, (w', seen'))"
    and k: "AllowsObjectKind p (ev_kind v)"
    using assms(1)
    by (auto simp: checkReferencedObject_def elim!: bindM_cases split: option.splits if_splits)
  note vi = view_Inr [OF v assms(2)]
  show "ents w' = ents w" "seenOK (ents w) seen'" by (fact vi)+
  show "\<exists>oid k. o1 = AString oid \<and> oid \<noteq> t \<and> kindIn (ents w) oid k \<and> AllowsObjectKind p k"
    using o k vi by (auto simp: kindIn_def)
qed

lemma foldIntent_frame:
  "foldIntent X S bnds p i (w, seen) = (r, (w', seen')) \<Longrightarrow> ents w' = ents w"
  by (auto simp: foldIntent_def checkM_eq Let_def elim!: bindM_cases
      split: sum.splits prod.splits if_splits
      dest!: view_frame checkReferencedObject_frame)

lemma foldIntent_Inr:
  assumes r: "foldIntent X S bnds p i (w, seen) = (Inr p', (w', seen'))"
    and seen: "seenOK (ents w) seen" and ok: "planOK (ents w) G p"
  shows "ents w' = ents w" and "seenOK (ents w) seen'" and "intentOK X bnds (ents w) i"
    and "planOK (ents w) (specStep X i G) p'"
proof -
  obtain q object where m: "EffectIntent_Mutation X i = Inr (q, object)"
    using r by (auto simp: foldIntent_def split: sum.splits)
  have b: "checkBounds bnds q object = None" using r m by (auto simp: foldIntent_def checkM_eq)
  obtain v w1 seen1 where v: "view S (ei_Target i) (w, seen) = (Inr v, (w1, seen1))"
    and sk: "AllowsSubjectKind q (ev_kind v)"
    and rest: "bindM (if IsEntityReference q then checkReferencedObject S q (ei_Target i) object else ret ())
      (\<lambda>_. let (built', tw) = plan_target p (ei_Target i) in
         case foldValue X tw v q object (ei_Type i) of
           Inl v \<Rightarrow> throw v
         | Inr tw' \<Rightarrow> ret (built'\<lparr>pl_targets := AList.update (ei_Target i) tw' (pl_targets built')\<rparr>))
      (w1, seen1) = (Inr p', (w', seen'))"
    using r m by (auto simp: foldIntent_def checkM_eq elim!: bindM_cases split: if_splits)
  note vi = view_Inr [OF v seen]
  have ref: "ents w' = ents w \<and> seenOK (ents w) seen' \<and> (IsEntityReference q \<longrightarrow>
      (\<exists>oid k. object = AString oid \<and> oid \<noteq> ei_Target i \<and> kindIn (ents w) oid k \<and> AllowsObjectKind q k))"
    using rest checkReferencedObject_Inr [of q "ei_Target i" object w1 seen1] vi
    by (auto simp: Let_def elim!: bindM_cases split: if_splits prod.splits sum.splits)
  show "ents w' = ents w" "seenOK (ents w) seen'" using ref by blast+
  show "intentOK X bnds (ents w) i"
    using m b sk vi ref by (auto simp: intentOK_def kindIn_def)
  obtain p1 tw where pt: "plan_target p (ei_Target i) = (p1, tw)" by fastforce
  then obtain tw' where fv: "foldValue X tw v q object (ei_Type i) = Inr tw'"
    and p': "p' = p1\<lparr>pl_targets := AList.update (ei_Target i) tw' (pl_targets p1)\<rparr>"
    using rest by (auto elim!: bindM_cases split: sum.splits)
  have w: "writable q" by (rule Mutation_writable [OF m])
  have str: "\<exists>s. object = AString s" if "IsMultiValued q"
    using that ref w writable_multi_iff writable_reference_iff by blast
  note fold = foldValue_OK [OF plan_target_OK(1) [OF ok pt] vi(3) w str fv]
  show "planOK (ents w) (specStep X i G) p'"
    unfolding p' specStep_def m using planOK_update [OF ok pt] fold by (simp add: specWrite_def)
qed

lemma buildLoop_frame:
  "buildLoop X S bnds n p is (w, seen) = (r, (w', seen')) \<Longrightarrow> ents w' = ents w"
proof (induction "is" arbitrary: n p w seen)
  case (Cons i "is")
  from Cons.prems show ?case
    by (auto elim!: bindM_cases simp: mapErr_Inl dest!: foldIntent_frame Cons.IH)
qed simp

lemma buildLoop_Inr:
  assumes "buildLoop X S bnds n p is (w, seen) = (Inr p', (w', seen'))"
    and "seenOK (ents w) seen" and "planOK (ents w) G p"
  shows "(\<forall>i \<in> set is. intentOK X bnds (ents w) i) \<and> planOK (ents w) (specBatch X is G) p'"
  using assms
proof (induction "is" arbitrary: n p w seen G)
  case Nil
  then show ?case by (simp add: specBatch_def)
next
  case (Cons i "is")
  obtain p1 w1 seen1 where f: "foldIntent X S bnds p i (w, seen) = (Inr p1, (w1, seen1))"
    and l: "buildLoop X S bnds (n + 1) p1 is (w1, seen1) = (Inr p', (w', seen'))"
    using Cons.prems(1) by (auto elim!: bindM_cases)
  note fi = foldIntent_Inr [OF f Cons.prems(2,3)]
  show ?case
    using Cons.IH [OF l, of "specStep X i G"] fi by (simp add: specBatch_def)
qed

lemma buildPlan_frame: "buildPlan X S bnds batch w = (r, w') \<Longrightarrow> ents w' = ents w"
  by (auto simp: buildPlan_def split: prod.splits dest: buildLoop_frame)

lemma buildPlan_Inr:
  assumes "buildPlan X S bnds batch w = (Inr p, w')"
  shows "\<forall>i \<in> set (eb_Intents batch). intentOK X bnds (ents w) i"
    and "planOK (ents w) (specBatch X (eb_Intents batch) (objs ents w)) p"
proof -
  obtain seen' where "buildLoop X S bnds 0 emptyPlan (eb_Intents batch) (w, []) = (Inr p, (w', seen'))"
    using assms by (auto simp: buildPlan_def split: prod.splits)
  from buildLoop_Inr [OF this seenOK_empty planOK_empty]
  show "\<forall>i \<in> set (eb_Intents batch). intentOK X bnds (ents w) i"
    "planOK (ents w) (specBatch X (eb_Intents batch) (objs ents w)) p" by blast+
qed

end

section \<open>What the projections of a plan hold\<close>

lemma foldl_touch:
  fixes acc :: "(Target, Predicate list) gomap"
  assumes "distinct (map fst acc)"
  shows "distinct (map fst (foldl touch acc order))
    \<and> (\<forall>t. map_of (foldl touch acc order) t =
         (let new = filter (\<lambda>p. EffectTargetForPredicate p = Some t) order in
          case map_of acc t of
            None \<Rightarrow> (if new = [] then None else Some new)
          | Some ps \<Rightarrow> Some (ps @ new)))"
  using assms
proof (induction order arbitrary: acc)
  case Nil
  then show ?case by (auto split: option.splits)
next
  case (Cons p order)
  have d: "distinct (map fst (touch acc p))"
    using Cons.prems
    by (auto simp: touch_def distinct_update map_of_eq_None_iff split: option.splits)
  have m: "map_of (touch acc p) t =
      (if EffectTargetForPredicate p = Some t
       then Some ((case map_of acc t of None \<Rightarrow> [] | Some ps \<Rightarrow> ps) @ [p]) else map_of acc t)" for t
    by (auto simp: touch_def update_conv' map_add_def split: option.splits)
  show ?case
    using Cons.IH [OF d] by (auto simp: m Let_def split: option.splits)
qed

lemma touched_iff:
  "(t, ps) \<in> set (foldl touch [] order) \<longleftrightarrow>
     ps = filter (\<lambda>p. EffectTargetForPredicate p = Some t) order \<and> ps \<noteq> []"
proof -
  note f = foldl_touch [of "[]" order, simplified]
  have "(t, ps) \<in> set (foldl touch [] order) \<longleftrightarrow> map_of (foldl touch [] order) t = Some ps"
    using f by (metis map_of_eq_Some_iff)
  then show ?thesis using f by (auto simp: Let_def)
qed

lemma objectsIn_concat_one:
  assumes "distinct ps" and "\<And>p x. p \<in> set ps \<Longrightarrow> x \<in> set (f p) \<Longrightarrow> trPredicate x = p"
  shows "objectsIn (concat (map f ps)) q = (if q \<in> set ps then map trObject (f q) else [])"
  using assms
proof (induction ps)
  case (Cons p ps)
  have "objectsIn (f p) q = (if q = p then map trObject (f p) else [])"
  proof (cases "q = p")
    case True
    then have "filter (\<lambda>x. trPredicate x = q) (f p) = f p"
      using Cons.prems(2) by (auto simp: filter_id_conv)
    then show ?thesis using True by (simp add: objectsIn_filter)
  next
    case False
    then have "filter (\<lambda>x. trPredicate x = q) (f p) = []"
      using Cons.prems(2) [of p] by (auto simp: filter_empty_conv)
    then show ?thesis using False by (simp add: objectsIn_filter)
  qed
  then show ?case using Cons by auto
qed simp

lemma writeTriple_fields:
  assumes "entryOK M p entry" and "v \<in> set (pw_objects entry)"
  shows "trPredicate (writeTriple X i src ctx at entry p v) = p"
    and "trObject (writeTriple X i src ctx at entry p v) = ow_object v"
  using assms by (auto simp: entryOK_def writeTriple_def split: option.splits)

lemma targetTriples_objects:
  assumes ok: "targetOK E g i tw" and res: "tw_resident tw \<noteq> None"
    and t: "(t, touched) \<in> set (foldl touch [] (tw_order tw))" and q: "q \<in> set (Predicates t)"
  shows "mset (objectsIn (targetTriples X tw src ctx at t touched) q) = g q"
proof -
  obtain e where e: "tw_resident tw = Some e" "E i = Some e"
    using ok res by (auto simp: targetOK_def)
  have touched: "set touched = {p \<in> set (tw_order tw). EffectTargetForPredicate p = Some t}" "touched \<noteq> []"
    using t by (auto simp: touched_iff)
  then obtain p0 where p0: "EffectTargetForPredicate p0 = Some t" by (cases touched) auto
  have qt: "EffectTargetForPredicate q = Some t" by (rule effect_group_writable(1) [OF p0 q])
  have order: "set (tw_order tw) = dom (map_of (tw_writes tw))" "distinct (tw_order tw)"
    using ok by (auto simp: targetOK_def)
  define f where "f p = (if EffectTargetForPredicate p \<noteq> Some t then []
         else (case map_of (tw_writes tw) p of
                 None \<Rightarrow> []
               | Some entry \<Rightarrow>
                   map (writeTriple X (tw_entityID tw) src ctx at entry p) (pw_objects entry)))" for p
  have fp: "trPredicate x = p" if "p \<in> set (tw_order tw)" "x \<in> set (f p)" for p x
    using that targetOK_at [OF ok, of p]
    by (auto simp: f_def writeTriple_fields split: if_splits option.splits)
  have writes: "objectsIn (concat (map f (tw_order tw))) q =
      (if q \<in> set (tw_order tw) then map trObject (f q) else [])"
    by (rule objectsIn_concat_one [OF order(2) fp])
  define rest where "rest = filter (\<lambda>tr. List.member (Predicates t) (trPredicate tr) \<and> \<not> List.member touched (trPredicate tr)) (esTriples e)"
  have all: "targetTriples X tw src ctx at t touched = rest @ concat (map f (tw_order tw))"
    using e by (simp add: targetTriples_def rest_def f_def [abs_def])
  have rest_q: "objectsIn rest q = (if q \<in> set touched then [] else objectsIn (esTriples e) q)"
    using q by (auto simp: rest_def objectsIn_filter filter_empty_conv intro!: arg_cong [where f = "map trObject"] filter_cong)
  show ?thesis
  proof (cases "q \<in> set (tw_order tw)")
    case True
    then obtain entry where entry: "map_of (tw_writes tw) q = Some entry" using order by auto
    have eok: "entryOK (g q) q entry" using targetOK_at [OF ok, of q] entry by simp
    have "map trObject (f q) = map ow_object (pw_objects entry)"
      using qt entry eok by (auto simp: f_def writeTriple_fields)
    then show ?thesis
      using True rest_q touched qt writes all eok by (simp add: entryOK_def)
  next
    case False
    then have "map_of (tw_writes tw) q = None" using order by auto
    then have "g q = graphOf E i q" using targetOK_at [OF ok, of q] by simp
    then show ?thesis using False rest_q touched writes all e by (simp add: graphOf_def)
  qed
qed

lemma projections_objects:
  assumes "targetOK E g i tw" and "tw_resident tw \<noteq> None"
    and "pj \<in> set (projections X tw src ctx at)" and "q \<in> set (Predicates (pj_target pj))"
  shows "mset (objectsIn (pj_triples pj) q) = g q" and "writable q"
proof -
  obtain t touched where t: "(t, touched) \<in> set (foldl touch [] (tw_order tw))"
    and pj: "pj = \<lparr>pj_target = t, pj_triples = targetTriples X tw src ctx at t touched\<rparr>"
    using assms(3) by (auto simp: projections_def)
  show "mset (objectsIn (pj_triples pj) q) = g q"
    using targetTriples_objects [OF assms(1,2) t] assms(4) pj by simp
  obtain p0 where "EffectTargetForPredicate p0 = Some t"
    using t unfolding touched_iff by (auto simp: filter_empty_conv)
  then show "writable q" using effect_group_writable(2) assms(4) pj by simp
qed

lemma projections_cover:
  assumes "targetOK E g i tw" and "g q \<noteq> graphOf E i q"
  shows "\<exists>pj \<in> set (projections X tw src ctx at). q \<in> set (Predicates (pj_target pj))"
proof -
  obtain entry where entry: "map_of (tw_writes tw) q = Some entry" and "writable q"
    using targetOK_at [OF assms(1), of q] assms(2) by (auto simp: entryOK_def split: option.splits)
  then obtain t where t: "EffectTargetForPredicate q = Some t" using EffectTargetForPredicate_total by blast
  have "q \<in> set (tw_order tw)" using assms(1) entry by (auto simp: targetOK_def)
  then have "(t, filter (\<lambda>p. EffectTargetForPredicate p = Some t) (tw_order tw)) \<in> set (foldl touch [] (tw_order tw))"
    using t by (auto simp: touched_iff filter_empty_conv)
  then show ?thesis
    using effect_group_member [OF t] by (force simp: projections_def)
qed

end
