(* ===== verification/Scene.thy ===== *)
theory Scene
  imports Effect_Plan
begin

text \<open>
  \<^verbatim>\<open>internal/scene\<close>: the bounded view of the world a turn is played in. \<^verbatim>\<open>view.go\<close> is the data,
  \<^verbatim>\<open>assembler.go\<close> reads the turn, its scene, the place of the scene, everybody there and what
  they refer to. The graph, the clock and the SemStreams test whether a triple is a relationship are
  fields of the assembler. The lemmas bound the view, and show that a verified actor stands in it.
\<close>

section \<open>The view\<close>

record scene_Entity =
  sn_ID :: string
  sn_Triples :: "Triple list"

definition scene_Objects :: "scene_Entity \<Rightarrow> Predicate \<Rightarrow> any list" where
  "scene_Objects e p = objectsIn (sn_Triples e) p"

type_synonym ExclusionReason = string

definition ExcludedMissing :: ExclusionReason where "ExcludedMissing = ''missing''"

record Exclusion =
  xc_ID :: string
  xc_Reason :: ExclusionReason

type_synonym ActorDoubt = string

definition ActorPlayerAbsent :: ActorDoubt where "ActorPlayerAbsent = ''player-absent''"
definition ActorBindingAbsent :: ActorDoubt where "ActorBindingAbsent = ''binding-absent''"
definition ActorBindingAmbiguous :: ActorDoubt where "ActorBindingAmbiguous = ''binding-ambiguous''"

record scene_Actor =
  sa_PlayerID :: string
  sa_CharacterID :: string
  sa_Doubt :: ActorDoubt

definition Verified :: "scene_Actor \<Rightarrow> bool" where
  "Verified a = (sa_Doubt a = [] \<and> sa_CharacterID a \<noteq> [])"

record Size =
  sz_Entities :: nat
  sz_Triples :: nat
  sz_Bytes :: nat

record View =
  vw_TurnID :: string
  vw_TurnEntityID :: string
  vw_SceneID :: string
  vw_LocationID :: string
  vw_AssembledAt :: time
  vw_Turn :: scene_Entity
  vw_Scene :: scene_Entity
  vw_Location :: scene_Entity
  vw_Members :: "scene_Entity list"
  vw_Neighbours :: "scene_Entity list"
  vw_Excluded :: "Exclusion list"
  vw_Actor :: scene_Actor
  vw_Size :: Size

definition View_Entities :: "View \<Rightarrow> scene_Entity list" where
  "View_Entities v = [vw_Turn v, vw_Scene v, vw_Location v] @ vw_Members v @ vw_Neighbours v"

definition View_entity :: "View \<Rightarrow> string \<Rightarrow> scene_Entity option" where
  "View_entity v i = List.find (\<lambda>e. sn_ID e = i) (View_Entities v)"

definition idsOf :: "scene_Entity list \<Rightarrow> string list" where
  "idsOf entities = map sn_ID entities"

definition registered :: "string \<Rightarrow> bool" where
  "registered p = List.member AllPredicates p"

definition project :: "EntityState \<Rightarrow> scene_Entity" where
  "project st = \<lparr>sn_ID = esID st, sn_Triples = filter (\<lambda>t. registered (trPredicate t)) (esTriples st)\<rparr>"

definition tripleBytes :: "ext \<Rightarrow> Triple \<Rightarrow> nat" where
  "tripleBytes X t = length (trPredicate t) + length (sprint X (trObject t))"

definition measure_view :: "ext \<Rightarrow> scene_Entity list \<Rightarrow> Size" where
  "measure_view X entities =
     \<lparr>sz_Entities = length entities,
      sz_Triples = sum_list (map (\<lambda>e. length (sn_Triples e)) entities),
      sz_Bytes = sum_list (map (\<lambda>e. length (sn_ID e) + sum_list (map (tripleBytes X) (sn_Triples e))) entities)\<rparr>"

section \<open>Reading single values\<close>

fun referenceLoop :: "any list \<Rightarrow> gerror + string list" where
  "referenceLoop [] = Inr []"
| "referenceLoop (v # vs) =
     (case v of
        AString i \<Rightarrow> map_sum id ((#) i) (referenceLoop vs)
      | _ \<Rightarrow> Inl (Errorf ''entity records a value of the wrong type, want an entity id''))"

definition entityReferences :: "scene_Entity \<Rightarrow> Predicate \<Rightarrow> gerror + string list" where
  "entityReferences entity p = referenceLoop (scene_Objects entity p)"

text \<open>The switch on the number of references, with the two error messages of each reader.\<close>

definition soleReference :: "string \<Rightarrow> string \<Rightarrow> scene_Entity \<Rightarrow> Predicate \<Rightarrow> gerror + string" where
  "soleReference absent several entity p =
     (case entityReferences entity p of
        Inl e \<Rightarrow> Inl e
      | Inr [] \<Rightarrow> Inl (Errorf absent)
      | Inr [i] \<Rightarrow> Inr i
      | Inr _ \<Rightarrow> Inl (Errorf several))"

definition sceneOf :: "scene_Entity \<Rightarrow> gerror + string" where
  "sceneOf turn =
     soleReference ''turn carries no scene; it has no world to assemble''
       ''turn holds several values for the single-valued scene'' turn TurnActionScene"

definition locationOf :: "scene_Entity \<Rightarrow> gerror + string" where
  "locationOf scene =
     soleReference ''scene carries no location; it has no persistent place to assemble''
       ''scene holds several values for the single-valued location'' scene SceneLocationCurrent"

definition scene_playerOf :: "scene_Entity \<Rightarrow> gerror + string" where
  "scene_playerOf turn =
     soleReference ''turn carries no player; nothing can say who is acting''
       ''turn holds several values for the single-valued player'' turn TurnActionPlayer"

definition requireKind :: "scene_Entity \<Rightarrow> EntityKind \<Rightarrow> gerror option" where
  "requireKind entity want =
     (case scene_Objects entity WorldEntityKind of
        [v] \<Rightarrow> failIf (v \<noteq> AString want) (Errorf ''scene location has another entity kind'')
      | _ \<Rightarrow> Some (Errorf ''location entity holds the wrong number of kinds''))"

section \<open>The actor\<close>

definition actorOf :: "View \<Rightarrow> gerror + scene_Actor" where
  "actorOf v =
     (case scene_playerOf (vw_Turn v) of
        Inl e \<Rightarrow> Inl e
      | Inr playerID \<Rightarrow>
          (let actor = \<lparr>sa_PlayerID = playerID, sa_CharacterID = [], sa_Doubt = []\<rparr> in
           case View_entity v playerID of
             None \<Rightarrow> Inr (actor\<lparr>sa_Doubt := ActorPlayerAbsent\<rparr>)
           | Some player \<Rightarrow>
               (case entityReferences player PlayerCharacterCurrent of
                  Inl e \<Rightarrow> Inl e
                | Inr [] \<Rightarrow> Inr (actor\<lparr>sa_Doubt := ActorBindingAbsent\<rparr>)
                | Inr [characterID] \<Rightarrow>
                    if List.member (idsOf (vw_Members v)) characterID
                    then Inr (actor\<lparr>sa_CharacterID := characterID\<rparr>)
                    else Inl (AbsentActorError
                      (case List.find (\<lambda>x. xc_ID x = characterID) (vw_Excluded v) of
                         Some x \<Rightarrow> xc_Reason x | None \<Rightarrow> []))
                | Inr _ \<Rightarrow> Inr (actor\<lparr>sa_Doubt := ActorBindingAmbiguous\<rparr>))))"

section \<open>The assembler\<close>

definition DefaultMaxEntities :: int where "DefaultMaxEntities = 64"
definition fixedEntities :: nat where "fixedEntities = 3"

text \<open>\<open>as_isRel\<close> is the SemStreams method \<^verbatim>\<open>Triple.IsRelationship\<close>.\<close>

record 'w Assembler =
  as_GetEntity :: "string \<Rightarrow> ('w, EntityState option) M"
  as_GetEntities :: "string list \<Rightarrow> ('w, EntityBatchResponse) M"
  as_Incoming :: "string \<Rightarrow> ('w, IncomingEntry list) M"
  as_maxEntities :: int
  as_now :: "('w \<Rightarrow> time \<times> 'w) option"
  as_isRel :: "Triple \<Rightarrow> bool"

text \<open>The options are the entity cap and the clock, as they stand after all of them ran.\<close>

definition NewAssembler :: "'w Assembler \<Rightarrow> gerror + 'w Assembler" where
  "NewAssembler a =
     (if as_maxEntities a \<le> 0 then Inl (Errorf ''context assembler requires a positive entity cap'')
      else if as_now a = None then Inl (Errorf ''context assembler requires a clock'')
      else Inr a)"

definition readSolid :: "'w Assembler \<Rightarrow> string \<Rightarrow> ('w, EntityState) M" where
  "readSolid a i =
     bindM (mapErr (Wrapf ''read entity'') (as_GetEntity a i)) (\<lambda>r. case r of
       None \<Rightarrow> throw (Errorf ''read entity: the graph returned nothing'')
     | Some st \<Rightarrow> ret st)"

fun memberLoop :: "string \<Rightarrow> string list \<Rightarrow> IncomingEntry list \<Rightarrow> string list" where
  "memberLoop locationID seen [] = []"
| "memberLoop locationID seen (edge # edges) =
     (if \<not> IsSceneMembership (ie_Predicate edge) then memberLoop locationID seen edges
      else if ie_FromEntityID edge = [] \<or> ie_FromEntityID edge = locationID
        \<or> List.member seen (ie_FromEntityID edge)
      then memberLoop locationID seen edges
      else ie_FromEntityID edge # memberLoop locationID (ie_FromEntityID edge # seen) edges)"

definition memberIDs :: "'w Assembler \<Rightarrow> string \<Rightarrow> ('w, string list) M" where
  "memberIDs a locationID =
     bindM (mapErr (Wrapf ''read the members of location'') (as_Incoming a locationID)) (\<lambda>incoming.
     ret (sort (memberLoop locationID [] incoming)))"

fun neighbourLoop :: "(Triple \<Rightarrow> bool) \<Rightarrow> string list \<Rightarrow> string list \<Rightarrow> Triple list \<Rightarrow> string list" where
  "neighbourLoop isRel inView seen [] = []"
| "neighbourLoop isRel inView seen (t # ts) =
     (case (isRel t, trObject t) of
        (True, AString i) \<Rightarrow>
          if List.member inView i \<or> List.member seen i then neighbourLoop isRel inView seen ts
          else i # neighbourLoop isRel inView (i # seen) ts
      | _ \<Rightarrow> neighbourLoop isRel inView seen ts)"

definition neighbourIDsOf ::
    "(Triple \<Rightarrow> bool) \<Rightarrow> string \<Rightarrow> string \<Rightarrow> scene_Entity \<Rightarrow> scene_Entity \<Rightarrow> scene_Entity \<Rightarrow> scene_Entity list
     \<Rightarrow> string list" where
  "neighbourIDsOf isRel sceneID locationID turn scene location members =
     sort (neighbourLoop isRel ([sceneID, locationID, sn_ID turn] @ idsOf members) []
       (concat (map sn_Triples ([turn, scene, location] @ members))))"

text \<open>Entities and exclusions are sorted by id; equal ids keep the order of the reply here.\<close>

definition hydrate_scene :: "'w Assembler \<Rightarrow> string list \<Rightarrow> ('w, scene_Entity list \<times> Exclusion list) M" where
  "hydrate_scene a ids =
     (if ids = [] then ret ([], [])
      else bindM (mapErr (Wrapf ''read entities'') (as_GetEntities a ids)) (\<lambda>result.
        ret (sort_key sn_ID (map project (br_Entities result)),
             sort_key xc_ID (map (\<lambda>m. \<lparr>xc_ID = me_ID m, xc_Reason = ExcludedMissing\<rparr>) (br_Missing result)))))"

definition checkCap :: "'w Assembler \<Rightarrow> string \<Rightarrow> nat \<Rightarrow> gerror option" where
  "checkCap a sceneID entities = failIf (as_maxEntities a < int entities) (OversizeError sceneID)"

definition assembler_now :: "'w Assembler \<Rightarrow> ('w, time) M" where
  "assembler_now a =
     (\<lambda>w. case as_now a of None \<Rightarrow> (Inl (Errorf ''nil clock''), w) | Some now \<Rightarrow> map_prod Inr id (now w))"

text \<open>The three reads that fix the frame of the view: the turn, its scene and the place of the scene.\<close>

definition assembleFrame ::
    "'w Assembler \<Rightarrow> string \<Rightarrow> ('w, scene_Entity \<times> string \<times> scene_Entity \<times> string \<times> scene_Entity) M" where
  "assembleFrame a turnEntityID =
     bindM (readSolid a turnEntityID) (\<lambda>turnState.
     let turn = project turnState in
     bindM (liftR (sceneOf turn)) (\<lambda>sceneID.
     bindM (readSolid a sceneID) (\<lambda>sceneState.
     let scene = project sceneState in
     bindM (liftR (locationOf scene)) (\<lambda>locationID.
     bindM (readSolid a locationID) (\<lambda>locationState.
     let location = project locationState in
     checkM (requireKind location EntityKindLocation)
       (ret (turn, sceneID, scene, locationID, location)))))))"

definition frameView ::
    "string \<Rightarrow> string \<Rightarrow> scene_Entity \<times> string \<times> scene_Entity \<times> string \<times> scene_Entity \<Rightarrow> time \<Rightarrow> View" where
  "frameView turnID turnEntityID f at =
     (case f of (turn, sceneID, scene, locationID, location) \<Rightarrow>
        \<lparr>vw_TurnID = turnID, vw_TurnEntityID = turnEntityID, vw_SceneID = sceneID,
         vw_LocationID = locationID, vw_AssembledAt = at, vw_Turn = turn, vw_Scene = scene,
         vw_Location = location, vw_Members = [], vw_Neighbours = [], vw_Excluded = [],
         vw_Actor = \<lparr>sa_PlayerID = [], sa_CharacterID = [], sa_Doubt = []\<rparr>,
         vw_Size = \<lparr>sz_Entities = 0, sz_Triples = 0, sz_Bytes = 0\<rparr>\<rparr>)"

definition addMembers :: "'w Assembler \<Rightarrow> string list \<Rightarrow> View \<Rightarrow> ('w, View) M" where
  "addMembers a mids v =
     checkM (checkCap a (vw_SceneID v) (fixedEntities + length mids))
     (bindM (hydrate_scene a mids) (\<lambda>(members, excluded).
      ret (v\<lparr>vw_Members := members, vw_Excluded := excluded\<rparr>)))"

definition viewNeighbours :: "(Triple \<Rightarrow> bool) \<Rightarrow> View \<Rightarrow> string list" where
  "viewNeighbours isRel v =
     neighbourIDsOf isRel (vw_SceneID v) (vw_LocationID v) (vw_Turn v) (vw_Scene v) (vw_Location v) (vw_Members v)"

definition addNeighbours :: "'w Assembler \<Rightarrow> string list \<Rightarrow> View \<Rightarrow> ('w, View) M" where
  "addNeighbours a mids v =
     (let nids = viewNeighbours (as_isRel a) v in
      checkM (checkCap a (vw_SceneID v) (fixedEntities + length mids + length nids))
      (bindM (hydrate_scene a nids) (\<lambda>(neighbours, exclusions).
       ret (v\<lparr>vw_Neighbours := neighbours, vw_Excluded := vw_Excluded v @ exclusions\<rparr>))))"

definition pinActor :: "ext \<Rightarrow> View \<Rightarrow> gerror + View" where
  "pinActor X v =
     map_sum id (\<lambda>actor. v\<lparr>vw_Actor := actor, vw_Size := measure_view X (View_Entities v)\<rparr>) (actorOf v)"

definition Assemble :: "ext \<Rightarrow> 'w Assembler \<Rightarrow> string \<Rightarrow> string \<Rightarrow> ('w, View) M" where
  "Assemble X a turnID turnEntityID =
     checkM (RequireTurnEntityID X turnID turnEntityID)
     (bindM (assembleFrame a turnEntityID) (\<lambda>f.
      bindM (assembler_now a) (\<lambda>at.
      let v = frameView turnID turnEntityID f at in
      bindM (memberIDs a (vw_LocationID v)) (\<lambda>mids.
      bindM (addMembers a mids v) (\<lambda>v.
      bindM (addNeighbours a mids v) (\<lambda>v.
      liftR (pinActor X v)))))))"

section \<open>What a view contains\<close>

lemma memberLoop_distinct:
  "distinct (memberLoop l seen es) \<and> set (memberLoop l seen es) \<inter> set seen = {} \<and> l \<notin> set (memberLoop l seen es)
    \<and> set (memberLoop l seen es) \<subseteq> ie_FromEntityID ` {e \<in> set es. IsSceneMembership (ie_Predicate e)}"
proof (induction es arbitrary: seen)
  case (Cons e es)
  then show ?case using Cons.IH [of "ie_FromEntityID e # seen"] Cons.IH [of seen] by auto
qed simp

lemma neighbourLoop_distinct:
  "distinct (neighbourLoop r inView seen ts) \<and> set (neighbourLoop r inView seen ts) \<inter> (set seen \<union> set inView) = {}"
proof (induction ts arbitrary: seen)
  case (Cons t ts)
  show ?case
  proof (cases "asString (trObject t)")
    case (Some i)
    then show ?thesis using Cons.IH [of "i # seen"] Cons.IH [of seen] by (auto split: bool.splits)
  qed (use Cons.IH [of seen] in \<open>auto simp: asString_def split: any.splits bool.splits\<close>)
qed simp

lemma neighbourIDsOf_distinct:
  "distinct (neighbourIDsOf r s l turn scene loc ms) \<and> set (neighbourIDsOf r s l turn scene loc ms) \<inter> set (idsOf ms) = {}"
  using neighbourLoop_distinct [of r "[s, l, sn_ID turn] @ idsOf ms" "[]"]
  by (simp add: neighbourIDsOf_def Int_Un_distrib)

lemma referenceLoop_Inr: "referenceLoop vs = Inr is \<Longrightarrow> vs = map AString is"
  by (induction vs arbitrary: "is") (auto split: any.splits)

lemma actorOf_Inr:
  assumes "actorOf v = Inr actor"
  shows "scene_Objects (vw_Turn v) TurnActionPlayer = [AString (sa_PlayerID actor)]"
    and "Verified actor \<Longrightarrow> sa_CharacterID actor \<in> set (idsOf (vw_Members v))
      \<and> (\<exists>player \<in> set (View_Entities v). sn_ID player = sa_PlayerID actor
            \<and> scene_Objects player PlayerCharacterCurrent = [AString (sa_CharacterID actor)])"
  using assms
  by (auto simp: actorOf_def scene_playerOf_def soleReference_def entityReferences_def Verified_def View_entity_def
      Let_def ActorPlayerAbsent_def ActorBindingAbsent_def ActorBindingAmbiguous_def
      find_Some_iff split: sum.splits list.splits option.splits if_splits dest!: referenceLoop_Inr)

lemma distinct_sub:
  assumes "mset xs \<subseteq># mset ys" and "distinct ys"
  shows "distinct xs"
proof -
  obtain M where "mset ys = mset xs + M" using assms(1) by (metis subset_mset.add_diff_inverse)
  moreover obtain zs where "mset zs = M" using ex_mset by blast
  ultimately have "mset ys = mset (xs @ zs)" by simp
  with assms(2) have "distinct (xs @ zs)" using mset_eq_imp_distinct_iff by blast
  then show ?thesis by simp
qed

text \<open>A batch read answers each requested id at most once.\<close>

locale batch_reader =
  fixes getEntities :: "string list \<Rightarrow> ('w, EntityBatchResponse) M"
  assumes batch_once: "getEntities ids w = (Inr r, w') \<Longrightarrow> mset (map esID (br_Entities r)) \<subseteq># mset ids"

locale scene_graph = batch_reader "as_GetEntities a" for a :: "'w Assembler"
begin

lemma hydrate_ids:
  assumes "hydrate_scene a ids w = (Inr (es, xs), w')"
  shows "mset (idsOf es) \<subseteq># mset ids" and "\<forall>e \<in> set es. \<forall>t \<in> set (sn_Triples e). registered (trPredicate t)"
  using assms batch_once
  by (auto simp: hydrate_scene_def bindM_Inr idsOf_def project_def image_mset.compositionality comp_def
      split: if_splits)

lemma addMembers_Inr:
  assumes "addMembers a mids v w = (Inr v', w')"
  obtains members excluded where "v' = v\<lparr>vw_Members := members, vw_Excluded := excluded\<rparr>"
    "mset (idsOf members) \<subseteq># mset mids" "\<forall>e \<in> set members. \<forall>t \<in> set (sn_Triples e). registered (trPredicate t)"
  using assms hydrate_ids by (auto simp: addMembers_def bindM_Inr checkM_eq)

lemma addNeighbours_Inr:
  assumes "addNeighbours a mids v w = (Inr v', w')"
  obtains neighbours excluded where "v' = v\<lparr>vw_Neighbours := neighbours, vw_Excluded := excluded\<rparr>"
    "mset (idsOf neighbours) \<subseteq># mset (viewNeighbours (as_isRel a) v)"
    "\<forall>e \<in> set neighbours. \<forall>t \<in> set (sn_Triples e). registered (trPredicate t)"
    "int (fixedEntities + length mids + length (viewNeighbours (as_isRel a) v)) \<le> as_maxEntities a"
  using assms hydrate_ids
  by (auto simp: addNeighbours_def bindM_Inr checkM_eq checkCap_def Let_def not_less)

lemma assembleFrame_registered:
  "assembleFrame a i w = (Inr (turn, sceneID, scene, locationID, location), w') \<Longrightarrow>
     \<forall>e \<in> {turn, scene, location}. \<forall>t \<in> set (sn_Triples e). registered (trPredicate t)"
  by (auto simp: assembleFrame_def bindM_Inr Let_def checkM_eq project_def)

lemma assemble_Inr:
  assumes "Assemble X a turnID turnEntityID w = (Inr v, w')"
  shows "vw_TurnID v = turnID \<and> vw_TurnEntityID v = turnEntityID"
    and "int (length (View_Entities v)) \<le> as_maxEntities a"
    and "\<forall>e \<in> set (View_Entities v). \<forall>t \<in> set (sn_Triples e). registered (trPredicate t)"
    and "distinct (idsOf (vw_Members v @ vw_Neighbours v))"
    and "\<exists>v0. pinActor X v0 = Inr v"
proof -
  from assms obtain f at mids v1 v2 w1 w2 w3 w4 w5 where frame: "assembleFrame a turnEntityID w = (Inr f, w1)"
      and mids: "memberIDs a (vw_LocationID (frameView turnID turnEntityID f at)) w2 = (Inr mids, w3)"
      and members: "addMembers a mids (frameView turnID turnEntityID f at) w3 = (Inr v1, w4)"
      and neighbours: "addNeighbours a mids v1 w4 = (Inr v2, w5)"
      and actor: "pinActor X v2 = Inr v"
    unfolding Assemble_def by (auto simp: bindM_Inr checkM_eq Let_def)
  obtain turn sceneID scene locationID location where f: "f = (turn, sceneID, scene, locationID, location)"
    by (cases f) auto
  from members obtain ms x1 where v1: "v1 = (frameView turnID turnEntityID f at)\<lparr>vw_Members := ms, vw_Excluded := x1\<rparr>"
      and ms: "mset (idsOf ms) \<subseteq># mset mids" "\<forall>e \<in> set ms. \<forall>t \<in> set (sn_Triples e). registered (trPredicate t)"
    by (rule addMembers_Inr)
  from neighbours obtain ns x2 where v2: "v2 = v1\<lparr>vw_Neighbours := ns, vw_Excluded := x2\<rparr>"
      and ns: "mset (idsOf ns) \<subseteq># mset (viewNeighbours (as_isRel a) v1)"
        "\<forall>e \<in> set ns. \<forall>t \<in> set (sn_Triples e). registered (trPredicate t)"
      and cap: "int (fixedEntities + length mids + length (viewNeighbours (as_isRel a) v1)) \<le> as_maxEntities a"
    by (rule addNeighbours_Inr)
  from actor have v: "v = v2\<lparr>vw_Actor := vw_Actor v, vw_Size := vw_Size v\<rparr>" by (auto simp: pinActor_def)
  have parts: "vw_TurnID v = turnID" "vw_TurnEntityID v = turnEntityID" "vw_Members v = ms" "vw_Neighbours v = ns"
    "View_Entities v = [turn, scene, location] @ ms @ ns"
    by (subst v, simp add: v2 v1 f frameView_def View_Entities_def)+
  show "vw_TurnID v = turnID \<and> vw_TurnEntityID v = turnEntityID" by (simp add: parts)
  have sizes: "length ms \<le> length mids" "length ns \<le> length (viewNeighbours (as_isRel a) v1)"
    using size_mset_mono [OF ms(1)] size_mset_mono [OF ns(1)] by (simp_all add: idsOf_def)
  then show "int (length (View_Entities v)) \<le> as_maxEntities a" using cap by (simp add: parts fixedEntities_def)
  show "\<forall>e \<in> set (View_Entities v). \<forall>t \<in> set (sn_Triples e). registered (trPredicate t)"
    using assembleFrame_registered [OF frame [unfolded f]] ms(2) ns(2) by (auto simp: parts)
  have "distinct mids" using mids memberLoop_distinct by (auto simp: memberIDs_def bindM_Inr)
  moreover have "distinct (viewNeighbours (as_isRel a) v1)" "set (viewNeighbours (as_isRel a) v1) \<inter> set (idsOf ms) = {}"
    using neighbourIDsOf_distinct by (auto simp: v1 viewNeighbours_def)
  moreover have "set (idsOf ns) \<subseteq> set (viewNeighbours (as_isRel a) v1)" using set_mset_mono [OF ns(1)] by simp
  ultimately show "distinct (idsOf (vw_Members v @ vw_Neighbours v))"
    using distinct_sub [OF ms(1)] distinct_sub [OF ns(1)] by (auto simp: parts idsOf_def)
  show "\<exists>v0. pinActor X v0 = Inr v" using actor by blast
qed

lemma assemble_actor:
  assumes "Assemble X a turnID turnEntityID w = (Inr v, w')" and "Verified (vw_Actor v)"
  shows "sa_CharacterID (vw_Actor v) \<in> set (idsOf (vw_Members v))
    \<and> (\<exists>player \<in> set (View_Entities v). sn_ID player = sa_PlayerID (vw_Actor v)
          \<and> scene_Objects player PlayerCharacterCurrent = [AString (sa_CharacterID (vw_Actor v))])
    \<and> scene_Objects (vw_Turn v) TurnActionPlayer = [AString (sa_PlayerID (vw_Actor v))]"
proof -
  obtain v0 actor where "actorOf v0 = Inr actor"
      and v: "v = v0\<lparr>vw_Actor := actor, vw_Size := measure_view X (View_Entities v0)\<rparr>"
    using assemble_Inr(5) [OF assms(1)] by (auto simp: pinActor_def)
  from actorOf_Inr [OF this(1)] assms(2) show ?thesis by (simp add: v View_Entities_def)
qed

end

end
