(* ===== verification/Epistemic.thy ===== *)
theory Epistemic
  imports Scene
begin

text \<open>
  \<^verbatim>\<open>internal/epistemic\<close>, the data: purposes, authenticated audiences and projections
  (\<^verbatim>\<open>types.go\<close>) and the scope of a case with its owned belief records (\<^verbatim>\<open>scope.go\<close>).
  A Go map is an association list in the order Go ranges over it. The lemmas show that a scope gives
  every belief record one owner, whatever that order is.
\<close>

section \<open>Purposes and audiences\<close>

named_theorems purpose_strings \<open>literal values of the purposes\<close>

type_synonym Purpose = string

definition PurposeCasekeeper :: Purpose where [purpose_strings]: "PurposeCasekeeper = ''casekeeper''"
definition PurposePlayer :: Purpose where [purpose_strings]: "PurposePlayer = ''player''"
definition PurposeCompanion :: Purpose where [purpose_strings]: "PurposeCompanion = ''companion''"
definition PurposePublicAdjudicator :: Purpose where
  [purpose_strings]: "PurposePublicAdjudicator = ''public-adjudicator''"
definition PurposeNarrator :: Purpose where [purpose_strings]: "PurposeNarrator = ''narrator''"
definition PurposeDenouement :: Purpose where [purpose_strings]: "PurposeDenouement = ''denouement''"
definition PurposeVerifier :: Purpose where [purpose_strings]: "PurposeVerifier = ''verifier''"
definition PurposeOperator :: Purpose where [purpose_strings]: "PurposeOperator = ''operator''"

definition purposes :: "Purpose list" where
  "purposes = [PurposeCasekeeper, PurposePlayer, PurposeCompanion, PurposePublicAdjudicator,
     PurposeNarrator, PurposeDenouement, PurposeVerifier, PurposeOperator]"

definition Purposes :: "Purpose list" where "Purposes = purposes"

definition ParsePurpose :: "string \<Rightarrow> gerror + Purpose" where
  "ParsePurpose v =
     (if List.member purposes v then Inr v else Inl (Errorf ''epistemic purpose is not declared''))"

record AuthenticatedAudience =
  au_purpose :: Purpose
  au_turnID :: string
  au_turnEntityID :: string
  au_caseID :: string
  au_contextRef :: string
  au_targetActorIDs :: "string list"
  au_companionID :: string
  au_bondID :: string
  au_authorizerRef :: string

definition noAudience :: AuthenticatedAudience where
  "noAudience =
     \<lparr>au_purpose = [], au_turnID = [], au_turnEntityID = [], au_caseID = [], au_contextRef = [],
      au_targetActorIDs = [], au_companionID = [], au_bondID = [], au_authorizerRef = []\<rparr>"

definition TurnIdentity :: "AuthenticatedAudience \<Rightarrow> string \<times> string" where
  "TurnIdentity a = (au_turnID a, au_turnEntityID a)"

definition CasekeeperAudience :: "string \<Rightarrow> string \<Rightarrow> string \<Rightarrow> string list \<Rightarrow> AuthenticatedAudience" where
  "CasekeeperAudience caseID turnID turnEntityID targetActorIDs =
     noAudience\<lparr>au_purpose := PurposeCasekeeper, au_caseID := caseID, au_turnID := turnID,
       au_turnEntityID := turnEntityID, au_targetActorIDs := targetActorIDs\<rparr>"

definition PlayerAudience :: "string \<Rightarrow> string \<Rightarrow> AuthenticatedAudience" where
  "PlayerAudience turnID turnEntityID =
     noAudience\<lparr>au_purpose := PurposePlayer, au_turnID := turnID, au_turnEntityID := turnEntityID\<rparr>"

definition CompanionAudience ::
    "string \<Rightarrow> string \<Rightarrow> string \<Rightarrow> string \<Rightarrow> string \<Rightarrow> AuthenticatedAudience" where
  "CompanionAudience turnID turnEntityID contextRef companionID bondID =
     noAudience\<lparr>au_purpose := PurposeCompanion, au_turnID := turnID, au_turnEntityID := turnEntityID,
       au_contextRef := contextRef, au_companionID := companionID, au_bondID := bondID\<rparr>"

definition CompanionIdentity :: "AuthenticatedAudience \<Rightarrow> string \<times> string \<times> string" where
  "CompanionIdentity a = (au_contextRef a, au_companionID a, au_bondID a)"

definition PublicAdjudicatorAudience :: "string \<Rightarrow> string \<Rightarrow> AuthenticatedAudience" where
  "PublicAdjudicatorAudience turnID turnEntityID =
     noAudience\<lparr>au_purpose := PurposePublicAdjudicator, au_turnID := turnID, au_turnEntityID := turnEntityID\<rparr>"

definition NarratorAudience :: "string \<Rightarrow> string \<Rightarrow> AuthenticatedAudience" where
  "NarratorAudience turnID turnEntityID =
     noAudience\<lparr>au_purpose := PurposeNarrator, au_turnID := turnID, au_turnEntityID := turnEntityID\<rparr>"

definition DenouementAudience :: "string \<Rightarrow> string \<Rightarrow> string \<Rightarrow> string \<Rightarrow> AuthenticatedAudience" where
  "DenouementAudience turnID turnEntityID caseID authorizerRef =
     noAudience\<lparr>au_purpose := PurposeDenouement, au_turnID := turnID, au_turnEntityID := turnEntityID,
       au_caseID := caseID, au_authorizerRef := authorizerRef\<rparr>"

definition VerifierAudience :: "string \<Rightarrow> AuthenticatedAudience" where
  "VerifierAudience caseID = noAudience\<lparr>au_purpose := PurposeVerifier, au_caseID := caseID\<rparr>"

definition OperatorAudience :: AuthenticatedAudience where
  "OperatorAudience = noAudience\<lparr>au_purpose := PurposeOperator\<rparr>"

section \<open>Projections\<close>

record Fact =
  fc_Predicate :: Predicate
  fc_Object :: any

record pEntity =
  pe_ID :: string
  pe_Facts :: "Fact list"

definition pEntity_Objects :: "pEntity \<Rightarrow> Predicate \<Rightarrow> any list" where
  "pEntity_Objects e p = map fc_Object (filter (\<lambda>f. fc_Predicate f = p) (pe_Facts e))"

record pActor =
  pa_Player :: string
  pa_Character :: string

record Solution =
  so_Culprit :: string
  so_Method :: string
  so_Motive :: string

record Projection =
  pj_Purpose :: Purpose
  pj_TurnID :: string
  pj_TurnEntityID :: string
  pj_SceneID :: string
  pj_ContextRef :: string
  pj_CompanionID :: string
  pj_BondID :: string
  pj_Actor :: pActor
  pj_Turn :: pEntity
  pj_Scene :: pEntity
  pj_Members :: "pEntity list"
  pj_Neighbours :: "pEntity list"
  pj_HasSolution :: bool
  pj_Solution :: Solution

definition Projection_Entities :: "Projection \<Rightarrow> pEntity list" where
  "Projection_Entities p =
     (if pe_ID (pj_Turn p) \<noteq> [] then [pj_Turn p] else []) @
     (if pe_ID (pj_Scene p) \<noteq> [] then [pj_Scene p] else []) @
     pj_Members p @ pj_Neighbours p"

definition Projection_Entity :: "Projection \<Rightarrow> string \<Rightarrow> pEntity option" where
  "Projection_Entity p i = List.find (\<lambda>e. pe_ID e = i) (Projection_Entities p)"

definition zeroProjection :: "Purpose \<Rightarrow> Projection" where
  "zeroProjection purpose =
     \<lparr>pj_Purpose = purpose, pj_TurnID = [], pj_TurnEntityID = [], pj_SceneID = [], pj_ContextRef = [],
      pj_CompanionID = [], pj_BondID = [], pj_Actor = \<lparr>pa_Player = [], pa_Character = []\<rparr>,
      pj_Turn = \<lparr>pe_ID = [], pe_Facts = []\<rparr>, pj_Scene = \<lparr>pe_ID = [], pe_Facts = []\<rparr>, pj_Members = [],
      pj_Neighbours = [], pj_HasSolution = False,
      pj_Solution = \<lparr>so_Culprit = [], so_Method = [], so_Motive = []\<rparr>\<rparr>"

section \<open>The scope of a case\<close>

record Scope =
  sc_caseID :: string
  sc_beliefs :: "(string, string list) gomap"

definition MaxCasekeeperTargetActors :: nat where "MaxCasekeeperTargetActors = 8"

text \<open>\<open>owners\<close> is the map from belief records to the actor they were seen with.\<close>

fun ownersLoop :: "string \<Rightarrow> string list \<Rightarrow> (string, string) gomap \<Rightarrow> gerror + (string, string) gomap" where
  "ownersLoop actorID [] owners = Inr owners"
| "ownersLoop actorID (i # ids) owners =
     (if map_of owners i \<noteq> None \<and> map_of owners i \<noteq> Some actorID
      then Inl (Errorf ''belief record is assigned to two actors'')
      else ownersLoop actorID ids ((i, actorID) # owners))"

fun scopeLoop ::
    "(string \<times> string list) list \<Rightarrow> (string, string list) gomap \<Rightarrow> (string, string) gomap
     \<Rightarrow> gerror + (string, string list) gomap" where
  "scopeLoop [] beliefs owners = Inr beliefs"
| "scopeLoop ((actor, recordIDs) # rest) beliefs owners =
     (let actorID = TrimSpace actor; ids = map TrimSpace recordIDs in
      if actorID = [] then Inl (Errorf ''epistemic scope contains an empty belief actor ID'')
      else if [] \<in> set ids then Inl (Errorf ''epistemic scope actor contains an empty belief record ID'')
      else (let ids = remdups_adj (sort ids) in
        case ownersLoop actorID ids owners of
          Inl e \<Rightarrow> Inl e
        | Inr owners \<Rightarrow> scopeLoop rest ((actorID, ids) # beliefs) owners))"

definition NewScope :: "string \<Rightarrow> (string, string list) gomap \<Rightarrow> gerror + Scope" where
  "NewScope caseText beliefsByActorID =
     (let caseID = TrimSpace caseText in
      if caseID = [] \<and> 0 < length beliefsByActorID
      then Inl (Errorf ''epistemic scope cannot carry beliefs without a scoped case'')
      else map_sum id (\<lambda>beliefs. \<lparr>sc_caseID = caseID, sc_beliefs = beliefs\<rparr>) (scopeLoop beliefsByActorID [] []))"

definition Scope_CasekeeperAudience ::
    "Scope \<Rightarrow> string \<Rightarrow> string \<Rightarrow> gerror + AuthenticatedAudience option" where
  "Scope_CasekeeperAudience s turnID turnEntityID =
     (if sc_caseID s = [] then Inr None
      else (let targets = sort (remdups (map fst (sc_beliefs s))) in
        if MaxCasekeeperTargetActors < length targets
        then Inl (Errorf ''casekeeper scope has too many belief holders'')
        else Inr (Some (CasekeeperAudience (sc_caseID s) turnID turnEntityID targets))))"

text \<open>\<open>len(records)\<close> counts the keys of the map.\<close>

fun recordsLoop ::
    "string \<Rightarrow> string list \<Rightarrow> int \<Rightarrow> (string, string) gomap \<Rightarrow> gerror + (string, string) gomap" where
  "recordsLoop actorID [] limit recs = Inr recs"
| "recordsLoop actorID (i # ids) limit recs =
     (let recs = (i, actorID) # recs in
      if limit < int (length (remdups (map fst recs)))
      then Inl (Errorf ''scoped belief records exceed supplemental entity limit'')
      else recordsLoop actorID ids limit recs)"

fun targetsLoop ::
    "Scope \<Rightarrow> string list \<Rightarrow> int \<Rightarrow> (string, string) gomap \<Rightarrow> gerror + (string, string) gomap" where
  "targetsLoop s [] limit recs = Inr recs"
| "targetsLoop s (actorID # rest) limit recs =
     (case recordsLoop actorID (case map_of (sc_beliefs s) actorID of None \<Rightarrow> [] | Some ids \<Rightarrow> ids) limit recs of
        Inl e \<Rightarrow> Inl e
      | Inr recs \<Rightarrow> targetsLoop s rest limit recs)"

definition beliefRecords :: "Scope \<Rightarrow> string list \<Rightarrow> int \<Rightarrow> gerror + (string, string) gomap" where
  "beliefRecords s targetActorIDs limit =
     (let targets = map TrimSpace targetActorIDs in
      if [] \<in> set targets then Inl (Errorf ''casekeeper target actor IDs must not be empty'')
      else targetsLoop s (remdups_adj (sort targets)) limit [])"

definition sortedRecordIDs :: "(string, string) gomap \<Rightarrow> string list" where
  "sortedRecordIDs recs = sort (remdups (map fst recs))"

section \<open>One owner for every record\<close>

lemma ownersLoop_Inr:
  assumes "ownersLoop a ids owners = Inr owners'"
  shows "map_of owners \<subseteq>\<^sub>m map_of owners'" and "\<forall>i \<in> set ids. map_of owners' i = Some a"
proof -
  have "map_of owners \<subseteq>\<^sub>m map_of owners' \<and> (\<forall>i \<in> set ids. map_of owners' i = Some a)"
    using assms
  proof (induction ids arbitrary: owners)
    case (Cons i ids)
    then have ok: "map_of owners i = None \<or> map_of owners i = Some a"
      and rest: "ownersLoop a ids ((i, a) # owners) = Inr owners'" by (auto split: if_splits)
    note IH = Cons.IH [OF rest]
    have "map_of owners \<subseteq>\<^sub>m map_of ((i, a) # owners)" using ok by (auto simp: map_le_def)
    with IH have "map_of owners \<subseteq>\<^sub>m map_of owners'" using map_le_trans by blast
    moreover have "map_of owners' i = Some a" using map_le_Some [OF conjunct1 [OF IH]] by simp
    ultimately show ?case using IH by simp
  qed simp
  then show "map_of owners \<subseteq>\<^sub>m map_of owners'" "\<forall>i \<in> set ids. map_of owners' i = Some a" by blast+
qed

lemma scopeLoop_owners:
  assumes "scopeLoop es beliefs owners = Inr beliefs'"
    and "\<forall>(a, ids) \<in> set beliefs. \<forall>i \<in> set ids. map_of owners i = Some a"
  shows "\<exists>owners'. \<forall>(a, ids) \<in> set beliefs'. \<forall>i \<in> set ids. map_of owners' i = Some a"
  using assms
proof (induction es beliefs owners rule: scopeLoop.induct)
  case (2 actor recordIDs rest beliefs owners)
  let ?a = "TrimSpace actor" and ?ids = "remdups_adj (sort (map TrimSpace recordIDs))"
  from 2(2) obtain owners' where own: "ownersLoop ?a ?ids owners = Inr owners'"
      and ne: "?a \<noteq> []" "[] \<notin> set (map TrimSpace recordIDs)"
      and rest: "scopeLoop rest ((?a, ?ids) # beliefs) owners' = Inr beliefs'"
    by (auto simp: Let_def split: if_splits sum.splits)
  note o = ownersLoop_Inr [OF own]
  have "\<forall>(a, ids) \<in> set ((?a, ?ids) # beliefs). \<forall>i \<in> set ids. map_of owners' i = Some a"
    using 2(3) o(2) map_le_Some [OF o(1)] by fastforce
  from 2(1) [OF refl refl ne refl own rest this] show ?case .
qed auto

lemma NewScope_owner:
  assumes "NewScope c m = Inr s" and "map_of (sc_beliefs s) a = Some ids" and "map_of (sc_beliefs s) b = Some jds"
    and "i \<in> set ids" and "i \<in> set jds"
  shows "a = b"
proof -
  from assms(1) have "scopeLoop m [] [] = Inr (sc_beliefs s)"
    by (auto simp: NewScope_def Let_def split: if_splits)
  from scopeLoop_owners [OF this] obtain owners'
    where "\<forall>(a, ids) \<in> set (sc_beliefs s). \<forall>i \<in> set ids. map_of owners' i = Some a" by auto
  with assms(2-) have "map_of owners' i = Some a" "map_of owners' i = Some b"
    by (auto dest!: map_of_SomeD)
  then show ?thesis by simp
qed

end
