(* ===== verification/Content_Ref.thy ===== *)
theory Content_Ref
  imports Payload_Turn
begin

text \<open>
  \<^verbatim>\<open>internal/content/ref.go\<close>: the pointer the graph holds to a stored artifact. The lemmas show
  that a reference survives being written as a triple object and read back, that two references
  with the same printed form are the same reference, and that artifact keys do not collide.
\<close>

section \<open>References\<close>

definition ContentType :: string where "ContentType = ''application/json''"

record Ref =
  rf_Instance :: string
  rf_Key :: string

definition zeroRef :: Ref where "zeroRef = \<lparr>rf_Instance = [], rf_Key = []\<rparr>"

definition Ref_IsZero :: "Ref \<Rightarrow> bool" where
  "Ref_IsZero r = (rf_Instance r = [] \<and> rf_Key r = [])"

definition Ref_String :: "Ref \<Rightarrow> string" where
  "Ref_String r =
     (if Ref_IsZero r then [] else RefScheme @ rf_Instance r @ [RefSeparator] @ rf_Key r)"

definition Ref_Validate :: "ext \<Rightarrow> Ref \<Rightarrow> gerror option" where
  "Ref_Validate X r =
     firstErr [
       failIf (rf_Instance r = []) (Errorf ''storage reference names no storage instance''),
       failIf (List.member (rf_Instance r) RefSeparator)
         (Errorf ''storage instance contains the separator''),
       failIf (rf_Key r = []) (Errorf ''storage reference has no key''),
       failIf (MaxTripleObjectBytes X < length (Ref_String r))
         (Errorf ''storage reference exceeds the triple-object budget'')]"

record StorageReference =
  sr_StorageInstance :: string
  sr_Key :: string
  sr_ContentType :: string

definition Ref_StorageReference :: "Ref \<Rightarrow> StorageReference option" where
  "Ref_StorageReference r =
     (if Ref_IsZero r then None
      else Some \<lparr>sr_StorageInstance = rf_Instance r, sr_Key = rf_Key r, sr_ContentType = ContentType\<rparr>)"

definition trimPrefix :: "string \<Rightarrow> string \<Rightarrow> string" where
  "trimPrefix s p = (case cutPrefix s p of Some r \<Rightarrow> r | None \<Rightarrow> s)"

definition ParseRef :: "ext \<Rightarrow> string \<Rightarrow> gerror + Ref" where
  "ParseRef X s =
     (if s = [] then Inr zeroRef
      else case RequireStorageRef ''storage reference'' s of
        Some e \<Rightarrow> Inl e
      | None \<Rightarrow>
          (let (inst, key) = (case cutAt (trimPrefix s RefScheme) RefSeparator of
                 Some p \<Rightarrow> p | None \<Rightarrow> (trimPrefix s RefScheme, []));
               ref = \<lparr>rf_Instance = inst, rf_Key = key\<rparr>
           in case Ref_Validate X ref of Some e \<Rightarrow> Inl e | None \<Rightarrow> Inr ref))"

section \<open>Artifact keys\<close>

type_synonym SubjectKind = string

definition SubjectTurn :: SubjectKind where "SubjectTurn = ''turn''"
definition SubjectRevelation :: SubjectKind where "SubjectRevelation = ''revelation''"

definition subjectKinds :: "SubjectKind list" where
  "subjectKinds = [SubjectTurn, SubjectRevelation]"

definition SubjectKinds :: "SubjectKind list" where "SubjectKinds = subjectKinds"

definition KeyFor :: "ext \<Rightarrow> Predicate \<Rightarrow> SubjectKind \<Rightarrow> string \<Rightarrow> gerror + string" where
  "KeyFor X refPredicate kind subjectID =
     (case ArtifactSlot X refPredicate of
        Inl e \<Rightarrow> Inl e
      | Inr slot \<Rightarrow>
          if \<not> List.member subjectKinds kind
          then Inl (Errorf ''not a registered artifact subject kind'')
          else (case ValidateIDSegment X subjectID of
              Some e \<Rightarrow> Inl (Wrapf ''artifact key needs a subject id'' e)
            | None \<Rightarrow> Inr (joinWith [RefSeparator] [kind, subjectID, slot])))"

section \<open>References survive the graph\<close>

lemma ref_parts:
  assumes "Ref_Validate X r = None"
  shows "rf_Instance r \<noteq> []" "RefSeparator \<notin> set (rf_Instance r)" "rf_Key r \<noteq> []"
    "Ref_String r = RefScheme @ rf_Instance r @ RefSeparator # rf_Key r"
    "length (Ref_String r) \<le> MaxTripleObjectBytes X"
  using assms by (auto simp: Ref_Validate_def Ref_String_def Ref_IsZero_def)

lemma cutPrefix_append [simp]: "cutPrefix (p @ r) p = Some r"
  by (simp add: cutPrefix_Some)

lemma trimPrefix_append [simp]: "trimPrefix (p @ r) p = r"
  by (simp add: trimPrefix_def)

lemma RequireStorageRef_String:
  assumes "Ref_Validate X r = None"
  shows "RequireStorageRef field (Ref_String r) = None"
  using ref_parts [OF assms] by (simp add: RequireStorageRef_def cutAt_append)

lemma ParseRef_String:
  assumes "Ref_Validate X r = None"
  shows "ParseRef X (Ref_String r) = Inr r"
proof -
  note ref = ref_parts [OF assms]
  have eta: "\<lparr>rf_Instance = rf_Instance r, rf_Key = rf_Key r\<rparr> = r" by simp
  have "Ref_String r \<noteq> []" by (simp add: ref(4) RefScheme_def)
  then show ?thesis
    using ref assms RequireStorageRef_String [OF assms]
    by (simp add: ParseRef_def cutAt_append Let_def eta)
qed

lemma ParseRef_zero: "ParseRef X (Ref_String zeroRef) = Inr zeroRef"
  by (simp add: ParseRef_def Ref_String_def Ref_IsZero_def zeroRef_def)

lemma Ref_String_inject:
  assumes "Ref_Validate X r = None" and "Ref_Validate X q = None" and "Ref_String r = Ref_String q"
  shows "r = q"
  by (metis ParseRef_String assms sum.inject(2))

lemma ParseRef_Inr:
  assumes "ParseRef X s = Inr r"
  shows "Ref_String r = s" and "s \<noteq> [] \<Longrightarrow> Ref_Validate X r = None"
proof -
  have "Ref_String r = s \<and> (s \<noteq> [] \<longrightarrow> Ref_Validate X r = None)"
  proof (cases "s = []")
    case True
    with assms show ?thesis by (auto simp: ParseRef_def Ref_String_def Ref_IsZero_def zeroRef_def)
  next
    case False
    with assms have none: "RequireStorageRef ''storage reference'' s = None"
      by (auto simp: ParseRef_def split: option.splits)
    then obtain rest inst key where rest: "cutPrefix s RefScheme = Some rest"
      and cut: "cutAt rest RefSeparator = Some (inst, key)"
      by (auto simp: RequireStorageRef_def split: option.splits)
    have s: "s = RefScheme @ inst @ RefSeparator # key"
      using rest cut by (auto simp: cutPrefix_Some dest: cutAt_Some)
    have "r = \<lparr>rf_Instance = inst, rf_Key = key\<rparr>" "Ref_Validate X r = None"
      using assms False none cut rest
      by (auto simp: ParseRef_def trimPrefix_def Let_def split: option.splits)
    with s show ?thesis using ref_parts(4) by auto
  qed
  then show "Ref_String r = s" "s \<noteq> [] \<Longrightarrow> Ref_Validate X r = None" by auto
qed

text \<open>
  Two artifacts of different subjects never share a key: the kind and the subject's identifier
  can be read back from it, whatever the slot is, because neither contains the separator.
\<close>

lemma KeyFor_Inr:
  "KeyFor X p k s = Inr key \<Longrightarrow>
     \<exists>slot. ArtifactSlot X p = Inr slot \<and> k \<in> set subjectKinds \<and> ValidateIDSegment X s = None
       \<and> key = k @ RefSeparator # s @ RefSeparator # slot"
  by (auto simp: KeyFor_def split: sum.splits option.splits if_splits)

lemma prefix_sep:
  "(c :: char) \<notin> set a \<Longrightarrow> c \<notin> set b \<Longrightarrow> a @ c # x = b @ c # y \<Longrightarrow> a = b \<and> x = y"
  by (induction a arbitrary: b) (auto simp: Cons_eq_append_conv)

lemma subjectKinds_no_sep: "k \<in> set subjectKinds \<Longrightarrow> RefSeparator \<notin> set k"
  by (auto simp: subjectKinds_def SubjectTurn_def SubjectRevelation_def RefSeparator_def)

lemma KeyFor_inject:
  assumes "KeyFor X p k s = Inr key" and "KeyFor X p' k' s' = Inr key"
    and "RefSeparator \<notin> set s" and "RefSeparator \<notin> set s'"
  shows "k = k' \<and> s = s' \<and> ArtifactSlot X p = ArtifactSlot X p'"
proof -
  obtain slot where 1: "ArtifactSlot X p = Inr slot" "k \<in> set subjectKinds"
    "key = k @ RefSeparator # s @ RefSeparator # slot"
    using KeyFor_Inr [OF assms(1)] by blast
  obtain slot' where 2: "ArtifactSlot X p' = Inr slot'" "k' \<in> set subjectKinds"
    "key = k' @ RefSeparator # s' @ RefSeparator # slot'"
    using KeyFor_Inr [OF assms(2)] by blast
  have "k @ RefSeparator # (s @ RefSeparator # slot) = k' @ RefSeparator # (s' @ RefSeparator # slot')"
    using 1(3) 2(3) by simp
  then have "k = k' \<and> s @ RefSeparator # slot = s' @ RefSeparator # slot'"
    by (rule prefix_sep [OF subjectKinds_no_sep [OF 1(2)] subjectKinds_no_sep [OF 2(2)]])
  moreover from this have "s = s' \<and> slot = slot'" using prefix_sep [OF assms(3,4)] by blast
  ultimately show ?thesis using 1(1) 2(1) by simp
qed

end
