(* ===== verification/Turn.thy ===== *)
theory Turn
  imports Content_Ref Graphio
begin

text \<open>
  \<^verbatim>\<open>internal/turn\<close>: the recorder that creates a turn for a player's action and moves it through
  its phases (\<^verbatim>\<open>recorder.go\<close>), the identity of turn entities (\<^verbatim>\<open>identity.go\<close>), the intake
  that decides which deliveries are dropped for good (\<^verbatim>\<open>intake.go\<close>) and the check of the ingress
  stream's configuration (\<^verbatim>\<open>stream.go\<close>). The action store and the clock are fields of the
  recorder, as in the code; each reading of the clock may advance the world.
\<close>

section \<open>Identity\<close>

definition TypeSegment :: string where "TypeSegment = ''turn''"

record Identity =
  id_Org :: string
  id_WorldNS :: string
  id_Template :: string

definition Identity_Validate :: "ext \<Rightarrow> Identity \<Rightarrow> gerror option" where
  "Identity_Validate X i =
     firstErr [
       wrapErr ''turn org'' (ValidateIDSegment X (id_Org i)),
       wrapErr ''turn world namespace'' (ValidateIDSegment X (id_WorldNS i)),
       wrapErr ''turn template'' (ValidateIDSegment X (id_Template i))]"

definition EntityID :: "ext \<Rightarrow> Identity \<Rightarrow> string \<Rightarrow> gerror + string" where
  "EntityID X i turnID =
     (case Identity_Validate X i of
        Some e \<Rightarrow> Inl e
      | None \<Rightarrow>
          (case ValidateIDSegment X turnID of
             Some e \<Rightarrow> Inl (Wrapf ''turn id'' e)
           | None \<Rightarrow> ComposeEntityID X (id_Org i) (id_WorldNS i) (id_Template i) TypeSegment turnID))"

definition EntityIDForAction :: "ext \<Rightarrow> Identity \<Rightarrow> string \<Rightarrow> gerror + (string \<times> string)" where
  "EntityIDForAction X i actionID =
     (case ValidateIDSegment X actionID of
        Some e \<Rightarrow> Inl (Wrapf ''action id'' e)
      | None \<Rightarrow>
          (let turnID = TurnIDForAction actionID in
           case EntityID X i turnID of
             Inl e \<Rightarrow> Inl e
           | Inr entityID \<Rightarrow> Inr (turnID, entityID)))"

section \<open>Reading a turn\<close>

definition turn_Source :: string where "turn_Source = ''turn-recorder''"

definition EntityMessageType :: MessageType where
  "EntityMessageType =
     \<lparr>mtDomain = payload_Domain, mtCategory = CategoryTurnState, mtVersion = SchemaVersion\<rparr>"

definition PhaseOf :: "EntityState option \<Rightarrow> string \<Rightarrow> gerror + TurnPhase" where
  "PhaseOf state turnEntityID =
     (case state of
        None \<Rightarrow> Inl (RecordError turnEntityID (Errorf ''read back as nil''))
      | Some st \<Rightarrow>
          (case objectsIn (esTriples st) TurnPhaseCurrent of
             [] \<Rightarrow> Inl (RecordError turnEntityID (Errorf ''carries no phase triple''))
           | [object] \<Rightarrow>
               (case asString object of
                  None \<Rightarrow> Inl (RecordError turnEntityID (Errorf ''records a phase that is not a string''))
                | Some v \<Rightarrow>
                    (case ParseTurnPhase v of
                       Inl e \<Rightarrow> Inl (RecordError turnEntityID e)
                     | Inr phase \<Rightarrow> Inr phase))
           | _ \<Rightarrow> Inl (RecordError turnEntityID (Errorf ''holds several values for the phase''))))"

text \<open>The loop shared by \<^verbatim>\<open>HeldTurns\<close> and \<^verbatim>\<open>ResolvedTurns\<close>, with its count of unreadable facts.\<close>

fun turnRefs :: "Predicate \<Rightarrow> Triple list \<Rightarrow> string list \<times> nat" where
  "turnRefs p [] = ([], 0)"
| "turnRefs p (t # ts) =
     (let (held, unreadable) = turnRefs p ts in
      if trPredicate t \<noteq> p then (held, unreadable)
      else case asString (trObject t) of
          None \<Rightarrow> (held, unreadable + 1)
        | Some turnEntityID \<Rightarrow>
            if turnEntityID = [] then (held, unreadable + 1) else (turnEntityID # held, unreadable))"

definition HeldTurns :: "EntityState option \<Rightarrow> string list \<times> nat" where
  "HeldTurns state =
     (case state of None \<Rightarrow> ([], 0) | Some st \<Rightarrow> turnRefs PlayerTurnCurrent (esTriples st))"

definition ResolvedTurns :: "EntityState option \<Rightarrow> string list \<times> nat" where
  "ResolvedTurns state =
     (case state of None \<Rightarrow> ([], 0) | Some st \<Rightarrow> turnRefs PlayerTurnResolved (esTriples st))"

definition playerOf :: "EntityState \<Rightarrow> string \<Rightarrow> gerror + string" where
  "playerOf state turnEntityID =
     (case objectsIn (esTriples state) TurnActionPlayer of
        [] \<Rightarrow> Inl (RecordError turnEntityID (Errorf ''carries no player''))
      | [object] \<Rightarrow>
          (case asString object of
             None \<Rightarrow> Inl (RecordError turnEntityID (Errorf ''records a player that is not an entity id''))
           | Some playerID \<Rightarrow>
               if playerID = []
               then Inl (RecordError turnEntityID (Errorf ''records a player that is not an entity id''))
               else Inr playerID)
      | _ \<Rightarrow> Inl (RecordError turnEntityID (Errorf ''holds several values for the player'')))"

section \<open>The sequencing decision\<close>

type_synonym Outcome = string
type_synonym TransitionFault = string

named_theorems outcome_names \<open>literal outcomes and faults of a transition\<close>

definition OutcomeAdvanced :: Outcome where [outcome_names]: "OutcomeAdvanced = ''advanced''"
definition OutcomeResumed :: Outcome where [outcome_names]: "OutcomeResumed = ''resumed''"
definition OutcomeDeclined :: Outcome where [outcome_names]: "OutcomeDeclined = ''declined''"

definition FaultSkippedStage :: TransitionFault where [outcome_names]: "FaultSkippedStage = ''skipped-stage''"
definition FaultUnknownPhase :: TransitionFault where [outcome_names]: "FaultUnknownPhase = ''unknown-phase''"
definition FaultCreatedNotAdvanced :: TransitionFault where
  [outcome_names]: "FaultCreatedNotAdvanced = ''created-not-advanced''"
definition FaultFailureNeedsReason :: TransitionFault where
  [outcome_names]: "FaultFailureNeedsReason = ''failure-needs-reason''"

record Transition =
  tx_Previous :: TurnPhase
  tx_Phase :: TurnPhase
  tx_Outcome :: Outcome

text \<open>An empty fault is success.\<close>

definition classify :: "TurnPhase \<Rightarrow> TurnPhase \<Rightarrow> Outcome \<times> TransitionFault" where
  "classify previous to =
     (case (PhaseRank previous, PhaseRank to) of
        (Some previousRank, Some toRank) \<Rightarrow>
          if IsTerminal previous then (OutcomeDeclined, [])
          else if previous = to then (OutcomeResumed, [])
          else if PhaseFollows previous to then (OutcomeAdvanced, [])
          else if toRank < previousRank then (OutcomeDeclined, [])
          else ([], FaultSkippedStage)
      | _ \<Rightarrow> ([], FaultUnknownPhase))"

section \<open>The recorder\<close>

record 'w Recorder =
  tr_store :: "'w GraphStore"
  tr_actions :: "string \<Rightarrow> PlayerAction \<Rightarrow> ('w, Ref) M"
  tr_identity :: Identity
  tr_now :: "'w \<Rightarrow> time \<times> 'w"

text \<open>An option sets the clock; a nil clock is refused after all options ran.\<close>

definition NewRecorder ::
    "ext \<Rightarrow> ('w \<Rightarrow> time \<times> 'w) \<Rightarrow> 'w GraphStore option \<Rightarrow> (string \<Rightarrow> PlayerAction \<Rightarrow> ('w, Ref) M) option
     \<Rightarrow> Identity \<Rightarrow> ('w \<Rightarrow> time \<times> 'w) option list \<Rightarrow> gerror + 'w Recorder" where
  "NewRecorder X timeNow store actions ident opts =
     (case store of
        None \<Rightarrow> Inl (Errorf ''turn recorder requires a graph store'')
      | Some s \<Rightarrow>
          (case actions of
             None \<Rightarrow> Inl (Errorf ''turn recorder requires an action store'')
           | Some a \<Rightarrow>
               (case Identity_Validate X ident of
                  Some e \<Rightarrow> Inl e
                | None \<Rightarrow>
                    (case foldl (\<lambda>_ now. now) (Some timeNow) opts of
                       None \<Rightarrow> Inl (Errorf ''turn recorder requires a clock'')
                     | Some now \<Rightarrow>
                         Inr \<lparr>tr_store = s, tr_actions = a, tr_identity = ident, tr_now = now\<rparr>))))"

definition nowM :: "'w Recorder \<Rightarrow> ('w, time) M" where
  "nowM R = (\<lambda>w. case tr_now R w of (t, w') \<Rightarrow> (Inr t, w'))"

definition currentState :: "'w Recorder \<Rightarrow> string \<Rightarrow> ('w, EntityState \<times> TurnPhase) M" where
  "currentState R turnEntityID =
     bindM (mapErr (Wrapf ''read turn entity'') (gs_GetEntity (tr_store R) turnEntityID)) (\<lambda>state.
     bindM (liftR (PhaseOf (Some state) turnEntityID)) (\<lambda>phase.
     ret (state, phase)))"

definition Current :: "'w Recorder \<Rightarrow> string \<Rightarrow> ('w, TurnPhase) M" where
  "Current R turnEntityID = bindM (currentState R turnEntityID) (\<lambda>(_, phase). ret phase)"

subsection \<open>Accepting an action\<close>

record Acceptance =
  ac_TurnID :: string
  ac_TurnEntityID :: string
  ac_Created :: bool
  ac_Phase :: TurnPhase

definition isRecordError :: "gerror \<Rightarrow> bool" where
  "isRecordError err =
     (errors_As (\<lambda>e. case e of RecordError t e' \<Rightarrow> Some () | _ \<Rightarrow> None) err \<noteq> None)"

definition turnIsLive :: "'w Recorder \<Rightarrow> string \<Rightarrow> ('w, bool) M" where
  "turnIsLive R turnEntityID =
     tryM (gs_GetEntity (tr_store R) turnEntityID) (\<lambda>r. case r of
       Inl err \<Rightarrow>
         if errors_Is err ErrEntityNotFound then ret False
         else throw (Wrapf ''read turn to place a player's turn pointer'' err)
     | Inr state \<Rightarrow>
         (case PhaseOf (Some state) turnEntityID of
            Inl err \<Rightarrow> if isRecordError err then ret False else throw err
          | Inr phase \<Rightarrow> ret (\<not> IsTerminal phase)))"

fun anyLive :: "'w Recorder \<Rightarrow> string \<Rightarrow> string list \<Rightarrow> ('w, bool) M" where
  "anyLive R exceptID [] = ret False"
| "anyLive R exceptID (turnEntityID # held) =
     (if turnEntityID = exceptID then anyLive R exceptID held
      else bindM (turnIsLive R turnEntityID) (\<lambda>live.
        if live then ret True else anyLive R exceptID held))"

definition holdsAnotherLiveTurn :: "'w Recorder \<Rightarrow> string \<Rightarrow> string \<Rightarrow> ('w, bool) M" where
  "holdsAnotherLiveTurn R playerID exceptTurnEntityID =
     tryM (gs_GetEntity (tr_store R) playerID) (\<lambda>r. case r of
       Inl err \<Rightarrow>
         if errors_Is err ErrEntityNotFound then ret False
         else throw (Wrapf ''read player to place their turn pointer'' err)
     | Inr state \<Rightarrow> anyLive R exceptTurnEntityID (fst (HeldTurns (Some state))))"

definition pointPlayerAtTurn :: "ext \<Rightarrow> 'w Recorder \<Rightarrow> string \<Rightarrow> Acceptance \<Rightarrow> ('w, unit) M" where
  "pointPlayerAtTurn X R playerID acceptance =
     (if IsTerminal (ac_Phase acceptance) then ret ()
      else bindM (holdsAnotherLiveTurn R playerID (ac_TurnEntityID acceptance)) (\<lambda>late.
        if late then ret ()
        else bindM (nowM R) (\<lambda>at.
          bindM (liftR (PlayerTurn_Triples X
              \<lparr>pt_PlayerID = playerID, pt_TurnID = ac_TurnID acceptance,
               pt_TurnEntityID = ac_TurnEntityID acceptance\<rparr> playerID turn_Source at)) (\<lambda>triples.
          bindM (mapErr (Wrapf ''point player at turn'')
              (gs_Reconcile (tr_store R) PlayerCurrentTurn playerID triples)) (\<lambda>_.
          ret ())))))"

definition acceptedEntity ::
    "ext \<Rightarrow> 'w Recorder \<Rightarrow> string \<Rightarrow> string \<Rightarrow> Ref \<Rightarrow> PlayerAction \<Rightarrow> ('w, EntityState) M" where
  "acceptedEntity X R turnID turnEntityID actionRef action =
     bindM (nowM R) (\<lambda>at.
     bindM (liftR (TurnState_Triples X
         \<lparr>ts_TurnID = turnID, ts_Phase = PhaseAccepted, ts_PlayerID = pa_PlayerID action,
          ts_SceneID = pa_SceneID action, ts_ActionRef = Ref_String actionRef, ts_Reason = [],
          ts_DetailRef = []\<rparr> turnEntityID turn_Source at)) (\<lambda>triples.
     ret \<lparr>esID = turnEntityID, esMessageType = EntityMessageType, esVersion = 1, esUpdatedAt = at,
          esStorageRef = None, esTriples = triples\<rparr>))"

definition confirmAccepted :: "EntityState option \<Rightarrow> string \<Rightarrow> gerror option" where
  "confirmAccepted stored turnEntityID =
     (case PhaseOf stored turnEntityID of
        Inl err \<Rightarrow> Some (Wrapf ''turn was created but its phase did not store'' err)
      | Inr phase \<Rightarrow>
          failIf (phase \<noteq> PhaseAccepted)
            (RecordError turnEntityID (Errorf ''was created in another phase'')))"

text \<open>The create, and what an already existing turn means.\<close>

definition createTurn :: "'w Recorder \<Rightarrow> string \<Rightarrow> string \<Rightarrow> EntityState \<Rightarrow> ('w, Acceptance) M" where
  "createTurn R turnID turnEntityID entity =
     tryM (gs_CreateEntity (tr_store R) TurnBirthContract (Some entity)) (\<lambda>r. case r of
       Inr result \<Rightarrow>
         checkM (confirmAccepted (cr_Entity result) turnEntityID)
           (ret \<lparr>ac_TurnID = turnID, ac_TurnEntityID = turnEntityID, ac_Created = True,
                 ac_Phase = PhaseAccepted\<rparr>)
     | Inl err \<Rightarrow>
         if errors_Is err ErrEntityExists
         then bindM (Current R turnEntityID) (\<lambda>phase.
           ret \<lparr>ac_TurnID = turnID, ac_TurnEntityID = turnEntityID, ac_Created = False,
                ac_Phase = phase\<rparr>)
         else throw (Wrapf ''create turn'' err))"

definition Accept :: "ext \<Rightarrow> 'w Recorder \<Rightarrow> PlayerAction option \<Rightarrow> ('w, Acceptance) M" where
  "Accept X R action =
     (case action of
        None \<Rightarrow> throw (Errorf ''accept requires a player action'')
      | Some a \<Rightarrow>
        checkM (map_option (RejectedActionError (pa_ActionID a)) (PlayerAction_Validate X a))
        (bindM (mapErr (RejectedActionError (pa_ActionID a))
            (liftR (EntityIDForAction X (tr_identity R) (pa_ActionID a)))) (\<lambda>(turnID, turnEntityID).
        bindM (mapErr (Wrapf ''store action for turn'') (tr_actions R turnEntityID a)) (\<lambda>actionRef.
        bindM (mapErr (RejectedActionError (pa_ActionID a))
            (acceptedEntity X R turnID turnEntityID actionRef a)) (\<lambda>entity.
        bindM (createTurn R turnID turnEntityID entity) (\<lambda>acceptance.
        bindM (pointPlayerAtTurn X R (pa_PlayerID a) acceptance) (\<lambda>_.
        ret acceptance)))))))"

subsection \<open>Moving a turn\<close>

definition pointPlayerAtResolvedTurn ::
    "ext \<Rightarrow> 'w Recorder \<Rightarrow> EntityState \<Rightarrow> string \<Rightarrow> string \<Rightarrow> ('w, unit) M" where
  "pointPlayerAtResolvedTurn X R state turnID turnEntityID =
     bindM (liftR (playerOf state turnEntityID)) (\<lambda>playerID.
     bindM (nowM R) (\<lambda>at.
     bindM (liftR (PlayerResolvedTurn_Triples X
         \<lparr>prt_PlayerID = playerID, prt_TurnID = turnID, prt_TurnEntityID = turnEntityID\<rparr>
         playerID turn_Source at)) (\<lambda>triples.
     bindM (mapErr (Wrapf ''point player at their resolved turn'')
         (gs_Reconcile (tr_store R) PlayerResolvedTurnGroup playerID triples)) (\<lambda>_.
     ret ()))))"

definition repairResolvedPointer ::
    "ext \<Rightarrow> 'w Recorder \<Rightarrow> EntityState \<Rightarrow> string \<Rightarrow> string \<Rightarrow> ('w, unit) M" where
  "repairResolvedPointer X R state turnID turnEntityID =
     bindM (liftR (playerOf state turnEntityID)) (\<lambda>playerID.
     tryM (gs_GetEntity (tr_store R) playerID) (\<lambda>r. case r of
       Inl err \<Rightarrow>
         if errors_Is err ErrEntityNotFound then ret ()
         else throw (Wrapf ''read player to repair their resolved-turn pointer'' err)
     | Inr player \<Rightarrow>
         if List.member (fst (ResolvedTurns (Some player))) turnEntityID then ret ()
         else if \<not> List.member (fst (HeldTurns (Some player))) turnEntityID then ret ()
         else
           bindM (nowM R) (\<lambda>at.
           bindM (liftR (PlayerResolvedTurn_Triples X
               \<lparr>prt_PlayerID = playerID, prt_TurnID = turnID, prt_TurnEntityID = turnEntityID\<rparr>
               playerID turn_Source at)) (\<lambda>triples.
           bindM (mapErr (Wrapf ''repair player's pointer at their resolved turn'')
               (gs_Reconcile (tr_store R) PlayerResolvedTurnGroup playerID triples)) (\<lambda>_.
           ret ())))))"

definition transition ::
    "ext \<Rightarrow> 'w Recorder \<Rightarrow> string \<Rightarrow> string \<Rightarrow> TurnPhase \<Rightarrow> FailureReason \<Rightarrow> Ref \<Rightarrow> ('w, Transition) M" where
  "transition X R turnID turnEntityID to reason detail =
     checkM (RequireTurnEntityID X turnID turnEntityID)
     (bindM (currentState R turnEntityID) (\<lambda>(stored, previous).
      let (outcome, fault) = classify previous to in
      if fault \<noteq> [] then throw (IllegalTransitionError turnEntityID previous to fault)
      else if outcome \<noteq> OutcomeAdvanced
      then bindM (if IsTerminal to \<and> IsTerminal previous
                  then repairResolvedPointer X R stored turnID turnEntityID else ret ()) (\<lambda>_.
        ret \<lparr>tx_Previous = previous, tx_Phase = previous, tx_Outcome = outcome\<rparr>)
      else
        bindM (nowM R) (\<lambda>at.
        bindM (liftR (TurnState_Triples X
            \<lparr>ts_TurnID = turnID, ts_Phase = to, ts_PlayerID = [], ts_SceneID = [],
             ts_ActionRef = [], ts_Reason = reason, ts_DetailRef = Ref_String detail\<rparr>
            turnEntityID turn_Source at)) (\<lambda>triples.
        bindM (mapErr (Wrapf ''record phase on turn'')
            (gs_Reconcile (tr_store R) TurnPhaseState turnEntityID triples)) (\<lambda>_.
        bindM (if IsTerminal to then pointPlayerAtResolvedTurn X R stored turnID turnEntityID
               else ret ()) (\<lambda>_.
        ret \<lparr>tx_Previous = previous, tx_Phase = to, tx_Outcome = OutcomeAdvanced\<rparr>))))))"

definition Advance ::
    "ext \<Rightarrow> 'w Recorder \<Rightarrow> string \<Rightarrow> string \<Rightarrow> TurnPhase \<Rightarrow> ('w, Transition) M" where
  "Advance X R turnID turnEntityID to =
     (if to = PhaseAccepted
      then throw (IllegalTransitionError turnEntityID [] to FaultCreatedNotAdvanced)
      else if to = PhaseFailed
      then throw (IllegalTransitionError turnEntityID [] to FaultFailureNeedsReason)
      else transition X R turnID turnEntityID to [] zeroRef)"

definition Fail ::
    "ext \<Rightarrow> 'w Recorder \<Rightarrow> string \<Rightarrow> string \<Rightarrow> FailureReason \<Rightarrow> Ref \<Rightarrow> ('w, Transition) M" where
  "Fail X R turnID turnEntityID reason detail =
     checkM (wrapErr ''refusing to record a turn failure'' (errOf (ParseFailureReason reason)))
     (checkM (if \<not> Ref_IsZero detail then Ref_Validate X detail else None)
       (transition X R turnID turnEntityID PhaseFailed reason detail))"

section \<open>Intake\<close>

text \<open>What decoding a message yields: a pointer to a player action, or a payload of another type.\<close>

datatype decodedPayload = DecodedAction "PlayerAction option" | DecodedOther string

definition decodeAction :: "(string \<Rightarrow> gerror + decodedPayload) \<Rightarrow> string \<Rightarrow> gerror + PlayerAction option" where
  "decodeAction decoder data =
     (case decoder data of
        Inl err \<Rightarrow> Inl (RejectedActionError [] (Wrapf ''decode player action'' err))
      | Inr (DecodedAction a) \<Rightarrow> Inr a
      | Inr (DecodedOther ty) \<Rightarrow>
          Inl (RejectedActionError []
            (Errorf ''message on the player-action stream carries another payload'')))"

definition isRejectedAction :: "gerror \<Rightarrow> bool" where
  "isRejectedAction err =
     (errors_As (\<lambda>e. case e of RejectedActionError a e' \<Rightarrow> Some () | _ \<Rightarrow> None) err \<noteq> None)"

definition Handle ::
    "ext \<Rightarrow> (string \<Rightarrow> gerror + decodedPayload) \<Rightarrow> 'w Recorder \<Rightarrow> string \<Rightarrow> ('w, unit) M" where
  "Handle X decoder R data =
     (case decodeAction decoder data of
        Inl err \<Rightarrow> throw (TerminateDelivery err)
      | Inr action \<Rightarrow>
          tryM (Accept X R action) (\<lambda>r. case r of
            Inl err \<Rightarrow> if isRejectedAction err then throw (TerminateDelivery err) else throw err
          | Inr _ \<Rightarrow> ret ()))"

section \<open>The ingress stream\<close>

definition ActionStream :: string where "ActionStream = ''PLAYER_ACTIONS''"
definition ActionSubjectPrefix :: string where "ActionSubjectPrefix = ''player.action.>''"
definition ActionSubject :: string where "ActionSubject = ''player.action.submitted''"
definition IntakeConsumer :: string where "IntakeConsumer = ''semmachina-turn-intake''"

text \<open>Durations are nanoseconds.\<close>

definition DefaultAckWait :: int where "DefaultAckWait = 30 * 10 ^ 9"
definition DefaultHeartbeat :: int where "DefaultHeartbeat = 10 * 10 ^ 9"
definition ActionMaxAge :: int where "ActionMaxAge = 30 * 24 * 3600 * 10 ^ 9"
definition ActionMaxBytes :: int where "ActionMaxBytes = 2 ^ 30"

record Intake =
  ik_stream :: string
  ik_subject :: string
  ik_name :: string
  ik_ackWait :: int
  ik_heartbeat :: int

datatype IntakeOption = WithAckTimings int int | WithStream string string | WithConsumerName string

fun applyIntakeOption :: "Intake \<Rightarrow> IntakeOption \<Rightarrow> Intake" where
  "applyIntakeOption i (WithAckTimings ackWait heartbeat) =
     i\<lparr>ik_ackWait := ackWait, ik_heartbeat := heartbeat\<rparr>"
| "applyIntakeOption i (WithStream stream subject) = i\<lparr>ik_stream := stream, ik_subject := subject\<rparr>"
| "applyIntakeOption i (WithConsumerName name) = i\<lparr>ik_name := name\<rparr>"

text \<open>The three flags say whether the consumer, the recorder and the decoder are present.\<close>

definition NewIntake :: "bool \<Rightarrow> bool \<Rightarrow> bool \<Rightarrow> IntakeOption list \<Rightarrow> gerror + Intake" where
  "NewIntake hasConsumer hasRecorder hasDecoder opts =
     (let intake = foldl applyIntakeOption
        \<lparr>ik_stream = ActionStream, ik_subject = ActionSubject, ik_name = IntakeConsumer,
         ik_ackWait = DefaultAckWait, ik_heartbeat = DefaultHeartbeat\<rparr> opts
      in case firstErr [
          failIf (\<not> hasConsumer) (Errorf ''turn intake requires a stream consumer''),
          failIf (\<not> hasRecorder) (Errorf ''turn intake requires a turn recorder''),
          failIf (\<not> hasDecoder) (Errorf ''turn intake requires a payload decoder''),
          failIf (ik_stream intake = [] \<or> ik_name intake = [])
            (Errorf ''turn intake requires a stream and a durable consumer name''),
          failIf (ik_ackWait intake \<le> 0 \<or> ik_heartbeat intake \<le> 0)
            (Errorf ''turn intake requires positive ack timings'')] of
        Some e \<Rightarrow> Inl e
      | None \<Rightarrow> Inr intake)"

record StreamConsumerConfig =
  scc_StreamName :: string
  scc_ConsumerName :: string
  scc_FilterSubject :: string
  scc_DeliverPolicy :: string
  scc_AckPolicy :: string
  scc_MaxDeliver :: int
  scc_AckWait :: int

definition ConsumerConfig :: "Intake \<Rightarrow> StreamConsumerConfig" where
  "ConsumerConfig i =
     \<lparr>scc_StreamName = ik_stream i, scc_ConsumerName = ik_name i, scc_FilterSubject = ik_subject i,
      scc_DeliverPolicy = ''all'', scc_AckPolicy = ''explicit'', scc_MaxDeliver = 0,
      scc_AckWait = ik_ackWait i\<rparr>"

datatype StorageType = FileStorage | MemoryStorage
datatype RetentionPolicy = LimitsPolicy | InterestPolicy | WorkQueuePolicy
datatype DiscardPolicy = DiscardOld | DiscardNew

record StreamConfig =
  st_Name :: string
  st_Subjects :: "string list"
  st_Storage :: StorageType
  st_Retention :: RetentionPolicy
  st_MaxAge :: int
  st_MaxBytes :: int
  st_Discard :: DiscardPolicy
  st_MaxMsgs :: int
  st_MaxMsgsPerSubject :: int

definition ActionStreamConfig :: StreamConfig where
  "ActionStreamConfig =
     \<lparr>st_Name = ActionStream, st_Subjects = [ActionSubjectPrefix], st_Storage = FileStorage,
      st_Retention = LimitsPolicy, st_MaxAge = ActionMaxAge, st_MaxBytes = ActionMaxBytes,
      st_Discard = DiscardNew, st_MaxMsgs = -1, st_MaxMsgsPerSubject = -1\<rparr>"

text \<open>\<^verbatim>\<open>strings.CutSuffix\<close> of a one-byte suffix.\<close>

definition cutSuffixChar :: "string \<Rightarrow> char \<Rightarrow> string option" where
  "cutSuffixChar s c = (if s \<noteq> [] \<and> last s = c then Some (butlast s) else None)"

definition filterCovers :: "string \<Rightarrow> string \<Rightarrow> bool" where
  "filterCovers flt subject =
     (flt = subject
      \<or> (case cutSuffixChar flt CHR ''>'' of
           Some prefix \<Rightarrow> hasPrefix subject prefix \<and> length prefix < length subject
         | None \<Rightarrow> False)
      \<or> (case cutSuffixChar flt CHR ''*'' of
           Some prefix \<Rightarrow>
             (case cutPrefix subject prefix of
                Some rest \<Rightarrow> rest \<noteq> [] \<and> \<not> List.member rest CHR ''.''
              | None \<Rightarrow> False)
         | None \<Rightarrow> False))"

fun subjectCovered :: "string list \<Rightarrow> string \<Rightarrow> bool" where
  "subjectCovered [] subject = False"
| "subjectCovered (flt # filters) subject =
     (if filterCovers flt subject then True else subjectCovered filters subject)"

definition checkActionStreamConfig :: "StreamConfig \<Rightarrow> StreamConfig \<Rightarrow> gerror option" where
  "checkActionStreamConfig want got =
     firstErr [
       failIf (st_MaxAge want \<noteq> st_MaxAge got) (Errorf ''MaxAge''),
       failIf (st_MaxBytes want \<noteq> st_MaxBytes got) (Errorf ''MaxBytes''),
       failIf (st_Discard want \<noteq> st_Discard got) (Errorf ''Discard''),
       failIf (st_Retention want \<noteq> st_Retention got) (Errorf ''Retention''),
       failIf (\<not> subjectCovered (st_Subjects got) ActionSubject)
         (Errorf ''subjects do not cover the canonical publish subject'')]"

definition EnsureActionStream ::
    "((StreamConfig \<Rightarrow> ('w, 's) M) \<times> ('s \<Rightarrow> ('w, StreamConfig) M)) option \<Rightarrow> ('w, unit) M" where
  "EnsureActionStream streams =
     (case streams of
        None \<Rightarrow> throw (Errorf ''ensuring the stream requires a stream ensurer'')
      | Some (ensure, info) \<Rightarrow>
          bindM (mapErr (Wrapf ''ensure the stream'') (ensure ActionStreamConfig)) (\<lambda>stream.
          bindM (mapErr (Wrapf ''read back the stream configuration'') (info stream)) (\<lambda>got.
          checkM (checkActionStreamConfig ActionStreamConfig got) (ret ()))))"

end
