(* ===== verification/Turn_Safety.thy ===== *)
theory Turn_Safety
  imports Turn
begin

text \<open>
  What the recorder of \<^verbatim>\<open>internal/turn\<close> guarantees over any store that keeps the contract
  \<open>graph_store\<close>: which cells of the graph each call may change (whatever it returns), that the
  phases of all turns only move along the sequencing table over any run of calls, that an accepted
  turn is never overwritten and a player's pointer never leaves a live turn, that a finished turn is
  announced to its player, and which deliveries are acknowledged or dropped.
\<close>

section \<open>Phases as facts of the graph\<close>

text \<open>
  A turn is in a phase when the graph holds exactly one phase object for it, a legal one. Calls are
  described by the cells (entity and predicate) they may change.
\<close>

definition inPhase :: "(string \<Rightarrow> Predicate \<Rightarrow> any multiset) \<Rightarrow> string \<Rightarrow> TurnPhase \<Rightarrow> bool" where
  "inPhase G i p = (G i TurnPhaseCurrent = {#AString p#} \<and> TurnPhase_Valid p)"

definition offCells ::
    "(string \<times> Predicate) set \<Rightarrow> (string \<Rightarrow> Predicate \<Rightarrow> any multiset)
     \<Rightarrow> (string \<Rightarrow> Predicate \<Rightarrow> any multiset) \<Rightarrow> bool" where
  "offCells A G G' = (\<forall>i p. (i, p) \<notin> A \<longrightarrow> G' i p = G i p)"

text \<open>Every turn that was in a phase is in that phase or in one that the sequencing table leads to.\<close>

definition phasesProceed ::
    "(string \<Rightarrow> Predicate \<Rightarrow> any multiset) \<Rightarrow> (string \<Rightarrow> Predicate \<Rightarrow> any multiset) \<Rightarrow> bool" where
  "phasesProceed G G' = (\<forall>i p. inPhase G i p \<longrightarrow> (\<exists>q. inPhase G' i q \<and> PhaseFollows\<^sup>*\<^sup>* p q))"

lemma inPhase_unique: "inPhase G i p \<Longrightarrow> inPhase G i q \<Longrightarrow> p = q"
  by (simp add: inPhase_def)

lemma offCells_refl [simp, intro]: "offCells A G G"
  by (simp add: offCells_def)

lemma offCells_trans: "offCells A G G' \<Longrightarrow> offCells B G' G'' \<Longrightarrow> offCells (A \<union> B) G G''"
  by (simp add: offCells_def)

lemma offCells_mono: "offCells A G G' \<Longrightarrow> A \<subseteq> B \<Longrightarrow> offCells B G G'"
  by (auto simp: offCells_def)

lemma offCells_at: "offCells A G G' \<Longrightarrow> (i, p) \<notin> A \<Longrightarrow> G' i p = G i p"
  by (simp add: offCells_def)

lemma offCells_phase:
  "offCells A G G' \<Longrightarrow> (i, TurnPhaseCurrent) \<notin> A \<Longrightarrow> inPhase G' i p = inPhase G i p"
  by (simp add: offCells_def inPhase_def)

lemma phasesProceed_refl [simp, intro]: "phasesProceed G G"
  by (auto simp: phasesProceed_def)

lemma phasesProceed_trans: "phasesProceed G G' \<Longrightarrow> phasesProceed G' G'' \<Longrightarrow> phasesProceed G G''"
  unfolding phasesProceed_def by (meson rtranclp_trans)

lemma phasesProceed_off:
  "offCells A G G' \<Longrightarrow> (\<And>i. (i, TurnPhaseCurrent) \<notin> A) \<Longrightarrow> phasesProceed G G'"
  unfolding phasesProceed_def using offCells_phase by blast

lemma mset_eq_single: "mset xs = {#x#} \<longleftrightarrow> xs = [x]"
  by (cases xs) auto

lemma ParseTurnPhase_valid: "TurnPhase_Valid s \<Longrightarrow> ParseTurnPhase s = Inr s"
  by (simp add: ParseTurnPhase_Inr)

lemma PhaseOf_Inr:
  "PhaseOf (Some st) i = Inr p \<longleftrightarrow>
     objectsIn (esTriples st) TurnPhaseCurrent = [AString p] \<and> TurnPhase_Valid p"
  by (auto simp: PhaseOf_def ParseTurnPhase_Inr ParseTurnPhase_valid split: list.splits option.splits sum.splits)

lemma PhaseOf_Inl: "PhaseOf st i = Inl e \<Longrightarrow> isRecordError e"
  by (auto simp: PhaseOf_def isRecordError_def split: option.splits list.splits sum.splits)

lemma playerOf_Inr:
  "playerOf st i = Inr p \<longleftrightarrow> objectsIn (esTriples st) TurnActionPlayer = [AString p] \<and> p \<noteq> []"
  by (auto simp: playerOf_def split: list.splits option.splits if_splits)

lemma turnRefs_members: "set (fst (turnRefs p ts)) = {s. s \<noteq> [] \<and> AString s \<in> set (objectsIn ts p)}"
proof (induction ts)
  case (Cons t ts)
  obtain held n where h: "turnRefs p ts = (held, n)" by fastforce
  show ?case using Cons.IH by (cases "trObject t") (auto simp: h asString_def)
qed simp

lemma turnRefs_count: "length (fst (turnRefs p ts)) + snd (turnRefs p ts) = length (objectsIn ts p)"
proof (induction ts)
  case (Cons t ts)
  obtain held n where h: "turnRefs p ts = (held, n)" by fastforce
  show ?case using Cons.IH by (cases "trObject t") (auto simp: h asString_def)
qed simp

lemma pointer_not_phase [simp]:
  "PlayerTurnCurrent \<noteq> TurnPhaseCurrent" "PlayerTurnResolved \<noteq> TurnPhaseCurrent"
  "TurnPhaseCurrent \<noteq> PlayerTurnCurrent" "TurnPhaseCurrent \<noteq> PlayerTurnResolved"
  "TurnFailureReason \<noteq> TurnPhaseCurrent" "TurnFailureRef \<noteq> TurnPhaseCurrent"
  "PlayerTurnCurrent \<noteq> PlayerTurnResolved" "PlayerTurnResolved \<noteq> PlayerTurnCurrent"
  "TurnActionPlayer \<noteq> PlayerTurnCurrent" "TurnActionPlayer \<noteq> PlayerTurnResolved"
  by (simp_all add: pred_strings)

text \<open>What the sequencing decision means.\<close>

lemma outcome_distinct [simp]:
  "OutcomeAdvanced \<noteq> OutcomeResumed" "OutcomeAdvanced \<noteq> OutcomeDeclined" "OutcomeResumed \<noteq> OutcomeDeclined"
  "OutcomeResumed \<noteq> OutcomeAdvanced" "OutcomeDeclined \<noteq> OutcomeAdvanced" "OutcomeDeclined \<noteq> OutcomeResumed"
  "OutcomeAdvanced \<noteq> []" "OutcomeResumed \<noteq> []" "OutcomeDeclined \<noteq> []"
  "FaultSkippedStage \<noteq> []" "FaultUnknownPhase \<noteq> []"
  by (simp_all add: outcome_names)

lemma classify_cases:
  assumes "classify p q = (oc, fault)"
  obtains (fault) "fault \<noteq> []" "\<not> PhaseFollows p q"
  | (advanced) "fault = []" "oc = OutcomeAdvanced" "PhaseFollows p q"
  | (resumed) "fault = []" "oc = OutcomeResumed" "p = q" "\<not> IsTerminal p"
  | (declined) "fault = []" "oc = OutcomeDeclined" "\<not> PhaseFollows p q"
      "IsTerminal p \<or> (\<exists>i j. PhaseRank p = Some i \<and> PhaseRank q = Some j \<and> j < i)"
proof -
  have live: "PhaseFollows p q \<Longrightarrow> \<not> IsTerminal p" using turn_phases.terminal_stuck by blast
  have ranked: "PhaseFollows p q \<Longrightarrow> (\<exists>i. PhaseRank p = Some i) \<and> (\<exists>j. PhaseRank q = Some j)"
    using turn_phases.follows_ranks by blast
  show thesis
    using assms that live ranked
    by (auto simp: classify_def split: option.splits if_splits)
qed

lemma PhaseFollows_valid: "PhaseFollows p q \<Longrightarrow> TurnPhase_Valid p \<and> TurnPhase_Valid q"
  using turn_phases.follows_ranks PhaseRank_Some_iff by blast

text \<open>What a phase record holds.\<close>

lemma objectsIn_record:
  "objectsIn (map (\<lambda>(q, v). recordTriple i t src at q v) fs) p = map snd (filter (\<lambda>f. fst f = p) fs)"
  by (induction fs) auto

lemma phase_record [simp]:
  "objectsIn (map (\<lambda>(q, v). recordTriple i t src at q v) (TurnState_fields s)) TurnPhaseCurrent =
     [AString (ts_Phase s)]"
  by (simp add: objectsIn_record TurnState_fields_def pred_strings)

section \<open>What the recorder changes\<close>

lemma nowM_eq: "nowM R w = (r, w') \<longleftrightarrow> r = Inr (fst (tr_now R w)) \<and> w' = snd (tr_now R w)"
  by (auto simp: nowM_def split: prod.splits)

locale turn_recorder = graph_store X S ents
  for X :: ext and S :: "'w GraphStore" and ents :: "'w \<Rightarrow> string \<Rightarrow> EntityState option" +
  fixes R :: "'w Recorder"
  assumes store: "tr_store R = S"
    and actions_frame: "tr_actions R i a w = (r, w') \<Longrightarrow> ents w' = ents w"
    and clock_frame: "ents (snd (tr_now R w)) = ents w"
begin

lemma currentState_frame: "currentState R i w = (r, w') \<Longrightarrow> ents w' = ents w"
  using get_frame by (auto simp: currentState_def store mapErr_Inl elim!: bindM_cases)

lemma currentState_Inr:
  assumes "currentState R i w = (Inr (st, p), w')"
  shows "ents w i = Some st" "PhaseOf (Some st) i = Inr p" "inPhase (objs ents w) i p"
proof -
  show st: "ents w i = Some st" and p: "PhaseOf (Some st) i = Inr p"
    using assms get_ok by (auto simp: currentState_def store elim!: bindM_cases)
  show "inPhase (objs ents w) i p"
    using p by (simp add: inPhase_def graphOf_def st PhaseOf_Inr)
qed

lemma Current_frame: "Current R i w = (r, w') \<Longrightarrow> ents w' = ents w"
  using currentState_frame by (auto simp: Current_def elim!: bindM_cases)

lemma Current_Inr: "Current R i w = (Inr p, w') \<Longrightarrow> inPhase (objs ents w) i p"
  using currentState_Inr by (auto simp: Current_def elim!: bindM_cases)

lemma turnIsLive_frame: "turnIsLive R i w = (r, w') \<Longrightarrow> ents w' = ents w"
  using get_frame
  by (auto simp: turnIsLive_def store elim!: tryM_cases split: if_splits sum.splits)

lemma turnIsLive_Inr:
  assumes "turnIsLive R i w = (Inr live, w')"
  shows "live \<longleftrightarrow> (\<exists>p. inPhase (objs ents w) i p \<and> \<not> IsTerminal p)"
proof (cases "ents w i")
  case None
  with assms get_ok show ?thesis
    by (auto simp: turnIsLive_def store inPhase_def graphOf_def elim!: tryM_cases split: if_splits)
next
  case (Some st)
  have phase: "inPhase (objs ents w) i p \<longleftrightarrow> PhaseOf (Some st) i = Inr p" for p
    by (simp add: inPhase_def graphOf_def Some PhaseOf_Inr mset_eq_single)
  from assms show ?thesis
    using get_ok get_absent Some PhaseOf_Inl
    by (fastforce simp: turnIsLive_def store phase elim!: tryM_cases split: if_splits sum.splits)
qed

lemma anyLive_frame: "anyLive R e held w = (r, w') \<Longrightarrow> ents w' = ents w"
proof (induction held arbitrary: w)
  case (Cons i held)
  then show ?case
    using turnIsLive_frame by (auto split: if_splits elim!: bindM_cases)
qed simp

lemma anyLive_Inr:
  "anyLive R e held w = (Inr b, w') \<Longrightarrow>
     b \<longleftrightarrow> (\<exists>i \<in> set held. i \<noteq> e \<and> (\<exists>p. inPhase (objs ents w) i p \<and> \<not> IsTerminal p))"
proof (induction held arbitrary: w)
  case (Cons i held)
  show ?case
  proof (cases "i = e")
    case True
    with Cons show ?thesis by simp
  next
    case False
    with Cons.prems obtain live w1 where l: "turnIsLive R i w = (Inr live, w1)"
      and rest: "(if live then ret True else anyLive R e held) w1 = (Inr b, w')"
      by (auto elim!: bindM_cases)
    have same: "objs ents w1 = objs ents w" using turnIsLive_frame [OF l] by simp
    from Cons.IH [of w1] rest False turnIsLive_Inr [OF l] show ?thesis
      by (auto simp: same split: if_splits)
  qed
qed simp

lemma holdsAnotherLiveTurn_frame: "holdsAnotherLiveTurn R p e w = (r, w') \<Longrightarrow> ents w' = ents w"
  using get_frame anyLive_frame
  by (fastforce simp: holdsAnotherLiveTurn_def store elim!: tryM_cases split: if_splits)

lemma holdsAnotherLiveTurn_Inr:
  assumes "holdsAnotherLiveTurn R pl e w = (Inr b, w')"
  shows "b \<longleftrightarrow> (\<exists>i. i \<noteq> [] \<and> i \<noteq> e \<and> AString i \<in># objs ents w pl PlayerTurnCurrent
    \<and> (\<exists>p. inPhase (objs ents w) i p \<and> \<not> IsTerminal p))"
proof -
  from assms consider "ents w pl = None" "\<not> b"
    | st w1 where "ents w pl = Some st" "ents w1 = ents w"
        "anyLive R e (fst (HeldTurns (Some st))) w1 = (Inr b, w')"
    unfolding holdsAnotherLiveTurn_def store
  proof (cases rule: tryM_cases)
    case (Inl err w1)
    then show ?thesis using get_absent that(1) by (simp split: if_splits)
  next
    case (Inr st w1)
    then show ?thesis using that(2) [OF get_ok [OF Inr(1)] get_frame [OF Inr(1)]] by simp
  qed
  then show ?thesis
  proof cases
    case 2
    from anyLive_Inr [OF 2(3)] show ?thesis
      by (auto simp: HeldTurns_def turnRefs_members 2(1,2) graphOf_def)
  qed (simp add: graphOf_def)
qed

lemma put_off: "gs_Reconcile S t i ds w = (r, w') \<Longrightarrow>
    offCells ({i} \<times> set (Predicates t)) (objs ents w) (objs ents w')"
  using put_objs [of t i ds w] put_failed_objs [of t i ds w]
  by (cases r) (fastforce simp: offCells_def)+

lemma nowM_frame: "nowM R w = (r, w') \<Longrightarrow> ents w' = ents w"
  by (simp add: nowM_eq clock_frame)

text \<open>The player's pointer at the turn in progress.\<close>

lemma pointPlayerAtTurn_off:
  assumes "pointPlayerAtTurn X R pl a w = (r, w')"
  shows "offCells {(pl, PlayerTurnCurrent)} (objs ents w) (objs ents w')"
proof -
  have wr: "offCells {(pl, PlayerTurnCurrent)} (objs ents w1) (objs ents w2)"
    if "gs_Reconcile S PlayerCurrentTurn pl ts w1 = (q, w2)" for ts q w1 w2
    using put_off [OF that] by (simp add: Predicates_turn)
  from assms show ?thesis
    unfolding pointPlayerAtTurn_def store
    by (auto split: if_splits elim!: bindM_cases simp: mapErr_Inl
        dest!: holdsAnotherLiveTurn_frame nowM_frame wr)
qed

lemma pointPlayerAtTurn_Inr:
  assumes "pointPlayerAtTurn X R pl a w = (Inr (), w')" and "pl \<noteq> []"
  shows "objs ents w' = objs ents w
    \<and> (IsTerminal (ac_Phase a) \<or> (\<exists>i. i \<noteq> [] \<and> i \<noteq> ac_TurnEntityID a
         \<and> AString i \<in># objs ents w pl PlayerTurnCurrent
         \<and> (\<exists>p. inPhase (objs ents w) i p \<and> \<not> IsTerminal p)))
   \<or> \<not> IsTerminal (ac_Phase a) \<and> objs ents w' pl PlayerTurnCurrent = {#AString (ac_TurnEntityID a)#}"
proof (cases "IsTerminal (ac_Phase a)")
  case True
  with assms show ?thesis by (simp add: pointPlayerAtTurn_def)
next
  case False
  with assms(1) obtain late w1 where late: "holdsAnotherLiveTurn R pl (ac_TurnEntityID a) w = (Inr late, w1)"
    by (auto simp: pointPlayerAtTurn_def elim!: bindM_cases)
  note frame = holdsAnotherLiveTurn_frame [OF late]
  show ?thesis
  proof (cases late)
    case True
    with late assms(1) False have "w' = w1" by (simp add: pointPlayerAtTurn_def bindM_def)
    with True holdsAnotherLiveTurn_Inr [OF late] frame show ?thesis by auto
  next
    case notLate: False
    with late assms(1) False obtain at ts e w2 w3 where
      "PlayerTurn_Triples X \<lparr>pt_PlayerID = pl, pt_TurnID = ac_TurnID a,
         pt_TurnEntityID = ac_TurnEntityID a\<rparr> pl turn_Source at = Inr ts"
      and put: "gs_Reconcile S PlayerCurrentTurn pl ts w2 = (Inr e, w3)" "w' = w3"
      by (auto simp: pointPlayerAtTurn_def store elim!: bindM_cases)
    then have "ts = [recordTriple pl (ac_TurnID a) turn_Source at PlayerTurnCurrent
        (AString (ac_TurnEntityID a))]"
      using PlayerTurn_Triples_Inr(3) assms(2) by fastforce
    then show ?thesis
      using put_objs [OF put(1), of pl PlayerTurnCurrent] put(2) False
      by (simp add: Predicates_turn)
  qed
qed

text \<open>The player's pointer at the last resolved turn.\<close>

lemma put_resolved:
  assumes "PlayerResolvedTurn_Triples X \<lparr>prt_PlayerID = pl, prt_TurnID = t, prt_TurnEntityID = i\<rparr>
      pl turn_Source at = Inr ts" and "pl \<noteq> []"
    and "gs_Reconcile S PlayerResolvedTurnGroup pl ts w = (Inr e, w')"
  shows "objs ents w' pl PlayerTurnResolved = {#AString i#}"
  using PlayerResolvedTurn_Triples_Inr(3) [OF assms(1)] assms(2) put_objs [OF assms(3)]
  by (simp add: Predicates_turn)

lemma put_resolved_off:
  "gs_Reconcile S PlayerResolvedTurnGroup pl ts w = (r, w') \<Longrightarrow>
     offCells (UNIV \<times> {PlayerTurnResolved}) (objs ents w) (objs ents w')"
  by (drule put_off) (auto simp: Predicates_turn elim: offCells_mono)

lemma pointPlayerAtResolvedTurn_off:
  assumes "pointPlayerAtResolvedTurn X R st t i w = (r, w')"
  shows "offCells (UNIV \<times> {PlayerTurnResolved}) (objs ents w) (objs ents w')"
  using assms unfolding pointPlayerAtResolvedTurn_def store
  by (auto elim!: bindM_cases simp: mapErr_Inl dest!: nowM_frame put_resolved_off)

lemma pointPlayerAtResolvedTurn_Inr:
  assumes "pointPlayerAtResolvedTurn X R st t i w = (Inr (), w')"
  shows "\<exists>pl. objectsIn (esTriples st) TurnActionPlayer = [AString pl]
    \<and> objs ents w' pl PlayerTurnResolved = {#AString i#}"
  using assms unfolding pointPlayerAtResolvedTurn_def store
  by (auto elim!: bindM_cases simp: playerOf_Inr intro: put_resolved)

lemma repairResolvedPointer_off:
  assumes "repairResolvedPointer X R st t i w = (r, w')"
  shows "offCells (UNIV \<times> {PlayerTurnResolved}) (objs ents w) (objs ents w')"
  using assms unfolding repairResolvedPointer_def store
  by (auto elim!: bindM_cases tryM_cases simp: mapErr_Inl split: if_splits
      dest!: nowM_frame get_frame put_resolved_off)

lemma repairResolvedPointer_Inr:
  assumes "repairResolvedPointer X R st t i w = (Inr (), w')" and "i \<noteq> []"
  shows "\<exists>pl. objectsIn (esTriples st) TurnActionPlayer = [AString pl]
    \<and> (AString i \<in># objs ents w pl PlayerTurnCurrent \<longrightarrow> AString i \<in># objs ents w' pl PlayerTurnResolved)"
proof -
  obtain pl where pl: "objectsIn (esTriples st) TurnActionPlayer = [AString pl]" "pl \<noteq> []"
    and rest: "tryM (gs_GetEntity S pl) (\<lambda>r. case r of
       Inl err \<Rightarrow>
         if errors_Is err ErrEntityNotFound then ret ()
         else throw (Wrapf ''read player to repair their resolved-turn pointer'' err)
     | Inr player \<Rightarrow>
         if List.member (fst (ResolvedTurns (Some player))) i then ret ()
         else if \<not> List.member (fst (HeldTurns (Some player))) i then ret ()
         else
           bindM (nowM R) (\<lambda>at.
           bindM (liftR (PlayerResolvedTurn_Triples X
               \<lparr>prt_PlayerID = pl, prt_TurnID = t, prt_TurnEntityID = i\<rparr> pl turn_Source at)) (\<lambda>triples.
           bindM (mapErr (Wrapf ''repair player's pointer at their resolved turn'')
               (gs_Reconcile S PlayerResolvedTurnGroup pl triples)) (\<lambda>_. ret ())))) w = (Inr (), w')"
    using assms(1) unfolding repairResolvedPointer_def store
    by (auto elim!: bindM_cases simp: playerOf_Inr)
  from rest have "AString i \<in># objs ents w pl PlayerTurnCurrent \<longrightarrow> AString i \<in># objs ents w' pl PlayerTurnResolved"
  proof (cases rule: tryM_cases)
    case (Inl err w1)
    then have "ents w pl = None" using get_absent by (simp split: if_splits)
    then show ?thesis by (simp add: graphOf_def)
  next
    case (Inr player w1)
    have player: "ents w pl = Some player" by (rule get_ok [OF Inr(1)])
    show ?thesis
    proof (cases "i \<in> set (fst (ResolvedTurns (Some player)))")
      case True
      then have "AString i \<in># objs ents w pl PlayerTurnResolved"
        by (simp add: ResolvedTurns_def turnRefs_members graphOf_def player)
      with True Inr(2) get_frame [OF Inr(1)] show ?thesis by simp
    next
      case False
      show ?thesis
      proof (cases "i \<in> set (fst (HeldTurns (Some player)))")
        case True
        with False Inr(2) put_resolved [OF _ pl(2)] show ?thesis
          by (auto elim!: bindM_cases)
      next
        case notHeld: False
        then have "AString i \<notin># objs ents w pl PlayerTurnCurrent"
          using assms(2) by (simp add: HeldTurns_def turnRefs_members graphOf_def player)
        then show ?thesis by simp
      qed
    qed
  qed
  with pl(1) show ?thesis by blast
qed

text \<open>Moving a turn: refused with nothing written, settled without a move, or moved along an edge.\<close>

lemma transition_cases:
  assumes run: "transition X R t i to reason d w = (r, w')"
  obtains (refused) e where "r = Inl e" "ents w' = ents w"
  | (settled) p oc st w1 where "inPhase (objs ents w) i p" "classify p to = (oc, [])"
      "oc \<noteq> OutcomeAdvanced" "ents w i = Some st" "ents w1 = ents w"
      "offCells (UNIV \<times> {PlayerTurnResolved}) (objs ents w) (objs ents w')"
      "(\<exists>e. r = Inl e) \<or> r = Inr \<lparr>tx_Previous = p, tx_Phase = p, tx_Outcome = oc\<rparr>"
      "\<And>x. r = Inr x \<Longrightarrow> IsTerminal to \<Longrightarrow> IsTerminal p \<Longrightarrow>
         repairResolvedPointer X R st t i w1 = (Inr (), w')"
  | (moved) p st w1 q w2 s at where "inPhase (objs ents w) i p" "PhaseFollows p to"
      "ents w i = Some st" "RequireTurnEntityID X t i = None"
      "s = \<lparr>ts_TurnID = t, ts_Phase = to, ts_PlayerID = [], ts_SceneID = [],
             ts_ActionRef = [], ts_Reason = reason, ts_DetailRef = Ref_String d\<rparr>"
      "TurnState_Validate X s = None" "ents w1 = ents w"
      "gs_Reconcile S TurnPhaseState i
         (map (\<lambda>(q, v). recordTriple i t turn_Source at q v) (TurnState_fields s)) w1 = (q, w2)"
      "offCells (UNIV \<times> {PlayerTurnResolved}) (objs ents w2) (objs ents w')"
      "\<And>e. q = Inl e \<Longrightarrow> (\<exists>e'. r = Inl e') \<and> w' = w2"
      "(\<exists>e. r = Inl e) \<or> r = Inr \<lparr>tx_Previous = p, tx_Phase = to, tx_Outcome = OutcomeAdvanced\<rparr>"
      "\<And>x. r = Inr x \<Longrightarrow> IsTerminal to \<Longrightarrow>
         pointPlayerAtResolvedTurn X R st t i w2 = (Inr (), w')"
proof (cases "RequireTurnEntityID X t i")
  case (Some e)
  with run refused show thesis by (simp add: transition_def)
next
  case None
  obtain rc w1 where cur: "currentState R i w = (rc, w1)" by fastforce
  note w1 = currentState_frame [OF cur]
  show thesis
  proof (cases rc)
    case (Inl e)
    with run None cur refused w1 show thesis by (auto simp: transition_def bindM_def)
  next
    case (Inr sp)
    obtain st p where sp: "sp = (st, p)" by fastforce
    note c = currentState_Inr [OF cur [unfolded Inr sp]]
    obtain oc fault where cl: "classify p to = (oc, fault)" by fastforce
    show thesis
    proof (cases "fault \<noteq> []")
      case True
      with run None cur Inr sp cl have "r = Inl (IllegalTransitionError i p to fault)" "w' = w1"
        by (simp_all add: transition_def bindM_def)
      with w1 refused show thesis by simp
    next
      case False
      then have cl': "classify p to = (oc, [])" using cl by simp
      show thesis
      proof (cases "oc = OutcomeAdvanced")
        case notAdvanced: False
        let ?m = "if IsTerminal to \<and> IsTerminal p then repairResolvedPointer X R st t i else ret ()"
        have run': "bindM ?m (\<lambda>_. ret \<lparr>tx_Previous = p, tx_Phase = p, tx_Outcome = oc\<rparr>) w1 = (r, w')"
          using run None cur Inr sp cl' notAdvanced by (simp add: transition_def bindM_def)
        have off: "offCells (UNIV \<times> {PlayerTurnResolved}) (objs ents w) (objs ents w')"
          using run' w1 repairResolvedPointer_off
          by (fastforce elim!: bindM_cases split: if_splits)
        from run' have out: "(\<exists>e. r = Inl e) \<or> r = Inr \<lparr>tx_Previous = p, tx_Phase = p, tx_Outcome = oc\<rparr>"
          by (auto elim!: bindM_cases)
        from run' have rep: "r = Inr x \<Longrightarrow> IsTerminal to \<Longrightarrow> IsTerminal p \<Longrightarrow>
            repairResolvedPointer X R st t i w1 = (Inr (), w')" for x
          by (auto elim!: bindM_cases)
        show thesis by (rule settled [OF c(3) cl' notAdvanced c(1) w1 off out rep])
      next
        case True
        then have follows: "PhaseFollows p to" by (cases rule: classify_cases [OF cl']) simp_all
        let ?s = "\<lparr>ts_TurnID = t, ts_Phase = to, ts_PlayerID = [], ts_SceneID = [],
             ts_ActionRef = [], ts_Reason = reason, ts_DetailRef = Ref_String d\<rparr>"
        obtain rn w2 where now: "nowM R w1 = (Inr rn, w2)" by (simp add: nowM_eq)
        have w2: "ents w2 = ents w" using nowM_frame [OF now] w1 by simp
        show thesis
        proof (cases "TurnState_Triples X ?s i turn_Source rn")
          case (Inl e)
          with run None cur Inr sp cl' True have "r = Inl e" "w' = w2"
            by (auto simp: transition_def bindM_def liftR_def now)
          with w2 refused show thesis by simp
        next
          case tri: (Inr ts)
          note t = TurnState_Triples_Inr [OF tri]
          have ts: "ts = map (\<lambda>(q, v). recordTriple i t turn_Source rn q v) (TurnState_fields ?s)"
            using t(1) by simp
          obtain q w3 where put: "gs_Reconcile S TurnPhaseState i ts w2 = (q, w3)" by fastforce
          let ?m = "if IsTerminal to then pointPlayerAtResolvedTurn X R st t i else ret ()"
          show thesis
          proof (cases q)
            case qe: (Inl e)
            have "r = Inl (Wrapf ''record phase on turn'' e)" "w' = w3"
              using run None cur Inr sp cl' True tri put qe
              by (auto simp: transition_def bindM_def liftR_def mapErr_def store now)
            then show thesis
              by (intro moved [OF c(3) follows c(1) None refl t(2) w2 put [unfolded ts]]) auto
          next
            case qi: (Inr es)
            have run': "bindM ?m (\<lambda>_. ret \<lparr>tx_Previous = p, tx_Phase = to, tx_Outcome = OutcomeAdvanced\<rparr>)
                w3 = (r, w')"
              using run None cur Inr sp cl' True tri put qi
              by (simp add: transition_def bindM_def liftR_def mapErr_def store now)
            have off: "offCells (UNIV \<times> {PlayerTurnResolved}) (objs ents w3) (objs ents w')"
              using run' pointPlayerAtResolvedTurn_off
              by (fastforce elim!: bindM_cases split: if_splits)
            show thesis
              by (rule moved [OF c(3) follows c(1) None refl t(2) w2 put [unfolded ts] off])
                (use qi run' in \<open>auto elim!: bindM_cases\<close>)
          qed
        qed
      qed
    qed
  qed
qed

lemma put_phase:
  assumes "gs_Reconcile S TurnPhaseState i
      (map (\<lambda>(q, v). recordTriple i t src at q v) (TurnState_fields s)) w = (r, w')"
  shows "offCells ({i} \<times> {TurnPhaseCurrent, TurnFailureReason, TurnFailureRef}) (objs ents w) (objs ents w')"
    and "objs ents w' = objs ents w \<or> objs ents w' i TurnPhaseCurrent = {#AString (ts_Phase s)#}"
    and "r = Inr e \<Longrightarrow> objs ents w' i TurnPhaseCurrent = {#AString (ts_Phase s)#}"
proof -
  show "offCells ({i} \<times> {TurnPhaseCurrent, TurnFailureReason, TurnFailureRef}) (objs ents w) (objs ents w')"
    using put_off [OF assms] by (simp add: Predicates_turn)
  show ok: "r = Inr e \<Longrightarrow> objs ents w' i TurnPhaseCurrent = {#AString (ts_Phase s)#}" for e
    using put_objs [of TurnPhaseState i _ w e w' i TurnPhaseCurrent] assms by (simp add: Predicates_turn)
  show "objs ents w' = objs ents w \<or> objs ents w' i TurnPhaseCurrent = {#AString (ts_Phase s)#}"
  proof (cases r)
    case (Inl e)
    from put_failed_objs [OF assms [unfolded Inl]] show ?thesis by (auto simp: Predicates_turn)
  qed (use ok in blast)
qed

lemma transition_off:
  assumes "transition X R t i to reason d w = (r, w')"
  shows "offCells ({i} \<times> {TurnPhaseCurrent, TurnFailureReason, TurnFailureRef} \<union> UNIV \<times> {PlayerTurnResolved})
    (objs ents w) (objs ents w')"
  using assms
proof (cases rule: transition_cases)
  case (moved p st w1 q w2 s at)
  with offCells_trans [OF put_phase(1) [OF moved(8)] moved(9)] show ?thesis by simp
qed (auto elim: offCells_mono)

lemma transition_proceeds:
  assumes "transition X R t i to reason d w = (r, w')"
  shows "phasesProceed (objs ents w) (objs ents w')"
  using assms
proof (cases rule: transition_cases)
  case (settled p oc st w1)
  then show ?thesis by (intro phasesProceed_off) auto
next
  case (moved p st w1 q w2 s at)
  have valid: "TurnPhase_Valid to" using PhaseFollows_valid [OF moved(2)] by simp
  have "phasesProceed (objs ents w1) (objs ents w2)"
    unfolding phasesProceed_def
  proof (intro allI impI)
    fix j p' assume p': "inPhase (objs ents w1) j p'"
    show "\<exists>q'. inPhase (objs ents w2) j q' \<and> PhaseFollows\<^sup>*\<^sup>* p' q'"
    proof (cases "j = i \<and> objs ents w2 \<noteq> objs ents w1")
      case True
      then have "inPhase (objs ents w2) j to"
        using put_phase(2) [OF moved(8)] valid moved(5) by (auto simp: inPhase_def)
      moreover have "p' = p" using True p' moved(1,7) inPhase_unique by auto
      ultimately show ?thesis using moved(2) by blast
    next
      case False
      then have "inPhase (objs ents w2) j p'"
        using p' offCells_at [OF put_phase(1) [OF moved(8)], of j TurnPhaseCurrent]
        by (auto simp: inPhase_def)
      then show ?thesis by blast
    qed
  qed
  moreover have "phasesProceed (objs ents w2) (objs ents w')"
    using moved(9) by (rule phasesProceed_off) simp
  ultimately show ?thesis using phasesProceed_trans moved(7) by metis
qed simp

text \<open>What a transition that returned says is what the graph holds.\<close>

lemma transition_Inr:
  assumes "transition X R t i to reason d w = (Inr x, w')"
  shows "inPhase (objs ents w) i (tx_Previous x)" and "inPhase (objs ents w') i (tx_Phase x)"
    and "tx_Outcome x = OutcomeAdvanced \<and> PhaseFollows (tx_Previous x) to \<and> tx_Phase x = to
      \<or> tx_Outcome x = OutcomeResumed \<and> tx_Previous x = to \<and> tx_Phase x = to \<and> \<not> IsTerminal to
      \<or> tx_Outcome x = OutcomeDeclined \<and> tx_Phase x = tx_Previous x \<and> \<not> PhaseFollows (tx_Previous x) to
        \<and> (IsTerminal (tx_Previous x) \<or>
           (\<exists>k j. PhaseRank (tx_Previous x) = Some k \<and> PhaseRank to = Some j \<and> j < k))"
  using assms
proof (atomize (full), cases rule: transition_cases)
  case (settled p oc st w1)
  have x: "x = \<lparr>tx_Previous = p, tx_Phase = p, tx_Outcome = oc\<rparr>" using settled(7) by simp
  have "inPhase (objs ents w') i p" using settled(1) offCells_phase [OF settled(6)] by simp
  with settled(1,3) x show
    "inPhase (objs ents w) i (tx_Previous x) \<and> inPhase (objs ents w') i (tx_Phase x) \<and>
     (tx_Outcome x = OutcomeAdvanced \<and> PhaseFollows (tx_Previous x) to \<and> tx_Phase x = to
      \<or> tx_Outcome x = OutcomeResumed \<and> tx_Previous x = to \<and> tx_Phase x = to \<and> \<not> IsTerminal to
      \<or> tx_Outcome x = OutcomeDeclined \<and> tx_Phase x = tx_Previous x \<and> \<not> PhaseFollows (tx_Previous x) to
        \<and> (IsTerminal (tx_Previous x) \<or>
           (\<exists>k j. PhaseRank (tx_Previous x) = Some k \<and> PhaseRank to = Some j \<and> j < k)))"
    by (cases rule: classify_cases [OF settled(2)]) auto
next
  case (moved p st w1 q w2 s at)
  have x: "x = \<lparr>tx_Previous = p, tx_Phase = to, tx_Outcome = OutcomeAdvanced\<rparr>" using moved(11) by simp
  obtain e where q: "q = Inr e" using moved(10) by (cases q) auto
  have "inPhase (objs ents w2) i to"
    using put_phase(3) [OF moved(8) q] PhaseFollows_valid [OF moved(2)] moved(5) by (simp add: inPhase_def)
  then have "inPhase (objs ents w') i to" using offCells_phase [OF moved(9)] by simp
  with moved(1,2) x show
    "inPhase (objs ents w) i (tx_Previous x) \<and> inPhase (objs ents w') i (tx_Phase x) \<and>
     (tx_Outcome x = OutcomeAdvanced \<and> PhaseFollows (tx_Previous x) to \<and> tx_Phase x = to
      \<or> tx_Outcome x = OutcomeResumed \<and> tx_Previous x = to \<and> tx_Phase x = to \<and> \<not> IsTerminal to
      \<or> tx_Outcome x = OutcomeDeclined \<and> tx_Phase x = tx_Previous x \<and> \<not> PhaseFollows (tx_Previous x) to
        \<and> (IsTerminal (tx_Previous x) \<or>
           (\<exists>k j. PhaseRank (tx_Previous x) = Some k \<and> PhaseRank to = Some j \<and> j < k)))"
    by simp
qed simp

text \<open>Accepting an action: at most a birth, and then at most the player's pointer.\<close>

lemma birth_cases:
  assumes "gs_CreateEntity S ct (Some ent) w = (r, w')"
  shows "ents w' = ents w \<or> ents w (esID ent) = None \<and> (\<exists>e'. ents w' = (ents w)(esID ent \<mapsto> e'))"
  using assms birth_ok [of ct ent w] birth_failed [of ct ent w]
  by (cases r) (auto simp: fun_upd_idem)

lemma birth_off:
  assumes "gs_CreateEntity S ct (Some ent) w = (r, w')"
  shows "offCells (if ents w (esID ent) = None then {esID ent} \<times> UNIV else {}) (objs ents w) (objs ents w')"
  using birth_cases [OF assms] by (auto simp: offCells_def graphOf_def)

lemma acceptedEntity_Inr:
  "acceptedEntity X R t i ref a w = (Inr ent, w') \<Longrightarrow> esID ent = i \<and> ents w' = ents w"
  by (auto simp: acceptedEntity_def dest: nowM_frame elim!: bindM_cases)

lemma acceptedEntity_frame: "acceptedEntity X R t i ref a w = (r, w') \<Longrightarrow> ents w' = ents w"
  by (auto simp: acceptedEntity_def dest: nowM_frame elim!: bindM_cases)

lemma confirmAccepted_None:
  "confirmAccepted st i = None \<Longrightarrow> \<exists>e. st = Some e \<and> PhaseOf (Some e) i = Inr PhaseAccepted"
  by (cases st) (auto simp: confirmAccepted_def PhaseOf_def split: sum.splits)

lemma createTurn_off:
  assumes "createTurn R t i ent w = (r, w')"
  shows "offCells (if ents w (esID ent) = None then {esID ent} \<times> UNIV else {}) (objs ents w) (objs ents w')"
proof -
  obtain q w1 where "gs_CreateEntity S TurnBirthContract (Some ent) w = (q, w1)" "ents w' = ents w1"
    using assms unfolding createTurn_def store
    by (auto elim!: tryM_cases bindM_cases simp: checkM_eq split: if_splits dest!: Current_frame)
  then show ?thesis using birth_off by simp
qed

lemma createTurn_Inr:
  assumes "createTurn R t i ent w = (Inr ac, w')" and "esID ent = i"
  shows "ac_TurnID ac = t \<and> ac_TurnEntityID ac = i \<and> inPhase (objs ents w') i (ac_Phase ac)
    \<and> (ents w i = None \<longrightarrow> ac_Created ac) \<and> (ac_Created ac \<longrightarrow> ac_Phase ac = PhaseAccepted)"
  using assms(1) [unfolded createTurn_def store]
proof (cases rule: tryM_cases)
  case (Inr res w1)
  then have ac: "ac = \<lparr>ac_TurnID = t, ac_TurnEntityID = i, ac_Created = True, ac_Phase = PhaseAccepted\<rparr>"
    and w': "w' = w1" and c: "confirmAccepted (cr_Entity res) i = None"
    by (auto simp: checkM_eq)
  obtain e where e: "cr_Entity res = Some e" "PhaseOf (Some e) i = Inr PhaseAccepted"
    using confirmAccepted_None [OF c] by blast
  have "ents w1 i = Some e" using birth_ok [OF Inr(1)] e(1) assms(2) by auto
  then have "inPhase (objs ents w1) i PhaseAccepted"
    using e(2) by (simp add: inPhase_def graphOf_def PhaseOf_Inr)
  then show ?thesis
    by (simp add: ac w')
next
  case (Inl err w1)
  then have ex: "errors_Is err ErrEntityExists" by (auto split: if_splits)
  with Inl(2) obtain p w2 where cur: "Current R i w1 = (Inr p, w2)" and w2: "w' = w2"
    and ac: "ac = \<lparr>ac_TurnID = t, ac_TurnEntityID = i, ac_Created = False, ac_Phase = p\<rparr>"
    by (auto elim!: bindM_cases)
  have "ents w i \<noteq> None" using birth_exists [OF Inl(1) ex] assms(2) by simp
  then show ?thesis
    using Current_Inr [OF cur] Current_frame [OF cur] by (simp add: ac w2)
qed

lemma Accept_cases:
  assumes run: "Accept X R (Some a) w = (r, w')"
  obtains (refused) e where "r = Inl e" "ents w' = ents w"
  | (born_only) t i ent w1 e where "EntityIDForAction X (tr_identity R) (pa_ActionID a) = Inr (t, i)"
      "esID ent = i" "ents w1 = ents w" "createTurn R t i ent w1 = (Inl e, w')" "r = Inl e"
  | (pointed) t i ent w1 ac w2 q where "EntityIDForAction X (tr_identity R) (pa_ActionID a) = Inr (t, i)"
      "pa_PlayerID a \<noteq> []"
      "esID ent = i" "ents w1 = ents w" "createTurn R t i ent w1 = (Inr ac, w2)"
      "pointPlayerAtTurn X R (pa_PlayerID a) ac w2 = (q, w')"
      "r = (case q of Inl e \<Rightarrow> Inl e | Inr _ \<Rightarrow> Inr ac)"
proof (cases "PlayerAction_Validate X a")
  case (Some e)
  with run refused show thesis by (simp add: Accept_def)
next
  case valid: None
  then have player: "pa_PlayerID a \<noteq> []"
    by (auto simp: PlayerAction_Validate_def requireEntityID_def)
  show thesis
  proof (cases "EntityIDForAction X (tr_identity R) (pa_ActionID a)")
    case (Inl e)
    with run refused valid show thesis by (auto simp: Accept_def bindM_def liftR_def mapErr_def)
  next
    case ids: (Inr ti)
    obtain t i where ti: "ti = (t, i)" by fastforce
    obtain ra w1 where act: "tr_actions R i a w = (ra, w1)" by fastforce
    note w1 = actions_frame [OF act]
    show thesis
    proof (cases ra)
      case (Inl e)
      with run refused valid ids ti act w1 show thesis
        by (auto simp: Accept_def bindM_def liftR_def mapErr_def)
    next
      case ref: (Inr ref)
      obtain re w2 where acc: "acceptedEntity X R t i ref a w1 = (re, w2)" by fastforce
      note w2 = acceptedEntity_frame [OF acc]
      show thesis
      proof (cases re)
        case (Inl e)
        with run refused valid ids ti act ref acc w1 w2 show thesis
          by (auto simp: Accept_def bindM_def liftR_def mapErr_def)
      next
        case ent: (Inr ent)
        have i: "esID ent = i" using acceptedEntity_Inr acc ent by blast
        have rest: "bindM (createTurn R t i ent) (\<lambda>ac. bindM (pointPlayerAtTurn X R (pa_PlayerID a) ac)
            (\<lambda>_. ret ac)) w2 = (r, w')"
          using run valid ids ti act ref acc ent
          by (auto simp: Accept_def bindM_def liftR_def mapErr_def)
        have same: "ents w2 = ents w" using w1 w2 by simp
        obtain rb w3 where b: "createTurn R t i ent w2 = (rb, w3)" by fastforce
        show thesis
        proof (cases rb)
          case (Inl e)
          with rest b have "r = Inl e" "w' = w3" by (simp_all add: bindM_def)
          with born_only [OF ids [unfolded ti] i same] b Inl show thesis by simp
        next
          case (Inr ac)
          obtain q w4 where pt: "pointPlayerAtTurn X R (pa_PlayerID a) ac w3 = (q, w4)" by fastforce
          have "w' = w4" "r = (case q of Inl e \<Rightarrow> Inl e | Inr _ \<Rightarrow> Inr ac)"
            using rest b Inr pt by (auto simp: bindM_def ret_def split: sum.splits)
          with pointed [OF ids [unfolded ti] player i same b [unfolded Inr]] pt show thesis by simp
        qed
      qed
    qed
  qed
qed

lemma absent_not_inPhase: "ents w i = None \<Longrightarrow> \<not> inPhase (objs ents w) i p"
  by (simp add: inPhase_def graphOf_def)

lemma createTurn_proceeds:
  assumes "createTurn R t i ent w = (r, w')"
  shows "phasesProceed (objs ents w) (objs ents w')"
  unfolding phasesProceed_def
proof (intro allI impI)
  fix j p assume p: "inPhase (objs ents w) j p"
  then have "(j, TurnPhaseCurrent) \<notin> (if ents w (esID ent) = None then {esID ent} \<times> UNIV else {})"
    using absent_not_inPhase by auto
  then have "inPhase (objs ents w') j p" using p offCells_phase [OF createTurn_off [OF assms]] by blast
  then show "\<exists>q. inPhase (objs ents w') j q \<and> PhaseFollows\<^sup>*\<^sup>* p q" by blast
qed

lemma Accept_proceeds:
  assumes "Accept X R a w = (r, w')"
  shows "phasesProceed (objs ents w) (objs ents w')"
proof (cases a)
  case None
  with assms show ?thesis by (auto simp: Accept_def)
next
  case (Some act)
  from assms [unfolded Some] show ?thesis
  proof (cases rule: Accept_cases)
    case (born_only t i ent w1 e)
    then show ?thesis using createTurn_proceeds [OF born_only(4)] by simp
  next
    case (pointed t i ent w1 ac w2 q)
    have "phasesProceed (objs ents w2) (objs ents w')"
      by (rule phasesProceed_off [OF pointPlayerAtTurn_off [OF pointed(6)]]) simp
    then show ?thesis
      using createTurn_proceeds [OF pointed(5)] phasesProceed_trans by (metis pointed(4))
  qed simp
qed

text \<open>An existing turn is never overwritten: only the player's pointer can move.\<close>

lemma Accept_off:
  assumes "Accept X R (Some a) w = (r, w')"
    and "EntityIDForAction X (tr_identity R) (pa_ActionID a) = Inr (t, i)"
  shows "offCells ({(pa_PlayerID a, PlayerTurnCurrent)} \<union> (if ents w i = None then {i} \<times> UNIV else {}))
    (objs ents w) (objs ents w')"
  using assms(1)
proof (cases rule: Accept_cases)
  case (born_only t' i' ent w1 e)
  then show ?thesis using createTurn_off [OF born_only(4)] assms(2) by (auto elim: offCells_mono)
next
  case (pointed t' i' ent w1 ac w2 q)
  from offCells_trans [OF createTurn_off [OF pointed(5)] pointPlayerAtTurn_off [OF pointed(6)]] pointed assms(2)
  show ?thesis by (auto split: if_splits)
qed simp

lemma Accept_Inr:
  assumes "Accept X R (Some a) w = (Inr ac, w')"
  shows "EntityIDForAction X (tr_identity R) (pa_ActionID a) = Inr (ac_TurnID ac, ac_TurnEntityID ac)
    \<and> inPhase (objs ents w') (ac_TurnEntityID ac) (ac_Phase ac)
    \<and> (ents w (ac_TurnEntityID ac) = None \<longrightarrow> ac_Created ac)
    \<and> (ac_Created ac \<longrightarrow> ac_Phase ac = PhaseAccepted)
    \<and> (IsTerminal (ac_Phase ac)
       \<or> objs ents w' (pa_PlayerID a) PlayerTurnCurrent = {#AString (ac_TurnEntityID ac)#}
       \<or> (\<exists>i p. i \<noteq> ac_TurnEntityID ac \<and> AString i \<in># objs ents w' (pa_PlayerID a) PlayerTurnCurrent
            \<and> inPhase (objs ents w') i p \<and> \<not> IsTerminal p))"
  using assms
proof (cases rule: Accept_cases)
  case (pointed t i ent w1 ac' w2 q)
  then have q: "q = Inr ()" and ac: "ac' = ac" by (auto split: sum.splits)
  note c = createTurn_Inr [OF pointed(5,3), unfolded ac]
  note pt = pointPlayerAtTurn_Inr [OF pointed(6) [unfolded q ac] pointed(2)]
  have off: "inPhase (objs ents w') j p = inPhase (objs ents w2) j p" for j p
    by (rule offCells_phase [OF pointPlayerAtTurn_off [OF pointed(6)]]) simp
  show ?thesis
    using c pt pointed(1,4) by (auto simp: off)
qed auto

text \<open>Never away from a turn that is still live.\<close>

lemma pointPlayerAtTurn_keeps_live:
  assumes "pointPlayerAtTurn X R pl a w = (r, w')"
    and "i \<noteq> []" "i \<noteq> ac_TurnEntityID a" "AString i \<in># objs ents w pl PlayerTurnCurrent"
    and "inPhase (objs ents w) i p" "\<not> IsTerminal p"
  shows "ents w' = ents w"
proof (cases "IsTerminal (ac_Phase a)")
  case True
  with assms(1) show ?thesis by (simp add: pointPlayerAtTurn_def)
next
  case False
  obtain q w1 where late: "holdsAnotherLiveTurn R pl (ac_TurnEntityID a) w = (q, w1)" by fastforce
  have "b" if "q = Inr b" for b
    using holdsAnotherLiveTurn_Inr [OF late [unfolded that]] assms(2-) by blast
  then show ?thesis
    using assms(1) False late holdsAnotherLiveTurn_frame [OF late]
    by (auto simp: pointPlayerAtTurn_def bindM_def split: sum.splits if_splits)
qed

lemma Accept_keeps_live:
  assumes "Accept X R (Some a) w = (r, w')"
    and "EntityIDForAction X (tr_identity R) (pa_ActionID a) = Inr (t, e)"
    and "i \<noteq> []" "i \<noteq> e" "AString i \<in># objs ents w (pa_PlayerID a) PlayerTurnCurrent"
    and "inPhase (objs ents w) i p" "\<not> IsTerminal p" and "ents w e \<noteq> None"
  shows "objs ents w' = objs ents w"
  using assms(1)
proof (cases rule: Accept_cases)
  case (born_only t' i' ent w1 er)
  then have "offCells {} (objs ents w) (objs ents w')"
    using createTurn_off [OF born_only(4)] born_only assms(2,8) by (auto split: if_splits)
  then show ?thesis by (simp add: offCells_def fun_eq_iff)
next
  case (pointed t' i' ent w1 ac w2 q)
  have "offCells {} (objs ents w) (objs ents w2)"
    using createTurn_off [OF pointed(5)] pointed assms(2,8) by (auto split: if_splits)
  then have same: "objs ents w2 = objs ents w" by (simp add: offCells_def fun_eq_iff)
  have ac: "ac_TurnEntityID ac = e" using createTurn_Inr [OF pointed(5,3)] pointed(1) assms(2) by simp
  have "ents w' = ents w2"
    by (rule pointPlayerAtTurn_keeps_live [OF pointed(6), of i p]) (use same ac assms(3-7) in simp_all)
  then show ?thesis using same by simp
qed simp

text \<open>A finished turn is announced: its player's resolved pointer names it.\<close>

lemma transition_announces:
  assumes "transition X R t i to reason d w = (Inr x, w')" and "IsTerminal to"
    and "tx_Outcome x = OutcomeAdvanced"
  shows "\<exists>pl. objs ents w i TurnActionPlayer = {#AString pl#} \<and> objs ents w' pl PlayerTurnResolved = {#AString i#}"
  using assms(1)
proof (cases rule: transition_cases)
  case (moved p st w1 q w2 s at)
  from pointPlayerAtResolvedTurn_Inr [OF moved(12) [OF refl assms(2)]] show ?thesis
    by (auto simp: graphOf_def moved(3))
next
  case (settled p oc st w1)
  with assms(3) show ?thesis by auto
qed simp

text \<open>
  An announcement that a crash cut off is repaired by the redelivered transition, as long as the
  player's current pointer still names the turn.
\<close>

lemma transition_repairs:
  assumes "transition X R t i to reason d w = (Inr x, w')" and "IsTerminal to"
    and "IsTerminal (tx_Previous x)" and "i \<noteq> []"
  shows "\<exists>pl. objs ents w i TurnActionPlayer = {#AString pl#}
    \<and> (AString i \<in># objs ents w pl PlayerTurnCurrent \<longrightarrow> AString i \<in># objs ents w' pl PlayerTurnResolved)"
  using assms(1)
proof (cases rule: transition_cases)
  case (settled p oc st w1)
  then have "IsTerminal p" using assms(3) by auto
  from repairResolvedPointer_Inr [OF settled(8) [OF refl assms(2) this] assms(4)] show ?thesis
    by (auto simp: graphOf_def settled(4,5))
next
  case (moved p st w1 q w2 s at)
  then have "\<not> IsTerminal (tx_Previous x)" using turn_phases.terminal_stuck [OF _ ] by auto
  with assms(3) show ?thesis by simp
qed simp

end

section \<open>Runs of the recorder\<close>

text \<open>
  One step: any call of the recorder, whatever it returns, or a step of another component that
  leaves the phase facts alone.
\<close>

inductive recorder_step ::
    "ext \<Rightarrow> ('w \<Rightarrow> string \<Rightarrow> EntityState option) \<Rightarrow> 'w Recorder \<Rightarrow> 'w \<Rightarrow> 'w \<Rightarrow> bool"
  for X ents R where
  accept: "Accept X R a w = (r, w') \<Longrightarrow> recorder_step X ents R w w'"
| advance: "Advance X R t i to w = (q, w') \<Longrightarrow> recorder_step X ents R w w'"
| fails: "Fail X R t i reason d w = (q, w') \<Longrightarrow> recorder_step X ents R w w'"
| elsewhere: "(\<And>i. objs ents w' i TurnPhaseCurrent = objs ents w i TurnPhaseCurrent) \<Longrightarrow>
    recorder_step X ents R w w'"

inductive_cases recorder_stepE: "recorder_step X ents R w w'"

context turn_recorder
begin

lemma Advance_proceeds: "Advance X R t i to w = (r, w') \<Longrightarrow> phasesProceed (objs ents w) (objs ents w')"
  by (auto simp: Advance_def split: if_splits intro: transition_proceeds)

lemma Fail_proceeds: "Fail X R t i reason d w = (r, w') \<Longrightarrow> phasesProceed (objs ents w) (objs ents w')"
  by (auto simp: Fail_def checkM_eq intro: transition_proceeds)

lemma recorder_step_proceeds:
  "recorder_step X ents R w w' \<Longrightarrow> phasesProceed (objs ents w) (objs ents w')"
proof (induction rule: recorder_step.induct)
  case (elsewhere w w')
  then show ?case by (force simp: phasesProceed_def inPhase_def)
qed (auto intro: Accept_proceeds Advance_proceeds Fail_proceeds)

lemma recorder_run_proceeds:
  "(recorder_step X ents R)\<^sup>*\<^sup>* w w' \<Longrightarrow> phasesProceed (objs ents w) (objs ents w')"
  by (induction rule: rtranclp_induct) (auto intro: recorder_step_proceeds phasesProceed_trans)

end

section \<open>Rejected actions\<close>

text \<open>Errors of the grammar and of the store that do not pretend to be the recorder's rejection.\<close>

definition unrejected :: "ext \<Rightarrow> 'w GraphStore \<Rightarrow> bool" where
  "unrejected X S =
     ((\<forall>s e. ParsePredicate X s = Inl e \<longrightarrow> \<not> isRejectedAction e)
      \<and> (\<forall>s e. ValidateEntityID X s = Some e \<longrightarrow> \<not> isRejectedAction e)
      \<and> (\<forall>s e. ValidateEntityIDPrefix X s = Some e \<longrightarrow> \<not> isRejectedAction e)
      \<and> (\<forall>i w e w'. gs_GetEntity S i w = (Inl e, w') \<longrightarrow> \<not> isRejectedAction e)
      \<and> (\<forall>ct b w e w'. gs_CreateEntity S ct b w = (Inl e, w') \<longrightarrow> \<not> isRejectedAction e)
      \<and> (\<forall>t i ds w e w'. gs_Reconcile S t i ds w = (Inl e, w') \<longrightarrow> \<not> isRejectedAction e))"

lemma isRejectedAction_simps [simp]:
  "isRejectedAction (Errorf s) = False" "isRejectedAction (Wrapf s e) = isRejectedAction e"
  "isRejectedAction (RejectedActionError a e) = True"
  "isRejectedAction (RecordError i e) = isRejectedAction e"
  "isRejectedAction (UnknownValueError k v ms) = False"
  by (simp_all add: isRejectedAction_def split: option.splits)

definition plainErr :: "gerror \<Rightarrow> bool" where
  "plainErr e = (\<not> isRejectedAction e \<and> (\<forall>e'. e \<noteq> TerminateDelivery e'))"

definition plainO :: "gerror option \<Rightarrow> bool" where
  "plainO r = (\<forall>e. r = Some e \<longrightarrow> plainErr e)"

lemma plainErr_simps [simp]:
  "plainErr (Errorf s)" "plainErr (Wrapf s e) \<longleftrightarrow> \<not> isRejectedAction e"
  "plainErr (RecordError i e) \<longleftrightarrow> \<not> isRejectedAction e" "plainErr (UnknownValueError k v ms)"
  by (simp_all add: plainErr_def)

lemma plainO_simps [simp]:
  "plainO None" "plainO (Some e) \<longleftrightarrow> plainErr e" "plainO (failIf b (Errorf s))"
  "plainO (wrapErr s r) \<longleftrightarrow> (\<forall>e. r = Some e \<longrightarrow> \<not> isRejectedAction e)"
  by (auto simp: plainO_def wrapErr_def failIf_def)

lemma plainO_firstErr: "\<forall>r \<in> set rs. plainO r \<Longrightarrow> plainO (firstErr rs)"
  using firstErr_Some by (fastforce simp: plainO_def)

lemma plainO_rejected: "plainO r \<Longrightarrow> r = Some e \<Longrightarrow> \<not> isRejectedAction e"
  by (simp add: plainO_def plainErr_def)

locale plain_intake = turn_recorder X S ents R
  for X :: ext and S :: "'w GraphStore" and ents :: "'w \<Rightarrow> string \<Rightarrow> EntityState option"
    and R :: "'w Recorder" +
  assumes plain: "unrejected X S"
begin

lemma plain_segment: "plainO (ValidateIDSegment X s)"
  unfolding ValidateIDSegment_def
  using plain by (intro plainO_firstErr) (auto simp: unrejected_def)

lemma plain_requireSegment: "plainO (requireIDSegment X f s)"
  using plain_segment by (auto simp: requireIDSegment_def dest: plainO_rejected)

lemma plain_requireEntity: "plainO (requireEntityID X f s)"
  unfolding requireEntityID_def
  using plain by (intro plainO_firstErr) (auto simp: unrejected_def)

lemma plain_turnEntity: "plainO (RequireTurnEntityID X t i)"
  unfolding RequireTurnEntityID_def
  by (intro plainO_firstErr) (auto simp: plain_requireSegment plain_requireEntity)

lemma plain_registered: "plainO (checkRegistered objects seen qs)"
  by (induction qs arbitrary: seen) (auto split: option.splits)

lemma plain_object: "plainO (checkTripleObject X q v)"
  using plain
  by (auto simp: checkTripleObject_def unrejected_def RequireStorageRef_def failIf_def
      split: sum.splits any.splits option.splits intro!: plainO_firstErr)

lemma plain_scalars: "projectScalars X p qs = Inl e \<Longrightarrow> plainErr e"
proof (induction qs)
  case (Cons q qs)
  then show ?case
    using plain_object [of q "objectAt (tp_objects p) q"]
    by (auto split: option.splits sum.splits)
qed simp

lemma plain_build:
  assumes "build X p = Inl e" and "\<And>v. tp_payload p = Some v \<Longrightarrow> plainO v"
  shows "plainErr e"
proof -
  have subject: "plainO (checkSubject X p)"
    unfolding checkSubject_def
    by (auto intro!: plainO_firstErr simp: plain_turnEntity plain_requireSegment plain_requireEntity)
  have predicates: "plainO (checkPredicateSet p)"
    unfolding checkPredicateSet_def by (auto intro!: plainO_firstErr simp: plain_registered)
  have nonEmpty: "plainO (requireNonEmpty f s)" for f s by (simp add: requireNonEmpty_def)
  show ?thesis
  proof (cases "tp_payload p")
    case None
    with assms(1) show ?thesis by (auto simp: build_def)
  next
    case (Some v)
    let ?es = "[v, checkSubject X p, requireNonEmpty ''triple source'' (tp_source p),
       failIf (time_IsZero (tp_at p)) (Errorf ''triple projection requires a timestamp''),
       checkPredicateSet p,
       (if tp_refless p then None else requireNonEmpty (tp_refName p) (tp_ref p))]"
    have es: "plainO (firstErr ?es)"
      by (rule plainO_firstErr) (auto simp: assms(2) [OF Some] subject predicates nonEmpty)
    show ?thesis
    proof (cases "firstErr ?es")
      case (Some e')
      with assms(1) \<open>tp_payload p = Some v\<close> have "e = e'"
        by (simp only: build_def option.case Let_def sum.inject)
      with es Some show ?thesis by simp
    next
      case None
      with assms(1) \<open>tp_payload p = Some v\<close> show ?thesis
        using plain_scalars [of p] plain_object [of "tp_refPredicate p" "AString (tp_ref p)"]
        by (simp only: build_def option.case) (auto split: sum.splits option.splits if_splits)
    qed
  qed
qed

lemma plain_pointer: "PlayerTurn_Triples X p i src at = Inl e \<Longrightarrow> plainErr e"
  unfolding PlayerTurn_Triples_def
  by (erule plain_build)
    (auto simp: projection0_def PlayerTurn_Validate_def plain_requireEntity plain_turnEntity
      intro!: plainO_firstErr)

lemma plain_phase: "PhaseOf st i = Inl e \<Longrightarrow> plainErr e"
  by (auto simp: PhaseOf_def ParseTurnPhase_def enum_parse_def
      split: option.splits list.splits sum.splits if_splits)

lemma plain_get: "gs_GetEntity S i w = (Inl e, w') \<Longrightarrow> \<not> isRejectedAction e"
  and plain_create: "gs_CreateEntity S ct b w = (Inl e, w') \<Longrightarrow> \<not> isRejectedAction e"
  and plain_put: "gs_Reconcile S tgt i ds w = (Inl e, w') \<Longrightarrow> \<not> isRejectedAction e"
  using plain unfolding unrejected_def by blast+

lemma plain_current: "Current R i w = (Inl e, w') \<Longrightarrow> plainErr e"
  unfolding Current_def currentState_def store
  by (auto simp: mapErr_Inl elim!: bindM_cases dest!: plain_get plain_phase)

lemma plain_live: "turnIsLive R i w = (Inl e, w') \<Longrightarrow> plainErr e"
  unfolding turnIsLive_def store
  by (auto elim!: tryM_cases split: if_splits sum.splits dest!: plain_get plain_phase)

lemma plain_anyLive: "anyLive R x held w = (Inl e, w') \<Longrightarrow> plainErr e"
proof (induction held arbitrary: w)
  case (Cons i held)
  then show ?case by (auto split: if_splits elim!: bindM_cases dest!: plain_live)
qed simp

lemma plain_holds: "holdsAnotherLiveTurn R pl x w = (Inl e, w') \<Longrightarrow> plainErr e"
  unfolding holdsAnotherLiveTurn_def store
  by (auto elim!: tryM_cases split: if_splits dest!: plain_get plain_anyLive)

lemma plain_point: "pointPlayerAtTurn X R pl ac w = (Inl e, w') \<Longrightarrow> plainErr e"
  unfolding pointPlayerAtTurn_def store
  by (auto simp: mapErr_Inl nowM_eq split: if_splits elim!: bindM_cases
      dest!: plain_holds plain_pointer plain_put)

lemma plain_createTurn: "createTurn R t i ent w = (Inl e, w') \<Longrightarrow> plainErr e"
proof -
  assume run: "createTurn R t i ent w = (Inl e, w')"
  have confirm: "plainO (confirmAccepted st i)" for st
    by (auto simp: confirmAccepted_def plainO_def failIf_def split: sum.splits
        dest: plain_phase [unfolded plainErr_def])
  from run show ?thesis
    unfolding createTurn_def store
    by (auto simp: checkM_eq split: if_splits elim!: tryM_cases bindM_cases
        dest: plain_current plain_create confirm [unfolded plainO_def, rule_format])
qed

text \<open>Only an action that was refused before anything was written is dropped for good.\<close>

lemma Accept_rejected:
  assumes "Accept X R a w = (Inl e, w')" and "\<not> plainErr e"
  shows "ents w' = ents w"
proof (cases a)
  case None
  with assms show ?thesis by (simp add: Accept_def)
next
  case (Some act)
  from assms(1) [unfolded Some] show ?thesis
  proof (cases rule: Accept_cases)
    case (born_only t i ent w1 er)
    then show ?thesis using plain_createTurn assms(2) by auto
  next
    case (pointed t i ent w1 ac w2 q)
    then show ?thesis using plain_point [of "pa_PlayerID act" ac w2] assms(2)
      by (cases q) (use pointed(6) in auto)
  qed auto
qed

lemma Handle_drops:
  assumes "Handle X decoder R data w = (Inl (TerminateDelivery e), w')"
  shows "ents w' = ents w"
proof (cases "decodeAction decoder data")
  case (Inl err)
  with assms show ?thesis by (simp add: Handle_def)
next
  case (Inr action)
  with assms obtain err w1 where "Accept X R action w = (Inl err, w1)" "w' = w1"
    "isRejectedAction err \<or> err = TerminateDelivery e"
    by (auto simp: Handle_def elim!: tryM_cases split: if_splits)
  then show ?thesis using Accept_rejected [of action w err w1] by (auto simp: plainErr_def)
qed

end

context turn_recorder
begin

text \<open>A delivery is acknowledged only once its turn is in the graph.\<close>

lemma Handle_acks:
  assumes "Handle X decoder R data w = (Inr (), w')"
  shows "\<exists>a t i p. decoder data = Inr (DecodedAction (Some a))
    \<and> EntityIDForAction X (tr_identity R) (pa_ActionID a) = Inr (t, i) \<and> inPhase (objs ents w') i p"
proof -
  obtain action ac where d: "decodeAction decoder data = Inr action"
    and run: "Accept X R action w = (Inr ac, w')"
    using assms by (auto simp: Handle_def elim!: tryM_cases split: sum.splits if_splits)
  then obtain a where a: "action = Some a" by (cases action) (auto simp: Accept_def)
  have "decoder data = Inr (DecodedAction (Some a))"
    using d a by (auto simp: decodeAction_def split: sum.splits decodedPayload.splits)
  with Accept_Inr [OF run [unfolded a]] show ?thesis by blast
qed

end

end
