(* ===== verification/Stage_Entry.thy ===== *)
theory Stage_Entry
  imports Turn_Safety
begin

text \<open>
  \<^verbatim>\<open>internal/stage\<close>, what every stage shares: the trigger it is started by
  (\<^verbatim>\<open>trigger.go\<close>), entering a phase and reading the turn (\<^verbatim>\<open>enter.go\<close>), and the stage
  that closes a turn (\<^verbatim>\<open>complete.go\<close>). Decoding the rule engine's JSON is a parameter: it yields
  the entity identifier and the subject.
\<close>

definition TurnTypeSegment :: string where "TurnTypeSegment = ''turn''"

record Trigger =
  tg_TurnEntityID :: string
  tg_TurnID :: string
  tg_Subject :: string

definition ParseTrigger ::
    "ext \<Rightarrow> (string \<Rightarrow> gerror + string \<times> string) \<Rightarrow> string \<Rightarrow> gerror + Trigger" where
  "ParseTrigger X decode data =
     (case decode data of
        Inl err \<Rightarrow> Inl (Wrapf ''decode stage trigger'' err)
      | Inr (entityID, subject) \<Rightarrow>
        if entityID = [] then Inl (Errorf ''stage trigger names no entity'')
        else (case ValidateEntityID X entityID of
            Some err \<Rightarrow> Inl (Wrapf ''stage trigger names no canonical six-part entity ID'' err)
          | None \<Rightarrow>
              (let parts = splitOn CHR ''.'' entityID in
               if parts ! (length parts - 2) \<noteq> TurnTypeSegment
               then Inl (Errorf ''stage trigger names an entity of another type'')
               else let turnID = last parts in
                 (case RequireTurnEntityID X turnID entityID of
                    Some err \<Rightarrow> Inl err
                  | None \<Rightarrow> Inr \<lparr>tg_TurnEntityID = entityID, tg_TurnID = turnID, tg_Subject = subject\<rparr>))))"

text \<open>The phase recorder is its one operation, \<^verbatim>\<open>Advance\<close>.\<close>

type_synonym 'w PhaseRecorder = "string \<Rightarrow> string \<Rightarrow> TurnPhase \<Rightarrow> ('w, Transition) M"
type_synonym 'w TurnFailer = "string \<Rightarrow> string \<Rightarrow> FailureReason \<Rightarrow> Ref \<Rightarrow> ('w, Transition) M"
type_synonym 'w TurnReader = "string \<Rightarrow> ('w, EntityState option) M"

definition enter :: "'w PhaseRecorder \<Rightarrow> Trigger \<Rightarrow> TurnPhase \<Rightarrow> ('w, bool) M" where
  "enter recorder trigger phase =
     bindM (recorder (tg_TurnID trigger) (tg_TurnEntityID trigger) phase) (\<lambda>transition.
     ret (tx_Outcome transition \<noteq> OutcomeDeclined))"

definition soleObject :: "EntityState \<Rightarrow> Predicate \<Rightarrow> gerror + any option" where
  "soleObject state predicate =
     (case objectsIn (esTriples state) predicate of
        [] \<Rightarrow> Inr None
      | [v] \<Rightarrow> Inr (Some v)
      | _ \<Rightarrow> Inl (Errorf ''turn entity holds several values for a single-valued predicate''))"

definition soleRef :: "ext \<Rightarrow> EntityState \<Rightarrow> Predicate \<Rightarrow> gerror + Ref" where
  "soleRef X state predicate =
     (case soleObject state predicate of
        Inl err \<Rightarrow> Inl err
      | Inr None \<Rightarrow> Inl (Errorf ''turn entity carries no reference'')
      | Inr (Some object) \<Rightarrow>
          (case asString object of
             None \<Rightarrow> Inl (Errorf ''turn entity records a value that is no storage reference'')
           | Some v \<Rightarrow>
               (case ParseRef X v of
                  Inl err \<Rightarrow> Inl (Wrapf ''turn entity records an unresolvable reference'' err)
                | Inr ref \<Rightarrow>
                    if Ref_IsZero ref then Inl (Errorf ''turn entity records an empty reference'')
                    else Inr ref)))"

definition readTurn :: "'w TurnReader \<Rightarrow> string \<Rightarrow> ('w, EntityState) M" where
  "readTurn reader turnEntityID =
     bindM (mapErr (Wrapf ''read turn entity'') (reader turnEntityID)) (\<lambda>state.
     case state of
       None \<Rightarrow> throw (Errorf ''read turn entity: the graph returned nothing'')
     | Some s \<Rightarrow> ret s)"

definition Completer_Run :: "'w PhaseRecorder \<Rightarrow> Trigger \<Rightarrow> ('w, unit) M" where
  "Completer_Run recorder trigger = bindM (enter recorder trigger PhaseComplete) (\<lambda>_. ret ())"

text \<open>A trigger that parses names a turn, and its turn identifier is the entity's instance.\<close>

lemma ParseTrigger_Inr:
  assumes "ParseTrigger X decode data = Inr t"
  shows "decode data = Inr (tg_TurnEntityID t, tg_Subject t)" and "ValidateEntityID X (tg_TurnEntityID t) = None"
    and "RequireTurnEntityID X (tg_TurnID t) (tg_TurnEntityID t) = None"
    and "tg_TurnID t = last (splitOn CHR ''.'' (tg_TurnEntityID t))"
  using assms
  by (auto simp: ParseTrigger_def Let_def split: sum.splits option.splits if_splits)

lemma soleRef_Inr:
  assumes "soleRef X st p = Inr ref"
  shows "objectsIn (esTriples st) p = [AString (Ref_String ref)] \<and> Ref_Validate X ref = None"
proof -
  obtain v where v: "objectsIn (esTriples st) p = [AString v]" "ParseRef X v = Inr ref" "\<not> Ref_IsZero ref"
    using assms
    by (auto simp: soleRef_def soleObject_def split: list.splits sum.splits option.splits if_splits)
  then have "Ref_String ref = v" "v \<noteq> []"
    using ParseRef_Inr(1) [OF v(2)] by (auto simp: ParseRef_def zeroRef_def Ref_IsZero_def)
  with v ParseRef_Inr(2) [OF v(2)] show ?thesis by simp
qed

section \<open>Retried writes\<close>

text \<open>A retried operation keeps whatever one call keeps, and a success is the success of a last call.\<close>

lemma retry_keeps:
  assumes "reflp K" and "transp K" and "keeps K op"
  shows "keeps K (RetryRevisionConflict c op)"
proof -
  have "keeps K (retryLoop c op a n l)" for a n l
  proof (induction n arbitrary: a l)
    case 0
    then show ?case using assms(1) by (auto intro: keeps_pure split: option.splits)
  next
    case (Suc n)
    then show ?case
      using assms by (auto intro!: keeps_checkM keeps_tryM keeps_pure split: sum.splits)
  qed
  then show ?thesis by (simp add: RetryRevisionConflict_def)
qed

lemma retryLoop_Inr:
  assumes "retryLoop c op a n l w = (Inr (), w')" and "n \<noteq> 0"
  shows "\<exists>w1. op w1 = (Inr (), w')"
  using assms
proof (induction n arbitrary: a l w)
  case (Suc n)
  show ?case
  proof (cases "op w")
    case (Pair q w1)
    show ?thesis
    proof (cases q)
      case (Inl e)
      with Suc.prems(1) Pair have "retryLoop c op (Suc a) n (Some e) w1 = (Inr (), w')"
        by (auto simp: checkM_eq tryM_eq split: if_splits)
      moreover from this have "n \<noteq> 0" by (cases n) auto
      ultimately show ?thesis using Suc.IH by blast
    next
      case (Inr u)
      with Suc.prems(1) Pair show ?thesis by (auto simp: checkM_eq tryM_eq)
    qed
  qed
qed simp

lemma retry_Inr: "RetryRevisionConflict c op w = (Inr (), w') \<Longrightarrow> \<exists>w1. op w1 = (Inr (), w')"
  by (simp add: RetryRevisionConflict_def revisionConflictAttempts_def retryLoop_Inr)

lemma retry_first: "c 0 = None \<Longrightarrow> op w = (Inr (), w') \<Longrightarrow> RetryRevisionConflict c op w = (Inr (), w')"
  by (simp add: RetryRevisionConflict_def revisionConflictAttempts_def eval_nat_numeral checkM_def tryM_def)

end
