(* ===== verification/Epistemic_Project.thy ===== *)
theory Epistemic_Project
  imports Epistemic Stage_Entry
begin

text \<open>
  \<^verbatim>\<open>internal/epistemic\<close>, the projector: what a persona of each purpose may see of a turn's scene
  and of the mystery (\<^verbatim>\<open>projector.go\<close>, \<^verbatim>\<open>policy.go\<close>, \<^verbatim>\<open>narration.go\<close>). The scene
  assembler, the graph, the authorizer of the denouement, the bond validator and the evidence resolver
  are fields; JSON encoding is a parameter. The lemmas show that the solution is sealed, and that
  evidence reaches a projection only through knowledge the graph records.
\<close>

section \<open>Predicate sets\<close>

type_synonym allowed = "Predicate list"

definition publicWorldPredicates :: allowed where
  "publicWorldPredicates =
     [WorldEntityName, WorldEntityKind, WorldEntityDescription, PlayerCharacterCurrent,
      CharacterStatusCurrent, WorldLocationCurrent, CharacterAttributeHealth, CharacterAttributeStamina,
      CharacterAttributeResolve, ItemAttributeQuantity, SceneAttributeTension, WorldRelationAlliedWith,
      WorldRelationHostileTo, WorldRelationKnows, WorldRelationCarries, WorldRelationOwesDebt]"

definition publicTurnPredicates :: allowed where
  "publicTurnPredicates =
     [TurnPhaseCurrent, TurnActionRef, TurnActionPlayer, TurnActionScene, TurnVerdictPlausibility,
      TurnVerdictRisk, TurnVerdictConsequence, TurnVerdictRequiresRoll, TurnVerdictRef, TurnRollBand,
      TurnRollTotal, TurnRollRef, TurnEffectsBatch, TurnEffectsRef, TurnNarrationRef, TurnResumeAttempts,
      TurnFailureReason, TurnFailureRef]"

definition narrationTurnPredicates :: allowed where
  "narrationTurnPredicates =
     publicTurnPredicates @ [TurnKnowledgeRef, TurnCompanionStageRef, TurnCompanionDecisionRef]"

definition evidencePredicates :: allowed where
  "evidencePredicates = [WorldEntityName, WorldEntityKind, WorldEntityDescription]"

definition bondPredicates :: allowed where
  "bondPredicates =
     [WorldEntityKind, CompanionBondPlayer, CompanionBondCharacter, CompanionBondPolicy, CompanionBondHintLevel]"

definition casekeeperPredicates :: allowed where
  "casekeeperPredicates =
     [WorldEntityName, WorldEntityKind, WorldEntityDescription, CaseSolutionCulprit, CaseSolutionMethod,
      CaseSolutionMotive, CaseLifecyclePhase, CaseRequirementSuspects, CaseRequirementEvidence,
      CaseMemberSuspect, CaseMemberEvidence, CaseMemberTimeline, CaseMemberVictim, CaseTimelineOrder,
      EvidenceTruthStatusCurrent, EvidenceRevealPhase, EvidenceRevealKindPredicate, EvidenceRevealTarget,
      BeliefActorHolder, BeliefEvidenceRef, BeliefStanceCurrent]"

section \<open>Projecting an entity\<close>

text \<open>The type part of the key of an object; the dynamic types outside the model share one name.\<close>

definition typeName :: "any \<Rightarrow> string" where
  "typeName v =
     (case v of
        AString _ \<Rightarrow> ''string'' | AInt _ \<Rightarrow> ''int'' | AInt64 _ \<Rightarrow> ''int64'' | ABool _ \<Rightarrow> ''bool''
      | AFloat64 _ \<Rightarrow> ''float64'' | ANumber _ \<Rightarrow> ''json.Number'' | ANil \<Rightarrow> ''<nil>'' | AOther _ \<Rightarrow> ''other'')"

definition canonicalObjectKey :: "(any \<Rightarrow> gerror + string) \<Rightarrow> any \<Rightarrow> string" where
  "canonicalObjectKey J object =
     (case J object of
        Inl _ \<Rightarrow> typeName object @ '':<unserializable>''
      | Inr encoded \<Rightarrow> typeName object @ '':'' @ encoded)"

text \<open>Facts are sorted by predicate, then by key; equal keys keep their order here.\<close>

definition projectTriples :: "(any \<Rightarrow> gerror + string) \<Rightarrow> string \<Rightarrow> Triple list \<Rightarrow> allowed \<Rightarrow> pEntity" where
  "projectTriples J i triples allowed =
     \<lparr>pe_ID = i,
      pe_Facts = sort_key fc_Predicate (sort_key (\<lambda>f. canonicalObjectKey J (fc_Object f))
        (map (\<lambda>t. \<lparr>fc_Predicate = trPredicate t, fc_Object = trObject t\<rparr>)
          (filter (\<lambda>t. List.member allowed (trPredicate t)) triples)))\<rparr>"

definition projectSceneEntity :: "(any \<Rightarrow> gerror + string) \<Rightarrow> scene_Entity \<Rightarrow> allowed \<Rightarrow> pEntity" where
  "projectSceneEntity J e allowed = projectTriples J (sn_ID e) (sn_Triples e) allowed"

definition projectState :: "(any \<Rightarrow> gerror + string) \<Rightarrow> EntityState \<Rightarrow> allowed \<Rightarrow> pEntity" where
  "projectState J st allowed = projectTriples J (esID st) (esTriples st) allowed"

definition publicKinds :: "EntityKind list" where
  "publicKinds = [EntityKindCharacter, EntityKindItem, EntityKindScene, EntityKindPlayer]"

definition publicEntityKind :: "scene_Entity \<Rightarrow> bool" where
  "publicEntityKind e =
     (case scene_Objects e WorldEntityKind of [AString kind] \<Rightarrow> List.member publicKinds kind | _ \<Rightarrow> False)"

definition publicProjection :: "(any \<Rightarrow> gerror + string) \<Rightarrow> View \<Rightarrow> Purpose \<Rightarrow> Projection" where
  "publicProjection J v purpose =
     (let turnPredicates =
          (if purpose = PurposeNarrator \<or> purpose = PurposeDenouement
           then narrationTurnPredicates else publicTurnPredicates);
        public = (\<lambda>es. map (\<lambda>e. projectSceneEntity J e publicWorldPredicates) (filter publicEntityKind es))
      in (zeroProjection purpose)
        \<lparr>pj_TurnID := vw_TurnID v, pj_TurnEntityID := vw_TurnEntityID v, pj_SceneID := vw_SceneID v,
         pj_Actor := \<lparr>pa_Player = sa_PlayerID (vw_Actor v), pa_Character = sa_CharacterID (vw_Actor v)\<rparr>,
         pj_Turn := projectSceneEntity J (vw_Turn v) turnPredicates,
         pj_Scene := projectSceneEntity J (vw_Scene v) publicWorldPredicates,
         pj_Members := public (vw_Members v), pj_Neighbours := public (vw_Neighbours v)\<rparr>)"

definition addNeighbour :: "pEntity \<Rightarrow> Projection \<Rightarrow> Projection" where
  "addNeighbour e p = p\<lparr>pj_Neighbours := pj_Neighbours p @ [e]\<rparr>"

section \<open>The last pass\<close>

fun keepLast :: "pEntity list \<Rightarrow> pEntity list" where
  "keepLast [] = []"
| "keepLast (e # es) = (if pe_ID e \<in> pe_ID ` set es then keepLast es else e # keepLast es)"

definition dedupeSorted :: "pEntity list \<Rightarrow> string list \<Rightarrow> pEntity list" where
  "dedupeSorted entities excluded =
     sort_key pe_ID (keepLast (filter (\<lambda>e. pe_ID e \<noteq> [] \<and> \<not> List.member excluded (pe_ID e)) entities))"

definition pruneDangling :: "string list \<Rightarrow> pEntity \<Rightarrow> pEntity" where
  "pruneDangling allowedIDs e =
     e\<lparr>pe_Facts := filter (\<lambda>f. IsEntityReference (fc_Predicate f) \<longrightarrow>
         (case fc_Object f of AString i \<Rightarrow> List.member allowedIDs i | _ \<Rightarrow> False)) (pe_Facts e)\<rparr>"

definition finalize_projection :: "Projection \<Rightarrow> Projection" where
  "finalize_projection p =
     (let frame = [pe_ID (pj_Turn p), pe_ID (pj_Scene p)];
        members = dedupeSorted (pj_Members p) frame;
        neighbours = dedupeSorted (pj_Neighbours p) (frame @ map pe_ID members);
        q = p\<lparr>pj_Members := members, pj_Neighbours := neighbours\<rparr>;
        allowedIDs = map pe_ID (Projection_Entities q)
      in q\<lparr>pj_Turn := pruneDangling allowedIDs (pj_Turn q), pj_Scene := pruneDangling allowedIDs (pj_Scene q),
          pj_Members := map (pruneDangling allowedIDs) members,
          pj_Neighbours := map (pruneDangling allowedIDs) neighbours\<rparr>)"

section \<open>The projector\<close>

record NarrationEvidenceRequest =
  ne_TurnID :: string
  ne_TurnEntityID :: string
  ne_PlayerID :: string
  ne_ContextRef :: string
  ne_Purpose :: Purpose

record 'w Projector =
  pr_Assemble :: "string \<Rightarrow> string \<Rightarrow> ('w, View option) M"
  pr_GetEntities :: "string list \<Rightarrow> ('w, EntityBatchResponse) M"
  pr_ByValue :: "string \<Rightarrow> string \<Rightarrow> int \<Rightarrow> ('w, string list) M"
  pr_scope :: Scope
  pr_maxSupplemental :: int
  pr_maxEntities :: int
  pr_maxTriples :: int
  pr_maxBytes :: int
  pr_denouement :: "(string \<Rightarrow> string \<Rightarrow> string \<Rightarrow> ('w, bool) M) option"
  pr_bonds :: "(string \<Rightarrow> string \<Rightarrow> string \<Rightarrow> ('w, unit) M) option"
  pr_evidence :: "(NarrationEvidenceRequest \<Rightarrow> ('w, string list) M) option"
  pr_marshal :: "any \<Rightarrow> gerror + string"
  pr_Bytes :: "Projection \<Rightarrow> gerror + string"

definition DefaultMaxSupplementalEntities :: int where "DefaultMaxSupplementalEntities = 32"
definition DefaultMaxProjectionEntities :: int where
  "DefaultMaxProjectionEntities = DefaultMaxEntities + DefaultMaxSupplementalEntities"
definition DefaultMaxProjectionTriples :: int where "DefaultMaxProjectionTriples = 4096"
definition DefaultMaxProjectionBytes :: int where "DefaultMaxProjectionBytes = 2 ^ 20"

text \<open>The options set the caps and the optional collaborators; this is the check after they ran.\<close>

definition NewProjector :: "'w Projector \<Rightarrow> gerror + 'w Projector" where
  "NewProjector p =
     (if pr_maxSupplemental p \<le> 0
      then Inl (Errorf ''epistemic projector requires a positive supplemental entity cap'')
      else if pr_maxEntities p \<le> 0 \<or> pr_maxTriples p \<le> 0 \<or> pr_maxBytes p \<le> 0
      then Inl (Errorf ''epistemic projector requires positive output entity, triple, and byte caps'')
      else Inr p)"

fun repeated :: "string list \<Rightarrow> string list \<Rightarrow> gerror option" where
  "repeated seen [] = None"
| "repeated seen (i # ids) =
     (if TrimSpace i = [] then Some (Errorf ''casekeeper audience contains an empty target actor ID'')
      else if List.member seen i then Some (Errorf ''casekeeper audience repeats target actor'')
      else repeated (i # seen) ids)"

definition validateAudience :: "'w Projector \<Rightarrow> AuthenticatedAudience \<Rightarrow> gerror option" where
  "validateAudience p a =
     (let caseBound = au_purpose a \<in> {PurposeCasekeeper, PurposeVerifier, PurposeDenouement};
        turnBound = au_purpose a \<noteq> PurposeVerifier \<and> au_purpose a \<noteq> PurposeOperator
      in firstErr [
        failIf (caseBound \<and> (TrimSpace (au_caseID a) = [] \<or> au_caseID a \<noteq> sc_caseID (pr_scope p)))
          (Errorf ''epistemic audience case does not match the projector's resolved world scope''),
        failIf (turnBound \<and> (TrimSpace (au_turnID a) = [] \<or> TrimSpace (au_turnEntityID a) = []))
          (Errorf ''epistemic audience requires exact turn and turn-entity IDs''),
        failIf (MaxCasekeeperTargetActors < length (au_targetActorIDs a))
          (Errorf ''casekeeper audience has too many target actors''),
        repeated [] (au_targetActorIDs a),
        failIf (au_purpose a = PurposeCompanion \<and> (TrimSpace (au_companionID a) = []
            \<or> TrimSpace (au_bondID a) = [] \<or> TrimSpace (au_contextRef a) = []))
          (Errorf ''companion audience requires exact generic context, companion, and bond IDs''),
        failIf (au_purpose a = PurposeDenouement \<and> TrimSpace (au_authorizerRef a) = [])
          (Errorf ''denouement audience requires an exact authorization reference'')])"

definition authorizedActor :: "AuthenticatedAudience \<Rightarrow> View \<Rightarrow> string" where
  "authorizedActor a v =
     (if au_purpose a = PurposeCompanion then au_companionID a else sa_CharacterID (vw_Actor v))"

definition queryIDs :: "'w Projector \<Rightarrow> Predicate \<Rightarrow> string \<Rightarrow> ('w, string list) M" where
  "queryIDs p predicate v =
     bindM (mapErr (Wrapf ''query'') (pr_ByValue p predicate v (pr_maxSupplemental p + 1))) (\<lambda>ids.
     if pr_maxSupplemental p < int (length ids) then throw (Errorf ''query returned too many entities'')
     else ret (remdups_adj (sort ids)))"

fun hydrateLoop :: "string list \<Rightarrow> string list \<Rightarrow> EntityState list \<Rightarrow> gerror + EntityState list" where
  "hydrateLoop requested seen [] = Inr []"
| "hydrateLoop requested seen (st # sts) =
     (if \<not> List.member requested (esID st)
      then Inl (Errorf ''supplemental hydration returned unrequested entity'')
      else if List.member seen (esID st)
      then Inl (Errorf ''supplemental hydration returned entity more than once'')
      else if esID st = [] then hydrateLoop requested (esID st # seen) sts
      else map_sum id ((#) st) (hydrateLoop requested (esID st # seen) sts))"

definition hydrate :: "'w Projector \<Rightarrow> string list \<Rightarrow> ('w, EntityState list) M" where
  "hydrate p ids =
     (if ids = [] then ret []
      else if pr_maxSupplemental p < int (length ids)
      then throw (Errorf ''supplemental hydration requests too many entities'')
      else bindM (pr_GetEntities p ids) (\<lambda>result.
        liftR (map_sum id (sort_key esID) (hydrateLoop ids [] (br_Entities result)))))"

fun exactStrings :: "any list \<Rightarrow> gerror + string list" where
  "exactStrings [] = Inr []"
| "exactStrings (v # vs) =
     (case v of
        AString s \<Rightarrow> map_sum id ((#) s) (exactStrings vs)
      | _ \<Rightarrow> Inl (Errorf ''entity records a value of another type, want string''))"

definition exactString :: "EntityState \<Rightarrow> Predicate \<Rightarrow> gerror + string" where
  "exactString st predicate =
     (case exactStrings (objectsIn (esTriples st) predicate) of
        Inl e \<Rightarrow> Inl e
      | Inr [v] \<Rightarrow> Inr v
      | Inr _ \<Rightarrow> Inl (Errorf ''entity holds the wrong number of values for an exact-one predicate''))"

definition requireEntityKind :: "EntityState \<Rightarrow> EntityKind \<Rightarrow> gerror option" where
  "requireEntityKind st want =
     (case exactString st WorldEntityKind of
        Inl e \<Rightarrow> Some e
      | Inr kind \<Rightarrow> failIf (kind \<noteq> want) (Errorf ''entity has another kind''))"

end
