(* ===== verification/Epistemic_Policy.thy ===== *)
theory Epistemic_Policy
  imports Epistemic_Project
begin

text \<open>
  \<^verbatim>\<open>internal/epistemic\<close>, the policy of each purpose: \<^verbatim>\<open>policy.go\<close>, \<^verbatim>\<open>narration.go\<close> and
  \<^verbatim>\<open>Projector.Project\<close>. A method that fills the projection in place returns it updated.
\<close>

section \<open>Evidence\<close>

fun evidenceLoop :: "'w Projector \<Rightarrow> string \<Rightarrow> allowed \<Rightarrow> EntityState list \<Rightarrow> Projection \<Rightarrow> gerror + Projection" where
  "evidenceLoop p what allowed [] q = Inr q"
| "evidenceLoop p what allowed (st # sts) q =
     (case requireEntityKind st EntityKindEvidence of
        Some e \<Rightarrow> Inl (Wrapf what e)
      | None \<Rightarrow> evidenceLoop p what allowed sts (addNeighbour (projectState (pr_marshal p) st allowed) q))"

definition addEvidence :: "'w Projector \<Rightarrow> Projection \<Rightarrow> string list \<Rightarrow> allowed \<Rightarrow> ('w, Projection) M" where
  "addEvidence p q ids allowed =
     bindM (hydrate p (remdups_adj (sort ids))) (\<lambda>states.
     liftR (evidenceLoop p ''authorized evidence target'' allowed states q))"

definition knowledgeEvidence :: "string \<Rightarrow> EntityState \<Rightarrow> gerror + string" where
  "knowledgeEvidence actorID rec =
     (case requireEntityKind rec EntityKindKnowledge of
        Some e \<Rightarrow> Inl (Wrapf ''knowledge authorization record'' e)
      | None \<Rightarrow>
     (case exactString rec KnowledgeActorHolder of
        Inl e \<Rightarrow> Inl (Wrapf ''knowledge authorization record'' e)
      | Inr holder \<Rightarrow>
          if holder \<noteq> actorID then Inl (Errorf ''knowledge record holder does not match queried actor'')
          else map_sum (Wrapf ''knowledge authorization record'') id (exactString rec KnowledgeEvidenceRef)))"

fun knowledgeLoop :: "string \<Rightarrow> EntityState list \<Rightarrow> gerror + string list" where
  "knowledgeLoop actorID [] = Inr []"
| "knowledgeLoop actorID (rec # recs) =
     (case knowledgeEvidence actorID rec of
        Inl e \<Rightarrow> Inl e
      | Inr evidenceID \<Rightarrow> map_sum id ((#) evidenceID) (knowledgeLoop actorID recs))"

definition addKnowledge :: "'w Projector \<Rightarrow> Projection \<Rightarrow> string \<Rightarrow> ('w, Projection) M" where
  "addKnowledge p q actorID =
     bindM (queryIDs p KnowledgeActorHolder actorID) (\<lambda>recordIDs.
     bindM (mapErr (Wrapf ''hydrate knowledge grants'') (hydrate p recordIDs)) (\<lambda>recs.
     bindM (liftR (knowledgeLoop actorID recs)) (\<lambda>evidenceIDs.
     addEvidence p q evidenceIDs evidencePredicates)))"

definition revelationEvidence :: "string \<Rightarrow> string \<Rightarrow> EntityState \<Rightarrow> gerror + string option" where
  "revelationEvidence actorID turnID rec =
     (let wrap = Wrapf ''revelation authorization record'' in
      case requireEntityKind rec EntityKindRevelation of
        Some e \<Rightarrow> Inl (wrap e)
      | None \<Rightarrow>
     (case exactString rec RevelationTurnID of
        Inl e \<Rightarrow> Inl (wrap e)
      | Inr recordTurnID \<Rightarrow>
          if recordTurnID \<noteq> turnID then Inl (Errorf ''revelation record turn does not match queried turn'')
          else (case exactString rec RevelationActorHolder of
              Inl e \<Rightarrow> Inl (wrap e)
            | Inr holder \<Rightarrow>
                map_sum wrap (\<lambda>evidenceID. if holder = actorID then Some evidenceID else None)
                  (exactString rec RevelationEvidenceRef))))"

fun revelationLoop :: "string \<Rightarrow> string \<Rightarrow> EntityState list \<Rightarrow> gerror + string list" where
  "revelationLoop actorID turnID [] = Inr []"
| "revelationLoop actorID turnID (rec # recs) =
     (case revelationEvidence actorID turnID rec of
        Inl e \<Rightarrow> Inl e
      | Inr None \<Rightarrow> revelationLoop actorID turnID recs
      | Inr (Some evidenceID) \<Rightarrow> map_sum id ((#) evidenceID) (revelationLoop actorID turnID recs))"

definition addRevelations :: "'w Projector \<Rightarrow> Projection \<Rightarrow> string \<Rightarrow> string \<Rightarrow> ('w, Projection) M" where
  "addRevelations p q actorID turnID =
     bindM (queryIDs p RevelationTurnID turnID) (\<lambda>recordIDs.
     bindM (mapErr (Wrapf ''hydrate revelation receipts'') (hydrate p recordIDs)) (\<lambda>recs.
     bindM (liftR (revelationLoop actorID turnID recs)) (\<lambda>evidenceIDs.
     addEvidence p q evidenceIDs evidencePredicates)))"

definition addCompanionBond :: "'w Projector \<Rightarrow> Projection \<Rightarrow> string \<Rightarrow> ('w, Projection) M" where
  "addCompanionBond p q bondID =
     bindM (mapErr (Wrapf ''hydrate companion bond projection'') (hydrate p [bondID])) (\<lambda>bonds.
     case bonds of
       [bond] \<Rightarrow> ret (addNeighbour (projectState (pr_marshal p) bond bondPredicates) q)
     | _ \<Rightarrow> throw (Errorf ''companion bond is missing from projection''))"

section \<open>The case and its solution\<close>

definition case_state :: "'w Projector \<Rightarrow> ('w, EntityState) M" where
  "case_state p =
     (if sc_caseID (pr_scope p) = [] then throw (Errorf ''this world instance has no scoped mystery case'')
      else bindM (hydrate p [sc_caseID (pr_scope p)]) (\<lambda>states.
        case states of
          [st] \<Rightarrow> checkM (wrapErr ''scoped case'' (requireEntityKind st EntityKindCase)) (ret st)
        | _ \<Rightarrow> throw (Errorf ''scoped case is missing from the graph'')))"

definition solutionValue :: "EntityState \<Rightarrow> Predicate \<Rightarrow> gerror + string" where
  "solutionValue st predicate =
     (case List.map_filter asString (objectsIn (esTriples st) predicate) of
        [v] \<Rightarrow> Inr v
      | _ \<Rightarrow> Inl (Errorf ''case has the wrong number of solution values''))"

definition solutionOf :: "EntityState \<Rightarrow> gerror + Solution" where
  "solutionOf st =
     (case solutionValue st CaseSolutionCulprit of
        Inl e \<Rightarrow> Inl e
      | Inr culprit \<Rightarrow>
     (case solutionValue st CaseSolutionMethod of
        Inl e \<Rightarrow> Inl e
      | Inr method \<Rightarrow>
          map_sum id (\<lambda>motive. \<lparr>so_Culprit = culprit, so_Method = method, so_Motive = motive\<rparr>)
            (solutionValue st CaseSolutionMotive)))"

definition solutionOnly :: "'w Projector \<Rightarrow> Purpose \<Rightarrow> ('w, Projection) M" where
  "solutionOnly p purpose =
     bindM (case_state p) (\<lambda>caseState.
     bindM (liftR (solutionOf caseState)) (\<lambda>solution.
     ret ((zeroProjection purpose)\<lparr>pj_HasSolution := True, pj_Solution := solution\<rparr>)))"

definition authorizeDenouement :: "'w Projector \<Rightarrow> Projection \<Rightarrow> string \<Rightarrow> ('w, Projection) M" where
  "authorizeDenouement p q authorizerRef =
     bindM (case_state p) (\<lambda>caseState.
     if pEntity_Objects (projectState (pr_marshal p) caseState casekeeperPredicates) CaseLifecyclePhase
        \<noteq> [AString CasePhaseDenouement]
     then throw (Errorf ''denouement projection requires the case lifecycle denouement phase'')
     else (case pr_denouement p of
         None \<Rightarrow> throw (Errorf ''denouement projection requires an accusation authorizer'')
       | Some authorizer \<Rightarrow>
           bindM (mapErr (Wrapf ''authorize denouement'')
               (authorizer (pj_TurnID q) (esID caseState) authorizerRef)) (\<lambda>authorized.
           if \<not> authorized
           then throw (Errorf ''denouement projection is not authorized by a correct accusation result'')
           else bindM (liftR (solutionOf caseState)) (\<lambda>solution.
             ret (q\<lparr>pj_HasSolution := True, pj_Solution := solution\<rparr>)))))"

section \<open>The casekeeper\<close>

fun addStates :: "'w Projector \<Rightarrow> allowed \<Rightarrow> EntityState list \<Rightarrow> Projection \<Rightarrow> Projection" where
  "addStates p allowed [] q = q"
| "addStates p allowed (st # sts) q =
     addStates p allowed sts (addNeighbour (projectState (pr_marshal p) st allowed) q)"

definition caseReferences :: "EntityState \<Rightarrow> string list" where
  "caseReferences st =
     remdups_adj (sort (List.map_filter (\<lambda>t. asString (trObject t))
       (filter (\<lambda>t. List.member casekeeperPredicates (trPredicate t) \<and> IsEntityReference (trPredicate t))
         (esTriples st))))"

definition eligibleTargets :: "EntityState \<Rightarrow> Projection \<Rightarrow> string list" where
  "eligibleTargets caseState q =
     List.map_filter asString (objectsIn (esTriples caseState) CaseMemberSuspect) @
     map pe_ID (filter (\<lambda>m. pEntity_Objects m WorldEntityKind = [AString EntityKindCharacter]) (pj_Members q))"

definition beliefCheck :: "(string, string) gomap \<Rightarrow> string list \<Rightarrow> EntityState \<Rightarrow> gerror option" where
  "beliefCheck beliefOwners caseEvidence belief =
     (let wrap = Wrapf ''scoped belief authorization record'' in
      case requireEntityKind belief EntityKindBelief of
        Some e \<Rightarrow> Some (wrap e)
      | None \<Rightarrow>
     (case exactString belief BeliefActorHolder of
        Inl e \<Rightarrow> Some (wrap e)
      | Inr holder \<Rightarrow>
          if holder \<noteq> (case map_of beliefOwners (esID belief) of None \<Rightarrow> [] | Some a \<Rightarrow> a)
          then Some (Errorf ''scoped belief holder does not match plan-scoped actor'')
          else (case exactString belief BeliefEvidenceRef of
              Inl e \<Rightarrow> Some (wrap e)
            | Inr evidenceID \<Rightarrow>
                if \<not> List.member caseEvidence evidenceID
                then Some (Errorf ''scoped belief evidence is not a member of case'')
                else (case exactString belief BeliefStanceCurrent of
                    Inl e \<Rightarrow> Some (wrap e)
                  | Inr stance \<Rightarrow>
                      (case ParseBeliefStance stance of
                         Inl e \<Rightarrow> Some (Wrapf ''scoped belief stance'' e)
                       | Inr _ \<Rightarrow> None)))))"

fun beliefsLoop ::
    "'w Projector \<Rightarrow> (string, string) gomap \<Rightarrow> string list \<Rightarrow> EntityState list \<Rightarrow> Projection
     \<Rightarrow> gerror + Projection" where
  "beliefsLoop p owners evidence [] q = Inr q"
| "beliefsLoop p owners evidence (belief # beliefs) q =
     (case beliefCheck owners evidence belief of
        Some e \<Rightarrow> Inl e
      | None \<Rightarrow>
          beliefsLoop p owners evidence beliefs
            (addNeighbour (projectState (pr_marshal p) belief casekeeperPredicates) q))"

definition addCasekeeperState :: "'w Projector \<Rightarrow> Projection \<Rightarrow> string list \<Rightarrow> ('w, Projection) M" where
  "addCasekeeperState p q targetActorIDs =
     bindM (case_state p) (\<lambda>caseState.
     let q = addNeighbour (projectState (pr_marshal p) caseState casekeeperPredicates) q in
     bindM (hydrate p (caseReferences caseState)) (\<lambda>states.
     let q = addStates p casekeeperPredicates states q in
     checkM (failIf (\<not> list_all (List.member (eligibleTargets caseState q)) targetActorIDs)
       (Errorf ''casekeeper target actor is neither a scoped case suspect nor visible actor''))
     (bindM (liftR (beliefRecords (pr_scope p) targetActorIDs (pr_maxSupplemental p))) (\<lambda>owners.
      let beliefIDs = sortedRecordIDs owners in
      bindM (hydrate p beliefIDs) (\<lambda>beliefs.
      checkM (failIf (length beliefs \<noteq> length beliefIDs)
        (Errorf ''scoped case is missing one or more authored belief records''))
      (liftR (beliefsLoop p owners
        (List.map_filter asString (objectsIn (esTriples caseState) CaseMemberEvidence)) beliefs q)))))))"

section \<open>Evidence of the narrator\<close>

definition lockedIdentity :: "Solution \<Rightarrow> string \<Rightarrow> bool" where
  "lockedIdentity s i = (i = so_Culprit s \<or> i = so_Method s \<or> i = so_Motive s)"

definition checkLocked :: "'w Projector \<Rightarrow> Purpose \<Rightarrow> string list \<Rightarrow> ('w, unit) M" where
  "checkLocked p purpose ids =
     (if purpose = PurposeNarrator \<and> length ids \<noteq> 0 \<and> sc_caseID (pr_scope p) \<noteq> []
      then bindM (case_state p) (\<lambda>caseState.
        bindM (liftR (solutionOf caseState)) (\<lambda>solution.
        checkM (failIf (list_ex (lockedIdentity solution) ids)
          (Errorf ''ordinary narrator companion evidence cites locked solution identity'')) (ret ())))
      else ret ())"

definition addNarrationEvidence :: "'w Projector \<Rightarrow> Projection \<Rightarrow> AuthenticatedAudience \<Rightarrow> ('w, Projection) M" where
  "addNarrationEvidence p q a =
     (case pr_evidence p of
        None \<Rightarrow>
          if pEntity_Objects (pj_Turn q) TurnCompanionStageRef = [] then ret q
          else throw (Errorf ''narrator projection requires the companion narration evidence resolver'')
      | Some resolver \<Rightarrow>
          bindM (mapErr (Wrapf ''authorize companion narration evidence'') (resolver
             \<lparr>ne_TurnID = au_turnID a, ne_TurnEntityID = au_turnEntityID a,
              ne_PlayerID = pa_Player (pj_Actor q), ne_ContextRef = pj_SceneID q, ne_Purpose = au_purpose a\<rparr>))
           (\<lambda>ids.
          if \<not> sorted ids
          then throw (Errorf ''companion narration evidence resolver returned unsorted identities'')
          else if length (remdups_adj ids) \<noteq> length ids
          then throw (Errorf ''companion narration evidence resolver returned duplicate identities'')
          else bindM (checkLocked p (au_purpose a) ids) (\<lambda>_.
            bindM (hydrate p ids) (\<lambda>states.
            if length states \<noteq> length ids
            then throw (Errorf ''one or more authorized companion narration evidence entities are missing'')
            else liftR (evidenceLoop p ''authorized companion narration evidence'' evidencePredicates states q)))))"

section \<open>Projecting\<close>

definition enforceProjectionBounds :: "'w Projector \<Rightarrow> Projection \<Rightarrow> string list \<Rightarrow> gerror option" where
  "enforceProjectionBounds p q baseEntityIDs =
     (let entities = Projection_Entities q in
      firstErr [
        failIf (pr_maxEntities p < int (length entities)) (Errorf ''epistemic projection has too many entities''),
        failIf (pr_maxSupplemental p < int (length (filter (\<lambda>e. \<not> List.member baseEntityIDs (pe_ID e)) entities)))
          (Errorf ''epistemic projection has too many cumulative supplemental entities''),
        failIf (pr_maxTriples p < int (sum_list (map (\<lambda>e. length (pe_Facts e)) entities)))
          (Errorf ''epistemic projection has too many triples''),
        (case pr_Bytes p q of
           Inl e \<Rightarrow> Some (Wrapf ''serialize epistemic projection for byte bound'' e)
         | Inr bytes \<Rightarrow> failIf (pr_maxBytes p < int (length bytes))
             (Errorf ''epistemic projection has too many serialized bytes''))])"

definition companionState :: "'w Projector \<Rightarrow> AuthenticatedAudience \<Rightarrow> View \<Rightarrow> string \<Rightarrow> Projection \<Rightarrow> ('w, Projection) M" where
  "companionState p a v actorID q =
     (case pr_bonds p of
        None \<Rightarrow> throw (Errorf ''companion projection requires the authoritative bond validator'')
      | Some validate \<Rightarrow>
          bindM (validate (au_bondID a) (sa_PlayerID (vw_Actor v)) actorID) (\<lambda>_.
          let q = q\<lparr>pj_ContextRef := au_contextRef a, pj_CompanionID := au_companionID a,
                    pj_BondID := au_bondID a\<rparr> in
          bindM (addCompanionBond p q (au_bondID a)) (\<lambda>q.
          addKnowledge p q actorID)))"

definition narrationState ::
    "'w Projector \<Rightarrow> AuthenticatedAudience \<Rightarrow> string \<Rightarrow> Projection \<Rightarrow> ('w, Projection) M" where
  "narrationState p a actorID q =
     bindM (addKnowledge p q actorID) (\<lambda>q.
     bindM (addRevelations p q actorID (au_turnID a)) (\<lambda>q.
     bindM (if au_purpose a = PurposeDenouement then authorizeDenouement p q (au_authorizerRef a) else ret q) (\<lambda>q.
     addNarrationEvidence p q a)))"

text \<open>The switch on the purpose.\<close>

definition purposeState ::
    "'w Projector \<Rightarrow> AuthenticatedAudience \<Rightarrow> View \<Rightarrow> string \<Rightarrow> Projection \<Rightarrow> ('w, Projection) M" where
  "purposeState p a v actorID q =
     (if au_purpose a = PurposePublicAdjudicator then addKnowledge p q actorID
      else if au_purpose a = PurposePlayer
      then bindM (addKnowledge p q actorID) (\<lambda>q. addRevelations p q actorID (au_turnID a))
      else if au_purpose a = PurposeCompanion then companionState p a v actorID q
      else if au_purpose a = PurposeNarrator \<or> au_purpose a = PurposeDenouement
      then narrationState p a actorID q
      else if au_purpose a = PurposeCasekeeper then addCasekeeperState p q (au_targetActorIDs a)
      else ret q)"

definition assembledView :: "'w Projector \<Rightarrow> AuthenticatedAudience \<Rightarrow> ('w, View) M" where
  "assembledView p a =
     bindM (mapErr (Wrapf ''assemble bounded public scene'')
         (pr_Assemble p (au_turnID a) (au_turnEntityID a))) (\<lambda>r.
     case r of
       None \<Rightarrow> throw (Errorf ''assemble bounded public scene: assembler returned nil'')
     | Some v \<Rightarrow>
         if vw_TurnID v \<noteq> au_turnID a \<or> vw_TurnEntityID v \<noteq> au_turnEntityID a
         then throw (Errorf ''assembled turn identity does not match the authenticated audience scope'')
         else if \<not> Verified (vw_Actor v) then throw (Errorf ''pin acting actor from graph'')
         else ret v)"

definition Project :: "'w Projector \<Rightarrow> AuthenticatedAudience \<Rightarrow> ('w, Projection) M" where
  "Project p a =
     (if \<not> List.member purposes (au_purpose a) then throw (Errorf ''project context: undeclared purpose'')
      else if au_purpose a = PurposeOperator
      then throw (Errorf ''operator projection is not a persona surface; use the authenticated operator graph API'')
      else checkM (validateAudience p a)
       (if au_purpose a = PurposeVerifier
        then bindM (solutionOnly p (au_purpose a)) (\<lambda>q.
          checkM (enforceProjectionBounds p q []) (ret q))
        else bindM (assembledView p a) (\<lambda>v.
          let q = publicProjection (pr_marshal p) v (au_purpose a) in
          bindM (purposeState p a v (authorizedActor a v) q) (\<lambda>q'.
          let final = finalize_projection q' in
          checkM (enforceProjectionBounds p final (map pe_ID (Projection_Entities q))) (ret final)))))"

end
