(* ===== verification/Epistemic_Sealed.thy ===== *)
theory Epistemic_Sealed
  imports Epistemic_Policy
begin

text \<open>
  What a projection can show. Every operation of the policy is described by the entities it adds
  (\<open>grown\<close>); from that follow the sealing of the solution, the traceback of every piece of evidence
  to a record of the graph, the well-formedness of the finished projection, and the independence of
  a public projection from the case.
\<close>

section \<open>Reading\<close>

lemma hydrateLoop_Inr:
  assumes "hydrateLoop ids seen sts = Inr out"
  shows "set out \<subseteq> set sts \<and> esID ` set out \<subseteq> set ids - set seen \<and> distinct (map esID out) \<and> [] \<notin> esID ` set out"
  using assms
proof (induction sts arbitrary: seen out)
  case (Cons st sts)
  show ?case
  proof (cases "esID st = []")
    case True
    with Cons.prems have "hydrateLoop ids (esID st # seen) sts = Inr out" by (auto split: if_splits)
    from Cons.IH [OF this] show ?thesis by auto
  next
    case False
    with Cons.prems obtain rest where rest: "hydrateLoop ids (esID st # seen) sts = Inr rest" "out = st # rest"
        "esID st \<in> set ids" "esID st \<notin> set seen"
      by (auto split: if_splits)
    from Cons.IH [OF this(1)] this(2-) False show ?thesis by auto
  qed
qed simp

text \<open>An entity that a batch read of the projector returned.\<close>

definition answered :: "'w Projector \<Rightarrow> EntityState \<Rightarrow> bool" where
  "answered p st = (\<exists>ids w r w'. pr_GetEntities p ids w = (Inr r, w') \<and> st \<in> set (br_Entities r))"

lemma hydrate_Inr:
  assumes "hydrate p ids w = (Inr sts, w')"
  shows "\<forall>st \<in> set sts. answered p st \<and> esID st \<in> set ids"
proof (cases "ids = []")
  case True
  with assms show ?thesis by (simp add: hydrate_def)
next
  case False
  with assms obtain r w1 out where "pr_GetEntities p ids w = (Inr r, w1)" "hydrateLoop ids [] (br_Entities r) = Inr out"
      "sts = sort_key esID out"
    by (auto simp: hydrate_def bindM_Inr split: if_splits)
  with hydrateLoop_Inr [OF this(2)] show ?thesis unfolding answered_def by auto
qed

lemma requireEntityKind_None: "requireEntityKind st k = None \<longleftrightarrow> exactString st WorldEntityKind = Inr k"
  by (auto simp: requireEntityKind_def split: sum.splits)

section \<open>What the operations add\<close>

definition grown :: "'w Projector \<Rightarrow> allowed \<Rightarrow> (EntityState \<Rightarrow> bool) \<Rightarrow> Projection \<Rightarrow> Projection \<Rightarrow> bool" where
  "grown p allowed P q q' =
     (\<exists>sts. q' = q\<lparr>pj_Neighbours := pj_Neighbours q @ map (\<lambda>st. projectState (pr_marshal p) st allowed) sts\<rparr>
        \<and> (\<forall>st \<in> set sts. answered p st \<and> P st))"

lemma grown_refl [simp, intro]: "grown p allowed P q q"
  unfolding grown_def by (intro exI [of _ "[]"]) simp

lemma grown_add: "answered p st \<Longrightarrow> P st \<Longrightarrow> grown p allowed P q (addNeighbour (projectState (pr_marshal p) st allowed) q)"
  unfolding grown_def addNeighbour_def by (intro exI [of _ "[st]"]) simp

lemma grown_trans [trans]:
  assumes "grown p allowed P q1 q2" and "grown p allowed P q2 q3"
  shows "grown p allowed P q1 q3"
proof -
  from assms(1) obtain ss where "q2 = q1\<lparr>pj_Neighbours := pj_Neighbours q1 @ map (\<lambda>st. projectState (pr_marshal p) st allowed) ss\<rparr>"
      "\<forall>st \<in> set ss. answered p st \<and> P st"
    unfolding grown_def by blast
  moreover from assms(2) obtain ts where "q3 = q2\<lparr>pj_Neighbours := pj_Neighbours q2 @ map (\<lambda>st. projectState (pr_marshal p) st allowed) ts\<rparr>"
      "\<forall>st \<in> set ts. answered p st \<and> P st"
    unfolding grown_def by blast
  ultimately show ?thesis unfolding grown_def by (intro exI [of _ "ss @ ts"]) auto
qed

lemma grown_mono: "grown p allowed P q q' \<Longrightarrow> (\<And>st. P st \<Longrightarrow> Q st) \<Longrightarrow> grown p allowed Q q q'"
  unfolding grown_def by blast

lemma grown_frame:
  "grown p allowed P q q' \<Longrightarrow> pj_Turn q' = pj_Turn q \<and> pj_Scene q' = pj_Scene q \<and> pj_Members q' = pj_Members q
     \<and> pj_HasSolution q' = pj_HasSolution q \<and> pj_Solution q' = pj_Solution q \<and> pj_Actor q' = pj_Actor q
     \<and> pj_Purpose q' = pj_Purpose q \<and> pj_TurnID q' = pj_TurnID q"
  by (auto simp: grown_def)

lemma evidenceLoop_Inr:
  assumes "evidenceLoop p what allowed sts q = Inr q'" and "\<forall>st \<in> set sts. answered p st \<and> P st"
  shows "grown p allowed (\<lambda>st. P st \<and> exactString st WorldEntityKind = Inr EntityKindEvidence) q q'"
  using assms
proof (induction sts arbitrary: q)
  case (Cons st sts)
  then have kind: "exactString st WorldEntityKind = Inr EntityKindEvidence"
    and rest: "evidenceLoop p what allowed sts (addNeighbour (projectState (pr_marshal p) st allowed) q) = Inr q'"
    by (auto simp: requireEntityKind_None [symmetric] split: option.splits)
  have "grown p allowed (\<lambda>st. P st \<and> exactString st WorldEntityKind = Inr EntityKindEvidence) q
      (addNeighbour (projectState (pr_marshal p) st allowed) q)"
    using kind Cons.prems(2) by (intro grown_add) simp_all
  also have "grown p allowed (\<lambda>st. P st \<and> exactString st WorldEntityKind = Inr EntityKindEvidence)
      (addNeighbour (projectState (pr_marshal p) st allowed) q) q'"
    using Cons.IH [OF rest] Cons.prems(2) by simp
  finally show ?case .
qed simp

text \<open>The records of the graph that let an actor see a piece of evidence.\<close>

definition knownBy :: "string \<Rightarrow> EntityState \<Rightarrow> string \<Rightarrow> bool" where
  "knownBy actorID rec i =
     (exactString rec WorldEntityKind = Inr EntityKindKnowledge
      \<and> exactString rec KnowledgeActorHolder = Inr actorID \<and> exactString rec KnowledgeEvidenceRef = Inr i)"

definition revealedTo :: "string \<Rightarrow> string \<Rightarrow> EntityState \<Rightarrow> string \<Rightarrow> bool" where
  "revealedTo actorID turnID rec i =
     (exactString rec WorldEntityKind = Inr EntityKindRevelation \<and> exactString rec RevelationTurnID = Inr turnID
      \<and> exactString rec RevelationActorHolder = Inr actorID \<and> exactString rec RevelationEvidenceRef = Inr i)"

definition traced :: "'w Projector \<Rightarrow> (EntityState \<Rightarrow> string \<Rightarrow> bool) \<Rightarrow> EntityState \<Rightarrow> bool" where
  "traced p K st =
     (exactString st WorldEntityKind = Inr EntityKindEvidence \<and> (\<exists>rec. answered p rec \<and> K rec (esID st)))"

lemma knowledgeLoop_Inr:
  "knowledgeLoop a recs = Inr ids \<Longrightarrow> \<forall>i \<in> set ids. \<exists>rec \<in> set recs. knownBy a rec i"
  by (induction recs arbitrary: ids)
    (fastforce simp: knowledgeEvidence_def knownBy_def requireEntityKind_None split: sum.splits option.splits if_splits)+

lemma revelationLoop_Inr:
  "revelationLoop a t recs = Inr ids \<Longrightarrow> \<forall>i \<in> set ids. \<exists>rec \<in> set recs. revealedTo a t rec i"
proof (induction recs arbitrary: ids)
  case (Cons rec recs)
  have one: "revealedTo a t rec i" if "revelationEvidence a t rec = Inr (Some i)" for i
    using that by (auto simp: revelationEvidence_def revealedTo_def requireEntityKind_None Let_def
        split: sum.splits option.splits if_splits)
  from Cons one show ?case by (fastforce split: sum.splits option.splits)
qed simp

lemma addEvidence_Inr:
  assumes "addEvidence p q ids allowed w = (Inr q', w')"
    and "\<forall>i \<in> set ids. \<exists>rec. answered p rec \<and> K rec i"
  shows "grown p allowed (traced p K) q q'"
proof -
  from assms(1) obtain sts w1 where "hydrate p (remdups_adj (sort ids)) w = (Inr sts, w1)"
      and loop: "evidenceLoop p ''authorized evidence target'' allowed sts q = Inr q'"
    by (auto simp: addEvidence_def bindM_Inr)
  from hydrate_Inr [OF this(1)] have "\<forall>st \<in> set sts. answered p st \<and> esID st \<in> set ids" by simp
  from evidenceLoop_Inr [OF loop this] show ?thesis
    by (rule grown_mono) (use assms(2) in \<open>auto simp: traced_def\<close>)
qed

lemma addKnowledge_Inr:
  assumes "addKnowledge p q a w = (Inr q', w')"
  shows "grown p evidencePredicates (traced p (knownBy a)) q q'"
proof -
  from assms obtain rids recs ids w1 w2 w3 where "hydrate p rids w1 = (Inr recs, w2)" "knowledgeLoop a recs = Inr ids"
      and add: "addEvidence p q ids evidencePredicates w3 = (Inr q', w')"
    by (auto simp: addKnowledge_def bindM_Inr)
  with hydrate_Inr [OF this(1)] knowledgeLoop_Inr [OF this(2)]
  show ?thesis by (intro addEvidence_Inr [OF add]) blast
qed

lemma addRevelations_Inr:
  assumes "addRevelations p q a t w = (Inr q', w')"
  shows "grown p evidencePredicates (traced p (revealedTo a t)) q q'"
proof -
  from assms obtain rids recs ids w1 w2 w3 where "hydrate p rids w1 = (Inr recs, w2)" "revelationLoop a t recs = Inr ids"
      and add: "addEvidence p q ids evidencePredicates w3 = (Inr q', w')"
    by (auto simp: addRevelations_def bindM_Inr)
  with hydrate_Inr [OF this(1)] revelationLoop_Inr [OF this(2)]
  show ?thesis by (intro addEvidence_Inr [OF add]) blast
qed

text \<open>Evidence the narrator may cite comes from the resolver, after the identities of the solution are ruled out.\<close>

lemma addNarrationEvidence_Inr:
  assumes "addNarrationEvidence p q a w = (Inr q', w')"
  shows "grown p evidencePredicates (\<lambda>st. exactString st WorldEntityKind = Inr EntityKindEvidence) q q'"
proof (cases "pr_evidence p")
  case None
  with assms show ?thesis by (auto simp: addNarrationEvidence_def split: if_splits)
next
  case (Some resolver)
  with assms obtain ids sts w1 w2 what where "hydrate p ids w1 = (Inr sts, w2)"
      and loop: "evidenceLoop p what evidencePredicates sts q = Inr q'"
    by (auto simp: addNarrationEvidence_def bindM_Inr split: if_splits)
  with hydrate_Inr [OF this(1)] have "\<forall>st \<in> set sts. answered p st \<and> True" by blast
  from evidenceLoop_Inr [OF loop this] show ?thesis by simp
qed

section \<open>The finished projection\<close>

definition pj_all :: "Projection \<Rightarrow> pEntity list" where
  "pj_all q = [pj_Turn q, pj_Scene q] @ pj_Members q @ pj_Neighbours q"

lemma keepLast_set: "set (keepLast es) \<subseteq> set es"
  by (induction es) auto

lemma keepLast_ids: "distinct (map pe_ID (keepLast es))" "pe_ID ` set (keepLast es) = pe_ID ` set es"
proof -
  have "distinct (map pe_ID (keepLast es)) \<and> pe_ID ` set (keepLast es) = pe_ID ` set es"
    by (induction es) auto
  then show "distinct (map pe_ID (keepLast es))" "pe_ID ` set (keepLast es) = pe_ID ` set es" by blast+
qed

lemma dedupeSorted_props:
  "distinct (map pe_ID (dedupeSorted es xs))" "sorted (map pe_ID (dedupeSorted es xs))"
  "set (dedupeSorted es xs) \<subseteq> set es" "\<forall>e \<in> set (dedupeSorted es xs). pe_ID e \<noteq> [] \<and> pe_ID e \<notin> set xs"
  using keepLast_set [of "filter (\<lambda>e. pe_ID e \<noteq> [] \<and> \<not> List.member xs (pe_ID e)) es"] keepLast_ids(1)
  by (auto simp: dedupeSorted_def distinct_map)

lemma pruneDangling_simps [simp]: "pe_ID (pruneDangling A e) = pe_ID e"
  by (simp add: pruneDangling_def)

lemma pruneDangling_facts: "f \<in> set (pe_Facts (pruneDangling A e)) \<Longrightarrow> f \<in> set (pe_Facts e)
    \<and> (IsEntityReference (fc_Predicate f) \<longrightarrow> (\<exists>i \<in> set A. fc_Object f = AString i))"
  by (auto simp: pruneDangling_def split: any.splits)

text \<open>No entity is listed twice, none is anonymous, and no reference leads out of the projection.\<close>

definition wf_projection :: "Projection \<Rightarrow> bool" where
  "wf_projection q =
     (distinct (map pe_ID (pj_Members q @ pj_Neighbours q))
      \<and> (\<forall>e \<in> set (pj_Members q @ pj_Neighbours q). pe_ID e \<noteq> [] \<and> pe_ID e \<noteq> pe_ID (pj_Turn q) \<and> pe_ID e \<noteq> pe_ID (pj_Scene q))
      \<and> (\<forall>e \<in> set (pj_all q). \<forall>f \<in> set (pe_Facts e). IsEntityReference (fc_Predicate f) \<longrightarrow>
           (\<exists>n \<in> set (Projection_Entities q). fc_Object f = AString (pe_ID n))))"

lemma finalize_cases:
  obtains ms ns A where "finalize_projection q = q\<lparr>pj_Turn := pruneDangling A (pj_Turn q), pj_Scene := pruneDangling A (pj_Scene q),
      pj_Members := map (pruneDangling A) ms, pj_Neighbours := map (pruneDangling A) ns\<rparr>"
    "ms = dedupeSorted (pj_Members q) [pe_ID (pj_Turn q), pe_ID (pj_Scene q)]"
    "ns = dedupeSorted (pj_Neighbours q) ([pe_ID (pj_Turn q), pe_ID (pj_Scene q)] @ map pe_ID ms)"
    "A = map pe_ID (Projection_Entities (q\<lparr>pj_Members := ms, pj_Neighbours := ns\<rparr>))"
  unfolding finalize_projection_def Let_def by simp

lemma finalize_wf: "wf_projection (finalize_projection q)"
proof -
  obtain ms ns A where f: "finalize_projection q = q\<lparr>pj_Turn := pruneDangling A (pj_Turn q), pj_Scene := pruneDangling A (pj_Scene q),
      pj_Members := map (pruneDangling A) ms, pj_Neighbours := map (pruneDangling A) ns\<rparr>"
    and ms: "ms = dedupeSorted (pj_Members q) [pe_ID (pj_Turn q), pe_ID (pj_Scene q)]"
    and ns: "ns = dedupeSorted (pj_Neighbours q) ([pe_ID (pj_Turn q), pe_ID (pj_Scene q)] @ map pe_ID ms)"
    and A: "A = map pe_ID (Projection_Entities (q\<lparr>pj_Members := ms, pj_Neighbours := ns\<rparr>))"
    by (rule finalize_cases)
  have ids: "map (pe_ID \<circ> pruneDangling A) es = map pe_ID es" for es by simp
  note dm = dedupeSorted_props [of "pj_Members q" "[pe_ID (pj_Turn q), pe_ID (pj_Scene q)]", folded ms]
  note dn = dedupeSorted_props [of "pj_Neighbours q" "[pe_ID (pj_Turn q), pe_ID (pj_Scene q)] @ map pe_ID ms", folded ns]
  have same: "set A = pe_ID ` set (Projection_Entities (finalize_projection q))"
    by (simp add: f Projection_Entities_def image_Un image_image) (simp add: A Projection_Entities_def image_Un)
  have "pe_ID ` set ms \<inter> pe_ID ` set ns = {}"
  proof (rule equals0I)
    fix i assume "i \<in> pe_ID ` set ms \<inter> pe_ID ` set ns"
    then have m: "i \<in> pe_ID ` set ms" and "i \<in> pe_ID ` set ns" by simp_all
    from this(2) obtain n where n: "i = pe_ID n" "n \<in> set ns" by (rule imageE)
    from dn(4) n(2) have "pe_ID n \<notin> pe_ID ` set ms" by simp
    with m n(1) show False by simp
  qed
  with dm(1) dn(1) have "distinct (map pe_ID ms @ map pe_ID ns)" by simp
  then have "distinct (map pe_ID (pj_Members (finalize_projection q) @ pj_Neighbours (finalize_projection q)))"
    by (simp add: f ids)
  moreover have "\<forall>e \<in> set (pj_Members (finalize_projection q) @ pj_Neighbours (finalize_projection q)).
      pe_ID e \<noteq> [] \<and> pe_ID e \<noteq> pe_ID (pj_Turn (finalize_projection q)) \<and> pe_ID e \<noteq> pe_ID (pj_Scene (finalize_projection q))"
    using dm(4) dn(4) by (auto simp: f)
  moreover have "\<exists>n \<in> set (Projection_Entities (finalize_projection q)). fc_Object x = AString (pe_ID n)"
    if "e \<in> set (pj_all (finalize_projection q))" "x \<in> set (pe_Facts e)" "IsEntityReference (fc_Predicate x)" for e x
  proof -
    from that(1) obtain e' where "e = pruneDangling A e'" by (auto simp: pj_all_def f)
    with pruneDangling_facts that(2,3) obtain i where "i \<in> set A" "fc_Object x = AString i" by blast
    with same show ?thesis by auto
  qed
  ultimately show ?thesis unfolding wf_projection_def by blast
qed

lemma finalize_facts:
  assumes "e \<in> set (pj_all (finalize_projection q))"
  shows "\<exists>e' \<in> set (pj_all q). pe_ID e' = pe_ID e \<and> set (pe_Facts e) \<subseteq> set (pe_Facts e')"
    and "e \<in> set (pj_Neighbours (finalize_projection q)) \<Longrightarrow>
      \<exists>e' \<in> set (pj_Neighbours q). pe_ID e' = pe_ID e \<and> set (pe_Facts e) \<subseteq> set (pe_Facts e')"
proof -
  obtain ms ns A where f: "finalize_projection q = q\<lparr>pj_Turn := pruneDangling A (pj_Turn q), pj_Scene := pruneDangling A (pj_Scene q),
      pj_Members := map (pruneDangling A) ms, pj_Neighbours := map (pruneDangling A) ns\<rparr>"
    and ms: "ms = dedupeSorted (pj_Members q) [pe_ID (pj_Turn q), pe_ID (pj_Scene q)]"
    and ns: "ns = dedupeSorted (pj_Neighbours q) ([pe_ID (pj_Turn q), pe_ID (pj_Scene q)] @ map pe_ID ms)"
    by (rule finalize_cases)
  have sub: "set ms \<subseteq> set (pj_Members q)" "set ns \<subseteq> set (pj_Neighbours q)"
    unfolding ms ns by (rule dedupeSorted_props(3))+
  have pruned: "pe_ID e' = pe_ID (pruneDangling A e') \<and> set (pe_Facts (pruneDangling A e')) \<subseteq> set (pe_Facts e')" for e'
    using pruneDangling_facts by auto
  from assms obtain e' where "e' \<in> set (pj_all q)" "e = pruneDangling A e'"
    using sub by (auto simp: pj_all_def f)
  with pruned show "\<exists>e' \<in> set (pj_all q). pe_ID e' = pe_ID e \<and> set (pe_Facts e) \<subseteq> set (pe_Facts e')" by blast
  assume "e \<in> set (pj_Neighbours (finalize_projection q))"
  then obtain e' where "e' \<in> set (pj_Neighbours q)" "e = pruneDangling A e'" using sub by (auto simp: f)
  with pruned show "\<exists>e' \<in> set (pj_Neighbours q). pe_ID e' = pe_ID e \<and> set (pe_Facts e) \<subseteq> set (pe_Facts e')" by blast
qed

lemma finalize_frame [simp]:
  "pj_HasSolution (finalize_projection q) = pj_HasSolution q" "pj_Solution (finalize_projection q) = pj_Solution q"
  "pj_Purpose (finalize_projection q) = pj_Purpose q" "pj_Actor (finalize_projection q) = pj_Actor q"
  by (simp_all add: finalize_projection_def Let_def)

section \<open>The steps of a projection\<close>

lemma Project_cases:
  assumes "Project p a w = (Inr q, w')"
  obtains (verifier) "au_purpose a = PurposeVerifier" "solutionOnly p (au_purpose a) w = (Inr q, w')"
      "enforceProjectionBounds p q [] = None" "validateAudience p a = None"
  | (persona) v q' w1 base where "au_purpose a \<noteq> PurposeVerifier" "au_purpose a \<noteq> PurposeOperator"
      "assembledView p a w = (Inr v, w1)" "validateAudience p a = None"
      "purposeState p a v (authorizedActor a v) (publicProjection (pr_marshal p) v (au_purpose a)) w1 = (Inr q', w')"
      "q = finalize_projection q'"
      "enforceProjectionBounds p q base = None"
  using assms
  by (auto simp: Project_def checkM_eq bindM_Inr Let_def split: if_splits)

lemma assembledView_Inr:
  assumes "assembledView p a w = (Inr v, w')"
  shows "Verified (vw_Actor v)" and "vw_TurnID v = au_turnID a" and "vw_TurnEntityID v = au_turnEntityID a"
    and "pr_Assemble p (au_turnID a) (au_turnEntityID a) w = (Inr (Some v), w')"
proof -
  from assms obtain r w1 where r: "pr_Assemble p (au_turnID a) (au_turnEntityID a) w = (Inr r, w1)"
      "(case r of None \<Rightarrow> throw (Errorf ''assemble bounded public scene: assembler returned nil'')
     | Some v \<Rightarrow>
         if vw_TurnID v \<noteq> au_turnID a \<or> vw_TurnEntityID v \<noteq> au_turnEntityID a
         then throw (Errorf ''assembled turn identity does not match the authenticated audience scope'')
         else if \<not> Verified (vw_Actor v) then throw (Errorf ''pin acting actor from graph'')
         else ret v) w1 = (Inr v, w')"
    unfolding assembledView_def bindM_Inr mapErr_Inr by blast
  then have "r = Some v \<and> w1 = w' \<and> Verified (vw_Actor v) \<and> vw_TurnID v = au_turnID a \<and> vw_TurnEntityID v = au_turnEntityID a"
    by (cases r) (auto split: if_splits)
  with r(1) show "Verified (vw_Actor v)" "vw_TurnID v = au_turnID a" "vw_TurnEntityID v = au_turnEntityID a"
    "pr_Assemble p (au_turnID a) (au_turnEntityID a) w = (Inr (Some v), w')" by simp_all
qed

lemma bounds_None:
  assumes "enforceProjectionBounds p q base = None"
  shows "int (length (Projection_Entities q)) \<le> pr_maxEntities p"
    and "int (length (filter (\<lambda>e. pe_ID e \<notin> set base) (Projection_Entities q))) \<le> pr_maxSupplemental p"
    and "int (sum_list (map (\<lambda>e. length (pe_Facts e)) (Projection_Entities q))) \<le> pr_maxTriples p"
    and "\<exists>bytes. pr_Bytes p q = Inr bytes \<and> int (length bytes) \<le> pr_maxBytes p"
  using assms by (auto simp: enforceProjectionBounds_def Let_def not_less split: sum.splits)

section \<open>Sealed facts\<close>

definition within :: "allowed \<Rightarrow> Projection \<Rightarrow> bool" where
  "within A q = (\<forall>e \<in> set (pj_all q). \<forall>f \<in> set (pe_Facts e). fc_Predicate f \<in> set A)"

definition openPredicates :: allowed where
  "openPredicates = narrationTurnPredicates @ publicWorldPredicates @ bondPredicates"

text \<open>Everything about the case, its evidence and its beliefs.\<close>

definition sealedPredicates :: allowed where
  "sealedPredicates = filter (\<lambda>p. \<not> List.member evidencePredicates p) casekeeperPredicates"

lemma projectTriples_facts: "f \<in> set (pe_Facts (projectTriples J i ts A)) \<Longrightarrow> fc_Predicate f \<in> set A"
  by (auto simp: projectTriples_def)

lemma projectState_facts [dest]: "f \<in> set (pe_Facts (projectState J st A)) \<Longrightarrow> fc_Predicate f \<in> set A"
  unfolding projectState_def by (rule projectTriples_facts)

lemma projectSceneEntity_facts [dest]: "f \<in> set (pe_Facts (projectSceneEntity J e A)) \<Longrightarrow> fc_Predicate f \<in> set A"
  unfolding projectSceneEntity_def by (rule projectTriples_facts)

lemma grown_within: "grown p A P q q' \<Longrightarrow> within B q \<Longrightarrow> set A \<subseteq> set B \<Longrightarrow> within B q'"
  unfolding grown_def within_def pj_all_def by fastforce

lemma open_sub: "set publicWorldPredicates \<subseteq> set openPredicates" "set publicTurnPredicates \<subseteq> set openPredicates"
    "set narrationTurnPredicates \<subseteq> set openPredicates" "set evidencePredicates \<subseteq> set openPredicates"
    "set bondPredicates \<subseteq> set openPredicates"
  by (auto simp: openPredicates_def narrationTurnPredicates_def evidencePredicates_def publicWorldPredicates_def)

lemma public_within: "within openPredicates (publicProjection J v purpose)"
  using open_sub by (fastforce simp: within_def pj_all_def publicProjection_def zeroProjection_def Let_def)

lemma within_finalize: "within A q \<Longrightarrow> within A (finalize_projection q)"
  unfolding within_def using finalize_facts(1) by blast

lemma addCompanionBond_Inr:
  assumes "addCompanionBond p q bond w = (Inr q', w')"
  shows "grown p bondPredicates (\<lambda>st. esID st = bond) q q'"
proof -
  from assms obtain b where b: "hydrate p [bond] w = (Inr [b], w')"
      "q' = addNeighbour (projectState (pr_marshal p) b bondPredicates) q"
    by (auto simp: addCompanionBond_def bindM_Inr sole_Inr)
  with hydrate_Inr [OF b(1)] show ?thesis by (auto intro: grown_add)
qed

lemma case_state_Inr:
  assumes "case_state p w = (Inr st, w')"
  shows "esID st = sc_caseID (pr_scope p)" and "answered p st" and "sc_caseID (pr_scope p) \<noteq> []"
proof -
  from assms obtain w1 where "hydrate p [sc_caseID (pr_scope p)] w = (Inr [st], w1)" and "sc_caseID (pr_scope p) \<noteq> []"
    by (auto simp: case_state_def bindM_Inr checkM_eq sole_Inr split: if_splits)
  with hydrate_Inr [OF this(1)] show "esID st = sc_caseID (pr_scope p)" "answered p st" "sc_caseID (pr_scope p) \<noteq> []"
    by auto
qed

text \<open>What opens the solution: the denouement phase and the word of the authorizer.\<close>

definition opened :: "'w Projector \<Rightarrow> string \<Rightarrow> string \<Rightarrow> bool" where
  "opened p turnID ref =
     (\<exists>st authorizer w w'. answered p st \<and> esID st = sc_caseID (pr_scope p)
        \<and> pEntity_Objects (projectState (pr_marshal p) st casekeeperPredicates) CaseLifecyclePhase = [AString CasePhaseDenouement]
        \<and> pr_denouement p = Some authorizer \<and> authorizer turnID (sc_caseID (pr_scope p)) ref w = (Inr True, w'))"

lemma authorizeDenouement_Inr:
  assumes "authorizeDenouement p q ref w = (Inr q', w')"
  shows "opened p (pj_TurnID q) ref" and "\<exists>s. q' = q\<lparr>pj_HasSolution := True, pj_Solution := s\<rparr>"
proof -
  from assms obtain st w1 authorizer w2 w3 s where st: "case_state p w = (Inr st, w1)"
      and "pEntity_Objects (projectState (pr_marshal p) st casekeeperPredicates) CaseLifecyclePhase = [AString CasePhaseDenouement]"
      "pr_denouement p = Some authorizer" "authorizer (pj_TurnID q) (esID st) ref w1 = (Inr True, w2)"
      and s: "q' = q\<lparr>pj_HasSolution := True, pj_Solution := s\<rparr>"
    by (auto simp: authorizeDenouement_def bindM_Inr split: if_splits option.splits)
  with case_state_Inr [OF st] show "opened p (pj_TurnID q) ref" unfolding opened_def by auto
  from s show "\<exists>s. q' = q\<lparr>pj_HasSolution := True, pj_Solution := s\<rparr>" by blast
qed

lemma within_update [simp]: "within A (q\<lparr>pj_HasSolution := b, pj_Solution := s\<rparr>) = within A q"
    "within A (q\<lparr>pj_ContextRef := c, pj_CompanionID := i, pj_BondID := d\<rparr>) = within A q"
  by (simp_all add: within_def pj_all_def)

lemma narrationState_Inr:
  assumes "narrationState p a actor q w = (Inr q', w')" and "within openPredicates q" and "\<not> pj_HasSolution q"
  shows "within openPredicates q'"
    and "pj_HasSolution q' \<Longrightarrow> au_purpose a = PurposeDenouement \<and> opened p (pj_TurnID q) (au_authorizerRef a)"
proof -
  from assms(1) obtain q1 q2 q3 w1 w2 w3 where q1: "addKnowledge p q actor w = (Inr q1, w1)"
      and q2: "addRevelations p q1 actor (au_turnID a) w1 = (Inr q2, w2)"
      and q3: "(if au_purpose a = PurposeDenouement then authorizeDenouement p q2 (au_authorizerRef a) else ret q2) w2 = (Inr q3, w3)"
      and q4: "addNarrationEvidence p q3 a w3 = (Inr q', w')"
    by (auto simp: narrationState_def bindM_Inr)
  note g = addKnowledge_Inr [OF q1] addRevelations_Inr [OF q2] addNarrationEvidence_Inr [OF q4]
  have "within openPredicates q2"
    using grown_within [OF g(1) assms(2)] grown_within [OF g(2)] open_sub(4) by blast
  moreover from q3 have "q3 = q2 \<or> (\<exists>s. q3 = q2\<lparr>pj_HasSolution := True, pj_Solution := s\<rparr>)"
    by (auto split: if_splits dest!: authorizeDenouement_Inr(2))
  ultimately have "within openPredicates q3" by auto
  then show "within openPredicates q'" using grown_within [OF g(3)] open_sub(4) by blast
  show "au_purpose a = PurposeDenouement \<and> opened p (pj_TurnID q) (au_authorizerRef a)" if "pj_HasSolution q'"
    using that q3 assms(3) grown_frame [OF g(1)] grown_frame [OF g(2)] grown_frame [OF g(3)]
      authorizeDenouement_Inr(1) [of p q2 "au_authorizerRef a" w2 q3 w3]
    by (auto split: if_splits)
qed

lemma purposeState_Inr:
  assumes "purposeState p a v actor q w = (Inr q', w')" and "within openPredicates q" and "\<not> pj_HasSolution q"
    and "au_purpose a \<noteq> PurposeCasekeeper"
  shows "within openPredicates q'"
    and "pj_HasSolution q' \<Longrightarrow> au_purpose a = PurposeDenouement \<and> opened p (pj_TurnID q) (au_authorizerRef a)"
proof -
  have "within openPredicates q' \<and>
     (pj_HasSolution q' \<longrightarrow> au_purpose a = PurposeDenouement \<and> opened p (pj_TurnID q) (au_authorizerRef a))"
  proof (cases "au_purpose a = PurposeNarrator \<or> au_purpose a = PurposeDenouement")
    case True
    then have "narrationState p a actor q w = (Inr q', w')"
      using assms(1) by (auto simp: purposeState_def purpose_strings)
    from narrationState_Inr [OF this assms(2,3)] show ?thesis by blast
  next
    case False
    with assms(1,4) consider "q' = q" | "addKnowledge p q actor w = (Inr q', w')"
      | q1 w1 where "addKnowledge p q actor w = (Inr q1, w1)" "addRevelations p q1 actor (au_turnID a) w1 = (Inr q', w')"
      | "companionState p a v actor q w = (Inr q', w')"
      by (auto simp: purposeState_def bindM_Inr split: if_splits)
    then show ?thesis
    proof cases
      case 1
      with assms(2,3) show ?thesis by simp
    next
      case 2
      from addKnowledge_Inr [OF this] show ?thesis
        using grown_within open_sub(4) assms(2,3) grown_frame by blast
    next
      case 3
      from addKnowledge_Inr [OF 3(1)] addRevelations_Inr [OF 3(2)] show ?thesis
        using grown_within open_sub(4) assms(2,3) grown_frame by metis
    next
      case 4
      then obtain q0 q1 w1 w2 where q0: "q0 = q\<lparr>pj_ContextRef := au_contextRef a, pj_CompanionID := au_companionID a,
                    pj_BondID := au_bondID a\<rparr>" and q1: "addCompanionBond p q0 (au_bondID a) w1 = (Inr q1, w2)"
        and q': "addKnowledge p q1 actor w2 = (Inr q', w')"
        by (auto simp: companionState_def bindM_Inr Let_def split: option.splits)
      have "within openPredicates q0" "\<not> pj_HasSolution q0" using assms(2,3) by (simp_all add: q0)
      with addCompanionBond_Inr [OF q1] addKnowledge_Inr [OF q'] show ?thesis
        using grown_within open_sub(4,5) grown_frame by metis
    qed
  qed
  then show "within openPredicates q'"
    "pj_HasSolution q' \<Longrightarrow> au_purpose a = PurposeDenouement \<and> opened p (pj_TurnID q) (au_authorizerRef a)" by blast+
qed

lemma Project_sealed:
  assumes "Project p a w = (Inr q, w')" and "au_purpose a \<noteq> PurposeCasekeeper"
  shows "\<forall>e \<in> set (pj_all q). \<forall>f \<in> set (pe_Facts e). fc_Predicate f \<notin> set sealedPredicates"
    and "pj_HasSolution q \<Longrightarrow> au_purpose a = PurposeVerifier
      \<or> au_purpose a = PurposeDenouement \<and> opened p (au_turnID a) (au_authorizerRef a)"
proof -
  have disj: "set openPredicates \<inter> set sealedPredicates = {}" by code_simp
  from assms(1) have "within openPredicates q \<and> (pj_HasSolution q \<longrightarrow> au_purpose a = PurposeVerifier
      \<or> au_purpose a = PurposeDenouement \<and> opened p (au_turnID a) (au_authorizerRef a))"
  proof (cases rule: Project_cases)
    case verifier
    then show ?thesis
      by (auto simp: solutionOnly_def bindM_Inr within_def pj_all_def zeroProjection_def)
  next
    case (persona v q' w1 base)
    have start: "\<not> pj_HasSolution (publicProjection (pr_marshal p) v (au_purpose a))"
        "pj_TurnID (publicProjection (pr_marshal p) v (au_purpose a)) = au_turnID a"
      using assembledView_Inr(2) [OF persona(3)] by (simp_all add: publicProjection_def zeroProjection_def Let_def)
    from purposeState_Inr [OF persona(5) public_within start(1) assms(2)] within_finalize
    show ?thesis by (auto simp: persona(6) start(2))
  qed
  with disj show "\<forall>e \<in> set (pj_all q). \<forall>f \<in> set (pe_Facts e). fc_Predicate f \<notin> set sealedPredicates"
    "pj_HasSolution q \<Longrightarrow> au_purpose a = PurposeVerifier
      \<or> au_purpose a = PurposeDenouement \<and> opened p (au_turnID a) (au_authorizerRef a)"
    unfolding within_def by blast+
qed

section \<open>Evidence is traced to a record\<close>

lemma grown_neighbour:
  assumes "grown p A P q q'" and "n \<in> set (pj_Neighbours q')"
  shows "n \<in> set (pj_Neighbours q) \<or> (\<exists>st. pe_ID n = esID st \<and> answered p st \<and> P st)"
proof -
  have "pe_ID (projectState J st A) = esID st" for J st by (simp add: projectState_def projectTriples_def)
  with assms show ?thesis unfolding grown_def by fastforce
qed

definition granted :: "string \<Rightarrow> string \<Rightarrow> EntityState \<Rightarrow> string \<Rightarrow> bool" where
  "granted actorID turnID rec i = (knownBy actorID rec i \<or> revealedTo actorID turnID rec i)"

lemma traced_granted:
  "traced p (knownBy a) st \<Longrightarrow> traced p (granted a t) st" "traced p (revealedTo a t) st \<Longrightarrow> traced p (granted a t) st"
  by (auto simp: traced_def granted_def)

definition accounted :: "'w Projector \<Rightarrow> AuthenticatedAudience \<Rightarrow> string \<Rightarrow> pEntity list \<Rightarrow> pEntity \<Rightarrow> bool" where
  "accounted p a actor base n =
     (pe_ID n \<in> pe_ID ` set base
      \<or> (\<exists>st. pe_ID n = esID st \<and> answered p st \<and> traced p (granted actor (au_turnID a)) st)
      \<or> au_purpose a = PurposeCompanion \<and> pe_ID n = au_bondID a)"

lemma addKnowledge_accounted:
  assumes "addKnowledge p q actor w = (Inr q', w')" and "\<forall>n \<in> set (pj_Neighbours q). accounted p a actor base n"
  shows "\<forall>n \<in> set (pj_Neighbours q'). accounted p a actor base n"
  using grown_neighbour [OF addKnowledge_Inr [OF assms(1)]] assms(2) traced_granted(1)
  unfolding accounted_def by blast

lemma addRevelations_accounted:
  assumes "addRevelations p q actor (au_turnID a) w = (Inr q', w')"
    and "\<forall>n \<in> set (pj_Neighbours q). accounted p a actor base n"
  shows "\<forall>n \<in> set (pj_Neighbours q'). accounted p a actor base n"
  using grown_neighbour [OF addRevelations_Inr [OF assms(1)]] assms(2) traced_granted(2)
  unfolding accounted_def by blast

lemma purposeState_accounted:
  assumes run: "purposeState p a v actor q w = (Inr q', w')"
    and purpose: "au_purpose a \<in> {PurposePlayer, PurposePublicAdjudicator, PurposeCompanion}"
  shows "\<forall>n \<in> set (pj_Neighbours q'). accounted p a actor (pj_Neighbours q) n"
proof -
  have base: "\<forall>n \<in> set (pj_Neighbours q). accounted p a actor (pj_Neighbours q) n" by (simp add: accounted_def)
  from purpose consider (public) "au_purpose a = PurposePublicAdjudicator" | (player) "au_purpose a = PurposePlayer"
    | (companion) "au_purpose a = PurposeCompanion" by blast
  then show ?thesis
  proof cases
    case public
    then have "addKnowledge p q actor w = (Inr q', w')" using run by (simp add: purposeState_def)
    from addKnowledge_accounted [OF this base] show ?thesis .
  next
    case player
    then obtain q1 w1 where q1: "addKnowledge p q actor w = (Inr q1, w1)"
        "addRevelations p q1 actor (au_turnID a) w1 = (Inr q', w')"
      using run by (auto simp: purposeState_def purpose_strings bindM_Inr)
    from addRevelations_accounted [OF q1(2) addKnowledge_accounted [OF q1(1) base]] show ?thesis .
  next
    case companion
    then have "companionState p a v actor q w = (Inr q', w')"
      using run by (simp add: purposeState_def purpose_strings)
    then obtain q0 q1 w1 w2 where "q0 = q\<lparr>pj_ContextRef := au_contextRef a, pj_CompanionID := au_companionID a,
                    pj_BondID := au_bondID a\<rparr>"
        and bond: "addCompanionBond p q0 (au_bondID a) w1 = (Inr q1, w2)"
        and known: "addKnowledge p q1 actor w2 = (Inr q', w')"
      by (auto simp: companionState_def bindM_Inr Let_def split: option.splits)
    then have q0: "pj_Neighbours q0 = pj_Neighbours q" by simp
    have "\<forall>n \<in> set (pj_Neighbours q1). accounted p a actor (pj_Neighbours q) n"
    proof
      fix n assume "n \<in> set (pj_Neighbours q1)"
      from grown_neighbour [OF addCompanionBond_Inr [OF bond] this] base
      show "accounted p a actor (pj_Neighbours q) n" by (auto simp: accounted_def q0 companion)
    qed
    from addKnowledge_accounted [OF known this] show ?thesis .
  qed
qed

lemma Project_accounted:
  assumes "Project p a w = (Inr q, w')"
    and purpose: "au_purpose a \<in> {PurposePlayer, PurposePublicAdjudicator, PurposeCompanion}"
  obtains v w1 where "assembledView p a w = (Inr v, w1)"
    "\<forall>n \<in> set (pj_Neighbours q).
       accounted p a (authorizedActor a v) (pj_Neighbours (publicProjection (pr_marshal p) v (au_purpose a))) n"
  using assms(1)
proof (cases rule: Project_cases)
  case verifier
  with purpose show thesis by (auto simp: purpose_strings)
next
  case (persona v q' w1 base)
  have acc: "accounted p a (authorizedActor a v) (pj_Neighbours (publicProjection (pr_marshal p) v (au_purpose a))) n"
    if n: "n \<in> set (pj_Neighbours q)" for n
  proof -
    have "n \<in> set (pj_all (finalize_projection q'))" "n \<in> set (pj_Neighbours (finalize_projection q'))"
      using n by (simp_all add: persona(6) pj_all_def)
    from finalize_facts(2) [OF this] obtain n' where n': "n' \<in> set (pj_Neighbours q')" "pe_ID n' = pe_ID n" by blast
    from bspec [OF purposeState_accounted [OF persona(5) purpose] n'(1)] show ?thesis
      unfolding accounted_def n'(2) .
  qed
  show thesis by (rule that [OF persona(3) ballI]) (rule acc)
qed

section \<open>A public projection does not depend on the case\<close>

definition recased ::
    "'w Projector \<Rightarrow> Scope \<Rightarrow> (string \<Rightarrow> string \<Rightarrow> string \<Rightarrow> ('w, bool) M) option
     \<Rightarrow> (NarrationEvidenceRequest \<Rightarrow> ('w, string list) M) option \<Rightarrow> 'w Projector" where
  "recased p s d r = p\<lparr>pr_scope := s, pr_denouement := d, pr_evidence := r\<rparr>"

lemma recased_simps [simp]:
  "pr_Assemble (recased p s d r) = pr_Assemble p" "pr_GetEntities (recased p s d r) = pr_GetEntities p"
  "pr_ByValue (recased p s d r) = pr_ByValue p" "pr_maxSupplemental (recased p s d r) = pr_maxSupplemental p"
  "pr_maxEntities (recased p s d r) = pr_maxEntities p" "pr_maxTriples (recased p s d r) = pr_maxTriples p"
  "pr_maxBytes (recased p s d r) = pr_maxBytes p" "pr_bonds (recased p s d r) = pr_bonds p"
  "pr_marshal (recased p s d r) = pr_marshal p" "pr_Bytes (recased p s d r) = pr_Bytes p"
  by (simp_all add: recased_def)

lemma evidenceLoop_recased: "evidenceLoop (recased p s d r) what A sts q = evidenceLoop p what A sts q"
  by (induction sts arbitrary: q) (auto split: option.splits)

lemma hydrate_recased: "hydrate (recased p s d r) = hydrate p"
  by (rule ext) (auto simp: hydrate_def)

lemmas recased_ops = hydrate_recased queryIDs_def addEvidence_def evidenceLoop_recased addCompanionBond_def

lemma addKnowledge_recased: "addKnowledge (recased p s d r) q actor = addKnowledge p q actor"
  by (simp add: addKnowledge_def recased_ops)

lemma addRevelations_recased: "addRevelations (recased p s d r) q actor t = addRevelations p q actor t"
  by (simp add: addRevelations_def recased_ops)

lemma companionState_recased: "companionState (recased p s d r) a v actor q = companionState p a v actor q"
  by (auto simp: companionState_def addKnowledge_recased recased_ops Let_def split: option.splits)

lemma Project_recased:
  assumes "au_purpose a \<in> {PurposePlayer, PurposePublicAdjudicator, PurposeCompanion}"
  shows "Project (recased p s d r) a = Project p a"
proof -
  have v: "validateAudience (recased p s d r) a = validateAudience p a"
    using assms by (auto simp: validateAudience_def Let_def purpose_strings)
  have view: "assembledView (recased p s d r) a = assembledView p a" by (simp add: assembledView_def)
  have st: "purposeState (recased p s d r) a v actor q = purposeState p a v actor q" for v actor q
    using assms
    by (auto simp: purposeState_def addKnowledge_recased addRevelations_recased companionState_recased purpose_strings)
  have b: "enforceProjectionBounds (recased p s d r) q base = enforceProjectionBounds p q base" for q base
    by (simp add: enforceProjectionBounds_def Let_def split: sum.split)
  have "au_purpose a \<noteq> PurposeVerifier" using assms by (auto simp: purpose_strings)
  then show ?thesis by (simp add: Project_def v view st b)
qed

end
