(* ===== verification/Hashing.thy ===== *)
theory Hashing
  imports Prelude
begin

text \<open>
  The deterministic bytes of the engine: the standard-library functions it derives identities and
  dice from (SHA-256, hexadecimal, the PCG generator of \<^verbatim>\<open>math/rand/v2\<close>), the campaign seed of
  \<^verbatim>\<open>campaign/seed.go\<close> and the length-prefixed identity digest of
  \<^verbatim>\<open>payload/deterministic.go\<close>. Byte slices are strings.
\<close>

unbundle bit_operations_syntax

section \<open>SHA-256\<close>

type_synonym u32 = "32 word"
type_synonym u64 = "64 word"

definition rotr32 :: "nat \<Rightarrow> u32 \<Rightarrow> u32" where
  "rotr32 n w = (drop_bit n w) OR (push_bit (32 - n) w)"

definition be32 :: "string \<Rightarrow> u32" where
  "be32 bs = foldl (\<lambda>acc c. push_bit 8 acc OR of_char c) 0 bs"

definition bytes32 :: "u32 \<Rightarrow> string" where
  "bytes32 w = map (\<lambda>k. char_of (uint (drop_bit k w))) [24, 16, 8, 0]"

definition sha256_H0 :: "u32 list" where
  "sha256_H0 = [
    1779033703, 3144134277, 1013904242, 2773480762, 1359893119, 2600822924, 528734635,
    1541459225]"

definition sha256_K :: "u32 list" where
  "sha256_K = [
    1116352408, 1899447441, 3049323471, 3921009573, 961987163, 1508970993, 2453635748,
    2870763221, 3624381080, 310598401, 607225278, 1426881987, 1925078388, 2162078206,
    2614888103, 3248222580, 3835390401, 4022224774, 264347078, 604807628, 770255983,
    1249150122, 1555081692, 1996064986, 2554220882, 2821834349, 2952996808, 3210313671,
    3336571891, 3584528711, 113926993, 338241895, 666307205, 773529912, 1294757372,
    1396182291, 1695183700, 1986661051, 2177026350, 2456956037, 2730485921, 2820302411,
    3259730800, 3345764771, 3516065817, 3600352804, 4094571909, 275423344, 430227734,
    506948616, 659060556, 883997877, 958139571, 1322822218, 1537002063, 1747873779,
    1955562222, 2024104815, 2227730452, 2361852424, 2428436474, 2756734187, 3204031479,
    3329325298]"

definition sha256_pad :: "string \<Rightarrow> string" where
  "sha256_pad m =
     (let n = length m in
      m @ [char_of (128 :: nat)] @ replicate ((119 - n mod 64) mod 64) (char_of (0 :: nat))
        @ bytes32 (of_int (8 * int n div 2 ^ 32)) @ bytes32 (of_int (8 * int n)))"

fun chunks :: "nat \<Rightarrow> nat \<Rightarrow> string \<Rightarrow> string list" where
  "chunks 0 n s = []"
| "chunks (Suc k) n s = take n s # chunks k n (drop n s)"

fun sha256_extend :: "nat \<Rightarrow> u32 list \<Rightarrow> u32 list" where
  "sha256_extend 0 ws = ws"
| "sha256_extend (Suc k) ws =
     (let t = length ws; x = ws ! (t - 15); y = ws ! (t - 2);
          s0 = rotr32 7 x XOR rotr32 18 x XOR drop_bit 3 x;
          s1 = rotr32 17 y XOR rotr32 19 y XOR drop_bit 10 y
      in sha256_extend k (ws @ [ws ! (t - 16) + s0 + ws ! (t - 7) + s1]))"

fun sha256_round :: "u32 list \<Rightarrow> u32 \<times> u32 \<Rightarrow> u32 list" where
  "sha256_round [a, b, c, d, e, f, g, h] (k, w) =
     (let s1 = rotr32 6 e XOR rotr32 11 e XOR rotr32 25 e;
          ch = (e AND f) XOR (NOT e AND g);
          t1 = h + s1 + ch + k + w;
          s0 = rotr32 2 a XOR rotr32 13 a XOR rotr32 22 a;
          maj = (a AND b) XOR (a AND c) XOR (b AND c);
          t2 = s0 + maj
      in [t1 + t2, a, b, c, d + t1, e, f, g])"
| "sha256_round st kw = st"

definition sha256_block :: "u32 list \<Rightarrow> string \<Rightarrow> u32 list" where
  "sha256_block st block =
     (let ws = sha256_extend 48 (map be32 (chunks 16 4 block))
      in map2 (+) st (foldl sha256_round st (zip sha256_K ws)))"

definition sha256 :: "string \<Rightarrow> string" where
  "sha256 m =
     (let p = sha256_pad m in
      concat (map bytes32 (foldl sha256_block sha256_H0 (chunks (length p div 64) 64 p))))"

section \<open>Hexadecimal\<close>

definition hexDigit :: "nat \<Rightarrow> char" where
  "hexDigit n = (if n < 10 then char_of (48 + n) else char_of (87 + n))"

definition hexEncode :: "string \<Rightarrow> string" where
  "hexEncode bs = concat (map (\<lambda>c. let n = (of_char c :: nat) in [hexDigit (n div 16), hexDigit (n mod 16)]) bs)"

definition hexVal :: "char \<Rightarrow> nat option" where
  "hexVal c =
     (let n = (of_char c :: nat) in
      if 48 \<le> n \<and> n \<le> 57 then Some (n - 48)
      else if 97 \<le> n \<and> n \<le> 102 then Some (n - 87)
      else if 65 \<le> n \<and> n \<le> 70 then Some (n - 55)
      else None)"

fun hexDecode :: "string \<Rightarrow> string option" where
  "hexDecode [] = Some []"
| "hexDecode [c] = None"
| "hexDecode (a # b # cs) =
     (case (hexVal a, hexVal b) of
        (Some x, Some y) \<Rightarrow> map_option ((#) (char_of (16 * x + y))) (hexDecode cs)
      | _ \<Rightarrow> None)"

section \<open>The PCG generator\<close>

text \<open>
  \<^verbatim>\<open>rand.PCG\<close>: a 128-bit linear congruential state (\<^verbatim>\<open>hi\<close>, \<^verbatim>\<open>lo\<close>) with the
  DXSM output function.
\<close>

type_synonym PCG = "u64 \<times> u64"

definition pcg_state :: "PCG \<Rightarrow> 128 word" where
  "pcg_state p = push_bit 64 (ucast (fst p)) OR ucast (snd p)"

definition pcg_next :: "PCG \<Rightarrow> PCG" where
  "pcg_next p =
     (let mul = push_bit 64 2549297995355413924 OR 4865540595714422341;
          inc = push_bit 64 6364136223846793005 OR 1442695040888963407;
          st = pcg_state p * mul + inc
      in (ucast (drop_bit 64 st), ucast st))"

definition pcg_Uint64 :: "PCG \<Rightarrow> u64 \<times> PCG" where
  "pcg_Uint64 p =
     (let p' = pcg_next p; hi = fst p'; lo = snd p';
          hi1 = (hi XOR drop_bit 32 hi) * 0xda942042e4dd58b5;
          hi2 = (hi1 XOR drop_bit 48 hi1) * (lo OR 1)
      in (hi2, p'))"

definition be64 :: "string \<Rightarrow> u64" where
  "be64 bs = foldl (\<lambda>acc c. push_bit 8 acc OR of_char c) 0 bs"

section \<open>The campaign seed\<close>

text \<open>A Go \<^verbatim>\<open>[32]byte\<close> is a string of length 32 (\<open>seed_wf\<close>).\<close>

type_synonym Seed = string

definition SeedBytes :: nat where
  "SeedBytes = 32"

definition seed_wf :: "Seed \<Rightarrow> bool" where
  "seed_wf s = (length s = SeedBytes)"

definition zeroSeed :: Seed where
  "zeroSeed = replicate SeedBytes (CHR 0x00)"

definition Seed_IsZero :: "Seed \<Rightarrow> bool" where
  "Seed_IsZero s = (s = zeroSeed)"

definition Seed_Bytes :: "Seed \<Rightarrow> string" where
  "Seed_Bytes s = s"

definition Seed_String :: "Seed \<Rightarrow> string" where
  "Seed_String s = hexEncode s"

text \<open>The argument is what \<^verbatim>\<open>rand.Read\<close> reported and filled in.\<close>

definition NewSeed :: "gerror + Seed \<Rightarrow> gerror + Seed" where
  "NewSeed entropy =
     (case entropy of
        Inl e \<Rightarrow> Inl (Wrapf ''generate campaign seed'' e)
      | Inr seed \<Rightarrow>
          if Seed_IsZero seed then Inl (Errorf ''generated campaign seed is all zeroes'')
          else Inr seed)"

definition ParseSeed :: "string \<Rightarrow> gerror + Seed" where
  "ParseSeed s =
     (if s = [] then Inl (Errorf ''campaign seed is empty'')
      else case hexDecode s of
        None \<Rightarrow> Inl (Errorf ''campaign seed is not hex'')
      | Some raw \<Rightarrow>
          if length raw \<noteq> SeedBytes then Inl (Errorf ''campaign seed has the wrong width'')
          else if Seed_IsZero raw then Inl (Errorf ''campaign seed is all zeroes'')
          else Inr raw)"

section \<open>Deterministic identities\<close>

text \<open>
  Each member is written as its four-byte big-endian length followed by its bytes;
  \<open>memberStream\<close> is everything the hash receives.
\<close>

definition writeDeterministicMember :: "string \<Rightarrow> string \<Rightarrow> string" where
  "writeDeterministicMember digest val = digest @ bytes32 (of_nat (length val)) @ val"

definition memberStream :: "string \<Rightarrow> string list \<Rightarrow> string" where
  "memberStream domain vals = foldl writeDeterministicMember (writeDeterministicMember [] domain) vals"

definition deterministicID :: "string \<Rightarrow> string list \<Rightarrow> string" where
  "deterministicID domain vals = hexEncode (sha256 (memberStream domain vals))"

section \<open>The length of a digest\<close>

lemma length_sha256_round: "length st = 8 \<Longrightarrow> length (sha256_round st kw) = 8"
  by (induction st kw rule: sha256_round.induct) (auto simp: Let_def)

lemma length_foldl_round: "length st = 8 \<Longrightarrow> length (foldl sha256_round st kws) = 8"
  by (induction kws arbitrary: st) (simp_all add: length_sha256_round)

lemma length_foldl_block: "length st = 8 \<Longrightarrow> length (foldl sha256_block st bs) = 8"
  by (induction bs arbitrary: st) (simp_all add: sha256_block_def Let_def length_foldl_round)

lemma length_concat_bytes32: "length (concat (map bytes32 ws)) = 4 * length ws"
  by (induction ws) (simp_all add: bytes32_def)

lemma length_sha256: "length (sha256 m) = 32"
  by (simp add: sha256_def Let_def length_concat_bytes32 length_foldl_block sha256_H0_def)

lemma sha256_ne: "sha256 m \<noteq> []"
  using length_sha256 [of m] by auto

section \<open>Round trips and injectivity\<close>

lemma hexVal_hexDigit: "n < 16 \<Longrightarrow> hexVal (hexDigit n) = Some n"
  by (auto simp: hexVal_def hexDigit_def Let_def)

lemma hexDecode_hexEncode [simp]: "hexDecode (hexEncode s) = Some s"
proof (induction s)
  case Nil
  then show ?case by (simp add: hexEncode_def)
next
  case (Cons c s)
  have "of_char c < (256 :: nat)" by (metis mod_less_divisor of_char_mod_256 zero_less_numeral)
  then have "of_char c div 16 < (16 :: nat)" by (intro less_mult_imp_div_less) simp
  with Cons show ?case
    by (simp add: hexEncode_def Let_def hexVal_hexDigit)
qed

lemma length_hexEncode [simp]: "length (hexEncode s) = 2 * length s"
  by (induction s) (simp_all add: hexEncode_def Let_def)

lemma hexEncode_inject: "hexEncode s = hexEncode t \<longleftrightarrow> s = t"
  by (metis hexDecode_hexEncode option.inject)

lemma hexEncode_Nil_iff [simp]: "hexEncode s = [] \<longleftrightarrow> s = []"
  by (metis length_0_conv length_hexEncode mult_eq_0_iff zero_neq_numeral)

lemma ParseSeed_String:
  "seed_wf s \<Longrightarrow> \<not> Seed_IsZero s \<Longrightarrow> ParseSeed (Seed_String s) = Inr s"
  by (auto simp: ParseSeed_def Seed_String_def seed_wf_def SeedBytes_def)

lemma ParseSeed_Inr:
  "ParseSeed t = Inr s \<Longrightarrow> seed_wf s \<and> \<not> Seed_IsZero s \<and> hexDecode t = Some s"
  by (auto simp: ParseSeed_def seed_wf_def split: if_splits option.splits)

lemma four_bytes:
  fixes u :: int
  assumes "0 \<le> u" "u < 2 ^ 32"
  shows "u = 16777216 * (u div 16777216 mod 256) + 65536 * (u div 65536 mod 256)
           + 256 * (u div 256 mod 256) + u mod 256"
proof -
  define a where "a = u div 256"
  define b where "b = u div 65536"
  define c where "c = u div 16777216"
  have b: "b = a div 256" unfolding a_def b_def by (simp add: zdiv_zmult2_eq [symmetric])
  have c: "c = b div 256" unfolding b_def c_def by (simp add: zdiv_zmult2_eq [symmetric])
  have "0 \<le> c" "c < 256" unfolding c_def using assms by auto
  moreover have "u = 256 * a + u mod 256" unfolding a_def by simp
  moreover have "a = 256 * b + a mod 256" unfolding b by simp
  moreover have "b = 256 * c + b mod 256" unfolding c by simp
  ultimately show ?thesis
    unfolding a_def [symmetric] b_def [symmetric] c_def [symmetric] by simp
qed

lemma char_of_int_eq: "(char_of (a :: int) = char_of b) \<longleftrightarrow> a mod 256 = b mod 256"
  by (metis char_of_mod_256 of_char_of)

lemma uint_drop_bit32: "uint (drop_bit k (w :: u32)) = uint w div 2 ^ k"
proof -
  have "uint (drop_bit k w) = drop_bit k (uint w)"
    by (rule bit_eqI) (auto simp: bit_simps dest: bit_imp_le_length)
  then show ?thesis by (simp add: drop_bit_eq_div)
qed

lemma bytes32_inject: "bytes32 v = bytes32 w \<longleftrightarrow> v = w"
proof
  assume eq: "bytes32 v = bytes32 w"
  have "uint v div 2 ^ k mod 256 = uint w div 2 ^ k mod 256" if "k \<in> set [24, 16, 8, 0]" for k
  proof -
    have "char_of (uint (drop_bit k v)) = char_of (uint (drop_bit k w))"
      using eq that unfolding bytes32_def map_eq_conv by blast
    then show ?thesis unfolding char_of_int_eq uint_drop_bit32 .
  qed
  note byte = this
  have b0: "uint v mod 256 = uint w mod 256" using byte [of 0] by simp
  have b8: "uint v div 256 mod 256 = uint w div 256 mod 256" using byte [of 8] by simp
  have b16: "uint v div 65536 mod 256 = uint w div 65536 mod 256" using byte [of 16] by simp
  have b24: "uint v div 16777216 mod 256 = uint w div 16777216 mod 256" using byte [of 24] by simp
  have v: "0 \<le> uint v" "uint v < 2 ^ 32" and w: "0 \<le> uint w" "uint w < 2 ^ 32"
    using uint_bounded [of v] uint_bounded [of w] by simp_all
  have "uint v = 16777216 * (uint v div 16777216 mod 256) + 65536 * (uint v div 65536 mod 256)
           + 256 * (uint v div 256 mod 256) + uint v mod 256"
    by (rule four_bytes [OF v])
  also have "\<dots> = 16777216 * (uint w div 16777216 mod 256) + 65536 * (uint w div 65536 mod 256)
           + 256 * (uint w div 256 mod 256) + uint w mod 256"
    by (simp only: b0 b8 b16 b24)
  also have "\<dots> = uint w" by (rule four_bytes [OF w, symmetric])
  finally have "uint v = uint w" .
  then show "v = w" by (simp only: word_uint_eq_iff)
qed simp

lemma length_bytes32 [simp]: "length (bytes32 w) = 4"
  by (simp add: bytes32_def)

lemma of_nat32_inject:
  "n < 2 ^ 32 \<Longrightarrow> m < 2 ^ 32 \<Longrightarrow> (of_nat n :: u32) = of_nat m \<Longrightarrow> n = m"
  by (drule arg_cong [where f = unat]) (simp add: unat_of_nat)

definition memberBytes :: "string \<Rightarrow> string" where
  "memberBytes v = bytes32 (of_nat (length v)) @ v"

lemma memberStream_eq: "memberStream domain vals = concat (map memberBytes (domain # vals))"
proof -
  have "foldl writeDeterministicMember acc vals = acc @ concat (map memberBytes vals)" for acc
    by (induction vals arbitrary: acc) (simp_all add: writeDeterministicMember_def memberBytes_def)
  then show ?thesis
    by (simp add: memberStream_def writeDeterministicMember_def memberBytes_def)
qed

lemma memberBytes_append_inject:
  assumes "length v < 2 ^ 32" "length w < 2 ^ 32"
    and "memberBytes v @ r = memberBytes w @ s"
  shows "v = w \<and> r = s"
proof -
  have "bytes32 (of_nat (length v)) = bytes32 (of_nat (length w))" and "v @ r = w @ s"
    using assms(3) by (simp_all add: memberBytes_def)
  then have "length v = length w"
    using assms(1,2) of_nat32_inject by (metis bytes32_inject)
  with \<open>v @ r = w @ s\<close> show ?thesis by simp
qed

lemma members_inject:
  assumes "\<forall>v \<in> set vs. length v < 2 ^ 32" "\<forall>v \<in> set ws. length v < 2 ^ 32"
    and "concat (map memberBytes vs) = concat (map memberBytes ws)"
  shows "vs = ws"
  using assms
proof (induction vs arbitrary: ws)
  case Nil
  have "memberBytes v \<noteq> []" for v
    using length_bytes32 by (metis append_is_Nil_conv list.size(3) memberBytes_def zero_neq_numeral)
  then show ?case using Nil by (cases ws) auto
next
  case (Cons v vs)
  obtain w ws' where ws: "ws = w # ws'"
    using Cons.prems(3) length_bytes32
    by (cases ws) (auto simp: memberBytes_def dest: arg_cong [where f = length])
  show ?case
    using Cons memberBytes_append_inject [of v w] by (auto simp: ws)
qed

end
