(* ===== verification/Payload_Case.thy ===== *)
theory Payload_Case
  imports Payload_Turn Hashing
begin

text \<open>
  The payloads of the mystery: what the casekeeper decided about an action
  (\<^verbatim>\<open>casedecision.go\<close>, \<^verbatim>\<open>casedecisionrecord.go\<close>), the result of an accusation
  (\<^verbatim>\<open>accusationresult.go\<close>) and the companion's part in a turn (\<^verbatim>\<open>companiondecision.go\<close>,
  \<^verbatim>\<open>companionstagerecord.go\<close>). JSON encoding is the standard library's and is an argument where
  a component uses it. The lemmas show that an accepted payload's identity determines its content
  coordinates and that a record always names the turn of its action.
\<close>

section \<open>Decisions about a case\<close>

definition CategoryCaseDecision :: string where "CategoryCaseDecision = ''case_decision''"
definition CategoryCaseDecisionRecord :: string where "CategoryCaseDecisionRecord = ''case_decision_record''"
definition CategoryAccusationResult :: string where "CategoryAccusationResult = ''accusation_result''"
definition CategoryCompanionDecision :: string where "CategoryCompanionDecision = ''companion_decision''"
definition CategoryCompanionStageRecord :: string where
  "CategoryCompanionStageRecord = ''companion_stage_record''"

definition MaxCaseDecisionTargets :: nat where "MaxCaseDecisionTargets = 8"
definition MaxCaseDecisionReveals :: nat where "MaxCaseDecisionReveals = 12"
definition caseDecisionIdentityDomain :: string where "caseDecisionIdentityDomain = ''case-decision/v1''"

type_synonym CaseDecisionKind = string

named_theorems case_names_set \<open>literal values of the case and companion kinds\<close>

definition CaseDecisionObserve :: CaseDecisionKind where [case_names_set]: "CaseDecisionObserve = ''observe''"
definition CaseDecisionInvestigate :: CaseDecisionKind where [case_names_set]: "CaseDecisionInvestigate = ''investigate''"
definition CaseDecisionQuestion :: CaseDecisionKind where [case_names_set]: "CaseDecisionQuestion = ''question''"
definition CaseDecisionShare :: CaseDecisionKind where [case_names_set]: "CaseDecisionShare = ''share''"
definition CaseDecisionRequestHint :: CaseDecisionKind where [case_names_set]: "CaseDecisionRequestHint = ''request_hint''"
definition CaseDecisionAccuse :: CaseDecisionKind where [case_names_set]: "CaseDecisionAccuse = ''accuse''"
definition CaseDecisionOther :: CaseDecisionKind where [case_names_set]: "CaseDecisionOther = ''other''"

definition orderedCaseDecisionKinds :: "CaseDecisionKind list" where
  "orderedCaseDecisionKinds = [
     CaseDecisionObserve, CaseDecisionInvestigate, CaseDecisionQuestion, CaseDecisionShare,
     CaseDecisionRequestHint, CaseDecisionAccuse, CaseDecisionOther]"

definition CaseDecisionKinds :: "CaseDecisionKind list" where
  "CaseDecisionKinds = orderedCaseDecisionKinds"

record CaseDecision =
  cd_DecisionID :: string
  cd_TurnID :: string
  cd_ActionID :: string
  cd_CaseID :: string
  cd_ActorID :: string
  cd_Kind :: CaseDecisionKind
  cd_TargetRefs :: "string list"
  cd_RevealRefs :: "string list"
  cd_CulpritRef :: string
  cd_MethodRef :: string
  cd_MotiveRef :: string

definition CaseDecisionID :: "string \<Rightarrow> string \<Rightarrow> string \<Rightarrow> string \<Rightarrow> string" where
  "CaseDecisionID turnID actionID caseID actorID =
     deterministicID caseDecisionIdentityDomain [turnID, actionID, caseID, actorID]"

definition CaseDecision_Schema :: MessageType where
  "CaseDecision_Schema = payloadSchema CategoryCaseDecision"

text \<open>The loop that requires every reference to be an entity id and to occur once.\<close>

fun refsLoop :: "ext \<Rightarrow> string \<Rightarrow> string list \<Rightarrow> string list \<Rightarrow> gerror option" where
  "refsLoop X field seen [] = None"
| "refsLoop X field seen (ref # refs) =
     (case requireEntityID X field ref of
        Some e \<Rightarrow> Some e
      | None \<Rightarrow>
          if List.member seen ref then Some (Errorf (field @ '' repeats reference''))
          else refsLoop X field (ref # seen) refs)"

definition validateCaseDecisionRefs :: "ext \<Rightarrow> string \<Rightarrow> string list \<Rightarrow> nat \<Rightarrow> gerror option" where
  "validateCaseDecisionRefs X field refs limit =
     (if limit < length refs then Some (Errorf (field @ '' carries too many references''))
      else refsLoop X field [] refs)"

definition validateAccusationRefs :: "ext \<Rightarrow> CaseDecision \<Rightarrow> gerror option" where
  "validateAccusationRefs X d =
     (let refs = [(''culprit_ref'', cd_CulpritRef d), (''method_ref'', cd_MethodRef d),
                  (''motive_ref'', cd_MotiveRef d)] in
      if cd_Kind d = CaseDecisionAccuse
      then forErr (\<lambda>(name, v). requireEntityID X name v) refs
      else forErr (\<lambda>(name, v). failIf (v \<noteq> []) (Errorf (name @ '' is forbidden''))) refs)"

definition CaseDecision_Validate :: "ext \<Rightarrow> CaseDecision \<Rightarrow> gerror option" where
  "CaseDecision_Validate X d =
     firstErr [
       requireIDSegment X ''turn_id'' (cd_TurnID d),
       requireActionID X ''action_id'' (cd_ActionID d),
       failIf (cd_TurnID d \<noteq> TurnIDForAction (cd_ActionID d))
         (Errorf ''turn_id is not the 1:1 turn for action_id''),
       requireEntityID X ''case_id'' (cd_CaseID d),
       requireEntityID X ''actor_id'' (cd_ActorID d),
       failIf (\<not> List.member orderedCaseDecisionKinds (cd_Kind d))
         (Errorf ''kind is not a registered case decision kind''),
       validateCaseDecisionRefs X ''target_refs'' (cd_TargetRefs d) MaxCaseDecisionTargets,
       validateCaseDecisionRefs X ''reveal_refs'' (cd_RevealRefs d) MaxCaseDecisionReveals,
       validateAccusationRefs X d,
       failIf (cd_DecisionID d \<noteq> CaseDecisionID (cd_TurnID d) (cd_ActionID d) (cd_CaseID d) (cd_ActorID d))
         (Errorf ''decision_id does not match the deterministic identity'')]"

type_synonym CaseDecisionStatus = string

definition CaseDecisionStatusDecision :: CaseDecisionStatus where
  [case_names_set]: "CaseDecisionStatusDecision = ''decision''"
definition CaseDecisionStatusNotApplicable :: CaseDecisionStatus where
  [case_names_set]: "CaseDecisionStatusNotApplicable = ''not-applicable''"

record CaseDecisionRecord =
  cdr_TurnID :: string
  cdr_ActionID :: string
  cdr_Status :: CaseDecisionStatus
  cdr_Decision :: "CaseDecision option"

definition CaseDecisionRecord_Schema :: MessageType where
  "CaseDecisionRecord_Schema = payloadSchema CategoryCaseDecisionRecord"

definition CaseDecisionRecord_Validate :: "ext \<Rightarrow> CaseDecisionRecord \<Rightarrow> gerror option" where
  "CaseDecisionRecord_Validate X r =
     firstErr [
       requireIDSegment X ''turn_id'' (cdr_TurnID r),
       requireActionID X ''action_id'' (cdr_ActionID r),
       failIf (cdr_TurnID r \<noteq> TurnIDForAction (cdr_ActionID r))
         (Errorf ''turn_id is not the 1:1 turn for action_id''),
       (if cdr_Status r = CaseDecisionStatusDecision
        then (case cdr_Decision r of
            None \<Rightarrow> Some (Errorf ''decision is required'')
          | Some d \<Rightarrow>
              firstErr [
                wrapErr ''decision'' (CaseDecision_Validate X d),
                failIf (cd_TurnID d \<noteq> cdr_TurnID r \<or> cd_ActionID d \<noteq> cdr_ActionID r)
                  (Errorf ''decision identity does not match record identity'')])
        else if cdr_Status r = CaseDecisionStatusNotApplicable
        then failIf (cdr_Decision r \<noteq> None) (Errorf ''decision is forbidden'')
        else Some (Errorf ''status is not a registered case decision record status''))]"

definition CaseDecisionRecord_projection ::
    "ext \<Rightarrow> CaseDecisionRecord \<Rightarrow> string \<Rightarrow> string \<Rightarrow> string \<Rightarrow> time \<Rightarrow> tripleProjection" where
  "CaseDecisionRecord_projection X r turnEntityID decisionRef source at =
     (let p = (projection0 (CaseDecisionRecord_Validate X r) turnEntityID (cdr_TurnID r) source at)
        \<lparr>tp_refPredicate := TurnCaseDecisionRef, tp_refName := ''case decision ref'',
         tp_ref := decisionRef\<rparr> in
      if cdr_Status r = CaseDecisionStatusNotApplicable
      then p\<lparr>tp_scalarless := True, tp_registered := CaseDecisionNoOpScalarPredicates\<rparr>
      else (case cdr_Decision r of
          None \<Rightarrow> p
        | Some d \<Rightarrow> p\<lparr>tp_registered := CaseDecisionScalarPredicates,
                      tp_objects := [(TurnCaseDecisionKind, AString (cd_Kind d))]\<rparr>))"

definition CaseDecisionRecord_Triples ::
    "ext \<Rightarrow> CaseDecisionRecord \<Rightarrow> string \<Rightarrow> string \<Rightarrow> string \<Rightarrow> time \<Rightarrow> gerror + Triple list" where
  "CaseDecisionRecord_Triples X r turnEntityID decisionRef source at =
     build X (CaseDecisionRecord_projection X r turnEntityID decisionRef source at)"

section \<open>The result of an accusation\<close>

definition accusationResultIdentityDomain :: string where
  "accusationResultIdentityDomain = ''accusation-result/v1''"

type_synonym AccusationOutcome = string

definition AccusationCorrect :: AccusationOutcome where [case_names_set]: "AccusationCorrect = ''correct''"
definition AccusationIncorrect :: AccusationOutcome where [case_names_set]: "AccusationIncorrect = ''incorrect''"

definition orderedAccusationOutcomes :: "AccusationOutcome list" where
  "orderedAccusationOutcomes = [AccusationCorrect, AccusationIncorrect]"

definition AccusationOutcomes :: "AccusationOutcome list" where
  "AccusationOutcomes = orderedAccusationOutcomes"

record AccusationResult =
  ar_ResultID :: string
  ar_TurnID :: string
  ar_CaseID :: string
  ar_DecisionID :: string
  ar_Outcome :: AccusationOutcome

definition AccusationResultID :: "string \<Rightarrow> string \<Rightarrow> string \<Rightarrow> string" where
  "AccusationResultID turnID caseID decisionID =
     deterministicID accusationResultIdentityDomain [turnID, caseID, decisionID]"

definition AccusationResult_Schema :: MessageType where
  "AccusationResult_Schema = payloadSchema CategoryAccusationResult"

definition requireSHA256 :: "string \<Rightarrow> string \<Rightarrow> gerror option" where
  "requireSHA256 field v =
     (if length v \<noteq> 64 then Some (Errorf (field @ '' must be a lowercase SHA-256 value''))
      else (case hexDecode v of
          None \<Rightarrow> Some (Errorf (field @ '' must be a lowercase SHA-256 value''))
        | Some decoded \<Rightarrow>
            failIf (hexEncode decoded \<noteq> v) (Errorf (field @ '' must be a lowercase SHA-256 value''))))"

definition AccusationResult_Validate :: "ext \<Rightarrow> AccusationResult \<Rightarrow> gerror option" where
  "AccusationResult_Validate X r =
     firstErr [
       requireIDSegment X ''turn_id'' (ar_TurnID r),
       requireEntityID X ''case_id'' (ar_CaseID r),
       requireSHA256 ''decision_id'' (ar_DecisionID r),
       failIf (\<not> List.member orderedAccusationOutcomes (ar_Outcome r))
         (Errorf ''outcome is not a registered accusation outcome''),
       failIf (ar_ResultID r \<noteq> AccusationResultID (ar_TurnID r) (ar_CaseID r) (ar_DecisionID r))
         (Errorf ''result_id does not match the deterministic identity'')]"

section \<open>The companion's decision\<close>

definition MaxCompanionDecisionEvidence :: nat where "MaxCompanionDecisionEvidence = 8"
definition companionDecisionIdentityDomain :: string where
  "companionDecisionIdentityDomain = ''companion-decision/v1''"

type_synonym CompanionDecisionKind = string

definition CompanionDecisionSilent :: CompanionDecisionKind where [case_names_set]: "CompanionDecisionSilent = ''silent''"
definition CompanionDecisionQuip :: CompanionDecisionKind where [case_names_set]: "CompanionDecisionQuip = ''quip''"
definition CompanionDecisionQuestion :: CompanionDecisionKind where [case_names_set]: "CompanionDecisionQuestion = ''question''"
definition CompanionDecisionWarning :: CompanionDecisionKind where [case_names_set]: "CompanionDecisionWarning = ''warning''"
definition CompanionDecisionRecall :: CompanionDecisionKind where [case_names_set]: "CompanionDecisionRecall = ''recall''"
definition CompanionDecisionHint :: CompanionDecisionKind where [case_names_set]: "CompanionDecisionHint = ''hint''"

definition companionDecisionKinds :: "CompanionDecisionKind list" where
  "companionDecisionKinds = [
     CompanionDecisionSilent, CompanionDecisionQuip, CompanionDecisionQuestion,
     CompanionDecisionWarning, CompanionDecisionRecall, CompanionDecisionHint]"

definition CompanionDecisionKinds :: "CompanionDecisionKind list" where
  "CompanionDecisionKinds = companionDecisionKinds"

record CompanionDecision =
  cn_DecisionID :: string
  cn_TurnID :: string
  cn_ContextRef :: string
  cn_PlayerID :: string
  cn_CompanionID :: string
  cn_Kind :: CompanionDecisionKind
  cn_HintLevel :: HintLevel
  cn_EvidenceRefs :: "string list"
  cn_TargetRef :: string

definition CompanionDecisionID :: "string \<Rightarrow> string \<Rightarrow> string \<Rightarrow> string \<Rightarrow> string" where
  "CompanionDecisionID turnID contextRef playerID companionID =
     deterministicID companionDecisionIdentityDomain [turnID, contextRef, playerID, companionID]"

definition CompanionDecision_Schema :: MessageType where
  "CompanionDecision_Schema = payloadSchema CategoryCompanionDecision"

definition CompanionDecision_Validate :: "ext \<Rightarrow> CompanionDecision option \<Rightarrow> gerror option" where
  "CompanionDecision_Validate X decision =
     (case decision of
        None \<Rightarrow> Some (Errorf ''companion decision is required'')
      | Some d \<Rightarrow>
        firstErr [
          requireIDSegment X ''turn_id'' (cn_TurnID d),
          requireEntityID X ''context_ref'' (cn_ContextRef d),
          requireEntityID X ''player_id'' (cn_PlayerID d),
          requireEntityID X ''companion_id'' (cn_CompanionID d),
          failIf (\<not> List.member companionDecisionKinds (cn_Kind d))
            (Errorf ''kind is not a registered companion decision kind''),
          (if cn_Kind d = CompanionDecisionHint
           then wrapErr ''hint_level is required and must be closed'' (errOf (ParseHintLevel (cn_HintLevel d)))
           else failIf (cn_HintLevel d \<noteq> []) (Errorf ''hint_level is forbidden'')),
          failIf (MaxCompanionDecisionEvidence < length (cn_EvidenceRefs d))
            (Errorf ''evidence_refs carries too many references''),
          refsLoop X ''evidence_refs'' [] (cn_EvidenceRefs d),
          failIf (List.member [CompanionDecisionWarning, CompanionDecisionRecall, CompanionDecisionHint] (cn_Kind d)
              \<and> cn_EvidenceRefs d = [])
            (Errorf ''evidence_refs is required''),
          (if cn_TargetRef d \<noteq> [] then requireEntityID X ''target_ref'' (cn_TargetRef d) else None),
          failIf (cn_DecisionID d \<noteq>
              CompanionDecisionID (cn_TurnID d) (cn_ContextRef d) (cn_PlayerID d) (cn_CompanionID d))
            (Errorf ''decision_id does not match the deterministic identity'')])"

section \<open>The companion's stage of a turn\<close>

type_synonym CompanionStageStatus = string

definition CompanionStageDecision :: CompanionStageStatus where [case_names_set]: "CompanionStageDecision = ''decision''"
definition CompanionStageNoActiveBond :: CompanionStageStatus where
  [case_names_set]: "CompanionStageNoActiveBond = ''no-active-bond''"
definition CompanionStageNoTrigger :: CompanionStageStatus where [case_names_set]: "CompanionStageNoTrigger = ''no-trigger''"
definition CompanionStageExhausted :: CompanionStageStatus where [case_names_set]: "CompanionStageExhausted = ''exhausted''"

definition companionStageStatuses :: "CompanionStageStatus list" where
  "companionStageStatuses =
     [CompanionStageDecision, CompanionStageNoActiveBond, CompanionStageNoTrigger, CompanionStageExhausted]"

record CompanionStageRecord =
  csr_TurnID :: string
  csr_PlayerID :: string
  csr_CompanionID :: string
  csr_BondID :: string
  csr_Status :: CompanionStageStatus
  csr_TriggerKind :: CompanionTriggerKind
  csr_TriggerSource :: CompanionTriggerSource
  csr_DecisionRef :: string

definition CompanionStageRecord_Schema :: MessageType where
  "CompanionStageRecord_Schema = payloadSchema CategoryCompanionStageRecord"

definition requireTypedEntityID :: "ext \<Rightarrow> string \<Rightarrow> string \<Rightarrow> EntityKind \<Rightarrow> gerror option" where
  "requireTypedEntityID X field v kind =
     (case requireEntityID X field v of
        Some e \<Rightarrow> Some e
      | None \<Rightarrow>
          (case ParseEntityID X v of
             Inl e \<Rightarrow> Some e
           | Inr parts \<Rightarrow> failIf (ep_Type parts \<noteq> kind) (Errorf (field @ '' has another type''))))"

definition CompanionStageRecord_Validate :: "ext \<Rightarrow> CompanionStageRecord option \<Rightarrow> gerror option" where
  "CompanionStageRecord_Validate X rec =
     (case rec of
        None \<Rightarrow> Some (Errorf ''companion stage record is required'')
      | Some r \<Rightarrow>
        firstErr [
          requireIDSegment X ''turn_id'' (csr_TurnID r),
          requireTypedEntityID X ''player_id'' (csr_PlayerID r) EntityKindPlayer,
          failIf (\<not> List.member companionStageStatuses (csr_Status r))
            (Errorf ''status is not a registered companion stage status''),
          (if csr_Status r = CompanionStageNoActiveBond
           then failIf (csr_CompanionID r \<noteq> [] \<or> csr_BondID r \<noteq> [] \<or> csr_TriggerKind r \<noteq> []
                  \<or> csr_TriggerSource r \<noteq> [] \<or> csr_DecisionRef r \<noteq> [])
                (Errorf ''no-active-bond record forbids bond, companion, trigger, and decision'')
           else firstErr [
             requireTypedEntityID X ''companion_id'' (csr_CompanionID r) EntityKindCharacter,
             requireTypedEntityID X ''bond_id'' (csr_BondID r) EntityKindCompanionBond,
             wrapErr ''trigger_kind'' (errOf (ParseCompanionTrigger (csr_TriggerKind r))),
             wrapErr ''trigger_source'' (errOf (ParseCompanionTriggerSource (csr_TriggerSource r))),
             (if csr_Status r = CompanionStageNoTrigger
              then failIf (csr_TriggerKind r \<noteq> CompanionTriggerNone
                     \<or> csr_TriggerSource r \<noteq> CompanionTriggerSourceNone \<or> csr_DecisionRef r \<noteq> [])
                   (Errorf ''no-trigger record requires none/none and forbids a decision'')
              else firstErr [
                failIf (csr_TriggerKind r = CompanionTriggerNone
                    \<or> csr_TriggerSource r = CompanionTriggerSourceNone)
                  (Errorf ''decision and exhausted records require a non-none trigger and source''),
                failIf ((csr_TriggerKind r = CompanionTriggerPlayerHint)
                    \<noteq> (csr_TriggerSource r = CompanionTriggerSourceCaseDecision))
                  (Errorf ''player-hint and case-decision trigger values must be paired''),
                failIf ((csr_TriggerKind r = CompanionTriggerWarning)
                    \<noteq> (csr_TriggerSource r = CompanionTriggerSourceResolvedRisk))
                  (Errorf ''warning and resolved-risk trigger values must be paired''),
                failIf (csr_Status r = CompanionStageExhausted \<and> csr_TriggerKind r \<noteq> CompanionTriggerWarning)
                  (Errorf ''exhausted companion stage requires the automatic warning trigger''),
                RequireStorageRef ''decision_ref'' (csr_DecisionRef r)])])])"

definition CompanionStageRecord_Triples ::
    "ext \<Rightarrow> CompanionStageRecord \<Rightarrow> string \<Rightarrow> string \<Rightarrow> string \<Rightarrow> time \<Rightarrow> gerror + Triple list" where
  "CompanionStageRecord_Triples X r turnEntityID stageRef source at =
     (case firstErr [
          CompanionStageRecord_Validate X (Some r),
          RequireTurnEntityID X (csr_TurnID r) turnEntityID,
          RequireStorageRef ''companion stage ref'' stageRef] of
        Some e \<Rightarrow> Inl e
      | None \<Rightarrow>
          Inr (recordTriple turnEntityID turnEntityID source at TurnCompanionStageRef (AString stageRef) #
            (if csr_Status r \<noteq> CompanionStageNoActiveBond
             then [recordTriple turnEntityID turnEntityID source at TurnCompanionTriggerKind
                     (AString (csr_TriggerKind r)),
                   recordTriple turnEntityID turnEntityID source at TurnCompanionTriggerSource
                     (AString (csr_TriggerSource r))]
             else [])))"

section \<open>What validation guarantees\<close>

lemma refsLoop_None:
  "refsLoop X field seen refs = None \<Longrightarrow>
     distinct refs \<and> set refs \<inter> set seen = {} \<and> (\<forall>r \<in> set refs. requireEntityID X field r = None)"
proof (induction refs arbitrary: seen)
  case (Cons r refs)
  then have "requireEntityID X field r = None" "r \<notin> set seen" "refsLoop X field (r # seen) refs = None"
    by (auto split: option.splits if_splits)
  with Cons.IH [of "r # seen"] show ?case by auto
qed simp

lemma requireEntityID_None: "requireEntityID X f v = None \<Longrightarrow> v \<noteq> [] \<and> ValidateEntityID X v = None"
  by (auto simp: requireEntityID_def)

lemma CaseDecision_Validate_None:
  assumes "CaseDecision_Validate X d = None"
  shows "cd_TurnID d = TurnIDForAction (cd_ActionID d)"
    and "cd_DecisionID d = CaseDecisionID (cd_TurnID d) (cd_ActionID d) (cd_CaseID d) (cd_ActorID d)"
    and "cd_Kind d \<in> set orderedCaseDecisionKinds"
    and "distinct (cd_TargetRefs d)" "length (cd_TargetRefs d) \<le> MaxCaseDecisionTargets"
    and "distinct (cd_RevealRefs d)" "length (cd_RevealRefs d) \<le> MaxCaseDecisionReveals"
    and "requireIDSegment X ''turn_id'' (cd_TurnID d) = None"
    and "requireEntityID X ''case_id'' (cd_CaseID d) = None"
    and "requireEntityID X ''actor_id'' (cd_ActorID d) = None"
    and "(cd_Kind d = CaseDecisionAccuse \<longleftrightarrow> cd_CulpritRef d \<noteq> [])"
  using assms requireEntityID_None [of X "''culprit_ref''" "cd_CulpritRef d"]
    refsLoop_None [of X "''target_refs''" "[]" "cd_TargetRefs d"]
    refsLoop_None [of X "''reveal_refs''" "[]" "cd_RevealRefs d"]
  by (auto simp add: CaseDecision_Validate_def validateCaseDecisionRefs_def validateAccusationRefs_def Let_def
      simp del: forErr.simps split: if_split_asm)

text \<open>A digest is 32 bytes, so every deterministic identity passes the SHA-256 check.\<close>

lemma requireSHA256_deterministicID: "requireSHA256 f (deterministicID domain vs) = None"
  by (simp add: requireSHA256_def deterministicID_def length_sha256)

end
