(* ===== verification/Content_Artifacts.thy ===== *)
theory Content_Artifacts
  imports Content_Ref Payload_Case Payload_Verdict "HOL-Library.List_Lexorder" "HOL-Library.Char_ord"
begin

text \<open>
  The artifacts \<^verbatim>\<open>internal/content\<close> keeps outside the graph: failure details
  (\<^verbatim>\<open>failure.go\<close>), knowledge receipts and testimony (\<^verbatim>\<open>knowledge.go\<close>), case progress
  (\<^verbatim>\<open>caseprogress.go\<close>), narrations (\<^verbatim>\<open>narration.go\<close>) and accusation records
  (\<^verbatim>\<open>accusation.go\<close>), with the contract each is checked against before it is written and after
  it is read. Where the code ranges over a Go map of fields, the order of the checks is one of the
  orders Go may choose; whether a record is accepted does not depend on it.
\<close>

section \<open>Framed identities\<close>

definition framedID :: "string list \<Rightarrow> string" where
  "framedID parts = hexEncode (sha256 (concat (map memberBytes parts)))"

definition knowledgeReceiptIdentityDomain :: string where
  "knowledgeReceiptIdentityDomain = ''knowledge-receipt/v1''"
definition testimonyIdentityDomain :: string where "testimonyIdentityDomain = ''testimony/v1''"
definition caseProgressIdentityDomain :: string where "caseProgressIdentityDomain = ''case-progress/v1''"

definition KnowledgeReceiptID :: "string \<Rightarrow> string \<Rightarrow> string" where
  "KnowledgeReceiptID turnID decisionID = framedID [knowledgeReceiptIdentityDomain, turnID, decisionID]"

definition TestimonyID :: "string \<Rightarrow> string \<Rightarrow> string \<Rightarrow> string \<Rightarrow> string \<Rightarrow> string" where
  "TestimonyID turnID decisionID beliefID recipientID evidenceID =
     framedID [testimonyIdentityDomain, turnID, decisionID, beliefID, recipientID, evidenceID]"

definition CaseProgressEventID :: "string \<Rightarrow> string \<Rightarrow> CaseLifecycleEventKind \<Rightarrow> string" where
  "CaseProgressEventID turnID decisionID kind =
     framedID [caseProgressIdentityDomain, turnID, decisionID, kind]"

section \<open>Failure details\<close>

definition MaxFailureMessageBytes :: nat where "MaxFailureMessageBytes = 4 * 1024"

type_synonym FailureClass = string

named_theorems artifact_names \<open>literal values of artifact classes and statuses\<close>

definition FailureClassProviderModel :: FailureClass where [artifact_names]: "FailureClassProviderModel = ''provider-model''"
definition FailureClassModelOutputLimit :: FailureClass where
  [artifact_names]: "FailureClassModelOutputLimit = ''model-output-limit''"
definition FailureClassAgentRuntime :: FailureClass where [artifact_names]: "FailureClassAgentRuntime = ''agent-runtime''"
definition FailureClassAgentLimit :: FailureClass where [artifact_names]: "FailureClassAgentLimit = ''agent-limit''"
definition FailureClassDeterministic :: FailureClass where [artifact_names]: "FailureClassDeterministic = ''deterministic''"
definition FailureClassUnknown :: FailureClass where [artifact_names]: "FailureClassUnknown = ''unknown''"

definition failureClasses :: "FailureClass list" where
  "failureClasses = [
     FailureClassProviderModel, FailureClassModelOutputLimit, FailureClassAgentRuntime,
     FailureClassAgentLimit, FailureClassDeterministic, FailureClassUnknown]"

definition FailureClasses :: "FailureClass list" where "FailureClasses = failureClasses"

definition ParseFailureClass :: "string \<Rightarrow> gerror + FailureClass" where
  "ParseFailureClass v =
     (if List.member failureClasses v then Inr v
      else Inl (Errorf ''failure class is outside the closed diagnostic set''))"

record FailureDetail =
  fd_TurnID :: string
  fd_Reason :: FailureReason
  fd_Class :: FailureClass
  fd_AuthorizationReason :: AuthorizationReason
  fd_Message :: string
  fd_Target :: string
  fd_Committed :: "string list"

definition FailureDetail_Validate :: "ext \<Rightarrow> FailureDetail \<Rightarrow> gerror option" where
  "FailureDetail_Validate X d =
     firstErr [
       wrapErr ''turn_id'' (ValidateIDSegment X (fd_TurnID d)),
       errOf (ParseFailureReason (fd_Reason d)),
       (if fd_Class d \<noteq> [] then errOf (ParseFailureClass (fd_Class d)) else None),
       failIf (fd_Reason d = FailureKnowledgeUnauthorized \<and> fd_Class d \<noteq> [] \<and> fd_AuthorizationReason d = [])
         (Errorf ''classed failure detail requires authorization_reason''),
       (if fd_AuthorizationReason d \<noteq> []
        then firstErr [
          failIf (fd_Reason d \<noteq> FailureKnowledgeUnauthorized)
            (Errorf ''authorization_reason is only valid for unauthorized knowledge''),
          failIf (fd_Class d \<noteq> FailureClassDeterministic)
            (Errorf ''authorization_reason requires the deterministic failure class''),
          errOf (ParseAuthorizationReason (fd_AuthorizationReason d))]
        else None),
       failIf (fd_Message d = []) (Errorf ''failure detail carries no message''),
       failIf (MaxFailureMessageBytes < length (fd_Message d))
         (Errorf ''failure detail message exceeds the budget''),
       (if fd_Target d \<noteq> []
        then wrapErr ''failure detail target is not a canonical entity ID'' (ValidateEntityID X (fd_Target d))
        else None),
       forErr (\<lambda>c. wrapErr ''failure detail committed is not a canonical entity ID'' (ValidateEntityID X c))
         (fd_Committed d)]"

section \<open>Knowledge\<close>

definition MaxKnowledgeReceiptEntries :: nat where "MaxKnowledgeReceiptEntries = 24"
definition MaxTestimonyProseBytes :: nat where "MaxTestimonyProseBytes = 32 * 1024"

type_synonym KnowledgeReceiptStatus = string

definition KnowledgeCommitted :: KnowledgeReceiptStatus where [artifact_names]: "KnowledgeCommitted = ''committed''"
definition KnowledgeNotApplicable :: KnowledgeReceiptStatus where
  [artifact_names]: "KnowledgeNotApplicable = ''not-applicable''"

record KnowledgeReceiptEntry =
  ke_RecipientID :: string
  ke_EvidenceID :: string
  ke_KnowledgeID :: string
  ke_RevelationID :: string
  ke_TestimonyRef :: string

record KnowledgeReceipt =
  kr_TurnID :: string
  kr_DecisionID :: string
  kr_Status :: KnowledgeReceiptStatus
  kr_Entries :: "KnowledgeReceiptEntry list"

definition KnowledgeReceiptEntry_validate :: "ext \<Rightarrow> KnowledgeReceiptEntry \<Rightarrow> gerror option" where
  "KnowledgeReceiptEntry_validate X e =
     firstErr [
       forErr (\<lambda>(name, i). wrapErr name (ValidateEntityID X i))
         [(''recipient_id'', ke_RecipientID e), (''evidence_id'', ke_EvidenceID e),
          (''knowledge_id'', ke_KnowledgeID e), (''revelation_id'', ke_RevelationID e)],
       (if ke_TestimonyRef e \<noteq> []
        then wrapErr ''testimony_ref'' (errOf (ParseRef X (ke_TestimonyRef e))) else None)]"

text \<open>Sorted strictly by recipient and evidence, joined by a zero byte.\<close>

definition entryKey :: "KnowledgeReceiptEntry \<Rightarrow> string" where
  "entryKey e = ke_RecipientID e @ [CHR 0x00] @ ke_EvidenceID e"

fun entriesLoop :: "ext \<Rightarrow> string \<Rightarrow> KnowledgeReceiptEntry list \<Rightarrow> gerror option" where
  "entriesLoop X previous [] = None"
| "entriesLoop X previous (e # es) =
     (case KnowledgeReceiptEntry_validate X e of
        Some err \<Rightarrow> Some (Wrapf ''entry'' err)
      | None \<Rightarrow>
          if entryKey e \<le> previous
          then Some (Errorf ''knowledge receipt entries must be sorted and unique by recipient/evidence'')
          else entriesLoop X (entryKey e) es)"

definition KnowledgeReceipt_Validate :: "ext \<Rightarrow> KnowledgeReceipt option \<Rightarrow> gerror option" where
  "KnowledgeReceipt_Validate X receipt =
     (case receipt of
        None \<Rightarrow> Some (Errorf ''knowledge receipt is nil'')
      | Some r \<Rightarrow>
        firstErr [
          wrapErr ''turn_id'' (ValidateIDSegment X (kr_TurnID r)),
          failIf (MaxKnowledgeReceiptEntries < length (kr_Entries r))
            (Errorf ''knowledge receipt has too many entries''),
          (if kr_Status r = KnowledgeCommitted
           then failIf (kr_DecisionID r = []) (Errorf ''committed knowledge receipt requires decision_id'')
           else if kr_Status r = KnowledgeNotApplicable
           then failIf (kr_DecisionID r \<noteq> [] \<or> length (kr_Entries r) \<noteq> 0)
                  (Errorf ''not-applicable knowledge receipt forbids decision_id and entries'')
           else Some (Errorf ''unknown knowledge receipt status'')),
          entriesLoop X [] (kr_Entries r)])"

text \<open>A sort by recipient, then evidence; entries with equal keys keep their order here.\<close>

definition SortedKnowledgeEntries :: "KnowledgeReceiptEntry list \<Rightarrow> KnowledgeReceiptEntry list" where
  "SortedKnowledgeEntries entries = sort_key ke_RecipientID (sort_key ke_EvidenceID entries)"

record Testimony =
  te_TurnID :: string
  te_DecisionID :: string
  te_BeliefID :: string
  te_SourceActorID :: string
  te_RecipientID :: string
  te_EvidenceID :: string
  te_Stance :: BeliefStance
  te_Prose :: string

definition Testimony_Validate :: "ext \<Rightarrow> Testimony option \<Rightarrow> gerror option" where
  "Testimony_Validate X testimony =
     (case testimony of
        None \<Rightarrow> Some (Errorf ''testimony is nil'')
      | Some t \<Rightarrow>
        firstErr [
          wrapErr ''turn_id'' (ValidateIDSegment X (te_TurnID t)),
          failIf (te_DecisionID t = []) (Errorf ''testimony requires decision_id''),
          forErr (\<lambda>(name, i). wrapErr name (ValidateEntityID X i))
            [(''belief_id'', te_BeliefID t), (''source_actor_id'', te_SourceActorID t),
             (''recipient_id'', te_RecipientID t), (''evidence_id'', te_EvidenceID t)],
          failIf (\<not> BeliefStance_Valid (te_Stance t)) (Errorf ''testimony stance is not closed''),
          failIf (te_Prose t = [] \<or> MaxTestimonyProseBytes < length (te_Prose t))
            (Errorf ''testimony prose is out of range'')])"

section \<open>Case progress\<close>

type_synonym CaseProgressStatus = string

definition CaseProgressEventRecorded :: CaseProgressStatus where
  [artifact_names]: "CaseProgressEventRecorded = ''event-recorded''"
definition CaseProgressNotApplicable :: CaseProgressStatus where
  [artifact_names]: "CaseProgressNotApplicable = ''not-applicable''"

record CaseProgressRecord =
  cp_TurnID :: string
  cp_DecisionID :: string
  cp_CaseID :: string
  cp_Status :: CaseProgressStatus
  cp_EventID :: string
  cp_EventKind :: CaseLifecycleEventKind

definition CaseProgressRecord_Validate :: "ext \<Rightarrow> CaseProgressRecord option \<Rightarrow> gerror option" where
  "CaseProgressRecord_Validate X rec =
     (case rec of
        None \<Rightarrow> Some (Errorf ''case progress record is nil'')
      | Some r \<Rightarrow>
        firstErr [
          wrapErr ''turn_id'' (ValidateIDSegment X (cp_TurnID r)),
          (if cp_Status r = CaseProgressEventRecorded
           then firstErr [
             failIf (cp_DecisionID r = [] \<or> cp_CaseID r = [] \<or> cp_EventID r = [])
               (Errorf ''recorded case progress requires decision_id, case_id, and event_id''),
             wrapErr ''case_id'' (ValidateEntityID X (cp_CaseID r)),
             wrapErr ''event_kind'' (errOf (ParseCaseLifecycleEventKind (cp_EventKind r))),
             failIf (cp_EventID r \<noteq> CaseProgressEventID (cp_TurnID r) (cp_DecisionID r) (cp_EventKind r))
               (Errorf ''event_id does not match deterministic identity'')]
           else if cp_Status r = CaseProgressNotApplicable
           then firstErr [
             failIf (cp_EventID r \<noteq> [] \<or> cp_EventKind r \<noteq> [])
               (Errorf ''not-applicable case progress forbids event_id and event_kind''),
             (if cp_CaseID r \<noteq> []
              then firstErr [
                wrapErr ''case_id'' (ValidateEntityID X (cp_CaseID r)),
                failIf (cp_DecisionID r = [])
                  (Errorf ''case-scoped not-applicable progress requires decision_id'')]
              else failIf (cp_DecisionID r \<noteq> []) (Errorf ''non-case progress forbids decision_id''))]
           else Some (Errorf ''unknown case progress status''))])"

section \<open>Narration\<close>

record Narration =
  na_TurnID :: string
  na_Band :: OutcomeBand
  na_Prose :: string

definition Narration_Validate :: "ext \<Rightarrow> Narration \<Rightarrow> gerror option" where
  "Narration_Validate X n =
     firstErr [
       wrapErr ''turn_id'' (ValidateIDSegment X (na_TurnID n)),
       errOf (ParseOutcomeBand (na_Band n)),
       failIf (na_Prose n = []) (Errorf ''narration carries no prose''),
       failIf (MaxProseBytes < length (na_Prose n)) (Errorf ''narration prose exceeds the prose budget'')]"

section \<open>Accusation records\<close>

type_synonym AccusationRecordStatus = string

definition AccusationNotApplicable :: AccusationRecordStatus where
  [artifact_names]: "AccusationNotApplicable = ''not-applicable''"
definition AccusationResultRecorded :: AccusationRecordStatus where
  [artifact_names]: "AccusationResultRecorded = ''result''"

record AccusationRecord =
  acr_TurnID :: string
  acr_Status :: AccusationRecordStatus
  acr_Result :: "AccusationResult option"

definition AccusationRecord_Validate :: "ext \<Rightarrow> AccusationRecord option \<Rightarrow> gerror option" where
  "AccusationRecord_Validate X rec =
     (case rec of
        None \<Rightarrow> Some (Errorf ''accusation record is nil'')
      | Some r \<Rightarrow>
        firstErr [
          wrapErr ''turn_id'' (ValidateIDSegment X (acr_TurnID r)),
          (if acr_Status r = AccusationNotApplicable
           then failIf (acr_Result r \<noteq> None) (Errorf ''not-applicable accusation record forbids a result'')
           else if acr_Status r = AccusationResultRecorded
           then (case acr_Result r of
               None \<Rightarrow> Some (Errorf ''result accusation record requires a result'')
             | Some res \<Rightarrow>
                 firstErr [
                   wrapErr ''accusation result'' (AccusationResult_Validate X res),
                   failIf (ar_TurnID res \<noteq> acr_TurnID r)
                     (Errorf ''accusation record and result name different turns'')])
           else Some (Errorf ''unknown accusation record status''))])"

section \<open>Receipts are ordered\<close>

lemma entriesLoop_None:
  "entriesLoop X previous es = None \<Longrightarrow>
     sorted_wrt (<) (map entryKey es) \<and> (\<forall>e \<in> set es. previous < entryKey e)"
proof (induction es arbitrary: previous)
  case (Cons e es)
  then have "previous < entryKey e" "entriesLoop X (entryKey e) es = None"
    by (auto split: option.splits if_splits)
  with Cons.IH [of "entryKey e"] show ?case by auto
qed simp

end
