(* ===== verification/Content_Store.thy ===== *)
theory Content_Store
  imports Content_Artifacts
begin

text \<open>
  \<^verbatim>\<open>internal/content/store.go\<close>: the store that keeps artifacts in an object store and hands
  out references. The object store, the key-value bucket of immutable claims and the JSON codecs are
  parameters; the locales \<open>object_backend\<close> and \<open>exact_claims\<close> state what their documentation
  promises. The lemmas show that what is stored under a reference is what is read back, that one
  kind's reference is never decoded as another kind, and that a companion's decision is immutable
  once claimed.
\<close>

section \<open>Sentinels\<close>

definition ErrArtifactNotFound :: gerror where "ErrArtifactNotFound = Errorf ''stored artifact not found''"
definition ErrArtifactReference :: gerror where "ErrArtifactReference = Errorf ''invalid stored artifact reference''"
definition ErrArtifactCorrupt :: gerror where "ErrArtifactCorrupt = Errorf ''stored artifact is corrupt''"
definition ErrArtifactConflict :: gerror where "ErrArtifactConflict = Errorf ''stored artifact identity conflict''"

text \<open>Sentinels of the object store and of the key-value store.\<close>

definition ErrObjectNotFound :: gerror where "ErrObjectNotFound = External ''object not found''"
definition ErrKeyExists :: gerror where "ErrKeyExists = External ''key exists''"

section \<open>Backends\<close>

definition DefaultBucket :: string where "DefaultBucket = ''SEMMACHINA_CONTENT''"
definition MaxInstanceNameBytes :: nat where "MaxInstanceNameBytes = 32"
definition MaxCompanionDecisionBytes :: nat where "MaxCompanionDecisionBytes = 8 * 2 ^ 10"
definition ManagedStorageInstance :: string where "ManagedStorageInstance = ''objectstore''"

text \<open>
  A backend always stores and reads; one that also claims exactly supports the immutable artifacts.
\<close>

record 'w Backend =
  be_InstanceName :: string
  be_Put :: "string \<Rightarrow> string \<Rightarrow> ('w, unit) M"
  be_Get :: "string \<Rightarrow> ('w, string) M"
  be_ClaimExact :: "(string \<Rightarrow> string \<Rightarrow> ('w, string) M) option"

record 'w KeyValue =
  kv_Create :: "string \<Rightarrow> string \<Rightarrow> ('w, unit) M"
  kv_Get :: "string \<Rightarrow> ('w, string) M"

text \<open>\<^verbatim>\<open>ClaimExact\<close> over the object store's put and get; \<open>managed.go\<close> repeats it.\<close>

definition ClaimExact ::
    "(string \<Rightarrow> string \<Rightarrow> ('w, unit) M) \<Rightarrow> (string \<Rightarrow> ('w, string) M) \<Rightarrow> 'w KeyValue \<Rightarrow>
     string \<Rightarrow> string \<Rightarrow> ('w, string) M" where
  "ClaimExact put get claims key candidate =
     (if MaxCompanionDecisionBytes < length candidate
      then throw (Errorf ''immutable companion decision exceeds the limit'')
      else
        bindM (tryM (kv_Create claims key candidate) (\<lambda>r. case r of
            Inr _ \<Rightarrow> ret candidate
          | Inl err \<Rightarrow>
              if \<not> errors_Is err ErrKeyExists
              then throw (Wrapf ''create exact-resident claim'' err)
              else mapErr (Wrapf ''read exact-resident claim'') (kv_Get claims key))) (\<lambda>winner.
        tryM (get key) (\<lambda>r. case r of
            Inl err \<Rightarrow>
              if errors_Is err ErrObjectNotFound
              then bindM (mapErr (Wrapf ''repair exact-resident object'') (put key winner)) (\<lambda>_. ret winner)
              else throw (Wrapf ''read exact-resident object'' err)
          | Inr resident \<Rightarrow>
              if resident \<noteq> winner then throw (Wrapf ''object differs from its immutable claim'' ErrArtifactCorrupt)
              else ret winner)))"

definition ObjectBackend ::
    "string \<Rightarrow> (string \<Rightarrow> string \<Rightarrow> ('w, unit) M) \<Rightarrow> (string \<Rightarrow> ('w, string) M) \<Rightarrow> 'w KeyValue \<Rightarrow> 'w Backend" where
  "ObjectBackend inst put get claims =
     \<lparr>be_InstanceName = inst, be_Put = put, be_Get = get, be_ClaimExact = Some (ClaimExact put get claims)\<rparr>"

text \<open>
  The managed backend finds its store in the component registry on every call: the lookup yields
  the store's put and get, or why it is not there.
\<close>

definition ManagedBackend ::
    "('w, (string \<Rightarrow> string \<Rightarrow> ('w, unit) M) \<times> (string \<Rightarrow> ('w, string) M)) M \<Rightarrow> ('w, 'w KeyValue) M
     \<Rightarrow> 'w Backend" where
  "ManagedBackend providerStore exactClaims =
     (let put = (\<lambda>key v. bindM providerStore (\<lambda>(p, g). p key v));
          get = (\<lambda>key. bindM providerStore (\<lambda>(p, g). g key))
      in \<lparr>be_InstanceName = ManagedStorageInstance, be_Put = put, be_Get = get,
          be_ClaimExact = Some (\<lambda>key candidate.
            if MaxCompanionDecisionBytes < length candidate
            then throw (Errorf ''immutable companion decision exceeds the limit'')
            else bindM exactClaims (\<lambda>claims. ClaimExact put get claims key candidate))\<rparr>)"

definition validateInstanceName :: "string \<Rightarrow> gerror option" where
  "validateInstanceName name =
     firstErr [
       failIf (name = []) (Errorf ''content store requires a storage instance name''),
       failIf (MaxInstanceNameBytes < length name) (Errorf ''storage instance exceeds the budget''),
       failIf (List.member name RefSeparator) (Errorf ''storage instance contains the separator'')]"

definition NewStore :: "'w Backend option \<Rightarrow> gerror + 'w Backend" where
  "NewStore backend =
     (case backend of
        None \<Rightarrow> Inl (Errorf ''content store requires a storage backend'')
      | Some b \<Rightarrow> (case validateInstanceName (be_InstanceName b) of Some e \<Rightarrow> Inl e | None \<Rightarrow> Inr b))"

section \<open>Storing and reading an artifact\<close>

text \<open>\<^verbatim>\<open>json.Marshal\<close> and \<^verbatim>\<open>json.Unmarshal\<close> at an artifact's type.\<close>

record 'a codec =
  jc_marshal :: "'a \<Rightarrow> gerror + string"
  jc_unmarshal :: "string \<Rightarrow> gerror + 'a"

definition hasSuffix :: "string \<Rightarrow> string \<Rightarrow> bool" where
  "hasSuffix s p = (length p \<le> length s \<and> drop (length s - length p) s = p)"

definition put_artifact ::
    "ext \<Rightarrow> 'w Backend \<Rightarrow> 'a codec \<Rightarrow> ('a \<Rightarrow> gerror option) \<Rightarrow> Predicate \<Rightarrow> SubjectKind \<Rightarrow> string \<Rightarrow> 'a
     \<Rightarrow> ('w, Ref) M" where
  "put_artifact X b J validate refPredicate kind subjectID a =
     checkM (wrapErr ''refusing to store an invalid artifact'' (validate a))
     (bindM (liftR (KeyFor X refPredicate kind subjectID)) (\<lambda>key.
      let ref = \<lparr>rf_Instance = be_InstanceName b, rf_Key = key\<rparr> in
      checkM (Ref_Validate X ref)
      (bindM (mapErr (Wrapf ''encode artifact'') (liftR (jc_marshal J a))) (\<lambda>data.
       bindM (mapErr (Wrapf ''store artifact'') (be_Put b key data)) (\<lambda>_.
       ret ref)))))"

definition get_artifact ::
    "ext \<Rightarrow> 'w Backend \<Rightarrow> 'a codec \<Rightarrow> ('a \<Rightarrow> gerror option) \<Rightarrow> Predicate \<Rightarrow> Ref \<Rightarrow> ('w, 'a) M" where
  "get_artifact X b J validate refPredicate ref =
     (case Ref_Validate X ref of
        Some err \<Rightarrow> throw (Wrapf ''reference'' ErrArtifactReference)
      | None \<Rightarrow>
        if rf_Instance ref \<noteq> be_InstanceName b
        then throw (Wrapf ''reference names another storage instance'' ErrArtifactReference)
        else (case ArtifactSlot X refPredicate of
            Inl err \<Rightarrow> throw (Wrapf ''slot'' ErrArtifactReference)
          | Inr slot \<Rightarrow>
            if \<not> hasSuffix (rf_Key ref) (RefSeparator # slot)
            then throw (Wrapf ''reference does not address this kind of artifact'' ErrArtifactReference)
            else tryM (be_Get b (rf_Key ref)) (\<lambda>r. case r of
                Inl err \<Rightarrow>
                  if errors_Is err ErrObjectNotFound then throw (Wrapf2 ''resolve'' ErrArtifactNotFound err)
                  else throw (Wrapf ''resolve'' err)
              | Inr data \<Rightarrow>
                  (case jc_unmarshal J data of
                     Inl err \<Rightarrow> throw (Wrapf ''decode artifact'' ErrArtifactCorrupt)
                   | Inr a \<Rightarrow>
                       (case validate a of
                          Some err \<Rightarrow> throw (Wrapf ''stored artifact does not satisfy its own contract'' ErrArtifactCorrupt)
                        | None \<Rightarrow> ret a)))))"

text \<open>The shape shared by the operations that store an artifact of a turn.\<close>

definition put_for_turn ::
    "ext \<Rightarrow> 'w Backend \<Rightarrow> 'a codec \<Rightarrow> ('a \<Rightarrow> gerror option) \<Rightarrow> Predicate \<Rightarrow> string \<Rightarrow> string \<Rightarrow> 'a
     \<Rightarrow> ('w, Ref) M" where
  "put_for_turn X b J validate refPredicate turnID turnEntityID a =
     checkM (RequireTurnEntityID X turnID turnEntityID)
       (put_artifact X b J validate refPredicate SubjectTurn turnID a)"

definition PutAction ::
    "ext \<Rightarrow> 'w Backend \<Rightarrow> PlayerAction codec \<Rightarrow> string \<Rightarrow> PlayerAction option \<Rightarrow> ('w, Ref) M" where
  "PutAction X b J turnEntityID action =
     (case action of
        None \<Rightarrow> throw (Errorf ''storing an action requires an action'')
      | Some a \<Rightarrow> put_for_turn X b J (PlayerAction_Validate X) TurnActionRef
                    (TurnIDForAction (pa_ActionID a)) turnEntityID a)"

definition GetAction :: "ext \<Rightarrow> 'w Backend \<Rightarrow> PlayerAction codec \<Rightarrow> Ref \<Rightarrow> ('w, PlayerAction) M" where
  "GetAction X b J ref = get_artifact X b J (PlayerAction_Validate X) TurnActionRef ref"

definition PutVerdict ::
    "ext \<Rightarrow> 'w Backend \<Rightarrow> Verdict codec \<Rightarrow> string \<Rightarrow> Verdict option \<Rightarrow> ('w, Ref) M" where
  "PutVerdict X b J turnEntityID verdict =
     (case verdict of
        None \<Rightarrow> throw (Errorf ''storing a verdict requires a verdict'')
      | Some v \<Rightarrow> put_for_turn X b J (Verdict_Validate X) TurnVerdictRef (ve_TurnID v) turnEntityID v)"

definition GetVerdict :: "ext \<Rightarrow> 'w Backend \<Rightarrow> Verdict codec \<Rightarrow> Ref \<Rightarrow> ('w, Verdict) M" where
  "GetVerdict X b J ref = get_artifact X b J (Verdict_Validate X) TurnVerdictRef ref"

definition PutCaseDecisionRecord ::
    "ext \<Rightarrow> 'w Backend \<Rightarrow> CaseDecisionRecord codec \<Rightarrow> string \<Rightarrow> CaseDecisionRecord option \<Rightarrow> ('w, Ref) M" where
  "PutCaseDecisionRecord X b J turnEntityID rec =
     (case rec of
        None \<Rightarrow> throw (Errorf ''storing a case decision record requires a record'')
      | Some r \<Rightarrow> put_for_turn X b J (CaseDecisionRecord_Validate X) TurnCaseDecisionRef
                    (cdr_TurnID r) turnEntityID r)"

definition GetCaseDecisionRecord ::
    "ext \<Rightarrow> 'w Backend \<Rightarrow> CaseDecisionRecord codec \<Rightarrow> Ref \<Rightarrow> ('w, CaseDecisionRecord) M" where
  "GetCaseDecisionRecord X b J ref = get_artifact X b J (CaseDecisionRecord_Validate X) TurnCaseDecisionRef ref"

text \<open>The two companion artifacts are claimed, never overwritten.\<close>

definition put_exact ::
    "ext \<Rightarrow> 'w Backend \<Rightarrow> 'a codec \<Rightarrow> ('a \<Rightarrow> gerror option) \<Rightarrow> Predicate \<Rightarrow> string \<Rightarrow> string \<Rightarrow> 'a
     \<Rightarrow> ('w, Ref) M" where
  "put_exact X b J validate refPredicate turnID turnEntityID a =
     checkM (RequireTurnEntityID X turnID turnEntityID)
     (checkM (wrapErr ''refusing to store an invalid companion artifact'' (validate a))
     (bindM (liftR (KeyFor X refPredicate SubjectTurn turnID)) (\<lambda>key.
      let ref = \<lparr>rf_Instance = be_InstanceName b, rf_Key = key\<rparr> in
      checkM (Ref_Validate X ref)
      (bindM (mapErr (Wrapf ''encode companion artifact'') (liftR (jc_marshal J a))) (\<lambda>data.
       case be_ClaimExact b of
         None \<Rightarrow> throw (Errorf ''content backend does not support exact-resident companion artifacts'')
       | Some exact \<Rightarrow>
           bindM (mapErr (Wrapf ''establish companion artifact'') (exact key data)) (\<lambda>winner.
           if winner \<noteq> data
           then throw (Wrapf ''companion artifact already carries different semantics'' ErrArtifactConflict)
           else ret ref))))))"

definition PutCompanionDecision ::
    "ext \<Rightarrow> 'w Backend \<Rightarrow> CompanionDecision codec \<Rightarrow> string \<Rightarrow> CompanionDecision option \<Rightarrow> ('w, Ref) M" where
  "PutCompanionDecision X b J turnEntityID decision =
     (case decision of
        None \<Rightarrow> throw (Errorf ''storing a companion decision requires a decision'')
      | Some d \<Rightarrow> put_exact X b J (\<lambda>d. CompanionDecision_Validate X (Some d)) TurnCompanionDecisionRef
                    (cn_TurnID d) turnEntityID d)"

definition GetCompanionDecision ::
    "ext \<Rightarrow> 'w Backend \<Rightarrow> CompanionDecision codec \<Rightarrow> Ref \<Rightarrow> ('w, CompanionDecision) M" where
  "GetCompanionDecision X b J ref =
     get_artifact X b J (\<lambda>d. CompanionDecision_Validate X (Some d)) TurnCompanionDecisionRef ref"

definition PutCompanionStageRecord ::
    "ext \<Rightarrow> 'w Backend \<Rightarrow> CompanionStageRecord codec \<Rightarrow> string \<Rightarrow> CompanionStageRecord option \<Rightarrow> ('w, Ref) M" where
  "PutCompanionStageRecord X b J turnEntityID rec =
     (case rec of
        None \<Rightarrow> throw (Errorf ''storing a companion stage record requires a record'')
      | Some r \<Rightarrow> put_exact X b J (\<lambda>r. CompanionStageRecord_Validate X (Some r)) TurnCompanionStageRef
                    (csr_TurnID r) turnEntityID r)"

definition GetCompanionStageRecord ::
    "ext \<Rightarrow> 'w Backend \<Rightarrow> CompanionStageRecord codec \<Rightarrow> Ref \<Rightarrow> ('w, CompanionStageRecord) M" where
  "GetCompanionStageRecord X b J ref =
     get_artifact X b J (\<lambda>r. CompanionStageRecord_Validate X (Some r)) TurnCompanionStageRef ref"

definition PutAccusationRecord ::
    "ext \<Rightarrow> 'w Backend \<Rightarrow> AccusationRecord codec \<Rightarrow> string \<Rightarrow> AccusationRecord option \<Rightarrow> ('w, Ref) M" where
  "PutAccusationRecord X b J turnEntityID rec =
     (case rec of
        None \<Rightarrow> throw (Errorf ''storing an accusation record requires a record'')
      | Some r \<Rightarrow> put_for_turn X b J (\<lambda>r. AccusationRecord_Validate X (Some r)) TurnAccusationRef
                    (acr_TurnID r) turnEntityID r)"

definition GetAccusationRecord ::
    "ext \<Rightarrow> 'w Backend \<Rightarrow> AccusationRecord codec \<Rightarrow> Ref \<Rightarrow> ('w, AccusationRecord) M" where
  "GetAccusationRecord X b J ref =
     get_artifact X b J (\<lambda>r. AccusationRecord_Validate X (Some r)) TurnAccusationRef ref"

definition PutKnowledgeReceipt ::
    "ext \<Rightarrow> 'w Backend \<Rightarrow> KnowledgeReceipt codec \<Rightarrow> string \<Rightarrow> KnowledgeReceipt option \<Rightarrow> ('w, Ref) M" where
  "PutKnowledgeReceipt X b J turnEntityID receipt =
     (case receipt of
        None \<Rightarrow> throw (Errorf ''storing a knowledge receipt requires a receipt'')
      | Some r \<Rightarrow> put_for_turn X b J (\<lambda>r. KnowledgeReceipt_Validate X (Some r)) TurnKnowledgeRef
                    (kr_TurnID r) turnEntityID r)"

definition GetKnowledgeReceipt ::
    "ext \<Rightarrow> 'w Backend \<Rightarrow> KnowledgeReceipt codec \<Rightarrow> Ref \<Rightarrow> ('w, KnowledgeReceipt) M" where
  "GetKnowledgeReceipt X b J ref =
     get_artifact X b J (\<lambda>r. KnowledgeReceipt_Validate X (Some r)) TurnKnowledgeRef ref"

definition PutCaseProgressRecord ::
    "ext \<Rightarrow> 'w Backend \<Rightarrow> CaseProgressRecord codec \<Rightarrow> string \<Rightarrow> CaseProgressRecord option \<Rightarrow> ('w, Ref) M" where
  "PutCaseProgressRecord X b J turnEntityID rec =
     (case rec of
        None \<Rightarrow> throw (Errorf ''storing case progress requires a record'')
      | Some r \<Rightarrow> put_for_turn X b J (\<lambda>r. CaseProgressRecord_Validate X (Some r)) TurnCaseProgressRef
                    (cp_TurnID r) turnEntityID r)"

definition GetCaseProgressRecord ::
    "ext \<Rightarrow> 'w Backend \<Rightarrow> CaseProgressRecord codec \<Rightarrow> Ref \<Rightarrow> ('w, CaseProgressRecord) M" where
  "GetCaseProgressRecord X b J ref =
     get_artifact X b J (\<lambda>r. CaseProgressRecord_Validate X (Some r)) TurnCaseProgressRef ref"

definition PutTestimony ::
    "ext \<Rightarrow> 'w Backend \<Rightarrow> Testimony codec \<Rightarrow> string \<Rightarrow> Testimony option \<Rightarrow> ('w, Ref) M" where
  "PutTestimony X b J testimonyID testimony =
     (case testimony of
        None \<Rightarrow> throw (Errorf ''storing testimony requires a record'')
      | Some t \<Rightarrow>
          if testimonyID \<noteq> TestimonyID (te_TurnID t) (te_DecisionID t) (te_BeliefID t)
               (te_RecipientID t) (te_EvidenceID t)
          then throw (Errorf ''testimony id does not match deterministic identity'')
          else put_artifact X b J (\<lambda>t. Testimony_Validate X (Some t)) RevelationTestimonyRef
                 SubjectRevelation testimonyID t)"

definition GetTestimony :: "ext \<Rightarrow> 'w Backend \<Rightarrow> Testimony codec \<Rightarrow> Ref \<Rightarrow> ('w, Testimony) M" where
  "GetTestimony X b J ref =
     get_artifact X b J (\<lambda>t. Testimony_Validate X (Some t)) RevelationTestimonyRef ref"

definition PutRoll ::
    "ext \<Rightarrow> 'w Backend \<Rightarrow> RollResult codec \<Rightarrow> string \<Rightarrow> RollResult option \<Rightarrow> ('w, Ref) M" where
  "PutRoll X b J turnEntityID roll =
     (case roll of
        None \<Rightarrow> throw (Errorf ''storing a roll requires a roll result'')
      | Some r \<Rightarrow> put_for_turn X b J (RollResult_Validate X) TurnRollRef (rr_TurnID r) turnEntityID r)"

definition GetRoll :: "ext \<Rightarrow> 'w Backend \<Rightarrow> RollResult codec \<Rightarrow> Ref \<Rightarrow> ('w, RollResult) M" where
  "GetRoll X b J ref = get_artifact X b J (RollResult_Validate X) TurnRollRef ref"

definition PutEffectBatch ::
    "ext \<Rightarrow> 'w Backend \<Rightarrow> EffectBatch codec \<Rightarrow> string \<Rightarrow> EffectBatch option \<Rightarrow> ('w, Ref) M" where
  "PutEffectBatch X b J turnEntityID batch =
     (case batch of
        None \<Rightarrow> throw (Errorf ''storing an effect batch requires a batch'')
      | Some e \<Rightarrow> put_for_turn X b J (EffectBatch_Validate X) TurnEffectsRef (eb_TurnID e) turnEntityID e)"

definition GetEffectBatch :: "ext \<Rightarrow> 'w Backend \<Rightarrow> EffectBatch codec \<Rightarrow> Ref \<Rightarrow> ('w, EffectBatch) M" where
  "GetEffectBatch X b J ref = get_artifact X b J (EffectBatch_Validate X) TurnEffectsRef ref"

definition PutNarration ::
    "ext \<Rightarrow> 'w Backend \<Rightarrow> Narration codec \<Rightarrow> string \<Rightarrow> Narration option \<Rightarrow> ('w, Ref) M" where
  "PutNarration X b J turnEntityID narration =
     (case narration of
        None \<Rightarrow> throw (Errorf ''storing a narration requires a narration'')
      | Some n \<Rightarrow> put_for_turn X b J (Narration_Validate X) TurnNarrationRef (na_TurnID n) turnEntityID n)"

definition GetNarration :: "ext \<Rightarrow> 'w Backend \<Rightarrow> Narration codec \<Rightarrow> Ref \<Rightarrow> ('w, Narration) M" where
  "GetNarration X b J ref = get_artifact X b J (Narration_Validate X) TurnNarrationRef ref"

definition PutFailureDetail ::
    "ext \<Rightarrow> 'w Backend \<Rightarrow> FailureDetail codec \<Rightarrow> string \<Rightarrow> FailureDetail option \<Rightarrow> ('w, Ref) M" where
  "PutFailureDetail X b J turnEntityID detail =
     (case detail of
        None \<Rightarrow> throw (Errorf ''storing a failure detail requires a detail'')
      | Some d \<Rightarrow> put_for_turn X b J (FailureDetail_Validate X) TurnFailureRef (fd_TurnID d) turnEntityID d)"

definition GetFailureDetail :: "ext \<Rightarrow> 'w Backend \<Rightarrow> FailureDetail codec \<Rightarrow> Ref \<Rightarrow> ('w, FailureDetail) M" where
  "GetFailureDetail X b J ref = get_artifact X b J (FailureDetail_Validate X) TurnFailureRef ref"

section \<open>What an object store promises\<close>

locale object_backend =
  fixes b :: "'w Backend"
    and stored :: "'w \<Rightarrow> string \<Rightarrow> string option"
  assumes get_frame: "be_Get b k w = (r, w') \<Longrightarrow> stored w' = stored w"
    and get_ok: "be_Get b k w = (Inr d, w') \<Longrightarrow> stored w k = Some d"
    and put_ok: "be_Put b k d w = (Inr (), w') \<Longrightarrow> stored w' = (stored w)(k \<mapsto> d)"
    and put_failed: "be_Put b k d w = (Inl e, w') \<Longrightarrow> stored w' = stored w \<or> stored w' = (stored w)(k \<mapsto> d)"

locale exact_claims =
  fixes kv :: "'w KeyValue"
    and put :: "string \<Rightarrow> string \<Rightarrow> ('w, unit) M"
    and get :: "string \<Rightarrow> ('w, string) M"
    and claims :: "'w \<Rightarrow> string \<Rightarrow> string option"
  assumes claim_ok: "kv_Create kv k d w = (Inr (), w') \<Longrightarrow> claims w k = None \<and> claims w' = (claims w)(k \<mapsto> d)"
    and claim_failed:
      "kv_Create kv k d w = (Inl e, w') \<Longrightarrow>
         claims w' = claims w \<or> (claims w k = None \<and> claims w' = (claims w)(k \<mapsto> d))"
    and claim_exists:
      "kv_Create kv k d w = (Inl e, w') \<Longrightarrow> errors_Is e ErrKeyExists \<Longrightarrow>
         claims w' = claims w \<and> claims w k \<noteq> None"
    and read_frame: "kv_Get kv k w = (r, w') \<Longrightarrow> claims w' = claims w"
    and read_ok: "kv_Get kv k w = (Inr d, w') \<Longrightarrow> claims w k = Some d"
    and objects_frame: "put k d w = (q, w') \<Longrightarrow> claims w' = claims w"
      "get k w = (s, w') \<Longrightarrow> claims w' = claims w"

section \<open>What the content store promises\<close>

lemma hasSuffix_append [simp]: "hasSuffix (s @ p) p"
  by (simp add: hasSuffix_def)

lemma hasSuffix_iff: "hasSuffix s p \<longleftrightarrow> (\<exists>q. s = q @ p)"
proof
  assume "hasSuffix s p"
  then have "s = take (length s - length p) s @ p" by (metis append_take_drop_id hasSuffix_def)
  then show "\<exists>q. s = q @ p" by blast
qed auto

lemma put_artifact_Inr:
  assumes "put_artifact X b J validate p k i a w = (Inr ref, w')"
  shows "\<exists>slot data. ArtifactSlot X p = Inr slot \<and> jc_marshal J a = Inr data \<and> validate a = None
    \<and> Ref_Validate X ref = None \<and> rf_Instance ref = be_InstanceName b
    \<and> rf_Key ref = k @ RefSeparator # i @ RefSeparator # slot
    \<and> KeyFor X p k i = Inr (rf_Key ref)
    \<and> be_Put b (rf_Key ref) data w = (Inr (), w')"
proof -
  obtain key data where key: "KeyFor X p k i = Inr key" and data: "jc_marshal J a = Inr data"
    and rest: "validate a = None" "Ref_Validate X ref = None"
      "ref = \<lparr>rf_Instance = be_InstanceName b, rf_Key = key\<rparr>" "be_Put b key data w = (Inr (), w')"
    using assms
    by (auto simp: put_artifact_def checkM_eq Let_def elim!: bindM_cases)
  then show ?thesis using KeyFor_Inr [OF key] by auto
qed

context object_backend
begin

text \<open>
  What was stored is what is read, unless the object store itself fails: a reference handed out is
  never refused, never found corrupt, and never yields another artifact.
\<close>

lemma get_after_put:
  assumes "put_artifact X b J validate p k i a w = (Inr ref, w1)"
    and "stored w2 (rf_Key ref) = stored w1 (rf_Key ref)"
    and "\<And>d. jc_marshal J a = Inr d \<Longrightarrow> jc_unmarshal J d = Inr a"
    and "get_artifact X b J validate p ref w2 = (r, w3)"
  shows "r = Inr a \<or> (\<exists>err. be_Get b (rf_Key ref) w2 = (Inl err, w3))"
proof -
  obtain slot data where put: "ArtifactSlot X p = Inr slot" "jc_marshal J a = Inr data" "validate a = None"
    "Ref_Validate X ref = None" "rf_Instance ref = be_InstanceName b"
    "rf_Key ref = k @ RefSeparator # i @ RefSeparator # slot"
    "be_Put b (rf_Key ref) data w = (Inr (), w1)"
    using put_artifact_Inr [OF assms(1)] by blast
  have held: "stored w2 (rf_Key ref) = Some data" using put_ok [OF put(7)] assms(2) by simp
  have suffix: "hasSuffix (rf_Key ref) (RefSeparator # slot)"
    unfolding put(6) hasSuffix_iff by (metis append.assoc append_Cons)
  obtain q w4 where g: "be_Get b (rf_Key ref) w2 = (q, w4)" by fastforce
  show ?thesis
  proof (cases q)
    case (Inl err)
    then show ?thesis
      using assms(4) g put(1,4,5) suffix
      by (auto simp: get_artifact_def tryM_def split: if_splits)
  next
    case (Inr d)
    then have "d = data" using get_ok [OF g [unfolded Inr]] held by simp
    then show ?thesis
      using assms(4) g Inr put suffix assms(3) [OF put(2)]
      by (auto simp: get_artifact_def tryM_def)
  qed
qed

text \<open>One kind's reference is refused as another kind before anything is read.\<close>

lemma get_other_kind:
  assumes "put_artifact X b J validate p k i a w = (Inr ref, w1)"
    and "ArtifactSlot X p = Inr slot" "ArtifactSlot X p' = Inr slot'" "slot \<noteq> slot'"
    and "RefSeparator \<notin> set slot" "RefSeparator \<notin> set slot'"
  shows "\<exists>e. get_artifact X b J' validate' p' ref w2 = (Inl e, w2) \<and> errors_Is e ErrArtifactReference"
proof -
  have key: "rf_Key ref = (k @ RefSeparator # i) @ RefSeparator # slot" and
    ok: "Ref_Validate X ref = None" "rf_Instance ref = be_InstanceName b"
    using put_artifact_Inr [OF assms(1)] assms(2) by auto
  have "\<not> hasSuffix (rf_Key ref) (RefSeparator # slot')"
  proof
    assume "hasSuffix (rf_Key ref) (RefSeparator # slot')"
    then obtain q where "(k @ RefSeparator # i) @ RefSeparator # slot = q @ RefSeparator # slot'"
      using key by (auto simp: hasSuffix_iff)
    then have "rev slot @ RefSeparator # rev (k @ RefSeparator # i) = rev slot' @ RefSeparator # rev q"
      by (metis append.assoc append_Cons append_Nil rev.simps(2) rev_append)
    then have "rev slot = rev slot'" using prefix_sep [of RefSeparator "rev slot" "rev slot'"] assms(5,6) by simp
    with assms(4) show False by simp
  qed
  then show ?thesis
    using ok assms(3) by (simp add: get_artifact_def throw_def errors_Is_def ErrArtifactReference_def)
qed

end

context exact_claims
begin

lemma ClaimExact_Inr:
  assumes "ClaimExact put get kv k c w = (Inr x, w')"
  shows "claims w' k = Some x \<and> (case claims w k of None \<Rightarrow> x = c | Some d \<Rightarrow> x = d)"
proof -
  let ?win = "tryM (kv_Create kv k c) (\<lambda>r. case r of
            Inr _ \<Rightarrow> ret c
          | Inl err \<Rightarrow>
              if \<not> errors_Is err ErrKeyExists
              then throw (Wrapf ''create exact-resident claim'' err)
              else mapErr (Wrapf ''read exact-resident claim'') (kv_Get kv k))"
  obtain v w1 where win: "?win w = (Inr v, w1)"
    and rest: "tryM (get k) (\<lambda>r. case r of
            Inl err \<Rightarrow>
              if errors_Is err ErrObjectNotFound
              then bindM (mapErr (Wrapf ''repair exact-resident object'') (put k v)) (\<lambda>_. ret v)
              else throw (Wrapf ''read exact-resident object'' err)
          | Inr resident \<Rightarrow>
              if resident \<noteq> v then throw (Wrapf ''object differs from its immutable claim'' ErrArtifactCorrupt)
              else ret v) w1 = (Inr x, w')"
    using assms unfolding ClaimExact_def by (auto split: if_splits elim!: bindM_cases)
  have v: "x = v" "claims w' = claims w1"
    using rest objects_frame by (auto elim!: tryM_cases bindM_cases split: if_splits)
  from win have "claims w1 k = Some v \<and> (case claims w k of None \<Rightarrow> v = c | Some d \<Rightarrow> v = d)"
  proof (cases rule: tryM_cases)
    case (Inr u w2)
    then show ?thesis using claim_ok [of k c w w2] by auto
  next
    case (Inl err w2)
    then have "errors_Is err ErrKeyExists" "kv_Get kv k w2 = (Inr v, w1)" by (auto split: if_splits)
    then show ?thesis
      using claim_exists [OF Inl(1)] read_ok [of k w2 v w1] read_frame [of k w2 "Inr v" w1]
        claim_failed [OF Inl(1)]
      by (auto split: option.splits)
  qed
  with v show ?thesis by (auto split: option.splits)
qed

text \<open>Whatever a call returns, a claim that was made stands.\<close>

lemma claims_stand:
  assumes "ClaimExact put get kv k c w = (r, w')" and "claims w k' = Some d"
  shows "claims w' k' = Some d"
proof -
  have mono: "keeps (\<lambda>w w'. \<forall>j d. claims w j = Some d \<longrightarrow> claims w' j = Some d) (ClaimExact put get kv k c)"
    (is "keeps ?R _")
  proof -
    have refl: "reflp ?R" and trans: "transp ?R" by (auto simp: reflp_def transp_def)
    have "keeps ?R (kv_Create kv k c)"
      unfolding keeps_def
    proof (intro allI impI)
      fix w r w' j d
      assume run: "kv_Create kv k c w = (r, w')" and d: "claims w j = Some d"
      show "claims w' j = Some d"
      proof (cases r)
        case (Inl e)
        with run d claim_failed [of k c w e w'] show ?thesis by auto
      next
        case (Inr u)
        with run d claim_ok [of k c w w'] show ?thesis by auto
      qed
    qed
    moreover have "keeps ?R (kv_Get kv k)" "keeps ?R (get k)" "keeps ?R (put k v)" for v
      using read_frame objects_frame unfolding keeps_def by metis+
    ultimately show ?thesis
      unfolding ClaimExact_def using refl trans
      by (auto intro!: keeps_bindM keeps_tryM keeps_mapErr keeps_pure split: sum.splits)
  qed
  from keepsD [OF mono assms(1)] assms(2) show ?thesis by blast
qed

end

end
