(* ===== verification/Knowledge.thy ===== *)
theory Knowledge
  imports Content_Store Graphio
begin

text \<open>
  \<^verbatim>\<open>internal/knowledge\<close>, the half that decides: which evidence a case decision may reveal and to
  whom (\<^verbatim>\<open>authorize.go\<close>), and the snapshot of the graph it decides on (\<^verbatim>\<open>loader.go\<close>). The
  share and witness policies and the decision store are parameters. The lemmas characterise every
  authorised plan: each entry is evidence the decision named, admitted for its recipient by authored
  eligibility, by the questioned character's belief, or by what the sharer already knows.
\<close>

section \<open>The snapshot\<close>

text \<open>A Go map of booleans, read with its zero value for an absent key.\<close>

definition flagged :: "('k, bool) gomap \<Rightarrow> 'k \<Rightarrow> bool" where
  "flagged m k = (map_of m k = Some True)"

record eligibility =
  el_MinimumPhase :: CasePhase
  el_Kinds :: "EvidenceRevealKind list"
  el_Targets :: "string list"

record AuthoredBelief =
  ab_ID :: string
  ab_HolderID :: string
  ab_EvidenceID :: string
  ab_Stance :: BeliefStance
  ab_Prose :: string

text \<open>The keys of beliefs and of knowledge are pairs of an actor and an evidence entity.\<close>

record Preflight =
  pf_Decision :: "CaseDecision option"
  pf_ActingActorID :: string
  pf_CaseID :: string
  pf_CasePhase :: CasePhase
  pf_CaseEvidence :: "(string, bool) gomap"
  pf_CaseCharacters :: "(string, bool) gomap"
  pf_Eligibility :: "(string, eligibility) gomap"
  pf_Beliefs :: "(string \<times> string, AuthoredBelief) gomap"
  pf_Known :: "(string \<times> string, bool) gomap"
  pf_SolutionLocked :: "(string, bool) gomap"

type_synonym 'w ShareAuthorizer = "string \<Rightarrow> string \<Rightarrow> string \<Rightarrow> ('w, bool) M"
type_synonym 'w WitnessAuthorizer = "string \<Rightarrow> string list \<Rightarrow> ('w, string \<times> bool) M"

definition DenyShares :: "'w ShareAuthorizer" where
  "DenyShares actorID recipientID evidenceID = ret False"

record TestimonyDraft =
  td_BeliefID :: string
  td_SourceActorID :: string
  td_RecipientID :: string
  td_EvidenceID :: string
  td_Stance :: BeliefStance
  td_Prose :: string

record knowledge_Entry =
  en_RecipientID :: string
  en_EvidenceID :: string
  en_Testimony :: "TestimonyDraft option"

type_synonym knowledge_Plan = "knowledge_Entry list"

section \<open>Authorization\<close>

definition reject :: "AuthorizationReason \<Rightarrow> gerror" where
  "reject reason = AuthorizationError reason"

text \<open>A direct type assertion: a wrapped refusal does not count.\<close>

definition IsReason :: "gerror \<Rightarrow> AuthorizationReason \<Rightarrow> bool" where
  "IsReason err reason = (err = AuthorizationError reason)"

definition actorEntries :: "string \<Rightarrow> string list \<Rightarrow> knowledge_Plan" where
  "actorEntries actorID evidenceIDs =
     map (\<lambda>e. \<lparr>en_RecipientID = actorID, en_EvidenceID = e, en_Testimony = None\<rparr>) evidenceIDs"

fun intersects :: "string list \<Rightarrow> string list \<Rightarrow> bool" where
  "intersects [] right = False"
| "intersects (v # left) right = (if List.member right v then True else intersects left right)"

definition phaseAtLeast :: "CasePhase \<Rightarrow> CasePhase \<Rightarrow> bool" where
  "phaseAtLeast current minimum =
     (let order = CasePhases in
      slicesIndex order minimum \<le> slicesIndex order current \<and> 0 \<le> slicesIndex order minimum)"

definition checkReveal :: "Preflight \<Rightarrow> CaseDecision \<Rightarrow> string \<Rightarrow> gerror option" where
  "checkReveal input d evidenceID =
     firstErr [
       failIf (flagged (pf_SolutionLocked input) evidenceID \<and> pf_CasePhase input \<noteq> CasePhaseDenouement)
         (reject AuthorizationSolutionLocked),
       failIf (\<not> flagged (pf_CaseEvidence input) evidenceID) (reject AuthorizationIneligibleReveal),
       (case map_of (pf_Eligibility input) evidenceID of
          None \<Rightarrow> Some (reject AuthorizationIneligibleReveal)
        | Some eligible \<Rightarrow>
            firstErr [
              failIf (\<not> List.member (el_Kinds eligible) (cd_Kind d)) (reject AuthorizationIneligibleReveal),
              failIf (\<not> phaseAtLeast (pf_CasePhase input) (el_MinimumPhase eligible))
                (reject AuthorizationIneligiblePhase),
              failIf (\<not> intersects (cd_TargetRefs d) (el_Targets eligible))
                (reject AuthorizationInvalidTarget)])]"

definition authorizeReveal ::
    "Preflight \<Rightarrow> CaseDecision \<Rightarrow> 'w WitnessAuthorizer option \<Rightarrow> ('w, knowledge_Plan) M" where
  "authorizeReveal input d witnesses =
     checkM (forErr (checkReveal input d) (cd_RevealRefs d))
     (let plan = actorEntries (pf_ActingActorID input) (cd_RevealRefs d) in
      case witnesses of
        None \<Rightarrow> ret plan
      | Some witness \<Rightarrow>
          if length (cd_RevealRefs d) = 0 then ret plan
          else bindM (mapErr (Wrapf ''authorize companion witness'')
              (witness (pf_ActingActorID input) (cd_TargetRefs d))) (\<lambda>(witnessID, allowed).
            if \<not> allowed then ret plan
            else if witnessID = [] \<or> witnessID = pf_ActingActorID input
            then throw (reject AuthorizationWitnessUnauthorized)
            else ret (plan @ actorEntries witnessID (cd_RevealRefs d))))"

fun questionEntries :: "Preflight \<Rightarrow> string \<Rightarrow> string list \<Rightarrow> gerror + knowledge_Entry list" where
  "questionEntries input questioned [] = Inr []"
| "questionEntries input questioned (evidenceID # rest) =
     (if flagged (pf_SolutionLocked input) evidenceID \<and> pf_CasePhase input \<noteq> CasePhaseDenouement
      then Inl (reject AuthorizationSolutionLocked)
      else if \<not> flagged (pf_CaseEvidence input) evidenceID then Inl (reject AuthorizationIneligibleReveal)
      else case map_of (pf_Beliefs input) (questioned, evidenceID) of
          None \<Rightarrow> Inl (reject AuthorizationQuestionTargetMismatch)
        | Some belief \<Rightarrow>
            map_sum id ((#)
                \<lparr>en_RecipientID = pf_ActingActorID input, en_EvidenceID = evidenceID,
                 en_Testimony = Some
                   \<lparr>td_BeliefID = ab_ID belief, td_SourceActorID = ab_HolderID belief,
                    td_RecipientID = pf_ActingActorID input, td_EvidenceID = evidenceID,
                    td_Stance = ab_Stance belief, td_Prose = ab_Prose belief\<rparr>\<rparr>)
              (questionEntries input questioned rest))"

definition authorizeQuestion :: "Preflight \<Rightarrow> CaseDecision \<Rightarrow> gerror + knowledge_Plan" where
  "authorizeQuestion input d =
     (case cd_TargetRefs d of
        [questioned] \<Rightarrow>
          if \<not> flagged (pf_CaseCharacters input) questioned then Inl (reject AuthorizationInvalidTarget)
          else questionEntries input questioned (cd_RevealRefs d)
      | _ \<Rightarrow> Inl (reject AuthorizationInvalidTarget))"

fun shareLoop ::
    "Preflight \<Rightarrow> 'w ShareAuthorizer option \<Rightarrow> string \<Rightarrow> string list \<Rightarrow> ('w, unit) M" where
  "shareLoop input shares recipient [] = ret ()"
| "shareLoop input shares recipient (evidenceID # rest) =
     (if \<not> flagged (pf_Known input) (pf_ActingActorID input, evidenceID)
      then throw (reject AuthorizationShareSourceUnknown)
      else bindM (case shares of
            None \<Rightarrow> ret False
          | Some authorized \<Rightarrow>
              mapErr (Wrapf ''authorize share target'')
                (authorized (pf_ActingActorID input) recipient evidenceID)) (\<lambda>allowed.
        if \<not> allowed then throw (reject AuthorizationShareTargetUnauthorized)
        else shareLoop input shares recipient rest))"

definition authorizeShare ::
    "Preflight \<Rightarrow> CaseDecision \<Rightarrow> 'w ShareAuthorizer option \<Rightarrow> ('w, knowledge_Plan) M" where
  "authorizeShare input d shares =
     (case cd_TargetRefs d of
        [recipient] \<Rightarrow>
          bindM (shareLoop input shares recipient (cd_RevealRefs d)) (\<lambda>_.
          ret (actorEntries recipient (cd_RevealRefs d)))
      | _ \<Rightarrow> throw (reject AuthorizationInvalidTarget))"

definition AuthorizeWithWitnesses ::
    "Preflight \<Rightarrow> 'w ShareAuthorizer option \<Rightarrow> 'w WitnessAuthorizer option \<Rightarrow> ('w, knowledge_Plan) M" where
  "AuthorizeWithWitnesses input shares witnesses =
     (case pf_Decision input of
        None \<Rightarrow> throw (reject AuthorizationUnsupportedKind)
      | Some d \<Rightarrow>
        if cd_CaseID d \<noteq> pf_CaseID input then throw (reject AuthorizationWrongCase)
        else if cd_ActorID d \<noteq> pf_ActingActorID input then throw (reject AuthorizationWrongActor)
        else if cd_Kind d = CaseDecisionObserve \<or> cd_Kind d = CaseDecisionInvestigate
        then authorizeReveal input d witnesses
        else if cd_Kind d = CaseDecisionQuestion then liftR (authorizeQuestion input d)
        else if cd_Kind d = CaseDecisionShare then authorizeShare input d shares
        else if cd_Kind d = CaseDecisionRequestHint \<or> cd_Kind d = CaseDecisionAccuse
          \<or> cd_Kind d = CaseDecisionOther
        then (if length (cd_RevealRefs d) \<noteq> 0 then throw (reject AuthorizationUnsupportedKind) else ret [])
        else throw (reject AuthorizationUnsupportedKind))"

definition Authorize :: "Preflight \<Rightarrow> 'w ShareAuthorizer option \<Rightarrow> ('w, knowledge_Plan) M" where
  "Authorize input shares = AuthorizeWithWitnesses input shares None"

section \<open>The loader\<close>

record 'w ReadGraph =
  rg_GetEntity :: "string \<Rightarrow> ('w, EntityState) M"
  rg_ByValue :: "string \<Rightarrow> string \<Rightarrow> int \<Rightarrow> ('w, string list) M"

record LoadResult =
  lr_TurnID :: string
  lr_Applicable :: bool
  lr_Preflight :: Preflight

record 'w Loader =
  ld_graph :: "'w ReadGraph"
  ld_store :: "Ref \<Rightarrow> ('w, CaseDecisionRecord option) M"
  ld_caseID :: string

text \<open>The string objects of a predicate; objects of another type are skipped.\<close>

definition stringObjects :: "EntityState \<Rightarrow> Predicate \<Rightarrow> string list" where
  "stringObjects state predicate = List.map_filter asString (objectsIn (esTriples state) predicate)"

definition soleString :: "EntityState \<Rightarrow> Predicate \<Rightarrow> gerror + string" where
  "soleString state predicate =
     (case stringObjects state predicate of
        [v] \<Rightarrow> Inr v
      | _ \<Rightarrow> Inl (Errorf ''entity holds the wrong number of values''))"

definition entityInstance :: "string \<Rightarrow> string" where
  "entityInstance i = last (splitOn CHR ''.'' i)"

text \<open>The furthest phase recorded: the loop keeps the greatest rank seen so far.\<close>

fun phaseLoop :: "string list \<Rightarrow> CasePhase \<times> int \<Rightarrow> gerror + CasePhase" where
  "phaseLoop [] (current, currentRank) = Inr current"
| "phaseLoop (v # vals) (current, currentRank) =
     (case ParseCasePhase v of
        Inl e \<Rightarrow> Inl e
      | Inr phase \<Rightarrow>
          (let rank = slicesIndex CasePhases phase in
           phaseLoop vals (if currentRank < rank then (phase, rank) else (current, currentRank))))"

definition currentCasePhase :: "EntityState \<Rightarrow> gerror + CasePhase" where
  "currentCasePhase state =
     (let vals = stringObjects state CaseLifecyclePhase in
      if length vals = 0 then Inl (Errorf ''entity holds no values for the lifecycle phase'')
      else phaseLoop vals ([], -1))"

fun parseKinds :: "string list \<Rightarrow> gerror + EvidenceRevealKind list" where
  "parseKinds [] = Inr []"
| "parseKinds (v # vals) =
     (case ParseEvidenceRevealKind v of
        Inl e \<Rightarrow> Inl e
      | Inr kind \<Rightarrow> map_sum id ((#) kind) (parseKinds vals))"

definition resolveEligibility :: "EntityState \<Rightarrow> gerror + eligibility" where
  "resolveEligibility evidence =
     (case soleString evidence EvidenceRevealPhase of
        Inl e \<Rightarrow> Inl e
      | Inr phaseValue \<Rightarrow>
          (case ParseCasePhase phaseValue of
             Inl e \<Rightarrow> Inl e
           | Inr minimum \<Rightarrow>
               (case parseKinds (stringObjects evidence EvidenceRevealKindPredicate) of
                  Inl e \<Rightarrow> Inl e
                | Inr kinds \<Rightarrow>
                    Inr \<lparr>el_MinimumPhase = minimum, el_Kinds = kinds,
                         el_Targets = stringObjects evidence EvidenceRevealTarget\<rparr>)))"

fun loadEligibility :: "'w Loader \<Rightarrow> string list \<Rightarrow> Preflight \<Rightarrow> ('w, Preflight) M" where
  "loadEligibility L [] input = ret input"
| "loadEligibility L (evidenceID # rest) input =
     tryM (rg_GetEntity (ld_graph L) evidenceID) (\<lambda>r. case r of
       Inl err \<Rightarrow>
         if errors_Is err ErrEntityNotFound then loadEligibility L rest input else throw err
     | Inr evidence \<Rightarrow>
         bindM (liftR (resolveEligibility evidence)) (\<lambda>resolved.
         loadEligibility L rest
           (input\<lparr>pf_Eligibility := (evidenceID, resolved) # pf_Eligibility input\<rparr>)))"

definition readBelief :: "string \<Rightarrow> EntityState \<Rightarrow> gerror + AuthoredBelief" where
  "readBelief beliefID belief =
     (case soleString belief BeliefEvidenceRef of
        Inl e \<Rightarrow> Inl e
      | Inr evidenceID \<Rightarrow>
      (case soleString belief BeliefStanceCurrent of
        Inl e \<Rightarrow> Inl e
      | Inr stanceText \<Rightarrow>
      (case ParseBeliefStance stanceText of
        Inl e \<Rightarrow> Inl e
      | Inr stance \<Rightarrow>
      (case soleString belief WorldEntityDescription of
        Inl e \<Rightarrow> Inl e
      | Inr prose \<Rightarrow>
      (case soleString belief BeliefActorHolder of
        Inl e \<Rightarrow> Inl e
      | Inr holder \<Rightarrow>
          Inr \<lparr>ab_ID = beliefID, ab_HolderID = holder, ab_EvidenceID = evidenceID,
               ab_Stance = stance, ab_Prose = prose\<rparr>)))))"

fun beliefLoop :: "'w Loader \<Rightarrow> string list \<Rightarrow> Preflight \<Rightarrow> ('w, Preflight) M" where
  "beliefLoop L [] input = ret input"
| "beliefLoop L (beliefID # rest) input =
     bindM (rg_GetEntity (ld_graph L) beliefID) (\<lambda>state.
     bindM (liftR (readBelief beliefID state)) (\<lambda>b.
     beliefLoop L rest
       (input\<lparr>pf_Beliefs := ((ab_HolderID b, ab_EvidenceID b), b) # pf_Beliefs input\<rparr>)))"

definition loadBeliefs :: "'w Loader \<Rightarrow> string \<Rightarrow> Preflight \<Rightarrow> ('w, Preflight) M" where
  "loadBeliefs L actorID input =
     bindM (rg_ByValue (ld_graph L) BeliefActorHolder actorID 64) (\<lambda>beliefIDs.
     beliefLoop L beliefIDs input)"

fun knownLoop :: "'w Loader \<Rightarrow> string \<Rightarrow> string list \<Rightarrow> Preflight \<Rightarrow> ('w, Preflight) M" where
  "knownLoop L actorID [] input = ret input"
| "knownLoop L actorID (knowledgeID # rest) input =
     bindM (rg_GetEntity (ld_graph L) knowledgeID) (\<lambda>state.
     bindM (liftR (soleString state KnowledgeEvidenceRef)) (\<lambda>evidenceID.
     knownLoop L actorID rest
       (input\<lparr>pf_Known := ((actorID, evidenceID), True) # pf_Known input\<rparr>)))"

definition loadKnown :: "'w Loader \<Rightarrow> string \<Rightarrow> Preflight \<Rightarrow> ('w, Preflight) M" where
  "loadKnown L actorID input =
     bindM (rg_ByValue (ld_graph L) KnowledgeActorHolder actorID (int MaxKnowledgeReceiptEntries))
       (\<lambda>knowledgeIDs. knownLoop L actorID knowledgeIDs input)"

definition flagAll :: "string list \<Rightarrow> (string, bool) gomap" where
  "flagAll vals = map (\<lambda>v. (v, True)) vals"

text \<open>The snapshot before the parts that depend on the decision are loaded.\<close>

definition casePreflight :: "CaseDecision \<Rightarrow> string \<Rightarrow> string \<Rightarrow> CasePhase \<Rightarrow> EntityState \<Rightarrow> Preflight" where
  "casePreflight d actorID caseID phase caseState =
     \<lparr>pf_Decision = Some d, pf_ActingActorID = actorID, pf_CaseID = caseID, pf_CasePhase = phase,
      pf_CaseEvidence = flagAll (stringObjects caseState CaseMemberEvidence),
      pf_CaseCharacters = flagAll (concat (map (stringObjects caseState) [CaseMemberSuspect, CaseMemberVictim])),
      pf_Eligibility = [], pf_Beliefs = [], pf_Known = [],
      pf_SolutionLocked = flagAll (concat (map (stringObjects caseState)
        [CaseSolutionCulprit, CaseSolutionMethod, CaseSolutionMotive]))\<rparr>"

definition emptyPreflight :: Preflight where
  "emptyPreflight =
     \<lparr>pf_Decision = None, pf_ActingActorID = [], pf_CaseID = [], pf_CasePhase = [], pf_CaseEvidence = [],
      pf_CaseCharacters = [], pf_Eligibility = [], pf_Beliefs = [], pf_Known = [], pf_SolutionLocked = []\<rparr>"

definition loadDecision :: "'w Loader \<Rightarrow> EntityState \<Rightarrow> CaseDecision \<Rightarrow> ('w, Preflight) M" where
  "loadDecision L turnState d =
     bindM (liftR (soleString turnState TurnActionPlayer)) (\<lambda>playerID.
     bindM (rg_GetEntity (ld_graph L) playerID) (\<lambda>player.
     bindM (liftR (soleString player PlayerCharacterCurrent)) (\<lambda>actorID.
     bindM (rg_GetEntity (ld_graph L) (ld_caseID L)) (\<lambda>caseState.
     bindM (liftR (currentCasePhase caseState)) (\<lambda>phase.
     bindM (loadEligibility L (cd_RevealRefs d) (casePreflight d actorID (ld_caseID L) phase caseState))
       (\<lambda>input.
     bindM (case cd_TargetRefs d of
         [targetID] \<Rightarrow>
           if cd_Kind d = CaseDecisionQuestion then loadBeliefs L targetID input else ret input
       | _ \<Rightarrow> ret input) (\<lambda>input.
     (if cd_Kind d = CaseDecisionShare then loadKnown L actorID input else ret input))))))))"

definition Load :: "ext \<Rightarrow> 'w Loader \<Rightarrow> string \<Rightarrow> ('w, LoadResult) M" where
  "Load X L turnEntityID =
     bindM (rg_GetEntity (ld_graph L) turnEntityID) (\<lambda>turnState.
     bindM (liftR (soleString turnState TurnCaseDecisionRef)) (\<lambda>refText.
     bindM (liftR (ParseRef X refText)) (\<lambda>ref.
     bindM (ld_store L ref) (\<lambda>stored.
     let turnID = entityInstance turnEntityID in
     case stored of
       None \<Rightarrow> throw (Errorf ''case decision store returned a nil record'')
     | Some rec \<Rightarrow>
         if cdr_TurnID rec \<noteq> turnID then throw (reject AuthorizationWrongTurn)
         else if (case cdr_Decision rec of None \<Rightarrow> False | Some d \<Rightarrow> cd_TurnID d \<noteq> turnID)
         then throw (reject AuthorizationWrongTurn)
         else if cdr_Status rec = CaseDecisionStatusNotApplicable
         then ret \<lparr>lr_TurnID = turnID, lr_Applicable = False, lr_Preflight = emptyPreflight\<rparr>
         else (case cdr_Decision rec of
             None \<Rightarrow> throw (Errorf ''decision record is applicable but has no decision'')
           | Some d \<Rightarrow>
               bindM (loadDecision L turnState d) (\<lambda>input.
               ret \<lparr>lr_TurnID = turnID, lr_Applicable = True, lr_Preflight = input\<rparr>))))))"

section \<open>What an authorised plan contains\<close>

lemma intersects_iff: "intersects xs ys \<longleftrightarrow> set xs \<inter> set ys \<noteq> {}"
  by (induction xs) auto

lemma slicesIndex_absent: "slicesIndex xs v = -1 \<longleftrightarrow> v \<notin> set xs"
proof (induction xs)
  case (Cons x xs)
  then show ?case using slicesIndex_ge [of xs v] by (auto simp: Let_def)
qed simp

text \<open>Evidence is open when it belongs to the case and is no solution material, or the case is over.\<close>

definition evidenceOpen :: "Preflight \<Rightarrow> string \<Rightarrow> bool" where
  "evidenceOpen input e =
     (flagged (pf_CaseEvidence input) e
      \<and> (flagged (pf_SolutionLocked input) e \<longrightarrow> pf_CasePhase input = CasePhaseDenouement))"

text \<open>The authored rules a revealed entity has to satisfy for a decision and a recipient.\<close>

definition revealAdmitted :: "Preflight \<Rightarrow> CaseDecision \<Rightarrow> knowledge_Entry \<Rightarrow> bool" where
  "revealAdmitted input d e =
     (evidenceOpen input (en_EvidenceID e) \<and> en_Testimony e = None
      \<and> (\<exists>el. map_of (pf_Eligibility input) (en_EvidenceID e) = Some el \<and> cd_Kind d \<in> set (el_Kinds el)
            \<and> phaseAtLeast (pf_CasePhase input) (el_MinimumPhase el)
            \<and> set (cd_TargetRefs d) \<inter> set (el_Targets el) \<noteq> {}))"

definition testimonyAdmitted :: "Preflight \<Rightarrow> CaseDecision \<Rightarrow> knowledge_Entry \<Rightarrow> bool" where
  "testimonyAdmitted input d e =
     (evidenceOpen input (en_EvidenceID e) \<and> en_RecipientID e = pf_ActingActorID input
      \<and> (\<exists>t b. cd_TargetRefs d = [t] \<and> flagged (pf_CaseCharacters input) t
            \<and> map_of (pf_Beliefs input) (t, en_EvidenceID e) = Some b
            \<and> en_Testimony e = Some \<lparr>td_BeliefID = ab_ID b, td_SourceActorID = ab_HolderID b,
                td_RecipientID = pf_ActingActorID input, td_EvidenceID = en_EvidenceID e,
                td_Stance = ab_Stance b, td_Prose = ab_Prose b\<rparr>))"

definition shareAdmitted :: "Preflight \<Rightarrow> CaseDecision \<Rightarrow> knowledge_Entry \<Rightarrow> bool" where
  "shareAdmitted input d e =
     (cd_TargetRefs d = [en_RecipientID e] \<and> en_Testimony e = None
      \<and> flagged (pf_Known input) (pf_ActingActorID input, en_EvidenceID e))"

lemma checkReveal_None:
  assumes "checkReveal input d e = None" and "en_EvidenceID en = e" and "en_Testimony en = None"
  shows "revealAdmitted input d en"
  using assms
  by (auto simp: checkReveal_def revealAdmitted_def evidenceOpen_def intersects_iff split: option.splits)

lemma actorEntries_set:
  "en \<in> set (actorEntries a es) \<longleftrightarrow> en_RecipientID en = a \<and> en_EvidenceID en \<in> set es \<and> en_Testimony en = None"
  by (cases en) (auto simp: actorEntries_def)

lemma authorizeReveal_Inr:
  assumes "authorizeReveal input d witnesses w = (Inr plan, w')"
  shows "\<exists>extra. (\<forall>en \<in> set plan. en_EvidenceID en \<in> set (cd_RevealRefs d) \<and> revealAdmitted input d en
           \<and> en_RecipientID en \<in> {pf_ActingActorID input} \<union> set_option extra)
    \<and> (\<forall>i. extra = Some i \<longrightarrow> i \<noteq> [] \<and> i \<noteq> pf_ActingActorID input
          \<and> (\<exists>witness v. witnesses = Some witness
                \<and> witness (pf_ActingActorID input) (cd_TargetRefs d) v = (Inr (i, True), w')))"
proof -
  have checks: "\<forall>e \<in> set (cd_RevealRefs d). checkReveal input d e = None"
    using assms by (auto simp: authorizeReveal_def checkM_eq)
  have adm: "revealAdmitted input d en" if "en \<in> set (actorEntries a (cd_RevealRefs d))" for a en
    using that checks checkReveal_None by (auto simp: actorEntries_set)
  from assms checks consider "plan = actorEntries (pf_ActingActorID input) (cd_RevealRefs d)"
    | witness i where "witnesses = Some witness"
        "witness (pf_ActingActorID input) (cd_TargetRefs d) w = (Inr (i, True), w')"
        "i \<noteq> []" "i \<noteq> pf_ActingActorID input"
        "plan = actorEntries (pf_ActingActorID input) (cd_RevealRefs d) @ actorEntries i (cd_RevealRefs d)"
    by (auto simp: authorizeReveal_def checkM_eq Let_def bindM_Inr split: option.splits if_splits)
  then show ?thesis
  proof cases
    case 1
    then show ?thesis using adm by (intro exI [of _ None]) (auto simp: actorEntries_set)
  next
    case (2 witness i)
    then show ?thesis using adm by (intro exI [of _ "Some i"]) (auto simp: actorEntries_set)
  qed
qed

lemma questionEntries_Inr:
  "questionEntries input t es = Inr plan \<Longrightarrow> en \<in> set plan \<Longrightarrow>
     en_EvidenceID en \<in> set es \<and> evidenceOpen input (en_EvidenceID en)
     \<and> en_RecipientID en = pf_ActingActorID input
     \<and> (\<exists>b. map_of (pf_Beliefs input) (t, en_EvidenceID en) = Some b
          \<and> en_Testimony en = Some \<lparr>td_BeliefID = ab_ID b, td_SourceActorID = ab_HolderID b,
              td_RecipientID = pf_ActingActorID input, td_EvidenceID = en_EvidenceID en,
              td_Stance = ab_Stance b, td_Prose = ab_Prose b\<rparr>)"
proof (induction es arbitrary: plan)
  case (Cons e es)
  then obtain rest b where "questionEntries input t es = Inr rest" "map_of (pf_Beliefs input) (t, e) = Some b"
    "evidenceOpen input e"
    "plan = \<lparr>en_RecipientID = pf_ActingActorID input, en_EvidenceID = e,
       en_Testimony = Some \<lparr>td_BeliefID = ab_ID b, td_SourceActorID = ab_HolderID b,
         td_RecipientID = pf_ActingActorID input, td_EvidenceID = e, td_Stance = ab_Stance b,
         td_Prose = ab_Prose b\<rparr>\<rparr> # rest"
    by (auto simp: evidenceOpen_def split: if_splits option.splits)
  with Cons show ?case by auto
qed simp

lemma shareLoop_Inr:
  "shareLoop input shares i es w = (Inr (), w') \<Longrightarrow> e \<in> set es \<Longrightarrow>
     flagged (pf_Known input) (pf_ActingActorID input, e)"
  by (induction es arbitrary: w) (auto simp: bindM_Inr split: if_splits option.splits)

lemma AuthorizeWithWitnesses_Inr:
  assumes "AuthorizeWithWitnesses input shares witnesses w = (Inr plan, w')"
  obtains d where "pf_Decision input = Some d" "cd_CaseID d = pf_CaseID input"
      "cd_ActorID d = pf_ActingActorID input"
      "\<forall>en \<in> set plan. en_EvidenceID en \<in> set (cd_RevealRefs d)
         \<and> (revealAdmitted input d en \<or> testimonyAdmitted input d en \<or> shareAdmitted input d en)"
proof -
  obtain d where d: "pf_Decision input = Some d" "cd_CaseID d = pf_CaseID input"
    "cd_ActorID d = pf_ActingActorID input"
    using assms by (auto simp: AuthorizeWithWitnesses_def split: option.splits if_splits)
  from assms d consider
      (reveal) "authorizeReveal input d witnesses w = (Inr plan, w')"
    | (question) "authorizeQuestion input d = Inr plan"
    | (share) "authorizeShare input d shares w = (Inr plan, w')"
    | (none) "plan = []"
    by (auto simp: AuthorizeWithWitnesses_def split: if_splits)
  then have "\<forall>en \<in> set plan. en_EvidenceID en \<in> set (cd_RevealRefs d)
      \<and> (revealAdmitted input d en \<or> testimonyAdmitted input d en \<or> shareAdmitted input d en)"
  proof cases
    case reveal
    from authorizeReveal_Inr [OF this] show ?thesis by blast
  next
    case question
    then show ?thesis
      using questionEntries_Inr
      by (fastforce simp: authorizeQuestion_def testimonyAdmitted_def split: list.splits if_splits)
  next
    case share
    then show ?thesis
      using shareLoop_Inr
      by (fastforce simp: authorizeShare_def shareAdmitted_def bindM_Inr actorEntries_set split: list.splits)
  qed simp
  with d that show thesis by blast
qed

end
