(* ===== verification/Knowledge_Commit.thy ===== *)
theory Knowledge_Commit
  imports Knowledge Stage_Entry
begin

text \<open>
  \<^verbatim>\<open>internal/knowledge\<close>, the half that writes: the granter that commits an authorised plan
  (\<^verbatim>\<open>granter.go\<close>) and the consumer that decides what a failed attempt means
  (\<^verbatim>\<open>consumer.go\<close>). The graph, the artifact store, the clock and the JSON encoding of a triple's
  object are fields of the granter. The lemmas show that a commit overwrites nothing, and that the turn
  names its receipt only after every grant is in the graph.
\<close>

section \<open>The granter\<close>

definition knowledge_Source :: string where "knowledge_Source = ''knowledge-granter''"

definition knowledgeEntityType :: MessageType where
  "knowledgeEntityType =
     \<lparr>mtDomain = payload_Domain, mtCategory = ''knowledge_grant_entity'', mtVersion = SchemaVersion\<rparr>"

definition revelationEntityType :: MessageType where
  "revelationEntityType =
     \<lparr>mtDomain = payload_Domain, mtCategory = ''revelation_receipt_entity'', mtVersion = SchemaVersion\<rparr>"

text \<open>\<open>kg_ctxErr\<close> is what \<^verbatim>\<open>ctx.Err()\<close> returns before each attempt of the final write.\<close>

record 'w Granter =
  kg_graph :: "'w GraphStore"
  kg_putTestimony :: "string \<Rightarrow> Testimony \<Rightarrow> ('w, Ref) M"
  kg_putReceipt :: "string \<Rightarrow> KnowledgeReceipt \<Rightarrow> ('w, Ref) M"
  kg_now :: "'w \<Rightarrow> time \<times> 'w"
  kg_marshal :: "any \<Rightarrow> gerror + string"
  kg_ctxErr :: "nat \<Rightarrow> gerror option"

definition knowledge_now :: "'w Granter \<Rightarrow> ('w, time) M" where
  "knowledge_now g = (\<lambda>w. case kg_now g w of (t, w') \<Rightarrow> (Inr t, w'))"

definition knowledge_fact :: "string \<Rightarrow> time \<Rightarrow> Predicate \<Rightarrow> any \<Rightarrow> Triple" where
  "knowledge_fact subject at predicate object =
     \<lparr>trSubject = subject, trPredicate = predicate, trObject = object, trSource = knowledge_Source,
      trTimestamp = at, trConfidence = f64_one, trContext = subject, trDatatype = [], trExpiresAt = None\<rparr>"

definition knowledge_entity :: "string \<Rightarrow> MessageType \<Rightarrow> time \<Rightarrow> Triple list \<Rightarrow> EntityState" where
  "knowledge_entity i ty at triples =
     \<lparr>esID = i, esMessageType = ty, esVersion = 1, esUpdatedAt = at, esStorageRef = None, esTriples = triples\<rparr>"

definition entityIDFor :: "ext \<Rightarrow> string \<Rightarrow> EntityKind \<Rightarrow> string \<Rightarrow> gerror + string" where
  "entityIDFor X anchor kind inst =
     (case splitOn CHR ''.'' anchor of
        [org, _, worldNS, template, _, _] \<Rightarrow> ComposeEntityID X org worldNS template kind inst
      | _ \<Rightarrow> Inl (Errorf ''anchor is not a six-part entity id''))"

text \<open>\<^verbatim>\<open>framedID\<close> is the content package's function of the same name.\<close>

record derived =
  de_entry :: knowledge_Entry
  de_knowledgeID :: string
  de_revelationID :: string
  de_testimonyID :: string
  de_testimony :: "Testimony option"

definition deriveEntry :: "ext \<Rightarrow> CaseDecision \<Rightarrow> knowledge_Entry \<Rightarrow> gerror + derived" where
  "deriveEntry X d e =
     (case entityIDFor X (en_RecipientID e) EntityKindKnowledge
          (framedID [''knowledge-grant/v1'', en_RecipientID e, en_EvidenceID e]) of
        Inl err \<Rightarrow> Inl err
      | Inr knowledgeID \<Rightarrow>
     (case entityIDFor X (en_RecipientID e) EntityKindRevelation
          (framedID [''revelation-receipt/v1'', cd_TurnID d, cd_DecisionID d, en_RecipientID e, en_EvidenceID e]) of
        Inl err \<Rightarrow> Inl err
      | Inr revelationID \<Rightarrow>
          Inr (let base = \<lparr>de_entry = e, de_knowledgeID = knowledgeID, de_revelationID = revelationID,
                    de_testimonyID = [], de_testimony = None\<rparr>
               in case en_Testimony e of
                    None \<Rightarrow> base
                  | Some t \<Rightarrow> base
                      \<lparr>de_testimony := Some
                         \<lparr>te_TurnID = cd_TurnID d, te_DecisionID = cd_DecisionID d, te_BeliefID = td_BeliefID t,
                          te_SourceActorID = td_SourceActorID t, te_RecipientID = en_RecipientID e,
                          te_EvidenceID = en_EvidenceID e, te_Stance = td_Stance t, te_Prose = td_Prose t\<rparr>,
                       de_testimonyID := TestimonyID (cd_TurnID d) (cd_DecisionID d) (td_BeliefID t)
                         (en_RecipientID e) (en_EvidenceID e)\<rparr>)))"

fun deriveAll :: "ext \<Rightarrow> CaseDecision \<Rightarrow> knowledge_Entry list \<Rightarrow> gerror + derived list" where
  "deriveAll X d [] = Inr []"
| "deriveAll X d (e # es) =
     (case deriveEntry X d e of
        Inl err \<Rightarrow> Inl err
      | Inr x \<Rightarrow> map_sum id ((#) x) (deriveAll X d es))"

text \<open>Reading an absent key gives the zero reference.\<close>

definition refAt :: "(string, Ref) gomap \<Rightarrow> string \<Rightarrow> Ref" where
  "refAt m k = (case map_of m k of None \<Rightarrow> zeroRef | Some r \<Rightarrow> r)"

fun storeTestimonies ::
    "'w Granter \<Rightarrow> derived list \<Rightarrow> (string, Ref) gomap \<Rightarrow> ('w, (string, Ref) gomap) M" where
  "storeTestimonies g [] refs = ret refs"
| "storeTestimonies g (x # xs) refs =
     (case de_testimony x of
        None \<Rightarrow> storeTestimonies g xs refs
      | Some t \<Rightarrow>
          bindM (mapErr (Wrapf ''store testimony'') (kg_putTestimony g (de_testimonyID x) t)) (\<lambda>ref.
          storeTestimonies g xs ((de_revelationID x, ref) # refs)))"

subsection \<open>Creating or verifying an entity\<close>

definition frameworkManagedPredicate :: "ext \<Rightarrow> string \<Rightarrow> bool" where
  "frameworkManagedPredicate X predicate = (predicate = EntityIndexingProfile X)"

definition nul :: char where "nul = CHR 0x00"

fun normalizeTriples ::
    "ext \<Rightarrow> (any \<Rightarrow> gerror + string) \<Rightarrow> bool \<Rightarrow> Triple list \<Rightarrow> gerror + string list" where
  "normalizeTriples X J resident [] = Inr []"
| "normalizeTriples X J resident (t # ts) =
     (if resident \<and> frameworkManagedPredicate X (trPredicate t) then normalizeTriples X J resident ts
      else (case J (trObject t) of
          Inl err \<Rightarrow> Inl (Wrapf ''encode object for exact verification'' err)
        | Inr object \<Rightarrow>
            map_sum id ((#) (trSubject t @ nul # trPredicate t @ nul # object))
              (normalizeTriples X J resident ts)))"

definition exactEntitySemantics ::
    "ext \<Rightarrow> (any \<Rightarrow> gerror + string) \<Rightarrow> EntityState option \<Rightarrow> EntityState option \<Rightarrow> gerror option" where
  "exactEntitySemantics X J got want =
     (case want of
        None \<Rightarrow> Some (Errorf ''integrity verification requires an expected entity'')
      | Some v \<Rightarrow>
          (case got of
             None \<Rightarrow> Some (Errorf ''integrity mismatch for entity'')
           | Some g \<Rightarrow>
               if esID g \<noteq> esID v then Some (Errorf ''integrity mismatch for entity'')
               else if esMessageType g \<noteq> esMessageType v
               then Some (Errorf ''integrity mismatch for existing entity: message type'')
               else if esVersion g \<noteq> esVersion v
               then Some (Errorf ''integrity mismatch for existing entity: version'')
               else (case normalizeTriples X J True (esTriples g) of
                   Inl err \<Rightarrow> Some err
                 | Inr gotTriples \<Rightarrow>
                     (case normalizeTriples X J False (esTriples v) of
                        Inl err \<Rightarrow> Some err
                      | Inr wantTriples \<Rightarrow>
                          failIf (sort gotTriples \<noteq> sort wantTriples)
                            (Errorf ''integrity mismatch for existing entity'')))))"

definition createOrVerify :: "ext \<Rightarrow> 'w Granter \<Rightarrow> EntityState \<Rightarrow> ('w, unit) M" where
  "createOrVerify X g wanted =
     (let contract = (if esMessageType wanted = revelationEntityType
                      then RevelationBirthContract else KnowledgeBirthContract)
      in tryM (gs_CreateEntity (kg_graph g) contract (Some wanted)) (\<lambda>r. case r of
           Inr result \<Rightarrow>
             if cr_Entity result = None then throw (Errorf ''create entity returned no read-back'')
             else checkM (exactEntitySemantics X (kg_marshal g) (cr_Entity result) (Some wanted)) (ret ())
         | Inl err \<Rightarrow>
             if \<not> errors_Is err ErrEntityExists then throw err
             else bindM (mapErr (Wrapf ''verify existing entity'')
                 (gs_GetEntity (kg_graph g) (esID wanted))) (\<lambda>resident.
               checkM (exactEntitySemantics X (kg_marshal g) (Some resident) (Some wanted)) (ret ()))))"

definition knowledgeGrant :: "time \<Rightarrow> derived \<Rightarrow> EntityState" where
  "knowledgeGrant at x =
     (let i = de_knowledgeID x in
      knowledge_entity i knowledgeEntityType at
        [knowledge_fact i at WorldEntityKind (AString EntityKindKnowledge),
         knowledge_fact i at KnowledgeActorHolder (AString (en_RecipientID (de_entry x))),
         knowledge_fact i at KnowledgeEvidenceRef (AString (en_EvidenceID (de_entry x)))])"

definition revelationReceipt :: "CaseDecision \<Rightarrow> (string, Ref) gomap \<Rightarrow> time \<Rightarrow> derived \<Rightarrow> EntityState" where
  "revelationReceipt d refs at x =
     (let i = de_revelationID x in
      knowledge_entity i revelationEntityType at
        ([knowledge_fact i at WorldEntityKind (AString EntityKindRevelation),
          knowledge_fact i at RevelationActorHolder (AString (en_RecipientID (de_entry x))),
          knowledge_fact i at RevelationEvidenceRef (AString (en_EvidenceID (de_entry x))),
          knowledge_fact i at RevelationTurnID (AString (cd_TurnID d))] @
         (case en_Testimony (de_entry x) of
            None \<Rightarrow> []
          | Some t \<Rightarrow>
              [knowledge_fact i at RevelationSourceActor (AString (td_SourceActorID t)),
               knowledge_fact i at RevelationTestimonyRef (AString (Ref_String (refAt refs i)))])))"

fun createAll :: "ext \<Rightarrow> 'w Granter \<Rightarrow> string \<Rightarrow> EntityState list \<Rightarrow> ('w, unit) M" where
  "createAll X g what [] = ret ()"
| "createAll X g what (e # es) =
     bindM (mapErr (Wrapf what) (createOrVerify X g e)) (\<lambda>_. createAll X g what es)"

definition receiptEntry :: "(string, Ref) gomap \<Rightarrow> derived \<Rightarrow> KnowledgeReceiptEntry" where
  "receiptEntry refs x =
     \<lparr>ke_RecipientID = en_RecipientID (de_entry x), ke_EvidenceID = en_EvidenceID (de_entry x),
      ke_KnowledgeID = de_knowledgeID x, ke_RevelationID = de_revelationID x,
      ke_TestimonyRef = Ref_String (refAt refs (de_revelationID x))\<rparr>"

definition writeTurnRef :: "'w Granter \<Rightarrow> string \<Rightarrow> Ref \<Rightarrow> ('w, unit) M" where
  "writeTurnRef g turnEntityID ref =
     bindM (knowledge_now g) (\<lambda>at.
     mapErr (Wrapf ''record knowledge receipt on turn'')
       (RetryRevisionConflict (kg_ctxErr g)
         (bindM (gs_Reconcile (kg_graph g) TurnKnowledge turnEntityID
             [knowledge_fact turnEntityID at TurnKnowledgeRef (AString (Ref_String ref))]) (\<lambda>_. ret ()))))"

definition knowledge_commit ::
    "ext \<Rightarrow> 'w Granter \<Rightarrow> string \<Rightarrow> CaseDecision option \<Rightarrow> knowledge_Plan \<Rightarrow> ('w, Ref) M" where
  "knowledge_commit X g turnEntityID decision plan =
     (case decision of
        None \<Rightarrow> throw (Errorf ''knowledge commit requires a decision'')
      | Some d \<Rightarrow>
        bindM (liftR (deriveAll X d plan)) (\<lambda>xs.
        bindM (storeTestimonies g xs []) (\<lambda>refs.
        bindM (knowledge_now g) (\<lambda>at.
        bindM (createAll X g ''commit knowledge grant'' (map (knowledgeGrant at) xs)) (\<lambda>_.
        bindM (createAll X g ''commit revelation receipt'' (map (revelationReceipt d refs at) xs)) (\<lambda>_.
        bindM (mapErr (Wrapf ''store aggregate knowledge receipt'') (kg_putReceipt g turnEntityID
            \<lparr>kr_TurnID = cd_TurnID d, kr_DecisionID = cd_DecisionID d, kr_Status = KnowledgeCommitted,
             kr_Entries = SortedKnowledgeEntries (map (receiptEntry refs) xs)\<rparr>)) (\<lambda>ref.
        bindM (writeTurnRef g turnEntityID ref) (\<lambda>_.
        ret ref))))))))"

definition GrantWithWitnesses ::
    "ext \<Rightarrow> 'w Granter \<Rightarrow> string \<Rightarrow> Preflight \<Rightarrow> 'w ShareAuthorizer option \<Rightarrow> 'w WitnessAuthorizer option
     \<Rightarrow> ('w, Ref) M" where
  "GrantWithWitnesses X g turnEntityID input shares witnesses =
     bindM (AuthorizeWithWitnesses input shares witnesses) (\<lambda>plan.
     knowledge_commit X g turnEntityID (pf_Decision input) plan)"

definition Grant ::
    "ext \<Rightarrow> 'w Granter \<Rightarrow> string \<Rightarrow> Preflight \<Rightarrow> 'w ShareAuthorizer option \<Rightarrow> ('w, Ref) M" where
  "Grant X g turnEntityID input shares = GrantWithWitnesses X g turnEntityID input shares None"

definition GrantNotApplicable :: "'w Granter \<Rightarrow> string \<Rightarrow> string \<Rightarrow> ('w, Ref) M" where
  "GrantNotApplicable g turnID turnEntityID =
     bindM (kg_putReceipt g turnEntityID
         \<lparr>kr_TurnID = turnID, kr_DecisionID = [], kr_Status = KnowledgeNotApplicable, kr_Entries = []\<rparr>) (\<lambda>ref.
     bindM (writeTurnRef g turnEntityID ref) (\<lambda>_.
     ret ref))"

section \<open>The consumer\<close>

text \<open>\<open>kc_GrantWithWitnesses\<close> is present when the committer supports witnesses.\<close>

record 'w KnowledgeConsumer =
  kc_loader :: "string \<Rightarrow> ('w, LoadResult) M"
  kc_Grant :: "string \<Rightarrow> Preflight \<Rightarrow> 'w ShareAuthorizer option \<Rightarrow> ('w, Ref) M"
  kc_GrantNotApplicable :: "string \<Rightarrow> string \<Rightarrow> ('w, Ref) M"
  kc_GrantWithWitnesses ::
    "(string \<Rightarrow> Preflight \<Rightarrow> 'w ShareAuthorizer option \<Rightarrow> 'w WitnessAuthorizer option \<Rightarrow> ('w, Ref) M) option"
  kc_failer :: "'w TurnFailer"
  kc_details :: "string \<Rightarrow> FailureDetail \<Rightarrow> ('w, Ref) M"
  kc_shares :: "'w ShareAuthorizer option"
  kc_witnesses :: "'w WitnessAuthorizer option"

definition authorizationErrorOf :: "gerror \<Rightarrow> AuthorizationReason option" where
  "authorizationErrorOf err = errors_As (\<lambda>e. case e of AuthorizationError r \<Rightarrow> Some r | _ \<Rightarrow> None) err"

definition authorizationFailureMessage :: string where
  "authorizationFailureMessage = ''knowledge authorization was refused''"

definition failUnauthorized ::
    "'w KnowledgeConsumer \<Rightarrow> Trigger \<Rightarrow> AuthorizationReason \<Rightarrow> ('w, unit) M" where
  "failUnauthorized c trigger reason =
     tryM (kc_details c (tg_TurnEntityID trigger)
         \<lparr>fd_TurnID = tg_TurnID trigger, fd_Reason = FailureKnowledgeUnauthorized,
          fd_Class = FailureClassDeterministic, fd_AuthorizationReason = reason,
          fd_Message = authorizationFailureMessage, fd_Target = [], fd_Committed = []\<rparr>) (\<lambda>r. case r of
       Inl _ \<Rightarrow> throw (Errorf ''store knowledge authorization failure detail'')
     | Inr ref \<Rightarrow>
         if Ref_IsZero ref
         then throw (Errorf ''store knowledge authorization failure detail returned no reference'')
         else bindM (mapErr (Wrapf ''durably fail unauthorized knowledge turn'')
             (kc_failer c (tg_TurnID trigger) (tg_TurnEntityID trigger) FailureKnowledgeUnauthorized ref))
           (\<lambda>_. ret ()))"

definition KnowledgeConsumer_Handle ::
    "ext \<Rightarrow> (string \<Rightarrow> gerror + string \<times> string) \<Rightarrow> 'w KnowledgeConsumer \<Rightarrow> string \<Rightarrow> ('w, unit) M" where
  "KnowledgeConsumer_Handle X decode c data =
     (case ParseTrigger X decode data of
        Inl err \<Rightarrow> throw (TerminateDelivery err)
      | Inr trigger \<Rightarrow>
        tryM (kc_loader c (tg_TurnEntityID trigger)) (\<lambda>r. case r of
          Inl err \<Rightarrow>
            (case authorizationErrorOf err of
               Some reason \<Rightarrow> failUnauthorized c trigger reason
             | None \<Rightarrow> throw (Wrapf ''load knowledge preflight'' err))
        | Inr loaded \<Rightarrow>
            if \<not> lr_Applicable loaded
            then bindM (kc_GrantNotApplicable c (lr_TurnID loaded) (tg_TurnEntityID trigger)) (\<lambda>_. ret ())
            else
              tryM (case kc_witnesses c of
                  None \<Rightarrow> kc_Grant c (tg_TurnEntityID trigger) (lr_Preflight loaded) (kc_shares c)
                | Some witness \<Rightarrow>
                    (case kc_GrantWithWitnesses c of
                       None \<Rightarrow> throw (Errorf ''knowledge committer does not support configured witness authorization'')
                     | Some grant \<Rightarrow>
                         grant (tg_TurnEntityID trigger) (lr_Preflight loaded) (kc_shares c) (Some witness)))
                (\<lambda>q. case q of
                  Inr _ \<Rightarrow> ret ()
                | Inl err \<Rightarrow>
                    if kc_witnesses c \<noteq> None \<and> kc_GrantWithWitnesses c = None then throw err
                    else (case authorizationErrorOf err of
                        None \<Rightarrow> throw (Wrapf ''commit knowledge grant'' err)
                      | Some reason \<Rightarrow> failUnauthorized c trigger reason))))"

section \<open>What a commit changes\<close>

lemma Predicates_stage:
  "Predicates TurnKnowledge = [TurnKnowledgeRef]" "Predicates TurnAccusation = [TurnAccusationRef]"
  "Predicates TurnCaseProgress = [TurnCaseProgressRef]"
  "Predicates CaseLifecycleReceipt = [CaseLifecycleEventID, CaseLifecycleEventKindPredicate,
     CaseLifecycleFromPhase, CaseLifecycleToPhase]"
  by (simp_all add: Predicates_def contract_tables target_names contract_names)

lemma deriveAll_Inr: "deriveAll X d es = Inr xs \<Longrightarrow> list_all2 (\<lambda>e x. deriveEntry X d e = Inr x) es xs"
  by (induction es arbitrary: xs) (auto split: sum.splits)

lemma objs_same: "ents w i = ents w' i \<Longrightarrow> objs ents w i p = objs ents w' i p"
  by (simp add: graphOf_def)

text \<open>Deciding leaves the world as the policies it asks leave it.\<close>

lemma shareLoop_keeps:
  assumes "reflp R" "transp R" "\<And>f a b c. shares = Some f \<Longrightarrow> keeps R (f a b c)"
  shows "keeps R (shareLoop input shares recipient es)"
  using assms by (induction es) (auto split: option.splits intro!: keeps_pure keeps_bindM)

lemma authorize_keeps:
  assumes "reflp R" "transp R" "\<And>f a b c. shares = Some f \<Longrightarrow> keeps R (f a b c)"
    and "\<And>f a b. witnesses = Some f \<Longrightarrow> keeps R (f a b)"
  shows "keeps R (AuthorizeWithWitnesses input shares witnesses)"
  unfolding AuthorizeWithWitnesses_def authorizeReveal_def authorizeShare_def Let_def
  using assms shareLoop_keeps [of R shares]
  by (auto split: option.splits list.splits prod.splits intro!: keeps_pure keeps_bindM keeps_checkM keeps_mapErr)

lemma deriveEntry_entry: "deriveEntry X d e = Inr x \<Longrightarrow> de_entry x = e"
  by (auto simp: deriveEntry_def Let_def split: sum.splits option.splits)

lemma deriveAll_set:
  assumes "deriveAll X d plan = Inr xs" and "x \<in> set xs"
  shows "de_entry x \<in> set plan \<and> deriveEntry X d (de_entry x) = Inr x"
  using assms by (induction plan arbitrary: xs) (auto split: sum.splits simp: deriveEntry_entry)

text \<open>Nothing that exists changes, and only the entities of \<open>A\<close> come into being.\<close>

definition onlyBorn :: "string set \<Rightarrow> (string \<rightharpoonup> 'e) \<Rightarrow> (string \<rightharpoonup> 'e) \<Rightarrow> bool" where
  "onlyBorn A m m' = (m \<subseteq>\<^sub>m m' \<and> (\<forall>i. i \<notin> A \<longrightarrow> m' i = m i))"

lemma onlyBorn_refl [simp, intro]: "onlyBorn A m m"
  by (simp add: onlyBorn_def)

lemma onlyBorn_trans [trans]: "onlyBorn A m m' \<Longrightarrow> onlyBorn A m' m'' \<Longrightarrow> onlyBorn A m m''"
  unfolding onlyBorn_def by (metis map_le_trans)

lemma onlyBorn_mono: "onlyBorn A m m' \<Longrightarrow> A \<subseteq> B \<Longrightarrow> onlyBorn B m m'"
  unfolding onlyBorn_def by blast

lemma onlyBorn_keeps: "onlyBorn A m m' \<Longrightarrow> m i = Some e \<Longrightarrow> m' i = Some e"
  unfolding onlyBorn_def by (blast intro: map_le_Some)

text \<open>The entities a derived entry stands for.\<close>

definition grantIDs :: "derived list \<Rightarrow> string set" where
  "grantIDs xs = de_knowledgeID ` set xs \<union> de_revelationID ` set xs"

locale knowledge_granter = graph_store X S ents
  for X :: ext and S :: "'w GraphStore" and ents :: "'w \<Rightarrow> string \<Rightarrow> EntityState option" +
  fixes g :: "'w Granter"
  assumes store: "kg_graph g = S"
    and testimony_frame: "kg_putTestimony g i t w = (r, w') \<Longrightarrow> ents w' = ents w"
    and receipt_frame: "kg_putReceipt g i k w = (r, w') \<Longrightarrow> ents w' = ents w"
    and clock_frame: "ents (snd (kg_now g w)) = ents w"
begin

lemma now_frame: "knowledge_now g w = (r, w') \<Longrightarrow> ents w' = ents w"
  using clock_frame [of w] by (auto simp: knowledge_now_def split: prod.splits)

lemma testimonies_frame: "storeTestimonies g xs refs w = (r, w') \<Longrightarrow> ents w' = ents w"
  by (induction xs arbitrary: refs w)
    (auto split: option.splits elim!: bindM_cases simp: mapErr_Inl dest!: testimony_frame)

text \<open>Creating or verifying an entity touches no other.\<close>

lemma createOrVerify_keeps:
  assumes "createOrVerify X g e w = (r, w')"
  shows "onlyBorn {esID e} (ents w) (ents w')" and "r = Inr () \<Longrightarrow> ents w' (esID e) \<noteq> None"
proof -
  let ?ct = "if esMessageType e = revelationEntityType then RevelationBirthContract else KnowledgeBirthContract"
  obtain q w1 where q: "gs_CreateEntity S ?ct (Some e) w = (q, w1)" by fastforce
  have le: "onlyBorn {esID e} (ents w) (ents w1)"
    using birth_ok [of ?ct e w] birth_failed [of ?ct e w] q
    by (cases q) (fastforce simp: map_le_def onlyBorn_def)+
  have same: "ents w' = ents w1"
    using assms q unfolding createOrVerify_def store Let_def
    by (auto simp: tryM_eq checkM_eq mapErr_Inl split: sum.splits if_splits
        elim!: bindM_cases dest!: get_frame)
  with le show "onlyBorn {esID e} (ents w) (ents w')" by simp
  show "ents w' (esID e) \<noteq> None" if "r = Inr ()"
  proof (cases q)
    case (Inl err)
    with assms q that have "errors_Is err ErrEntityExists"
      unfolding createOrVerify_def store Let_def by (auto simp: tryM_eq split: if_splits)
    with birth_exists [OF q [unfolded Inl]] same show ?thesis by simp
  next
    case (Inr res)
    with birth_ok [OF q [unfolded Inr]] same show ?thesis by auto
  qed
qed

lemma createAll_keeps:
  assumes "createAll X g what es w = (r, w')"
  shows "onlyBorn (esID ` set es) (ents w) (ents w')" and "r = Inr () \<Longrightarrow> \<forall>e \<in> set es. ents w' (esID e) \<noteq> None"
proof -
  have "onlyBorn (esID ` set es) (ents w) (ents w') \<and> (r = Inr () \<longrightarrow> (\<forall>e \<in> set es. ents w' (esID e) \<noteq> None))"
    using assms
  proof (induction es arbitrary: w)
    case (Cons e es)
    from Cons.prems [unfolded createAll.simps] show ?case
    proof (cases rule: bindM_cases)
      case (Inl err)
      then show ?thesis using onlyBorn_mono [OF createOrVerify_keeps(1)] by (auto simp: mapErr_Inl)
    next
      case (Inr u w1)
      then have c: "createOrVerify X g e w = (Inr (), w1)" by simp
      note first = createOrVerify_keeps [OF c]
      note rest = Cons.IH [OF Inr(2)]
      have "onlyBorn (esID ` set (e # es)) (ents w) (ents w')"
        using onlyBorn_trans [OF onlyBorn_mono [OF first(1)] onlyBorn_mono [OF conjunct1 [OF rest]]] by auto
      moreover have "ents w' (esID e) \<noteq> None"
        using first(2) [OF refl] onlyBorn_keeps [OF conjunct1 [OF rest]] by auto
      ultimately show ?thesis using rest by auto
    qed
  qed simp
  then show "onlyBorn (esID ` set es) (ents w) (ents w')" "r = Inr () \<Longrightarrow> \<forall>e \<in> set es. ents w' (esID e) \<noteq> None" by auto
qed

text \<open>The last write touches one cell, and its success is what the turn then names.\<close>

definition refCell :: "string \<Rightarrow> 'w \<Rightarrow> 'w \<Rightarrow> bool" where
  "refCell turn v v' = ((\<forall>i. i \<noteq> turn \<longrightarrow> ents v' i = ents v i) \<and> (\<forall>i. ents v i \<noteq> None \<longrightarrow> ents v' i \<noteq> None)
     \<and> offCells {(turn, TurnKnowledgeRef)} (objs ents v) (objs ents v'))"

lemma refCell_rel: "reflp (refCell turn)" "transp (refCell turn)"
  by (auto simp: refCell_def reflp_def transp_def offCells_def)

lemma refCell_put: "keeps (refCell turn) (bindM (gs_Reconcile S TurnKnowledge turn ds) (\<lambda>_. ret ()))"
proof (intro keeps_bindM keeps_pure refCell_rel)
  show "keeps (refCell turn) (gs_Reconcile S TurnKnowledge turn ds)"
    unfolding keeps_def
  proof (intro allI impI)
    fix w r w' assume run: "gs_Reconcile S TurnKnowledge turn ds w = (r, w')"
    have "offCells {(turn, TurnKnowledgeRef)} (objs ents w) (objs ents w')"
    proof (cases r)
      case (Inl e)
      with run put_failed_objs [of TurnKnowledge turn ds w e w'] show ?thesis
        by (auto simp: offCells_def Predicates_stage)
    next
      case (Inr e)
      with run put_objs [of TurnKnowledge turn ds w e w'] show ?thesis
        by (auto simp: offCells_def Predicates_stage)
    qed
    moreover have "(\<forall>i. i \<noteq> turn \<longrightarrow> ents w' i = ents w i) \<and> (\<forall>i. ents w i \<noteq> None \<longrightarrow> ents w' i \<noteq> None)"
      using run put_ok [of TurnKnowledge turn ds w] put_failed [of TurnKnowledge turn ds w]
      by (cases r) fastforce+
    ultimately show "refCell turn w w'" by (simp add: refCell_def)
  qed
qed

lemma writeTurnRef_keeps:
  assumes "writeTurnRef g turn ref w = (r, w')"
  shows "refCell turn w w'" and "r = Inr () \<Longrightarrow> objs ents w' turn TurnKnowledgeRef = {#AString (Ref_String ref)#}"
proof -
  from assms obtain at w1 where at: "knowledge_now g w = (Inr at, w1)"
    and retry: "mapErr (Wrapf ''record knowledge receipt on turn'') (RetryRevisionConflict (kg_ctxErr g)
      (bindM (gs_Reconcile S TurnKnowledge turn [knowledge_fact turn at TurnKnowledgeRef (AString (Ref_String ref))])
        (\<lambda>_. ret ()))) w1 = (r, w')"
    unfolding writeTurnRef_def store
    by (auto elim!: bindM_cases simp: knowledge_now_def split: prod.splits)
  have "refCell turn w1 w'"
    using keeps_mapErr [OF retry_keeps [OF refCell_rel refCell_put]] retry by (rule keepsD)
  with now_frame [OF at] show "refCell turn w w'" by (simp add: refCell_def graphOf_def [abs_def])
  show "objs ents w' turn TurnKnowledgeRef = {#AString (Ref_String ref)#}" if "r = Inr ()"
  proof -
    from retry that obtain w2 e where
      "gs_Reconcile S TurnKnowledge turn [knowledge_fact turn at TurnKnowledgeRef (AString (Ref_String ref))] w2 =
         (Inr e, w')"
      using retry_Inr by (fastforce simp: bindM_Inr)
    from put_objs [OF this] show ?thesis by (simp add: Predicates_stage knowledge_fact_def)
  qed
qed

lemma born_objs: "onlyBorn A (ents v) (ents v') \<Longrightarrow> ents v i \<noteq> None \<Longrightarrow> objs ents v' i p = objs ents v i p"
  using onlyBorn_keeps [of A "ents v" "ents v'" i] by (auto simp: graphOf_def)

lemma esID_grants: "esID ` set (map (knowledgeGrant at) xs) = de_knowledgeID ` set xs"
    "esID ` set (map (revelationReceipt d refs at) xs) = de_revelationID ` set xs"
  by (simp_all add: knowledgeGrant_def revelationReceipt_def knowledge_entity_def Let_def image_image)

lemma grants_mono: "onlyBorn (de_knowledgeID ` set xs) m m' \<Longrightarrow> onlyBorn (grantIDs xs) m m'"
    "onlyBorn (de_revelationID ` set xs) m m' \<Longrightarrow> onlyBorn (grantIDs xs) m m'"
  by (auto simp: grantIDs_def intro: onlyBorn_mono)

lemma commit_stages:
  assumes run: "knowledge_commit X g turn (Some d) plan w = (r, w')"
  obtains (refused) e where "r = Inl e" "w' = w"
  | (early) xs e where "r = Inl e" "deriveAll X d plan = Inr xs" "onlyBorn (grantIDs xs) (ents w) (ents w')"
  | (final) xs ref w1 q where "deriveAll X d plan = Inr xs" "onlyBorn (grantIDs xs) (ents w) (ents w1)"
      "\<forall>x \<in> set xs. ents w1 (de_knowledgeID x) \<noteq> None \<and> ents w1 (de_revelationID x) \<noteq> None"
      "writeTurnRef g turn ref w1 = (q, w')" "r = (case q of Inl e \<Rightarrow> Inl e | Inr _ \<Rightarrow> Inr ref)"
  using run unfolding knowledge_commit_def option.case
proof (cases rule: bindM_cases)
  case (Inl e)
  then show thesis using refused by simp
next
  case (Inr xs w0)
  then have xs: "deriveAll X d plan = Inr xs" and w0: "w0 = w" by simp_all
  from Inr(2)[unfolded w0] show thesis
  proof (cases rule: bindM_cases)
    case (Inl e)
    then have "ents w' = ents w" using testimonies_frame by blast
    with early [OF Inl(2) xs] show thesis by simp
  next
    case (Inr refs w1)
    have e1: "ents w1 = ents w" using testimonies_frame Inr(1) by blast
    from Inr(2) show thesis
    proof (cases rule: bindM_cases)
      case (Inl e)
      then show thesis by (auto simp: knowledge_now_def split: prod.splits)
    next
      case (Inr at w2)
      have e2: "ents w2 = ents w" using now_frame [OF Inr(1)] e1 by simp
      from Inr(2) show thesis
      proof (cases rule: bindM_cases)
        case (Inl e)
        show thesis
          using Inl(2) xs grants_mono(1) [OF createAll_keeps(1) [OF Inl(1), unfolded e2 esID_grants]] by (rule early)
      next
        case grants: (Inr u w3)
        note k3 = createAll_keeps [OF grants(1), unfolded e2 esID_grants]
        from grants(2) show thesis
        proof (cases rule: bindM_cases)
          case (Inl e)
          show thesis using Inl(2) xs onlyBorn_trans [OF grants_mono(1) [OF k3(1)]
              grants_mono(2) [OF createAll_keeps(1) [OF Inl(1), unfolded esID_grants]]] by (rule early)
        next
          case receipts: (Inr u' w4)
          note k4 = createAll_keeps [OF receipts(1), unfolded esID_grants]
          have le: "onlyBorn (grantIDs xs) (ents w) (ents w4)"
            by (rule onlyBorn_trans [OF grants_mono(1) [OF k3(1)] grants_mono(2) [OF k4(1)]])
          have there: "ents w4 (de_knowledgeID x) \<noteq> None \<and> ents w4 (de_revelationID x) \<noteq> None" if "x \<in> set xs" for x
          proof
            from k3(2) that have "ents w3 (de_knowledgeID x) \<noteq> None"
              by (force simp: knowledgeGrant_def knowledge_entity_def Let_def)
            then show "ents w4 (de_knowledgeID x) \<noteq> None" using onlyBorn_keeps [OF k4(1)] by blast
            from k4(2) that show "ents w4 (de_revelationID x) \<noteq> None"
              by (force simp: revelationReceipt_def knowledge_entity_def Let_def)
          qed
          from receipts(2) show thesis
          proof (cases rule: bindM_cases)
            case (Inl e)
            then obtain e0 where "mapErr (Wrapf ''store aggregate knowledge receipt'') (kg_putReceipt g turn
              \<lparr>kr_TurnID = cd_TurnID d, kr_DecisionID = cd_DecisionID d, kr_Status = KnowledgeCommitted,
               kr_Entries = SortedKnowledgeEntries (map (receiptEntry refs) xs)\<rparr>) w4 = (Inl e, w')" by blast
            then have "ents w' = ents w4" using receipt_frame by (auto simp: mapErr_Inl)
            then show thesis using early Inl(2) le xs by simp
          next
            case (Inr ref w5)
            then have e5: "ents w5 = ents w4" using receipt_frame by auto
            from Inr(2) show thesis
            proof (cases rule: bindM_cases)
              case (Inl e)
              with final [of xs w5 ref "Inl e"] xs le e5 there show thesis by simp
            next
              case (Inr u w6)
              with final [of xs w5 ref "Inr ()"] xs le e5 there show thesis by simp
            qed
          qed
        qed
      qed
    qed
  qed
qed

lemma commit_keeps:
  assumes run: "knowledge_commit X g turn (Some d) plan w = (r, w')" and turn: "ents w turn \<noteq> None"
  shows "(i \<noteq> turn \<longrightarrow> ents w i = Some e \<longrightarrow> ents w' i = Some e)
    \<and> (p \<noteq> TurnKnowledgeRef \<longrightarrow> objs ents w' turn p = objs ents w turn p)
    \<and> (ents w i = None \<longrightarrow> ents w' i \<noteq> None \<longrightarrow> (\<exists>xs. deriveAll X d plan = Inr xs \<and> i \<in> grantIDs xs))
    \<and> (objs ents w' turn TurnKnowledgeRef \<noteq> objs ents w turn TurnKnowledgeRef \<or> (\<exists>ref. r = Inr ref) \<longrightarrow>
       (\<exists>xs. deriveAll X d plan = Inr xs \<and> (\<forall>j \<in> grantIDs xs. ents w' j \<noteq> None)))
    \<and> (\<forall>ref. r = Inr ref \<longrightarrow> objs ents w' turn TurnKnowledgeRef = {#AString (Ref_String ref)#})"
  using run
proof (cases rule: commit_stages)
  case (refused e')
  then show ?thesis by simp
next
  case (early xs e')
  have fresh: "i \<in> grantIDs xs" if "ents w i = None" "ents w' i \<noteq> None"
    using early(3) that by (auto simp: onlyBorn_def)
  show ?thesis using born_objs [OF early(3) turn] onlyBorn_keeps [OF early(3)] early(1,2) fresh by simp
next
  case (final xs ref' w1 q)
  note wr = writeTurnRef_keeps [OF final(4)]
  have same: "objs ents w1 turn p = objs ents w turn p" for p by (rule born_objs [OF final(2) turn])
  have kept: "ents w1 i = Some e" if "ents w i = Some e" using onlyBorn_keeps [OF final(2) that] .
  have there: "ents w' j \<noteq> None" if "j \<in> grantIDs xs" for j
    using wr(1) final(3) that unfolding refCell_def grantIDs_def by blast
  have fresh: "i \<in> grantIDs xs" if "ents w i = None" "ents w' i \<noteq> None"
  proof -
    from that turn have "ents w1 i \<noteq> None" using wr(1) unfolding refCell_def by metis
    with final(2) that(1) show ?thesis by (auto simp: onlyBorn_def)
  qed
  have cell: "objs ents w' turn p = objs ents w turn p" if "p \<noteq> TurnKnowledgeRef"
    using wr(1) same that by (simp add: refCell_def offCells_def)
  have ref: "objs ents w' turn TurnKnowledgeRef = {#AString (Ref_String ref)#}" if "r = Inr ref" for ref
    using wr(2) final(5) that by (simp split: sum.splits)
  show ?thesis using wr(1) kept there cell ref final(1) fresh by (simp add: refCell_def)
qed

lemma grant_keeps:
  assumes "\<And>f a b c. shares = Some f \<Longrightarrow> keeps (\<lambda>v v'. ents v' = ents v) (f a b c)"
    and "\<And>f a b. witnesses = Some f \<Longrightarrow> keeps (\<lambda>v v'. ents v' = ents v) (f a b)"
    and run: "GrantWithWitnesses X g turn input shares witnesses w = (r, w')"
  obtains (refused) e where "r = Inl e" "ents w' = ents w"
  | (granted) d plan w1 where "pf_Decision input = Some d" "ents w1 = ents w"
      "AuthorizeWithWitnesses input shares witnesses w = (Inr plan, w1)"
      "knowledge_commit X g turn (Some d) plan w1 = (r, w')"
proof -
  have frame: "keeps (\<lambda>v v'. ents v' = ents v) (AuthorizeWithWitnesses input shares witnesses)"
    using assms(1,2) by (intro authorize_keeps) (auto simp: reflp_def transp_def)
  from run [unfolded GrantWithWitnesses_def] show thesis
  proof (cases rule: bindM_cases)
    case (Inl e)
    with frame show ?thesis by (intro refused) (auto simp: keeps_def)
  next
    case (Inr plan w1)
    from Inr(1) obtain d where "pf_Decision input = Some d" by (rule AuthorizeWithWitnesses_Inr)
    with Inr frame show ?thesis by (intro granted) (auto simp: keeps_def)
  qed
qed

end

end
