(* ===== verification/Reference_Graph.thy ===== *)
theory Reference_Graph
  imports Graphio
begin

text \<open>
  A reference instance of the SemStreams interfaces the program is written against: the
  identifier grammar (six non-empty dot-separated segments, three for a predicate), and a mutation
  client over an in-memory graph. The client follows a schedule of faults, one per call: a call
  may be refused before it does anything, or do its work and lose the acknowledgement, which is
  how a commit of unknown fate arises. The interpretation discharges every law of
  \<open>mutation_client\<close>, whatever the schedule; concrete runs of the program evaluate on it.
\<close>

section \<open>Identifiers\<close>

definition refSegments :: "string \<Rightarrow> bool" where
  "refSegments s = (\<forall>p \<in> set (splitOn CHR ''.'' s). p \<noteq> [])"

definition refExt :: ext where
  "refExt =
     \<lparr>MaxEntityIDBytes = 256,
      ValidateEntityID = (\<lambda>s. failIf (\<not> (length s \<le> 256 \<and> length (splitOn CHR ''.'' s) = 6 \<and> refSegments s))
        (External ''invalid entity id'')),
      ParseEntityID = (\<lambda>s. case splitOn CHR ''.'' s of
          [a, b, c, d, e, f] \<Rightarrow> Inr \<lparr>ep_Org = a, ep_Platform = b, ep_Domain = c, ep_System = d,
             ep_Type = e, ep_Instance = f\<rparr>
        | _ \<Rightarrow> Inl (External ''invalid entity id'')),
      ValidateEntityIDPrefix = (\<lambda>s. failIf (\<not> (length s \<le> 256 \<and> length (splitOn CHR ''.'' s) \<le> 6 \<and> refSegments s))
        (External ''invalid entity id prefix'')),
      ParsePredicate = (\<lambda>s. case splitOn CHR ''.'' s of
          [a, b, p] \<Rightarrow> if a \<noteq> [] \<and> b \<noteq> [] \<and> p \<noteq> [] then Inr (a, b, p) else Inl (External ''invalid predicate'')
        | _ \<Rightarrow> Inl (External ''invalid predicate'')),
      FormatFloat = (\<lambda>_. ''float''),
      ValidateEntityStateContract = (\<lambda>e. failIf (esID e = []) (External ''entity state has no id'')),
      IsValidIndexingProfile = (\<lambda>p. p = ''control''),
      EntityIndexingProfile = ''entity.indexing.profile'',
      MarshalTriple = (\<lambda>t. trSubject t @ trPredicate t @
        (case trObject t of AString s \<Rightarrow> s | _ \<Rightarrow> [])),
      ErrorCodeEntityNotFound = ''entity_not_found'',
      ErrorCodeIndexNotReady = ''index_not_ready'',
      EntityReferenceDatatype = ''entity_reference'',
      MissingUnknown = ''unknown'',
      ValidateDecodedEntityStates = (\<lambda>_. None)\<rparr>"

section \<open>The in-memory client\<close>

datatype fault = Refused mutation_kind | AckLost

record memGraph =
  mg_ents :: "(string \<times> EntityState) list"
  mg_faults :: "fault option list"

definition memEnts :: "'z memGraph_scheme \<Rightarrow> string \<Rightarrow> EntityState option" where
  "memEnts w = map_of (mg_ents w)"

definition popFault :: "'z memGraph_scheme \<Rightarrow> fault option \<times> 'z memGraph_scheme" where
  "popFault w =
     (case mg_faults w of [] \<Rightarrow> (None, w) | f # fs \<Rightarrow> (f, w\<lparr>mg_faults := fs\<rparr>))"

definition memRead :: "string \<Rightarrow> ('z memGraph_scheme, ExactEntity option) M" where
  "memRead i = (\<lambda>w. case popFault w of
       (Some _, w1) \<Rightarrow> (Inl (External ''read timed out''), w1)
     | (None, w1) \<Rightarrow>
         (case memEnts w1 i of
            None \<Rightarrow> (Inl (MutationError MutationNotFound CommitNotCommitted), w1)
          | Some e \<Rightarrow> (Inr (Some \<lparr>ex_Entity = Some e, ex_KVRevision = esVersion e + 1\<rparr>), w1)))"

text \<open>A refusal never claims a conflict or an absence that the state does not show.\<close>

definition refusal :: "mutation_kind \<Rightarrow> gerror" where
  "refusal k = MutationError
     (if k = MutationRevisionConflict \<or> k = MutationCommitUnknown then k else MutationOther ''refused'')
     (if k = MutationCommitUnknown then CommitUnknown else CommitNotCommitted)"

definition memStore :: "string \<Rightarrow> EntityState \<Rightarrow> fault option \<Rightarrow> ('z memGraph_scheme, MutationReceipt) M" where
  "memStore i e' f = (\<lambda>w.
     let w1 = w\<lparr>mg_ents := (i, e') # mg_ents w\<rparr> in
     (if f = Some AckLost then Inl (MutationError MutationCommitUnknown CommitUnknown)
      else Inr \<lparr>re_Entity = Some e', re_KVRevision = esVersion e' + 1\<rparr>, w1))"

definition memReconcile :: "ReconcileMutation \<Rightarrow> ('z memGraph_scheme, MutationReceipt) M" where
  "memReconcile m = (\<lambda>w. case popFault w of
       (Some (Refused k), w1) \<Rightarrow> (Inl (refusal k), w1)
     | (f, w1) \<Rightarrow>
         (case memEnts w1 (rm_EntityID m) of
            None \<Rightarrow> (Inl (MutationError MutationNotFound CommitNotCommitted), w1)
          | Some e \<Rightarrow>
              let G = Predicates (target (rm_Contract m) (rm_Group m)) in
              if list_all (\<lambda>t. List.member G (trPredicate t)) (rm_Desired m)
              then memStore (rm_EntityID m)
                     (e\<lparr>esVersion := esVersion e + 1,
                        esTriples := filter (\<lambda>t. \<not> List.member G (trPredicate t)) (esTriples e) @ rm_Desired m\<rparr>)
                     f w1
              else (Inl (MutationError (MutationOther ''predicate outside the group'') CommitNotCommitted), w1)))"

definition indexingFact :: "string \<Rightarrow> Triple" where
  "indexingFact i =
     \<lparr>trSubject = i, trPredicate = ''entity.indexing.profile'', trObject = AString ''control'',
      trSource = ''graph-ingest-indexing-profile'', trTimestamp = 1, trConfidence = f64_one,
      trContext = [], trDatatype = [], trExpiresAt = None\<rparr>"

definition memCreate :: "CreateMutation \<Rightarrow> ('z memGraph_scheme, MutationReceipt) M" where
  "memCreate m = (\<lambda>w. case popFault w of
       (Some (Refused k), w1) \<Rightarrow> (Inl (refusal k), w1)
     | (f, w1) \<Rightarrow>
         (let i = esID (cm_Entity m) in
          case memEnts w1 i of
            Some _ \<Rightarrow> (Inl (MutationError MutationConflict CommitNotCommitted), w1)
          | None \<Rightarrow>
              if list_all (\<lambda>t. List.member (BirthPredicates (cm_Contract m)) (trPredicate t)
                    \<and> trPredicate t \<noteq> ''entity.indexing.profile'') (cm_Triples m)
              then memStore i ((cm_Entity m)\<lparr>esTriples := cm_Triples m @ [indexingFact i]\<rparr>) f w1
              else (Inl (MutationError (MutationOther ''predicate is not a birth predicate'') CommitNotCommitted), w1)))"

definition memClient :: "'z memGraph_scheme MutationClient" where
  "memClient = \<lparr>mc_Create = memCreate, mc_Reconcile = memReconcile, mc_ReadAuthoritative = memRead\<rparr>"

section \<open>The client meets the interface\<close>

lemma popFault_ents [simp]: "popFault w = (f, w1) \<Longrightarrow> memEnts w1 = memEnts w"
  by (auto simp: popFault_def memEnts_def split: list.splits)

lemma mutationErrorOf_simps [simp]:
  "mutationErrorOf (MutationError k c) = Some (k, c)" "mutationErrorOf (External s) = None"
  by (simp_all add: mutationErrorOf_def)

lemma mutationKind_simps [simp]:
  "mutationKind (MutationError k c) = Some k" "mutationKind (External s) = None"
  by (simp_all add: mutationKind_def)

lemma codeOf_simps [simp]: "codeOf (MutationError k c) = []" "codeOf (External s) = []"
  by (simp_all add: codeOf_def)

lemma foreign_simps [simp]: "foreign (MutationError k c)" "foreign (External s)"
  by (simp_all add: foreign_def errors_Is_def)

lemma memStore_ents:
  "memStore i e' f w = (r, w') \<Longrightarrow> memEnts w' = (memEnts w)(i \<mapsto> e')"
  by (auto simp: memStore_def memEnts_def Let_def)

lemma memStore_result:
  "memStore i e' f w = (Inr rc, w') \<Longrightarrow> re_Entity rc = Some e'"
  "memStore i e' f w = (Inl err, w') \<Longrightarrow> err = MutationError MutationCommitUnknown CommitUnknown"
  by (auto simp: memStore_def Let_def split: if_splits)

lemma facts_none:
  "list_all (\<lambda>t. P (trPredicate t)) ts \<Longrightarrow> filter_mset (\<lambda>f. \<not> P (fst f)) (facts ts) = {#}"
  "list_all (\<lambda>t. P (trPredicate t)) ts \<Longrightarrow> filter_mset (\<lambda>f. P (fst f)) (facts ts) = facts ts"
  by (induction ts) (simp_all add: facts_def fact_def)

lemma reconciled_replace:
  assumes "list_all (\<lambda>t. trPredicate t \<in> set G) ds"
  shows "reconciled G ds e (e\<lparr>esVersion := v, esTriples := filter (\<lambda>t. trPredicate t \<notin> set G) (esTriples e) @ ds\<rparr>)"
  by (simp add: reconciled_def facts_none [OF assms]
      facts_filter [of "\<lambda>p. p \<notin> set G"] filter_mset_disjoint)

lemma memReconcile_cases:
  assumes "memReconcile m w = (r, w')"
  obtains err where "r = Inl err" "memEnts w' = memEnts w" "foreign err"
  | e e' where "memEnts w (rm_EntityID m) = Some e"
      "reconciled (Predicates (target (rm_Contract m) (rm_Group m))) (rm_Desired m) e e'"
      "memEnts w' = (memEnts w)(rm_EntityID m \<mapsto> e')"
      "(\<exists>rc. r = Inr rc \<and> re_Entity rc = Some e') \<or> r = Inl (MutationError MutationCommitUnknown CommitUnknown)"
proof -
  let ?G = "Predicates (target (rm_Contract m) (rm_Group m))"
  obtain f w1 where f: "popFault w = (f, w1)" by fastforce
  show thesis
  proof (cases "(\<exists>k. f = Some (Refused k)) \<or> memEnts w1 (rm_EntityID m) = None
      \<or> \<not> list_all (\<lambda>t. List.member ?G (trPredicate t)) (rm_Desired m)")
    case True
    then show thesis
      using assms f that(1)
      by (auto simp: memReconcile_def refusal_def Let_def split: option.splits fault.splits if_splits)
  next
    case False
    then obtain e where e: "memEnts w1 (rm_EntityID m) = Some e"
      and all: "list_all (\<lambda>t. trPredicate t \<in> set ?G) (rm_Desired m)" by auto
    define e' where "e' = e\<lparr>esVersion := esVersion e + 1,
      esTriples := filter (\<lambda>t. \<not> List.member ?G (trPredicate t)) (esTriples e) @ rm_Desired m\<rparr>"
    have st: "memStore (rm_EntityID m) e' f w1 = (r, w')"
      using assms f e False unfolding e'_def
      by (auto simp: memReconcile_def Let_def split: option.splits fault.splits)
    have "reconciled ?G (rm_Desired m) e e'"
      using reconciled_replace [OF all] by (simp add: e'_def)
    then show thesis
      using that(2) e f memStore_ents [OF st] st by (cases r) (auto dest: memStore_result)
  qed
qed

lemma memCreate_cases:
  assumes "memCreate m w = (r, w')"
  obtains err where "r = Inl err" "memEnts w' = memEnts w" "foreign err"
      "mutationKind err = Some MutationConflict \<Longrightarrow> memEnts w (esID (cm_Entity m)) \<noteq> None"
  | e' where "memEnts w (esID (cm_Entity m)) = None"
      "born refExt ((cm_Entity m)\<lparr>esTriples := cm_Triples m\<rparr>) e'"
      "memEnts w' = (memEnts w)(esID (cm_Entity m) \<mapsto> e')"
      "(\<exists>rc. r = Inr rc \<and> re_Entity rc = Some e') \<or> r = Inl (MutationError MutationCommitUnknown CommitUnknown)"
proof -
  let ?ok = "list_all (\<lambda>t. List.member (BirthPredicates (cm_Contract m)) (trPredicate t)
      \<and> trPredicate t \<noteq> ''entity.indexing.profile'') (cm_Triples m)"
  obtain f w1 where f: "popFault w = (f, w1)" by fastforce
  show thesis
  proof (cases "(\<exists>k. f = Some (Refused k)) \<or> memEnts w1 (esID (cm_Entity m)) \<noteq> None \<or> \<not> ?ok")
    case True
    then show thesis
      using assms f that(1)
      by (auto simp: memCreate_def refusal_def Let_def split: option.splits fault.splits if_splits)
  next
    case False
    define e' where "e' = (cm_Entity m)\<lparr>esTriples := cm_Triples m @ [indexingFact (esID (cm_Entity m))]\<rparr>"
    have st: "memStore (esID (cm_Entity m)) e' f w1 = (r, w')"
      using assms f False unfolding e'_def
      by (auto simp: memCreate_def Let_def split: option.splits fault.splits)
    have "list_all (\<lambda>t. trPredicate t \<noteq> ''entity.indexing.profile'') (cm_Triples m)"
      using False by (simp add: list_all_iff)
    then have "born refExt ((cm_Entity m)\<lparr>esTriples := cm_Triples m\<rparr>) e'"
      using facts_none(2) [of "\<lambda>p. p \<noteq> ''entity.indexing.profile''"]
      by (simp add: born_def e'_def refExt_def indexingFact_def facts_def fact_def)
    then show thesis
      using that(2) False f memStore_ents [OF st] st by (cases r) (auto dest: memStore_result)
  qed
qed

interpretation mem: mutation_client refExt memClient memEnts
proof unfold_locales
  fix i w r w' assume "mc_ReadAuthoritative memClient i w = (r, w')"
  then show "memEnts w' = memEnts w"
    by (auto simp: memClient_def memRead_def split: prod.splits option.splits)
next
  fix i w x w' e
  assume "mc_ReadAuthoritative memClient i w = (Inr (Some x), w')" "ex_Entity x = Some e"
  then show "memEnts w i = Some e"
    by (auto simp: memClient_def memRead_def split: prod.splits option.splits)
next
  fix i w err w'
  assume "mc_ReadAuthoritative memClient i w = (Inl err, w')"
    "mutationKind err = Some MutationNotFound \<or> codeOf err = ErrorCodeEntityNotFound refExt"
  then show "memEnts w i = None"
    by (auto simp: memClient_def memRead_def refExt_def split: prod.splits option.splits)
next
  fix i w err w' assume "mc_ReadAuthoritative memClient i w = (Inl err, w')"
  then show "foreign err" by (auto simp: memClient_def memRead_def split: prod.splits option.splits)
next
  fix m w rc w' assume "mc_Reconcile memClient m w = (Inr rc, w')"
  then have "memReconcile m w = (Inr rc, w')" by (simp add: memClient_def)
  then show "\<exists>e e'. memEnts w (rm_EntityID m) = Some e
      \<and> reconciled (Predicates (target (rm_Contract m) (rm_Group m))) (rm_Desired m) e e'
      \<and> memEnts w' = (memEnts w)(rm_EntityID m \<mapsto> e') \<and> (re_Entity rc = None \<or> re_Entity rc = Some e')"
    by (cases rule: memReconcile_cases) auto
next
  fix m w err w' assume "mc_Reconcile memClient m w = (Inl err, w')"
  then have r: "memReconcile m w = (Inl err, w')" by (simp add: memClient_def)
  then show "memEnts w' = memEnts w \<or> (\<exists>e e'. memEnts w (rm_EntityID m) = Some e
      \<and> reconciled (Predicates (target (rm_Contract m) (rm_Group m))) (rm_Desired m) e e'
      \<and> memEnts w' = (memEnts w)(rm_EntityID m \<mapsto> e'))"
    by (cases rule: memReconcile_cases) auto
  fix k assume "mutationErrorOf err = Some (k, CommitNotCommitted)"
  with r show "memEnts w' = memEnts w" by (cases rule: memReconcile_cases) auto
next
  fix b w rc w' assume "mc_Create memClient b w = (Inr rc, w')"
  then have "memCreate b w = (Inr rc, w')" by (simp add: memClient_def)
  then show "memEnts w (esID (cm_Entity b)) = None \<and> (\<exists>e'. born refExt ((cm_Entity b)\<lparr>esTriples := cm_Triples b\<rparr>) e'
      \<and> memEnts w' = (memEnts w)(esID (cm_Entity b) \<mapsto> e') \<and> (re_Entity rc = None \<or> re_Entity rc = Some e'))"
    by (cases rule: memCreate_cases) auto
next
  fix b w err w' assume "mc_Create memClient b w = (Inl err, w')"
  then have r: "memCreate b w = (Inl err, w')" by (simp add: memClient_def)
  then show "memEnts w' = memEnts w \<or> (memEnts w (esID (cm_Entity b)) = None
      \<and> (\<exists>e'. born refExt ((cm_Entity b)\<lparr>esTriples := cm_Triples b\<rparr>) e'
           \<and> memEnts w' = (memEnts w)(esID (cm_Entity b) \<mapsto> e')))"
    by (cases rule: memCreate_cases) auto
  show "foreign err" using r by (cases rule: memCreate_cases) auto
  assume "mutationKind err = Some MutationConflict"
  with r show "memEnts w' = memEnts w \<and> memEnts w (esID (cm_Entity b)) \<noteq> None"
    by (cases rule: memCreate_cases) auto
next
  fix ent err assume "ValidateEntityStateContract refExt ent = Some err"
  then show "foreign err" by (simp add: refExt_def)
qed

end
