(* ===== verification/Effect.thy ===== *)
theory Effect
  imports Effect_Plan Reference_Graph
begin

text \<open>
  \<^verbatim>\<open>internal/effect\<close>: the applier (\<^verbatim>\<open>applier.go\<close>) and the reasons of its errors
  (\<^verbatim>\<open>errors.go\<close>). Applying a batch reads the turn's marker, folds the intents into a plan,
  writes one predicate group after another and writes the marker last. The lemmas describe the
  graph after every outcome: a refused batch changes nothing, a confirmed one leaves exactly what
  \<open>specBatch\<close> says, and an interrupted one leaves a mixture from which applying the same batch
  again reaches the same graph.
\<close>

section \<open>Errors\<close>

text \<open>The interface \<^verbatim>\<open>coded\<close> has two implementations, the two error types of the package.\<close>

definition FailureReasonFor :: "gerror \<Rightarrow> FailureReason option" where
  "FailureReasonFor err =
     errors_As (\<lambda>e. case e of
         RejectionError _ _ _ code _ \<Rightarrow> Some code
       | CommitError _ _ _ _ \<Rightarrow> Some FailureEffectCommitIncomplete
       | _ \<Rightarrow> None) err"

section \<open>The applier\<close>

definition effect_Source :: string where "effect_Source = ''effect-applier''"

record 'w Applier =
  ap_store :: "'w GraphStore"
  ap_specs :: AttributeSpecSet

definition NewApplier :: "'w GraphStore option \<Rightarrow> AttributeSpecSet option \<Rightarrow> gerror + 'w Applier" where
  "NewApplier store option_specs =
     (case store of
        None \<Rightarrow> Inl (Errorf ''effect applier requires a graph store'')
      | Some st \<Rightarrow>
          (let bnds = (case option_specs of None \<Rightarrow> engineAttributeSpecs | Some s \<Rightarrow> s) in
           if SpecSet_IsZero bnds then Inl (Errorf ''effect applier requires attribute bounds'')
           else Inr \<lparr>ap_store = st, ap_specs = bnds\<rparr>))"

record EffectOutcome =
  eo_BatchID :: string
  eo_Applied :: bool
  eo_Targets :: "string list"

text \<open>The two nested loops of \<^verbatim>\<open>commit\<close>. \<open>written\<close> lists the entities written completely.\<close>

fun commitWrites :: "'w GraphStore \<Rightarrow> string \<Rightarrow> projectionWrite list \<Rightarrow> ('w, unit) M" where
  "commitWrites S i [] = ret ()"
| "commitWrites S i (pj # pjs) =
     bindM (gs_Reconcile S (pj_target pj) i (pj_triples pj)) (\<lambda>_. commitWrites S i pjs)"

definition writesFor :: "ext \<Rightarrow> plan \<Rightarrow> string \<Rightarrow> string \<Rightarrow> time \<Rightarrow> projectionWrite list" where
  "writesFor X p i turnID at =
     (case map_of (pl_targets p) i of
        None \<Rightarrow> []
      | Some tw \<Rightarrow> projections X tw effect_Source turnID at)"

fun commitTargets ::
    "ext \<Rightarrow> 'w GraphStore \<Rightarrow> EffectBatch \<Rightarrow> plan \<Rightarrow> time \<Rightarrow> string list \<Rightarrow> string list \<Rightarrow> ('w, string list) M" where
  "commitTargets X S batch p at written [] = ret written"
| "commitTargets X S batch p at written (i # is) =
     bindM (mapErr (CommitError (eb_BatchID batch) i written)
             (commitWrites S i (writesFor X p i (eb_TurnID batch) at)))
       (\<lambda>_. commitTargets X S batch p at (written @ [i]) is)"

definition commit ::
    "ext \<Rightarrow> 'w GraphStore \<Rightarrow> time \<Rightarrow> EffectBatch \<Rightarrow> plan \<Rightarrow> string \<Rightarrow> string \<Rightarrow> ('w, EffectOutcome) M" where
  "commit X S at batch p turnEntityID batchRef =
     bindM (commitTargets X S batch p at [] (pl_order p)) (\<lambda>written.
       bindM (mapErr (CommitError (eb_BatchID batch) turnEntityID written)
               (liftR (EffectBatch_Triples X batch turnEntityID batchRef effect_Source at))) (\<lambda>marker.
       bindM (mapErr (CommitError (eb_BatchID batch) turnEntityID written)
               (gs_Reconcile S TurnEffectMarker turnEntityID marker)) (\<lambda>_.
       ret \<lparr>eo_BatchID = eb_BatchID batch, eo_Applied = True, eo_Targets = written\<rparr>)))"

definition markerState :: "EntityState \<Rightarrow> EffectBatch \<Rightarrow> string \<Rightarrow> gerror + bool" where
  "markerState state batch batchRef =
     (let identities = objectsIn (esTriples state) TurnEffectsBatch;
          references = objectsIn (esTriples state) TurnEffectsRef
      in if 1 < length identities \<or> 1 < length references
         then Inl (Errorf ''turn entity holds several values for a single-valued effect predicate'')
         else if length identities \<noteq> length references
         then Inl (Errorf ''turn entity records a batch identity without its reference'')
         else if length identities = 0 then Inr False
         else (case asString (hd identities) of
                 None \<Rightarrow> Inl (Errorf ''turn entity records a batch identity that is not a string'')
               | Some recorded \<Rightarrow>
                   if recorded \<noteq> eb_BatchID batch
                   then Inl (Errorf ''turn entity already records another batch'')
                   else (case asString (hd references) of
                           None \<Rightarrow> Inl (Errorf ''turn entity records a batch reference that is not a string'')
                         | Some recordedRef \<Rightarrow>
                             if recordedRef \<noteq> batchRef
                             then Inl (Errorf ''turn entity records the batch at another reference'')
                             else Inr True)))"

definition alreadyApplied ::
    "'w GraphStore \<Rightarrow> EffectBatch \<Rightarrow> string \<Rightarrow> string \<Rightarrow> ('w, bool) M" where
  "alreadyApplied S batch turnEntityID batchRef =
     bindM (mapErr (Wrapf ''read turn entity'') (gs_GetEntity S turnEntityID)) (\<lambda>state.
       liftR (markerState state batch batchRef))"

text \<open>\<open>at\<close> is what the applier's clock reads when the commit begins.\<close>

definition Apply ::
    "ext \<Rightarrow> 'w Applier \<Rightarrow> time \<Rightarrow> EffectBatch option \<Rightarrow> string \<Rightarrow> string \<Rightarrow> ('w, EffectOutcome) M" where
  "Apply X a at batch turnEntityID batchRef =
     (case batch of
        None \<Rightarrow> throw (Errorf ''apply requires an effect batch'')
      | Some b \<Rightarrow>
        checkM (map_option (RejectionError (-1) [] [] FailureEffectInvalid) (EffectBatch_Validate X b))
        (checkM (RequireTurnEntityID X (eb_TurnID b) turnEntityID)
        (if batchRef = [] then throw (Errorf ''apply requires a reference to the stored batch payload'')
         else bindM (alreadyApplied (ap_store a) b turnEntityID batchRef) (\<lambda>applied.
           if applied then ret \<lparr>eo_BatchID = eb_BatchID b, eo_Applied = False, eo_Targets = []\<rparr>
           else bindM (buildPlan X (ap_store a) (ap_specs a) b) (\<lambda>p.
             commit X (ap_store a) at b p turnEntityID batchRef)))))"

section \<open>The specification of a batch is idempotent\<close>

text \<open>
  Each intent touches one cell of the graph, and what a sequence of intents does to a cell depends
  on the cell alone. A cell that already went through the batch goes through it unchanged.
\<close>

definition cellStep :: "ext \<Rightarrow> string \<Rightarrow> Predicate \<Rightarrow> EffectIntent \<Rightarrow> any multiset \<Rightarrow> any multiset" where
  "cellStep X i p it M =
     (case EffectIntent_Mutation X it of
        Inl _ \<Rightarrow> M
      | Inr (q, object) \<Rightarrow> if ei_Target it = i \<and> q = p then specObjects (ei_Type it) p object M else M)"

lemma specStep_cell: "specStep X it G i p = cellStep X i p it (G i p)"
  by (auto simp: specStep_def cellStep_def specWrite_def split: sum.splits)

lemma specBatch_cell: "specBatch X its G i p = fold (cellStep X i p) its (G i p)"
  by (induction its arbitrary: G) (simp_all add: specBatch_def specStep_cell)

lemma specBatch_cong: "G i p = H i p \<Longrightarrow> specBatch X its G i p = specBatch X its H i p"
  by (simp add: specBatch_cell)

text \<open>
  The number of copies of one object in a cell is kept, made a constant, or raised to at least
  one, and this is closed under composition.
\<close>

lemma cellStep_count:
  "(\<forall>M. count (cellStep X i p it M) x = count M x) \<or>
   (\<exists>c. \<forall>M. count (cellStep X i p it M) x = c) \<or>
   (\<forall>M. count (cellStep X i p it M) x = max 1 (count M x))"
proof (cases "EffectIntent_Mutation X it")
  case (Inl e)
  then show ?thesis by (simp add: cellStep_def)
next
  case (Inr qo)
  obtain q object where qo: "qo = (q, object)" by fastforce
  consider "\<not> (ei_Target it = i \<and> q = p)" | "ei_Target it = i \<and> q = p" "\<not> IsMultiValued p"
    | "ei_Target it = i \<and> q = p" "IsMultiValued p" "x \<noteq> object"
    | "ei_Target it = i \<and> q = p" "IsMultiValued p" "x = object" "ei_Type it = EffectRemoveRelationship"
    | "ei_Target it = i \<and> q = p" "IsMultiValued p" "x = object" "ei_Type it \<noteq> EffectRemoveRelationship"
    by blast
  then show ?thesis
  proof cases
    case 5
    have "count (if object \<in># M then M else add_mset object M) object = max 1 (count M object)" for M
      by (auto simp: not_in_iff Suc_le_eq max_def)
    with 5 show ?thesis using Inr qo by (simp add: cellStep_def specObjects_def)
  qed (use Inr qo in \<open>auto simp: cellStep_def specObjects_def\<close>)
qed

lemma fold_cellStep_count:
  "(\<forall>M. count (fold (cellStep X i p) its M) x = count M x) \<or>
   (\<exists>c. \<forall>M. count (fold (cellStep X i p) its M) x = c) \<or>
   (\<forall>M. count (fold (cellStep X i p) its M) x = max 1 (count M x))"
proof (induction its)
  case (Cons it its)
  show ?case using Cons.IH cellStep_count [of X i p it x] by (elim disjE exE) auto
qed simp

lemma fold_cellStep_idem:
  "fold (cellStep X i p) its (fold (cellStep X i p) its M) = fold (cellStep X i p) its M"
proof (rule multiset_eqI)
  fix x
  show "count (fold (cellStep X i p) its (fold (cellStep X i p) its M)) x = count (fold (cellStep X i p) its M) x"
    using fold_cellStep_count [of X i p its x] by (elim disjE exE) auto
qed

lemma specBatch_converges:
  assumes "\<And>i p. H i p = G i p \<or> H i p = specBatch X its G i p"
  shows "specBatch X its H = specBatch X its G"
proof (intro ext)
  fix i p
  show "specBatch X its H i p = specBatch X its G i p"
    using assms [of i p] fold_cellStep_idem by (metis specBatch_cell)
qed

lemma specBatch_unwritable:
  assumes "\<not> writable p"
  shows "specBatch X its G i p = G i p"
proof -
  have "cellStep X i p it M = M" for it M
    using assms Mutation_writable by (auto simp: cellStep_def split: sum.splits)
  then have "fold (cellStep X i p) its M = M" for M by (induction its arbitrary: M) simp_all
  then show ?thesis by (simp add: specBatch_cell)
qed

section \<open>The graph after a commit\<close>

lemma writesFor_objects:
  assumes "planOK E G p" and "pj \<in> set (writesFor X p i t at)" and "q \<in> set (Predicates (pj_target pj))"
  shows "mset (objectsIn (pj_triples pj) q) = G i q" and "writable q"
proof -
  obtain tw where tw: "map_of (pl_targets p) i = Some tw" "pj \<in> set (projections X tw effect_Source t at)"
    using assms(2) by (cases "map_of (pl_targets p) i") (auto simp: writesFor_def)
  then have "targetOK E (G i) i tw" "tw_resident tw \<noteq> None"
    using planOK_at [OF assms(1), of i] by auto
  from projections_objects [OF this tw(2) assms(3)]
  show "mset (objectsIn (pj_triples pj) q) = G i q" "writable q" .
qed

lemma writesFor_cover:
  assumes "planOK E G p" and "G i q \<noteq> graphOf E i q"
  shows "i \<in> set (pl_order p)"
    and "\<exists>pj \<in> set (writesFor X p i t at). q \<in> set (Predicates (pj_target pj))"
proof -
  obtain tw where tw: "map_of (pl_targets p) i = Some tw" "targetOK E (G i) i tw"
    using planOK_at [OF assms(1), of i] assms(2) by (cases "map_of (pl_targets p) i") auto
  then show "i \<in> set (pl_order p)" using assms(1) by (auto simp: planOK_def)
  show "\<exists>pj \<in> set (writesFor X p i t at). q \<in> set (Predicates (pj_target pj))"
    using projections_cover [OF tw(2) assms(2)] tw(1) by (simp add: writesFor_def)
qed

lemma marker_unwritable [simp]: "\<not> writable TurnEffectsBatch" "\<not> writable TurnEffectsRef"
  by (simp_all add: writable_iff pred_strings)

lemma marker_distinct [simp]: "TurnEffectsBatch \<noteq> TurnEffectsRef" "TurnEffectsRef \<noteq> TurnEffectsBatch"
  by (simp_all add: pred_strings)

lemma marker_not_protected:
  "\<not> IsProtectedPredicate TurnEffectsBatch" "\<not> IsProtectedPredicate TurnEffectsRef"
  by (simp_all add: IsProtectedPredicate_def immutablePredicates_def pred_strings)

text \<open>The graph with the marker of an applied batch.\<close>

definition marked :: "string \<Rightarrow> string \<Rightarrow> string \<Rightarrow> factGraph \<Rightarrow> factGraph" where
  "marked turn batchID batchRef G =
     G(turn := (G turn)(TurnEffectsBatch := {#AString batchID#}, TurnEffectsRef := {#AString batchRef#}))"

lemma marker_triples:
  assumes "EffectBatch_Triples X b turn batchRef src at = Inr ts"
  shows "objectsIn ts TurnEffectsBatch = [AString (eb_BatchID b)]"
    and "objectsIn ts TurnEffectsRef = [AString batchRef]"
  using build_Inr(1) [OF assms [unfolded EffectBatch_Triples_def]]
  by (simp_all add: EffectScalarPredicates_def effectScalarPredicates_def objectAt_def refTriples_def
      projection0_def projectionTriple_def)

context graph_store
begin

lemma commitWrites_cells:
  assumes "commitWrites S i pjs w = (r, w')"
    and "\<And>pj q. pj \<in> set pjs \<Longrightarrow> q \<in> set (Predicates (pj_target pj)) \<Longrightarrow>
           mset (objectsIn (pj_triples pj) q) = g q"
  shows "(\<forall>j q. objs ents w' j q = objs ents w j q \<or>
           (j = i \<and> (\<exists>pj \<in> set pjs. q \<in> set (Predicates (pj_target pj))) \<and> objs ents w' j q = g q))
    \<and> dom (ents w') = dom (ents w)
    \<and> (r = Inr () \<longrightarrow> (\<forall>q. (\<exists>pj \<in> set pjs. q \<in> set (Predicates (pj_target pj))) \<longrightarrow> objs ents w' i q = g q))"
  using assms
proof (induction pjs arbitrary: w)
  case (Cons pj pjs)
  have pj: "q \<in> set (Predicates (pj_target pj)) \<Longrightarrow> mset (objectsIn (pj_triples pj) q) = g q" for q
    using Cons.prems(2) by simp
  show ?case
  proof (cases "gs_Reconcile S (pj_target pj) i (pj_triples pj) w")
    case (Pair q w1)
    show ?thesis
    proof (cases q)
      case (Inl err)
      with Pair Cons.prems(1) have "w' = w1" "r = Inl err" by (auto elim!: bindM_cases)
      then show ?thesis
        using put_failed_objs [OF Pair [unfolded Inl]] put_dom [OF Pair] pj by (auto split: if_splits)
    next
      case (Inr e')
      with Pair Cons.prems(1) have l: "commitWrites S i pjs w1 = (r, w')" by (auto elim!: bindM_cases)
      note o1 = put_objs [OF Pair [unfolded Inr]]
      note ih = Cons.IH [OF l]
      have "(\<forall>j q. objs ents w' j q = objs ents w1 j q \<or>
           (j = i \<and> (\<exists>pj \<in> set pjs. q \<in> set (Predicates (pj_target pj))) \<and> objs ents w' j q = g q))
        \<and> dom (ents w') = dom (ents w1)
        \<and> (r = Inr () \<longrightarrow> (\<forall>q. (\<exists>pj \<in> set pjs. q \<in> set (Predicates (pj_target pj))) \<longrightarrow> objs ents w' i q = g q))"
        by (rule ih) (use Cons.prems(2) in simp)
      then show ?thesis
        using o1 pj put_dom [OF Pair] by (auto split: if_splits) metis+
    qed
  qed
qed auto

lemma commitTargets_cells:
  assumes "commitTargets X S b p at written is w = (r, w')" and "planOK E G p"
  shows "(\<forall>j q. objs ents w' j q = objs ents w j q \<or>
           (writable q \<and> objs ents w' j q = G j q))
    \<and> dom (ents w') = dom (ents w)
    \<and> (\<forall>written'. r = Inr written' \<longrightarrow> written' = written @ is
         \<and> (\<forall>i \<in> set is. \<forall>q. G i q \<noteq> graphOf E i q \<longrightarrow> objs ents w' i q = G i q))
    \<and> (\<forall>e. r = Inl e \<longrightarrow> (\<exists>tgt done err. e = CommitError (eb_BatchID b) tgt done err))"
  using assms(1)
proof (induction "is" arbitrary: written w)
  case (Cons i "is")
  let ?pjs = "writesFor X p i (eb_TurnID b) at"
  obtain q w1 where c: "commitWrites S i ?pjs w = (q, w1)" by fastforce
  have cells: "(\<forall>j q. objs ents w1 j q = objs ents w j q \<or>
           (j = i \<and> (\<exists>pj \<in> set ?pjs. q \<in> set (Predicates (pj_target pj))) \<and> objs ents w1 j q = G i q))
    \<and> dom (ents w1) = dom (ents w)
    \<and> (q = Inr () \<longrightarrow> (\<forall>q. (\<exists>pj \<in> set ?pjs. q \<in> set (Predicates (pj_target pj))) \<longrightarrow> objs ents w1 i q = G i q))"
    by (rule commitWrites_cells [OF c]) (rule writesFor_objects(1) [OF assms(2)])
  have w1: "objs ents w1 j q = objs ents w j q \<or> (writable q \<and> objs ents w1 j q = G j q)" for j q
    using cells writesFor_objects(2) [OF assms(2)] by blast
  show ?case
  proof (cases q)
    case (Inl err)
    with c Cons.prems have "w' = w1" "r = Inl (CommitError (eb_BatchID b) i written err)"
      by (auto elim!: bindM_cases simp: mapErr_Inl)
    then show ?thesis using w1 cells by auto
  next
    case (Inr u)
    with c Cons.prems have l: "commitTargets X S b p at (written @ [i]) is w1 = (r, w')"
      by (auto elim!: bindM_cases simp: mapErr_Inl)
    note ih = Cons.IH [OF l]
    have here: "objs ents w1 i q = G i q" if "G i q \<noteq> graphOf E i q" for q
      using cells Inr writesFor_cover(2) [OF assms(2) that] by simp
    have "objs ents w' i q = G i q" if "G i q \<noteq> graphOf E i q" for q
      using ih here [OF that] by metis
    moreover have "objs ents w' j q = objs ents w j q \<or> (writable q \<and> objs ents w' j q = G j q)" for j q
      using ih w1 by metis
    ultimately show ?thesis using ih cells by simp
  qed
qed simp

lemma commit_cells:
  assumes c: "commit X S at b p turn batchRef w = (r, w')" and p: "planOK (ents w) H p"
  shows "dom (ents w') = dom (ents w)"
    and "r = Inr out \<Longrightarrow> objs ents w' = marked turn (eb_BatchID b) batchRef H \<and> eo_Applied out
           \<and> eo_BatchID out = eb_BatchID b \<and> eo_Targets out = pl_order p"
    and "r = Inl e \<Longrightarrow> (\<exists>tgt done err. e = CommitError (eb_BatchID b) tgt done err)
      \<and> ((\<forall>i q. objs ents w' i q = objs ents w i q \<or> (writable q \<and> objs ents w' i q = H i q))
         \<or> objs ents w' = marked turn (eb_BatchID b) batchRef H)"
proof -
  obtain q w1 where t: "commitTargets X S b p at [] (pl_order p) w = (q, w1)" by fastforce
  note ct = commitTargets_cells [OF t p]
  have "dom (ents w') = dom (ents w)
    \<and> (\<forall>out. r = Inr out \<longrightarrow> objs ents w' = marked turn (eb_BatchID b) batchRef H \<and> eo_Applied out
           \<and> eo_BatchID out = eb_BatchID b \<and> eo_Targets out = pl_order p)
    \<and> (\<forall>e. r = Inl e \<longrightarrow> (\<exists>tgt done err. e = CommitError (eb_BatchID b) tgt done err)
      \<and> ((\<forall>i q. objs ents w' i q = objs ents w i q \<or> (writable q \<and> objs ents w' i q = H i q))
         \<or> objs ents w' = marked turn (eb_BatchID b) batchRef H))"
  proof (cases q)
    case (Inl e)
    with c t have "r = Inl e" "w' = w1" by (auto simp: commit_def elim!: bindM_cases)
    then show ?thesis using ct Inl by blast
  next
    case (Inr written)
    have full: "objs ents w1 = H"
    proof (intro ext)
      fix i q
      show "objs ents w1 i q = H i q"
      proof (cases "H i q = objs ents w i q")
        case True
        then show ?thesis using ct by metis
      next
        case False
        then show ?thesis using ct Inr writesFor_cover(1) [OF p False] by blast
      qed
    qed
    have written: "written = pl_order p" using ct Inr by simp
    show ?thesis
    proof (cases "EffectBatch_Triples X b turn batchRef effect_Source at")
      case (Inl err)
      with c t Inr have "r = Inl (CommitError (eb_BatchID b) turn written err)" "w' = w1"
        by (auto simp: commit_def mapErr_Inl elim!: bindM_cases)
      then show ?thesis using ct by blast
    next
      case marker: (Inr ts)
      obtain m w2 where m: "gs_Reconcile S TurnEffectMarker turn ts w1 = (m, w2)" by fastforce
      have mk: "(\<lambda>j p. if j = turn \<and> p \<in> set (Predicates TurnEffectMarker) then mset (objectsIn ts p)
          else objs ents w1 j p) = marked turn (eb_BatchID b) batchRef H"
        using marker_triples [OF marker] full
        by (auto simp: marked_def Predicates_turn fun_eq_iff)
      show ?thesis
      proof (cases m)
        case (Inl err)
        with c t Inr marker m have "r = Inl (CommitError (eb_BatchID b) turn written err)" "w' = w2"
          by (auto simp: commit_def mapErr_Inl elim!: bindM_cases)
        moreover have "objs ents w2 = objs ents w1 \<or> objs ents w2 = marked turn (eb_BatchID b) batchRef H"
          using put_failed_objs [OF m [unfolded Inl]] unfolding mk [symmetric] by (auto simp only: fun_eq_iff)
        ultimately show ?thesis using ct put_dom [OF m] by (elim disjE) simp_all
      next
        case mok: (Inr e')
        with c t Inr marker m have "r = Inr \<lparr>eo_BatchID = eb_BatchID b, eo_Applied = True, eo_Targets = written\<rparr>"
          "w' = w2"
          by (auto simp: commit_def mapErr_Inl elim!: bindM_cases)
        moreover have "objs ents w2 = marked turn (eb_BatchID b) batchRef H"
          using put_objs [OF m [unfolded mok]] unfolding mk [symmetric] by (intro ext)
        ultimately show ?thesis using ct put_dom [OF m] written by simp
      qed
    qed
  qed
  then show "dom (ents w') = dom (ents w)"
    and "r = Inr out \<Longrightarrow> objs ents w' = marked turn (eb_BatchID b) batchRef H \<and> eo_Applied out
           \<and> eo_BatchID out = eb_BatchID b \<and> eo_Targets out = pl_order p"
    and "r = Inl e \<Longrightarrow> (\<exists>tgt done err. e = CommitError (eb_BatchID b) tgt done err)
      \<and> ((\<forall>i q. objs ents w' i q = objs ents w i q \<or> (writable q \<and> objs ents w' i q = H i q))
         \<or> objs ents w' = marked turn (eb_BatchID b) batchRef H)"
    by blast+
qed

end

section \<open>The graph after an application\<close>

lemma markerState_Inr:
  assumes "markerState st b ref = Inr x"
  shows "x \<Longrightarrow> objectsIn (esTriples st) TurnEffectsBatch = [AString (eb_BatchID b)]
           \<and> objectsIn (esTriples st) TurnEffectsRef = [AString ref]"
    and "\<not> x \<Longrightarrow> objectsIn (esTriples st) TurnEffectsBatch = [] \<and> objectsIn (esTriples st) TurnEffectsRef = []"
  using assms
  by (cases "objectsIn (esTriples st) TurnEffectsBatch"; cases "objectsIn (esTriples st) TurnEffectsRef";
      auto simp: markerState_def Let_def asString_Some split: if_splits option.splits)+

lemma markerState_marked:
  assumes "mset (objectsIn (esTriples st) TurnEffectsBatch) = {#AString (eb_BatchID b)#}"
    and "mset (objectsIn (esTriples st) TurnEffectsRef) = {#AString ref#}"
  shows "markerState st b ref = Inr True"
  using assms by (simp add: markerState_def mset_single_iff)

definition isCommitError :: "gerror \<Rightarrow> bool" where
  "isCommitError e = (case e of CommitError _ _ _ _ \<Rightarrow> True | _ \<Rightarrow> False)"

lemma isCommitError_simps [simp]:
  "isCommitError (CommitError b t d e)" "\<not> isCommitError (Errorf s)" "\<not> isCommitError (Wrapf s e)"
  "\<not> isCommitError (RejectionError n ty t c e)"
  by (simp_all add: isCommitError_def)

lemma payload_errors [simp]:
  "RequireTurnEntityID X t i = Some e \<Longrightarrow> \<not> isCommitError e"
  "markerState st b ref = Inl e \<Longrightarrow> \<not> isCommitError e"
proof -
  show "RequireTurnEntityID X t i = Some e \<Longrightarrow> \<not> isCommitError e"
    by (cases "ValidateIDSegment X t"; cases "ValidateEntityID X i"; cases "i = []")
      (auto simp: RequireTurnEntityID_def requireIDSegment_def requireEntityID_def wrapErr_def failIf_def
        split: if_splits)
  show "markerState st b ref = Inl e \<Longrightarrow> \<not> isCommitError e"
    by (auto simp: markerState_def Let_def split: option.splits if_splits)
qed

lemma buildPlan_error:
  "buildPlan X S bnds b w = (Inl e, w') \<Longrightarrow> \<exists>n ty t c err. e = RejectionError n ty t c err"
proof -
  have "buildLoop X S bnds n p is ws = (Inl e, ws') \<Longrightarrow> \<exists>n ty t c err. e = RejectionError n ty t c err"
    for n p ws ws' "is"
    by (induction "is" arbitrary: n p ws) (auto elim!: bindM_cases simp: mapErr_Inl)
  then show "buildPlan X S bnds b w = (Inl e, w') \<Longrightarrow> \<exists>n ty t c err. e = RejectionError n ty t c err"
    by (auto simp: buildPlan_def split: prod.splits)
qed

text \<open>
  The states a batch can pass through: every cell old or new before the marker is written, and
  the marked graph after it.
\<close>

definition applying :: "ext \<Rightarrow> EffectBatch \<Rightarrow> string \<Rightarrow> string \<Rightarrow> factGraph \<Rightarrow> factGraph \<Rightarrow> bool" where
  "applying X b turn ref G cur =
     (cur = marked turn (eb_BatchID b) ref (specBatch X (eb_Intents b) G)
      \<or> (\<forall>i q. cur i q = G i q \<or> (writable q \<and> cur i q = specBatch X (eb_Intents b) G i q)))"

text \<open>Any number of attempts, whatever each one reports.\<close>

fun attempts ::
    "ext \<Rightarrow> 'w Applier \<Rightarrow> EffectBatch \<Rightarrow> string \<Rightarrow> string \<Rightarrow> time list \<Rightarrow> 'w \<Rightarrow> 'w" where
  "attempts X a b turn ref [] w = w"
| "attempts X a b turn ref (at # ats) w =
     attempts X a b turn ref ats (snd (Apply X a at (Some b) turn ref w))"

context graph_store
begin

lemma Apply_cases:
  assumes "Apply X a at (Some b) turn ref w = (r, w')" and S: "ap_store a = S"
  obtains (refused) e where "r = Inl e" "ents w' = ents w" "\<not> isCommitError e"
  | (already) "r = Inr \<lparr>eo_BatchID = eb_BatchID b, eo_Applied = False, eo_Targets = []\<rparr>" "ents w' = ents w"
      "objs ents w turn TurnEffectsBatch = {#AString (eb_BatchID b)#}"
      "objs ents w turn TurnEffectsRef = {#AString ref#}"
  | (committing) w1 p where "ents w1 = ents w" "commit X S at b p turn ref w1 = (r, w')"
      "planOK (ents w) (specBatch X (eb_Intents b) (objs ents w)) p"
      "\<forall>i \<in> set (eb_Intents b). intentOK X (ap_specs a) (ents w) i"
      "objs ents w turn TurnEffectsBatch = {#}" "objs ents w turn TurnEffectsRef = {#}"
      "EffectBatch_Validate X b = None" "RequireTurnEntityID X (eb_TurnID b) turn = None" "ref \<noteq> []"
proof (cases "EffectBatch_Validate X b \<noteq> None \<or> RequireTurnEntityID X (eb_TurnID b) turn \<noteq> None \<or> ref = []")
  case True
  then show thesis using assms refused by (auto simp: Apply_def checkM_eq)
next
  case False
  then obtain q w1 where aa: "alreadyApplied S b turn ref w = (q, w1)"
    and rest: "(case q of Inl e \<Rightarrow> (Inl e, w1) | Inr applied \<Rightarrow>
        (if applied then ret \<lparr>eo_BatchID = eb_BatchID b, eo_Applied = False, eo_Targets = []\<rparr>
         else bindM (buildPlan X S (ap_specs a) b) (\<lambda>p. commit X S at b p turn ref)) w1) = (r, w')"
    using assms by (auto simp: Apply_def bindM_def split: prod.splits sum.splits)
  have w1: "ents w1 = ents w"
    using aa get_frame by (auto simp: alreadyApplied_def elim!: bindM_cases simp: mapErr_Inl)
  show thesis
  proof (cases q)
    case (Inl e)
    then have "\<not> isCommitError e"
      using aa by (auto simp: alreadyApplied_def mapErr_Inl elim!: bindM_cases)
    moreover have "r = Inl e" "w' = w1" using rest Inl by auto
    ultimately show thesis using refused w1 by simp
  next
    case (Inr applied)
    obtain st where st: "gs_GetEntity S turn w = (Inr st, w1)" "markerState st b ref = Inr applied"
      using aa Inr by (auto simp: alreadyApplied_def elim!: bindM_cases)
    note m = markerState_Inr [OF st(2)] get_objs [OF st(1)]
    show thesis
    proof (cases applied)
      case True
      then show thesis
        using already rest Inr w1 m(1) m(3) [of TurnEffectsBatch] m(3) [of TurnEffectsRef] by simp
    next
      case notyet: False
      then have absent: "objs ents w turn TurnEffectsBatch = {#}" "objs ents w turn TurnEffectsRef = {#}"
        using m(2) m(3) [of TurnEffectsBatch] m(3) [of TurnEffectsRef] by simp_all
      obtain pl w2 where pl: "buildPlan X S (ap_specs a) b w1 = (pl, w2)" by fastforce
      have w2: "ents w2 = ents w" using buildPlan_frame [OF pl] w1 by simp
      show thesis
      proof (cases pl)
        case (Inl e)
        then have "r = Inl e" "w' = w2" using rest Inr notyet pl by (auto elim!: bindM_cases)
        moreover have "\<not> isCommitError e" using buildPlan_error pl Inl by fastforce
        ultimately show thesis using refused w2 by simp
      next
        case p: (Inr p)
        then have "commit X S at b p turn ref w2 = (r, w')"
          using rest Inr notyet pl by (auto elim!: bindM_cases)
        then show thesis
          using committing w2 buildPlan_Inr [OF pl [unfolded p]] w1 absent False by simp
      qed
    qed
  qed
qed

lemma Apply_step:
  assumes w: "applying X b turn ref G (objs ents w)" and G: "G turn TurnEffectsBatch = {#}"
    and r: "Apply X a at (Some b) turn ref w = (r, w')" and S: "ap_store a = S"
  shows "applying X b turn ref G (objs ents w')"
    and "r = Inr out \<Longrightarrow> objs ents w' = marked turn (eb_BatchID b) ref (specBatch X (eb_Intents b) G)"
proof -
  let ?H = "specBatch X (eb_Intents b) G"
  have start: "objs ents w turn TurnEffectsBatch = {#} \<Longrightarrow>
      \<forall>i q. objs ents w i q = G i q \<or> (writable q \<and> objs ents w i q = ?H i q)"
    using w by (auto simp: applying_def marked_def)
  have fin: "objs ents w turn TurnEffectsBatch \<noteq> {#} \<Longrightarrow>
      objs ents w = marked turn (eb_BatchID b) ref ?H"
    using w G marker_unwritable(1) unfolding applying_def by metis
  have conv: "specBatch X (eb_Intents b) (objs ents w) = ?H"
    if "objs ents w turn TurnEffectsBatch = {#}"
    using start [OF that] by (intro specBatch_converges) blast
  have "applying X b turn ref G (objs ents w') \<and>
      (\<forall>out. r = Inr out \<longrightarrow> objs ents w' = marked turn (eb_BatchID b) ref ?H)"
    using r S
  proof (cases rule: Apply_cases)
    case refused
    then show ?thesis using w by (simp add: applying_def)
  next
    case already
    then show ?thesis using w fin by (simp add: applying_def)
  next
    case (committing w1 p)
    note cc = commit_cells [OF committing(2), unfolded committing(1), OF committing(3),
        unfolded conv [OF committing(5)]]
    show ?thesis
    proof (cases r)
      case (Inl e)
      have "\<forall>i q. objs ents w' i q = G i q \<or> (writable q \<and> objs ents w' i q = ?H i q)"
        if cells: "\<forall>i q. objs ents w' i q = objs ents w i q \<or> (writable q \<and> objs ents w' i q = ?H i q)"
      proof (intro allI)
        fix i q
        show "objs ents w' i q = G i q \<or> (writable q \<and> objs ents w' i q = ?H i q)"
          using cells [rule_format, of i q] start [OF committing(5), rule_format, of i q] by (elim disjE) simp_all
      qed
      then show ?thesis using cc(3) [OF Inl] Inl by (auto simp: applying_def)
    next
      case (Inr out)
      then show ?thesis using cc(2) by (simp add: applying_def)
    qed
  qed
  then show "applying X b turn ref G (objs ents w')"
    and "r = Inr out \<Longrightarrow> objs ents w' = marked turn (eb_BatchID b) ref ?H" by blast+
qed

lemma applying_start: "applying X b turn ref (objs ents w) (objs ents w)"
  by (simp add: applying_def)

lemma attempts_applying:
  assumes "applying X b turn ref G (objs ents w)" and "G turn TurnEffectsBatch = {#}" and "ap_store a = S"
  shows "applying X b turn ref G (objs ents (attempts X a b turn ref ats w))"
  using assms
proof (induction ats arbitrary: w)
  case (Cons at ats)
  obtain r w1 where r: "Apply X a at (Some b) turn ref w = (r, w1)" by fastforce
  show ?case
    using Cons.IH [OF Apply_step(1) [OF Cons.prems(1,2) r Cons.prems(3)]] Cons.prems r by simp
qed simp

end

end
