(* ===== verification/Example_World.thy ===== *)
theory Example_World
  imports Effect
begin

text \<open>
  A small world on the reference client: two characters, a player and a turn, a batch of three
  intents on one character, and the runs of the applier that the root theory uses to apply its
  theorems at concrete inputs.
\<close>

section \<open>Entities\<close>

definition exID :: "string \<Rightarrow> string \<Rightarrow> string" where
  "exID ty i = ''o.p.w.s.'' @ ty @ ''.'' @ i"

definition exEntity :: "string \<Rightarrow> (Predicate \<times> any) list \<Rightarrow> string \<times> EntityState" where
  "exEntity i fs =
     (i, \<lparr>esID = i, esMessageType = TurnState_Schema, esVersion = 1, esUpdatedAt = 1,
          esStorageRef = None, esTriples = map (\<lambda>(p, v). recordTriple i ''seed'' ''import'' 1 p v) fs\<rparr>)"

definition exRook :: string where "exRook = exID ''c'' ''r''"
definition exVex :: string where "exVex = exID ''c'' ''v''"
definition exScene :: string where "exScene = exID ''s'' ''g''"
definition exPlayer :: string where "exPlayer = exID ''p'' ''m''"
definition exTurn :: string where "exTurn = exID ''turn'' ''turn-a''"
definition exRef :: string where "exRef = ''obj://e/b''"

definition exGraph :: "fault option list \<Rightarrow> memGraph" where
  "exGraph fs =
     \<lparr>mg_ents = [
        exEntity exRook [(WorldEntityKind, AString EntityKindCharacter), (CharacterAttributeHealth, AInt 5),
          (CharacterAttributeStamina, AInt 4)],
        exEntity exVex [(WorldEntityKind, AString EntityKindCharacter)],
        exEntity exPlayer [(WorldEntityKind, AString EntityKindPlayer)],
        exEntity exTurn [(TurnPhaseCurrent, AString PhaseApplying), (TurnActionPlayer, AString exPlayer)]],
      mg_faults = fs\<rparr>"

section \<open>Batches\<close>

definition exIntent :: "EffectType \<Rightarrow> string \<Rightarrow> EffectIntent" where
  "exIntent ty i =
     \<lparr>ei_Type = ty, ei_Target = i, ei_Attribute = [], ei_Value = None, ei_Status = [],
      ei_Location = [], ei_Relation = [], ei_Object = []\<rparr>"

definition exBatch :: EffectBatch where
  "exBatch = NewEffectBatch ''turn-a'' BandFull
     [(exIntent EffectSetStatus exRook)\<lparr>ei_Status := StatusWounded\<rparr>,
      (exIntent EffectSetAttribute exRook)\<lparr>ei_Attribute := AttributeHealth, ei_Value := Some 3\<rparr>,
      (exIntent EffectAddRelationship exRook)\<lparr>ei_Relation := RelationKnows, ei_Object := exVex\<rparr>]"

text \<open>An intent on an entity that does not exist.\<close>

definition exBadBatch :: EffectBatch where
  "exBadBatch = NewEffectBatch ''turn-a'' BandFull
     [(exIntent EffectSetStatus (exID ''c'' ''x''))\<lparr>ei_Status := StatusWounded\<rparr>]"

definition exApplier :: "memGraph Applier" where
  "exApplier = \<lparr>ap_store = graphioStore refExt memClient, ap_specs = engineAttributeSpecs\<rparr>"

section \<open>Runs\<close>

definition isApplied :: "(gerror + EffectOutcome) \<times> memGraph \<Rightarrow> bool" where
  "isApplied r = (case r of (Inr out, _) \<Rightarrow> eo_Applied out | _ \<Rightarrow> False)"

definition isRefused :: "(gerror + EffectOutcome) \<times> memGraph \<Rightarrow> bool" where
  "isRefused r = (case r of (Inl e, _) \<Rightarrow> \<not> isCommitError e | _ \<Rightarrow> False)"

definition isInterrupted :: "(gerror + EffectOutcome) \<times> memGraph \<Rightarrow> bool" where
  "isInterrupted r = (case r of (Inl e, _) \<Rightarrow> isCommitError e | _ \<Rightarrow> False)"

text \<open>
  The schedule lets the four reads and the status write through, then loses the acknowledgement of
  the attribute write and times out the reread: the first attempt is interrupted half way.
\<close>

definition exFaults :: "fault option list" where
  "exFaults = [None, None, None, None, Some AckLost, Some AckLost]"

lemma exRun_applied: "isApplied (Apply refExt exApplier 7 (Some exBatch) exTurn exRef (exGraph []))"
  by code_simp

lemma exRun_refused: "isRefused (Apply refExt exApplier 7 (Some exBadBatch) exTurn exRef (exGraph []))"
  by code_simp

lemma exRun_interrupted:
  "isInterrupted (Apply refExt exApplier 7 (Some exBatch) exTurn exRef (exGraph exFaults))"
  by code_simp

lemma exRun_again:
  "isApplied (Apply refExt exApplier 9 (Some exBatch) exTurn exRef
     (attempts refExt exApplier exBatch exTurn exRef [7] (exGraph exFaults)))"
  by code_simp

lemma exGraph_marker: "objs memEnts (exGraph fs) exTurn TurnEffectsBatch = {#}"
  by (simp add: graphOf_def memEnts_def exGraph_def exEntity_def exRook_def exVex_def exPlayer_def exTurn_def
      exID_def pred_strings)

end
