(* ===== verification/Reference_Engine.thy ===== *)
theory Reference_Engine
  imports Reference_Graph Turn_Safety Content_Store
begin

text \<open>
  A reference world for the components above the graph: the in-memory graph of
  \<open>Reference_Graph\<close> with an object store, a bucket of immutable claims and a clock beside it, all on
  one schedule of faults. The interpretations show that the model's own definitions, run on it, meet
  the interfaces \<open>object_backend\<close>, \<open>exact_claims\<close>, \<open>turn_recorder\<close> and \<open>plain_intake\<close>.
\<close>

section \<open>The world\<close>

record memWorld = memGraph +
  mw_objects :: "(string \<times> string) list"
  mw_claims :: "(string \<times> string) list"
  mw_clock :: time

definition memStored :: "memWorld \<Rightarrow> string \<Rightarrow> string option" where
  "memStored w = map_of (mw_objects w)"

definition memClaims :: "memWorld \<Rightarrow> string \<Rightarrow> string option" where
  "memClaims w = map_of (mw_claims w)"

text \<open>A fault is an error before the work, or, when the acknowledgement is lost, after it.\<close>

definition memPut :: "string \<Rightarrow> string \<Rightarrow> (memWorld, unit) M" where
  "memPut k d = (\<lambda>w. case popFault w of
       (Some (Refused m), w1) \<Rightarrow> (Inl (External ''object store refused''), w1)
     | (f, w1) \<Rightarrow>
         (if f = Some AckLost then Inl (External ''object store timed out'') else Inr (),
          w1\<lparr>mw_objects := (k, d) # mw_objects w1\<rparr>))"

definition memGet :: "string \<Rightarrow> (memWorld, string) M" where
  "memGet k = (\<lambda>w. case popFault w of
       (Some _, w1) \<Rightarrow> (Inl (External ''object store timed out''), w1)
     | (None, w1) \<Rightarrow>
         (case memStored w1 k of None \<Rightarrow> (Inl ErrObjectNotFound, w1) | Some d \<Rightarrow> (Inr d, w1)))"

definition memClaim :: "string \<Rightarrow> string \<Rightarrow> (memWorld, unit) M" where
  "memClaim k d = (\<lambda>w. case popFault w of
       (Some (Refused m), w1) \<Rightarrow> (Inl (External ''bucket refused''), w1)
     | (f, w1) \<Rightarrow>
         (case memClaims w1 k of
            Some _ \<Rightarrow> (Inl ErrKeyExists, w1)
          | None \<Rightarrow>
              (if f = Some AckLost then Inl (External ''bucket timed out'') else Inr (),
               w1\<lparr>mw_claims := (k, d) # mw_claims w1\<rparr>)))"

definition memClaimed :: "string \<Rightarrow> (memWorld, string) M" where
  "memClaimed k = (\<lambda>w. case popFault w of
       (Some _, w1) \<Rightarrow> (Inl (External ''bucket timed out''), w1)
     | (None, w1) \<Rightarrow>
         (case memClaims w1 k of
            None \<Rightarrow> (Inl (External ''key not found''), w1)
          | Some d \<Rightarrow> (Inr d, w1)))"

definition memKeyValue :: "memWorld KeyValue" where
  "memKeyValue = \<lparr>kv_Create = memClaim, kv_Get = memClaimed\<rparr>"

definition memBackend :: "memWorld Backend" where
  "memBackend = ObjectBackend ''objectstore'' memPut memGet memKeyValue"

definition memNow :: "memWorld \<Rightarrow> time \<times> memWorld" where
  "memNow w = (mw_clock w, w\<lparr>mw_clock := mw_clock w + 1\<rparr>)"

lemma popFault_world [simp]:
  assumes "popFault w = (f, w1)"
  shows "memStored w1 = memStored w" "memClaims w1 = memClaims w"
  using assms by (auto simp: popFault_def memStored_def memClaims_def split: list.splits)

lemma memWorld_updates [simp]:
  "memStored (w\<lparr>mw_objects := (k, d) # mw_objects w\<rparr>) = (memStored w)(k \<mapsto> d)"
  "memStored (w\<lparr>mw_claims := cs\<rparr>) = memStored w"
  "memClaims (w\<lparr>mw_claims := (k, d) # mw_claims w\<rparr>) = (memClaims w)(k \<mapsto> d)"
  "memClaims (w\<lparr>mw_objects := os\<rparr>) = memClaims w"
  "memEnts (w\<lparr>mw_objects := os\<rparr>) = memEnts w" "memEnts (w\<lparr>mw_claims := cs\<rparr>) = memEnts w"
  "memEnts (w\<lparr>mw_clock := t\<rparr>) = memEnts w"
  by (simp_all add: memStored_def memClaims_def memEnts_def)

lemma memPut_cases:
  assumes "memPut k d w = (r, w')"
  shows "memEnts w' = memEnts w" "memClaims w' = memClaims w"
    "memStored w' = memStored w \<and> (\<exists>e. r = Inl e) \<or> memStored w' = (memStored w)(k \<mapsto> d)"
  using assms
  by (auto simp: memPut_def split: prod.splits option.splits fault.splits if_splits
      dest: popFault_ents popFault_world)

lemma memGet_frame:
  assumes "memGet k w = (r, w')"
  shows "memEnts w' = memEnts w" "memClaims w' = memClaims w" "memStored w' = memStored w"
  using assms
  by (auto simp: memGet_def split: prod.splits option.splits dest: popFault_ents popFault_world)

interpretation memObjects: object_backend memBackend memStored
proof unfold_locales
  fix k w r w' assume "be_Get memBackend k w = (r, w')"
  then show "memStored w' = memStored w"
    by (simp add: memBackend_def ObjectBackend_def memGet_frame)
next
  fix k w d w' assume "be_Get memBackend k w = (Inr d, w')"
  then show "memStored w k = Some d"
    by (auto simp: memBackend_def ObjectBackend_def memGet_def split: prod.splits option.splits
        dest: popFault_world)
next
  fix k d w w' assume "be_Put memBackend k d w = (Inr (), w')"
  then show "memStored w' = (memStored w)(k \<mapsto> d)"
    by (auto simp: memBackend_def ObjectBackend_def dest: memPut_cases(3))
next
  fix k d w e w' assume "be_Put memBackend k d w = (Inl e, w')"
  then show "memStored w' = memStored w \<or> memStored w' = (memStored w)(k \<mapsto> d)"
    by (auto simp: memBackend_def ObjectBackend_def dest: memPut_cases(3))
qed

interpretation memExact: exact_claims memKeyValue memPut memGet memClaims
proof unfold_locales
  fix k d w w' assume "kv_Create memKeyValue k d w = (Inr (), w')"
  then show "memClaims w k = None \<and> memClaims w' = (memClaims w)(k \<mapsto> d)"
    by (auto simp: memKeyValue_def memClaim_def split: prod.splits option.splits fault.splits if_splits
        dest: popFault_world)
next
  fix k d w e w' assume "kv_Create memKeyValue k d w = (Inl e, w')"
  then show "memClaims w' = memClaims w \<or> memClaims w k = None \<and> memClaims w' = (memClaims w)(k \<mapsto> d)"
    by (auto simp: memKeyValue_def memClaim_def split: prod.splits option.splits fault.splits if_splits
        dest: popFault_world)
next
  fix k d w e w'
  assume "kv_Create memKeyValue k d w = (Inl e, w')" "errors_Is e ErrKeyExists"
  then show "memClaims w' = memClaims w \<and> memClaims w k \<noteq> None"
    by (auto simp: memKeyValue_def memClaim_def errors_Is_def ErrKeyExists_def
        split: prod.splits option.splits fault.splits if_splits dest: popFault_world)
next
  fix k w r w' assume "kv_Get memKeyValue k w = (r, w')"
  then show "memClaims w' = memClaims w"
    by (auto simp: memKeyValue_def memClaimed_def split: prod.splits option.splits dest: popFault_world)
next
  fix k w d w' assume "kv_Get memKeyValue k w = (Inr d, w')"
  then show "memClaims w k = Some d"
    by (auto simp: memKeyValue_def memClaimed_def split: prod.splits option.splits dest: popFault_world)
qed (auto dest: memPut_cases(2) memGet_frame(2))

section \<open>A codec of player actions\<close>

text \<open>
  It stands for \<^verbatim>\<open>encoding/json\<close>: each field's characters are marked, each field is closed,
  and the time is a sign and its magnitude in unary.
\<close>

definition encField :: "string \<Rightarrow> string" where
  "encField s = concat (map (\<lambda>c. [CHR ''+'', c]) s) @ ''.''"

fun decField :: "string \<Rightarrow> (string \<times> string) option" where
  "decField (a # c # rest) =
     (if a = CHR ''.'' then Some ([], c # rest)
      else if a = CHR ''+''
      then (case decField rest of Some (s, tail) \<Rightarrow> Some (c # s, tail) | None \<Rightarrow> None)
      else None)"
| "decField [a] = (if a = CHR ''.'' then Some ([], []) else None)"
| "decField [] = None"

fun decFields :: "nat \<Rightarrow> string \<Rightarrow> string list option" where
  "decFields 0 s = (if s = [] then Some [] else None)"
| "decFields (Suc n) s =
     (case decField s of None \<Rightarrow> None | Some (f, tail) \<Rightarrow> map_option ((#) f) (decFields n tail))"

definition encInt :: "int \<Rightarrow> string" where
  "encInt t = (if t < 0 then CHR ''-'' # replicate (nat (- t)) CHR ''1'' else replicate (nat t) CHR ''1'')"

definition decInt :: "string \<Rightarrow> int" where
  "decInt s = (if s \<noteq> [] \<and> hd s = CHR ''-'' then - int (length (tl s)) else int (length s))"

definition refActions :: "PlayerAction codec" where
  "refActions =
     \<lparr>jc_marshal = (\<lambda>a. Inr (concat (map encField [pa_ActionID a, pa_PlayerID a, pa_CampaignID a,
        pa_SceneID a, pa_Text a, encInt (pa_ArrivedAt a), cb_Adapter (pa_Channel a),
        cb_ReplyTo (pa_Channel a)]))),
      jc_unmarshal = (\<lambda>s. case decFields 8 s of
          Some [action, player, campaign, scene, txt, at, adapter, reply] \<Rightarrow>
            Inr \<lparr>pa_ActionID = action, pa_PlayerID = player, pa_CampaignID = campaign, pa_SceneID = scene,
                 pa_Text = txt, pa_ArrivedAt = decInt at,
                 pa_Channel = \<lparr>cb_Adapter = adapter, cb_ReplyTo = reply\<rparr>\<rparr>
        | _ \<Rightarrow> Inl (External ''invalid character''))\<rparr>"

lemma decField_enc [simp]: "decField (encField s @ tail) = Some (s, tail)"
proof (induction s)
  case Nil
  then show ?case by (cases tail) (simp_all add: encField_def)
qed (simp add: encField_def)

lemma decInt_enc [simp]: "decInt (encInt t) = t"
  by (auto simp: decInt_def encInt_def)

lemma decFields_enc: "n = length fs \<Longrightarrow> decFields n (concat (map encField fs)) = Some fs"
  by (induction fs arbitrary: n) simp_all

lemma refActions_roundtrip: "jc_marshal refActions a = Inr d \<Longrightarrow> jc_unmarshal refActions d = Inr a"
proof -
  assume d: "jc_marshal refActions a = Inr d"
  let ?fs = "[pa_ActionID a, pa_PlayerID a, pa_CampaignID a, pa_SceneID a, pa_Text a,
     encInt (pa_ArrivedAt a), cb_Adapter (pa_Channel a), cb_ReplyTo (pa_Channel a)]"
  have "d = concat (map encField ?fs)" using d by (simp add: refActions_def)
  moreover have "decFields 8 (concat (map encField ?fs)) = Some ?fs" by (rule decFields_enc) simp
  ultimately have "decFields 8 d = Some ?fs" by simp
  then show ?thesis by (simp add: refActions_def)
qed

section \<open>The recorder on the reference world\<close>

definition memGraphStore :: "memWorld GraphStore" where
  "memGraphStore = graphioStore refExt memClient"

definition refRecorder :: "Identity \<Rightarrow> memWorld Recorder" where
  "refRecorder ident =
     \<lparr>tr_store = memGraphStore, tr_actions = (\<lambda>i a. PutAction refExt memBackend refActions i (Some a)),
      tr_identity = ident, tr_now = memNow\<rparr>"

lemma memGraph_store: "graph_store refExt memGraphStore (memEnts :: memWorld \<Rightarrow> _)"
  unfolding memGraphStore_def by (rule mem.store_contract)

lemma put_artifact_frame:
  assumes "put_artifact X memBackend J v p k i a w = (r, w')"
  shows "memEnts w' = memEnts w"
  using assms
  by (auto simp: put_artifact_def memBackend_def ObjectBackend_def Let_def checkM_eq mapErr_Inl
      elim!: bindM_cases dest!: memPut_cases(1))

lemma refRecorder_turn_recorder: "turn_recorder refExt memGraphStore memEnts (refRecorder ident)"
proof (intro turn_recorder.intro turn_recorder_axioms.intro memGraph_store)
  fix i a w r w' assume "tr_actions (refRecorder ident) i a w = (r, w')"
  then show "memEnts w' = memEnts w"
    by (auto simp: refRecorder_def PutAction_def put_for_turn_def checkM_eq dest!: put_artifact_frame)
qed (simp_all add: refRecorder_def memNow_def)

interpretation refTurns: turn_recorder refExt memGraphStore memEnts "refRecorder ident" for ident
  by (rule refRecorder_turn_recorder)

text \<open>No error of the grammar, of the client or of the store claims to be the recorder's rejection.\<close>

lemma External_plain [simp]:
  "isRejectedAction (External s) = False" "isRejectedAction (MutationError k c) = False"
  "isRejectedAction ErrEntityNotFound = False" "isRejectedAction ErrEntityExists = False"
  "isRejectedAction (Wrapf2 s e f) = (isRejectedAction e \<or> isRejectedAction f)"
  by (auto simp: isRejectedAction_def split: option.splits)

lemma mem_errors_plain:
  "memRead i w = (Inl e, w') \<Longrightarrow> \<not> isRejectedAction e"
  "memCreate b w = (Inl e, w') \<Longrightarrow> \<not> isRejectedAction e"
  "memReconcile m w = (Inl e, w') \<Longrightarrow> \<not> isRejectedAction e"
  by (auto simp: memRead_def memCreate_def memReconcile_def memStore_def refusal_def Let_def
      split: prod.splits option.splits fault.splits if_splits)

lemma refExt_errors:
  "ParsePredicate refExt s = Inl e \<Longrightarrow> \<not> isRejectedAction e"
  "ValidateEntityID refExt s = Some e \<Longrightarrow> \<not> isRejectedAction e"
  "ValidateEntityIDPrefix refExt s = Some e \<Longrightarrow> \<not> isRejectedAction e"
  "ValidateEntityStateContract refExt ent = Some e \<Longrightarrow> \<not> isRejectedAction e"
  by (auto simp: refExt_def split: list.splits if_splits)

lemma memGet_plain: "gs_GetEntity memGraphStore i w = (Inl e, w') \<Longrightarrow> \<not> isRejectedAction e"
  by (auto simp: memGraphStore_def graphioStore_def GetEntity_def memClient_def
      elim!: tryM_cases split: if_splits option.splits dest!: mem_errors_plain)

lemma memReconcile_plain: "gs_Reconcile memGraphStore t i ds w = (Inl e, w') \<Longrightarrow> \<not> isRejectedAction e"
  by (auto simp: memGraphStore_def graphioStore_def Reconcile_def memClient_def
      elim!: tryM_cases split: if_splits option.splits sum.splits dest!: mem_errors_plain)

lemma memCreate_plain: "gs_CreateEntity memGraphStore ct b w = (Inl e, w') \<Longrightarrow> \<not> isRejectedAction e"
  by (auto simp: memGraphStore_def graphioStore_def CreateEntity_def memClient_def Let_def checkM_eq wrapErr_def
      elim!: tryM_cases split: if_splits option.splits sum.splits dest!: mem_errors_plain refExt_errors)

lemma memGraphStore_unrejected: "unrejected refExt memGraphStore"
  unfolding unrejected_def
  using refExt_errors memGet_plain memReconcile_plain memCreate_plain by blast

interpretation refIntake: plain_intake refExt memGraphStore memEnts "refRecorder ident" for ident
  by (intro plain_intake.intro plain_intake_axioms.intro refRecorder_turn_recorder memGraphStore_unrejected)

end
