(* ===== verification/Example_Turns.thy ===== *)
theory Example_Turns
  imports Example_World Reference_Engine
begin

text \<open>
  Runs of the recorder and of the content store on the reference world, at the concrete inputs to
  which the root theory applies its theorems.
\<close>

definition exWorld :: "fault option list \<Rightarrow> memWorld" where
  "exWorld fs =
     \<lparr>mg_ents = mg_ents (exGraph []), mg_faults = fs, mw_objects = [], mw_claims = [], mw_clock = 7\<rparr>"

definition exIdentity :: Identity where
  "exIdentity = \<lparr>id_Org = ''o'', id_WorldNS = ''w'', id_Template = ''s''\<rparr>"

definition exAction :: PlayerAction where
  "exAction =
     \<lparr>pa_ActionID = ''b'', pa_PlayerID = exPlayer, pa_CampaignID = exID ''k'' ''c'', pa_SceneID = exScene,
      pa_Text = ''go'', pa_ArrivedAt = 5,
      pa_Channel = \<lparr>cb_Adapter = AdapterWebSocket, cb_ReplyTo = ''r''\<rparr>\<rparr>"

definition exRecorder :: "memWorld Recorder" where "exRecorder = refRecorder exIdentity"

definition exBorn :: string where "exBorn = ''o.semmachina.w.s.turn.turn-b''"

text \<open>The world after the action was accepted.\<close>

definition exAccepted :: memWorld where
  "exAccepted = snd (Accept refExt exRecorder (Some exAction) (exWorld []))"

lemma exID_action: "EntityIDForAction refExt exIdentity (pa_ActionID exAction) = Inr (''turn-b'', exBorn)"
  by code_simp

lemma exRun_accept:
  "fst (Accept refExt exRecorder (Some exAction) (exWorld [])) =
     Inr \<lparr>ac_TurnID = ''turn-b'', ac_TurnEntityID = exBorn, ac_Created = True, ac_Phase = PhaseAccepted\<rparr>"
  by code_simp

lemma exRun_advance:
  "fst (Advance refExt exRecorder ''turn-a'' exTurn PhaseCompanion (exWorld [])) =
     Inr \<lparr>tx_Previous = PhaseApplying, tx_Phase = PhaseCompanion, tx_Outcome = OutcomeAdvanced\<rparr>"
  by code_simp

lemma exRun_fail:
  "fst (Fail refExt exRecorder ''turn-a'' exTurn FailureTurnStranded zeroRef (exWorld [])) =
     Inr \<lparr>tx_Previous = PhaseApplying, tx_Phase = PhaseFailed, tx_Outcome = OutcomeAdvanced\<rparr>"
  by code_simp

lemma exRun_skip:
  "fst (Advance refExt exRecorder ''turn-a'' exTurn PhaseNarrating (exWorld [])) =
     Inl (IllegalTransitionError exTurn PhaseApplying PhaseNarrating FaultSkippedStage)"
  by code_simp

lemma exRun_put:
  "case PutAction refExt memBackend refActions exBorn (Some exAction) (exWorld []) of
     (Inr ref, w1) \<Rightarrow> \<not> isl (fst (be_Get memBackend (rf_Key ref) w1))
   | _ \<Rightarrow> False"
  by code_simp

end
