(* ===== verification/Reference_Knowledge.thy ===== *)
theory Reference_Knowledge
  imports Knowledge_Commit Example_Turns
begin

text \<open>
  A granter on the reference world, with codecs of testimony and of receipts: the interpretation
  that discharges the laws of \<open>knowledge_granter\<close>, and the runs the root theory uses.
\<close>

section \<open>Codecs\<close>

fun decAll :: "nat \<Rightarrow> string \<Rightarrow> string list option" where
  "decAll 0 s = (if s = [] then Some [] else None)"
| "decAll (Suc n) s =
     (if s = [] then Some []
      else case decField s of None \<Rightarrow> None | Some (f, tail) \<Rightarrow> map_option ((#) f) (decAll n tail))"

definition refTestimonies :: "Testimony codec" where
  "refTestimonies =
     \<lparr>jc_marshal = (\<lambda>t. Inr (concat (map encField [te_TurnID t, te_DecisionID t, te_BeliefID t,
        te_SourceActorID t, te_RecipientID t, te_EvidenceID t, te_Stance t, te_Prose t]))),
      jc_unmarshal = (\<lambda>s. case decFields 8 s of
          Some [turn, decision, belief, source, recipient, evidence, stance, prose] \<Rightarrow>
            Inr \<lparr>te_TurnID = turn, te_DecisionID = decision, te_BeliefID = belief, te_SourceActorID = source,
                 te_RecipientID = recipient, te_EvidenceID = evidence, te_Stance = stance, te_Prose = prose\<rparr>
        | _ \<Rightarrow> Inl (External ''invalid character''))\<rparr>"

definition entryFields :: "KnowledgeReceiptEntry \<Rightarrow> string list" where
  "entryFields e =
     [ke_RecipientID e, ke_EvidenceID e, ke_KnowledgeID e, ke_RevelationID e, ke_TestimonyRef e]"

fun entriesOf :: "string list \<Rightarrow> KnowledgeReceiptEntry list option" where
  "entriesOf [] = Some []"
| "entriesOf (recipient # evidence # knowledge # revelation # testimony # fs) =
     map_option ((#) \<lparr>ke_RecipientID = recipient, ke_EvidenceID = evidence, ke_KnowledgeID = knowledge,
       ke_RevelationID = revelation, ke_TestimonyRef = testimony\<rparr>) (entriesOf fs)"
| "entriesOf _ = None"

definition refReceipts :: "KnowledgeReceipt codec" where
  "refReceipts =
     \<lparr>jc_marshal = (\<lambda>r. Inr (concat (map encField
        ([kr_TurnID r, kr_DecisionID r, kr_Status r] @ concat (map entryFields (kr_Entries r)))))),
      jc_unmarshal = (\<lambda>s. case decAll (length s) s of
          Some (turn # decision # status # fs) \<Rightarrow>
            (case entriesOf fs of
               Some es \<Rightarrow> Inr \<lparr>kr_TurnID = turn, kr_DecisionID = decision, kr_Status = status, kr_Entries = es\<rparr>
             | None \<Rightarrow> Inl (External ''unexpected end of JSON input''))
        | _ \<Rightarrow> Inl (External ''invalid character''))\<rparr>"

section \<open>The granter\<close>

definition refPutTestimony :: "string \<Rightarrow> Testimony \<Rightarrow> (memWorld, Ref) M" where
  "refPutTestimony i t w = PutTestimony refExt memBackend refTestimonies i (Some t) w"

definition refPutReceipt :: "string \<Rightarrow> KnowledgeReceipt \<Rightarrow> (memWorld, Ref) M" where
  "refPutReceipt turn k w = PutKnowledgeReceipt refExt memBackend refReceipts turn (Some k) w"

definition refGranter :: "memWorld Granter" where
  "refGranter =
     \<lparr>kg_graph = memGraphStore,
      kg_putTestimony = refPutTestimony, kg_putReceipt = refPutReceipt,
      kg_now = memNow,
      kg_marshal = (\<lambda>v. case v of AString s \<Rightarrow> Inr s | _ \<Rightarrow> Inl (External ''unsupported value'')),
      kg_ctxErr = (\<lambda>_. None)\<rparr>"

lemma refGranter_granter: "knowledge_granter refExt memGraphStore memEnts refGranter"
proof (intro knowledge_granter.intro knowledge_granter_axioms.intro memGraph_store)
  show "memEnts w' = memEnts w" if "kg_putTestimony refGranter i t w = (r, w')" for i t w r w'
    using that by (auto simp: refGranter_def refPutTestimony_def PutTestimony_def dest!: put_artifact_frame split: if_splits)
  show "memEnts w' = memEnts w" if "kg_putReceipt refGranter i k w = (r, w')" for i k w r w'
    using that
    by (auto simp: refGranter_def refPutReceipt_def PutKnowledgeReceipt_def put_for_turn_def checkM_eq dest!: put_artifact_frame)
qed (simp_all add: refGranter_def memNow_def)

interpretation refKnowledge: knowledge_granter refExt memGraphStore memEnts refGranter
  by (rule refGranter_granter)

section \<open>A case in the reference world\<close>

definition exCase :: string where "exCase = exID ''case'' ''k''"
definition exClue :: string where "exClue = exID ''e'' ''c''"
definition exDesk :: string where "exDesk = exID ''l'' ''d''"

text \<open>Rook investigates the desk; the clue there opens with the investigation.\<close>

definition exDecision :: "string list \<Rightarrow> CaseDecision" where
  "exDecision reveals =
     \<lparr>cd_DecisionID = ''d1'', cd_TurnID = ''turn-a'', cd_ActionID = ''a'', cd_CaseID = exCase,
      cd_ActorID = exRook, cd_Kind = CaseDecisionInvestigate, cd_TargetRefs = [exDesk],
      cd_RevealRefs = reveals, cd_CulpritRef = [], cd_MethodRef = [], cd_MotiveRef = []\<rparr>"

definition exPreflight :: "string list \<Rightarrow> Preflight" where
  "exPreflight reveals =
     \<lparr>pf_Decision = Some (exDecision reveals), pf_ActingActorID = exRook, pf_CaseID = exCase,
      pf_CasePhase = CasePhaseInvestigation, pf_CaseEvidence = [(exClue, True)], pf_CaseCharacters = [],
      pf_Eligibility = [(exClue, \<lparr>el_MinimumPhase = CasePhaseInvestigation,
        el_Kinds = [CaseDecisionInvestigate], el_Targets = [exDesk]\<rparr>)],
      pf_Beliefs = [], pf_Known = [], pf_SolutionLocked = []\<rparr>"

definition exPlan :: knowledge_Plan where
  "exPlan = [\<lparr>en_RecipientID = exRook, en_EvidenceID = exClue, en_Testimony = None\<rparr>]"

lemma exRun_authorize:
  "Authorize (exPreflight [exClue]) None (exWorld []) = (Inr exPlan, exWorld [])"
  by code_simp


text \<open>An investigation that reveals nothing still stores its receipt and names it on the turn.\<close>

definition exReceipt :: KnowledgeReceipt where
  "exReceipt =
     \<lparr>kr_TurnID = ''turn-a'', kr_DecisionID = ''d1'', kr_Status = KnowledgeCommitted, kr_Entries = []\<rparr>"

definition exReceiptRef :: Ref where
  "exReceiptRef = \<lparr>rf_Instance = be_InstanceName (memBackend :: memWorld Backend), rf_Key = ''turn/turn-a/knowledge''\<rparr>"

definition exStored :: memWorld where
  "exStored = snd (refPutReceipt exTurn exReceipt (snd (memNow (exWorld []))))"

lemma exRun_receipt:
  "fst (refPutReceipt exTurn exReceipt (snd (memNow (exWorld [])))) = Inr exReceiptRef"
  by code_simp

lemma exRun_turn_ref:
  "\<not> isl (fst (gs_Reconcile memGraphStore TurnKnowledge exTurn
     [knowledge_fact exTurn (fst (memNow exStored)) TurnKnowledgeRef (AString (Ref_String exReceiptRef))]
     (snd (memNow exStored))))"
  by code_simp

lemma exRun_grant:
  "\<exists>ref w'. GrantWithWitnesses refExt refGranter exTurn (exPreflight []) None None (exWorld []) = (Inr ref, w')"
proof -
  have plan: "AuthorizeWithWitnesses (exPreflight []) None None (exWorld []) = (Inr [], exWorld [])" by code_simp
  have put: "refPutReceipt exTurn exReceipt (snd (memNow (exWorld []))) = (Inr exReceiptRef, exStored)"
    using exRun_receipt by (simp add: exStored_def prod_eq_iff)
  obtain e w2 where "gs_Reconcile memGraphStore TurnKnowledge exTurn
      [knowledge_fact exTurn (fst (memNow exStored)) TurnKnowledgeRef (AString (Ref_String exReceiptRef))]
      (snd (memNow exStored)) = (Inr e, w2)"
    using exRun_turn_ref by (metis prod.collapse sum.collapse(2))
  then have "writeTurnRef refGranter exTurn exReceiptRef exStored = (Inr (), w2)"
    by (auto simp: writeTurnRef_def bindM_Inr knowledge_now_def refGranter_def split: prod.splits intro!: retry_first)
  with plan put show ?thesis
    by (auto simp: GrantWithWitnesses_def knowledge_commit_def bindM_Inr exPreflight_def exDecision_def
        knowledge_now_def exReceipt_def SortedKnowledgeEntries_def refGranter_def split: prod.splits)
qed

end
