(* ===== verification/Reference_Scene.thy ===== *)
theory Reference_Scene
  imports Epistemic_Sealed Reference_Knowledge
begin

text \<open>
  The query side of the reference world: a requester that answers from the in-memory graph, the
  assembler and the projector on it, the interpretations of \<open>batch_reader\<close> and \<open>scene_graph\<close>, and a
  small mystery in which Rook, at the desk, knows one clue.
\<close>

section \<open>A requester\<close>

definition memIDs :: "'z memGraph_scheme \<Rightarrow> string list" where
  "memIDs w = remdups (map fst (mg_ents w))"

definition memHolds :: "'z memGraph_scheme \<Rightarrow> (Triple \<Rightarrow> bool) \<Rightarrow> string \<Rightarrow> bool" where
  "memHolds w P i = (case memEnts w i of None \<Rightarrow> False | Some e \<Rightarrow> list_ex P (esTriples e))"

definition memQuery :: "('z memGraph_scheme \<Rightarrow> 'a) \<Rightarrow> ('z memGraph_scheme, gerror + 'a) M" where
  "memQuery f = (\<lambda>w. case popFault w of
       (Some _, w1) \<Rightarrow> (Inl (External ''query timed out''), w1)
     | (None, w1) \<Rightarrow> (Inr (Inr (f w1)), w1))"

text \<open>The entity store answers an entity under the id it carries.\<close>

definition memKeyed :: "'z memGraph_scheme \<Rightarrow> string \<Rightarrow> EntityState option" where
  "memKeyed w i = (case memEnts w i of Some e \<Rightarrow> if esID e = i then Some e else None | None \<Rightarrow> None)"

definition memBatch :: "string list \<Rightarrow> 'z memGraph_scheme \<Rightarrow> EntityBatchResponse" where
  "memBatch ids w =
     \<lparr>br_Entities = List.map_filter (memKeyed w) (remdups ids),
      br_Missing = map (\<lambda>i. \<lparr>me_ID = i, me_Reason = ''not_found''\<rparr>)
        (filter (\<lambda>i. memKeyed w i = None) (remdups ids))\<rparr>"

definition memIncoming :: "string \<Rightarrow> 'z memGraph_scheme \<Rightarrow> IncomingEntry list" where
  "memIncoming i w =
     concat (map (\<lambda>j. case memEnts w j of None \<Rightarrow> []
         | Some e \<Rightarrow> map (\<lambda>t. \<lparr>ie_Predicate = trPredicate t, ie_FromEntityID = j\<rparr>)
             (filter (\<lambda>t. trObject t = AString i) (esTriples e)))
       (memIDs w))"

definition memByValue :: "string \<Rightarrow> string \<Rightarrow> int \<Rightarrow> 'z memGraph_scheme \<Rightarrow> string list" where
  "memByValue p v limit w =
     take (nat limit) (filter (memHolds w (\<lambda>t. trPredicate t = p \<and> trObject t = AString v)) (memIDs w))"

definition memPrefix :: "string \<Rightarrow> string \<Rightarrow> int \<Rightarrow> 'z memGraph_scheme \<Rightarrow> EntityState list \<times> string" where
  "memPrefix prefix cursor limit w =
     (br_Entities (memBatch (filter (\<lambda>i. take (length prefix) i = prefix) (memIDs w)) w), [])"

definition memRequester :: "'z memGraph_scheme Requester" where
  "memRequester =
     \<lparr>rq_Batch = (\<lambda>ids. memQuery (memBatch ids)),
      rq_Prefix = (\<lambda>prefix cursor limit. memQuery (memPrefix prefix cursor limit)),
      rq_Incoming = (\<lambda>i. memQuery (memIncoming i)),
      rq_PredicateValue = (\<lambda>p v limit. memQuery (memByValue p v limit))\<rparr>"

text \<open>Where the service answers every requested id at most once, so does the client's batch read.\<close>

lemma GetEntities_once:
  assumes "\<And>reply w'. rq_Batch rq ids w = (Inr (Inr reply), w') \<Longrightarrow> mset (map esID (br_Entities reply)) \<subseteq># mset ids"
    and "GetEntities X rq ids w = (Inr r, w')"
  shows "mset (map esID (br_Entities r)) \<subseteq># mset ids"
  using assms(2,1) by (auto simp: GetEntities_def bindM_Inr checkM_eq Let_def split: if_splits)

lemma memBatch_ids: "map esID (br_Entities (memBatch ids w)) = filter (\<lambda>i. memKeyed w i \<noteq> None) (remdups ids)"
proof -
  have "map esID (List.map_filter (memKeyed w) xs) = filter (\<lambda>i. memKeyed w i \<noteq> None) xs" for xs
    by (induction xs) (auto simp: map_filter_simps memKeyed_def split: option.splits if_splits)
  then show ?thesis by (simp add: memBatch_def)
qed

lemma mset_filter_remdups: "mset (filter P (remdups xs)) \<subseteq># mset xs"
  by (metis mset_filter multiset_filter_subset mset_remdups_subset_eq subset_mset.dual_order.trans)

lemma memBatch_once: "image_mset esID (mset (br_Entities (memBatch ids w))) \<subseteq># mset ids"
  using mset_filter_remdups [of _ ids] by (metis memBatch_ids mset_map)

lemma memRequester_once: "batch_reader (GetEntities refExt (memRequester :: 'z memGraph_scheme Requester))"
proof
  fix ids r and w w' :: "'z memGraph_scheme"
  assume "GetEntities refExt memRequester ids w = (Inr r, w')"
  then show "mset (map esID (br_Entities r)) \<subseteq># mset ids"
    by (rule GetEntities_once [rotated]) (auto simp: memRequester_def memQuery_def memBatch_once split: prod.splits option.splits)
qed

interpretation refBatch: batch_reader "GetEntities refExt memRequester"
  by (rule memRequester_once)

section \<open>The assembler\<close>

definition refIsRel :: "Triple \<Rightarrow> bool" where
  "refIsRel t = (case trObject t of AString s \<Rightarrow> ValidateEntityID refExt s = None | _ \<Rightarrow> False)"

definition refRead :: "string \<Rightarrow> (memWorld, EntityState option) M" where
  "refRead i = bindM (GetEntity refExt memClient i) (\<lambda>e. ret (Some e))"

definition refAssembler :: "memWorld Assembler" where
  "refAssembler =
     \<lparr>as_GetEntity = refRead, as_GetEntities = GetEntities refExt memRequester,
      as_Incoming = IncomingRelationships refExt memRequester, as_maxEntities = DefaultMaxEntities,
      as_now = Some memNow, as_isRel = refIsRel\<rparr>"

interpretation refScene: scene_graph refAssembler
  by (rule scene_graph.intro) (simp add: refAssembler_def memRequester_once)

lemma refAssembler_new: "NewAssembler refAssembler = Inr refAssembler"
  by (simp add: NewAssembler_def refAssembler_def DefaultMaxEntities_def)

section \<open>A mystery\<close>

definition exKnow :: string where "exKnow = exID ''kn'' ''n''"
definition exSecret :: string where "exSecret = exID ''e'' ''z''"

definition exMystery :: "fault option list \<Rightarrow> memWorld" where
  "exMystery fs =
     \<lparr>mg_ents = [
        exEntity exTurn [(TurnPhaseCurrent, AString PhaseNarrating), (TurnActionPlayer, AString exPlayer),
          (TurnActionScene, AString exScene)],
        exEntity exScene [(WorldEntityKind, AString EntityKindScene), (SceneLocationCurrent, AString exDesk)],
        exEntity exDesk [(WorldEntityKind, AString EntityKindLocation)],
        exEntity exPlayer [(WorldEntityKind, AString EntityKindPlayer), (PlayerCharacterCurrent, AString exRook)],
        exEntity exRook [(WorldEntityKind, AString EntityKindCharacter), (WorldLocationCurrent, AString exDesk)],
        exEntity exCase [(WorldEntityKind, AString EntityKindCase),
          (CaseLifecyclePhase, AString CasePhaseInvestigation), (CaseSolutionCulprit, AString exVex),
          (CaseSolutionMethod, AString exSecret), (CaseSolutionMotive, AString exSecret)],
        exEntity exClue [(WorldEntityKind, AString EntityKindEvidence),
          (EvidenceTruthStatusCurrent, AString EvidenceTruthClue)],
        exEntity exKnow [(WorldEntityKind, AString EntityKindKnowledge), (KnowledgeActorHolder, AString exRook),
          (KnowledgeEvidenceRef, AString exClue)]],
      mg_faults = fs, mw_objects = [], mw_claims = [], mw_clock = 7\<rparr>"

definition exScope :: Scope where "exScope = \<lparr>sc_caseID = exCase, sc_beliefs = []\<rparr>"

definition exAssemble :: "string \<Rightarrow> string \<Rightarrow> (memWorld, View option) M" where
  "exAssemble t i w = bindM (Assemble refExt refAssembler t i) (\<lambda>v. ret (Some v)) w"

definition refBytes :: "Projection \<Rightarrow> gerror + string" where
  "refBytes q = Inr (concat (map pe_ID (Projection_Entities q)))"

definition refProjector :: "memWorld Projector" where
  "refProjector =
     \<lparr>pr_Assemble = exAssemble, pr_GetEntities = GetEntities refExt memRequester,
      pr_ByValue = EntitiesByPredicateValue memRequester, pr_scope = exScope,
      pr_maxSupplemental = DefaultMaxSupplementalEntities, pr_maxEntities = DefaultMaxProjectionEntities,
      pr_maxTriples = DefaultMaxProjectionTriples, pr_maxBytes = DefaultMaxProjectionBytes,
      pr_denouement = None, pr_bonds = None, pr_evidence = None,
      pr_marshal = (\<lambda>v. case v of AString s \<Rightarrow> Inr s | _ \<Rightarrow> Inl (External ''unsupported value'')),
      pr_Bytes = refBytes\<rparr>"

definition exPlayerAudience :: AuthenticatedAudience where
  "exPlayerAudience = PlayerAudience ''turn-a'' exTurn"

section \<open>Runs\<close>

text \<open>
  The kernel evaluates one step of a run at a time, at the concrete state the step before it left;
  the lemmas compose them.
\<close>

definition exSeen :: "string \<Rightarrow> (Predicate \<times> any) list \<Rightarrow> scene_Entity" where
  "exSeen i fs = \<lparr>sn_ID = i, sn_Triples = esTriples (snd (exEntity i fs))\<rparr>"

definition exTurnSeen :: scene_Entity where
  "exTurnSeen = exSeen exTurn [(TurnPhaseCurrent, AString PhaseNarrating), (TurnActionPlayer, AString exPlayer),
     (TurnActionScene, AString exScene)]"

definition exSceneSeen :: scene_Entity where
  "exSceneSeen = exSeen exScene [(WorldEntityKind, AString EntityKindScene), (SceneLocationCurrent, AString exDesk)]"

definition exDeskSeen :: scene_Entity where
  "exDeskSeen = exSeen exDesk [(WorldEntityKind, AString EntityKindLocation)]"

definition exRookSeen :: scene_Entity where
  "exRookSeen = exSeen exRook [(WorldEntityKind, AString EntityKindCharacter), (WorldLocationCurrent, AString exDesk)]"

definition exPlayerSeen :: scene_Entity where
  "exPlayerSeen = exSeen exPlayer [(WorldEntityKind, AString EntityKindPlayer), (PlayerCharacterCurrent, AString exRook)]"

definition exLater :: memWorld where "exLater = exMystery []\<lparr>mw_clock := 8\<rparr>"

definition exFrame :: View where
  "exFrame = frameView ''turn-a'' exTurn (exTurnSeen, exScene, exSceneSeen, exDesk, exDeskSeen) 7"

definition exView :: View where
  "exView = exFrame\<lparr>vw_Members := [exRookSeen], vw_Neighbours := [exPlayerSeen],
     vw_Actor := \<lparr>sa_PlayerID = exPlayer, sa_CharacterID = exRook, sa_Doubt = []\<rparr>,
     vw_Size := \<lparr>sz_Entities = 5, sz_Triples = 10, sz_Bytes = 344\<rparr>\<rparr>"

lemma exRun_frame:
  "assembleFrame refAssembler exTurn (exMystery []) =
     (Inr (exTurnSeen, exScene, exSceneSeen, exDesk, exDeskSeen), exMystery [])"
  by code_simp

lemma exRun_members: "memberIDs refAssembler exDesk exLater = (Inr [exRook], exLater)"
  by code_simp

lemma exRun_addMembers:
  "addMembers refAssembler [exRook] exFrame exLater = (Inr (exFrame\<lparr>vw_Members := [exRookSeen]\<rparr>), exLater)"
  by code_simp

lemma exRun_addNeighbours:
  "addNeighbours refAssembler [exRook] (exFrame\<lparr>vw_Members := [exRookSeen]\<rparr>) exLater =
     (Inr (exFrame\<lparr>vw_Members := [exRookSeen], vw_Neighbours := [exPlayerSeen]\<rparr>), exLater)"
  by code_simp

lemma exRun_actor:
  "pinActor refExt (exFrame\<lparr>vw_Members := [exRookSeen], vw_Neighbours := [exPlayerSeen]\<rparr>) = Inr exView"
  by code_simp

lemma exTurn_ok: "RequireTurnEntityID refExt ''turn-a'' exTurn = None"
  by code_simp

lemma exRun_assemble: "Assemble refExt refAssembler ''turn-a'' exTurn (exMystery []) = (Inr exView, exLater)"
proof -
  have now: "assembler_now refAssembler (exMystery []) = (Inr 7, exLater)" by code_simp
  have loc: "vw_LocationID exFrame = exDesk" by (simp add: exFrame_def frameView_def)
  show ?thesis
    using exRun_frame exRun_members exRun_addMembers exRun_addNeighbours exRun_actor
    by (simp add: Assemble_def checkM_eq exTurn_ok bindM_def now liftR_def Let_def loc exFrame_def [symmetric])
qed

section \<open>A projection for the player\<close>

definition exPublic :: Projection where
  "exPublic = publicProjection (pr_marshal refProjector) exView PurposePlayer"

lemma exRun_view: "assembledView refProjector exPlayerAudience (exMystery []) = (Inr exView, exLater)"
proof -
  have pr: "pr_Assemble refProjector = exAssemble" by (simp add: refProjector_def)
  have au: "au_turnID exPlayerAudience = ''turn-a''" "au_turnEntityID exPlayerAudience = exTurn" by code_simp+
  have v: "vw_TurnID exView = ''turn-a''" "vw_TurnEntityID exView = exTurn" "Verified (vw_Actor exView)" by code_simp+
  show ?thesis
    by (simp add: assembledView_def pr au exAssemble_def exRun_assemble bindM_def mapErr_def ret_def v)
qed

definition exKnowState :: EntityState where
  "exKnowState = snd (exEntity exKnow [(WorldEntityKind, AString EntityKindKnowledge),
     (KnowledgeActorHolder, AString exRook), (KnowledgeEvidenceRef, AString exClue)])"

definition exClueState :: EntityState where
  "exClueState = snd (exEntity exClue [(WorldEntityKind, AString EntityKindEvidence),
     (EvidenceTruthStatusCurrent, AString EvidenceTruthClue)])"

lemma exRun_query: "queryIDs refProjector KnowledgeActorHolder exRook exLater = (Inr [exKnow], exLater)"
  by code_simp

lemma exRun_hydrate_known: "hydrate refProjector [exKnow] exLater = (Inr [exKnowState], exLater)"
  by code_simp

lemma exRun_knowledge: "knowledgeLoop exRook [exKnowState] = Inr [exClue]"
  by code_simp

lemma exRun_hydrate_clue: "hydrate refProjector [exClue] exLater = (Inr [exClueState], exLater)"
  by code_simp

definition exKnowing :: Projection where
  "exKnowing = addNeighbour (projectState (pr_marshal refProjector) exClueState evidencePredicates) exPublic"

lemma exRun_addKnowledge: "addKnowledge refProjector exPublic exRook exLater = (Inr exKnowing, exLater)"
proof -
  have kind: "requireEntityKind exClueState EntityKindEvidence = None" by code_simp
  have "remdups_adj (sort [exClue]) = [exClue]" by simp
  then show ?thesis
    by (simp add: addKnowledge_def addEvidence_def bindM_def mapErr_def liftR_def exRun_query exRun_hydrate_known
        exRun_knowledge exRun_hydrate_clue kind exKnowing_def del: knowledgeLoop.simps)
qed

lemma exRun_revelations: "queryIDs refProjector RevelationTurnID ''turn-a'' exLater = (Inr [], exLater)"
  by code_simp

lemma exRun_addRevelations: "addRevelations refProjector q exRook ''turn-a'' exLater = (Inr q, exLater)"
  by (simp add: addRevelations_def addEvidence_def hydrate_def bindM_def mapErr_def liftR_def ret_def exRun_revelations)

definition exProjection :: Projection where "exProjection = finalize_projection exKnowing"

lemma exRun_bounds:
  "enforceProjectionBounds refProjector exProjection (map pe_ID (Projection_Entities exPublic)) = None"
  by code_simp

lemma exProjection_clue: "exClue \<in> set (map pe_ID (pj_Neighbours exProjection))"
  by code_simp

lemma exRun_project: "Project refProjector exPlayerAudience (exMystery []) = (Inr exProjection, exLater)"
proof -
  have au: "au_purpose exPlayerAudience = PurposePlayer" "au_turnID exPlayerAudience = ''turn-a''"
    "authorizedActor exPlayerAudience exView = exRook"
    by (simp_all add: exPlayerAudience_def PlayerAudience_def noAudience_def authorizedActor_def exView_def purpose_strings)
  have ok: "validateAudience refProjector exPlayerAudience = None" by code_simp
  have "purposeState refProjector exPlayerAudience exView exRook exPublic exLater = (Inr exKnowing, exLater)"
    by (simp add: purposeState_def au purpose_strings bindM_def exRun_addKnowledge exRun_addRevelations)
  then show ?thesis
    using exRun_bounds
    by (simp add: Project_def au ok purposes_def purpose_strings checkM_eq bindM_def exRun_view Let_def ret_def
        exPublic_def [symmetric, unfolded purpose_strings] exProjection_def)
qed

end
