(* ===== verification/Epistemic_Graph.thy ===== *)
theory Epistemic_Graph
  imports Epistemic_Sealed
begin

text \<open>
  A projection of one state of the graph. Where the collaborators of a projector only read, and its
  batch read answers what the graph holds, every entity that \<open>Epistemic_Sealed\<close> calls answered is the
  entity the graph holds when the projection starts. The proof runs the projector with its reads
  guarded by that state: the two runs agree.
\<close>

section \<open>Runs that agree while a property of the world holds\<close>

definition agree :: "('w \<Rightarrow> bool) \<Rightarrow> ('w, 'e, 'a) ME \<Rightarrow> ('w, 'e, 'a) ME \<Rightarrow> bool" where
  "agree I m m' = (\<forall>w. I w \<longrightarrow> m' w = m w \<and> I (snd (m w)))"

lemma agree_pure [intro!]: "agree I (ret x) (ret x)" "agree I (throw e) (throw e)" "agree I (liftR r) (liftR r)"
  by (simp_all add: agree_def ret_def throw_def liftR_def)

lemma agree_bindM [intro]:
  assumes "agree I m m'" and "\<And>x. agree I (f x) (f' x)"
  shows "agree I (bindM m f) (bindM m' f')"
  using assms unfolding agree_def bindM_def by (fastforce split: prod.splits sum.splits)

lemma agree_mapErr [intro]: "agree I m m' \<Longrightarrow> agree I (mapErr f m) (mapErr f m')"
  unfolding agree_def mapErr_def by (fastforce split: prod.splits sum.splits)

lemma agree_checkM [intro]: "agree I m m' \<Longrightarrow> agree I (checkM c m) (checkM c m')"
  unfolding agree_def by (auto simp: checkM_def throw_def split: option.split)

lemma agree_if [intro]: "agree I m m' \<Longrightarrow> agree I n n' \<Longrightarrow> agree I (if b then m else n) (if b then m' else n')"
  by simp

definition guard :: "('w \<Rightarrow> bool) \<Rightarrow> ('w, 'a) M \<Rightarrow> ('w, 'a) M" where
  "guard I m = (\<lambda>w. if I w then m w else (Inl (Errorf []), w))"

lemma agree_guard: "(\<And>w r w'. I w \<Longrightarrow> m w = (r, w') \<Longrightarrow> I w') \<Longrightarrow> agree I m (guard I m)"
  unfolding agree_def guard_def by (metis prod.collapse)

lemma agree_same: "(\<And>w r w'. I w \<Longrightarrow> m w = (r, w') \<Longrightarrow> I w') \<Longrightarrow> agree I m m"
  unfolding agree_def by (metis prod.collapse)

section \<open>The guarded projector\<close>

definition guarded :: "('w \<Rightarrow> bool) \<Rightarrow> 'w Projector \<Rightarrow> 'w Projector" where
  "guarded I p = p
     \<lparr>pr_GetEntities := (\<lambda>ids. guard I (pr_GetEntities p ids)),
      pr_denouement := map_option (\<lambda>f t c r. guard I (f t c r)) (pr_denouement p)\<rparr>"

lemma guarded_simps [simp]:
  "pr_Assemble (guarded I p) = pr_Assemble p" "pr_ByValue (guarded I p) = pr_ByValue p"
  "pr_scope (guarded I p) = pr_scope p" "pr_maxSupplemental (guarded I p) = pr_maxSupplemental p"
  "pr_maxEntities (guarded I p) = pr_maxEntities p" "pr_maxTriples (guarded I p) = pr_maxTriples p"
  "pr_maxBytes (guarded I p) = pr_maxBytes p" "pr_bonds (guarded I p) = pr_bonds p"
  "pr_evidence (guarded I p) = pr_evidence p" "pr_marshal (guarded I p) = pr_marshal p" "pr_Bytes (guarded I p) = pr_Bytes p"
  "pr_GetEntities (guarded I p) ids = guard I (pr_GetEntities p ids)"
  "pr_denouement (guarded I p) = map_option (\<lambda>f t c r. guard I (f t c r)) (pr_denouement p)"
  by (simp_all add: guarded_def)

lemma evidenceLoop_guarded: "evidenceLoop (guarded I p) what A sts q = evidenceLoop p what A sts q"
  by (induction sts arbitrary: q) (auto split: option.splits)

lemma addStates_guarded: "addStates (guarded I p) A sts q = addStates p A sts q"
  by (induction sts arbitrary: q) auto

lemma beliefsLoop_guarded: "beliefsLoop (guarded I p) owners A sts q = beliefsLoop p owners A sts q"
  by (induction sts arbitrary: q) (auto split: option.splits)

locale projector_graph =
  fixes p :: "'w Projector" and ents :: "'w \<Rightarrow> string \<Rightarrow> EntityState option"
  assumes batch_ok: "pr_GetEntities p ids w = (Inr r, w') \<Longrightarrow> st \<in> set (br_Entities r) \<Longrightarrow> ents w (esID st) = Some st"
    and batch_frame: "pr_GetEntities p ids w = (x, w') \<Longrightarrow> ents w' = ents w"
    and assemble_frame: "pr_Assemble p t i w = (y, w') \<Longrightarrow> ents w' = ents w"
    and query_frame: "pr_ByValue p f v n w = (z, w') \<Longrightarrow> ents w' = ents w"
    and denouement_frame: "pr_denouement p = Some d \<Longrightarrow> d t i u w = (b, w') \<Longrightarrow> ents w' = ents w"
    and bonds_frame: "pr_bonds p = Some cb \<Longrightarrow> cb t i u w = (e, w') \<Longrightarrow> ents w' = ents w"
    and evidence_frame: "pr_evidence p = Some er \<Longrightarrow> er req w = (g, w') \<Longrightarrow> ents w' = ents w"
begin

abbreviation at :: "(string \<Rightarrow> EntityState option) \<Rightarrow> 'w \<Rightarrow> bool" where "at E \<equiv> \<lambda>w. ents w = E"

lemma agree_assemble: "agree (at E) (pr_Assemble p t i) (pr_Assemble p t i)"
  by (rule agree_same) (auto dest: assemble_frame)

lemma agree_byValue: "agree (at E) (pr_ByValue p f v n) (pr_ByValue p f v n)"
  by (rule agree_same) (auto dest: query_frame)

lemma agree_bonds: "pr_bonds p = Some cb \<Longrightarrow> agree (at E) (cb t i u) (cb t i u)"
  by (rule agree_same) (auto dest: bonds_frame)

lemma agree_evidence: "pr_evidence p = Some er \<Longrightarrow> agree (at E) (er req) (er req)"
  by (rule agree_same) (auto dest: evidence_frame)

lemma agree_hydrate: "agree (at E) (hydrate p ids) (hydrate (guarded (at E) p) ids)"
  unfolding hydrate_def by (auto intro!: agree_guard dest: batch_frame)

lemma agree_query: "agree (at E) (queryIDs p f v) (queryIDs (guarded (at E) p) f v)"
  unfolding queryIDs_def by (auto intro!: agree_bindM agree_mapErr agree_byValue)

lemma agree_addEvidence: "agree (at E) (addEvidence p q ids A) (addEvidence (guarded (at E) p) q ids A)"
  unfolding addEvidence_def evidenceLoop_guarded by (auto intro: agree_hydrate)

lemma agree_addKnowledge: "agree (at E) (addKnowledge p q i) (addKnowledge (guarded (at E) p) q i)"
  unfolding addKnowledge_def by (intro agree_bindM agree_mapErr agree_pure agree_query agree_hydrate agree_addEvidence)

lemma agree_addRevelations: "agree (at E) (addRevelations p q i t) (addRevelations (guarded (at E) p) q i t)"
  unfolding addRevelations_def by (intro agree_bindM agree_mapErr agree_pure agree_query agree_hydrate agree_addEvidence)

lemma agree_addCompanionBond: "agree (at E) (addCompanionBond p q i) (addCompanionBond (guarded (at E) p) q i)"
  unfolding addCompanionBond_def by (auto intro!: agree_bindM agree_mapErr agree_hydrate split: list.split)

lemma agree_case: "agree (at E) (case_state p) (case_state (guarded (at E) p))"
  unfolding case_state_def by (auto intro!: agree_bindM agree_hydrate split: list.split)

lemma agree_solutionOnly: "agree (at E) (solutionOnly p u) (solutionOnly (guarded (at E) p) u)"
  unfolding solutionOnly_def by (intro agree_bindM agree_pure agree_case)

lemma agree_denouement: "agree (at E) (authorizeDenouement p q u) (authorizeDenouement (guarded (at E) p) q u)"
  unfolding authorizeDenouement_def
  by (auto intro!: agree_bindM agree_if agree_mapErr agree_case agree_guard dest: denouement_frame split: option.split)

lemma agree_casekeeper: "agree (at E) (addCasekeeperState p q ids) (addCasekeeperState (guarded (at E) p) q ids)"
  unfolding addCasekeeperState_def addStates_guarded beliefsLoop_guarded Let_def guarded_simps
  by (intro agree_bindM agree_checkM agree_pure agree_case agree_hydrate)

lemma agree_checkLocked: "agree (at E) (checkLocked p u ids) (checkLocked (guarded (at E) p) u ids)"
  unfolding checkLocked_def guarded_simps by (intro agree_if agree_bindM agree_checkM agree_pure agree_case)

lemma agree_narrationEvidence: "agree (at E) (addNarrationEvidence p q a) (addNarrationEvidence (guarded (at E) p) q a)"
proof (cases "pr_evidence p")
  case None
  then show ?thesis unfolding addNarrationEvidence_def guarded_simps by simp blast
next
  case (Some er)
  note ask = agree_evidence [OF Some]
  show ?thesis
    unfolding addNarrationEvidence_def evidenceLoop_guarded guarded_simps Some option.case
    by (auto intro!: agree_bindM agree_if agree_mapErr agree_hydrate agree_checkLocked ask)
qed

lemma agree_purpose: "agree (at E) (purposeState p a v i q) (purposeState (guarded (at E) p) a v i q)"
proof -
  have comp: "agree (at E) (companionState p a v i q) (companionState (guarded (at E) p) a v i q)"
    unfolding companionState_def Let_def guarded_simps
    by (auto intro!: agree_bindM agree_addCompanionBond agree_addKnowledge agree_bonds split: option.split)
  have narr: "agree (at E) (narrationState p a i q) (narrationState (guarded (at E) p) a i q)"
    unfolding narrationState_def
    by (intro agree_bindM agree_if agree_pure agree_addKnowledge agree_addRevelations agree_denouement agree_narrationEvidence)
  show ?thesis
    unfolding purposeState_def
    by (intro agree_if agree_bindM agree_pure agree_addKnowledge agree_addRevelations agree_casekeeper comp narr)
qed

lemma agree_Project: "agree (at E) (Project p a) (Project (guarded (at E) p) a)"
proof -
  have v: "validateAudience (guarded (at E) p) a = validateAudience p a"
    by (simp add: validateAudience_def)
  have b: "enforceProjectionBounds (guarded (at E) p) q base = enforceProjectionBounds p q base" for q base
    by (simp add: enforceProjectionBounds_def Let_def split: sum.split)
  have view: "agree (at E) (assembledView p a) (assembledView (guarded (at E) p) a)"
    unfolding assembledView_def guarded_simps
    by (auto intro!: agree_bindM agree_mapErr agree_assemble split: option.split)
  show ?thesis
    unfolding Project_def v b Let_def guarded_simps
    by (intro agree_if agree_bindM agree_checkM agree_pure agree_solutionOnly agree_purpose view)
qed

text \<open>The projector run at a graph is the guarded projector run at it.\<close>

lemma guarded_run:
  assumes "Project p a w = (Inr q, w')"
  shows "Project (guarded (at (ents w)) p) a w = (Inr q, w')" and "ents w' = ents w"
  using agree_Project [of "ents w" a] assms unfolding agree_def by (metis, metis snd_conv)

lemma guarded_answered:
  assumes "answered (guarded (at E) p) st"
  shows "E (esID st) = Some st"
  using assms batch_ok unfolding answered_def guarded_simps guard_def by (fastforce split: if_splits)

text \<open>What opened and accounted for the guarded projection, said of the graph it started from.\<close>

lemma opened_at:
  assumes "opened (guarded (at E) p) turn ref"
  shows "\<exists>st authorizer u u'. E (sc_caseID (pr_scope p)) = Some st
    \<and> pEntity_Objects (projectState (pr_marshal p) st casekeeperPredicates) CaseLifecyclePhase = [AString CasePhaseDenouement]
    \<and> pr_denouement p = Some authorizer \<and> ents u = E
    \<and> authorizer turn (sc_caseID (pr_scope p)) ref u = (Inr True, u')"
proof -
  from assms obtain st authorizer u u' where st: "answered (guarded (at E) p) st" "esID st = sc_caseID (pr_scope p)"
      and phase: "pEntity_Objects (projectState (pr_marshal p) st casekeeperPredicates) CaseLifecyclePhase = [AString CasePhaseDenouement]"
      and auth: "pr_denouement (guarded (at E) p) = Some authorizer"
        "authorizer turn (sc_caseID (pr_scope p)) ref u = (Inr True, u')"
    unfolding opened_def by auto
  from auth(1) obtain f where f: "pr_denouement p = Some f" "authorizer = (\<lambda>t c r. guard (at E) (f t c r))" by auto
  with auth(2) have "ents u = E" "f turn (sc_caseID (pr_scope p)) ref u = (Inr True, u')"
    by (auto simp: guard_def split: if_splits)
  with guarded_answered [OF st(1)] st(2) phase f(1) show ?thesis by auto
qed

lemma accounted_at:
  assumes "accounted (guarded (at E) p) a actor base n"
  shows "pe_ID n \<in> pe_ID ` set base \<or> au_purpose a = PurposeCompanion \<and> pe_ID n = au_bondID a
    \<or> (\<exists>st rec. E (pe_ID n) = Some st \<and> exactString st WorldEntityKind = Inr EntityKindEvidence
         \<and> E (esID rec) = Some rec
         \<and> (knownBy actor rec (pe_ID n) \<or> revealedTo actor (au_turnID a) rec (pe_ID n)))"
proof (cases "\<exists>st. pe_ID n = esID st \<and> answered (guarded (at E) p) st
    \<and> traced (guarded (at E) p) (granted actor (au_turnID a)) st")
  case True
  then obtain st rec where "pe_ID n = esID st" "E (esID st) = Some st"
      "exactString st WorldEntityKind = Inr EntityKindEvidence" "E (esID rec) = Some rec"
      "granted actor (au_turnID a) rec (esID st)"
    using guarded_answered unfolding traced_def by blast
  then show ?thesis unfolding granted_def by auto
next
  case False
  with assms show ?thesis unfolding accounted_def by blast
qed

end

end
