(* ===== verification/Rule_Subjects.thy ===== *)
theory Rule_Subjects
  imports Vocab_Resolution
begin

text \<open>
  \<^verbatim>\<open>internal/rulepack/subjects.go\<close>: the subjects on which the rule engine triggers a stage, and the
  durable consumers that read them.
\<close>

definition StageStream :: string where "StageStream = ''TURN_STAGES''"
definition StageSubjectPrefix :: string where "StageSubjectPrefix = ''semmachina.turn.''"
definition StageSubjectFilter :: string where "StageSubjectFilter = StageSubjectPrefix @ ''>''"
definition SubjectResolved :: string where "SubjectResolved = StageSubjectPrefix @ ''resolved''"
definition SubjectKnowledge :: string where "SubjectKnowledge = StageSubjectPrefix @ ''knowledge''"
definition SubjectAccusation :: string where "SubjectAccusation = StageSubjectPrefix @ ''accusation''"
definition SubjectCaseProgress :: string where "SubjectCaseProgress = StageSubjectPrefix @ ''case-progress''"

definition KnowledgeConsumerName :: string where "KnowledgeConsumerName = ''semmachina-knowledge-granter''"
definition AccusationConsumerName :: string where "AccusationConsumerName = ''semmachina-accusation-verifier''"
definition CaseProgressConsumerName :: string where "CaseProgressConsumerName = ''semmachina-case-progress''"

definition stagePhases :: "TurnPhase list" where
  "stagePhases = [PhaseInterpreting, PhaseAdjudicating, PhaseResolving, PhaseApplying, PhaseCompanion,
     PhaseNarrating, PhaseComplete]"

definition StagePhases :: "TurnPhase list" where "StagePhases = stagePhases"

definition StageConsumerName :: "TurnPhase \<Rightarrow> string" where
  "StageConsumerName phase = ''semmachina-stage-'' @ phase"

definition SubjectForPhase :: "TurnPhase \<Rightarrow> gerror + string" where
  "SubjectForPhase phase =
     (if List.member stagePhases phase then Inr (StageSubjectPrefix @ phase)
      else Inl (Errorf ''turn phase has no stage trigger subject''))"

definition PhaseForSubject :: "string \<Rightarrow> TurnPhase option" where
  "PhaseForSubject subject = List.find (\<lambda>phase. SubjectForPhase phase = Inr subject) stagePhases"

text \<open>\<open>PhaseForSubject\<close> is the exact inverse of \<open>SubjectForPhase\<close>.\<close>

lemma PhaseForSubject_iff: "PhaseForSubject subject = Some phase \<longleftrightarrow> SubjectForPhase phase = Inr subject"
proof
  assume "PhaseForSubject subject = Some phase"
  then show "SubjectForPhase phase = Inr subject" by (auto simp: PhaseForSubject_def find_Some_iff)
next
  assume s: "SubjectForPhase phase = Inr subject"
  then have phase: "phase \<in> set stagePhases" "subject = StageSubjectPrefix @ phase"
    by (auto simp: SubjectForPhase_def split: if_splits)
  then obtain p where p: "PhaseForSubject subject = Some p"
    using s by (cases "PhaseForSubject subject") (auto simp: PhaseForSubject_def find_None_iff)
  then have "SubjectForPhase p = Inr subject" by (auto simp: PhaseForSubject_def find_Some_iff)
  with phase(2) p show "PhaseForSubject subject = Some phase"
    by (auto simp: SubjectForPhase_def split: if_splits)
qed

text \<open>The side channels are not stage subjects.\<close>

lemma side_subjects:
  "PhaseForSubject SubjectResolved = None" "PhaseForSubject SubjectKnowledge = None"
  "PhaseForSubject SubjectAccusation = None" "PhaseForSubject SubjectCaseProgress = None"
  by code_simp+

end
