(* ===== verification/Rule_Pack.thy ===== *)
theory Rule_Pack
  imports Rule_Subjects "HOL-Library.List_Lexorder" "HOL-Library.Char_ord"
begin

text \<open>
  \<^verbatim>\<open>internal/rulepack/pack.go\<close>: the load-time gate over the turn-sequencing rules. The rules
  themselves are values of the SemStreams rule package, of which these records have the fields the
  gate reads; its own validator and its action type names are the fields of \<open>rule_ext\<close>.
\<close>

section \<open>Rules\<close>

text \<open>The dynamic types a condition's value can have.\<close>

datatype rule_value = VNil | VString string | VStrings "string list" | VList "any list" | VOther any

record rule_Condition =
  rc_Field :: string
  rc_Operator :: string
  rc_Value :: rule_value
  rc_From :: rule_value
  rc_Required :: bool

record rule_Action =
  ra_Type :: string
  ra_Subject :: string
  ra_Properties :: "(string \<times> any) list"
  ra_MaxIterations :: "int option"
  ra_Workflow :: string
  ra_Phase :: string

record rule_Definition =
  rd_ID :: string
  rd_Type :: string
  rd_Name :: string
  rd_Enabled :: bool
  rd_Logic :: string
  rd_Pattern :: string
  rd_Cooldown :: string
  rd_Conditions :: "rule_Condition list"
  rd_OnEnter :: "rule_Action list"
  rd_OnRecovery :: "rule_Action list"
  rd_OnExit :: "rule_Action list"
  rd_WhileTrue :: "rule_Action list"
  rd_Actions :: "rule_Action list"

record rule_ext =
  re_ValidateDefinition :: "rule_Definition \<Rightarrow> gerror option"
  re_ActionTypePublish :: string
  re_ActionTypeLifecycleTransition :: string

definition PackID :: string where "PackID = ''semmachina-turn-sequencing''"
definition turnTypeSegment :: string where "turnTypeSegment = ''turn''"
definition EntityPattern :: string where "EntityPattern = ''*.semmachina.*.*.'' @ turnTypeSegment @ ''.*''"

section \<open>Helpers\<close>

fun stringItems :: "any list \<Rightarrow> gerror + string list" where
  "stringItems [] = Inr []"
| "stringItems (v # vs) =
     (case v of AString s \<Rightarrow> map_sum id ((#) s) (stringItems vs)
      | _ \<Rightarrow> Inl (Errorf ''holds a value of another type''))"

definition stringSlice :: "rule_value \<Rightarrow> gerror + string list" where
  "stringSlice v =
     (case v of
        VNil \<Rightarrow> Inl (Errorf ''is absent'')
      | VString s \<Rightarrow> Inr [s]
      | VStrings ss \<Rightarrow> Inr ss
      | VList vs \<Rightarrow> stringItems vs
      | VOther _ \<Rightarrow> Inl (Errorf ''is a value of another type''))"

definition sameSet :: "string list \<Rightarrow> string list \<Rightarrow> bool" where
  "sameSet a b = (remdups_adj (sort a) = remdups_adj (sort b))"

definition phaseNames :: "TurnPhase list \<Rightarrow> string list" where "phaseNames phases = phases"
definition bandNames :: "OutcomeBand list \<Rightarrow> string list" where "bandNames bands = bands"
definition predicateNames :: "Predicate list \<Rightarrow> string list" where "predicateNames predicates = predicates"

definition subjectsOf :: "rule_Action list \<Rightarrow> string list" where
  "subjectsOf actions = map ra_Subject actions"

definition knownSubject :: "string \<Rightarrow> bool" where
  "knownSubject subject =
     (subject = SubjectResolved \<or> subject = SubjectKnowledge \<or> subject = SubjectAccusation
      \<or> subject = SubjectCaseProgress \<or> PhaseForSubject subject \<noteq> None)"

section \<open>Conditions\<close>

definition checkTransition :: "rule_Condition \<Rightarrow> gerror option" where
  "checkTransition c =
     (case rc_Value c of
        VString phase \<Rightarrow>
          (case PhasePredecessors phase of
             None \<Rightarrow> Some (Errorf ''transitions to a value which is not a turn phase'')
           | Some want \<Rightarrow>
               (case stringSlice (rc_From c) of
                  Inl err \<Rightarrow> Some (Wrapf ''declares a from set that is not a list of phase names'' err)
                | Inr got \<Rightarrow> failIf (\<not> sameSet got (phaseNames want))
                    (Errorf ''declares another from set than the legal predecessors'')))
      | _ \<Rightarrow> Some (Errorf ''transitions to a value that is not a phase name''))"

definition checkIn :: "rule_Condition \<Rightarrow> gerror option" where
  "checkIn c =
     (case stringSlice (rc_Value c) of
        Inl err \<Rightarrow> Some (Wrapf ''matches against a value that is not a list of strings'' err)
      | Inr got \<Rightarrow> firstErr [
          failIf (rc_Field c \<noteq> TurnRollBand) (Errorf ''uses in on a predicate this pack has no closed set for''),
          failIf (\<not> sameSet got (bandNames RollBands)) (Errorf ''matches other bands than the dice can select'')])"

definition checkEq :: "rule_Condition \<Rightarrow> gerror option" where
  "checkEq c =
     (if rc_Field c \<noteq> TurnPhaseCurrent then None
      else if rc_Operator c = ''ne'' then Some (Errorf ''excludes a phase rather than naming one'')
      else (case rc_Value c of
          VString phase \<Rightarrow> (case ParseTurnPhase phase of Inl err \<Rightarrow> Some err | Inr _ \<Rightarrow> None)
        | _ \<Rightarrow> Some (Errorf ''compares the phase against a value of another type'')))"

definition checkCondition :: "rule_Condition \<Rightarrow> gerror option" where
  "checkCondition c =
     (if rc_Required c then Some (Errorf ''is marked required'')
      else if (case rc_Value c of VString text \<Rightarrow> List.member text (CHR ''$'') | _ \<Rightarrow> False)
      then Some (Errorf ''compares against a value which carries a substitution token'')
      else if rc_Operator c = ''transition'' then checkTransition c
      else if rc_Operator c = ''in'' then checkIn c
      else if rc_Operator c = ''eq'' \<or> rc_Operator c = ''ne'' then checkEq c
      else Some (Errorf ''uses an operator outside eq/ne/in/transition''))"

fun checkConditions :: "rule_Condition list \<Rightarrow> gerror option" where
  "checkConditions [] = None"
| "checkConditions (c # cs) =
     (case checkCondition c of Some err \<Rightarrow> Some (Wrapf ''condition'' err) | None \<Rightarrow> checkConditions cs)"

section \<open>Gates\<close>

record phaseGate =
  pg_phase :: TurnPhase
  pg_operator :: string

definition gateOf :: "rule_Condition \<Rightarrow> phaseGate option" where
  "gateOf c =
     (if rc_Field c \<noteq> TurnPhaseCurrent then None
      else if rc_Operator c \<noteq> ''eq'' \<and> rc_Operator c \<noteq> ''transition'' then None
      else (case rc_Value c of
          VString phase \<Rightarrow> Some \<lparr>pg_phase = phase, pg_operator = rc_Operator c\<rparr>
        | _ \<Rightarrow> None))"

definition phaseGates :: "rule_Definition \<Rightarrow> phaseGate list" where
  "phaseGates d = List.map_filter gateOf (rd_Conditions d)"

definition gatedOnArtifact :: "rule_Definition \<Rightarrow> Predicate list \<Rightarrow> bool" where
  "gatedOnArtifact d artifacts = list_ex (\<lambda>c. List.member artifacts (rc_Field c)) (rd_Conditions d)"

fun artifactGates :: "rule_Definition \<Rightarrow> phaseGate list \<Rightarrow> gerror option" where
  "artifactGates d [] = None"
| "artifactGates d (g # gs) =
     (if pg_operator g = ''transition'' \<or> pg_phase g = PhaseAccepted then artifactGates d gs
      else (case StageArtifacts (pg_phase g) of
          None \<Rightarrow> artifactGates d gs
        | Some artifacts \<Rightarrow>
            if artifacts = [] then Some (Errorf ''matches a phase with eq, but no stage produces an artifact for it'')
            else if \<not> gatedOnArtifact d artifacts
            then Some (Errorf ''matches a phase, but nothing else it matches is an artifact of its stage'')
            else artifactGates d gs))"

definition checkArtifactGate :: "rule_Definition \<Rightarrow> gerror option" where
  "checkArtifactGate d = artifactGates d (phaseGates d)"

definition edgeDirection :: "TurnPhase \<Rightarrow> TurnPhase \<Rightarrow> string" where
  "edgeDirection from to =
     (case (PhaseRank from, PhaseRank to) of
        (Some fromRank, Some toRank) \<Rightarrow>
          if toRank \<le> fromRank then ''runs the turn backwards'' else ''skips a stage''
      | _ \<Rightarrow> ''skips a stage'')"

text \<open>One action of one edge list under one gate, and the three nested loops over them.\<close>

definition checkEdge :: "phaseGate \<Rightarrow> rule_Action \<Rightarrow> gerror option" where
  "checkEdge g a =
     (case PhaseForSubject (ra_Subject a) of
        None \<Rightarrow> None
      | Some stage \<Rightarrow>
          failIf (\<not> PhaseFollows (pg_phase g) stage)
            (Errorf (''drives a turn into a phase, which '' @ edgeDirection (pg_phase g) stage)))"

definition checkPhaseEdges :: "rule_Definition \<Rightarrow> gerror option" where
  "checkPhaseEdges d =
     firstErr (concat (map (\<lambda>g. map (checkEdge g) (rd_OnEnter d @ rd_OnRecovery d)) (phaseGates d)))"

section \<open>Actions\<close>

definition checkAction :: "rule_ext \<Rightarrow> rule_Action \<Rightarrow> gerror option" where
  "checkAction R a =
     (if ra_Type a \<noteq> re_ActionTypePublish R then Some (Errorf ''is another action than a publish'')
      else if \<not> knownSubject (ra_Subject a)
      then Some (Errorf ''publishes to a subject which no declared durable path consumes'')
      else if 0 < length (ra_Properties a) then Some (Errorf ''carries properties'')
      else (case ra_MaxIterations a of
          None \<Rightarrow> Some (Errorf ''declares no max_iterations'')
        | Some n \<Rightarrow>
            if n < 1 then Some (Errorf ''declares an unlimited max_iterations'')
            else failIf (PhaseForSubject (ra_Subject a) = Some PhaseCompanion \<and> n \<noteq> 1)
              (Errorf ''declares another max_iterations than 1 for the automatic companion path'')))"

fun checkActionList :: "rule_ext \<Rightarrow> rule_Action list \<Rightarrow> gerror option" where
  "checkActionList R [] = None"
| "checkActionList R (a # rest) =
     (case checkAction R a of Some err \<Rightarrow> Some (Wrapf ''action'' err) | None \<Rightarrow> checkActionList R rest)"

text \<open>
  The source ranges over a Go map of the five lists, in no fixed order: which of several errors is
  reported depends on it, whether there is one does not. The order here is the order of the source.
\<close>

definition firingList :: "rule_ext \<Rightarrow> rule_Action list \<Rightarrow> gerror option" where
  "firingList R actions =
     (if length actions = 0 then Some (Errorf ''declares no actions'') else checkActionList R actions)"

definition silentList :: "rule_ext \<Rightarrow> rule_Action list \<Rightarrow> gerror option" where
  "silentList R actions =
     (if 0 < length actions then Some (Errorf ''declares actions; this pack fires only on the entry edge'')
      else checkActionList R actions)"

definition checkActions :: "rule_ext \<Rightarrow> rule_Definition \<Rightarrow> gerror option" where
  "checkActions R d = firstErr [
     firingList R (rd_OnEnter d), firingList R (rd_OnRecovery d),
     silentList R (rd_OnExit d), silentList R (rd_WhileTrue d), silentList R (rd_Actions d),
     failIf (\<not> sameSet (subjectsOf (rd_OnEnter d)) (subjectsOf (rd_OnRecovery d)))
       (Errorf ''publishes other subjects on entry than on recovery'')]"

section \<open>The gate\<close>

definition checkDefinition :: "rule_ext \<Rightarrow> rule_Definition \<Rightarrow> gerror option" where
  "checkDefinition R d = firstErr [
     re_ValidateDefinition R d,
     failIf (\<not> rd_Enabled d) (Errorf ''is disabled''),
     failIf (rd_Pattern d \<noteq> EntityPattern) (Errorf ''watches another pattern than the turn pattern''),
     failIf (rd_Logic d \<noteq> ''and'') (Errorf ''combines its conditions with something else than and''),
     failIf (length (rd_Conditions d) = 0) (Errorf ''declares no conditions''),
     failIf (rd_Cooldown d \<noteq> []) (Errorf ''declares cooldown''),
     checkConditions (rd_Conditions d),
     failIf (length (phaseGates d) = 0) (Errorf ''names no phase''),
     checkArtifactGate d, checkActions R d, checkPhaseEdges d]"

fun checkAll :: "rule_ext \<Rightarrow> string list \<Rightarrow> rule_Definition list \<Rightarrow> gerror option" where
  "checkAll R seen [] = None"
| "checkAll R seen (d # ds) =
     (if rd_ID d = [] then Some (Errorf ''the turn-sequencing rule pack declares a rule with no id'')
      else if List.member seen (rd_ID d) then Some (Errorf ''the turn-sequencing rule pack declares rule twice'')
      else (case checkDefinition R d of
          Some err \<Rightarrow> Some (Wrapf ''rule'' err)
        | None \<Rightarrow> checkAll R (rd_ID d # seen) ds))"

definition Check :: "rule_ext \<Rightarrow> rule_Definition list \<Rightarrow> gerror option" where
  "Check R definitions =
     (if length definitions = 0 then Some (Errorf ''the turn-sequencing rule pack declares no rules'')
      else checkAll R [] definitions)"

definition Definitions :: "rule_ext \<Rightarrow> gerror + rule_Definition list \<Rightarrow> gerror + rule_Definition list" where
  "Definitions R decoded =
     (case decoded of
        Inl err \<Rightarrow> Inl (Wrapf ''decode the turn-sequencing rule pack'' err)
      | Inr definitions \<Rightarrow> (case Check R definitions of Some err \<Rightarrow> Inl err | None \<Rightarrow> Inr definitions))"

end
