(* ===== verification/Rule_Turns.thy ===== *)
theory Rule_Turns
  imports Rule_Pack Turn
begin

text \<open>
  The shipped rules, \<^verbatim>\<open>internal/rulepack/turn-sequencing.json\<close>, as the values they decode to, and
  what an accepted pack can do to a turn. How the rule engine evaluates a condition is SemStreams';
  the locale \<open>rule_engine\<close> states what the pack relies on.
\<close>

section \<open>The shipped pack\<close>

definition ifField :: "string \<Rightarrow> string \<Rightarrow> rule_value \<Rightarrow> rule_Condition" where
  "ifField field operator v =
     \<lparr>rc_Field = field, rc_Operator = operator, rc_Value = v, rc_From = VNil, rc_Required = False\<rparr>"

definition publishes :: "string \<Rightarrow> int \<Rightarrow> rule_Action" where
  "publishes subject n =
     \<lparr>ra_Type = ''publish'', ra_Subject = subject, ra_Properties = [], ra_MaxIterations = Some n,
      ra_Workflow = [], ra_Phase = []\<rparr>"

definition turnRule :: "string \<Rightarrow> string \<Rightarrow> rule_Condition list \<Rightarrow> rule_Action list \<Rightarrow> rule_Definition" where
  "turnRule i name conditions actions =
     \<lparr>rd_ID = i, rd_Type = ''expression'', rd_Name = name, rd_Enabled = True, rd_Logic = ''and'',
      rd_Pattern = ''*.semmachina.*.*.turn.*'', rd_Cooldown = [], rd_Conditions = conditions,
      rd_OnEnter = actions, rd_OnRecovery = actions, rd_OnExit = [], rd_WhileTrue = [], rd_Actions = []\<rparr>"

definition rule_accepted_enters_interpretation :: rule_Definition where
  "rule_accepted_enters_interpretation = turnRule ''turn-accepted-enters-interpretation'' ''An accepted turn enters interpretation''
     [ifField ''turn.phase.current'' ''eq'' (VString ''accepted'')]
     [publishes ''semmachina.turn.interpreting'' 3]"

definition rule_interpretation_enters_adjudication :: rule_Definition where
  "rule_interpretation_enters_adjudication = turnRule ''turn-interpretation-enters-adjudication'' ''A committed interpretation enters adjudication''
     [ifField ''turn.phase.current'' ''eq'' (VString ''interpreting''),
      ifField ''turn.case-decision.ref'' ''ne'' (VString '''')]
     [publishes ''semmachina.turn.adjudicating'' 3, publishes ''semmachina.turn.knowledge'' 3, publishes ''semmachina.turn.accusation'' 3]"

definition rule_verdict_requiring_a_roll_enters_resolution :: rule_Definition where
  "rule_verdict_requiring_a_roll_enters_resolution = turnRule ''turn-verdict-requiring-a-roll-enters-resolution'' ''A verdict that calls for the dice enters resolution''
     [ifField ''turn.phase.current'' ''eq'' (VString ''adjudicating''),
      ifField ''turn.verdict.requires-roll'' ''eq'' (VOther (ABool True))]
     [publishes ''semmachina.turn.resolving'' 3]"

definition rule_verdict_declining_the_roll_enters_application :: rule_Definition where
  "rule_verdict_declining_the_roll_enters_application = turnRule ''turn-verdict-declining-the-roll-enters-application'' ''A verdict that declines the dice goes straight to application''
     [ifField ''turn.phase.current'' ''eq'' (VString ''adjudicating''),
      ifField ''turn.verdict.requires-roll'' ''eq'' (VOther (ABool False))]
     [publishes ''semmachina.turn.applying'' 3]"

definition rule_roll_enters_application :: rule_Definition where
  "rule_roll_enters_application = turnRule ''turn-roll-enters-application'' ''A resolved roll enters application''
     [ifField ''turn.phase.current'' ''eq'' (VString ''resolving''),
      ifField ''turn.roll.band'' ''in'' (VList [AString ''miss'', AString ''partial'', AString ''full''])]
     [publishes ''semmachina.turn.applying'' 3]"

definition rule_knowledge_committed_records_case_progress :: rule_Definition where
  "rule_knowledge_committed_records_case_progress = turnRule ''turn-knowledge-committed-records-case-progress'' ''Committed decision and knowledge record deterministic case progress''
     [ifField ''turn.phase.current'' ''eq'' (VString ''applying''),
      ifField ''turn.effects.batch'' ''ne'' (VString ''''),
      ifField ''turn.case-decision.ref'' ''ne'' (VString ''''),
      ifField ''turn.knowledge.ref'' ''ne'' (VString '''')]
     [publishes ''semmachina.turn.case-progress'' 3]"

definition rule_committed_effects_enter_companion :: rule_Definition where
  "rule_committed_effects_enter_companion = turnRule ''turn-committed-effects-enter-companion'' ''Committed effects enter the companion stage''
     [ifField ''turn.phase.current'' ''eq'' (VString ''applying''),
      ifField ''turn.effects.batch'' ''ne'' (VString ''''),
      ifField ''turn.knowledge.ref'' ''ne'' (VString ''''),
      ifField ''turn.accusation.ref'' ''ne'' (VString ''''),
      ifField ''turn.case-progress.ref'' ''ne'' (VString '''')]
     [publishes ''semmachina.turn.companion'' 1]"

definition rule_companion_stage_enters_narration :: rule_Definition where
  "rule_companion_stage_enters_narration = turnRule ''turn-companion-stage-enters-narration'' ''A companion stage result enters narration''
     [ifField ''turn.phase.current'' ''eq'' (VString ''companion''),
      ifField ''turn.companion-stage.ref'' ''ne'' (VString '''')]
     [publishes ''semmachina.turn.narrating'' 3]"

definition rule_narration_closes_the_turn :: rule_Definition where
  "rule_narration_closes_the_turn = turnRule ''turn-narration-closes-the-turn'' ''Landed narration closes the turn''
     [ifField ''turn.phase.current'' ''eq'' (VString ''narrating''),
      ifField ''turn.narration.ref'' ''ne'' (VString '''')]
     [publishes ''semmachina.turn.complete'' 3]"

definition rule_completed_is_resolved :: rule_Definition where
  "rule_completed_is_resolved = turnRule ''turn-completed-is-resolved'' ''A completed turn is resolved''
     [(ifField ''turn.phase.current'' ''transition'' (VString ''complete''))\<lparr>rc_From := VList [AString ''narrating'']\<rparr>]
     [publishes ''semmachina.turn.resolved'' 3]"

definition rule_failed_is_resolved :: rule_Definition where
  "rule_failed_is_resolved = turnRule ''turn-failed-is-resolved'' ''A failed turn is resolved''
     [(ifField ''turn.phase.current'' ''transition'' (VString ''failed''))\<lparr>rc_From := VList [AString ''accepted'', AString ''interpreting'', AString ''adjudicating'', AString ''resolving'', AString ''applying'', AString ''companion'', AString ''narrating'']\<rparr>]
     [publishes ''semmachina.turn.resolved'' 3]"

definition turnPack :: "rule_Definition list" where
  "turnPack = [rule_accepted_enters_interpretation,
     rule_interpretation_enters_adjudication,
     rule_verdict_requiring_a_roll_enters_resolution,
     rule_verdict_declining_the_roll_enters_application,
     rule_roll_enters_application,
     rule_knowledge_committed_records_case_progress,
     rule_committed_effects_enter_companion,
     rule_companion_stage_enters_narration,
     rule_narration_closes_the_turn,
     rule_completed_is_resolved,
     rule_failed_is_resolved]"

section \<open>The engine\<close>

text \<open>
  \<open>holds c previous st\<close>: the condition is true of the entity \<open>st\<close>, last evaluated as \<open>previous\<close>. A
  condition that is not required is false where its predicate is absent.
\<close>

locale rule_engine =
  fixes holds :: "rule_Condition \<Rightarrow> EntityState option \<Rightarrow> EntityState \<Rightarrow> bool"
  assumes phase_holds: "rc_Operator c = ''eq'' \<or> rc_Operator c = ''transition'' \<Longrightarrow> rc_Value c = VString v \<Longrightarrow>
      holds c previous st \<Longrightarrow> AString v \<in> set (objectsIn (esTriples st) (rc_Field c))"
    and present: "\<not> rc_Required c \<Longrightarrow> holds c previous st \<Longrightarrow> objectsIn (esTriples st) (rc_Field c) \<noteq> []"

definition fires ::
    "(rule_Condition \<Rightarrow> EntityState option \<Rightarrow> EntityState \<Rightarrow> bool) \<Rightarrow> rule_Definition
     \<Rightarrow> EntityState option \<Rightarrow> EntityState \<Rightarrow> bool" where
  "fires holds d previous st = (rd_Enabled d \<and> list_all (\<lambda>c. holds c previous st) (rd_Conditions d))"

text \<open>An engine that evaluates the four operators of the pack.\<close>

definition refValues :: "rule_value \<Rightarrow> any list" where
  "refValues v = (case v of VNil \<Rightarrow> [] | VString s \<Rightarrow> [AString s] | VStrings ss \<Rightarrow> map AString ss
     | VList vs \<Rightarrow> vs | VOther x \<Rightarrow> [x])"

definition refHolds :: "rule_Condition \<Rightarrow> EntityState option \<Rightarrow> EntityState \<Rightarrow> bool" where
  "refHolds c previous st =
     (let vs = objectsIn (esTriples st) (rc_Field c); want = refValues (rc_Value c) in
      vs \<noteq> [] \<and>
      (if rc_Operator c = ''ne'' then \<not> list_ex (List.member want) vs
       else list_ex (List.member want) vs \<and>
         (rc_Operator c = ''transition'' \<longrightarrow>
           (case previous of None \<Rightarrow> False
            | Some old \<Rightarrow> list_ex (List.member (refValues (rc_From c))) (objectsIn (esTriples old) (rc_Field c))))))"

interpretation refEngine: rule_engine refHolds
  by unfold_locales (auto simp: refHolds_def refValues_def Let_def list_ex_iff)

section \<open>What the gate guarantees\<close>

lemma checkAll_None: "checkAll R seen ds = None \<Longrightarrow> d \<in> set ds \<Longrightarrow> checkDefinition R d = None"
  by (induction ds arbitrary: seen) (auto split: if_splits option.splits)

lemma Check_None: "Check R ds = None \<Longrightarrow> d \<in> set ds \<Longrightarrow> checkDefinition R d = None"
  by (auto simp: Check_def dest: checkAll_None split: if_splits)

lemma checkDefinition_None:
  assumes "checkDefinition R d = None"
  shows "checkConditions (rd_Conditions d) = None" and "phaseGates d \<noteq> []" and "checkArtifactGate d = None"
    and "checkActions R d = None" and "checkPhaseEdges d = None" and "rd_Enabled d" and "rd_Pattern d = EntityPattern"
  using assms by (auto simp: checkDefinition_def failIf_def split: if_splits)

lemma checkPhaseEdges_None:
  assumes "checkPhaseEdges d = None" and "g \<in> set (phaseGates d)" and "a \<in> set (rd_OnEnter d @ rd_OnRecovery d)"
    and "PhaseForSubject (ra_Subject a) = Some q"
  shows "PhaseFollows (pg_phase g) q"
proof -
  have "checkEdge g a = None" using assms(1-3) by (auto simp: checkPhaseEdges_def)
  with assms(4) show ?thesis by (auto simp: checkEdge_def failIf_def split: if_splits)
qed

lemma artifactGates_None:
  assumes "artifactGates d gs = None" and "g \<in> set gs" and "pg_operator g = ''eq''" and "pg_phase g \<noteq> PhaseAccepted"
    and "StageArtifacts (pg_phase g) = Some artifacts"
  shows "gatedOnArtifact d artifacts"
  using assms by (induction gs) (auto split: if_splits option.splits)

lemma checkConditions_None: "checkConditions cs = None \<Longrightarrow> c \<in> set cs \<Longrightarrow> checkCondition c = None"
  by (induction cs) (auto split: option.splits)

lemma checkCondition_optional: "checkCondition c = None \<Longrightarrow> \<not> rc_Required c"
  by (auto simp: checkCondition_def split: if_splits)

lemma phaseGates_cond:
  assumes "g \<in> set (phaseGates d)"
  obtains c where "c \<in> set (rd_Conditions d)" "rc_Field c = TurnPhaseCurrent" "rc_Operator c = pg_operator g"
    "rc_Value c = VString (pg_phase g)" "pg_operator g = ''eq'' \<or> pg_operator g = ''transition''"
proof -
  from assms obtain c where c: "c \<in> set (rd_Conditions d)" "gateOf c = Some g"
    by (auto simp: phaseGates_def map_filter_def)
  from c(2) that [OF c(1)] show thesis
    by (auto simp: gateOf_def split: if_splits rule_value.splits)
qed

lemma PhaseOf_objects: "PhaseOf (Some st) i = Inr p \<Longrightarrow> objectsIn (esTriples st) TurnPhaseCurrent = [AString p] \<and> TurnPhase_Valid p"
  by (auto simp: PhaseOf_def ParseTurnPhase_Inr split: list.splits option.splits sum.splits)

lemma follows_advances: "PhaseFollows p q \<Longrightarrow> classify p q = (OutcomeAdvanced, [])"
  using turn_phases.follows_ranks [of p q] turn_phases.terminal_stuck [of p q] turn_phases.no_return [of p q]
  by (auto simp: classify_def)

text \<open>A rule that fires on a turn of phase \<open>p\<close> is a rule of that phase.\<close>

context rule_engine
begin

lemma fired_gates:
  assumes "fires holds d previous st" and "PhaseOf (Some st) i = Inr p" and "g \<in> set (phaseGates d)"
  shows "pg_phase g = p"
proof -
  from assms(3) obtain c where c: "c \<in> set (rd_Conditions d)" "rc_Field c = TurnPhaseCurrent"
      "rc_Value c = VString (pg_phase g)" "rc_Operator c = ''eq'' \<or> rc_Operator c = ''transition''"
    by (rule phaseGates_cond) auto
  from assms(1) c(1) have "holds c previous st" by (simp add: fires_def list_all_iff)
  from phase_holds [OF c(4,3) this] show ?thesis using PhaseOf_objects [OF assms(2)] by (simp add: c(2))
qed

lemma fired_edge:
  assumes "Check R defs = None" and "d \<in> set defs" and "fires holds d previous st" and "PhaseOf (Some st) i = Inr p"
    and "a \<in> set (rd_OnEnter d @ rd_OnRecovery d)" and "PhaseForSubject (ra_Subject a) = Some q"
  shows "PhaseFollows p q"
proof -
  note d = checkDefinition_None [OF Check_None [OF assms(1,2)]]
  from d(2) obtain g where g: "g \<in> set (phaseGates d)" by (cases "phaseGates d") auto
  from checkPhaseEdges_None [OF d(5) g assms(5,6)] fired_gates [OF assms(3,4) g] show ?thesis by simp
qed

lemma fired_artifact:
  assumes "Check R defs = None" and "d \<in> set defs" and "fires holds d previous st" and "PhaseOf (Some st) i = Inr p"
    and "g \<in> set (phaseGates d)" and "pg_operator g = ''eq''" and "p \<noteq> PhaseAccepted" and "StageArtifacts p = Some artifacts"
  shows "\<exists>artifact \<in> set artifacts. objectsIn (esTriples st) artifact \<noteq> []"
proof -
  note d = checkDefinition_None [OF Check_None [OF assms(1,2)]]
  have p: "pg_phase g = p" by (rule fired_gates [OF assms(3-5)])
  have "gatedOnArtifact d artifacts"
    using artifactGates_None [OF d(3) [unfolded checkArtifactGate_def] assms(5,6)] assms(7,8) by (simp add: p)
  then obtain c where c: "c \<in> set (rd_Conditions d)" "rc_Field c \<in> set artifacts"
    by (auto simp: gatedOnArtifact_def list_ex_iff)
  have "holds c previous st" using assms(3) c(1) by (simp add: fires_def list_all_iff)
  with present [OF checkCondition_optional [OF checkConditions_None [OF d(1) c(1)]]] c(2) show ?thesis by blast
qed

end

section \<open>The hops of a pack\<close>

definition hop :: "rule_Definition list \<Rightarrow> TurnPhase \<Rightarrow> TurnPhase \<Rightarrow> bool" where
  "hop defs p q =
     list_ex (\<lambda>d. list_ex (\<lambda>g. pg_operator g = ''eq'' \<and> pg_phase g = p) (phaseGates d)
       \<and> list_ex (\<lambda>a. PhaseForSubject (ra_Subject a) = Some q) (rd_OnEnter d)) defs"

end
