(* ===== verification/Caseflow.thy ===== *)
theory Caseflow
  imports Stage_Entry Rule_Turns
begin

text \<open>
  \<^verbatim>\<open>internal/caseflow\<close>: the declared case workflow (\<^verbatim>\<open>caseflow.go\<close>), the recorder that
  lands a structural event receipt on the case (\<^verbatim>\<open>receipt.go\<close>), and the lifecycle rules that move
  the case from such a receipt (\<^verbatim>\<open>internal/rulepack/caseflow.go\<close>). The graph store and the clock are
  fields of the recorder.
\<close>

section \<open>The workflow\<close>

definition CaseWorkflowName :: string where "CaseWorkflowName = ''mystery-case''"
definition WorkflowName :: string where "WorkflowName = CaseWorkflowName"

record CaseState =
  cs_ID :: string
  cs_Phase :: CasePhase

definition CaseState_EntityID :: "CaseState \<Rightarrow> string" where "CaseState_EntityID s = cs_ID s"
definition CaseState_Workflow :: "CaseState \<Rightarrow> string" where "CaseState_Workflow s = WorkflowName"
definition CaseState_Phase :: "CaseState \<Rightarrow> string" where "CaseState_Phase s = cs_Phase s"
definition CaseState_IsTerminal :: "CaseState \<Rightarrow> bool" where
  "CaseState_IsTerminal s = (cs_Phase s = CasePhaseDenouement)"
definition CaseState_ParentEntityID :: "CaseState \<Rightarrow> string" where "CaseState_ParentEntityID s = []"

text \<open>The fields of the SemStreams workflow that describe the machine.\<close>

record lifecycle_Workflow =
  lw_Name :: string
  lw_EntityIDPattern :: string
  lw_Phases :: "string list"
  lw_Transitions :: "(string, string list) gomap"
  lw_PhasePredicate :: Predicate
  lw_AuditSource :: Predicate
  lw_AuditAt :: Predicate
  lw_AuditFrom :: Predicate

definition Workflow :: lifecycle_Workflow where
  "Workflow =
     \<lparr>lw_Name = WorkflowName, lw_EntityIDPattern = ''*.semmachina.*.*.case.*'',
      lw_Phases = [CasePhaseColdOpen, CasePhaseDiscovery, CasePhaseInvestigation, CasePhaseAccusation,
        CasePhaseDenouement],
      lw_Transitions = [
        (CasePhaseColdOpen, [CasePhaseDiscovery]), (CasePhaseDiscovery, [CasePhaseInvestigation]),
        (CasePhaseInvestigation, [CasePhaseAccusation]), (CasePhaseAccusation, [CasePhaseDenouement]),
        (CasePhaseDenouement, [])],
      lw_PhasePredicate = CaseLifecyclePhase, lw_AuditSource = CaseTransitionSource,
      lw_AuditAt = CaseTransitionAt, lw_AuditFrom = CaseTransitionFrom\<rparr>"

definition permits :: "lifecycle_Workflow \<Rightarrow> string \<Rightarrow> string \<Rightarrow> bool" where
  "permits flow from to = List.member (case map_of (lw_Transitions flow) from of None \<Rightarrow> [] | Some ts \<Rightarrow> ts) to"

section \<open>Receipts\<close>

definition ReceiptSource :: string where "ReceiptSource = ''caseflow-receipt''"

record TransitionRequest =
  rq_CaseEntityID :: string
  rq_EventID :: string
  rq_Kind :: CaseLifecycleEventKind

record ReceiptOutcome =
  ro_Recorded :: bool
  ro_From :: CasePhase
  ro_To :: CasePhase

record 'w caseflow_Recorder =
  cr_store :: "'w GraphStore"
  cr_now :: "'w \<Rightarrow> time \<times> 'w"

definition caseflow_NewRecorder ::
    "('w \<Rightarrow> time \<times> 'w) \<Rightarrow> 'w GraphStore option \<Rightarrow> gerror + 'w caseflow_Recorder" where
  "caseflow_NewRecorder timeNow store =
     (case store of
        None \<Rightarrow> Inl (Errorf ''caseflow recorder requires a graph store'')
      | Some s \<Rightarrow> Inr \<lparr>cr_store = s, cr_now = timeNow\<rparr>)"

definition edgeFor :: "CaseLifecycleEventKind \<Rightarrow> (CasePhase \<times> CasePhase) option" where
  "edgeFor kind =
     (if kind = CaseEventBodyObserved then Some (CasePhaseColdOpen, CasePhaseDiscovery)
      else if kind = CaseEventInvestigationStarted then Some (CasePhaseDiscovery, CasePhaseInvestigation)
      else if kind = CaseEventAccusationSubmitted then Some (CasePhaseInvestigation, CasePhaseAccusation)
      else if kind = CaseEventAccusationCorrect then Some (CasePhaseAccusation, CasePhaseDenouement)
      else None)"

fun rankIn :: "CasePhase list \<Rightarrow> int \<Rightarrow> CasePhase \<Rightarrow> int" where
  "rankIn [] index phase = -1"
| "rankIn (candidate # rest) index phase = (if candidate = phase then index else rankIn rest (index + 1) phase)"

definition phaseRank :: "CasePhase \<Rightarrow> int" where
  "phaseRank phase = rankIn CasePhases 0 phase"

fun literalIn :: "string \<Rightarrow> Triple list \<Rightarrow> Predicate \<Rightarrow> string" where
  "literalIn i [] predicate = []"
| "literalIn i (t # ts) predicate =
     (if trSubject t = i \<and> trPredicate t = predicate
      then (case trObject t of AString v \<Rightarrow> v | _ \<Rightarrow> [])
      else literalIn i ts predicate)"

definition literal :: "EntityState \<Rightarrow> Predicate \<Rightarrow> string" where
  "literal st predicate = literalIn (esID st) (esTriples st) predicate"

definition receiptTriple :: "string \<Rightarrow> Predicate \<Rightarrow> string \<Rightarrow> time \<Rightarrow> Triple" where
  "receiptTriple subject predicate object at =
     \<lparr>trSubject = subject, trPredicate = predicate, trObject = AString object, trSource = ReceiptSource,
      trTimestamp = at, trConfidence = f64_one, trContext = [], trDatatype = [], trExpiresAt = None\<rparr>"

definition receiptTriples :: "TransitionRequest \<Rightarrow> CasePhase \<Rightarrow> CasePhase \<Rightarrow> time \<Rightarrow> Triple list" where
  "receiptTriples q from to at =
     [receiptTriple (rq_CaseEntityID q) CaseLifecycleEventID (rq_EventID q) at,
      receiptTriple (rq_CaseEntityID q) CaseLifecycleEventKindPredicate (rq_Kind q) at,
      receiptTriple (rq_CaseEntityID q) CaseLifecycleFromPhase from at,
      receiptTriple (rq_CaseEntityID q) CaseLifecycleToPhase to at]"

text \<open>What the recorder decides from the case it read: nothing to do, out of order, or a receipt.\<close>

datatype receipt_step = Keep | Refuse gerror | Write

definition receiptStep :: "TransitionRequest \<Rightarrow> CasePhase \<Rightarrow> EntityState \<Rightarrow> receipt_step" where
  "receiptStep q from st =
     (if literal st CaseLifecycleEventID = rq_EventID q then Keep
      else (case ParseCasePhase (literal st CaseLifecyclePhase) of
          Inl err \<Rightarrow> Refuse (Wrapf ''case current lifecycle phase'' err)
        | Inr current \<Rightarrow>
            if phaseRank from < phaseRank current then Keep
            else if phaseRank current < phaseRank from
            then Refuse (CaseOrderError (rq_CaseEntityID q) (rq_EventID q) (rq_Kind q) current from)
            else Write))"

definition caseflow_now :: "'w caseflow_Recorder \<Rightarrow> ('w, time) M" where
  "caseflow_now r = (\<lambda>w. case cr_now r w of (t, w') \<Rightarrow> (Inr t, w'))"

definition Record :: "'w caseflow_Recorder \<Rightarrow> TransitionRequest \<Rightarrow> ('w, ReceiptOutcome) M" where
  "Record r q =
     (if rq_CaseEntityID q = [] then throw (Errorf ''caseflow transition request requires a case entity id'')
      else if rq_EventID q = [] then throw (Errorf ''caseflow transition request requires a nonempty event id'')
      else (case edgeFor (rq_Kind q) of
          None \<Rightarrow> throw (case ParseCaseLifecycleEventKind (rq_Kind q) of
              Inl parseErr \<Rightarrow> Wrapf ''caseflow transition request event kind'' parseErr
            | Inr _ \<Rightarrow> Errorf ''caseflow transition request event kind'')
        | Some (from, to) \<Rightarrow>
            bindM (mapErr (Wrapf ''read case before recording event'') (gs_GetEntity (cr_store r) (rq_CaseEntityID q)))
              (\<lambda>st. case receiptStep q from st of
                Keep \<Rightarrow> ret \<lparr>ro_Recorded = False, ro_From = from, ro_To = to\<rparr>
              | Refuse err \<Rightarrow> throw err
              | Write \<Rightarrow>
                  bindM (caseflow_now r) (\<lambda>at.
                  bindM (mapErr (Wrapf ''record case event'')
                    (gs_Reconcile (cr_store r) CaseLifecycleReceipt (rq_CaseEntityID q) (receiptTriples q from to at)))
                  (\<lambda>_. ret \<lparr>ro_Recorded = True, ro_From = from, ro_To = to\<rparr>)))))"

section \<open>The lifecycle rules\<close>

definition CaseEntityPattern :: string where "CaseEntityPattern = ''*.semmachina.*.*.case.*''"

record caseEdge =
  ce_id :: string
  ce_kind :: CaseLifecycleEventKind
  ce_from :: CasePhase
  ce_to :: CasePhase

definition caseEdges :: "caseEdge list" where
  "caseEdges = [
     \<lparr>ce_id = ''case-body-observed-enters-discovery'', ce_kind = CaseEventBodyObserved,
      ce_from = CasePhaseColdOpen, ce_to = CasePhaseDiscovery\<rparr>,
     \<lparr>ce_id = ''case-investigation-started-enters-investigation'', ce_kind = CaseEventInvestigationStarted,
      ce_from = CasePhaseDiscovery, ce_to = CasePhaseInvestigation\<rparr>,
     \<lparr>ce_id = ''case-accusation-submitted-enters-accusation'', ce_kind = CaseEventAccusationSubmitted,
      ce_from = CasePhaseInvestigation, ce_to = CasePhaseAccusation\<rparr>,
     \<lparr>ce_id = ''case-correct-accusation-enters-denouement'', ce_kind = CaseEventAccusationCorrect,
      ce_from = CasePhaseAccusation, ce_to = CasePhaseDenouement\<rparr>]"

definition caseRule :: "rule_ext \<Rightarrow> caseEdge \<Rightarrow> rule_Definition" where
  "caseRule R edge =
     (let action = \<lparr>ra_Type = re_ActionTypeLifecycleTransition R, ra_Subject = [], ra_Properties = [],
          ra_MaxIterations = None, ra_Workflow = CaseWorkflowName, ra_Phase = ce_to edge\<rparr>
      in \<lparr>rd_ID = ce_id edge, rd_Type = ''expression'', rd_Name = ce_id edge, rd_Enabled = True, rd_Logic = ''and'',
          rd_Pattern = CaseEntityPattern, rd_Cooldown = [],
          rd_Conditions = [
            ifField CaseLifecyclePhase ''eq'' (VString (ce_from edge)),
            ifField CaseLifecycleEventID ''ne'' (VString []),
            ifField CaseLifecycleEventKindPredicate ''eq'' (VString (ce_kind edge)),
            ifField CaseLifecycleFromPhase ''eq'' (VString (ce_from edge)),
            ifField CaseLifecycleToPhase ''eq'' (VString (ce_to edge))],
          rd_OnEnter = [action], rd_OnRecovery = [action], rd_OnExit = [], rd_WhileTrue = [], rd_Actions = []\<rparr>)"

fun caseRules :: "rule_ext \<Rightarrow> caseEdge list \<Rightarrow> gerror + rule_Definition list" where
  "caseRules R [] = Inr []"
| "caseRules R (edge # edges) =
     (let d = caseRule R edge in
      case re_ValidateDefinition R d of
        Some err \<Rightarrow> Inl (Wrapf ''case lifecycle rule'' err)
      | None \<Rightarrow> map_sum id ((#) d) (caseRules R edges))"

definition CaseLifecycleDefinitions :: "rule_ext \<Rightarrow> gerror + rule_Definition list" where
  "CaseLifecycleDefinitions R = caseRules R caseEdges"

section \<open>The three tables are one\<close>

lemma edgeFor_cases:
  assumes "edgeFor kind = Some (from, to)"
  obtains "kind = CaseEventBodyObserved" "from = CasePhaseColdOpen" "to = CasePhaseDiscovery"
    | "kind = CaseEventInvestigationStarted" "from = CasePhaseDiscovery" "to = CasePhaseInvestigation"
    | "kind = CaseEventAccusationSubmitted" "from = CasePhaseInvestigation" "to = CasePhaseAccusation"
    | "kind = CaseEventAccusationCorrect" "from = CasePhaseAccusation" "to = CasePhaseDenouement"
  using assms by (auto simp: edgeFor_def split: if_splits)

lemma edgeFor_edges: "edgeFor kind = Some (from, to) \<longleftrightarrow> (kind, from, to) \<in> set (map (\<lambda>e. (ce_kind e, ce_from e, ce_to e)) caseEdges)"
proof
  assume "edgeFor kind = Some (from, to)"
  then show "(kind, from, to) \<in> set (map (\<lambda>e. (ce_kind e, ce_from e, ce_to e)) caseEdges)"
    by (cases rule: edgeFor_cases) (simp_all add: caseEdges_def)
next
  have "list_all (\<lambda>e. edgeFor (ce_kind e) = Some (ce_from e, ce_to e)) caseEdges" by code_simp
  moreover assume "(kind, from, to) \<in> set (map (\<lambda>e. (ce_kind e, ce_from e, ce_to e)) caseEdges)"
  ultimately show "edgeFor kind = Some (from, to)" by (auto simp: list_all_iff)
qed

text \<open>The transitions the workflow declares, as a list of pairs.\<close>

definition declared :: "lifecycle_Workflow \<Rightarrow> (string \<times> string) list" where
  "declared flow = concat (map (\<lambda>(a, bs). map (Pair a) bs) (lw_Transitions flow))"

lemma permits_declared: "distinct (map fst (lw_Transitions flow)) \<Longrightarrow> permits flow a b \<longleftrightarrow> (a, b) \<in> set (declared flow)"
  by (force simp: permits_def declared_def split: option.splits dest: map_of_SomeD map_of_is_SomeI)

lemma permits_edges: "permits Workflow from to \<longleftrightarrow> (\<exists>kind. edgeFor kind = Some (from, to))"
proof -
  have "declared Workflow = map (\<lambda>e. (ce_from e, ce_to e)) caseEdges" by code_simp
  moreover have "distinct (map fst (lw_Transitions Workflow))" by code_simp
  ultimately show ?thesis by (force simp: permits_declared edgeFor_edges)
qed

lemma phaseRank_values:
  "phaseRank CasePhaseColdOpen = 0" "phaseRank CasePhaseDiscovery = 1" "phaseRank CasePhaseInvestigation = 2"
  "phaseRank CasePhaseAccusation = 3" "phaseRank CasePhaseDenouement = 4"
  by (simp_all add: phaseRank_def CasePhases_def casePhaseEnum_def enum_ops vocab_strings)

lemma phaseRank_inj:
  assumes "ParseCasePhase s = Inr a" and "edgeFor kind = Some (b, c)" and "phaseRank a = phaseRank b"
  shows "a = b"
proof -
  from assms(1) have "a \<in> {CasePhaseColdOpen, CasePhaseDiscovery, CasePhaseInvestigation, CasePhaseAccusation, CasePhaseDenouement}"
    by (auto simp: ParseCasePhase_def casePhase_set.parse_Inr_iff) (simp add: casePhaseEnum_def newEnum_def)
  with assms(2,3) show ?thesis by (elim edgeFor_cases) (auto simp: phaseRank_values)
qed

lemma edgeFor_ranks: "edgeFor kind = Some (from, to) \<Longrightarrow> phaseRank to = phaseRank from + 1 \<and> 0 \<le> phaseRank from"
  by (erule edgeFor_cases) (simp_all add: phaseRank_values)

section \<open>What a receipt changes\<close>

lemma literalIn_object: "literalIn i ts p \<noteq> [] \<Longrightarrow> AString (literalIn i ts p) \<in> set (objectsIn ts p)"
  by (induction ts) (auto split: any.splits)

lemma receiptStep_Write:
  assumes "receiptStep q from st = Write" and "edgeFor (rq_Kind q) = Some (from, to)"
  shows "literal st CaseLifecyclePhase = from" and "from \<noteq> [] \<Longrightarrow> AString from \<in> set (objectsIn (esTriples st) CaseLifecyclePhase)"
proof -
  from assms(1) obtain current where "ParseCasePhase (literal st CaseLifecyclePhase) = Inr current"
      and "phaseRank current = phaseRank from"
    by (auto simp: receiptStep_def split: if_splits sum.splits)
  moreover from this have "current = literal st CaseLifecyclePhase"
    by (simp add: ParseCasePhase_def casePhase_set.parse_Inr_iff)
  ultimately show lit: "literal st CaseLifecyclePhase = from" using phaseRank_inj [OF _ assms(2)] by simp
  show "AString from \<in> set (objectsIn (esTriples st) CaseLifecyclePhase)" if "from \<noteq> []"
    using literalIn_object [of "esID st" "esTriples st" CaseLifecyclePhase] that lit by (simp add: literal_def)
qed

lemma receiptStep_Refuse:
  assumes "receiptStep q from st = Refuse (CaseOrderError a b c current required)"
  shows "required = from \<and> phaseRank current < phaseRank from \<and> current = literal st CaseLifecyclePhase"
  using assms
  by (auto simp: receiptStep_def ParseCasePhase_def casePhase_set.parse_Inr_iff split: if_splits sum.splits)

definition receiptPredicates :: "Predicate list" where
  "receiptPredicates = [CaseLifecycleEventID, CaseLifecycleEventKindPredicate, CaseLifecycleFromPhase, CaseLifecycleToPhase]"

lemma Predicates_receipt: "set (Predicates CaseLifecycleReceipt) = set receiptPredicates"
  by code_simp

lemma receipt_distinct:
  "CaseLifecycleEventID \<noteq> CaseLifecycleEventKindPredicate" "CaseLifecycleEventID \<noteq> CaseLifecycleFromPhase"
  "CaseLifecycleEventID \<noteq> CaseLifecycleToPhase" "CaseLifecycleEventKindPredicate \<noteq> CaseLifecycleFromPhase"
  "CaseLifecycleEventKindPredicate \<noteq> CaseLifecycleToPhase" "CaseLifecycleFromPhase \<noteq> CaseLifecycleToPhase"
  "CaseLifecyclePhase \<notin> set receiptPredicates"
  by (simp_all add: receiptPredicates_def pred_strings)

text \<open>The receipt a request leaves on its case.\<close>

definition receiptFact :: "TransitionRequest \<Rightarrow> CasePhase \<Rightarrow> CasePhase \<Rightarrow> Predicate \<Rightarrow> string" where
  "receiptFact q from to p =
     (if p = CaseLifecycleEventID then rq_EventID q
      else if p = CaseLifecycleEventKindPredicate then rq_Kind q
      else if p = CaseLifecycleFromPhase then from else to)"

lemma receiptTriples_objects:
  "p \<in> set receiptPredicates \<Longrightarrow> objectsIn (receiptTriples q from to at) p = [AString (receiptFact q from to p)]"
  using receipt_distinct
  by (auto simp: receiptPredicates_def receiptTriples_def receiptTriple_def receiptFact_def objectsIn_filter)

context graph_store
begin

text \<open>Whatever a write answers, the graph is as it was or has exactly the new group.\<close>

lemma put_cases:
  assumes "gs_Reconcile S t i ds w = (r, w')"
  shows "ents w' = ents w \<and> (\<exists>err. r = Inl err)
    \<or> (\<forall>j p. objs ents w' j p = (if j = i \<and> p \<in> set (Predicates t) then mset (objectsIn ds p) else objs ents w j p))"
proof (cases r)
  case (Inl err)
  from put_failed [OF assms [unfolded Inl]] show ?thesis using Inl by (auto simp: graphOf_def reconciled_objects)
next
  case (Inr e)
  from put_objs [OF assms [unfolded Inr]] show ?thesis by simp
qed

end

locale receipt_recorder = graph_store X S ents for X and S :: "'w GraphStore" and ents +
  fixes r :: "'w caseflow_Recorder"
  assumes receipt_store: "cr_store r = S"
    and receipt_clock: "cr_now r w = (t, w') \<Longrightarrow> ents w' = ents w"
begin

lemma Record_cases:
  assumes "Record r q w = (res, w')"
  obtains (refused) err where "res = Inl err" "ents w' = ents w"
      "\<And>c e k current required. err = CaseOrderError c e k current required \<Longrightarrow>
         \<exists>b st. edgeFor (rq_Kind q) = Some (required, b) \<and> ents w (rq_CaseEntityID q) = Some st
           \<and> current = literal st CaseLifecyclePhase \<and> phaseRank current < phaseRank required"
    | (kept) a b st where "edgeFor (rq_Kind q) = Some (a, b)" "ents w (rq_CaseEntityID q) = Some st"
        "receiptStep q a st = Keep"
        "res = Inr \<lparr>ro_Recorded = False, ro_From = a, ro_To = b\<rparr>" "ents w' = ents w"
    | (written) a b st where "edgeFor (rq_Kind q) = Some (a, b)" "ents w (rq_CaseEntityID q) = Some st"
        "receiptStep q a st = Write"
        "res = Inr \<lparr>ro_Recorded = True, ro_From = a, ro_To = b\<rparr> \<or> (\<exists>s e. res = Inl (Wrapf s e))"
        "\<And>i p. objs ents w' i p = (if i = rq_CaseEntityID q \<and> p \<in> set receiptPredicates
            then {#AString (receiptFact q a b p)#} else objs ents w i p)"
proof (cases "rq_CaseEntityID q = [] \<or> rq_EventID q = [] \<or> edgeFor (rq_Kind q) = None")
  case True
  with assms refused show thesis by (auto simp: Record_def split: if_splits sum.splits)
next
  case False
  then obtain a b where edge: "edgeFor (rq_Kind q) = Some (a, b)" and ne: "rq_CaseEntityID q \<noteq> []" "rq_EventID q \<noteq> []"
    by auto
  note run = assms [unfolded Record_def, simplified ne edge, simplified]
  show thesis
  proof (cases "gs_GetEntity S (rq_CaseEntityID q) w")
    case (Pair g w1)
    have w1: "ents w1 = ents w" using get_frame [OF Pair] .
    show thesis
    proof (cases g)
      case (Inl e)
      with run Pair have "res = Inl (Wrapf ''read case before recording event'' e)" "w' = w1"
        by (auto simp: bindM_def mapErr_def receipt_store)
      with w1 show thesis by (intro refused) auto
    next
      case (Inr st)
      have st: "ents w (rq_CaseEntityID q) = Some st" using get_ok Pair Inr by blast
      show thesis
      proof (cases "receiptStep q a st")
        case Keep
        with run Pair Inr have "res = Inr \<lparr>ro_Recorded = False, ro_From = a, ro_To = b\<rparr>" "w' = w1"
          by (auto simp: bindM_def mapErr_def receipt_store ret_def)
        with w1 show thesis by (intro kept [OF edge st Keep]) auto
      next
        case (Refuse err)
        with run Pair Inr have "res = Inl err" "w' = w1"
          by (auto simp: bindM_def mapErr_def receipt_store throw_def)
        moreover have "err = CaseOrderError c e k current required \<Longrightarrow> required = a \<and>
            phaseRank current < phaseRank a \<and> current = literal st CaseLifecyclePhase" for c e k current required
          using receiptStep_Refuse Refuse by blast
        ultimately show thesis using w1 edge st by (intro refused [of err]) auto
      next
        case Write
        obtain t w2 where now: "cr_now r w1 = (t, w2)" by fastforce
        obtain h w3 where put: "gs_Reconcile S CaseLifecycleReceipt (rq_CaseEntityID q) (receiptTriples q a b t) w2 = (h, w3)"
          by fastforce
        have w2: "ents w2 = ents w" using receipt_clock [OF now] w1 by simp
        have out: "w' = w3" "res = (case h of Inl e \<Rightarrow> Inl (Wrapf ''record case event'' e)
            | Inr _ \<Rightarrow> Inr \<lparr>ro_Recorded = True, ro_From = a, ro_To = b\<rparr>)"
          using run Pair Inr Write now put
          by (auto simp: bindM_def mapErr_def receipt_store caseflow_now_def ret_def split: sum.splits)
        have changed: "(\<forall>i p. objs ents w3 i p = (if i = rq_CaseEntityID q \<and> p \<in> set receiptPredicates
            then {#AString (receiptFact q a b p)#} else objs ents w i p)) \<or> (ents w3 = ents w \<and> (\<exists>e. h = Inl e))"
          using put_cases [OF put] by (auto simp: Predicates_receipt receiptTriples_objects w2)
        show thesis
        proof (cases "ents w3 = ents w \<and> (\<exists>e. h = Inl e)")
          case True
          then obtain e where "h = Inl e" "ents w3 = ents w" by blast
          with out show thesis by (intro refused [of "Wrapf ''record case event'' e"]) auto
        next
          case False
          with changed out show thesis by (intro written [OF edge st Write]) (auto split: sum.splits)
        qed
      qed
    qed
  qed
qed

end

section \<open>From a receipt to a move\<close>

lemma caseRules_Inr: "caseRules R edges = Inr defs \<Longrightarrow> defs = map (caseRule R) edges"
  by (induction edges arbitrary: defs) (auto simp: Let_def split: option.splits)

lemma CaseLifecycleDefinitions_set: "CaseLifecycleDefinitions R = Inr defs \<Longrightarrow> set defs = caseRule R ` set caseEdges"
  by (auto simp: CaseLifecycleDefinitions_def dest!: caseRules_Inr)

lemma caseRule_simps [simp]:
  "rd_Enabled (caseRule R e)" "ra_Phase ` set (rd_OnEnter (caseRule R e) @ rd_OnRecovery (caseRule R e)) = {ce_to e}"
  "rd_Conditions (caseRule R e) = [
     ifField CaseLifecyclePhase ''eq'' (VString (ce_from e)), ifField CaseLifecycleEventID ''ne'' (VString []),
     ifField CaseLifecycleEventKindPredicate ''eq'' (VString (ce_kind e)),
     ifField CaseLifecycleFromPhase ''eq'' (VString (ce_from e)), ifField CaseLifecycleToPhase ''eq'' (VString (ce_to e))]"
  by (simp_all add: caseRule_def Let_def)

lemma ifField_simps [simp]:
  "rc_Field (ifField f op v) = f" "rc_Operator (ifField f op v) = op" "rc_Value (ifField f op v) = v"
  "\<not> rc_Required (ifField f op v)"
  by (simp_all add: ifField_def)

text \<open>What a case holds for a predicate, when it is one string.\<close>

definition single :: "EntityState \<Rightarrow> Predicate \<Rightarrow> string \<Rightarrow> bool" where
  "single st p v = (objectsIn (esTriples st) p = [AString v])"

context rule_engine
begin

lemma fired_case:
  assumes "fires holds (caseRule R e) previous st"
  shows "AString (ce_from e) \<in> set (objectsIn (esTriples st) CaseLifecyclePhase)"
    and "AString (ce_kind e) \<in> set (objectsIn (esTriples st) CaseLifecycleEventKindPredicate)"
    and "AString (ce_to e) \<in> set (objectsIn (esTriples st) CaseLifecycleToPhase)"
  using assms phase_holds [of "ifField f ''eq'' (VString v)" v previous st for f v, simplified]
  by (simp_all add: fires_def)

end

text \<open>An engine that also fires when it should: equality with the one value, inequality with the empty text.\<close>

locale exact_rule_engine = rule_engine +
  assumes eq_holds: "single st f v \<Longrightarrow> holds (ifField f ''eq'' (VString v)) previous st"
    and ne_holds: "single st f v \<Longrightarrow> v \<noteq> [] \<Longrightarrow> holds (ifField f ''ne'' (VString [])) previous st"
begin

lemma case_fires:
  assumes "e \<in> set caseEdges" and "single st CaseLifecyclePhase (ce_from e)"
    and "single st CaseLifecycleEventID i" "i \<noteq> []" "single st CaseLifecycleEventKindPredicate (ce_kind e)"
    and "single st CaseLifecycleFromPhase (ce_from e)" "single st CaseLifecycleToPhase (ce_to e)"
  shows "fires holds (caseRule R e) previous st"
  using assms eq_holds ne_holds by (auto simp: fires_def)

end

lemma edgeFor_ne: "edgeFor kind = Some (a, b) \<Longrightarrow> a \<noteq> []"
  by (erule edgeFor_cases) (simp_all add: vocab_strings)

lemma caseEdges_from: "e \<in> set caseEdges \<Longrightarrow> e' \<in> set caseEdges \<Longrightarrow> ce_from e = ce_from e' \<Longrightarrow> e = e'"
proof -
  have "distinct (map ce_from caseEdges)" by code_simp
  then have "inj_on ce_from (set caseEdges)" by (simp add: distinct_map)
  then show "e \<in> set caseEdges \<Longrightarrow> e' \<in> set caseEdges \<Longrightarrow> ce_from e = ce_from e' \<Longrightarrow> e = e'"
    by (auto dest: inj_onD)
qed

lemma single_objs: "E i = Some st \<Longrightarrow> graphOf E i p = {#AString v#} \<Longrightarrow> single st p v"
  by (auto simp: graphOf_def single_def)

context receipt_recorder
begin

lemma Record_frame:
  assumes "Record r q w = (res, w')" and "p \<notin> set receiptPredicates"
  shows "objs ents w' i p = objs ents w i p"
  using assms(1) by (cases rule: Record_cases) (use assms(2) in \<open>auto simp: graphOf_def\<close>)

lemma Record_phase: "Record r q w = (res, w') \<Longrightarrow> objs ents w' i CaseLifecyclePhase = objs ents w i CaseLifecyclePhase"
  by (rule Record_frame [OF _ receipt_distinct(7)])

lemma receipt_fires:
  assumes engine: "exact_rule_engine holds" and run: "Record r q w = (Inr out, w')" and "ro_Recorded out"
    and st': "ents w' (rq_CaseEntityID q) = Some st'" and v: "objs ents w (rq_CaseEntityID q) CaseLifecyclePhase = {#v#}"
  shows "\<exists>e \<in> set caseEdges. ce_kind e = rq_Kind q \<and> ce_from e = ro_From out \<and> ce_to e = ro_To out
    \<and> fires holds (caseRule R e) previous st'
    \<and> (\<forall>e' \<in> set caseEdges. fires holds (caseRule R e') previous st' \<longrightarrow> e' = e)"
  using run
proof (cases rule: Record_cases)
  case (written a b st)
  let ?i = "rq_CaseEntityID q"
  from written(4) have out: "out = \<lparr>ro_Recorded = True, ro_From = a, ro_To = b\<rparr>" by simp
  from run have event: "rq_EventID q \<noteq> []" by (auto simp: Record_def split: if_splits)
  from written(1) obtain e where e: "e \<in> set caseEdges" "ce_kind e = rq_Kind q" "ce_from e = a" "ce_to e = b"
    by (auto simp: edgeFor_edges)
  have "AString a \<in> set (objectsIn (esTriples st) CaseLifecyclePhase)"
    using receiptStep_Write(2) [OF written(3,1)] edgeFor_ne [OF written(1)] by simp
  then have "v = AString a" using v written(2) by (auto simp: graphOf_def)
  then have phase: "single st' CaseLifecyclePhase a"
    using single_objs [of "ents w'", OF st'] Record_phase [OF run] v by simp
  have fact: "single st' p (receiptFact q a b p)" if "p \<in> set receiptPredicates" for p
    using single_objs [of "ents w'", OF st'] written(5) that by simp
  have facts: "single st' CaseLifecycleEventID (rq_EventID q)" "single st' CaseLifecycleEventKindPredicate (rq_Kind q)"
    "single st' CaseLifecycleFromPhase a" "single st' CaseLifecycleToPhase b"
    using fact [of CaseLifecycleEventID] fact [of CaseLifecycleEventKindPredicate] fact [of CaseLifecycleFromPhase]
      fact [of CaseLifecycleToPhase] receipt_distinct by (simp_all add: receiptPredicates_def receiptFact_def)
  have "fires holds (caseRule R e) previous st'"
    using exact_rule_engine.case_fires [OF engine e(1), of st' "rq_EventID q"] phase facts event e by simp
  moreover have only: "e' = e" if "e' \<in> set caseEdges" "fires holds (caseRule R e') previous st'" for e'
  proof -
    have "rule_engine holds" using engine by (simp add: exact_rule_engine_def)
    from rule_engine.fired_case(1) [OF this that(2)] phase have "ce_from e' = a" by (simp add: single_def)
    with caseEdges_from [OF that(1) e(1)] e(3) show ?thesis by simp
  qed
  ultimately show ?thesis
    using e(2-4) out by (intro bexI [OF _ e(1)] conjI ballI impI) (simp_all add: only)
qed (use \<open>ro_Recorded out\<close> in auto)

end

interpretation refExactEngine: exact_rule_engine refHolds
  by unfold_locales (auto simp: refHolds_def refValues_def single_def ifField_def Let_def)

end
