(* ===== verification/Case_Progress.thy ===== *)
theory Case_Progress
  imports Caseflow Content_Store
begin

text \<open>
  \<^verbatim>\<open>internal/caseflow\<close>, deterministic progress: the processor that turns a committed decision and
  its knowledge receipt into at most one lifecycle event (\<^verbatim>\<open>progress.go\<close>) and the durable consumer
  around it (\<^verbatim>\<open>consumer.go\<close>). The graph, the artifact store, the lifecycle recorder and the clock
  are fields. The graph store returns an entity or an error, never a nil entity.
\<close>

section \<open>The processor\<close>

record 'w Progressor =
  cpg_graph :: "'w GraphStore"
  cpg_InstanceName :: string
  cpg_GetCaseDecisionRecord :: "Ref \<Rightarrow> ('w, CaseDecisionRecord option) M"
  cpg_GetKnowledgeReceipt :: "Ref \<Rightarrow> ('w, KnowledgeReceipt option) M"
  cpg_PutCaseProgressRecord :: "string \<Rightarrow> CaseProgressRecord \<Rightarrow> ('w, Ref) M"
  cpg_GetCaseProgressRecord :: "Ref \<Rightarrow> ('w, CaseProgressRecord option) M"
  cpg_recorder :: "TransitionRequest \<Rightarrow> ('w, ReceiptOutcome) M"
  cpg_now :: "'w \<Rightarrow> time \<times> 'w"

definition progress_now :: "'w Progressor \<Rightarrow> ('w, time) M" where
  "progress_now g = (\<lambda>w. case cpg_now g w of (t, w') \<Rightarrow> (Inr t, w'))"

definition permanentArtifact :: "gerror \<Rightarrow> bool" where
  "permanentArtifact err =
     (errors_Is err ErrArtifactNotFound \<or> errors_Is err ErrArtifactReference
      \<or> errors_Is err ErrArtifactCorrupt \<or> errors_Is err ErrArtifactConflict)"

text \<open>An artifact operation's error, as each call wraps it.\<close>

definition artifactError :: "string \<Rightarrow> gerror \<Rightarrow> gerror" where
  "artifactError what err =
     (if permanentArtifact err then PermanentProgressError (Wrapf what err) else Wrapf what err)"

fun progressObjects :: "string \<Rightarrow> Triple list \<Rightarrow> Predicate \<Rightarrow> gerror + string list" where
  "progressObjects i [] predicate = Inr []"
| "progressObjects i (t # ts) predicate =
     (if trSubject t \<noteq> i \<or> trPredicate t \<noteq> predicate then progressObjects i ts predicate
      else (case trObject t of
          AString v \<Rightarrow>
            if v = [] then Inl (Errorf ''entity carries malformed object'')
            else map_sum id ((#) v) (progressObjects i ts predicate)
        | _ \<Rightarrow> Inl (Errorf ''entity carries malformed object'')))"

definition progress_objects :: "EntityState \<Rightarrow> Predicate \<Rightarrow> gerror + string list" where
  "progress_objects st predicate = progressObjects (esID st) (esTriples st) predicate"

definition exactRef :: "ext \<Rightarrow> 'w Progressor \<Rightarrow> string \<Rightarrow> Predicate \<Rightarrow> string \<Rightarrow> gerror + Ref" where
  "exactRef X g txt predicate turnID =
     (case ParseRef X txt of
        Inl err \<Rightarrow> Inl (Wrapf ''parse reference'' err)
      | Inr ref \<Rightarrow>
          (case KeyFor X predicate SubjectTurn turnID of
             Inl err \<Rightarrow> Inl err
           | Inr want \<Rightarrow>
               if rf_Instance ref \<noteq> cpg_InstanceName g \<or> rf_Key ref \<noteq> want
               then Inl (Errorf ''reference does not address the turn's artifact'')
               else Inr ref))"

definition requiredRef :: "ext \<Rightarrow> 'w Progressor \<Rightarrow> EntityState \<Rightarrow> Predicate \<Rightarrow> string \<Rightarrow> gerror + Ref" where
  "requiredRef X g st predicate turnID =
     (case progress_objects st predicate of
        Inl err \<Rightarrow> Inl err
      | Inr [v] \<Rightarrow> exactRef X g v predicate turnID
      | Inr _ \<Rightarrow> Inl (Errorf ''turn carries the wrong number of reference values''))"

section \<open>Deriving the event\<close>

text \<open>The victim read of an observation: does the decision's target include the body?\<close>

definition observedKind :: "'w Progressor \<Rightarrow> CaseDecision \<Rightarrow> ('w, CaseLifecycleEventKind) M" where
  "observedKind g d =
     bindM (mapErr (\<lambda>err. if errors_Is err ErrEntityNotFound
           then PermanentProgressError (Wrapf ''read case victim for progress'' err)
           else Wrapf ''read case victim for progress'' err)
         (gs_GetEntity (cpg_graph g) (cd_CaseID d))) (\<lambda>caseState.
     if esID caseState \<noteq> cd_CaseID d then throw (PermanentProgressError (Errorf ''case is missing or foreign''))
     else (case progress_objects caseState CaseMemberVictim of
         Inl err \<Rightarrow> throw (PermanentProgressError err)
       | Inr [victim] \<Rightarrow> ret (if List.member (cd_TargetRefs d) victim then CaseEventBodyObserved else [])
       | Inr _ \<Rightarrow> throw (PermanentProgressError (Errorf ''case carries the wrong number of victim references''))))"

definition decisionEventKind :: "'w Progressor \<Rightarrow> CaseDecision \<Rightarrow> ('w, CaseLifecycleEventKind) M" where
  "decisionEventKind g d =
     (if cd_Kind d = CaseDecisionObserve then observedKind g d
      else if cd_Kind d = CaseDecisionInvestigate then ret CaseEventInvestigationStarted
      else ret [])"

definition progressFor ::
    "string \<Rightarrow> CaseDecision \<Rightarrow> CaseLifecycleEventKind \<Rightarrow> CaseProgressRecord \<times> TransitionRequest option" where
  "progressFor turnID d kind =
     (let progress = \<lparr>cp_TurnID = turnID, cp_DecisionID = cd_DecisionID d, cp_CaseID = cd_CaseID d,
          cp_Status = CaseProgressNotApplicable, cp_EventID = [], cp_EventKind = []\<rparr>;
        i = CaseProgressEventID turnID (cd_DecisionID d) kind in
      if kind = [] then (progress, None)
      else (progress\<lparr>cp_Status := CaseProgressEventRecorded, cp_EventKind := kind, cp_EventID := i\<rparr>,
        Some \<lparr>rq_CaseEntityID = cd_CaseID d, rq_EventID = i, rq_Kind = kind\<rparr>))"

definition progress_derive ::
    "'w Progressor \<Rightarrow> CaseDecisionRecord \<Rightarrow> KnowledgeReceipt
     \<Rightarrow> ('w, CaseProgressRecord \<times> TransitionRequest option) M" where
  "progress_derive g rec knowledge =
     (if cdr_Status rec = CaseDecisionStatusNotApplicable
      then (if kr_Status knowledge \<noteq> KnowledgeNotApplicable
        then throw (PermanentProgressError (Errorf ''non-case decision has a case-scoped knowledge receipt''))
        else ret (\<lparr>cp_TurnID = cdr_TurnID rec, cp_DecisionID = [], cp_CaseID = [],
            cp_Status = CaseProgressNotApplicable, cp_EventID = [], cp_EventKind = []\<rparr>, None))
      else (case cdr_Decision rec of
          None \<Rightarrow> throw (PermanentProgressError (Errorf ''case progress decision and knowledge identities disagree''))
        | Some d \<Rightarrow>
            if kr_Status knowledge \<noteq> KnowledgeCommitted \<or> kr_DecisionID knowledge \<noteq> cd_DecisionID d
            then throw (PermanentProgressError (Errorf ''case progress decision and knowledge identities disagree''))
            else bindM (decisionEventKind g d) (\<lambda>kind. ret (progressFor (cdr_TurnID rec) d kind))))"

section \<open>Processing a turn\<close>

definition readProgressTurn :: "'w Progressor \<Rightarrow> string \<Rightarrow> ('w, EntityState) M" where
  "readProgressTurn g turnEntityID =
     bindM (mapErr (\<lambda>err. if errors_Is err ErrEntityNotFound then ProgressTurnMissing turnEntityID err
           else Wrapf ''read progress turn'' err)
         (gs_GetEntity (cpg_graph g) turnEntityID)) (\<lambda>st.
     if esID st \<noteq> turnEntityID then throw (ProgressTurnMissing turnEntityID ErrEntityNotFound) else ret st)"

definition permanentR :: "gerror + 'a \<Rightarrow> ('w, 'a) M" where
  "permanentR r = liftR (map_sum PermanentProgressError id r)"

text \<open>The two artifacts the turn references, read and checked.\<close>

definition readArtifacts ::
    "ext \<Rightarrow> 'w Progressor \<Rightarrow> string \<Rightarrow> EntityState \<Rightarrow> ('w, CaseDecisionRecord \<times> KnowledgeReceipt) M" where
  "readArtifacts X g turnID st =
     bindM (permanentR (requiredRef X g st TurnCaseDecisionRef turnID)) (\<lambda>decisionRef.
     bindM (permanentR (requiredRef X g st TurnKnowledgeRef turnID)) (\<lambda>knowledgeRef.
     bindM (mapErr (artifactError ''read case decision for progress'') (cpg_GetCaseDecisionRecord g decisionRef)) (\<lambda>dr.
     bindM (mapErr (artifactError ''read knowledge receipt for progress'') (cpg_GetKnowledgeReceipt g knowledgeRef)) (\<lambda>kr.
     case (dr, kr) of
       (Some rec, Some knowledge) \<Rightarrow>
         checkM (map_option (\<lambda>e. PermanentProgressError (Wrapf ''case decision for progress'' e))
             (CaseDecisionRecord_Validate X rec))
         (checkM (map_option (\<lambda>e. PermanentProgressError (Wrapf ''knowledge receipt for progress'' e))
             (KnowledgeReceipt_Validate X (Some knowledge)))
         (if cdr_TurnID rec \<noteq> turnID \<or> kr_TurnID knowledge \<noteq> turnID
          then throw (PermanentProgressError (Errorf ''progress artifact identity does not match turn''))
          else ret (rec, knowledge)))
     | _ \<Rightarrow> throw (PermanentProgressError (Errorf ''case progress artifact store returned nil''))))))"

text \<open>A turn that already names its progress: the resident record must be the derived one.\<close>

definition confirmResident ::
    "ext \<Rightarrow> 'w Progressor \<Rightarrow> string \<Rightarrow> string list \<Rightarrow> CaseProgressRecord \<Rightarrow> ('w, Ref) M" where
  "confirmResident X g turnID resident expected =
     (case resident of
        [v] \<Rightarrow>
          bindM (permanentR (exactRef X g v TurnCaseProgressRef turnID)) (\<lambda>ref.
          bindM (mapErr (artifactError ''read resident case progress'') (cpg_GetCaseProgressRecord g ref)) (\<lambda>r.
          case r of
            None \<Rightarrow> throw (PermanentProgressError (Errorf ''resident case progress store returned nil''))
          | Some rec \<Rightarrow>
              checkM (map_option (\<lambda>e. PermanentProgressError (Wrapf ''resident case progress'' e))
                  (CaseProgressRecord_Validate X (Some rec)))
              (if rec \<noteq> expected
               then throw (PermanentProgressError
                 (Errorf ''resident case progress does not match the canonical decision and knowledge''))
               else ret ref)))
      | _ \<Rightarrow> throw (PermanentProgressError (Errorf ''turn carries several case progress references'')))"

definition isCaseOrderError :: "gerror \<Rightarrow> bool" where
  "isCaseOrderError err =
     (errors_As (\<lambda>e. case e of CaseOrderError _ _ _ _ _ \<Rightarrow> Some () | _ \<Rightarrow> None) err \<noteq> None)"

definition recordEvent :: "'w Progressor \<Rightarrow> TransitionRequest option \<Rightarrow> ('w, unit) M" where
  "recordEvent g event =
     (case event of
        None \<Rightarrow> ret ()
      | Some q \<Rightarrow>
          bindM (mapErr (\<lambda>err. if isCaseOrderError err \<or> errors_Is err ErrEntityNotFound
                then PermanentProgressError (Wrapf ''record deterministic case progress'' err)
                else Wrapf ''record deterministic case progress'' err)
              (cpg_recorder g q)) (\<lambda>_. ret ()))"

definition landProgress ::
    "'w Progressor \<Rightarrow> string \<Rightarrow> CaseProgressRecord \<Rightarrow> ('w, Ref) M" where
  "landProgress g turnEntityID expected =
     bindM (mapErr (artifactError ''store case progress'') (cpg_PutCaseProgressRecord g turnEntityID expected)) (\<lambda>ref.
     bindM (progress_now g) (\<lambda>at.
     bindM (mapErr (Wrapf ''land case progress reference last'')
         (gs_Reconcile (cpg_graph g) TurnCaseProgress turnEntityID
            [receiptTriple turnEntityID TurnCaseProgressRef (Ref_String ref) at])) (\<lambda>_.
     ret ref)))"

definition Process :: "ext \<Rightarrow> 'w Progressor \<Rightarrow> string \<Rightarrow> string \<Rightarrow> ('w, Ref) M" where
  "Process X g turnID turnEntityID =
     checkM (map_option PermanentProgressError (RequireTurnEntityID X turnID turnEntityID))
     (bindM (readProgressTurn g turnEntityID) (\<lambda>st.
      bindM (permanentR (progress_objects st TurnCaseProgressRef)) (\<lambda>resident.
      bindM (readArtifacts X g turnID st) (\<lambda>(rec, knowledge).
      bindM (progress_derive g rec knowledge) (\<lambda>(expected, event).
      if resident \<noteq> [] then confirmResident X g turnID resident expected
      else bindM (recordEvent g event) (\<lambda>_. landProgress g turnEntityID expected))))))"

section \<open>The consumer\<close>

definition DefaultProgressAckWait :: int where "DefaultProgressAckWait = 30 * 10 ^ 9"
definition DefaultProgressHeartbeat :: int where "DefaultProgressHeartbeat = 10 * 10 ^ 9"

record 'w ProgressConsumer =
  cpc_handler :: "string \<Rightarrow> string \<Rightarrow> ('w, Ref) M"
  cpc_failer :: "'w TurnFailer"
  cpc_owner :: Identity

definition NewProgressConsumer :: "ext \<Rightarrow> 'w ProgressConsumer \<Rightarrow> gerror + 'w ProgressConsumer" where
  "NewProgressConsumer X c =
     (case Identity_Validate X (cpc_owner c) of
        Some err \<Rightarrow> Inl (Wrapf ''case progress consumer owner'' err)
      | None \<Rightarrow> Inr c)"

definition progressConsumerConfig :: StreamConsumerConfig where
  "progressConsumerConfig =
     \<lparr>scc_StreamName = StageStream, scc_ConsumerName = CaseProgressConsumerName,
      scc_FilterSubject = SubjectCaseProgress, scc_DeliverPolicy = ''all'', scc_AckPolicy = ''explicit'',
      scc_MaxDeliver = 0, scc_AckWait = DefaultProgressAckWait\<rparr>"

definition isPermanentProgress :: "gerror \<Rightarrow> bool" where
  "isPermanentProgress err =
     (errors_As (\<lambda>e. case e of PermanentProgressError _ \<Rightarrow> Some () | _ \<Rightarrow> None) err \<noteq> None)"

definition isProgressTurnMissing :: "gerror \<Rightarrow> bool" where
  "isProgressTurnMissing err =
     (errors_As (\<lambda>e. case e of ProgressTurnMissing _ _ \<Rightarrow> Some () | _ \<Rightarrow> None) err \<noteq> None)"

definition failProgress :: "'w ProgressConsumer \<Rightarrow> Trigger \<Rightarrow> ('w, unit) M" where
  "failProgress c trigger =
     bindM (mapErr (\<lambda>failErr. if errors_Is failErr ErrEntityNotFound
           then TerminateDelivery (Wrapf ''invalid case progress turn disappeared before failure recording'' failErr)
           else Wrapf ''durably fail invalid case progress turn'' failErr)
         (cpc_failer c (tg_TurnID trigger) (tg_TurnEntityID trigger) FailureCaseProgressInvalid zeroRef)) (\<lambda>_. ret ())"

definition ProgressConsumer_Handle ::
    "ext \<Rightarrow> (string \<Rightarrow> gerror + string \<times> string) \<Rightarrow> 'w ProgressConsumer \<Rightarrow> string \<Rightarrow> ('w, unit) M" where
  "ProgressConsumer_Handle X decode c data =
     (case ParseTrigger X decode data of
        Inl err \<Rightarrow> throw (TerminateDelivery err)
      | Inr trigger \<Rightarrow>
        if tg_Subject trigger \<noteq> SubjectCaseProgress
        then throw (TerminateDelivery (Errorf ''case progress durable received another subject''))
        else (case EntityID X (cpc_owner c) (tg_TurnID trigger) of
            Inl err \<Rightarrow> throw (TerminateDelivery (Wrapf ''case progress trigger identity'' err))
          | Inr owned \<Rightarrow>
            if tg_TurnEntityID trigger \<noteq> owned
            then throw (TerminateDelivery (Errorf ''case progress trigger belongs outside owning world''))
            else tryM (cpc_handler c (tg_TurnID trigger) (tg_TurnEntityID trigger)) (\<lambda>r. case r of
                Inr _ \<Rightarrow> ret ()
              | Inl err \<Rightarrow>
                  if isProgressTurnMissing err then throw (TerminateDelivery err)
                  else if isPermanentProgress err then failProgress c trigger
                  else throw (Wrapf ''process deterministic case progress'' err))))"

section \<open>Deterministic identities are never empty\<close>

lemma framedID_ne [simp]: "framedID ps \<noteq> []" "CaseProgressEventID t d k \<noteq> []"
  by (simp_all add: framedID_def sha256_ne CaseProgressEventID_def)

lemma CaseDecision_Validate_ids:
  assumes "CaseDecision_Validate X d = None"
  shows "cd_DecisionID d \<noteq> []" and "ValidateEntityID X (cd_CaseID d) = None" and "cd_CaseID d \<noteq> []"
  using assms by (simp_all add: CaseDecision_Validate_def requireEntityID_def CaseDecisionID_def deterministicID_def sha256_ne)

section \<open>What is derived\<close>

lemma decisionEventKind_Inr:
  assumes "decisionEventKind g d w = (Inr kind, w')"
  shows "kind = [] \<or> kind = CaseEventBodyObserved \<and> cd_Kind d = CaseDecisionObserve
    \<or> kind = CaseEventInvestigationStarted \<and> cd_Kind d = CaseDecisionInvestigate"
  using assms
  by (auto simp: decisionEventKind_def observedKind_def bindM_Inr split: if_splits sum.splits list.splits)

lemma observedKind_victim:
  assumes "observedKind g d w = (Inr kind, w')"
  obtains st victim w1 where "gs_GetEntity (cpg_graph g) (cd_CaseID d) w = (Inr st, w1)"
    "progress_objects st CaseMemberVictim = Inr [victim]"
    "kind = (if victim \<in> set (cd_TargetRefs d) then CaseEventBodyObserved else [])"
  using assms by (auto simp: observedKind_def bindM_Inr split: if_splits sum.splits list.splits)

lemma progress_kinds:
  "CaseEventBodyObserved \<noteq> []" "CaseEventInvestigationStarted \<noteq> []"
  "CaseProgressEventRecorded \<noteq> CaseProgressNotApplicable"
  "\<exists>x. ParseCaseLifecycleEventKind CaseEventBodyObserved = Inr x"
  "\<exists>x. ParseCaseLifecycleEventKind CaseEventInvestigationStarted = Inr x"
  "edgeFor CaseEventBodyObserved \<noteq> None" "edgeFor CaseEventInvestigationStarted \<noteq> None"
  by (simp_all add: vocab_strings artifact_names edgeFor_def ParseCaseLifecycleEventKind_def
      caseLifecycleEventKindEnum_def enum_ops)

lemma progress_derive_Inr:
  assumes "progress_derive g rec knowledge w = (Inr (expected, event), w')"
  obtains (none) "cdr_Status rec = CaseDecisionStatusNotApplicable" "kr_Status knowledge = KnowledgeNotApplicable"
      "event = None" "expected = \<lparr>cp_TurnID = cdr_TurnID rec, cp_DecisionID = [], cp_CaseID = [],
            cp_Status = CaseProgressNotApplicable, cp_EventID = [], cp_EventKind = []\<rparr>"
    | (decided) d kind where "cdr_Decision rec = Some d" "kr_DecisionID knowledge = cd_DecisionID d"
      "cdr_Status rec \<noteq> CaseDecisionStatusNotApplicable"
      "decisionEventKind g d w = (Inr kind, w')" "(expected, event) = progressFor (cdr_TurnID rec) d kind"
  using assms
  by (auto simp: progress_derive_def bindM_Inr split: if_splits option.splits)

lemma progress_derive_valid:
  assumes "progress_derive g rec knowledge w = (Inr (expected, event), w')" and "CaseDecisionRecord_Validate X rec = None"
  shows "CaseProgressRecord_Validate X (Some expected) = None"
proof -
  have turn: "ValidateIDSegment X (cdr_TurnID rec) = None"
  proof -
    have "requireIDSegment X ''turn_id'' (cdr_TurnID rec) = None"
      using assms(2) unfolding CaseDecisionRecord_Validate_def firstErr_None_iff by (meson list.set_intros(1))
    then show ?thesis by (simp add: requireIDSegment_def)
  qed
  from assms(1) show ?thesis
  proof (cases rule: progress_derive_Inr)
    case none
    then show ?thesis using turn by (simp add: CaseProgressRecord_Validate_def artifact_names)
  next
    case (decided d kind)
    have "CaseDecision_Validate X d = None"
      using assms(2) decided(1,3) by (auto simp: CaseDecisionRecord_Validate_def split: if_splits)
    note d = CaseDecision_Validate_ids [OF this]
    from decisionEventKind_Inr [OF decided(4)] decided(5) turn d progress_kinds show ?thesis
      by (auto simp: CaseProgressRecord_Validate_def progressFor_def Let_def)
  qed
qed

lemma progress_derive_event:
  assumes "progress_derive g rec knowledge w = (Inr (expected, Some q), w')"
  obtains d a b where "cdr_Decision rec = Some d" "rq_CaseEntityID q = cd_CaseID d" "rq_EventID q = cp_EventID expected"
    "rq_EventID q = CaseProgressEventID (cdr_TurnID rec) (cd_DecisionID d) (rq_Kind q)"
    "edgeFor (rq_Kind q) = Some (a, b)"
    "rq_Kind q = CaseEventBodyObserved \<and> cd_Kind d = CaseDecisionObserve
     \<or> rq_Kind q = CaseEventInvestigationStarted \<and> cd_Kind d = CaseDecisionInvestigate"
  using assms
proof (cases rule: progress_derive_Inr)
  case none
  then show thesis by simp
next
  case (decided d kind)
  with decisionEventKind_Inr [OF decided(4)] progress_kinds that [OF decided(1)] show thesis
    by (auto simp: progressFor_def Let_def split: if_splits)
qed

lemma readArtifacts_Inr:
  assumes "readArtifacts X g turnID st w = (Inr (rec, kn), w')"
  shows "CaseDecisionRecord_Validate X rec = None" and "KnowledgeReceipt_Validate X (Some kn) = None"
    and "cdr_TurnID rec = turnID" and "kr_TurnID kn = turnID"
  using assms
  by (auto simp: readArtifacts_def bindM_Inr checkM_eq split: option.splits if_splits)

section \<open>The reference lands last\<close>

lemma Predicates_progress: "set (Predicates TurnCaseProgress) = {TurnCaseProgressRef}"
  by code_simp

lemma progress_not_receipt: "TurnCaseProgressRef \<notin> set receiptPredicates"
  by (simp add: receiptPredicates_def pred_strings)

text \<open>What the graph shows of an event once the recorder accepted it.\<close>

definition settled :: "('w \<Rightarrow> string \<Rightarrow> EntityState option) \<Rightarrow> 'w \<Rightarrow> 'w \<Rightarrow> TransitionRequest \<Rightarrow> bool" where
  "settled ents w w' q =
     (\<exists>a b. edgeFor (rq_Kind q) = Some (a, b)
        \<and> ((\<exists>st. ents w (rq_CaseEntityID q) = Some st \<and> receiptStep q a st = Keep)
           \<or> (\<forall>p \<in> set receiptPredicates. objs ents w' (rq_CaseEntityID q) p = {#AString (receiptFact q a b p)#})))"

locale case_progressor = receipt_recorder X S ents r for X and S :: "'w GraphStore" and ents and r +
  fixes g :: "'w Progressor"
  assumes progress_store: "cpg_graph g = S" and progress_recorder: "cpg_recorder g = Record r"
    and decision_frame: "cpg_GetCaseDecisionRecord g ref w = (x, w') \<Longrightarrow> ents w' = ents w"
    and knowledge_frame: "cpg_GetKnowledgeReceipt g ref w = (y, w') \<Longrightarrow> ents w' = ents w"
    and progress_frame: "cpg_GetCaseProgressRecord g ref w = (z, w') \<Longrightarrow> ents w' = ents w"
    and put_frame: "cpg_PutCaseProgressRecord g i rec w = (u, w') \<Longrightarrow> ents w' = ents w"
    and progress_clock: "cpg_now g w = (t, w') \<Longrightarrow> ents w' = ents w"
begin

abbreviation same :: "'w \<Rightarrow> 'w \<Rightarrow> bool" where "same \<equiv> \<lambda>w w'. ents w' = ents w"

lemma same_trans: "transp same" and same_refl: "reflp same"
  by (auto simp: transp_def reflp_def)

lemma reads_keep:
  "keeps same (readProgressTurn g i)" "keeps same (readArtifacts X g t st)" "keeps same (progress_derive g rec kn)"
  "keeps same (confirmResident X g t vs expected)"
proof -
  have get: "keeps same (gs_GetEntity (cpg_graph g) i)" for i
    using get_frame by (auto simp: keeps_def progress_store)
  have art: "keeps same (cpg_GetCaseDecisionRecord g ref)" "keeps same (cpg_GetKnowledgeReceipt g ref)"
    "keeps same (cpg_GetCaseProgressRecord g ref)" for ref
    using decision_frame knowledge_frame progress_frame by (auto simp: keeps_def)
  note intros = keeps_bindM keeps_mapErr keeps_checkM keeps_pure get art same_trans same_refl
  show "keeps same (readProgressTurn g i)" unfolding readProgressTurn_def by (auto intro!: intros)
  show "keeps same (readArtifacts X g t st)"
    unfolding readArtifacts_def permanentR_def by (auto intro!: intros split: option.split)
  show "keeps same (confirmResident X g t vs expected)"
    unfolding confirmResident_def permanentR_def by (auto intro!: intros split: option.split list.split)
  have "keeps same (observedKind g d)" for d
    unfolding observedKind_def by (auto intro!: intros split: sum.split list.split)
  then have "keeps same (decisionEventKind g d)" for d
    unfolding decisionEventKind_def by (auto intro!: intros)
  then show "keeps same (progress_derive g rec kn)"
    unfolding progress_derive_def by (auto intro!: intros split: option.split)
qed

lemma recordEvent_cases:
  assumes "recordEvent g event w = (res, w')"
  shows "\<forall>i p. p \<notin> set receiptPredicates \<longrightarrow> objs ents w' i p = objs ents w i p"
    and "res = Inr () \<Longrightarrow> event = Some q \<Longrightarrow> settled ents w w' q"
proof -
  have "(\<forall>i p. p \<notin> set receiptPredicates \<longrightarrow> objs ents w' i p = objs ents w i p)
      \<and> (res = Inr () \<longrightarrow> event = Some q \<longrightarrow> settled ents w w' q)"
  proof (cases event)
    case None
    with assms show ?thesis by (simp add: recordEvent_def ret_def)
  next
    case (Some q')
    with assms obtain out where run: "Record r q' w = (out, w')" and res: "(res = Inr ()) = (\<exists>y. out = Inr y)"
      by (auto simp: recordEvent_def progress_recorder bindM_def mapErr_def ret_def split: prod.splits sum.splits)
    from run show ?thesis
    proof (cases rule: Record_cases)
      case (refused err)
      with res show ?thesis by (simp add: graphOf_def)
    next
      case (kept a b st)
      then show ?thesis unfolding settled_def using Some by (auto simp: graphOf_def)
    next
      case (written a b st)
      then show ?thesis unfolding settled_def using Some by auto
    qed
  qed
  then show "\<forall>i p. p \<notin> set receiptPredicates \<longrightarrow> objs ents w' i p = objs ents w i p"
    "res = Inr () \<Longrightarrow> event = Some q \<Longrightarrow> settled ents w w' q" by blast+
qed

lemma landProgress_cases:
  assumes "landProgress g turn expected w = (res, w')"
  obtains (kept) err where "res = Inl err" "ents w' = ents w"
    | (landed) ref w1 where "cpg_PutCaseProgressRecord g turn expected w = (Inr ref, w1)"
        "res = Inr ref \<or> (\<exists>err. res = Inl err)"
        "\<And>i p. objs ents w' i p = (if i = turn \<and> p = TurnCaseProgressRef
            then {#AString (Ref_String ref)#} else objs ents w i p)"
proof (cases "cpg_PutCaseProgressRecord g turn expected w")
  case (Pair x w1)
  have w1: "ents w1 = ents w" using put_frame [OF Pair] .
  show thesis
  proof (cases x)
    case (Inl e)
    with assms Pair w1 show thesis by (intro kept [of "artifactError ''store case progress'' e"]) (auto simp: landProgress_def bindM_def mapErr_def)
  next
    case (Inr ref)
    obtain t w2 where now: "cpg_now g w1 = (t, w2)" by fastforce
    let ?ts = "[receiptTriple turn TurnCaseProgressRef (Ref_String ref) t]"
    obtain h w3 where put: "gs_Reconcile S TurnCaseProgress turn ?ts w2 = (h, w3)" by fastforce
    have w2: "ents w2 = ents w" using progress_clock [OF now] w1 by simp
    have out: "w' = w3" "res = (case h of Inl e \<Rightarrow> Inl (Wrapf ''land case progress reference last'' e) | Inr _ \<Rightarrow> Inr ref)"
      using assms Pair Inr now put
      by (auto simp: landProgress_def bindM_def mapErr_def progress_store progress_now_def ret_def split: sum.splits)
    have ts: "objectsIn ?ts p = (if p = TurnCaseProgressRef then [AString (Ref_String ref)] else [])" for p
      by (simp add: receiptTriple_def)
    show thesis
    proof (cases "ents w3 = ents w2 \<and> (\<exists>err. h = Inl err)")
      case True
      then obtain err where "h = Inl err" "ents w3 = ents w2" by blast
      with out w2 show thesis by (intro kept [of "Wrapf ''land case progress reference last'' err"]) auto
    next
      case False
      with put_cases [OF put] have "objs ents w3 i p = (if i = turn \<and> p = TurnCaseProgressRef
          then {#AString (Ref_String ref)#} else objs ents w i p)" for i p
        by (auto simp: Predicates_progress ts w2 simp del: objectsIn.simps)
      with out show thesis by (intro landed [OF Pair [unfolded Inr]]) (auto split: sum.splits)
    qed
  qed
qed

lemma keep_step:
  assumes "bindM m f w = (res, w')" and "keeps same m"
  obtains (failed) err where "res = Inl err" "ents w' = ents w"
    | (ran) x w1 where "m w = (Inr x, w1)" "ents w1 = ents w" "f x w1 = (res, w')"
  using assms(1)
proof (cases rule: bindM_cases)
  case (Inl e)
  with keepsD [OF assms(2)] failed show thesis by auto
next
  case (Inr x w1)
  with keepsD [OF assms(2)] ran show thesis by auto
qed

lemma Process_cases:
  assumes "Process X g turnID turn w = (res, w')"
  obtains (still) "ents w' = ents w"
    | (stopped) err where "res = Inl err" "\<And>i p. p \<notin> set receiptPredicates \<Longrightarrow> objs ents w' i p = objs ents w i p"
    | (landed) st rec kn expected event ref w1 w2 w3 w4 w5 where
        "readArtifacts X g turnID st w1 = (Inr (rec, kn), w2)"
        "progress_derive g rec kn w2 = (Inr (expected, event), w3)"
        "cpg_PutCaseProgressRecord g turn expected w4 = (Inr ref, w5)"
        "res = Inr ref \<or> (\<exists>err. res = Inl err)"
        "objs ents w' turn TurnCaseProgressRef = {#AString (Ref_String ref)#}"
        "\<And>q. event = Some q \<Longrightarrow> settled ents w w' q"
        "\<And>i p. p \<notin> set receiptPredicates \<Longrightarrow> \<not> (i = turn \<and> p = TurnCaseProgressRef) \<Longrightarrow> objs ents w' i p = objs ents w i p"
proof (cases "RequireTurnEntityID X turnID turn")
  case (Some e)
  with assms still show thesis by (simp add: Process_def)
next
  case None
  with assms have run: "bindM (readProgressTurn g turn) (\<lambda>st.
      bindM (permanentR (progress_objects st TurnCaseProgressRef)) (\<lambda>resident.
      bindM (readArtifacts X g turnID st) (\<lambda>(rec, knowledge).
      bindM (progress_derive g rec knowledge) (\<lambda>(expected, event).
      if resident \<noteq> [] then confirmResident X g turnID resident expected
      else bindM (recordEvent g event) (\<lambda>_. landProgress g turn expected))))) w = (res, w')"
    by (simp add: Process_def)
  have lift: "keeps same (permanentR q)" for q :: "gerror + string list"
    unfolding permanentR_def by (auto simp: same_refl)
  from run reads_keep(1) show thesis
  proof (cases rule: keep_step)
    case (ran st w1)
    from ran(3) lift show thesis
    proof (cases rule: keep_step)
      case ran2: (ran resident w2)
      from ran2(3) reads_keep(2) show thesis
      proof (cases rule: keep_step)
        case ran3: (ran x w3)
        obtain rec kn where x: "x = (rec, kn)" by (cases x)
        from ran3(3) [unfolded x prod.case] reads_keep(3) show thesis
        proof (cases rule: keep_step)
          case ran4: (ran y w4)
          obtain expected event where y: "y = (expected, event)" by (cases y)
          have w4: "ents w4 = ents w" using ran(2) ran2(2) ran3(2) ran4(2) by simp
          show thesis
          proof (cases "resident \<noteq> []")
            case True
            with ran4(3) y have "confirmResident X g turnID resident expected w4 = (res, w')" by simp
            from keepsD [OF reads_keep(4) this] w4 still show thesis by simp
          next
            case False
            with ran4(3) y have "bindM (recordEvent g event) (\<lambda>_. landProgress g turn expected) w4 = (res, w')" by simp
            then show thesis
            proof (cases rule: bindM_cases)
              case (Inl e)
              from recordEvent_cases(1) [OF Inl(1)] w4 Inl(2) stopped show thesis by simp
            next
              case (Inr u w5)
              note ev = recordEvent_cases [OF Inr(1)]
              from Inr(2) show thesis
              proof (cases rule: landProgress_cases)
                case (kept err)
                with ev(1) w4 stopped show thesis by simp
              next
                case (landed ref w6)
                have "settled ents w w' q" if "event = Some q" for q
                proof -
                  have "settled ents w4 w5 q" using ev(2) that by simp
                  then show ?thesis using landed(3) progress_not_receipt unfolding settled_def w4 by fastforce
                qed
                with landed w4 ev(1) show thesis
                  by (intro that(3) [OF ran3(1) [unfolded x] ran4(1) [unfolded y] landed(1)]) auto
              qed
            qed
          qed
        next
          case (failed err)
          with ran(2) ran2(2) ran3(2) still show thesis by simp
        qed
      next
        case (failed err)
        with ran(2) ran2(2) still show thesis by simp
      qed
    next
      case (failed err)
      with ran(2) still show thesis by simp
    qed
  next
    case (failed err)
    with still show thesis by simp
  qed
qed

end

end
