(* ===== verification/Accusation.thy ===== *)
theory Accusation
  imports Epistemic_Sealed Case_Progress
begin

text \<open>
  \<^verbatim>\<open>internal/accusation\<close>, the half that reads: the verifier (\<^verbatim>\<open>verifier.go\<close>), the
  preflight of an accusation (\<^verbatim>\<open>loader.go\<close>), the authorizer of the denouement
  (\<^verbatim>\<open>authorizer.go\<close>) and the router of narration (\<^verbatim>\<open>router.go\<close>). The graph, the record
  stores and the projector are fields. \<^verbatim>\<open>integrity\<close> formats its cause with \<^verbatim>\<open>%v\<close>, so an integrity
  error wraps no other.
\<close>

section \<open>Verification\<close>

definition Verify :: "ext \<Rightarrow> CaseDecision option \<Rightarrow> Solution \<Rightarrow> gerror + AccusationResult" where
  "Verify X decision solution =
     (case decision of
        None \<Rightarrow> Inl (Errorf ''accusation verification requires a decision'')
      | Some d \<Rightarrow>
          (case CaseDecision_Validate X d of
             Some err \<Rightarrow> Inl (Wrapf ''invalid accusation decision'' err)
           | None \<Rightarrow>
               if cd_Kind d \<noteq> CaseDecisionAccuse then Inl (Errorf ''decision is not accuse'')
               else Inr
                 \<lparr>ar_ResultID = AccusationResultID (cd_TurnID d) (cd_CaseID d) (cd_DecisionID d),
                  ar_TurnID = cd_TurnID d, ar_CaseID = cd_CaseID d, ar_DecisionID = cd_DecisionID d,
                  ar_Outcome =
                    (if cd_CulpritRef d = so_Culprit solution \<and> cd_MethodRef d = so_Method solution
                       \<and> cd_MotiveRef d = so_Motive solution
                     then AccusationCorrect else AccusationIncorrect)\<rparr>))"

section \<open>The preflight\<close>

definition integrity :: "string \<Rightarrow> gerror" where
  "integrity s = IntegrityError (Errorf s)"

fun ownStrings :: "string \<Rightarrow> Triple list \<Rightarrow> Predicate \<Rightarrow> gerror + string list" where
  "ownStrings i [] predicate = Inr []"
| "ownStrings i (t # ts) predicate =
     (if trSubject t = i \<and> trPredicate t = predicate
      then (case trObject t of
          AString v \<Rightarrow> map_sum id ((#) v) (ownStrings i ts predicate)
        | _ \<Rightarrow> Inl (Errorf ''predicate is not a string''))
      else ownStrings i ts predicate)"

definition accusation_soleObject :: "EntityState \<Rightarrow> Predicate \<Rightarrow> gerror + string" where
  "accusation_soleObject st predicate =
     (case ownStrings (esID st) (esTriples st) predicate of
        Inl err \<Rightarrow> Inl err
      | Inr [v] \<Rightarrow> Inr v
      | Inr _ \<Rightarrow> Inl (Errorf ''entity holds another number of values than one''))"

definition permanentArtifactError :: "gerror \<Rightarrow> bool" where
  "permanentArtifactError err =
     (errors_Is err ErrArtifactNotFound \<or> errors_Is err ErrArtifactReference \<or> errors_Is err ErrArtifactCorrupt)"

record accusation_Preflight =
  apf_TurnEntityID :: string
  apf_TurnID :: string
  apf_Applicable :: bool
  apf_CaseID :: string
  apf_CasePhase :: CasePhase
  apf_Decision :: "CaseDecision option"
  apf_Solution :: Solution

record 'w accusation_Loader =
  al_GetEntity :: "string \<Rightarrow> ('w, EntityState) M"
  al_GetCaseDecisionRecord :: "Ref \<Rightarrow> ('w, CaseDecisionRecord option) M"
  al_Project :: "(AuthenticatedAudience \<Rightarrow> ('w, Projection option) M) option"
  al_caseID :: string

definition accusation_NewLoader :: "'w accusation_Loader \<Rightarrow> gerror + 'w accusation_Loader" where
  "accusation_NewLoader l =
     (if TrimSpace (al_caseID l) \<noteq> [] \<and> al_Project l = None
      then Inl (Errorf ''scoped accusation loader requires an epistemic projector'') else Inr l)"

definition notApplicable :: "string \<Rightarrow> string \<Rightarrow> CaseDecision option \<Rightarrow> accusation_Preflight" where
  "notApplicable turnEntityID turnID decision =
     \<lparr>apf_TurnEntityID = turnEntityID, apf_TurnID = turnID, apf_Applicable = False, apf_CaseID = [],
      apf_CasePhase = [], apf_Decision = decision,
      apf_Solution = \<lparr>so_Culprit = [], so_Method = [], so_Motive = []\<rparr>\<rparr>"

text \<open>The turn's own decision record, with the identity checks on it.\<close>

definition loadRecord :: "ext \<Rightarrow> 'w accusation_Loader \<Rightarrow> string \<Rightarrow> string \<Rightarrow> ('w, CaseDecisionRecord) M" where
  "loadRecord X l turnID turnEntityID =
     bindM (mapErr (\<lambda>err. if errors_Is err ErrEntityNotFound then AccusationTurnMissing turnEntityID err
           else Wrapf ''read accusation turn'' err) (al_GetEntity l turnEntityID)) (\<lambda>st.
     bindM (mapErr (\<lambda>_. integrity ''accusation decision reference'')
         (liftR (accusation_soleObject st TurnCaseDecisionRef))) (\<lambda>refText.
     bindM (mapErr (\<lambda>_. integrity ''accusation decision reference'') (liftR (ParseRef X refText))) (\<lambda>ref.
     if Inr (rf_Key ref) \<noteq> KeyFor X TurnCaseDecisionRef SubjectTurn turnID
     then throw (integrity ''decision reference is not the triggered turn's deterministic slot'')
     else bindM (mapErr (\<lambda>err. if permanentArtifactError err then integrity ''read accusation decision''
           else Wrapf ''read accusation decision'' err) (al_GetCaseDecisionRecord l ref)) (\<lambda>r. case r of
         None \<Rightarrow> throw (integrity ''decision store returned nil record'')
       | Some rec \<Rightarrow>
           checkM (map_option (\<lambda>_. integrity ''invalid accusation decision record'') (CaseDecisionRecord_Validate X rec))
           (if cdr_TurnID rec \<noteq> turnID then throw (integrity ''decision record belongs to a foreign turn'')
            else ret rec)))))"

definition loadCasePhase :: "'w accusation_Loader \<Rightarrow> ('w, CasePhase) M" where
  "loadCasePhase l =
     bindM (mapErr (\<lambda>err. if errors_Is err ErrEntityNotFound then integrity ''accusation case is missing''
           else Wrapf ''read accusation case'' err) (al_GetEntity l (al_caseID l))) (\<lambda>caseState.
     bindM (mapErr (\<lambda>_. integrity ''accusation case phase'')
         (liftR (accusation_soleObject caseState CaseLifecyclePhase))) (\<lambda>phaseText.
     mapErr (\<lambda>_. integrity ''accusation case phase'') (liftR (ParseCasePhase phaseText))))"

definition loadSolution ::
    "(AuthenticatedAudience \<Rightarrow> ('w, Projection option) M) \<Rightarrow> string \<Rightarrow> ('w, Solution) M" where
  "loadSolution via caseID =
     bindM (mapErr (Wrapf ''project canonical accusation solution'') (via (VerifierAudience caseID))) (\<lambda>r.
     case r of
       None \<Rightarrow> throw (integrity ''verifier projection returned no canonical solution'')
     | Some q \<Rightarrow>
         if pj_Purpose q \<noteq> PurposeVerifier \<or> \<not> pj_HasSolution q
         then throw (integrity ''verifier projection returned no canonical solution'')
         else ret (pj_Solution q))"

definition accusation_Load :: "ext \<Rightarrow> 'w accusation_Loader \<Rightarrow> string \<Rightarrow> ('w, accusation_Preflight) M" where
  "accusation_Load X l turnEntityID =
     (case splitOn CHR ''.'' turnEntityID of
        [_, _, _, _, kind, turnID] \<Rightarrow>
          if kind \<noteq> ''turn'' then throw (integrity ''accusation trigger names non-turn entity'')
          else checkM (map_option (\<lambda>_. integrity ''accusation trigger identity'') (RequireTurnEntityID X turnID turnEntityID))
           (bindM (loadRecord X l turnID turnEntityID) (\<lambda>rec.
            if cdr_Status rec = CaseDecisionStatusNotApplicable then ret (notApplicable turnEntityID turnID None)
            else (case cdr_Decision rec of
                None \<Rightarrow> throw (integrity ''decision record belongs to a foreign turn'')
              | Some d \<Rightarrow>
                  if cd_TurnID d \<noteq> turnID then throw (integrity ''decision record belongs to a foreign turn'')
                  else if cdr_ActionID rec \<noteq> cd_ActionID d
                  then throw (integrity ''decision record and decision name different actions'')
                  else if cd_Kind d \<noteq> CaseDecisionAccuse then ret (notApplicable turnEntityID turnID (Some d))
                  else (case al_Project l of
                      None \<Rightarrow> throw (integrity ''accusation decision belongs to a foreign or unscoped case'')
                    | Some via \<Rightarrow>
                        if al_caseID l = [] \<or> cd_CaseID d \<noteq> al_caseID l
                        then throw (integrity ''accusation decision belongs to a foreign or unscoped case'')
                        else bindM (loadCasePhase l) (\<lambda>phase.
                          bindM (loadSolution via (al_caseID l)) (\<lambda>solution.
                          ret \<lparr>apf_TurnEntityID = turnEntityID, apf_TurnID = turnID, apf_Applicable = True,
                               apf_CaseID = al_caseID l, apf_CasePhase = phase, apf_Decision = Some d,
                               apf_Solution = solution\<rparr>))))))
      | _ \<Rightarrow> throw (integrity ''accusation trigger names non-turn entity''))"

section \<open>The denouement authorizer\<close>

record 'w DenouementAuthorizer =
  da_GetEntity :: "string \<Rightarrow> ('w, EntityState) M"
  da_ByValue :: "string \<Rightarrow> string \<Rightarrow> int \<Rightarrow> ('w, string list) M"
  da_GetAccusationRecord :: "Ref \<Rightarrow> ('w, AccusationRecord option) M"

definition authorizedRef :: "ext \<Rightarrow> string \<Rightarrow> string \<Rightarrow> gerror + Ref" where
  "authorizedRef X turnID refText =
     (case ParseRef X refText of
        Inl err \<Rightarrow> Inl (Wrapf ''invalid denouement accusation reference'' err)
      | Inr ref \<Rightarrow>
          if Ref_IsZero ref then Inl (Errorf ''invalid denouement accusation reference: empty reference'')
          else if Inr (rf_Key ref) \<noteq> KeyFor X TurnAccusationRef SubjectTurn turnID
          then Inl (Errorf ''denouement accusation reference is not the turn's deterministic result slot'')
          else Inr ref)"

text \<open>The one turn that holds the reference, and that it is this turn.\<close>

definition holdingTurn :: "'w DenouementAuthorizer \<Rightarrow> string \<Rightarrow> string \<Rightarrow> ('w, string) M" where
  "holdingTurn a turnID refText =
     bindM (mapErr (Wrapf ''find turn holding accusation reference'') (da_ByValue a TurnAccusationRef refText 2)) (\<lambda>ids.
     case ids of
       [i] \<Rightarrow>
         (case splitOn CHR ''.'' i of
            [_, _, _, _, kind, inst] \<Rightarrow>
              if kind = ''turn'' \<and> inst = turnID then ret i
              else throw (Errorf ''accusation reference is committed on a foreign turn'')
          | _ \<Rightarrow> throw (Errorf ''accusation reference is committed on a foreign turn''))
     | _ \<Rightarrow> throw (Errorf ''accusation reference is held by another number of turns than one''))"

definition resultAuthorizes :: "ext \<Rightarrow> string \<Rightarrow> string \<Rightarrow> AccusationRecord option \<Rightarrow> gerror + bool" where
  "resultAuthorizes X turnID caseID r =
     (case r of
        None \<Rightarrow> Inl (Errorf ''accusation store returned nil record'')
      | Some rec \<Rightarrow>
          (case AccusationRecord_Validate X (Some rec) of
             Some err \<Rightarrow> Inl (Wrapf ''stored accusation record'' err)
           | None \<Rightarrow>
               (case acr_Result rec of
                  None \<Rightarrow> Inl (Errorf ''stored accusation record carries no result'')
                | Some result \<Rightarrow>
                    if acr_Status rec \<noteq> AccusationResultRecorded
                    then Inl (Errorf ''stored accusation record carries no result'')
                    else if ar_TurnID result \<noteq> turnID \<or> ar_CaseID result \<noteq> caseID
                      \<or> ar_Outcome result \<noteq> AccusationCorrect
                    then Inl (Errorf ''stored accusation result does not authorize this turn and case'')
                    else Inr True)))"

definition Authorized :: "ext \<Rightarrow> 'w DenouementAuthorizer \<Rightarrow> string \<Rightarrow> string \<Rightarrow> string \<Rightarrow> ('w, bool) M" where
  "Authorized X a turnID caseID refText =
     bindM (liftR (authorizedRef X turnID refText)) (\<lambda>ref.
     bindM (holdingTurn a turnID refText) (\<lambda>i.
     bindM (mapErr (Wrapf ''read accusation turn'') (da_GetEntity a i)) (\<lambda>st.
     if accusation_soleObject st TurnAccusationRef \<noteq> Inr refText
     then throw (Errorf ''turn does not hold the supplied accusation reference exactly'')
     else bindM (mapErr (Wrapf ''read denouement accusation record'') (da_GetAccusationRecord a ref)) (\<lambda>r.
       liftR (resultAuthorizes X turnID caseID r)))))"

section \<open>The narration router\<close>

record 'w NarrationRouter =
  nr_GetEntity :: "string \<Rightarrow> ('w, EntityState) M"
  nr_GetAccusationRecord :: "Ref \<Rightarrow> ('w, AccusationRecord option) M"
  nr_next :: "AuthenticatedAudience \<Rightarrow> ('w, Projection option) M"
  nr_caseID :: string

definition NewNarrationRouter :: "'w NarrationRouter \<Rightarrow> gerror + 'w NarrationRouter" where
  "NewNarrationRouter r =
     (if nr_caseID r = []
      then Inl (Errorf ''narration router requires graph, result store, projector, and scoped case'') else Inr r)"

text \<open>An object that is not a string makes the whole answer one text that is no reference.\<close>

fun ownStringObjects :: "string \<Rightarrow> Triple list \<Rightarrow> Predicate \<Rightarrow> string list option" where
  "ownStringObjects i [] predicate = Some []"
| "ownStringObjects i (t # ts) predicate =
     (if trSubject t = i \<and> trPredicate t = predicate
      then (case trObject t of AString v \<Rightarrow> map_option ((#) v) (ownStringObjects i ts predicate) | _ \<Rightarrow> None)
      else ownStringObjects i ts predicate)"

definition accusation_stringObjects :: "EntityState \<Rightarrow> Predicate \<Rightarrow> string list" where
  "accusation_stringObjects st predicate =
     (case ownStringObjects (esID st) (esTriples st) predicate of None \<Rightarrow> [''<non-string>''] | Some vs \<Rightarrow> vs)"

definition routeRecord ::
    "'w NarrationRouter \<Rightarrow> AuthenticatedAudience \<Rightarrow> Ref \<Rightarrow> AccusationRecord \<Rightarrow> gerror + AuthenticatedAudience" where
  "routeRecord r audience ref rec =
     (if acr_TurnID rec \<noteq> au_turnID audience
      then Inl (Errorf ''narration accusation result has foreign or mismatched identity'')
      else if acr_Status rec = AccusationNotApplicable then Inr audience
      else (case acr_Result rec of
          None \<Rightarrow> Inl (Errorf ''narration accusation result has foreign or mismatched identity'')
        | Some result \<Rightarrow>
            if ar_CaseID result \<noteq> nr_caseID r
            then Inl (Errorf ''narration accusation result has foreign or mismatched identity'')
            else if ar_Outcome result = AccusationIncorrect then Inr audience
            else if ar_Outcome result = AccusationCorrect
            then Inr (DenouementAudience (au_turnID audience) (au_turnEntityID audience) (nr_caseID r) (Ref_String ref))
            else Inl (Errorf ''narration accusation result has an unknown outcome'')))"

definition routeRef :: "ext \<Rightarrow> string \<Rightarrow> string list \<Rightarrow> gerror + Ref option" where
  "routeRef X turnID refs =
     (case refs of
        [] \<Rightarrow> Inr None
      | [v] \<Rightarrow>
          (case ParseRef X v of
             Inl _ \<Rightarrow> Inl (Errorf ''narration accusation reference is malformed'')
           | Inr ref \<Rightarrow>
               if Ref_IsZero ref then Inl (Errorf ''narration accusation reference is malformed'')
               else if Inr (rf_Key ref) \<noteq> KeyFor X TurnAccusationRef SubjectTurn turnID
               then Inl (Errorf ''narration accusation reference belongs to a foreign turn'')
               else Inr (Some ref))
      | _ \<Rightarrow> Inl (Errorf ''narration accusation state is partial or ambiguous''))"

definition NarrationRouter_Project ::
    "ext \<Rightarrow> 'w NarrationRouter \<Rightarrow> AuthenticatedAudience \<Rightarrow> ('w, Projection option) M" where
  "NarrationRouter_Project X r audience =
     (if au_purpose audience \<noteq> PurposeNarrator then nr_next r audience
      else bindM (mapErr (Wrapf ''route narration accusation state'') (nr_GetEntity r (au_turnEntityID audience))) (\<lambda>st.
        bindM (liftR (routeRef X (au_turnID audience) (accusation_stringObjects st TurnAccusationRef))) (\<lambda>x. case x of
          None \<Rightarrow> nr_next r audience
        | Some ref \<Rightarrow>
            bindM (mapErr (Wrapf ''read narration accusation record'') (nr_GetAccusationRecord r ref)) (\<lambda>y. case y of
              None \<Rightarrow> throw (Errorf ''accusation store returned nil narration record'')
            | Some rec \<Rightarrow>
                checkM (map_option (Wrapf ''narration accusation record'') (AccusationRecord_Validate X (Some rec)))
                (bindM (liftR (routeRecord r audience ref rec)) (nr_next r))))))"

section \<open>What is verified, and what opens the denouement\<close>

lemma Verify_Inr:
  assumes "Verify X (Some d) solution = Inr result"
  shows "ar_Outcome result = AccusationCorrect \<longleftrightarrow>
      \<lparr>so_Culprit = cd_CulpritRef d, so_Method = cd_MethodRef d, so_Motive = cd_MotiveRef d\<rparr> = solution"
    and "ar_TurnID result = cd_TurnID d \<and> ar_CaseID result = cd_CaseID d \<and> ar_DecisionID result = cd_DecisionID d"
    and "cd_Kind d = CaseDecisionAccuse" and "CaseDecision_Validate X d = None"
  using assms by (cases solution; auto simp: Verify_def case_names_set split: option.splits if_splits)+

lemma holdingTurn_Inr:
  assumes "holdingTurn a turnID refText w = (Inr i, w')"
  shows "last (splitOn CHR ''.'' i) = turnID"
proof -
  obtain ids w1 where "(case ids of
       [i] \<Rightarrow>
         (case splitOn CHR ''.'' i of
            [_, _, _, _, kind, inst] \<Rightarrow>
              if kind = ''turn'' \<and> inst = turnID then ret i
              else throw (Errorf ''accusation reference is committed on a foreign turn'')
          | _ \<Rightarrow> throw (Errorf ''accusation reference is committed on a foreign turn''))
     | _ \<Rightarrow> throw (Errorf ''accusation reference is held by another number of turns than one'')) w1 = (Inr i, w')"
    using assms unfolding holdingTurn_def bindM_Inr by blast
  then show ?thesis
    by (cases ids rule: remdups_adj.cases) (auto split: list.splits if_splits)
qed

lemma Authorized_Inr:
  assumes "Authorized X a turnID caseID refText w = (Inr b, w')"
  obtains ref i st rec result w1 w2 w3 where "b" "ParseRef X refText = Inr ref" "\<not> Ref_IsZero ref"
    "KeyFor X TurnAccusationRef SubjectTurn turnID = Inr (rf_Key ref)"
    "da_GetEntity a i w1 = (Inr st, w2)" "accusation_soleObject st TurnAccusationRef = Inr refText"
    "last (splitOn CHR ''.'' i) = turnID"
    "da_GetAccusationRecord a ref w2 = (Inr (Some rec), w3)" "AccusationRecord_Validate X (Some rec) = None"
    "acr_Result rec = Some result" "ar_Outcome result = AccusationCorrect" "ar_TurnID result = turnID" "ar_CaseID result = caseID"
proof -
  from assms obtain ref i w0 st w2 r where ref: "authorizedRef X turnID refText = Inr ref"
      and i: "holdingTurn a turnID refText w = (Inr i, w0)" and st: "da_GetEntity a i w0 = (Inr st, w2)"
      and sole: "accusation_soleObject st TurnAccusationRef = Inr refText"
      and r: "da_GetAccusationRecord a ref w2 = (Inr r, w')" "resultAuthorizes X turnID caseID r = Inr b"
    unfolding Authorized_def by (auto simp: bindM_Inr split: if_splits)
  from r(2) obtain rec result where rec: "r = Some rec" "AccusationRecord_Validate X (Some rec) = None"
      "acr_Result rec = Some result" "ar_Outcome result = AccusationCorrect" "ar_TurnID result = turnID"
      "ar_CaseID result = caseID" "b"
    by (auto simp: resultAuthorizes_def split: option.splits if_splits)
  from ref have parsed: "ParseRef X refText = Inr ref" "\<not> Ref_IsZero ref"
      "KeyFor X TurnAccusationRef SubjectTurn turnID = Inr (rf_Key ref)"
    by (auto simp: authorizedRef_def split: sum.splits if_splits)
  have "last (splitOn CHR ''.'' i) = turnID"
    using holdingTurn_Inr [OF i] .
  with parsed st sole r(1) rec that show thesis by blast
qed

text \<open>A router passes the denouement audience on only for a stored correct result of this turn and case.\<close>

lemma routeRecord_Inr:
  assumes "routeRecord r audience ref rec = Inr audience'"
  shows "audience' = audience \<or> (\<exists>result. acr_Result rec = Some result \<and> ar_Outcome result = AccusationCorrect
      \<and> ar_CaseID result = nr_caseID r \<and> acr_TurnID rec = au_turnID audience
      \<and> audience' = DenouementAudience (au_turnID audience) (au_turnEntityID audience) (nr_caseID r) (Ref_String ref))"
  using assms by (auto simp: routeRecord_def split: if_splits option.splits)

end
