(* ===== verification/Accusation_Commit.thy ===== *)
theory Accusation_Commit
  imports Accusation
begin

text \<open>
  \<^verbatim>\<open>internal/accusation\<close>, the half that writes: the committer of the result barrier
  (\<^verbatim>\<open>commit.go\<close>) and the durable consumer (\<^verbatim>\<open>consumer.go\<close>).
\<close>

section \<open>The committer\<close>

definition resultSource :: string where "resultSource = ''accusation-verifier''"

record 'w Committer =
  ac_graph :: "'w GraphStore"
  ac_PutAccusationRecord :: "string \<Rightarrow> AccusationRecord \<Rightarrow> ('w, Ref) M"
  ac_GetAccusationRecord :: "Ref \<Rightarrow> ('w, AccusationRecord option) M"
  ac_now :: "'w \<Rightarrow> time \<times> 'w"
  ac_ctxErr :: "nat \<Rightarrow> gerror option"

definition accusation_now :: "'w Committer \<Rightarrow> ('w, time) M" where
  "accusation_now c = (\<lambda>w. case ac_now c w of (t, w') \<Rightarrow> (Inr t, w'))"

definition resultTriple :: "string \<Rightarrow> Predicate \<Rightarrow> string \<Rightarrow> time \<Rightarrow> Triple" where
  "resultTriple subject predicate object at =
     \<lparr>trSubject = subject, trPredicate = predicate, trObject = AString object, trSource = resultSource,
      trTimestamp = at, trConfidence = f64_one, trContext = subject, trDatatype = [], trExpiresAt = None\<rparr>"

text \<open>A turn that already holds a reference: the resident record must be the one to commit.\<close>

definition confirmAccusation :: "ext \<Rightarrow> 'w Committer \<Rightarrow> string list \<Rightarrow> AccusationRecord \<Rightarrow> ('w, Ref) M" where
  "confirmAccusation X c refs rec =
     (case refs of
        [v] \<Rightarrow>
          bindM (mapErr (\<lambda>_. integrity ''resident accusation reference'') (liftR (ParseRef X v))) (\<lambda>ref.
          bindM (mapErr (\<lambda>err. if permanentArtifactError err then integrity ''resolve resident accusation record''
                else Wrapf ''resolve resident accusation record'' err) (ac_GetAccusationRecord c ref)) (\<lambda>resident.
          if resident \<noteq> Some rec
          then throw (integrity ''resident accusation record does not match deterministic retry'')
          else ret ref))
      | _ \<Rightarrow> throw (integrity ''resident accusation record is ambiguous''))"

definition writeBarrier :: "'w Committer \<Rightarrow> string \<Rightarrow> Ref \<Rightarrow> ('w, unit) M" where
  "writeBarrier c turnEntityID ref =
     bindM (accusation_now c) (\<lambda>at.
     mapErr (Wrapf ''record accusation barrier on turn'') (RetryRevisionConflict (ac_ctxErr c)
       (bindM (gs_Reconcile (ac_graph c) TurnAccusation turnEntityID
          [resultTriple turnEntityID TurnAccusationRef (Ref_String ref) at]) (\<lambda>_. ret ()))))"

definition accusation_Commit :: "ext \<Rightarrow> 'w Committer \<Rightarrow> string \<Rightarrow> AccusationRecord option \<Rightarrow> ('w, Ref) M" where
  "accusation_Commit X c turnEntityID r =
     (case r of
        None \<Rightarrow> throw (integrity ''accusation commit requires a record'')
      | Some rec \<Rightarrow>
          checkM (map_option (\<lambda>_. integrity ''invalid accusation record'') (AccusationRecord_Validate X (Some rec)))
          (checkM (map_option (\<lambda>_. integrity ''accusation record turn identity'')
              (RequireTurnEntityID X (acr_TurnID rec) turnEntityID))
          (bindM (mapErr (\<lambda>err. if errors_Is err ErrEntityNotFound
                then integrity ''accusation turn is missing during commit''
                else Wrapf ''read turn before accusation commit'' err) (gs_GetEntity (ac_graph c) turnEntityID)) (\<lambda>st.
           let refs = accusation_stringObjects st TurnAccusationRef in
           if 0 < length refs then confirmAccusation X c refs rec
           else bindM (mapErr (Wrapf ''store accusation record'') (ac_PutAccusationRecord c turnEntityID rec)) (\<lambda>ref.
             bindM (writeBarrier c turnEntityID ref) (\<lambda>_. ret ref))))))"

definition CommitResult :: "ext \<Rightarrow> 'w Committer \<Rightarrow> string \<Rightarrow> AccusationResult option \<Rightarrow> ('w, Ref) M" where
  "CommitResult X c turnEntityID r =
     (case r of
        None \<Rightarrow> throw (integrity ''accusation commit requires a result'')
      | Some result \<Rightarrow> accusation_Commit X c turnEntityID
          (Some \<lparr>acr_TurnID = ar_TurnID result, acr_Status = AccusationResultRecorded, acr_Result = Some result\<rparr>))"

definition CommitNotApplicable :: "ext \<Rightarrow> 'w Committer \<Rightarrow> string \<Rightarrow> string \<Rightarrow> ('w, Ref) M" where
  "CommitNotApplicable X c turnID turnEntityID =
     accusation_Commit X c turnEntityID
       (Some \<lparr>acr_TurnID = turnID, acr_Status = AccusationNotApplicable, acr_Result = None\<rparr>)"

section \<open>The consumer\<close>

record 'w AccusationConsumer =
  acc_Load :: "string \<Rightarrow> ('w, accusation_Preflight) M"
  acc_CommitResult :: "string \<Rightarrow> AccusationResult option \<Rightarrow> ('w, Ref) M"
  acc_CommitNotApplicable :: "string \<Rightarrow> string \<Rightarrow> ('w, Ref) M"
  acc_Record :: "TransitionRequest \<Rightarrow> ('w, ReceiptOutcome) M"
  acc_failer :: "'w TurnFailer"

definition accusation_DefaultAckWait :: int where "accusation_DefaultAckWait = 30 * 10 ^ 9"
definition accusation_DefaultHeartbeat :: int where "accusation_DefaultHeartbeat = 10 * 10 ^ 9"

definition accusationConsumerConfig :: StreamConsumerConfig where
  "accusationConsumerConfig =
     \<lparr>scc_StreamName = StageStream, scc_ConsumerName = AccusationConsumerName,
      scc_FilterSubject = SubjectAccusation, scc_DeliverPolicy = ''all'', scc_AckPolicy = ''explicit'',
      scc_MaxDeliver = 0, scc_AckWait = accusation_DefaultAckWait\<rparr>"

definition isIntegrityError :: "gerror \<Rightarrow> bool" where
  "isIntegrityError err = (errors_As (\<lambda>e. case e of IntegrityError _ \<Rightarrow> Some () | _ \<Rightarrow> None) err \<noteq> None)"

definition isAccusationTurnMissing :: "gerror \<Rightarrow> bool" where
  "isAccusationTurnMissing err =
     (errors_As (\<lambda>e. case e of AccusationTurnMissing _ _ \<Rightarrow> Some () | _ \<Rightarrow> None) err \<noteq> None)"

definition failInvalid :: "'w AccusationConsumer \<Rightarrow> Trigger \<Rightarrow> ('w, unit) M" where
  "failInvalid c trigger =
     bindM (mapErr (\<lambda>err. if errors_Is err ErrEntityNotFound then TerminateDelivery err
           else Wrapf ''durably fail invalid accusation turn'' err)
         (acc_failer c (tg_TurnID trigger) (tg_TurnEntityID trigger) FailureAccusationInvalid zeroRef)) (\<lambda>_. ret ())"

text \<open>An error that is an integrity error closes the turn, any other is retried.\<close>

definition closeOrRetry :: "'w AccusationConsumer \<Rightarrow> Trigger \<Rightarrow> string \<Rightarrow> gerror \<Rightarrow> ('w, unit) M" where
  "closeOrRetry c trigger what err =
     (if isIntegrityError err then failInvalid c trigger else throw (Wrapf what err))"

definition submitted :: "accusation_Preflight \<Rightarrow> CaseDecision \<Rightarrow> TransitionRequest" where
  "submitted loaded d =
     \<lparr>rq_CaseEntityID = apf_CaseID loaded, rq_EventID = cd_DecisionID d, rq_Kind = CaseEventAccusationSubmitted\<rparr>"

definition proven :: "accusation_Preflight \<Rightarrow> AccusationResult \<Rightarrow> TransitionRequest" where
  "proven loaded result =
     \<lparr>rq_CaseEntityID = apf_CaseID loaded, rq_EventID = ar_ResultID result, rq_Kind = CaseEventAccusationCorrect\<rparr>"

definition settleVerdict ::
    "ext \<Rightarrow> 'w AccusationConsumer \<Rightarrow> Trigger \<Rightarrow> accusation_Preflight \<Rightarrow> ('w, unit) M" where
  "settleVerdict X c trigger loaded =
     (case Verify X (apf_Decision loaded) (apf_Solution loaded) of
        Inl _ \<Rightarrow> failInvalid c trigger
      | Inr result \<Rightarrow>
          tryM (acc_CommitResult c (tg_TurnEntityID trigger) (Some result)) (\<lambda>r. case r of
            Inl err \<Rightarrow> closeOrRetry c trigger ''commit accusation result'' err
          | Inr _ \<Rightarrow>
              if ar_Outcome result = AccusationIncorrect then ret ()
              else bindM (mapErr (Wrapf ''record correct accusation'') (acc_Record c (proven loaded result))) (\<lambda>_. ret ())))"

text \<open>The loader sets a decision whenever it reports the trigger applicable.\<close>

definition AccusationConsumer_Handle ::
    "ext \<Rightarrow> (string \<Rightarrow> gerror + string \<times> string) \<Rightarrow> 'w AccusationConsumer \<Rightarrow> string \<Rightarrow> ('w, unit) M" where
  "AccusationConsumer_Handle X decode c data =
     (case ParseTrigger X decode data of
        Inl err \<Rightarrow> throw (TerminateDelivery err)
      | Inr trigger \<Rightarrow>
        if tg_Subject trigger \<noteq> SubjectAccusation
        then throw (TerminateDelivery (Errorf ''accusation durable received another subject''))
        else tryM (acc_Load c (tg_TurnEntityID trigger)) (\<lambda>r. case r of
          Inl err \<Rightarrow>
            if isAccusationTurnMissing err then throw (TerminateDelivery err)
            else closeOrRetry c trigger ''load accusation preflight'' err
        | Inr loaded \<Rightarrow>
            if \<not> apf_Applicable loaded
            then tryM (acc_CommitNotApplicable c (apf_TurnID loaded) (tg_TurnEntityID trigger)) (\<lambda>q. case q of
                Inl err \<Rightarrow> closeOrRetry c trigger ''commit non-applicable accusation barrier'' err
              | Inr _ \<Rightarrow> ret ())
            else (case apf_Decision loaded of
                None \<Rightarrow> throw (Errorf ''nil decision'')
              | Some d \<Rightarrow>
                bindM (mapErr (Wrapf ''record accusation submitted'') (acc_Record c (submitted loaded d))) (\<lambda>_.
                if apf_CasePhase loaded = CasePhaseInvestigation
                then throw (Errorf ''await accusation lifecycle transition'')
                else if apf_CasePhase loaded \<noteq> CasePhaseAccusation \<and> apf_CasePhase loaded \<noteq> CasePhaseDenouement
                then failInvalid c trigger
                else settleVerdict X c trigger loaded))))"

section \<open>What an acknowledgement means\<close>

definition failedDurably :: "'w AccusationConsumer \<Rightarrow> Trigger \<Rightarrow> 'w \<Rightarrow> bool" where
  "failedDurably c trigger w' =
     (\<exists>w1 tx. acc_failer c (tg_TurnID trigger) (tg_TurnEntityID trigger) FailureAccusationInvalid zeroRef w1 = (Inr tx, w'))"

lemma failInvalid_Inr: "failInvalid c trigger w = (Inr u, w') \<Longrightarrow> failedDurably c trigger w'"
  by (auto simp: failInvalid_def failedDurably_def bindM_Inr)

lemma closeOrRetry_Inr: "closeOrRetry c trigger what err w = (Inr u, w') \<Longrightarrow> failedDurably c trigger w'"
  by (auto simp: closeOrRetry_def dest: failInvalid_Inr split: if_splits)

lemma settleVerdict_Inr:
  assumes "settleVerdict X c trigger loaded w = (Inr u, w')"
  obtains (failed) "failedDurably c trigger w'"
    | (wrong) result ref where "Verify X (apf_Decision loaded) (apf_Solution loaded) = Inr result"
        "acc_CommitResult c (tg_TurnEntityID trigger) (Some result) w = (Inr ref, w')" "ar_Outcome result = AccusationIncorrect"
    | (right) result ref w1 out where "Verify X (apf_Decision loaded) (apf_Solution loaded) = Inr result"
        "acc_CommitResult c (tg_TurnEntityID trigger) (Some result) w = (Inr ref, w1)"
        "acc_Record c (proven loaded result) w1 = (Inr out, w')" "ar_Outcome result \<noteq> AccusationIncorrect"
proof (cases "Verify X (apf_Decision loaded) (apf_Solution loaded)")
  case (Inl e)
  with assms have "failInvalid c trigger w = (Inr u, w')" by (simp add: settleVerdict_def)
  from failed [OF failInvalid_Inr [OF this]] show thesis .
next
  case (Inr result)
  obtain r w1 where put: "acc_CommitResult c (tg_TurnEntityID trigger) (Some result) w = (r, w1)" by fastforce
  show thesis
  proof (cases r)
    case (Inl err)
    with assms \<open>Verify X _ _ = _\<close> put have "closeOrRetry c trigger ''commit accusation result'' err w1 = (Inr u, w')"
      by (simp add: settleVerdict_def tryM_eq)
    from failed [OF closeOrRetry_Inr [OF this]] show thesis .
  next
    case (Inr ref)
    with assms \<open>Verify X _ _ = _\<close> put wrong right show thesis
      by (fastforce simp: settleVerdict_def tryM_eq bindM_Inr split: if_splits)
  qed
qed

lemma Handle_Inr:
  assumes "AccusationConsumer_Handle X decode c data w = (Inr u, w')"
  obtains trigger where "ParseTrigger X decode data = Inr trigger" "tg_Subject trigger = SubjectAccusation"
    "failedDurably c trigger w'
     \<or> (\<exists>loaded w1 ref. acc_Load c (tg_TurnEntityID trigger) w = (Inr loaded, w1) \<and> \<not> apf_Applicable loaded
          \<and> acc_CommitNotApplicable c (apf_TurnID loaded) (tg_TurnEntityID trigger) w1 = (Inr ref, w'))
     \<or> (\<exists>loaded d w1 w2 out. acc_Load c (tg_TurnEntityID trigger) w = (Inr loaded, w1) \<and> apf_Applicable loaded
          \<and> apf_Decision loaded = Some d \<and> acc_Record c (submitted loaded d) w1 = (Inr out, w2)
          \<and> apf_CasePhase loaded \<in> {CasePhaseAccusation, CasePhaseDenouement}
          \<and> settleVerdict X c trigger loaded w2 = (Inr u, w'))"
proof -
  from assms obtain trigger where t: "ParseTrigger X decode data = Inr trigger" "tg_Subject trigger = SubjectAccusation"
    by (auto simp: AccusationConsumer_Handle_def split: sum.splits if_splits)
  obtain r w1 where load: "acc_Load c (tg_TurnEntityID trigger) w = (r, w1)" by fastforce
  show thesis
  proof (cases r)
    case (Inl err)
    with assms t load have "closeOrRetry c trigger ''load accusation preflight'' err w1 = (Inr u, w')"
      by (auto simp: AccusationConsumer_Handle_def tryM_eq split: if_splits)
    from closeOrRetry_Inr [OF this] t that show thesis by blast
  next
    case (Inr loaded)
    note load = load [unfolded Inr]
    show thesis
    proof (cases "apf_Applicable loaded")
      case False
      with assms t load have "tryM (acc_CommitNotApplicable c (apf_TurnID loaded) (tg_TurnEntityID trigger)) (\<lambda>q. case q of
          Inl err \<Rightarrow> closeOrRetry c trigger ''commit non-applicable accusation barrier'' err | Inr _ \<Rightarrow> ret ()) w1 = (Inr u, w')"
        by (simp add: AccusationConsumer_Handle_def tryM_eq)
      then show thesis
      proof (cases rule: tryM_cases)
        case (Inl e w2)
        from closeOrRetry_Inr Inl(2) have "failedDurably c trigger w'" by auto
        with t that show thesis by blast
      next
        case (Inr ref w2)
        then have "acc_CommitNotApplicable c (apf_TurnID loaded) (tg_TurnEntityID trigger) w1 = (Inr ref, w')" by simp
        with t load False show thesis by (intro that) blast+
      qed
    next
      case True
      with assms t load obtain d out w2 where d: "apf_Decision loaded = Some d"
          "acc_Record c (submitted loaded d) w1 = (Inr out, w2)"
        and rest: "(if apf_CasePhase loaded = CasePhaseInvestigation
                then throw (Errorf ''await accusation lifecycle transition'')
                else if apf_CasePhase loaded \<noteq> CasePhaseAccusation \<and> apf_CasePhase loaded \<noteq> CasePhaseDenouement
                then failInvalid c trigger
                else settleVerdict X c trigger loaded) w2 = (Inr u, w')"
        by (auto simp: AccusationConsumer_Handle_def tryM_eq bindM_Inr split: option.splits)
      show thesis
      proof (cases "apf_CasePhase loaded = CasePhaseAccusation \<or> apf_CasePhase loaded = CasePhaseDenouement")
        case True
        then have "settleVerdict X c trigger loaded w2 = (Inr u, w')"
          using rest by (auto simp: vocab_strings split: if_splits)
        with t load d True \<open>apf_Applicable loaded\<close> show thesis by (intro that) blast+
      next
        case False
        with rest have "failInvalid c trigger w2 = (Inr u, w')" by (auto split: if_splits)
        from failInvalid_Inr [OF this] t that show thesis by blast
      qed
    qed
  qed
qed

section \<open>The barrier\<close>

context graph_store
begin

text \<open>A retried write of a single-valued group.\<close>

lemma retried_put:
  assumes "RetryRevisionConflict ctx (bindM (gs_Reconcile S t i ds) (\<lambda>_. ret ())) w = (r, w')"
    and "set (Predicates t) = {p}" and "objectsIn ds p = [v]"
  shows "\<forall>j q. objs ents w' j q = (if j = i \<and> q = p then objs ents w' i p else objs ents w j q)"
    and "objs ents w' i p = objs ents w i p \<or> objs ents w' i p = {#v#}"
    and "r = Inr () \<Longrightarrow> objs ents w' i p = {#v#}"
proof -
  let ?K = "\<lambda>w w'. (\<forall>j q. \<not> (j = i \<and> q = p) \<longrightarrow> objs ents w' j q = objs ents w j q)
    \<and> (objs ents w' i p = objs ents w i p \<or> objs ents w' i p = {#v#})"
  have rel: "reflp ?K" "transp ?K" by (simp add: reflp_def) (unfold transp_def, metis)
  have put: "?K w w'" if "gs_Reconcile S t i ds w = (x, w')" for w x w'
    using put_cases [OF that]
  proof (elim disjE conjE)
    assume "ents w' = ents w" then show ?thesis by simp
  next
    assume put: "\<forall>j q. objs ents w' j q
      = (if j = i \<and> q \<in> set (Predicates t) then mset (objectsIn ds q) else objs ents w j q)"
    then have "objs ents w' i p = mset (objectsIn ds p)" by (simp add: assms(2))
    moreover from put have "objs ents w' j q = objs ents w j q" if "\<not> (j = i \<and> q = p)" for j q
      using that by (auto simp: assms(2))
    ultimately show ?thesis using assms(3) by simp
  qed
  then have "keeps ?K (bindM (gs_Reconcile S t i ds) (\<lambda>_. ret ()))"
    by (intro keeps_bindM keeps_pure rel) (auto simp: keeps_def)
  from keepsD [OF retry_keeps [OF rel this] assms(1)]
  show "\<forall>j q. objs ents w' j q = (if j = i \<and> q = p then objs ents w' i p else objs ents w j q)"
    "objs ents w' i p = objs ents w i p \<or> objs ents w' i p = {#v#}" by simp_all
  show "objs ents w' i p = {#v#}" if "r = Inr ()"
  proof -
    from retry_Inr [OF assms(1) [unfolded that]] obtain w1 e where "gs_Reconcile S t i ds w1 = (Inr e, w')"
      by (auto simp: bindM_Inr)
    from put_objs [OF this] assms(2,3) show ?thesis by simp
  qed
qed

end

lemma Predicates_accusation: "set (Predicates TurnAccusation) = {TurnAccusationRef}"
  by code_simp

locale accusation_committer = graph_store X S ents for X and S :: "'w GraphStore" and ents +
  fixes c :: "'w Committer"
  assumes accusation_store: "ac_graph c = S"
    and record_put_frame: "ac_PutAccusationRecord c i rec w = (x, w') \<Longrightarrow> ents w' = ents w"
    and record_get_frame: "ac_GetAccusationRecord c ref w = (y, w') \<Longrightarrow> ents w' = ents w"
    and accusation_clock: "ac_now c w = (t, w') \<Longrightarrow> ents w' = ents w"
begin

lemma writeBarrier_objs:
  assumes "writeBarrier c turn ref w = (r, w')"
  shows "\<forall>j q. objs ents w' j q = (if j = turn \<and> q = TurnAccusationRef then objs ents w' turn TurnAccusationRef
      else objs ents w j q)"
    and "objs ents w' turn TurnAccusationRef = objs ents w turn TurnAccusationRef
      \<or> objs ents w' turn TurnAccusationRef = {#AString (Ref_String ref)#}"
    and "r = Inr () \<Longrightarrow> objs ents w' turn TurnAccusationRef = {#AString (Ref_String ref)#}"
proof -
  obtain t w1 where now: "ac_now c w = (t, w1)" by fastforce
  let ?ts = "[resultTriple turn TurnAccusationRef (Ref_String ref) t]"
  let ?op = "RetryRevisionConflict (ac_ctxErr c) (bindM (gs_Reconcile S TurnAccusation turn ?ts) (\<lambda>_. ret ()))"
  obtain q where q: "?op w1 = (q, w')" "r = Inr () \<longrightarrow> q = Inr ()"
    using assms now
    by (auto simp: writeBarrier_def bindM_def accusation_now_def mapErr_def accusation_store split: prod.splits sum.splits)
  have "objectsIn ?ts TurnAccusationRef = [AString (Ref_String ref)]" by (simp add: resultTriple_def)
  note put = retried_put [OF q(1) Predicates_accusation this]
  have w1: "objs ents w1 = objs ents w" using accusation_clock [OF now] by simp
  show "\<forall>j q. objs ents w' j q = (if j = turn \<and> q = TurnAccusationRef then objs ents w' turn TurnAccusationRef
      else objs ents w j q)"
    "objs ents w' turn TurnAccusationRef = objs ents w turn TurnAccusationRef
      \<or> objs ents w' turn TurnAccusationRef = {#AString (Ref_String ref)#}"
    "r = Inr () \<Longrightarrow> objs ents w' turn TurnAccusationRef = {#AString (Ref_String ref)#}"
    using put q(2) unfolding w1 by blast+
qed

lemma commit_cases:
  assumes "accusation_Commit X c turn r w = (res, w')"
  obtains (refused) err where "res = Inl err" "ents w' = ents w"
    | (resident) rec ref st w1 w2 where "r = Some rec" "ents w turn = Some st" "ents w' = ents w" "res = Inr ref"
        "accusation_stringObjects st TurnAccusationRef \<noteq> []"
        "ac_GetAccusationRecord c ref w1 = (Inr (Some rec), w2)"
    | (written) rec ref st w1 w2 where "r = Some rec" "AccusationRecord_Validate X r = None"
        "RequireTurnEntityID X (acr_TurnID rec) turn = None"
        "ents w turn = Some st" "accusation_stringObjects st TurnAccusationRef = []"
        "ac_PutAccusationRecord c turn rec w1 = (Inr ref, w2)" "res = Inr ref \<or> (\<exists>err. res = Inl err)"
        "\<And>i p. \<not> (i = turn \<and> p = TurnAccusationRef) \<Longrightarrow> objs ents w' i p = objs ents w i p"
        "objs ents w' turn TurnAccusationRef = objs ents w turn TurnAccusationRef
         \<or> objs ents w' turn TurnAccusationRef = {#AString (Ref_String ref)#}"
        "res = Inr ref \<Longrightarrow> objs ents w' turn TurnAccusationRef = {#AString (Ref_String ref)#}"
proof (cases "\<exists>rec. r = Some rec \<and> AccusationRecord_Validate X (Some rec) = None \<and> RequireTurnEntityID X (acr_TurnID rec) turn = None")
  case False
  with assms have "\<exists>err. res = Inl err" "w' = w"
    by (auto simp: accusation_Commit_def checkM_eq split: option.splits)
  with refused show thesis by auto
next
  case True
  then obtain rec where rec: "r = Some rec" "AccusationRecord_Validate X (Some rec) = None"
      "RequireTurnEntityID X (acr_TurnID rec) turn = None" by blast
  obtain x w1 where get: "gs_GetEntity S turn w = (x, w1)" by fastforce
  have w1: "ents w1 = ents w" using get_frame [OF get] .
  show thesis
  proof (cases x)
    case (Inl e)
    with assms rec get have "\<exists>err. res = Inl err" "w' = w1"
      by (auto simp: accusation_Commit_def bindM_def mapErr_def accusation_store)
    with w1 refused show thesis by auto
  next
    case (Inr st)
    have st: "ents w turn = Some st" using get_ok get Inr by blast
    let ?refs = "accusation_stringObjects st TurnAccusationRef"
    from assms rec get Inr have run: "(if 0 < length ?refs then confirmAccusation X c ?refs rec
           else bindM (mapErr (Wrapf ''store accusation record'') (ac_PutAccusationRecord c turn rec)) (\<lambda>ref.
             bindM (writeBarrier c turn ref) (\<lambda>_. ret ref))) w1 = (res, w')"
      by (simp add: accusation_Commit_def bindM_def mapErr_def accusation_store Let_def)
    show thesis
    proof (cases "?refs = []")
      case False
      with run have conf: "confirmAccusation X c ?refs rec w1 = (res, w')" by simp
      have "keeps (\<lambda>w w'. ents w' = ents w) (ac_GetAccusationRecord c ref)" for ref
        using record_get_frame by (auto simp: keeps_def)
      then have "keeps (\<lambda>w w'. ents w' = ents w) (confirmAccusation X c ?refs rec)"
        unfolding confirmAccusation_def
        by (auto intro!: keeps_bindM keeps_mapErr keeps_pure simp: transp_def reflp_def split: list.split)
      from keepsD [OF this conf] w1 have same: "ents w' = ents w" by simp
      show thesis
      proof (cases res)
        case (Inl err)
        with same refused show thesis by blast
      next
        case (Inr ref)
        with conf obtain w2 w3 where "ac_GetAccusationRecord c ref w2 = (Inr (Some rec), w3)"
          by (auto simp: confirmAccusation_def bindM_Inr split: list.splits if_splits)
        with resident [OF rec(1) st same Inr False] show thesis by blast
      qed
    next
      case True
      with run have run: "bindM (mapErr (Wrapf ''store accusation record'') (ac_PutAccusationRecord c turn rec)) (\<lambda>ref.
             bindM (writeBarrier c turn ref) (\<lambda>_. ret ref)) w1 = (res, w')" by simp
      obtain y w2 where put: "ac_PutAccusationRecord c turn rec w1 = (y, w2)" by fastforce
      have w2: "ents w2 = ents w" using record_put_frame [OF put] w1 by simp
      show thesis
      proof (cases y)
        case (Inl e)
        with run put have "\<exists>err. res = Inl err" "w' = w2" by (auto simp: bindM_def mapErr_def)
        with w2 refused show thesis by auto
      next
        case (Inr ref)
        obtain z w3 where wr: "writeBarrier c turn ref w2 = (z, w3)" by fastforce
        from run put Inr wr have out: "w' = w3" "res = (case z of Inl e \<Rightarrow> Inl e | Inr _ \<Rightarrow> Inr ref)"
          by (auto simp: bindM_def mapErr_def ret_def split: sum.splits)
        note b = writeBarrier_objs [OF wr, folded out(1), unfolded w2]
        have "AccusationRecord_Validate X r = None" using rec by simp
        moreover have "res = Inr ref \<or> (\<exists>err. res = Inl err)" "res = Inr ref \<Longrightarrow> z = Inr ()"
          using out(2) by (auto split: sum.splits)
        moreover have "objs ents w' i p = objs ents w i p" if "\<not> (i = turn \<and> p = TurnAccusationRef)" for i p
          using b(1) that by metis
        ultimately show thesis
          using written [OF rec(1) _ rec(3) st True put [unfolded Inr]] b(2,3) by blast
      qed
    qed
  qed
qed

end

end
