(* ===== verification/Example_Rules.thy ===== *)
theory Example_Rules
  imports Rule_Turns Example_World
begin

text \<open>
  The shipped rules through the gate and as a graph of hops, and a rule that fires, as the root
  theory uses them.
\<close>

section \<open>The shipped pack\<close>

definition refRules :: rule_ext where
  "refRules =
     \<lparr>re_ValidateDefinition = (\<lambda>_. None), re_ActionTypePublish = ''publish'',
      re_ActionTypeLifecycleTransition = ''lifecycle_transition''\<rparr>"

lemma turnPack_accepted: "Check refRules turnPack = None"
  by code_simp

text \<open>The gate reads nothing of the rule package but its validator and the name of its publish action.\<close>

lemma checkAction_cong: "re_ActionTypePublish R = re_ActionTypePublish R' \<Longrightarrow> checkAction R = checkAction R'"
  by (rule ext) (simp add: checkAction_def)

lemma checkActions_cong:
  assumes "re_ActionTypePublish R = re_ActionTypePublish R'"
  shows "checkActions R d = checkActions R' d"
proof -
  have "checkActionList R as = checkActionList R' as" for as
    by (induction as) (simp_all add: checkAction_cong [OF assms] split: option.split)
  then show ?thesis by (simp add: checkActions_def firingList_def silentList_def)
qed

lemma Check_cong:
  assumes "\<And>d. d \<in> set ds \<Longrightarrow> re_ValidateDefinition R d = re_ValidateDefinition R' d"
    and "re_ActionTypePublish R = re_ActionTypePublish R'"
  shows "Check R ds = Check R' ds"
proof -
  have "checkDefinition R d = checkDefinition R' d" if "d \<in> set ds" for d
    using assms(1) [OF that] by (simp add: checkDefinition_def checkActions_cong [OF assms(2)])
  then have "checkAll R seen ds = checkAll R' seen ds" for seen
    by (induction ds arbitrary: seen) (simp_all split: option.split)
  then show ?thesis by (simp add: Check_def)
qed

section \<open>Hops\<close>

definition hops :: "(TurnPhase \<times> TurnPhase) list" where
  "hops = [(PhaseAccepted, PhaseInterpreting), (PhaseInterpreting, PhaseAdjudicating),
     (PhaseAdjudicating, PhaseResolving), (PhaseAdjudicating, PhaseApplying), (PhaseResolving, PhaseApplying),
     (PhaseApplying, PhaseCompanion), (PhaseCompanion, PhaseNarrating), (PhaseNarrating, PhaseComplete)]"

text \<open>The hops of a pack, as a list.\<close>

definition hopList :: "rule_Definition list \<Rightarrow> (TurnPhase \<times> TurnPhase) list" where
  "hopList defs = concat (map (\<lambda>d. concat (map (\<lambda>g.
       if pg_operator g = ''eq''
       then concat (map (\<lambda>a. case PhaseForSubject (ra_Subject a) of None \<Rightarrow> [] | Some q \<Rightarrow> [(pg_phase g, q)]) (rd_OnEnter d))
       else []) (phaseGates d))) defs)"

lemma hop_list: "hop defs p q \<longleftrightarrow> (p, q) \<in> set (hopList defs)"
  by (force simp: hop_def hopList_def list_ex_iff split: option.splits if_splits)

lemma turnPack_hops: "hop turnPack p q \<longleftrightarrow> (p, q) \<in> set hops"
proof -
  have "list_all (\<lambda>x. List.member hops x) (hopList turnPack)" "list_all (\<lambda>x. List.member (hopList turnPack) x) hops"
    by code_simp+
  then show ?thesis by (auto simp: hop_list list_all_iff)
qed

lemma hop_step: "(p, q) \<in> set hops \<Longrightarrow> (hop turnPack)\<^sup>*\<^sup>* q r \<Longrightarrow> (hop turnPack)\<^sup>*\<^sup>* p r"
  by (simp add: turnPack_hops [symmetric] converse_rtranclp_into_rtranclp)

lemma hops_complete:
  assumes "p \<in> set TurnPhases" and "p \<noteq> PhaseFailed"
  shows "(hop turnPack)\<^sup>*\<^sup>* p PhaseComplete"
proof -
  have h: "(PhaseAccepted, PhaseInterpreting) \<in> set hops" "(PhaseInterpreting, PhaseAdjudicating) \<in> set hops"
    "(PhaseAdjudicating, PhaseApplying) \<in> set hops" "(PhaseResolving, PhaseApplying) \<in> set hops"
    "(PhaseApplying, PhaseCompanion) \<in> set hops" "(PhaseCompanion, PhaseNarrating) \<in> set hops"
    "(PhaseNarrating, PhaseComplete) \<in> set hops"
    by (simp_all add: hops_def)
  have 1: "(hop turnPack)\<^sup>*\<^sup>* PhaseNarrating PhaseComplete" by (rule hop_step [OF h(7) rtranclp.rtrancl_refl])
  note 2 = hop_step [OF h(6) 1]
  note 3 = hop_step [OF h(5) 2]
  note 4 = hop_step [OF h(3) 3] hop_step [OF h(4) 3]
  note 5 = hop_step [OF h(2) 4(1)]
  note 6 = hop_step [OF h(1) 5]
  have phases: "TurnPhases = [PhaseAccepted, PhaseInterpreting, PhaseAdjudicating, PhaseResolving, PhaseApplying,
      PhaseCompanion, PhaseNarrating, PhaseComplete, PhaseFailed]"
    by code_simp
  have "p \<in> {PhaseAccepted, PhaseInterpreting, PhaseAdjudicating, PhaseResolving, PhaseApplying,
      PhaseCompanion, PhaseNarrating, PhaseComplete}"
    using assms unfolding phases by auto
  then show ?thesis using 1 2 3 4 5 6 by (elim insertE emptyE) (simp_all only: rtranclp.rtrancl_refl)
qed

lemma hops_sources:
  assumes "(hop turnPack)\<^sup>*\<^sup>* p PhaseComplete"
  shows "p \<in> set TurnPhases" and "p \<noteq> PhaseFailed"
proof -
  from assms have "p = PhaseComplete \<or> (\<exists>q. (p, q) \<in> set hops)"
    by (cases rule: converse_rtranclpE) (auto simp: turnPack_hops)
  moreover have "list_all (\<lambda>(a, b). List.member TurnPhases a \<and> a \<noteq> PhaseFailed) hops"
    "List.member TurnPhases PhaseComplete" "PhaseComplete \<noteq> PhaseFailed"
    by code_simp+
  ultimately show "p \<in> set TurnPhases" "p \<noteq> PhaseFailed" by (auto simp: list_all_iff)
qed

section \<open>A rule that fires\<close>

text \<open>A turn in application, with everything the companion stage waits for.\<close>

definition exApplied :: EntityState where
  "exApplied = snd (exEntity exTurn [(TurnPhaseCurrent, AString PhaseApplying), (TurnEffectsBatch, AString exRef),
     (TurnKnowledgeRef, AString exRef), (TurnAccusationRef, AString exRef), (TurnCaseProgressRef, AString exRef)])"

lemma exFires: "fires refHolds rule_committed_effects_enter_companion None exApplied"
  by code_simp

lemma exFires_at:
  "rule_committed_effects_enter_companion \<in> set turnPack" "PhaseOf (Some exApplied) exTurn = Inr PhaseApplying"
  "publishes ''semmachina.turn.companion'' 1 \<in> set (rd_OnEnter rule_committed_effects_enter_companion
     @ rd_OnRecovery rule_committed_effects_enter_companion)"
  "PhaseForSubject (ra_Subject (publishes ''semmachina.turn.companion'' 1)) = Some PhaseCompanion"
proof -
  show "rule_committed_effects_enter_companion \<in> set turnPack" by (simp add: turnPack_def)
  show "PhaseOf (Some exApplied) exTurn = Inr PhaseApplying" by code_simp
  show "publishes ''semmachina.turn.companion'' 1 \<in> set (rd_OnEnter rule_committed_effects_enter_companion
     @ rd_OnRecovery rule_committed_effects_enter_companion)"
    by (simp add: rule_committed_effects_enter_companion_def turnRule_def)
  show "PhaseForSubject (ra_Subject (publishes ''semmachina.turn.companion'' 1)) = Some PhaseCompanion" by code_simp
qed

end
