(* ===== verification/Reference_Cases.thy ===== *)
theory Reference_Cases
  imports Reference_Scene Epistemic_Graph Accusation_Commit Example_Rules
begin

text \<open>
  The case side of the reference world: the lifecycle recorder, the progressor and the committer of
  accusations on the in-memory graph and object store, the interpretations that discharge the laws of
  \<open>receipt_recorder\<close>, \<open>case_progressor\<close>, \<open>accusation_committer\<close> and \<open>projector_graph\<close>, and the runs
  the root theory uses.
\<close>

section \<open>The projector reads one graph\<close>

abbreviation mem_same :: "memWorld \<Rightarrow> memWorld \<Rightarrow> bool" where
  "mem_same \<equiv> \<lambda>w w'. memEnts w' = memEnts w"

lemma mem_same_trans: "transp mem_same" and mem_same_refl: "reflp mem_same"
  by (auto simp: transp_def reflp_def)

lemma memQuery_keeps: "keeps mem_same (memQuery f)"
  by (auto simp: keeps_def memQuery_def split: prod.splits option.splits)

lemmas mem_intros = keeps_bindM keeps_mapErr keeps_checkM keeps_pure memQuery_keeps mem_same_trans mem_same_refl

lemma memRequester_keeps:
  "keeps mem_same (GetEntities refExt memRequester ids)" "keeps mem_same (IncomingRelationships refExt memRequester i)"
  "keeps mem_same (EntitiesByPredicateValue memRequester p v n)"
  unfolding GetEntities_def IncomingRelationships_def EntitiesByPredicateValue_def memRequester_def
  by (auto intro!: mem_intros)

lemma refRead_keeps: "keeps mem_same (refRead i)"
proof -
  have "keeps mem_same (GetEntity refExt memClient i)"
    using graph_store.get_frame [OF memGraph_store] by (auto simp: keeps_def memGraphStore_def graphioStore_def)
  then show ?thesis unfolding refRead_def by (auto intro!: mem_intros)
qed

lemma exAssemble_keeps: "keeps mem_same (exAssemble t i)"
proof -
  note reads = refRead_keeps memRequester_keeps
  have solid: "keeps mem_same (readSolid refAssembler j)" for j
    unfolding readSolid_def refAssembler_def by (auto intro!: mem_intros reads split: option.split)
  have hyd: "keeps mem_same (hydrate_scene refAssembler ids)" for ids
    unfolding hydrate_scene_def refAssembler_def by (auto intro!: mem_intros reads)
  have "keeps mem_same (assembleFrame refAssembler j)" for j
    unfolding assembleFrame_def Let_def by (auto intro!: mem_intros solid)
  moreover have "keeps mem_same (assembler_now refAssembler)"
    by (auto simp: keeps_def assembler_now_def refAssembler_def memNow_def)
  moreover have "keeps mem_same (memberIDs refAssembler l)" for l
    unfolding memberIDs_def refAssembler_def by (auto intro!: mem_intros reads)
  moreover have "keeps mem_same (addMembers refAssembler ms v)" for ms v
    unfolding addMembers_def by (auto intro!: mem_intros hyd)
  moreover have "keeps mem_same (addNeighbours refAssembler ms v)" for ms v
    unfolding addNeighbours_def Let_def by (auto intro!: mem_intros hyd)
  ultimately have "keeps mem_same (Assemble refExt refAssembler t i)"
    unfolding Assemble_def Let_def by (auto intro!: mem_intros)
  then have "keeps mem_same (bindM (Assemble refExt refAssembler t i) (\<lambda>v. ret (Some v)))"
    by (auto intro!: mem_intros)
  then show ?thesis by (simp add: keeps_def exAssemble_def)
qed

lemma memBatch_keyed: "st \<in> set (br_Entities (memBatch ids w)) \<Longrightarrow> memEnts w (esID st) = Some st"
  by (auto simp: memBatch_def map_filter_def memKeyed_def split: option.splits if_splits)

lemma GetEntities_keyed:
  fixes w w' :: memWorld
  assumes "GetEntities refExt memRequester ids w = (Inr r, w')" and "st \<in> set (br_Entities r)"
  shows "memEnts w (esID st) = Some st"
proof -
  have "memEnts w1 (esID st) = Some st" if "popFault w = (None, w1)" "st \<in> set (br_Entities (memBatch ids w1))" for w1
    using memBatch_keyed [OF that(2)] .
  with assms show ?thesis
    by (auto simp: GetEntities_def bindM_Inr checkM_eq Let_def memRequester_def memQuery_def
        split: if_splits prod.splits option.splits)
qed

lemma refProjector_graph: "projector_graph refProjector memEnts"
proof
  show "memEnts w (esID st) = Some st" if "pr_GetEntities refProjector ids w = (Inr r, w')" "st \<in> set (br_Entities r)"
    for ids w r w' st
    using that by (auto simp: refProjector_def dest: GetEntities_keyed)
  show "memEnts w' = memEnts w" if "pr_GetEntities refProjector ids w = (x, w')" for ids w x w'
    using that keepsD [OF memRequester_keeps(1)] by (auto simp: refProjector_def)
  show "memEnts w' = memEnts w" if "pr_Assemble refProjector t i w = (y, w')" for t i w y w'
    using that keepsD [OF exAssemble_keeps] by (auto simp: refProjector_def)
  show "memEnts w' = memEnts w" if "pr_ByValue refProjector f v n w = (z, w')" for f v n w z w'
    using that keepsD [OF memRequester_keeps(3)] by (auto simp: refProjector_def)
qed (simp_all add: refProjector_def)

interpretation refSealed: projector_graph refProjector memEnts
  by (rule refProjector_graph)

section \<open>Codecs\<close>

definition encAll :: "string list \<Rightarrow> string" where "encAll fs = concat (map encField fs)"

definition decisionFields :: "CaseDecision \<Rightarrow> string list" where
  "decisionFields d =
     [cd_DecisionID d, cd_TurnID d, cd_ActionID d, cd_CaseID d, cd_ActorID d, cd_Kind d,
      encAll (cd_TargetRefs d), encAll (cd_RevealRefs d), cd_CulpritRef d, cd_MethodRef d, cd_MotiveRef d]"

definition decisionOf :: "string list \<Rightarrow> CaseDecision option" where
  "decisionOf fs = (case fs of
     [decision, turn, action, mystery, actor, kind, targets, reveals, culprit, method, motive] \<Rightarrow>
       (case (decAll (length targets) targets, decAll (length reveals) reveals) of
          (Some ts, Some rs) \<Rightarrow> Some
            \<lparr>cd_DecisionID = decision, cd_TurnID = turn, cd_ActionID = action, cd_CaseID = mystery,
             cd_ActorID = actor, cd_Kind = kind, cd_TargetRefs = ts, cd_RevealRefs = rs,
             cd_CulpritRef = culprit, cd_MethodRef = method, cd_MotiveRef = motive\<rparr>
        | _ \<Rightarrow> None)
   | _ \<Rightarrow> None)"


definition refDecisions :: "CaseDecisionRecord codec" where
  "refDecisions =
     \<lparr>jc_marshal = (\<lambda>r. Inr (encAll ([cdr_TurnID r, cdr_ActionID r, cdr_Status r]
        @ (case cdr_Decision r of None \<Rightarrow> [] | Some d \<Rightarrow> decisionFields d)))),
      jc_unmarshal = (\<lambda>s. case decAll (length s) s of
          Some (turn # action # status # fs) \<Rightarrow>
            (if fs = [] then Inr \<lparr>cdr_TurnID = turn, cdr_ActionID = action, cdr_Status = status, cdr_Decision = None\<rparr>
             else (case decisionOf fs of
                 None \<Rightarrow> Inl (External ''unexpected end of JSON input'')
               | Some d \<Rightarrow> Inr \<lparr>cdr_TurnID = turn, cdr_ActionID = action, cdr_Status = status, cdr_Decision = Some d\<rparr>))
        | _ \<Rightarrow> Inl (External ''invalid character''))\<rparr>"

definition refProgress :: "CaseProgressRecord codec" where
  "refProgress =
     \<lparr>jc_marshal = (\<lambda>r. Inr (encAll [cp_TurnID r, cp_DecisionID r, cp_CaseID r, cp_Status r, cp_EventID r, cp_EventKind r])),
      jc_unmarshal = (\<lambda>s. case decFields 6 s of
          Some [turn, decision, mystery, status, event, kind] \<Rightarrow>
            Inr \<lparr>cp_TurnID = turn, cp_DecisionID = decision, cp_CaseID = mystery, cp_Status = status,
                 cp_EventID = event, cp_EventKind = kind\<rparr>
        | _ \<Rightarrow> Inl (External ''invalid character''))\<rparr>"

definition refAccusations :: "AccusationRecord codec" where
  "refAccusations =
     \<lparr>jc_marshal = (\<lambda>r. Inr (encAll ([acr_TurnID r, acr_Status r] @ (case acr_Result r of None \<Rightarrow> []
        | Some q \<Rightarrow> [ar_ResultID q, ar_TurnID q, ar_CaseID q, ar_DecisionID q, ar_Outcome q])))),
      jc_unmarshal = (\<lambda>s. case decAll (length s) s of
          Some [turn, status] \<Rightarrow> Inr \<lparr>acr_TurnID = turn, acr_Status = status, acr_Result = None\<rparr>
        | Some [turn, status, result, turn', mystery, decision, outcome] \<Rightarrow>
            Inr \<lparr>acr_TurnID = turn, acr_Status = status, acr_Result = Some
              \<lparr>ar_ResultID = result, ar_TurnID = turn', ar_CaseID = mystery, ar_DecisionID = decision,
               ar_Outcome = outcome\<rparr>\<rparr>
        | _ \<Rightarrow> Inl (External ''invalid character''))\<rparr>"

section \<open>The case operations on the reference world\<close>

lemma get_artifact_keeps: "keeps mem_same (get_artifact X memBackend J v p ref)"
proof -
  have "keeps mem_same (be_Get memBackend k)" for k
    using memGet_frame(1) by (auto simp: keeps_def memBackend_def ObjectBackend_def)
  then show ?thesis
    unfolding get_artifact_def by (auto intro!: mem_intros keeps_tryM split: sum.split option.split)
qed

definition some_of :: "('w, 'a) M \<Rightarrow> ('w, 'a option) M" where
  "some_of m = bindM m (\<lambda>x. ret (Some x))"

lemma some_of_keeps: "keeps mem_same m \<Longrightarrow> keeps mem_same (some_of m)"
  unfolding some_of_def by (auto intro!: mem_intros)

definition refLifecycle :: "memWorld caseflow_Recorder" where
  "refLifecycle = \<lparr>cr_store = memGraphStore, cr_now = memNow\<rparr>"

lemma refLifecycle_recorder: "receipt_recorder refExt memGraphStore memEnts refLifecycle"
  by (intro receipt_recorder.intro receipt_recorder_axioms.intro memGraph_store)
    (auto simp: refLifecycle_def memNow_def)

interpretation refReceipts: receipt_recorder refExt memGraphStore memEnts refLifecycle
  by (rule refLifecycle_recorder)

definition refProgressor :: "memWorld Progressor" where
  "refProgressor =
     \<lparr>cpg_graph = memGraphStore, cpg_InstanceName = be_InstanceName (memBackend :: memWorld Backend),
      cpg_GetCaseDecisionRecord = (\<lambda>ref. some_of (GetCaseDecisionRecord refExt memBackend refDecisions ref)),
      cpg_GetKnowledgeReceipt = (\<lambda>ref. some_of (GetKnowledgeReceipt refExt memBackend refReceipts ref)),
      cpg_PutCaseProgressRecord = (\<lambda>i rec. PutCaseProgressRecord refExt memBackend refProgress i (Some rec)),
      cpg_GetCaseProgressRecord = (\<lambda>ref. some_of (GetCaseProgressRecord refExt memBackend refProgress ref)),
      cpg_recorder = Record refLifecycle, cpg_now = memNow\<rparr>"

lemma refProgressor_progressor: "case_progressor refExt memGraphStore memEnts refLifecycle refProgressor"
proof (intro case_progressor.intro case_progressor_axioms.intro refLifecycle_recorder)
  show "memEnts w' = memEnts w" if "cpg_GetCaseDecisionRecord refProgressor ref w = (x, w')" for ref w x w'
    using that keepsD [OF some_of_keeps [OF get_artifact_keeps]] by (auto simp: refProgressor_def GetCaseDecisionRecord_def)
  show "memEnts w' = memEnts w" if "cpg_GetKnowledgeReceipt refProgressor ref w = (y, w')" for ref w y w'
    using that keepsD [OF some_of_keeps [OF get_artifact_keeps]] by (auto simp: refProgressor_def GetKnowledgeReceipt_def)
  show "memEnts w' = memEnts w" if "cpg_GetCaseProgressRecord refProgressor ref w = (z, w')" for ref w z w'
    using that keepsD [OF some_of_keeps [OF get_artifact_keeps]] by (auto simp: refProgressor_def GetCaseProgressRecord_def)
  show "memEnts w' = memEnts w" if "cpg_PutCaseProgressRecord refProgressor i rec w = (u, w')" for i rec w u w'
    using that
    by (auto simp: refProgressor_def PutCaseProgressRecord_def put_for_turn_def checkM_eq dest!: put_artifact_frame)
qed (auto simp: refProgressor_def memNow_def)

interpretation refCases: case_progressor refExt memGraphStore memEnts refLifecycle refProgressor
  by (rule refProgressor_progressor)

definition refCommitter :: "memWorld Committer" where
  "refCommitter =
     \<lparr>ac_graph = memGraphStore,
      ac_PutAccusationRecord = (\<lambda>i rec. PutAccusationRecord refExt memBackend refAccusations i (Some rec)),
      ac_GetAccusationRecord = (\<lambda>ref. some_of (GetAccusationRecord refExt memBackend refAccusations ref)),
      ac_now = memNow, ac_ctxErr = (\<lambda>_. None)\<rparr>"

lemma refCommitter_committer: "accusation_committer refExt memGraphStore memEnts refCommitter"
proof (intro accusation_committer.intro accusation_committer_axioms.intro memGraph_store)
  show "memEnts w' = memEnts w" if "ac_PutAccusationRecord refCommitter i rec w = (x, w')" for i rec w x w'
    using that
    by (auto simp: refCommitter_def PutAccusationRecord_def put_for_turn_def checkM_eq dest!: put_artifact_frame)
  show "memEnts w' = memEnts w" if "ac_GetAccusationRecord refCommitter ref w = (y, w')" for ref w y w'
    using that keepsD [OF some_of_keeps [OF get_artifact_keeps]] by (auto simp: refCommitter_def GetAccusationRecord_def)
qed (auto simp: refCommitter_def memNow_def)

interpretation refVerdicts: accusation_committer refExt memGraphStore memEnts refCommitter
  by (rule refCommitter_committer)

section \<open>A case under investigation\<close>

definition exObj :: "string \<Rightarrow> string" where "exObj slot = ''obj://objectstore/turn/turn-a/'' @ slot"

definition exStoredAt :: "string \<Rightarrow> gerror + string \<Rightarrow> string \<times> string" where
  "exStoredAt slot d = (''turn/turn-a/'' @ slot, case d of Inl _ \<Rightarrow> [] | Inr s \<Rightarrow> s)"

text \<open>A turn that decided nothing about the case, its decision record and its knowledge receipt.\<close>

definition exCommitted :: CaseDecisionRecord where
  "exCommitted =
     \<lparr>cdr_TurnID = ''turn-a'', cdr_ActionID = ''a'', cdr_Status = CaseDecisionStatusNotApplicable,
      cdr_Decision = None\<rparr>"

definition exGranted :: KnowledgeReceipt where
  "exGranted =
     \<lparr>kr_TurnID = ''turn-a'', kr_DecisionID = [], kr_Status = KnowledgeNotApplicable, kr_Entries = []\<rparr>"

definition exTurnRead :: EntityState where
  "exTurnRead = snd (exEntity exTurn [(TurnPhaseCurrent, AString PhaseApplying),
     (TurnCaseDecisionRef, AString (exObj ''case-decision'')), (TurnKnowledgeRef, AString (exObj ''knowledge''))])"

definition exInquest :: memWorld where
  "exInquest =
     \<lparr>mg_ents = [
        (exTurn, exTurnRead),
        exEntity exCase [(WorldEntityKind, AString EntityKindCase), (CaseLifecyclePhase, AString CasePhaseDiscovery)]],
      mg_faults = [],
      mw_objects = [exStoredAt ''case-decision'' (jc_marshal refDecisions exCommitted),
        exStoredAt ''knowledge'' (jc_marshal refReceipts exGranted)],
      mw_claims = [], mw_clock = 7\<rparr>"

section \<open>An event of the case\<close>

definition exEvent :: TransitionRequest where
  "exEvent = \<lparr>rq_CaseEntityID = exCase, rq_EventID = ''e1'', rq_Kind = CaseEventInvestigationStarted\<rparr>"

lemma exRun_record:
  "fst (Record refLifecycle exEvent exInquest) =
     Inr \<lparr>ro_Recorded = True, ro_From = CasePhaseDiscovery, ro_To = CasePhaseInvestigation\<rparr>"
  by code_simp

text \<open>An accusation before the investigation is out of order.\<close>

lemma exRun_record_early:
  "fst (Record refLifecycle (exEvent\<lparr>rq_Kind := CaseEventAccusationSubmitted\<rparr>) exInquest) =
     Inl (CaseOrderError exCase ''e1'' CaseEventAccusationSubmitted CasePhaseDiscovery CasePhaseInvestigation)"
  by code_simp

section \<open>The progress of a turn\<close>

lemma exRun_turn: "readProgressTurn refProgressor exTurn exInquest = (Inr exTurnRead, exInquest)"
  by code_simp

lemma exRun_resident: "progress_objects exTurnRead TurnCaseProgressRef = Inr []"
  by code_simp

lemma exRun_artifacts:
  "readArtifacts refExt refProgressor ''turn-a'' exTurnRead exInquest = (Inr (exCommitted, exGranted), exInquest)"
  by code_simp

definition exProgress :: CaseProgressRecord where
  "exProgress =
     \<lparr>cp_TurnID = ''turn-a'', cp_DecisionID = [], cp_CaseID = [], cp_Status = CaseProgressNotApplicable,
      cp_EventID = [], cp_EventKind = []\<rparr>"

lemma exRun_derive:
  "progress_derive refProgressor exCommitted exGranted exInquest = (Inr (exProgress, None), exInquest)"
  by code_simp

definition exProgressRef :: Ref where
  "exProgressRef = \<lparr>rf_Instance = be_InstanceName (memBackend :: memWorld Backend), rf_Key = ''turn/turn-a/case-progress''\<rparr>"

lemma exRun_land: "fst (landProgress refProgressor exTurn exProgress exInquest) = Inr exProgressRef"
  by code_simp

lemma exRun_process:
  "\<exists>w'. Process refExt refProgressor ''turn-a'' exTurn exInquest = (Inr exProgressRef, w')"
proof -
  obtain w' where land: "landProgress refProgressor exTurn exProgress exInquest = (Inr exProgressRef, w')"
    using exRun_land by (metis prod.collapse)
  moreover have "RequireTurnEntityID refExt ''turn-a'' exTurn = None" by (rule exTurn_ok)
  ultimately show ?thesis
    by (simp add: Process_def checkM_eq bindM_def exRun_turn exRun_resident exRun_artifacts exRun_derive
        permanentR_def liftR_def recordEvent_def ret_def)
qed

section \<open>A turn without an accusation\<close>

definition exAccusationRef :: Ref where
  "exAccusationRef = \<lparr>rf_Instance = be_InstanceName (memBackend :: memWorld Backend), rf_Key = ''turn/turn-a/accusation''\<rparr>"

definition exNoAccusation :: AccusationRecord where
  "exNoAccusation = \<lparr>acr_TurnID = ''turn-a'', acr_Status = AccusationNotApplicable, acr_Result = None\<rparr>"

lemma exRun_no_accusation:
  "fst (accusation_Commit refExt refCommitter exTurn (Some exNoAccusation) exInquest) = Inr exAccusationRef"
  by code_simp

section \<open>An accusation that is exact\<close>

definition exAccuse :: CaseDecision where
  "exAccuse =
     \<lparr>cd_DecisionID = CaseDecisionID ''turn-a'' ''a'' exCase exRook, cd_TurnID = ''turn-a'', cd_ActionID = ''a'',
      cd_CaseID = exCase, cd_ActorID = exRook, cd_Kind = CaseDecisionAccuse, cd_TargetRefs = [],
      cd_RevealRefs = [], cd_CulpritRef = exVex, cd_MethodRef = exSecret, cd_MotiveRef = exClue\<rparr>"

definition exProof :: Solution where
  "exProof = \<lparr>so_Culprit = exVex, so_Method = exSecret, so_Motive = exClue\<rparr>"

lemma exAccuse_valid: "CaseDecision_Validate refExt exAccuse = None"
proof -
  have parts: "requireIDSegment refExt ''turn_id'' ''turn-a'' = None" "requireActionID refExt ''action_id'' ''a'' = None"
    "''turn-a'' = TurnIDForAction ''a''" "requireEntityID refExt ''case_id'' exCase = None"
    "requireEntityID refExt ''actor_id'' exRook = None" "List.member orderedCaseDecisionKinds CaseDecisionAccuse"
    "validateCaseDecisionRefs refExt ''target_refs'' [] MaxCaseDecisionTargets = None"
    "validateCaseDecisionRefs refExt ''reveal_refs'' [] MaxCaseDecisionReveals = None"
    by code_simp+
  have "requireEntityID refExt ''culprit_ref'' exVex = None" "requireEntityID refExt ''method_ref'' exSecret = None"
    "requireEntityID refExt ''motive_ref'' exClue = None"
    by code_simp+
  then have "validateAccusationRefs refExt exAccuse = None"
    by (simp add: validateAccusationRefs_def exAccuse_def)
  with parts show ?thesis by (simp add: CaseDecision_Validate_def exAccuse_def)
qed


definition exResult :: AccusationResult where
  "exResult =
     \<lparr>ar_ResultID = AccusationResultID ''turn-a'' exCase (cd_DecisionID exAccuse), ar_TurnID = ''turn-a'',
      ar_CaseID = exCase, ar_DecisionID = cd_DecisionID exAccuse, ar_Outcome = AccusationCorrect\<rparr>"

lemma exRun_verify: "Verify refExt (Some exAccuse) exProof = Inr exResult"
  using exAccuse_valid by (simp add: Verify_def exAccuse_def exProof_def exResult_def)

text \<open>The record of that result, and an authorizer that finds it on the turn.\<close>

definition exVerdictRecord :: AccusationRecord where
  "exVerdictRecord = \<lparr>acr_TurnID = ''turn-a'', acr_Status = AccusationResultRecorded, acr_Result = Some exResult\<rparr>"

lemma exVerdictRecord_valid: "AccusationRecord_Validate refExt (Some exVerdictRecord) = None"
proof -
  have ids: "wrapErr ''turn_id'' (ValidateIDSegment refExt ''turn-a'') = None"
    "requireIDSegment refExt ''turn_id'' ''turn-a'' = None" "requireEntityID refExt ''case_id'' exCase = None"
    "List.member orderedAccusationOutcomes AccusationCorrect" "AccusationResultRecorded \<noteq> AccusationNotApplicable"
    by code_simp+
  moreover have "requireSHA256 ''decision_id'' (cd_DecisionID exAccuse) = None"
    by (simp add: exAccuse_def CaseDecisionID_def requireSHA256_deterministicID)
  ultimately show ?thesis
    by (simp add: AccusationRecord_Validate_def AccusationResult_Validate_def exVerdictRecord_def exResult_def wrapErr_def)
qed

definition exSettled :: memWorld where
  "exSettled = exInquest\<lparr>mg_ents := [exEntity exTurn [(TurnAccusationRef, AString (exObj ''accusation''))]]\<rparr>"

definition authorizerOf :: "AccusationRecord \<Rightarrow> memWorld DenouementAuthorizer" where
  "authorizerOf rec =
     \<lparr>da_GetEntity = gs_GetEntity memGraphStore, da_ByValue = EntitiesByPredicateValue memRequester,
      da_GetAccusationRecord = (\<lambda>ref. ret (Some rec))\<rparr>"

definition exAuthorizer :: "memWorld DenouementAuthorizer" where "exAuthorizer = authorizerOf exVerdictRecord"

lemma exRun_authorized:
  "Authorized refExt exAuthorizer ''turn-a'' exCase (exObj ''accusation'') exSettled = (Inr True, exSettled)"
proof -
  have "authorizedRef refExt ''turn-a'' (exObj ''accusation'') = Inr exAccusationRef"
    "holdingTurn (authorizerOf rec) ''turn-a'' (exObj ''accusation'') exSettled = (Inr exTurn, exSettled)" for rec
    by code_simp+
  moreover have "da_GetEntity (authorizerOf rec) exTurn exSettled
      = (Inr (snd (exEntity exTurn [(TurnAccusationRef, AString (exObj ''accusation''))])), exSettled)"
    "accusation_soleObject (snd (exEntity exTurn [(TurnAccusationRef, AString (exObj ''accusation''))])) TurnAccusationRef
      = Inr (exObj ''accusation'')" for rec
    by code_simp+
  moreover have "resultAuthorizes refExt ''turn-a'' exCase (Some exVerdictRecord) = Inr True"
    using exVerdictRecord_valid by (simp add: resultAuthorizes_def exVerdictRecord_def exResult_def)
  moreover have "da_GetAccusationRecord exAuthorizer = (\<lambda>ref. ret (Some exVerdictRecord))"
    by (simp add: exAuthorizer_def authorizerOf_def)
  ultimately show ?thesis
    by (simp add: Authorized_def bindM_def liftR_def mapErr_def ret_def exAuthorizer_def)
qed

section \<open>A trigger of the accusation stage\<close>

definition exConsumer :: "memWorld AccusationConsumer" where
  "exConsumer =
     \<lparr>acc_Load = (\<lambda>i. ret (notApplicable i ''turn-a'' None)),
      acc_CommitResult = CommitResult refExt refCommitter,
      acc_CommitNotApplicable = CommitNotApplicable refExt refCommitter,
      acc_Record = Record refLifecycle,
      acc_failer = (\<lambda>t i r ref. throw (External ''no failer''))\<rparr>"

definition exDecode :: "string \<Rightarrow> gerror + string \<times> string" where
  "exDecode data = Inr (exTurn, SubjectAccusation)"

lemma exRun_handle:
  "\<exists>w'. AccusationConsumer_Handle refExt exDecode exConsumer [] exInquest = (Inr (), w')
    \<and> accusation_Commit refExt refCommitter exTurn (Some exNoAccusation) exInquest = (Inr exAccusationRef, w')"
proof -
  obtain w' where run: "accusation_Commit refExt refCommitter exTurn (Some exNoAccusation) exInquest = (Inr exAccusationRef, w')"
    using exRun_no_accusation by (metis prod.collapse)
  have "ParseTrigger refExt exDecode [] = Inr \<lparr>tg_TurnEntityID = exTurn, tg_TurnID = ''turn-a'', tg_Subject = SubjectAccusation\<rparr>"
    by code_simp
  moreover have "acc_CommitNotApplicable exConsumer ''turn-a'' exTurn exInquest = (Inr exAccusationRef, w')"
    using run by (simp add: exConsumer_def CommitNotApplicable_def exNoAccusation_def)
  moreover have "acc_Load exConsumer exTurn exInquest = (Inr (notApplicable exTurn ''turn-a'' None), exInquest)"
    by (simp add: exConsumer_def ret_def)
  ultimately show ?thesis
    using run by (simp add: AccusationConsumer_Handle_def tryM_def notApplicable_def ret_def)
qed

end
