(* ===== verification/Campaign.thy ===== *)
theory Campaign
  imports Graphio Hashing
begin

text \<open>
  \<^verbatim>\<open>internal/campaign\<close>: the campaign entity. Its gate (\<^verbatim>\<open>gate.go\<close>) claims a campaign by one
  atomic create that records the seed and the experience, and reads them back; \<^verbatim>\<open>marker.go\<close> marks
  the end of the world import, which only the boot whose create won may do, and waits for the mark.
  The entropy, the clock, the pause between two polls and the text form of an instant are fields
  of the gate. The lemmas show that a campaign's provenance never changes once it is readable, whatever
  claims are made on it.
\<close>

section \<open>Identity and experience\<close>

definition campaign_TypeSegment :: string where "campaign_TypeSegment = ''campaign''"

definition InstanceSegment :: string where "InstanceSegment = ''main''"

record CampaignIdentity =
  ci_Org :: string
  ci_WorldNS :: string
  ci_Template :: string

definition CampaignIdentity_Validate :: "ext \<Rightarrow> CampaignIdentity \<Rightarrow> gerror option" where
  "CampaignIdentity_Validate X i =
     firstErr [
       wrapErr ''campaign org'' (ValidateIDSegment X (ci_Org i)),
       wrapErr ''campaign world namespace'' (ValidateIDSegment X (ci_WorldNS i)),
       wrapErr ''campaign template'' (ValidateIDSegment X (ci_Template i))]"

definition campaign_EntityID :: "ext \<Rightarrow> CampaignIdentity \<Rightarrow> gerror + string" where
  "campaign_EntityID X i =
     (case CampaignIdentity_Validate X i of
        Some e \<Rightarrow> Inl e
      | None \<Rightarrow>
          ComposeEntityID X (ci_Org i) (ci_WorldNS i) (ci_Template i) campaign_TypeSegment InstanceSegment)"

record Experience =
  xp_PersonaPack :: string
  xp_MechanicsPack :: string

definition Experience_Validate :: "ext \<Rightarrow> Experience \<Rightarrow> gerror option" where
  "Experience_Validate X e =
     firstErr [
       wrapErr ''persona pack'' (ValidateIDSegment X (xp_PersonaPack e)),
       wrapErr ''mechanics pack'' (ValidateIDSegment X (xp_MechanicsPack e))]"

definition ErrExperienceMigrationRequired :: gerror where
  "ErrExperienceMigrationRequired = Errorf ''campaign experience provenance requires migration''"

definition ErrExperienceMismatch :: gerror where
  "ErrExperienceMismatch = Errorf ''requested campaign experience does not match recorded provenance''"

section \<open>The gate\<close>

definition InstantiationSource :: string where "InstantiationSource = ''campaign-instantiation''"

definition CategoryCampaignEntity :: string where "CategoryCampaignEntity = ''campaign_entity''"

definition campaign_EntityMessageType :: MessageType where
  "campaign_EntityMessageType =
     \<lparr>mtDomain = payload_Domain, mtCategory = CategoryCampaignEntity, mtVersion = SchemaVersion\<rparr>"

record 'w Gate =
  gt_store :: "'w GraphStore"
  gt_identity :: CampaignIdentity
  gt_campaignID :: string
  gt_newSeed :: "('w, Seed) M"
  gt_now :: "'w \<Rightarrow> time \<times> 'w"
  gt_formatTime :: "time \<Rightarrow> string"
  gt_parseTime :: "string \<Rightarrow> gerror + time"
  gt_pause :: "time \<Rightarrow> ('w, unit) M"

text \<open>
  \<^verbatim>\<open>NewGate\<close> with its options applied: a missing store, seed source or clock is refused. The
  last three fields are the standard library's.
\<close>

definition NewGate ::
    "ext \<Rightarrow> 'w GraphStore option \<Rightarrow> CampaignIdentity \<Rightarrow> ('w, Seed) M option
     \<Rightarrow> ('w \<Rightarrow> time \<times> 'w) option \<Rightarrow> (time \<Rightarrow> string) \<Rightarrow> (string \<Rightarrow> gerror + time)
     \<Rightarrow> (time \<Rightarrow> ('w, unit) M) \<Rightarrow> gerror + 'w Gate" where
  "NewGate X store identity newSeed clock formatTime parseTime pause =
     (case store of
        None \<Rightarrow> Inl (Errorf ''campaign gate requires an entity store'')
      | Some s \<Rightarrow>
        (case campaign_EntityID X identity of
           Inl e \<Rightarrow> Inl e
         | Inr campaignID \<Rightarrow>
           (case newSeed of
              None \<Rightarrow> Inl (Errorf ''campaign gate requires a seed source'')
            | Some seeds \<Rightarrow>
              (case clock of
                 None \<Rightarrow> Inl (Errorf ''campaign gate requires a clock'')
               | Some now \<Rightarrow>
                   Inr \<lparr>gt_store = s, gt_identity = identity, gt_campaignID = campaignID,
                     gt_newSeed = seeds, gt_now = now, gt_formatTime = formatTime,
                     gt_parseTime = parseTime, gt_pause = pause\<rparr>))))"

text \<open>The clock as a call of the monad.\<close>

definition gate_now :: "'w Gate \<Rightarrow> ('w, time) M" where
  "gate_now g = (\<lambda>w. case gt_now g w of (at, w') \<Rightarrow> (Inr at, w'))"

record instantiationSnapshot =
  sn_campaignID :: string
  sn_seed :: Seed
  sn_experience :: Experience
  sn_fresh :: bool

record instantiationProof =
  ip_snapshot :: instantiationSnapshot
  ip_sealed :: bool

record Instantiation =
  in_CampaignID :: string
  in_Seed :: Seed
  in_Experience :: Experience
  in_Fresh :: bool
  in_proof :: instantiationProof

definition instantiation_snapshot :: "Instantiation \<Rightarrow> instantiationSnapshot" where
  "instantiation_snapshot i =
     \<lparr>sn_campaignID = in_CampaignID i, sn_seed = in_Seed i, sn_experience = in_Experience i,
      sn_fresh = in_Fresh i\<rparr>"

definition newInstantiation :: "string \<Rightarrow> Seed \<Rightarrow> Experience \<Rightarrow> bool \<Rightarrow> Instantiation" where
  "newInstantiation campaignID seed experience fresh =
     \<lparr>in_CampaignID = campaignID, in_Seed = seed, in_Experience = experience, in_Fresh = fresh,
      in_proof =
        \<lparr>ip_snapshot = \<lparr>sn_campaignID = campaignID, sn_seed = seed, sn_experience = experience, sn_fresh = fresh\<rparr>,
         ip_sealed = True\<rparr>\<rparr>"

definition hasValidProof :: "Instantiation \<Rightarrow> bool" where
  "hasValidProof i = (ip_sealed (in_proof i) \<and> ip_snapshot (in_proof i) = instantiation_snapshot i)"

section \<open>Reading a campaign\<close>

definition seedFromEntity :: "EntityState \<Rightarrow> gerror + Seed" where
  "seedFromEntity state =
     (case objectsIn (esTriples state) CampaignSeedValue of
        [] \<Rightarrow> Inl (Errorf ''campaign entity carries no seed triple'')
      | [object] \<Rightarrow>
          (case asString object of
             None \<Rightarrow> Inl (Errorf ''campaign entity carries a seed that is not a hex string'')
           | Some v \<Rightarrow>
               (case ParseSeed v of
                  Inl err \<Rightarrow> Inl (Wrapf ''campaign entity'' err)
                | Inr seed \<Rightarrow> Inr seed))
      | _ \<Rightarrow> Inl (Errorf ''campaign entity holds several seeds; its seed is ambiguous''))"

definition instantiationFromEntity :: "ext \<Rightarrow> EntityState \<Rightarrow> gerror + (Seed \<times> Experience)" where
  "instantiationFromEntity X state =
     (case seedFromEntity state of
        Inl err \<Rightarrow> Inl err
      | Inr seed \<Rightarrow>
        (let personaObjects = objectsIn (esTriples state) CampaignExperiencePersonaPack;
             mechanicsObjects = objectsIn (esTriples state) CampaignExperienceMechanicsPack in
         if personaObjects = [] \<and> mechanicsObjects = []
         then Inl (Wrapf ''campaign entity has neither pack'' ErrExperienceMigrationRequired)
         else if personaObjects = [] \<or> mechanicsObjects = []
         then Inl (Errorf ''campaign entity has partial experience provenance'')
         else if 1 < length personaObjects
         then Inl (Errorf ''campaign entity holds several persona packs'')
         else if 1 < length mechanicsObjects
         then Inl (Errorf ''campaign entity holds several mechanics packs'')
         else case asString (hd personaObjects) of
           None \<Rightarrow> Inl (Errorf ''campaign entity records a persona pack that is not a string'')
         | Some personaPack \<Rightarrow>
           (case asString (hd mechanicsObjects) of
              None \<Rightarrow> Inl (Errorf ''campaign entity records a mechanics pack that is not a string'')
            | Some mechanicsPack \<Rightarrow>
              (let experience = \<lparr>xp_PersonaPack = personaPack, xp_MechanicsPack = mechanicsPack\<rparr> in
               case Experience_Validate X experience of
                 Some err \<Rightarrow> Inl (Wrapf ''campaign entity records malformed experience provenance'' err)
               | None \<Rightarrow> Inr (seed, experience)))))"

text \<open>
  The entity a create or a read returns may be missing; a successful read never is (the store's
  record of operations makes that explicit).
\<close>

definition confirmStoredInstantiation ::
    "ext \<Rightarrow> EntityState option \<Rightarrow> Seed \<Rightarrow> Experience \<Rightarrow> gerror option" where
  "confirmStoredInstantiation X stored minted requested =
     (case (case stored of
              None \<Rightarrow> Inl (Errorf ''campaign entity read back as nil'')
            | Some st \<Rightarrow> instantiationFromEntity X st) of
        Inl err \<Rightarrow> Some (Wrapf ''campaign was created but its provenance was not exact'' err)
      | Inr (readBackSeed, readBackExperience) \<Rightarrow>
          firstErr [
            failIf (readBackSeed \<noteq> minted)
              (Errorf ''campaign stored a different seed than the one it was created with''),
            failIf (readBackExperience \<noteq> requested)
              (Errorf ''campaign stored another experience than requested'')])"

section \<open>Claiming a campaign\<close>

definition instantiationTriple :: "string \<Rightarrow> time \<Rightarrow> Predicate \<Rightarrow> string \<Rightarrow> Triple" where
  "instantiationTriple campaignID at predicate object =
     \<lparr>trSubject = campaignID, trPredicate = predicate, trObject = AString object,
      trSource = InstantiationSource, trTimestamp = at, trConfidence = f64_one,
      trContext = campaignID, trDatatype = [], trExpiresAt = None\<rparr>"

definition gate_entity :: "'w Gate \<Rightarrow> Seed \<Rightarrow> Experience \<Rightarrow> time \<Rightarrow> EntityState" where
  "gate_entity g seed experience at =
     \<lparr>esID = gt_campaignID g, esMessageType = campaign_EntityMessageType, esVersion = 1,
      esUpdatedAt = at, esStorageRef = None,
      esTriples =
        [instantiationTriple (gt_campaignID g) at CampaignSeedValue (Seed_String seed),
         instantiationTriple (gt_campaignID g) at CampaignExperiencePersonaPack (xp_PersonaPack experience),
         instantiationTriple (gt_campaignID g) at CampaignExperienceMechanicsPack (xp_MechanicsPack experience)]\<rparr>"

definition adoptInstantiation :: "ext \<Rightarrow> 'w Gate \<Rightarrow> Experience \<Rightarrow> ('w, Instantiation) M" where
  "adoptInstantiation X g requested =
     bindM (mapErr (Wrapf ''campaign already exists but its instantiation provenance is unreadable'')
         (gs_GetEntity (gt_store g) (gt_campaignID g))) (\<lambda>state.
     bindM (mapErr (Wrapf ''campaign already exists but its seed and experience are never regenerated'')
         (liftR (instantiationFromEntity X state))) (\<lambda>(storedSeed, storedExperience).
     if storedExperience \<noteq> requested
     then throw (Wrapf ''campaign recorded another experience'' ErrExperienceMismatch)
     else ret (newInstantiation (gt_campaignID g) storedSeed storedExperience False)))"

definition Claim :: "ext \<Rightarrow> 'w Gate \<Rightarrow> Experience \<Rightarrow> ('w, Instantiation) M" where
  "Claim X g requested =
     checkM (wrapErr ''claim campaign with invalid experience'' (Experience_Validate X requested))
     (bindM (gt_newSeed g) (\<lambda>seed.
      if Seed_IsZero seed then throw (Errorf ''campaign seed source produced the zero seed'')
      else bindM (gate_now g) (\<lambda>at.
      tryM (gs_CreateEntity (gt_store g) CampaignBirthContract (Some (gate_entity g seed requested at)))
        (\<lambda>r. case r of
           Inr result \<Rightarrow>
             checkM (confirmStoredInstantiation X (cr_Entity result) seed requested)
               (ret (newInstantiation (gt_campaignID g) seed requested True))
         | Inl err \<Rightarrow>
             if errors_Is err ErrEntityExists then adoptInstantiation X g requested
             else throw err))))"

definition LoadSeed :: "'w Gate \<Rightarrow> ('w, Seed) M" where
  "LoadSeed g =
     bindM (gs_GetEntity (gt_store g) (gt_campaignID g)) (\<lambda>state. liftR (seedFromEntity state))"

section \<open>Marking the import\<close>

definition MarkerSource :: string where "MarkerSource = ''world-import''"

definition ErrImportInterrupted :: gerror where
  "ErrImportInterrupted = Errorf ''the campaign was claimed but its world import never completed''"

definition markerTriple :: "'w Gate \<Rightarrow> time \<Rightarrow> Triple" where
  "markerTriple g at =
     \<lparr>trSubject = gt_campaignID g, trPredicate = CampaignImportCompleted,
      trObject = AString (gt_formatTime g at), trSource = MarkerSource, trTimestamp = at,
      trConfidence = f64_one, trContext = gt_campaignID g, trDatatype = [], trExpiresAt = None\<rparr>"

definition MarkImported :: "'w Gate \<Rightarrow> Instantiation \<Rightarrow> ('w, time) M" where
  "MarkImported g claim =
     checkM (firstErr [
         failIf (\<not> ip_sealed (in_proof claim))
           (Errorf ''refusing to mark campaign imported from an Instantiation that did not come out of Claim''),
         failIf (\<not> hasValidProof claim)
           (Errorf ''refusing to mark campaign imported because the Instantiation no longer matches its Claim proof''),
         failIf (\<not> in_Fresh claim)
           (Errorf ''refusing to mark campaign imported from a claim that did not create it''),
         failIf (in_CampaignID claim \<noteq> gt_campaignID g)
           (Errorf ''refusing to mark campaign imported from a claim on another'')])
     (bindM (gate_now g) (\<lambda>at.
      bindM (mapErr (Wrapf ''record the import-completion marker on campaign'')
          (gs_Reconcile (gt_store g) CampaignImport (gt_campaignID g) [markerTriple g at])) (\<lambda>_.
      ret at)))"

definition completionFromEntity :: "(string \<Rightarrow> gerror + time) \<Rightarrow> EntityState \<Rightarrow> gerror + time option" where
  "completionFromEntity parseTime state =
     (case objectsIn (esTriples state) CampaignImportCompleted of
        [] \<Rightarrow> Inr None
      | [object] \<Rightarrow>
          (case asString object of
             None \<Rightarrow> Inl (Errorf ''campaign entity records a completion that is not an instant'')
           | Some v \<Rightarrow>
               (case parseTime v of
                  Inl err \<Rightarrow> Inl (Wrapf ''campaign entity records a completion that is not an instant'' err)
                | Inr at \<Rightarrow> Inr (Some at)))
      | _ \<Rightarrow> Inl (Errorf ''campaign entity holds several completions''))"

definition ImportCompletion :: "'w Gate \<Rightarrow> ('w, time option) M" where
  "ImportCompletion g =
     bindM (gs_GetEntity (gt_store g) (gt_campaignID g)) (\<lambda>state.
       liftR (completionFromEntity (gt_parseTime g) state))"

text \<open>The polling loop, at most \<open>fuel\<close> times round; \<open>None\<close> is a loop that is still going.\<close>

fun awaitLoop :: "'w Gate \<Rightarrow> time \<Rightarrow> time \<Rightarrow> nat \<Rightarrow> 'w \<Rightarrow> ((gerror + time) \<times> 'w) option" where
  "awaitLoop g deadline poll 0 w = None"
| "awaitLoop g deadline poll (Suc fuel) w =
     (case ImportCompletion g w of
        (Inl err, w1) \<Rightarrow> Some (Inl err, w1)
      | (Inr (Some at), w1) \<Rightarrow> Some (Inr at, w1)
      | (Inr None, w1) \<Rightarrow>
          (case gt_now g w1 of (now, w2) \<Rightarrow>
             if \<not> now < deadline
             then Some (Inl (Wrapf ''campaign has existed for the whole wait unmarked'' ErrImportInterrupted), w2)
             else (case gt_pause g poll w2 of
                 (Inl err, w3) \<Rightarrow> Some (Inl err, w3)
               | (Inr _, w3) \<Rightarrow> awaitLoop g deadline poll fuel w3)))"

definition AwaitImportCompletion ::
    "'w Gate \<Rightarrow> time \<Rightarrow> time \<Rightarrow> nat \<Rightarrow> 'w \<Rightarrow> ((gerror + time) \<times> 'w) option" where
  "AwaitImportCompletion g wait poll fuel w =
     (if wait \<le> 0 \<or> poll \<le> 0
      then Some (Inl (Errorf ''waiting for the import marker requires a positive bound and interval''), w)
      else case gt_now g w of (now, w1) \<Rightarrow> awaitLoop g (now + wait) poll fuel w1)"

definition DefaultMarkerWait :: time where "DefaultMarkerWait = 120000000000"

definition DefaultMarkerPoll :: time where "DefaultMarkerPoll = 250000000"

section \<open>Provenance\<close>

text \<open>What the graph holds of a campaign: a readable seed and the experience recorded with it.\<close>

definition provenance :: "ext \<Rightarrow> (string \<Rightarrow> EntityState option) \<Rightarrow> string \<Rightarrow> (Seed \<times> Experience) option" where
  "provenance X E i =
     (case E i of
        None \<Rightarrow> None
      | Some st \<Rightarrow> (case instantiationFromEntity X st of Inl _ \<Rightarrow> None | Inr p \<Rightarrow> Some p))"

lemma mset_single: "mset xs = {#x#} \<longleftrightarrow> xs = [x]"
  by (metis mset_single_iff_right)

lemma seedFromEntity_Inr:
  "seedFromEntity st = Inr s \<longleftrightarrow>
     (\<exists>v. objectsIn (esTriples st) CampaignSeedValue = [AString v] \<and> ParseSeed v = Inr s)"
  by (auto simp: seedFromEntity_def split: list.splits option.splits sum.splits)

lemma instantiationFromEntity_Inr:
  "instantiationFromEntity X st = Inr (s, x) \<longleftrightarrow>
     seedFromEntity st = Inr s
     \<and> objectsIn (esTriples st) CampaignExperiencePersonaPack = [AString (xp_PersonaPack x)]
     \<and> objectsIn (esTriples st) CampaignExperienceMechanicsPack = [AString (xp_MechanicsPack x)]
     \<and> Experience_Validate X x = None"
  (is "?l = ?r")
proof
  assume ?l
  then show ?r
    by (auto simp: instantiationFromEntity_def Let_def neq_Nil_conv split: sum.splits if_splits option.splits)
      (metis list.exhaust)+
qed (cases x, auto simp: instantiationFromEntity_def Let_def)

text \<open>It depends on three groups of facts of the campaign only.\<close>

definition birthFacts :: "Predicate list" where
  "birthFacts = [CampaignSeedValue, CampaignExperiencePersonaPack, CampaignExperienceMechanicsPack]"

lemma provenance_eq:
  "provenance X E i = Some p \<longleftrightarrow> (\<exists>st. E i = Some st \<and> instantiationFromEntity X st = Inr p)"
  by (auto simp: provenance_def split: option.splits sum.splits)

lemma provenance_Some:
  "provenance X E i = Some (s, x) \<longleftrightarrow>
     E i \<noteq> None \<and> (\<exists>v. graphOf E i CampaignSeedValue = {#AString v#} \<and> ParseSeed v = Inr s)
     \<and> graphOf E i CampaignExperiencePersonaPack = {#AString (xp_PersonaPack x)#}
     \<and> graphOf E i CampaignExperienceMechanicsPack = {#AString (xp_MechanicsPack x)#}
     \<and> Experience_Validate X x = None"
  unfolding provenance_eq instantiationFromEntity_Inr
  by (auto simp: graphOf_def mset_single seedFromEntity_Inr)

lemma provenance_kept:
  assumes "provenance X E i = Some p" and "E' i \<noteq> None"
    and "\<forall>q \<in> set birthFacts. graphOf E' i q = graphOf E i q"
  shows "provenance X E' i = Some p"
  using assms by (cases p) (auto simp: provenance_Some birthFacts_def)

lemma confirmStored_None:
  "confirmStoredInstantiation X stored s x = None \<longleftrightarrow>
     (\<exists>st. stored = Some st \<and> instantiationFromEntity X st = Inr (s, x))"
  by (auto simp: confirmStoredInstantiation_def split: option.splits sum.splits)

section \<open>Claims and marks over the graph\<close>

text \<open>A gate over a graph store: its entropy and its clock leave the graph alone.\<close>

locale campaign_gate = graph_store X S ents
  for X :: ext and S :: "'w GraphStore" and ents :: "'w \<Rightarrow> string \<Rightarrow> EntityState option" +
  fixes g :: "'w Gate"
  assumes store: "gt_store g = S"
    and seed_frame: "gt_newSeed g w = (r, w') \<Longrightarrow> ents w' = ents w"
    and clock_frame: "gt_now g w = (at, w') \<Longrightarrow> ents w' = ents w"
begin

lemma gate_now_frame: "gate_now g w = (r, w') \<Longrightarrow> ents w' = ents w"
  using clock_frame by (auto simp: gate_now_def split: prod.splits)

lemma adopt_frame: "adoptInstantiation X g req w = (r, w') \<Longrightarrow> ents w' = ents w"
  using get_frame
  by (auto simp: adoptInstantiation_def store mapErr_Inl elim!: bindM_cases split: prod.splits if_splits)

lemma adopt_Inr:
  assumes "adoptInstantiation X g req w = (Inr a, w')"
  shows "\<exists>s. a = newInstantiation (gt_campaignID g) s req False
    \<and> provenance X (ents w) (gt_campaignID g) = Some (s, req)"
  using assms get_ok
  by (fastforce simp: adoptInstantiation_def store bindM_Inr provenance_def split: if_splits)

text \<open>
  A claim leaves the graph alone or makes the campaign where there was none; if it succeeds, the
  campaign carries what the claim returned.
\<close>

lemma Claim_cases:
  assumes "Claim X g req w = (r, w')"
  obtains (kept) "ents w' = ents w"
      "\<And>a. r = Inr a \<Longrightarrow> \<exists>s. a = newInstantiation (gt_campaignID g) s req False
         \<and> provenance X (ents w) (gt_campaignID g) = Some (s, req)"
  | (made) s e' where "fst (gt_newSeed g w) = Inr s"
      "ents w' = (ents w)(gt_campaignID g \<mapsto> e')"
      "ents w (gt_campaignID g) = None \<or> ents w (gt_campaignID g) = Some e'"
      "\<And>a. r = Inr a \<Longrightarrow> a = newInstantiation (gt_campaignID g) s req True
         \<and> provenance X (ents w') (gt_campaignID g) = Some (s, req)"
proof -
  note kept = that(1) and made = that(2)
  show thesis
  proof (cases "Experience_Validate X req")
    case (Some e)
    with assms show thesis by (intro kept) (auto simp: Claim_def wrapErr_def)
  next
    case None
    obtain q w1 where q: "gt_newSeed g w = (q, w1)" by fastforce
    have w1: "ents w1 = ents w" by (rule seed_frame [OF q])
    show thesis
    proof (cases "\<exists>s. q = Inr s \<and> \<not> Seed_IsZero s")
      case False
      with assms None q w1 show thesis
        by (intro kept) (cases q; auto simp: Claim_def wrapErr_def bindM_def)+
    next
      case True
      then obtain s where s: "q = Inr s" "\<not> Seed_IsZero s" by blast
      obtain at w2 where n: "gate_now g w1 = (Inr at, w2)"
        by (cases "gt_now g w1") (auto simp: gate_now_def)
      have w2: "ents w2 = ents w" using gate_now_frame [OF n] w1 by simp
      let ?ent = "gate_entity g s req at"
      have i: "esID ?ent = gt_campaignID g" by (simp add: gate_entity_def)
      obtain b w3 where b: "gs_CreateEntity S CampaignBirthContract (Some ?ent) w2 = (b, w3)" by fastforce
      have rest: "(case b of
           Inr result \<Rightarrow>
             checkM (confirmStoredInstantiation X (cr_Entity result) s req)
               (ret (newInstantiation (gt_campaignID g) s req True))
         | Inl err \<Rightarrow>
             if errors_Is err ErrEntityExists then adoptInstantiation X g req
             else throw err) w3 = (r, w')"
        using assms None q s n b by (simp add: Claim_def wrapErr_def bindM_def tryM_def store)
      show thesis
      proof (cases b)
        case (Inr res)
        from birth_ok [OF b [unfolded Inr]] obtain e' where e': "ents w3 = (ents w)(gt_campaignID g \<mapsto> e')"
            "cr_Entity res = None \<or> cr_Entity res = Some e'"
            "ents w (gt_campaignID g) = None \<or> ents w (gt_campaignID g) = Some e'"
          by (auto simp: i w2)
        from rest Inr have "w' = w3" by (auto simp: checkM_eq)
        moreover from rest Inr e' have "a = newInstantiation (gt_campaignID g) s req True
            \<and> provenance X (ents w3) (gt_campaignID g) = Some (s, req)" if "r = Inr a" for a
          using that by (auto simp: checkM_eq confirmStored_None provenance_def)
        ultimately show thesis using q s e' by (intro made [of s e']) auto
      next
        case (Inl err)
        show thesis
        proof (cases "errors_Is err ErrEntityExists")
          case True
          have w3: "ents w3 = ents w" using birth_exists [OF b [unfolded Inl] True] w2 by simp
          have a: "adoptInstantiation X g req w3 = (r, w')" using rest Inl True by simp
          show thesis using adopt_frame [OF a] adopt_Inr [of req w3 _ w'] a w3 by (intro kept) auto
        next
          case False
          with rest Inl have r: "r = Inl err" "w' = w3" by auto
          from birth_failed [OF b [unfolded Inl]] show thesis
          proof (elim disjE exE conjE)
            assume "ents w3 = ents w2"
            with r w2 show thesis by (intro kept) auto
          next
            fix e' assume "ents w2 (esID ?ent) = None" "ents w3 = (ents w2)(esID ?ent \<mapsto> e')"
            with r w2 q s show thesis by (intro made [of s e']) (auto simp: i)
          qed
        qed
      qed
    qed
  qed
qed

lemma Claim_keeps_provenance:
  assumes "Claim X g req w = (r, w')" and "provenance X (ents w) i = Some p"
  shows "provenance X (ents w') i = Some p"
  using assms(1)
proof (cases rule: Claim_cases)
  case kept
  with assms(2) show ?thesis by simp
next
  case (made s e')
  then have "ents w' i = ents w i"
    using assms(2) by (cases "i = gt_campaignID g") (auto simp: provenance_def)
  with assms(2) show ?thesis by (simp add: provenance_def)
qed

lemma Claim_Inr:
  assumes "Claim X g req w = (Inr a, w')"
  shows "provenance X (ents w') (gt_campaignID g) = Some (in_Seed a, in_Experience a)"
    and "in_Experience a = req" "in_CampaignID a = gt_campaignID g" "hasValidProof a"
    and "in_Fresh a \<Longrightarrow> fst (gt_newSeed g w) = Inr (in_Seed a)"
proof -
  have "provenance X (ents w') (gt_campaignID g) = Some (in_Seed a, in_Experience a) \<and> in_Experience a = req
    \<and> in_CampaignID a = gt_campaignID g \<and> hasValidProof a
    \<and> (in_Fresh a \<longrightarrow> fst (gt_newSeed g w) = Inr (in_Seed a))"
    using assms
    by (cases rule: Claim_cases) (auto simp: newInstantiation_def hasValidProof_def instantiation_snapshot_def)
  then show "provenance X (ents w') (gt_campaignID g) = Some (in_Seed a, in_Experience a)"
    "in_Experience a = req" "in_CampaignID a = gt_campaignID g" "hasValidProof a"
    "in_Fresh a \<Longrightarrow> fst (gt_newSeed g w) = Inr (in_Seed a)" by blast+
qed

lemma import_group [simp]: "Predicates CampaignImport = [CampaignImportCompleted]"
  by code_simp

text \<open>A write of one group fails without a trace, or happens, whatever it answers.\<close>

lemma gate_put_cases:
  assumes "gs_Reconcile S t i ds w = (r, w')"
  obtains (kept) e where "r = Inl e" "ents w' = ents w"
  | (put) "\<And>j q. objs ents w' j q =
      (if j = i \<and> q \<in> set (Predicates t) then mset (objectsIn ds q) else objs ents w j q)"
proof (cases r)
  case (Inl e)
  from put_failed [OF assms [unfolded Inl]] show thesis
  proof
    assume "ents w' = ents w"
    with Inl show thesis by (rule that(1))
  next
    assume "\<exists>e e'. ents w i = Some e \<and> reconciled (Predicates t) ds e e' \<and> ents w' = (ents w)(i \<mapsto> e')"
    then show thesis by (intro that(2)) (auto simp: graphOf_def reconciled_objects)
  qed
next
  case (Inr e')
  show thesis by (rule that(2)) (rule put_objs [OF assms [unfolded Inr]])
qed

lemma MarkImported_cases:
  assumes "MarkImported g a w = (r, w')"
  obtains (kept) e where "r = Inl e" "ents w' = ents w"
  | (marked) at where "hasValidProof a" "in_Fresh a" "in_CampaignID a = gt_campaignID g"
      "\<And>j q. objs ents w' j q = (if j = gt_campaignID g \<and> q = CampaignImportCompleted
         then {#AString (gt_formatTime g at)#} else objs ents w j q)"
      "dom (ents w') = dom (ents w)"
proof (cases "hasValidProof a \<and> in_Fresh a \<and> in_CampaignID a = gt_campaignID g")
  case False
  with assms have "(\<exists>e. r = Inl e) \<and> w' = w" by (auto simp: MarkImported_def checkM_eq)
  then show thesis using that(1) by auto
next
  case True
  obtain at w1 where n: "gate_now g w = (Inr at, w1)" by (cases "gt_now g w") (auto simp: gate_now_def)
  have w1: "ents w1 = ents w" by (rule gate_now_frame [OF n])
  obtain b w2 where b: "gs_Reconcile S CampaignImport (gt_campaignID g) [markerTriple g at] w1 = (b, w2)" by fastforce
  have "bindM (mapErr (Wrapf ''record the import-completion marker on campaign'')
      (gs_Reconcile S CampaignImport (gt_campaignID g) [markerTriple g at])) (\<lambda>_. ret at) w1 = (r, w')"
    using assms True n by (simp add: MarkImported_def failIf_def hasValidProof_def bindM_def store)
  then have w': "w' = w2" "\<And>e. b = Inl e \<Longrightarrow> \<exists>e. r = Inl e"
    using b by (auto elim!: bindM_cases simp: mapErr_Inl)
  have dom: "dom (ents w2) = dom (ents w)" using put_dom [OF b] w1 by simp
  from b show thesis
  proof (cases rule: gate_put_cases)
    case (kept e)
    with that(1) w' w1 show thesis by auto
  next
    case put
    have "objs ents w2 j q = (if j = gt_campaignID g \<and> q = CampaignImportCompleted
        then {#AString (gt_formatTime g at)#} else objs ents w j q)" for j q
      by (simp add: put w1) (simp add: markerTriple_def)
    then show thesis using that(2) True dom w' by blast
  qed
qed

lemma MarkImported_keeps_provenance:
  assumes "MarkImported g a w = (r, w')" and "provenance X (ents w) i = Some p"
  shows "provenance X (ents w') i = Some p"
  using assms(1)
proof (cases rule: MarkImported_cases)
  case kept
  with assms(2) show ?thesis by simp
next
  case (marked at)
  have "ents w' i \<noteq> None" using assms(2) marked(5) by (auto simp: provenance_eq domI)
  moreover have "CampaignImportCompleted \<notin> set birthFacts" by code_simp
  then have "\<forall>q \<in> set birthFacts. objs ents w' i q = objs ents w i q"
    unfolding marked(4) by (metis (full_types))
  ultimately show ?thesis by (rule provenance_kept [OF assms(2)])
qed

end

section \<open>Runs\<close>

text \<open>
  What can happen to a campaign: claims and marks by any of the gates, with any arguments and any
  outcome, and steps of other components, which keep what instantiation recorded.
\<close>

inductive campaign_step ::
    "ext \<Rightarrow> ('w \<Rightarrow> string \<Rightarrow> EntityState option) \<Rightarrow> ('w Gate \<Rightarrow> bool) \<Rightarrow> string \<Rightarrow> 'w \<Rightarrow> 'w \<Rightarrow> bool"
  for X ents gates i where
  claims: "gates g \<Longrightarrow> Claim X g req w = (r, w') \<Longrightarrow> campaign_step X ents gates i w w'"
| marks: "gates g \<Longrightarrow> MarkImported g a w = (r, w') \<Longrightarrow> campaign_step X ents gates i w w'"
| others: "(ents w i \<noteq> None \<longrightarrow> ents w' i \<noteq> None \<and> (\<forall>q \<in> set birthFacts. objs ents w' i q = objs ents w i q))
    \<Longrightarrow> campaign_step X ents gates i w w'"

lemma campaign_run_keeps:
  assumes "(campaign_step X ents gates i)\<^sup>*\<^sup>* w w'"
    and "\<And>g. gates g \<Longrightarrow> campaign_gate X S ents g"
    and "provenance X (ents w) i = Some p"
  shows "provenance X (ents w') i = Some p"
  using assms(1,3)
proof (induction rule: rtranclp_induct)
  case (step w1 w2)
  from step.hyps(2) step.IH [OF step.prems] show ?case
  proof (cases rule: campaign_step.cases)
    case (claims g req r)
    then show ?thesis
      using campaign_gate.Claim_keeps_provenance [OF assms(2)] step.IH [OF step.prems] by blast
  next
    case (marks g a r)
    then show ?thesis
      using campaign_gate.MarkImported_keeps_provenance [OF assms(2)] step.IH [OF step.prems] by blast
  next
    case others
    have "ents w1 i \<noteq> None" using step.IH [OF step.prems] by (auto simp: provenance_eq)
    with others show ?thesis by (blast intro: provenance_kept [OF step.IH [OF step.prems]])
  qed
qed

section \<open>Waiting for the mark\<close>

text \<open>
  Time passes while the gate waits: the clock never goes back, and a pause that is not cancelled
  lasts at least as long as asked. What other processes do in a pause is not restricted.
\<close>

locale campaign_waiter = campaign_gate X S ents g
  for X :: ext and S :: "'w GraphStore" and ents :: "'w \<Rightarrow> string \<Rightarrow> EntityState option" and g :: "'w Gate" +
  fixes clock :: "'w \<Rightarrow> time"
  assumes clock_reads: "gt_now g w = (at, w') \<Longrightarrow> at = clock w \<and> clock w \<le> clock w'"
    and get_time: "gs_GetEntity S i w = (r, w') \<Longrightarrow> clock w \<le> clock w'"
    and pause_time: "gt_pause g d w = (Inr u, w') \<Longrightarrow> clock w + d \<le> clock w'"
begin

lemma ImportCompletion_facts:
  assumes "ImportCompletion g w = (r, w')"
  shows "clock w \<le> clock w'" "ents w' = ents w"
    and "r = Inr (Some at) \<Longrightarrow>
      \<exists>v. objs ents w' (gt_campaignID g) CampaignImportCompleted = {#AString v#} \<and> gt_parseTime g v = Inr at"
proof -
  show "clock w \<le> clock w'" "ents w' = ents w"
    using assms get_time get_frame by (auto simp: ImportCompletion_def store elim!: bindM_cases)
  show "\<exists>v. objs ents w' (gt_campaignID g) CampaignImportCompleted = {#AString v#} \<and> gt_parseTime g v = Inr at"
    if "r = Inr (Some at)"
  proof -
    from that assms obtain st where st: "gs_GetEntity S (gt_campaignID g) w = (Inr st, w')"
        "completionFromEntity (gt_parseTime g) st = Inr (Some at)"
      by (auto simp: ImportCompletion_def store bindM_Inr)
    from st(2) obtain v where "objectsIn (esTriples st) CampaignImportCompleted = [AString v]"
        "gt_parseTime g v = Inr at"
      by (auto simp: completionFromEntity_def split: list.splits option.splits sum.splits)
    then show ?thesis using get_ok [OF st(1)] get_frame [OF st(1)] by (auto simp: graphOf_def)
  qed
qed

text \<open>One poll more than the pauses that cover the rest of the wait is enough.\<close>

lemma awaitLoop_ends:
  assumes "deadline - clock w \<le> int n * poll"
  shows "\<exists>r w'. awaitLoop g deadline poll (Suc n) w = Some (r, w')
    \<and> (\<forall>at. r = Inr at \<longrightarrow> (\<exists>v. objs ents w' (gt_campaignID g) CampaignImportCompleted = {#AString v#}
         \<and> gt_parseTime g v = Inr at))"
  using assms
proof (induction n arbitrary: w)
  case (0 w)
  obtain r w1 where r: "ImportCompletion g w = (r, w1)" by fastforce
  obtain now w2 where now: "gt_now g w1 = (now, w2)" by fastforce
  have "\<not> now < deadline" using 0 ImportCompletion_facts(1) [OF r] clock_reads [OF now] by auto
  with r now ImportCompletion_facts(3) [OF r] show ?case by (auto split: sum.splits option.splits)
next
  case (Suc n w)
  obtain r w1 where r: "ImportCompletion g w = (r, w1)" by fastforce
  obtain now w2 where now: "gt_now g w1 = (now, w2)" by fastforce
  obtain u w3 where u: "gt_pause g poll w2 = (u, w3)" by fastforce
  consider e where "r = Inl e" | at where "r = Inr (Some at)" | "r = Inr None" "\<not> now < deadline"
    | e where "r = Inr None" "now < deadline" "u = Inl e" | "r = Inr None" "now < deadline" "u = Inr ()"
    by (cases r; cases u; metis (full_types) option.exhaust unit.exhaust)
  then show ?case
  proof cases
    case 5
    have "clock w \<le> clock w1" "clock w1 \<le> clock w2" "clock w2 + poll \<le> clock w3"
      using ImportCompletion_facts(1) [OF r] clock_reads [OF now] pause_time [of poll w2 "()" w3] u 5 by auto
    with Suc.prems have "deadline - clock w3 \<le> int n * poll" by (simp add: algebra_simps)
    from Suc.IH [OF this] 5 r now u show ?thesis by simp
  qed (use r now u ImportCompletion_facts(3) [OF r] in auto)
qed

lemma AwaitImportCompletion_ends:
  assumes "wait \<le> int n * poll"
  shows "\<exists>r w'. AwaitImportCompletion g wait poll (Suc n) w = Some (r, w')
    \<and> (\<forall>at. r = Inr at \<longrightarrow> (\<exists>v. objs ents w' (gt_campaignID g) CampaignImportCompleted = {#AString v#}
         \<and> gt_parseTime g v = Inr at))"
proof -
  obtain now w1 where now: "gt_now g w = (now, w1)" by fastforce
  have "now + wait - clock w1 \<le> int n * poll" using clock_reads [OF now] assms by auto
  from awaitLoop_ends [OF this] now show ?thesis by (auto simp: AwaitImportCompletion_def simp del: awaitLoop.simps)
qed

end

end
