(* ===== verification/Reference_Campaign.thy ===== *)
theory Reference_Campaign
  imports Reference_Engine Campaign
begin

text \<open>
  A campaign gate on the reference world, whose seed source always mints the same seed and whose
  pauses move the clock: the interpretations discharge the laws of \<open>campaign_gate\<close> and of
  \<open>campaign_waiter\<close>. Two gates that mint different seeds race for one campaign.
\<close>

definition exCampaignIdentity :: CampaignIdentity where
  "exCampaignIdentity = \<lparr>ci_Org = ''o'', ci_WorldNS = ''d'', ci_Template = ''s''\<rparr>"

definition exCampaignID :: string where
  "exCampaignID = ''o.semmachina.d.s.campaign.main''"

definition refGate :: "Seed \<Rightarrow> memWorld Gate" where
  "refGate seed =
     \<lparr>gt_store = memGraphStore, gt_identity = exCampaignIdentity, gt_campaignID = exCampaignID,
      gt_newSeed = ret seed, gt_now = memNow, gt_formatTime = encInt,
      gt_parseTime = (\<lambda>s. Inr (decInt s)),
      gt_pause = (\<lambda>d w. (Inr (), w\<lparr>mw_clock := mw_clock w + \<bar>d\<bar>\<rparr>))\<rparr>"

lemma refGate_new:
  "NewGate refExt (Some memGraphStore) exCampaignIdentity (Some (ret seed)) (Some memNow) encInt
     (\<lambda>s. Inr (decInt s)) (\<lambda>d w. (Inr (), w\<lparr>mw_clock := mw_clock w + \<bar>d\<bar>\<rparr>)) = Inr (refGate seed)"
proof -
  have "campaign_EntityID refExt exCampaignIdentity = Inr exCampaignID" by code_simp
  then show ?thesis by (simp add: NewGate_def refGate_def)
qed

lemma refGate_gate: "campaign_gate refExt memGraphStore memEnts (refGate seed)"
  by (intro campaign_gate.intro campaign_gate_axioms.intro memGraph_store)
    (auto simp: refGate_def memNow_def)

interpretation refCampaign: campaign_gate refExt memGraphStore memEnts "refGate seed" for seed
  by (rule refGate_gate)

lemma popFault_clock: "popFault w = (f, w1) \<Longrightarrow> mw_clock w1 = mw_clock w"
  by (auto simp: popFault_def split: list.splits)

lemma memGet_clock: "gs_GetEntity memGraphStore i w = (r, w') \<Longrightarrow> mw_clock w' = mw_clock w"
  by (auto simp: memGraphStore_def graphioStore_def GetEntity_def memClient_def memRead_def tryM_def M_defs
      split: if_splits prod.splits option.splits sum.splits dest!: popFault_clock)

lemma refGate_waiter: "campaign_waiter refExt memGraphStore memEnts (refGate seed) mw_clock"
  by (intro campaign_waiter.intro campaign_waiter_axioms.intro refGate_gate)
    (auto simp: refGate_def memNow_def memGet_clock)

interpretation refWait: campaign_waiter refExt memGraphStore memEnts "refGate seed" mw_clock for seed
  by (rule refGate_waiter)

section \<open>A race for a campaign\<close>

definition exFirstSeed :: Seed where "exFirstSeed = replicate 32 CHR ''a''"

definition exSecondSeed :: Seed where "exSecondSeed = replicate 32 CHR ''b''"

definition exExperience :: Experience where
  "exExperience = \<lparr>xp_PersonaPack = ''bellweather'', xp_MechanicsPack = ''classic''\<rparr>"

definition emptyWorld :: "fault option list \<Rightarrow> memWorld" where
  "emptyWorld faults =
     \<lparr>mg_ents = [], mg_faults = faults, mw_objects = [], mw_claims = [], mw_clock = 7\<rparr>"

text \<open>The campaign as the first claim makes it; the text of the seed stays symbolic.\<close>

definition exBirth :: "string \<Rightarrow> time \<Rightarrow> EntityState" where
  "exBirth v at =
     \<lparr>esID = exCampaignID, esMessageType = campaign_EntityMessageType, esVersion = 1, esUpdatedAt = at,
      esStorageRef = None,
      esTriples =
        [instantiationTriple exCampaignID at CampaignSeedValue v,
         instantiationTriple exCampaignID at CampaignExperiencePersonaPack ''bellweather'',
         instantiationTriple exCampaignID at CampaignExperienceMechanicsPack ''classic'']\<rparr>"

definition exClaimedEntity :: "string \<Rightarrow> EntityState" where
  "exClaimedEntity v = (exBirth v 7)\<lparr>esTriples := esTriples (exBirth v 7) @ [indexingFact exCampaignID]\<rparr>"

definition exClaimed :: "string \<Rightarrow> memWorld" where
  "exClaimed v = (emptyWorld [])\<lparr>mg_ents := [(exCampaignID, exClaimedEntity v)], mw_clock := 8\<rparr>"

lemma exRun_birth:
  "gs_CreateEntity memGraphStore CampaignBirthContract (Some (exBirth v 7)) ((emptyWorld [Some AckLost])\<lparr>mw_clock := 8\<rparr>)
     = (Inr \<lparr>cr_Entity = Some (exClaimedEntity v), cr_Revision = 2\<rparr>, exClaimed v)"
  by code_simp

lemma exRun_exists:
  "gs_CreateEntity memGraphStore CampaignBirthContract (Some (exBirth u 8)) ((exClaimed v)\<lparr>mw_clock := 9\<rparr>)
     = (Inl (Wrapf2 ''create entity'' ErrEntityExists (MutationError MutationConflict CommitNotCommitted)),
        (exClaimed v)\<lparr>mw_clock := 9\<rparr>)"
  by code_simp

lemma exRun_read:
  "gs_GetEntity memGraphStore exCampaignID ((exClaimed v)\<lparr>mw_clock := 9\<rparr>)
     = (Inr (exClaimedEntity v), (exClaimed v)\<lparr>mw_clock := 9\<rparr>)"
  by code_simp

lemma exClaimedEntity_objects:
  "objectsIn (esTriples (exClaimedEntity v)) CampaignSeedValue = [AString v]"
  "objectsIn (esTriples (exClaimedEntity v)) CampaignExperiencePersonaPack = [AString ''bellweather'']"
  "objectsIn (esTriples (exClaimedEntity v)) CampaignExperienceMechanicsPack = [AString ''classic'']"
  "objectsIn (esTriples (exClaimedEntity v)) CampaignImportCompleted = []"
  by code_simp+

lemma exExperience_valid: "Experience_Validate refExt exExperience = None"
  by code_simp

lemma exSeeds: "seed_wf exFirstSeed" "seed_wf exSecondSeed" "\<not> Seed_IsZero exFirstSeed" "\<not> Seed_IsZero exSecondSeed"
  by (simp_all add: seed_wf_def exFirstSeed_def exSecondSeed_def SeedBytes_def) code_simp+

lemma exStored_instantiation:
  "seed_wf s \<Longrightarrow> \<not> Seed_IsZero s \<Longrightarrow>
     instantiationFromEntity refExt (exClaimedEntity (Seed_String s)) = Inr (s, exExperience)"
  using exExperience_valid
  by (simp add: instantiationFromEntity_Inr seedFromEntity_Inr exClaimedEntity_objects ParseSeed_String)
    (simp add: exExperience_def)

lemma refGate_fields [simp]:
  "gt_store (refGate s) = memGraphStore" "gt_newSeed (refGate s) = ret s"
  "gt_campaignID (refGate s) = exCampaignID"
  by (simp_all add: refGate_def)

lemma exBirth_entity: "gate_entity (refGate s) s exExperience at = exBirth (Seed_String s) at"
  by (simp add: gate_entity_def exBirth_def exExperience_def)

text \<open>The first claim wins although its acknowledgement is lost; the second one adopts its seed.\<close>

lemma exRun_claim:
  "Claim refExt (refGate exFirstSeed) exExperience (emptyWorld [Some AckLost]) =
     (Inr (newInstantiation exCampaignID exFirstSeed exExperience True), exClaimed (Seed_String exFirstSeed))"
proof -
  have "gate_now (refGate exFirstSeed) (emptyWorld [Some AckLost]) = (Inr 7, (emptyWorld [Some AckLost])\<lparr>mw_clock := 8\<rparr>)"
    by (simp add: gate_now_def refGate_def memNow_def emptyWorld_def)
  then show ?thesis
    using exSeeds exStored_instantiation [of exFirstSeed]
    by (simp add: Claim_def wrapErr_def exExperience_valid bindM_def tryM_def ret_def exBirth_entity
        exRun_birth confirmStoredInstantiation_def failIf_def)
qed

lemma exRun_second:
  "Claim refExt (refGate exSecondSeed) exExperience (exClaimed (Seed_String exFirstSeed)) =
     (Inr (newInstantiation exCampaignID exFirstSeed exExperience False),
      (exClaimed (Seed_String exFirstSeed))\<lparr>mw_clock := 9\<rparr>)"
proof -
  have "gate_now (refGate exSecondSeed) (exClaimed v) = (Inr 8, (exClaimed v)\<lparr>mw_clock := 9\<rparr>)" for v
    by (simp add: gate_now_def refGate_def memNow_def emptyWorld_def exClaimed_def)
  then show ?thesis
    using exSeeds exStored_instantiation [of exFirstSeed]
    by (simp add: Claim_def wrapErr_def exExperience_valid bindM_def tryM_def ret_def liftR_def mapErr_def
        exBirth_entity exRun_exists exRun_read adoptInstantiation_def)
qed

lemma exRun_mark:
  "fst (MarkImported (refGate s) (newInstantiation exCampaignID exFirstSeed exExperience True) (exClaimed v)) = Inr 8"
proof -
  let ?a = "newInstantiation exCampaignID exFirstSeed exExperience True"
  have "\<not> isl (fst (gs_Reconcile memGraphStore CampaignImport exCampaignID [markerTriple (refGate s) 8]
      ((exClaimed v)\<lparr>mw_clock := 9\<rparr>)))"
    by code_simp
  moreover have "gate_now (refGate s) (exClaimed v) = (Inr 8, (exClaimed v)\<lparr>mw_clock := 9\<rparr>)"
    by (simp add: gate_now_def refGate_def memNow_def emptyWorld_def exClaimed_def)
  ultimately show ?thesis
    by (auto simp: MarkImported_def hasValidProof_def instantiation_snapshot_def newInstantiation_def failIf_def
        bindM_def mapErr_def ret_def split: prod.splits sum.splits)
qed

lemma exRun_await:
  "map_option fst (AwaitImportCompletion (refGate s) 3 2 3 (exClaimed v)) =
     Some (Inl (Wrapf ''campaign has existed for the whole wait unmarked'' ErrImportInterrupted))"
  by code_simp

end
