(* ===== verification/Dice.thy ===== *)
theory Dice
  imports Hashing Payload_Verdict
begin

text \<open>
  \<^verbatim>\<open>internal/dice\<close>: the seed derivation and the roller of \<^verbatim>\<open>roller.go\<close>, and the resolver of
  \<^verbatim>\<open>resolver.go\<close> that rolls a turn at most once. The lemmas show that a roll with legal inputs
  always succeeds and always meets its own contract, and that resolving a turn whose roll is
  recorded gives the recorded roll back.
\<close>

section \<open>The roller\<close>

definition RNGVersion :: RNG where "RNGVersion = RNGPCGV1"

definition dice_Source :: string where "dice_Source = ''dice''"

definition SeedFor :: "ext \<Rightarrow> Seed \<Rightarrow> string \<Rightarrow> gerror + string" where
  "SeedFor X campaignSeed turnID =
     (if Seed_IsZero campaignSeed then Inl (Errorf ''campaign seed is the zero value'')
      else case ValidateIDSegment X turnID of
        Some e \<Rightarrow> Inl (Wrapf ''turn id'' e)
      | None \<Rightarrow> Inr (sha256 (Seed_Bytes campaignSeed @ turnID)))"

record Roller =
  ro_spec :: MechanicSpec

definition NewRoller :: "Mechanic \<Rightarrow> gerror + Roller" where
  "NewRoller mechanic =
     (case MechanicSpecFor mechanic of
        Inl e \<Rightarrow> Inl e
      | Inr spec \<Rightarrow> Inr \<lparr>ro_spec = spec\<rparr>)"

definition Roller_Mechanic :: "Roller \<Rightarrow> Mechanic" where
  "Roller_Mechanic r = ms_Mechanic (ro_spec r)"

text \<open>The loop of \<^verbatim>\<open>roll\<close> over its dice: faces drawn so far left to right, and their running sum.\<close>

fun rollLoop :: "nat \<Rightarrow> nat \<Rightarrow> PCG \<Rightarrow> int \<Rightarrow> int list \<times> int" where
  "rollLoop faces 0 generator tot = ([], tot)"
| "rollLoop faces (Suc n) generator tot =
     (let (u, generator') = pcg_Uint64 generator;
          die = wrap64 (uint (u mod of_nat faces) + 1);
          (dice, tot') = rollLoop faces n generator' (wrap64 (tot + die))
      in (die # dice, tot'))"

definition roll :: "Roller \<Rightarrow> string \<Rightarrow> int list \<times> int" where
  "roll r digest =
     (let generator = (be64 (take 8 digest), be64 (take 8 (drop 8 digest)))
      in rollLoop (ms_Faces (ro_spec r)) (ms_Dice (ro_spec r)) generator 0)"

definition Roll :: "ext \<Rightarrow> Roller \<Rightarrow> Seed \<Rightarrow> string \<Rightarrow> string \<Rightarrow> Modifier list \<Rightarrow> gerror + RollResult" where
  "Roll X r campaignSeed campaignID turnID modifiers =
     (case SeedFor X campaignSeed turnID of
        Inl e \<Rightarrow> Inl e
      | Inr digest \<Rightarrow>
          (let (dice, diceTotal) = roll r digest;
               modifierTotal = SumModifiers modifiers;
               tot = wrap64 (diceTotal + modifierTotal);
               result = \<lparr>rr_TurnID = turnID, rr_Mechanic = ms_Mechanic (ro_spec r),
                         rr_RNGVersion = RNGVersion,
                         rr_Seed = \<lparr>ss_CampaignID = campaignID, ss_TurnID = turnID\<rparr>,
                         rr_Dice = dice, rr_Modifiers = modifiers,
                         rr_ModifierTotal = modifierTotal, rr_Total = tot,
                         rr_Band = BandForTotal (ro_spec r) tot\<rparr>
           in case RollResult_Validate X result of
                Some e \<Rightarrow> Inl (Wrapf ''dice produced a record that fails its own contract'' e)
              | None \<Rightarrow> Inr result))"

section \<open>The resolver\<close>

record recordedRollState =
  rs_band :: string
  rs_total :: int

definition objectsFor :: "EntityState \<Rightarrow> Predicate \<Rightarrow> any list" where
  "objectsFor state predicate = objectsIn (esTriples state) predicate"

definition asInt :: "any \<Rightarrow> int option" where
  "asInt object =
     (case object of
        AInt value \<Rightarrow> Some value
      | AInt64 value \<Rightarrow> Some value
      | AFloat64 value \<Rightarrow> floatToInt value
      | ANumber value \<Rightarrow> parseInt64 value
      | _ \<Rightarrow> None)"

text \<open>The loop that refuses a repeated predicate and counts the ones that are present.\<close>

fun countPresent :: "nat \<Rightarrow> any list list \<Rightarrow> gerror + nat" where
  "countPresent present [] = Inr present"
| "countPresent present (objects # rest) =
     (if 1 < length objects then Inl (Errorf ''holds several values for a single-valued roll predicate'')
      else countPresent (if length objects = 1 then present + 1 else present) rest)"

definition recordedRoll :: "EntityState \<Rightarrow> gerror + recordedRollState option" where
  "recordedRoll state =
     (let bands = objectsFor state TurnRollBand;
          totals = objectsFor state TurnRollTotal;
          refs = objectsFor state TurnRollRef
      in case countPresent 0 [bands, totals, refs] of
           Inl e \<Rightarrow> Inl e
         | Inr present \<Rightarrow>
             if present = 0 then Inr None
             else if present \<noteq> 3 then Inl (Errorf ''carries only part of the 3 roll predicates'')
             else (case asString (hd bands) of
                     None \<Rightarrow> Inl (Errorf ''records a band that is not a string'')
                   | Some band \<Rightarrow>
                       (case asInt (hd totals) of
                          None \<Rightarrow> Inl (Errorf ''records a total that is not a number'')
                        | Some tot \<Rightarrow> Inr (Some \<lparr>rs_band = band, rs_total = tot\<rparr>))))"

definition agreesWith :: "recordedRollState \<Rightarrow> RollResult \<Rightarrow> gerror option" where
  "agreesWith s result =
     failIf (rs_band s \<noteq> rr_Band result \<or> rs_total s \<noteq> rr_Total result)
       (Errorf ''the recorded roll is no longer reproducible'')"

text \<open>\<^verbatim>\<open>TurnReader\<close> is the one operation \<open>rv_reader\<close>; a nil roller or reader is \<open>None\<close>.\<close>

record 'w Resolver =
  rv_roller :: Roller
  rv_reader :: "string \<Rightarrow> ('w, EntityState) M"
  rv_campaignID :: string
  rv_seed :: Seed

definition NewResolver ::
    "Roller option \<Rightarrow> (string \<Rightarrow> ('w, EntityState) M) option \<Rightarrow> string \<Rightarrow> Seed \<Rightarrow> gerror + 'w Resolver" where
  "NewResolver roller reader campaignID seed =
     (case roller of
        None \<Rightarrow> Inl (Errorf ''resolver requires a roller'')
      | Some ro \<Rightarrow>
        (case reader of
           None \<Rightarrow> Inl (Errorf ''resolver requires a turn reader'')
         | Some rd \<Rightarrow>
             if Seed_IsZero seed then Inl (Errorf ''resolver requires a campaign seed'')
             else if campaignID = [] then Inl (Errorf ''resolver requires a campaign id'')
             else Inr \<lparr>rv_roller = ro, rv_reader = rd, rv_campaignID = campaignID, rv_seed = seed\<rparr>))"

record Resolution =
  rn_Roll :: RollResult
  rn_Rolled :: bool

definition Resolve ::
    "ext \<Rightarrow> 'w Resolver \<Rightarrow> Verdict option \<Rightarrow> string \<Rightarrow> ('w, Resolution) M" where
  "Resolve X r verdict turnEntityID =
     (case verdict of
        None \<Rightarrow> throw (Errorf ''resolve requires a verdict'')
      | Some v \<Rightarrow>
        checkM (Verdict_Validate X v)
        (checkM (RequireTurnEntityID X (ve_TurnID v) turnEntityID)
        (if \<not> vs_RequiresRoll (ve_Scalars v) then throw (Wrapf ''turn'' ErrNoRollRequired)
         else bindM (mapErr (Wrapf ''read turn entity'') (rv_reader r turnEntityID)) (\<lambda>state.
           bindM (liftR (Roll X (rv_roller r) (rv_seed r) (rv_campaignID r) (ve_TurnID v) (ve_Modifiers v)))
             (\<lambda>result.
           bindM (mapErr (Wrapf ''turn entity'') (liftR (recordedRoll state))) (\<lambda>recorded.
           case recorded of
             None \<Rightarrow> ret \<lparr>rn_Roll = result, rn_Rolled = True\<rparr>
           | Some s \<Rightarrow>
               checkM (wrapErr ''turn entity'' (agreesWith s result))
                 (ret \<lparr>rn_Roll = result, rn_Rolled = False\<rparr>)))))))"

section \<open>A roll with legal inputs always succeeds\<close>

lemma SeedFor_Inr:
  "SeedFor X s t = Inr d \<longleftrightarrow>
     \<not> Seed_IsZero s \<and> ValidateIDSegment X t = None \<and> d = sha256 (s @ t)"
  by (auto simp: SeedFor_def Seed_Bytes_def split: option.splits)

lemma die_range:
  fixes u :: u64
  assumes "0 < faces" "faces < 2 ^ 32"
  shows "wrap64 (uint (u mod of_nat faces) + 1) = uint u mod int faces + 1"
    and "1 \<le> uint u mod int faces + 1" and "uint u mod int faces + 1 \<le> int faces"
proof -
  have "take_bit 64 faces = faces" using assms(2) by (simp add: take_bit_nat_eq_self_iff)
  then have u: "uint (u mod of_nat faces) = uint u mod int faces"
    by (simp add: uint_mod_distrib unsigned_of_nat)
  have b: "int faces < 2 ^ 32" using assms(2) by simp
  have lt: "uint u mod int faces < int faces" "0 \<le> uint u mod int faces"
    using assms by simp_all
  show "wrap64 (uint (u mod of_nat faces) + 1) = uint u mod int faces + 1"
    unfolding u using lt b by (intro wrap64_id) simp_all
  show "1 \<le> uint u mod int faces + 1" "uint u mod int faces + 1 \<le> int faces"
    using lt by simp_all
qed

lemma rollLoop_faces:
  assumes "0 < faces" "faces < 2 ^ 32"
  shows "length (fst (rollLoop faces n g t)) = n
    \<and> (\<forall>d \<in> set (fst (rollLoop faces n g t)). 1 \<le> d \<and> d \<le> int faces)
    \<and> snd (rollLoop faces n g t) = sum64_from t (fst (rollLoop faces n g t))"
proof (induction n arbitrary: g t)
  case (Suc n)
  obtain u g' where u: "pcg_Uint64 g = (u, g')" by (cases "pcg_Uint64 g")
  note d = die_range [OF assms, of u]
  obtain dice t' where r: "rollLoop faces n g' (wrap64 (t + (uint u mod int faces + 1))) = (dice, t')"
    by (cases "rollLoop faces n g' (wrap64 (t + (uint u mod int faces + 1)))")
  show ?case
    using Suc.IH [of g' "wrap64 (t + (uint u mod int faces + 1))"] r d by (simp add: u Let_def)
qed simp

lemma roll_spec:
  assumes "NewRoller m = Inr r"
  shows "length (fst (roll r d)) = 2"
    and "\<forall>x \<in> set (fst (roll r d)). 1 \<le> x \<and> x \<le> 6"
    and "snd (roll r d) = sum64 (fst (roll r d))"
proof -
  have "ms_Faces (ro_spec r) = 6" "ms_Dice (ro_spec r) = 2"
    using assms by (auto simp: NewRoller_def MechanicSpecFor_Inr split: sum.splits)
  then show "length (fst (roll r d)) = 2" "\<forall>x \<in> set (fst (roll r d)). 1 \<le> x \<and> x \<le> 6"
    "snd (roll r d) = sum64 (fst (roll r d))"
    using rollLoop_faces [of 6 2] by (simp_all add: roll_def Let_def)
qed

lemma roll_band_parses:
  "ParseOutcomeBand (BandForTotal spec t) = Inr (BandForTotal spec t)"
  "IsRollBand (BandForTotal spec t)"
  by (simp_all add: BandForTotal_def ParseOutcomeBand_def enum_parse_def enum_valid_def
      outcomeBandEnum_def newEnum_def IsRollBand_def RollBands_def)

lemma Roll_succeeds:
  assumes r: "NewRoller m = Inr r"
    and "\<not> Seed_IsZero s" and "requireIDSegment X ''turn_id'' t = None"
    and "requireEntityID X ''seed.campaign_id'' c = None"
    and "validateModifiers ms = None"
  shows "\<exists>result. Roll X r s c t ms = Inr result \<and> RollResult_Validate X result = None
           \<and> rr_Dice result = fst (roll r (sha256 (s @ t))) \<and> rr_Modifiers result = ms
           \<and> rr_TurnID result = t"
proof -
  let ?d = "sha256 (s @ t)"
  obtain dice dt where rl: "roll r ?d = (dice, dt)" by fastforce
  note rs = roll_spec [OF r, of ?d, unfolded rl, simplified]
  have m: "MechanicSpecFor (ms_Mechanic (ro_spec r)) = Inr (ro_spec r)"
    and spec: "ms_Dice (ro_spec r) = 2" "ms_Faces (ro_spec r) = 6"
    using r by (auto simp: NewRoller_def MechanicSpecFor_Inr split: sum.splits)
  have seg: "ValidateIDSegment X t = None"
    using assms(3) by (simp add: requireIDSegment_def)
  have digest: "SeedFor X s t = Inr ?d" using assms(2) seg by (simp add: SeedFor_Inr)
  have arith: "validateRollArithmetic (ro_spec r) dice ms (SumModifiers ms)
      (wrap64 (dt + SumModifiers ms)) = None"
    using rs spec assms(5) by (simp add: validateRollArithmetic_def ValidDie_def)
  have rng: "ParseRNG RNGVersion = Inr RNGVersion"
    by (simp add: ParseRNG_def enum_parse_def enum_valid_def rngEnum_def newEnum_def RNGVersion_def)
  define result where "result =
    \<lparr>rr_TurnID = t, rr_Mechanic = ms_Mechanic (ro_spec r), rr_RNGVersion = RNGVersion,
     rr_Seed = \<lparr>ss_CampaignID = c, ss_TurnID = t\<rparr>, rr_Dice = dice, rr_Modifiers = ms,
     rr_ModifierTotal = SumModifiers ms, rr_Total = wrap64 (dt + SumModifiers ms),
     rr_Band = BandForTotal (ro_spec r) (wrap64 (dt + SumModifiers ms))\<rparr>"
  have valid: "RollResult_Validate X result = None"
    using assms(3,4) m arith rng
    by (simp add: result_def RollResult_Validate_def requireBandForTotal_def roll_band_parses)
  then have "Roll X r s c t ms = Inr result"
    by (simp add: Roll_def digest rl Let_def flip: result_def)
  with valid show ?thesis by (simp add: result_def rl)
qed

lemma Roll_Inr:
  assumes "Roll X r s c t ms = Inr result"
  shows "RollResult_Validate X result = None" and "rr_TurnID result = t"
    and "rr_Dice result = fst (roll r (sha256 (s @ t)))" and "rr_Modifiers result = ms"
    and "rr_Seed result = \<lparr>ss_CampaignID = c, ss_TurnID = t\<rparr>"
  using assms
  by (auto simp: Roll_def SeedFor_Inr Let_def split: sum.splits option.splits prod.splits)

section \<open>A turn is rolled at most once\<close>

lemma roll_predicates_distinct [simp]:
  "TurnRollBand \<noteq> TurnRollTotal" "TurnRollTotal \<noteq> TurnRollBand" "TurnRollBand \<noteq> TurnRollRef"
  "TurnRollRef \<noteq> TurnRollBand" "TurnRollTotal \<noteq> TurnRollRef" "TurnRollRef \<noteq> TurnRollTotal"
  by (simp_all add: pred_strings)

lemma recordedRoll_of_triples:
  assumes "RollResult_Triples X result eid ref src at = Inr ts"
    and "\<forall>q \<in> {TurnRollBand, TurnRollTotal, TurnRollRef}. objectsFor st q = objectsIn ts q"
  shows "recordedRoll st = Inr (Some \<lparr>rs_band = rr_Band result, rs_total = rr_Total result\<rparr>)"
proof -
  have "ts = map (\<lambda>(q, v). projectionTriple
          ((projection0 (RollResult_Validate X result) eid (rr_TurnID result) src at)
            \<lparr>tp_registered := RollScalarPredicates,
             tp_objects := [(TurnRollBand, AString (rr_Band result)), (TurnRollTotal, AInt (rr_Total result))],
             tp_refPredicate := TurnRollRef, tp_refName := ''roll ref'', tp_ref := ref\<rparr>) q v)
        [(TurnRollBand, AString (rr_Band result)), (TurnRollTotal, AInt (rr_Total result)),
         (TurnRollRef, AString ref)]"
    using build_Inr(1) [OF assms(1) [unfolded RollResult_Triples_def]]
    by (simp add: RollScalarPredicates_def rollScalarPredicates_def objectAt_def refTriples_def
        projection0_def)
  then have "objectsFor st TurnRollBand = [AString (rr_Band result)]"
    "objectsFor st TurnRollTotal = [AInt (rr_Total result)]"
    "objectsFor st TurnRollRef = [AString ref]"
    using assms(2) by (simp_all add: projectionTriple_def)
  then show ?thesis by (simp add: recordedRoll_def asInt_def)
qed

lemma Resolve_Inr:
  assumes "Resolve X r (Some v) eid w = (Inr res, w')"
  shows "\<exists>st. rv_reader r eid w = (Inr st, w')
           \<and> Roll X (rv_roller r) (rv_seed r) (rv_campaignID r) (ve_TurnID v) (ve_Modifiers v) = Inr (rn_Roll res)
           \<and> Verdict_Validate X v = None \<and> vs_RequiresRoll (ve_Scalars v)
           \<and> (if rn_Rolled res then recordedRoll st = Inr None
              else recordedRoll st =
                Inr (Some \<lparr>rs_band = rr_Band (rn_Roll res), rs_total = rr_Total (rn_Roll res)\<rparr>))"
proof -
  have v: "Verdict_Validate X v = None" "RequireTurnEntityID X (ve_TurnID v) eid = None"
    "vs_RequiresRoll (ve_Scalars v)"
    using assms by (auto simp: Resolve_def checkM_eq split: if_splits)
  then obtain st result recorded where
    "rv_reader r eid w = (Inr st, w')" and
    "Roll X (rv_roller r) (rv_seed r) (rv_campaignID r) (ve_TurnID v) (ve_Modifiers v) = Inr result"
    and "recordedRoll st = Inr recorded"
    and "(case recorded of None \<Rightarrow> ret \<lparr>rn_Roll = result, rn_Rolled = True\<rparr>
          | Some s \<Rightarrow> checkM (wrapErr ''turn entity'' (agreesWith s result))
              (ret \<lparr>rn_Roll = result, rn_Rolled = False\<rparr>)) w' = (Inr res, w')"
    using assms by (auto simp: Resolve_def bindM_Inr checkM_eq split: option.splits)
  with v show ?thesis
    by (cases recorded) (auto simp: checkM_eq agreesWith_def)
qed

end
