(* ===== verification/Example_Rolls.thy ===== *)
theory Example_Rolls
  imports Example_World Dice
begin

text \<open>
  A verdict that asks for a roll and a resolver whose reader returns the world itself, a turn entity.
  The roll is never evaluated: what it is follows from the lemmas of \<open>Dice\<close>.
\<close>

definition exVerdict :: Verdict where
  "exVerdict =
     \<lparr>ve_TurnID = ''turn-a'', ve_ActionID = ''a'', ve_SceneID = exScene,
      ve_Scalars = \<lparr>vs_Plausibility = hd Plausibilities, vs_Risk = hd Risks,
        vs_Consequence = hd Consequences, vs_RequiresRoll = True\<rparr>,
      ve_Modifiers = [],
      ve_Bands = map (\<lambda>b. (b, [(exIntent EffectSetStatus exRook)\<lparr>ei_Status := StatusWounded\<rparr>])) RollBands,
      ve_Rationale = ''r''\<rparr>"

definition exTurnState :: EntityState where
  "exTurnState = snd (exEntity exTurn [(TurnPhaseCurrent, AString PhaseResolving)])"

definition exRoller :: Roller where
  "exRoller = \<lparr>ro_spec = \<lparr>ms_Mechanic = Mechanic2d6PbtaV1, ms_Dice = 2, ms_Faces = 6,
     ms_MaxMissTotal = 6, ms_MaxPartialTotal = 9\<rparr>\<rparr>"

definition exSeed :: Seed where "exSeed = replicate 32 CHR ''s''"

definition exResolver :: "EntityState Resolver" where
  "exResolver = \<lparr>rv_roller = exRoller, rv_reader = (\<lambda>i w. (Inr w, w)), rv_campaignID = exID ''k'' ''c'',
     rv_seed = exSeed\<rparr>"

lemma exRoller_new: "NewRoller Mechanic2d6PbtaV1 = Inr exRoller"
  by (simp add: NewRoller_def MechanicSpecFor_def mechanicSpecs_def exRoller_def)

lemma exRoll_inputs:
  "\<not> Seed_IsZero exSeed" "requireIDSegment refExt ''turn_id'' ''turn-a'' = None"
  "requireEntityID refExt ''seed.campaign_id'' (exID ''k'' ''c'') = None" "validateModifiers [] = None"
  by code_simp+

lemma exVerdict_valid: "Verdict_Validate refExt exVerdict = None" "RequireTurnEntityID refExt ''turn-a'' exTurn = None"
  by code_simp+

lemma exTurnState_unrolled: "recordedRoll exTurnState = Inr None"
  by code_simp

lemma exResolve_first:
  "\<exists>res. Resolve refExt exResolver (Some exVerdict) exTurn exTurnState = (Inr res, exTurnState) \<and> rn_Rolled res"
proof -
  obtain result where "Roll refExt exRoller exSeed (exID ''k'' ''c'') ''turn-a'' [] = Inr result"
    using Roll_succeeds [OF exRoller_new exRoll_inputs] by blast
  moreover have "ve_TurnID exVerdict = ''turn-a''" "ve_Modifiers exVerdict = []"
    "vs_RequiresRoll (ve_Scalars exVerdict)" by (simp_all add: exVerdict_def)
  ultimately show ?thesis
    using exVerdict_valid exTurnState_unrolled by (simp add: Resolve_def exResolver_def M_defs)
qed

text \<open>A valid roll of the turn can be recorded on it.\<close>

lemma exRoll_triples:
  assumes "RollResult_Validate refExt r = None" and "rr_TurnID r = ''turn-a''"
  shows "\<exists>ts. RollResult_Triples refExt r exTurn exRef ''dice'' 1 = Inr ts"
proof -
  have band: "rr_Band r \<in> {BandMiss, BandPartial, BandFull}"
    using RollResult_Validate_None(6) [OF assms(1)] by simp
  have objects: "checkTripleObject refExt TurnRollBand (AString BandMiss) = None"
    "checkTripleObject refExt TurnRollBand (AString BandPartial) = None"
    "checkTripleObject refExt TurnRollBand (AString BandFull) = None"
    "checkTripleObject refExt TurnRollRef (AString exRef) = None" by code_simp+
  have parsed: "\<not> isl (ParsePredicate refExt TurnRollTotal)" "\<not> IsStorageRef refExt TurnRollTotal"
    by code_simp+
  have tot: "checkTripleObject refExt TurnRollTotal (AInt t) = None" for t
    using parsed by (auto simp: checkTripleObject_def failIf_def split: sum.splits)
  have "exRef \<noteq> []" "TurnRollRef \<noteq> []" by (simp_all add: exRef_def TurnRollRef_def)
  then show ?thesis
    using assms band objects tot exVerdict_valid(2)
    by (auto simp: RollResult_Triples_def build_def projection0_def checkSubject_def checkPredicateSet_def
        RollScalarPredicates_def rollScalarPredicates_def objectAt_def requireNonEmpty_def time_IsZero_def failIf_def)
qed

text \<open>A count of resume attempts, projected.\<close>

definition exResume :: TurnResume where "exResume = \<lparr>tu_TurnID = ''turn-a'', tu_Attempts = 2\<rparr>"

lemma exResume_projects: "\<exists>ts. TurnResume_Triples refExt exResume exTurn ''resume'' 1 = Inr ts"
proof -
  have "\<not> isl (TurnResume_Triples refExt exResume exTurn ''resume'' 1)" by code_simp
  then show ?thesis by (cases "TurnResume_Triples refExt exResume exTurn ''resume'' 1") auto
qed

end
