(* ===== verification/Payload_Results.thy ===== *)
theory Payload_Results
  imports Payload_Case Content_Artifacts
begin

text \<open>
  The payloads of a finished turn: its archive manifest (\<^verbatim>\<open>turnmanifest.go\<close>), the result a
  player is told (\<^verbatim>\<open>turnresult.go\<close>) and the delivery that carries it with the narration
  (\<^verbatim>\<open>turndelivery.go\<close>), under the player protocol's version (\<^verbatim>\<open>protocol.go\<close>).
\<close>

section \<open>The player protocol\<close>

type_synonym PlayerProtocolVersion = string

definition PlayerProtocolV1 :: PlayerProtocolVersion where "PlayerProtocolV1 = ''player/v1''"

definition playerProtocolVersions :: "PlayerProtocolVersion list" where
  "playerProtocolVersions = [PlayerProtocolV1]"

definition PlayerProtocolVersions :: "PlayerProtocolVersion list" where
  "PlayerProtocolVersions = playerProtocolVersions"

definition ErrUnsupportedProtocol :: gerror where
  "ErrUnsupportedProtocol = Errorf ''unsupported player protocol version''"

definition ParsePlayerProtocolVersion :: "string \<Rightarrow> gerror + PlayerProtocolVersion" where
  "ParsePlayerProtocolVersion s =
     (if List.member playerProtocolVersions s then Inr s
      else if s = [] then Inl (Wrapf ''no protocol version was declared'' ErrUnsupportedProtocol)
      else Inl (Wrapf ''this engine speaks another version'' ErrUnsupportedProtocol))"

section \<open>The archive manifest of a turn\<close>

definition CategoryTurnManifest :: string where "CategoryTurnManifest = ''turn_manifest''"

record TurnManifest =
  tm_TurnID :: string
  tm_ActionID :: string
  tm_CampaignID :: string
  tm_SceneID :: string
  tm_PlayerID :: string
  tm_Phase :: TurnPhase
  tm_ActionRef :: string
  tm_VerdictRef :: string
  tm_RollRef :: string
  tm_EffectBatchRef :: string
  tm_NarrationRef :: string
  tm_FailureReason :: string
  tm_RollGate :: "RollGateExpectation option"
  tm_RecordedAt :: time
  tm_WorldTime :: int

definition TurnManifest_Schema :: MessageType where
  "TurnManifest_Schema = payloadSchema CategoryTurnManifest"

definition TurnManifest_Validate :: "ext \<Rightarrow> TurnManifest \<Rightarrow> gerror option" where
  "TurnManifest_Validate X m =
     firstErr [
       requireIDSegment X ''turn_id'' (tm_TurnID m),
       requireActionID X ''action_id'' (tm_ActionID m),
       requireEntityID X ''campaign_id'' (tm_CampaignID m),
       requireEntityID X ''scene_id'' (tm_SceneID m),
       requireEntityID X ''player_id'' (tm_PlayerID m),
       requireNonEmpty ''action_ref'' (tm_ActionRef m),
       errOf (ParseTurnPhase (tm_Phase m)),
       failIf (\<not> IsTerminal (tm_Phase m)) (Errorf ''phase is not terminal; only resolved turns are ledgered''),
       (if tm_Phase m = PhaseFailed
        then firstErr [
          failIf (tm_FailureReason m = []) (Errorf ''a failed turn requires failure_reason''),
          errOf (ParseFailureReason (tm_FailureReason m))]
        else if tm_Phase m = PhaseComplete
        then firstErr [
          failIf (tm_FailureReason m \<noteq> []) (Errorf ''a complete turn must not carry failure_reason''),
          failIf (tm_VerdictRef m = []) (Errorf ''a complete turn requires verdict_ref''),
          failIf (tm_NarrationRef m = []) (Errorf ''a complete turn requires narration_ref''),
          failIf (tm_RollGate m = None) (Errorf ''a complete turn requires roll_gate'')]
        else None),
       (case tm_RollGate m of
          None \<Rightarrow> None
        | Some gate \<Rightarrow> wrapErr ''roll_gate'' (RollGateExpectation_Validate gate)),
       failIf (time_IsZero (tm_RecordedAt m)) (Errorf ''recorded_at is required'')]"

section \<open>The result of a turn\<close>

definition CategoryTurnResult :: string where "CategoryTurnResult = ''turn_result''"

record TurnResultRoll =
  tl_Mechanic :: Mechanic
  tl_Dice :: "int list"
  tl_Modifiers :: "Modifier list"
  tl_ModifierTotal :: int
  tl_Total :: int

definition TurnRoll_Validate :: "TurnResultRoll \<Rightarrow> gerror option" where
  "TurnRoll_Validate r =
     (case MechanicSpecFor (tl_Mechanic r) of
        Inl err \<Rightarrow> Some err
      | Inr spec \<Rightarrow>
          validateRollArithmetic spec (tl_Dice r) (tl_Modifiers r) (tl_ModifierTotal r) (tl_Total r))"

record TurnResolution =
  tsn_Verdict :: VerdictScalars
  tsn_Band :: OutcomeBand
  tsn_Roll :: "TurnResultRoll option"

text \<open>The parts of \<^verbatim>\<open>TurnResolution.Validate\<close> for a band without and with a roll.\<close>

definition unrolledBand :: "TurnResolution \<Rightarrow> gerror option" where
  "unrolledBand r =
     firstErr [
       failIf (tsn_Band r \<noteq> BandAuto) (Errorf ''band is selected by dice, but the resolution carries no roll''),
       failIf (vs_RequiresRoll (tsn_Verdict r))
         (Errorf ''the verdict reported that this action requires a roll, but the resolution is banded auto'')]"

definition rolledBand :: "TurnResolution \<Rightarrow> TurnResultRoll \<Rightarrow> gerror option" where
  "rolledBand r d =
     firstErr [
       failIf (\<not> IsRollBand (tsn_Band r)) (Errorf ''band is not selectable by a roll, but the resolution carries one''),
       failIf (\<not> vs_RequiresRoll (tsn_Verdict r))
         (Errorf ''the resolution carries a roll, but the verdict reported that this action requires none''),
       TurnRoll_Validate d,
       (case MechanicSpecFor (tl_Mechanic d) of
          Inl err \<Rightarrow> Some err
        | Inr spec \<Rightarrow> requireBandForTotal spec (tl_Total d) (tsn_Band r))]"

definition TurnResolution_Validate :: "TurnResolution \<Rightarrow> bool \<Rightarrow> gerror option" where
  "TurnResolution_Validate r outcomeRequired =
     (case VerdictScalars_Validate (tsn_Verdict r) of
        Some err \<Rightarrow> Some err
      | None \<Rightarrow>
        if tsn_Band r = []
        then firstErr [
          failIf outcomeRequired (Errorf ''a completed turn records no outcome band''),
          failIf (tsn_Roll r \<noteq> None) (Errorf ''a resolution carries a roll but no band'')]
        else (case ParseOutcomeBand (tsn_Band r) of
            Inl err \<Rightarrow> Some err
          | Inr band \<Rightarrow>
              (case tsn_Roll r of None \<Rightarrow> unrolledBand r | Some d \<Rightarrow> rolledBand r d)))"

record CompanionResolution =
  crn_CompanionID :: string
  crn_Kind :: CompanionDecisionKind
  crn_HintLevel :: HintLevel

definition CompanionResolution_Validate :: "ext \<Rightarrow> CompanionResolution \<Rightarrow> gerror option" where
  "CompanionResolution_Validate X r =
     firstErr [
       requireEntityID X ''companion_id'' (crn_CompanionID r),
       failIf (\<not> List.member companionDecisionKinds (crn_Kind r))
         (Errorf ''kind is not a registered companion decision kind''),
       (if crn_Kind r = CompanionDecisionHint
        then wrapErr ''hint_level is required and must be closed when kind is hint'' (errOf (ParseHintLevel (crn_HintLevel r)))
        else failIf (crn_HintLevel r \<noteq> []) (Errorf ''hint_level is forbidden''))]"

record TurnResult =
  trs_Protocol :: PlayerProtocolVersion
  trs_TurnID :: string
  trs_ActionID :: string
  trs_PlayerID :: string
  trs_Phase :: TurnPhase
  trs_Resolution :: "TurnResolution option"
  trs_CompanionResolution :: "CompanionResolution option"
  trs_NarrationRef :: string
  trs_FailureReason :: FailureReason
  trs_ResolvedAt :: time

definition TurnResult_Schema :: MessageType where
  "TurnResult_Schema = payloadSchema CategoryTurnResult"

definition TurnResult_Validate :: "ext \<Rightarrow> TurnResult \<Rightarrow> gerror option" where
  "TurnResult_Validate X r =
     (case firstErr [
          errOf (ParsePlayerProtocolVersion (trs_Protocol r)),
          (case ActionIDForTurn X (trs_TurnID r) of
             Inl err \<Rightarrow> Some err
           | Inr derived \<Rightarrow>
               failIf (derived \<noteq> trs_ActionID r) (Errorf ''this result names another action than its turn derives'')),
          requireEntityID X ''player_id'' (trs_PlayerID r)] of
        Some err \<Rightarrow> Some err
      | None \<Rightarrow>
        (case ParseTurnPhase (trs_Phase r) of
           Inl err \<Rightarrow> Some err
         | Inr phase \<Rightarrow>
           firstErr [
             failIf (\<not> IsTerminal phase) (Errorf ''phase is not terminal; a result is what a turn ended as''),
             (if phase = PhaseComplete
              then firstErr [
                failIf (trs_FailureReason r \<noteq> []) (Errorf ''a complete turn must not carry failure_reason''),
                failIf (trs_NarrationRef r = []) (Errorf ''a complete turn requires narration_ref''),
                failIf (trs_Resolution r = None) (Errorf ''a complete turn requires resolution'')]
              else if phase = PhaseFailed
              then errOf (ParseFailureReason (trs_FailureReason r))
              else None),
             (if trs_NarrationRef r \<noteq> [] then RequireStorageRef ''narration_ref'' (trs_NarrationRef r) else None),
             (case trs_Resolution r of
                None \<Rightarrow> None
              | Some n \<Rightarrow> wrapErr ''resolution'' (TurnResolution_Validate n (phase = PhaseComplete))),
             (case trs_CompanionResolution r of
                None \<Rightarrow> None
              | Some n \<Rightarrow> wrapErr ''companion_resolution'' (CompanionResolution_Validate X n)),
             failIf (time_IsZero (trs_ResolvedAt r)) (Errorf ''resolved_at is required'')]))"

section \<open>The delivery of a result\<close>

record DeliveredNarration =
  dn_TurnID :: string
  dn_Band :: OutcomeBand
  dn_Prose :: string

definition DeliveredNarration_Validate :: "ext \<Rightarrow> DeliveredNarration \<Rightarrow> gerror option" where
  "DeliveredNarration_Validate X n =
     firstErr [
       requireIDSegment X ''turn_id'' (dn_TurnID n),
       errOf (ParseOutcomeBand (dn_Band n)),
       failIf (dn_Prose n = []) (Errorf ''the narration delivered carries no prose''),
       failIf (MaxProseBytes < length (dn_Prose n)) (Errorf ''delivered prose exceeds the prose budget'')]"

record TurnDelivery =
  tdl_Protocol :: PlayerProtocolVersion
  tdl_Result :: "TurnResult option"
  tdl_Narration :: "DeliveredNarration option"

text \<open>What the prose of a delivery must agree with, once there is a result.\<close>

definition deliveredProse :: "ext \<Rightarrow> TurnResult \<Rightarrow> DeliveredNarration option \<Rightarrow> gerror option" where
  "deliveredProse X r narration =
     (case narration of
        None \<Rightarrow> failIf (trs_NarrationRef r \<noteq> []) (Errorf ''turn records narration and the delivery carries none'')
      | Some n \<Rightarrow>
          firstErr [
            failIf (trs_NarrationRef r = []) (Errorf ''the delivery carries prose, but the result references none''),
            wrapErr ''narration'' (DeliveredNarration_Validate X n),
            failIf (dn_TurnID n \<noteq> trs_TurnID r) (Errorf ''the delivery carries prose belonging to another turn''),
            (case trs_Resolution r of
               None \<Rightarrow> None
             | Some rs \<Rightarrow>
                 failIf (tsn_Band rs \<noteq> [] \<and> dn_Band n \<noteq> tsn_Band rs)
                   (Errorf ''the delivery carries prose voicing another band than the turn landed on''))])"

definition TurnDelivery_Validate :: "ext \<Rightarrow> TurnDelivery \<Rightarrow> gerror option" where
  "TurnDelivery_Validate X d =
     (case ParsePlayerProtocolVersion (tdl_Protocol d) of
        Inl err \<Rightarrow> Some err
      | Inr _ \<Rightarrow>
        (case tdl_Result d of
           None \<Rightarrow> Some (Errorf ''a delivery carries no result'')
         | Some r \<Rightarrow>
             (case wrapErr ''result'' (TurnResult_Validate X r) of
                Some err \<Rightarrow> Some err
              | None \<Rightarrow> deliveredProse X r (tdl_Narration d))))"

end
