(* ===== verification/Ledger.thy ===== *)
theory Ledger
  imports Payload_Results Rule_Subjects Turn
begin

text \<open>
  \<^verbatim>\<open>internal/ledger\<close>, the half that writes: the manifest a resolved turn composes
  (\<^verbatim>\<open>manifest.go\<close>), the writer that appends it to the campaign stream at most once
  (\<^verbatim>\<open>writer.go\<close>) and the pass that archives what no notification announced (\<^verbatim>\<open>reconcile.go\<close>).
  The graph, the stream and the codecs are fields of the writer; binding the consumer is SemStreams.
\<close>

section \<open>Reading single-valued facts\<close>

definition soleTriple :: "EntityState \<Rightarrow> Predicate \<Rightarrow> gerror + Triple option" where
  "soleTriple state predicate =
     (let found = triplesFor state predicate in
      if 1 < length found then Inl (Errorf ''turn entity holds several values for a single-valued predicate'')
      else Inr (case found of [] \<Rightarrow> None | t # _ \<Rightarrow> Some t))"

definition optionalString :: "EntityState \<Rightarrow> Predicate \<Rightarrow> gerror + string" where
  "optionalString state predicate =
     (case soleTriple state predicate of
        Inl err \<Rightarrow> Inl err
      | Inr None \<Rightarrow> Inr []
      | Inr (Some t) \<Rightarrow>
          (case asString (trObject t) of
             None \<Rightarrow> Inl (Errorf ''turn entity records another type, want a string'')
           | Some v \<Rightarrow> Inr v))"

definition requiredString :: "EntityState \<Rightarrow> Predicate \<Rightarrow> gerror + string" where
  "requiredString state predicate =
     (case optionalString state predicate of
        Inl err \<Rightarrow> Inl err
      | Inr v \<Rightarrow>
          if v = [] then Inl (Errorf ''turn entity carries no fact its atomic create writes'') else Inr v)"

text \<open>The flag and whether it is there.\<close>

definition optionalBool :: "EntityState \<Rightarrow> Predicate \<Rightarrow> gerror + (bool \<times> bool)" where
  "optionalBool state predicate =
     (case soleTriple state predicate of
        Inl err \<Rightarrow> Inl err
      | Inr None \<Rightarrow> Inr (False, False)
      | Inr (Some t) \<Rightarrow>
          (case trObject t of
             ABool flag \<Rightarrow> Inr (flag, True)
           | _ \<Rightarrow> Inl (Errorf ''turn entity records another type, want a bool'')))"

section \<open>Composing a manifest\<close>

definition recordedPhase :: "EntityState \<Rightarrow> gerror + TurnPhase" where
  "recordedPhase state =
     (case soleTriple state TurnPhaseCurrent of
        Inl err \<Rightarrow> Inl err
      | Inr None \<Rightarrow> Inl (Errorf ''turn entity carries no phase; it can be neither resumed nor archived'')
      | Inr (Some t) \<Rightarrow>
          (case asString (trObject t) of
             None \<Rightarrow> Inl (Errorf ''turn entity records a phase that is no string'')
           | Some v \<Rightarrow>
               (case ParseTurnPhase v of
                  Inl err \<Rightarrow> Inl (Wrapf ''turn entity'' err)
                | Inr phase \<Rightarrow> Inr phase)))"

definition terminalPhase :: "EntityState \<Rightarrow> gerror + (TurnPhase \<times> time)" where
  "terminalPhase state =
     (case soleTriple state TurnPhaseCurrent of
        Inl err \<Rightarrow> Inl err
      | Inr None \<Rightarrow> Inl (Errorf ''turn entity carries no phase; it cannot be archived'')
      | Inr (Some t) \<Rightarrow>
          (case asString (trObject t) of
             None \<Rightarrow> Inl (Errorf ''turn entity records a phase that is no string'')
           | Some v \<Rightarrow>
               (case ParseTurnPhase v of
                  Inl err \<Rightarrow> Inl (Wrapf ''turn entity'' err)
                | Inr phase \<Rightarrow>
                    if \<not> IsTerminal phase
                    then Inl (Errorf ''turn entity is in a phase that is not terminal; the ledger archives resolved turns'')
                    else if time_IsZero (trTimestamp t)
                    then Inl (Errorf ''turn entity records its phase with no timestamp'')
                    else Inr (phase, trTimestamp t))))"

definition rollGate :: "EntityState \<Rightarrow> gerror + RollGateExpectation option" where
  "rollGate state =
     (case optionalString state TurnVerdictPlausibility of
        Inl err \<Rightarrow> Inl err
      | Inr plausibility \<Rightarrow>
        (case optionalString state TurnVerdictRisk of
           Inl err \<Rightarrow> Inl err
         | Inr risk \<Rightarrow>
           (case optionalBool state TurnVerdictRequiresRoll of
              Inl err \<Rightarrow> Inl err
            | Inr (reported, present) \<Rightarrow>
              (let found = length (filter id [plausibility \<noteq> [], risk \<noteq> [], present]) in
               if found = 0 then Inr None
               else if found \<noteq> 3
               then Inl (Errorf ''turn entity carries a partial set of the verdict scalars'')
               else (case RollGate \<lparr>vs_Plausibility = plausibility, vs_Risk = risk, vs_Consequence = [],
                             vs_RequiresRoll = reported\<rparr> of
                   Inl err \<Rightarrow> Inl (Wrapf ''turn entity'' err)
                 | Inr gate \<Rightarrow> Inr (Some gate))))))"

text \<open>The required and the optional references, each list in the order the code reads them.\<close>

fun readAll :: "(Predicate \<Rightarrow> gerror + string) \<Rightarrow> Predicate list \<Rightarrow> gerror + string list" where
  "readAll f [] = Inr []"
| "readAll f (p # ps) =
     (case f p of
        Inl err \<Rightarrow> Inl err
      | Inr v \<Rightarrow> (case readAll f ps of Inl err \<Rightarrow> Inl err | Inr vs \<Rightarrow> Inr (v # vs)))"

definition manifestOf ::
    "string \<Rightarrow> string \<Rightarrow> string \<Rightarrow> TurnPhase \<Rightarrow> time \<Rightarrow> string list \<Rightarrow> string list
     \<Rightarrow> RollGateExpectation option \<Rightarrow> TurnManifest" where
  "manifestOf turnID actionID campaignID phase recordedAt required optionals gate =
     \<lparr>tm_TurnID = turnID, tm_ActionID = actionID, tm_CampaignID = campaignID,
      tm_SceneID = required ! 1, tm_PlayerID = required ! 0, tm_Phase = phase, tm_ActionRef = required ! 2,
      tm_VerdictRef = optionals ! 0, tm_RollRef = optionals ! 1, tm_EffectBatchRef = optionals ! 2,
      tm_NarrationRef = optionals ! 3, tm_FailureReason = optionals ! 4, tm_RollGate = gate,
      tm_RecordedAt = recordedAt, tm_WorldTime = 0\<rparr>"

definition Compose :: "ext \<Rightarrow> string \<Rightarrow> EntityState option \<Rightarrow> string \<Rightarrow> gerror + TurnManifest" where
  "Compose X turnID state campaignID =
     (case state of
        None \<Rightarrow> Inl (Errorf ''cannot archive turn: the graph returned nothing'')
      | Some st \<Rightarrow>
        (case RequireTurnEntityID X turnID (esID st) of
           Some err \<Rightarrow> Inl err
         | None \<Rightarrow>
        (case ActionIDForTurn X turnID of
           Inl err \<Rightarrow> Inl err
         | Inr actionID \<Rightarrow>
        (case terminalPhase st of
           Inl err \<Rightarrow> Inl err
         | Inr (phase, recordedAt) \<Rightarrow>
        (case readAll (requiredString st) [TurnActionPlayer, TurnActionScene, TurnActionRef] of
           Inl err \<Rightarrow> Inl err
         | Inr required \<Rightarrow>
        (case readAll (optionalString st)
            [TurnVerdictRef, TurnRollRef, TurnEffectsRef, TurnNarrationRef, TurnFailureReason] of
           Inl err \<Rightarrow> Inl err
         | Inr optionals \<Rightarrow>
        (case rollGate st of
           Inl err \<Rightarrow> Inl err
         | Inr gate \<Rightarrow>
        (let manifest = manifestOf turnID actionID campaignID phase recordedAt required optionals gate in
         case TurnManifest_Validate X manifest of
           Some err \<Rightarrow> Inl (Wrapf ''turn does not compose a coherent ledger record'' err)
         | None \<Rightarrow> Inr manifest))))))))"

section \<open>Subjects and identities\<close>

definition ledger_Stream :: string where "ledger_Stream = ''CAMPAIGN_LEDGER''"

definition SubjectPrefix :: string where "SubjectPrefix = ''semmachina.ledger.turn.''"

definition ledger_TurnTypeSegment :: string where "ledger_TurnTypeSegment = ''turn''"

definition SubjectFor :: "ext \<Rightarrow> string \<Rightarrow> gerror + string" where
  "SubjectFor X turnID =
     (case ValidateIDSegment X turnID of
        Some err \<Rightarrow> Inl (Wrapf ''ledger subject needs a turn id'' err)
      | None \<Rightarrow> Inr (SubjectPrefix @ turnID))"

text \<open>\<^verbatim>\<open>parts[len(parts)-2]\<close> panics on a single part, which no canonical identifier has.\<close>

definition ledger_turnIDOf :: "ext \<Rightarrow> string \<Rightarrow> gerror + string" where
  "ledger_turnIDOf X turnEntityID =
     (case ValidateEntityID X turnEntityID of
        Some err \<Rightarrow> Inl (Wrapf ''not a canonical six-part entity ID'' err)
      | None \<Rightarrow>
        (let parts = splitOn CHR ''.'' turnEntityID in
         if length parts < 2 then Inl (External ''panic: index out of range'')
         else if parts ! (length parts - 2) \<noteq> ledger_TurnTypeSegment
         then Inl (Errorf ''the ledger archives turns, and nothing else in the world has a phase to resolve'')
         else (let turnID = parts ! (length parts - 1) in
           case RequireTurnEntityID X turnID turnEntityID of
             Some err \<Rightarrow> Inl err
           | None \<Rightarrow> Inr turnID)))"

definition TurnPrefixForCampaign :: "ext \<Rightarrow> string \<Rightarrow> gerror + string" where
  "TurnPrefixForCampaign X campaignID = SiblingTypePrefix X campaignID ledger_TurnTypeSegment"

section \<open>The writer\<close>

definition ErrManifestNotFound :: gerror where
  "ErrManifestNotFound = Errorf ''no ledger manifest for this turn''"

text \<open>The sentinel of the JetStream client.\<close>

definition ErrMsgNotFound :: gerror where "ErrMsgNotFound = External ''nats: message not found''"

text \<open>What decoding an archived message yields, and the two fields of a rule's notification.\<close>

datatype archivedRecord = ArchivedManifest TurnManifest | ArchivedOther string

record rulePublication =
  rp_EntityID :: string
  rp_Subject :: string

record 'w Writer =
  lw_GetEntity :: "string \<Rightarrow> ('w, EntityState) M"
  lw_EntitiesWithPrefix :: "string \<Rightarrow> string \<Rightarrow> int \<Rightarrow> ('w, EntityState list \<times> string) M"
  lw_opened :: "'w \<Rightarrow> bool"
  lw_keepOpen :: "'w \<Rightarrow> 'w"
  lw_EnsureStream :: "('w, unit) M"
  lw_LastMsg :: "string \<Rightarrow> ('w, string) M"
  lw_Publish :: "string \<Rightarrow> string \<Rightarrow> string \<Rightarrow> ('w, unit) M"
  lw_decode :: "string \<Rightarrow> gerror + archivedRecord"
  lw_encode :: "TurnManifest \<Rightarrow> gerror + string"
  lw_marshal :: "TurnManifest \<Rightarrow> gerror + string"
  lw_publication :: "string \<Rightarrow> gerror + rulePublication"
  lw_campaignID :: string
  lw_turnPrefix :: string
  lw_heartbeat :: int
  lw_pageLimit :: int

definition DefaultPageLimit :: int where "DefaultPageLimit = 200"

definition maxReconcilePages :: nat where "maxReconcilePages = 1000"

text \<open>
  The collaborators are those of \<open>W\<close>, whose prefix, heartbeat and page limit are set here; the two
  options are the values the caller's options leave.
\<close>

definition NewWriter :: "ext \<Rightarrow> 'w Writer \<Rightarrow> string \<Rightarrow> int \<Rightarrow> int \<Rightarrow> gerror + 'w Writer" where
  "NewWriter X W campaignID heartbeat pageLimit =
     (case ValidateEntityID X campaignID of
        Some err \<Rightarrow> Inl (Wrapf ''the ledger writer requires a canonical campaign entity id'' err)
      | None \<Rightarrow>
        (case TurnPrefixForCampaign X campaignID of
           Inl err \<Rightarrow> Inl err
         | Inr turnPrefix \<Rightarrow>
             if heartbeat \<le> 0 then Inl (Errorf ''the ledger writer requires a positive heartbeat'')
             else if pageLimit \<le> 0
             then Inl (Errorf ''the ledger writer requires a positive reconciliation page limit'')
             else Inr (W\<lparr>lw_campaignID := campaignID, lw_turnPrefix := turnPrefix,
                lw_heartbeat := heartbeat, lw_pageLimit := pageLimit\<rparr>)))"

text \<open>The stream is opened once and remembered; \<open>what\<close> heads the error of the caller.\<close>

definition archive_stream :: "string \<Rightarrow> ('w \<Rightarrow> bool) \<Rightarrow> ('w \<Rightarrow> 'w) \<Rightarrow> ('w, unit) M \<Rightarrow> ('w, unit) M" where
  "archive_stream what opened keepOpen ensure = (\<lambda>w.
     if opened w then (Inr (), w)
     else case ensure w of
         (Inl err, w1) \<Rightarrow> (Inl (Wrapf what err), w1)
       | (Inr _, w1) \<Rightarrow> (Inr (), keepOpen w1))"

definition Writer_archive :: "'w Writer \<Rightarrow> ('w, unit) M" where
  "Writer_archive W = archive_stream ''ensure the stream'' (lw_opened W) (lw_keepOpen W) (lw_EnsureStream W)"

definition readManifest ::
    "ext \<Rightarrow> (string \<Rightarrow> ('w, string) M) \<Rightarrow> (string \<Rightarrow> gerror + archivedRecord) \<Rightarrow> string
     \<Rightarrow> ('w, TurnManifest) M" where
  "readManifest X lastMsg decoder subject =
     bindM (mapErr (\<lambda>err. if errors_Is err ErrMsgNotFound then Wrapf ''ledger subject'' ErrManifestNotFound
               else Wrapf ''read the archived manifest'' err) (lastMsg subject)) (\<lambda>data.
     case decoder data of
       Inl err \<Rightarrow> throw (Wrapf ''decode the archived manifest'' err)
     | Inr (ArchivedOther ty) \<Rightarrow> throw (Errorf ''the archived record is not a turn manifest'')
     | Inr (ArchivedManifest manifest) \<Rightarrow>
         checkM (wrapErr ''the archived manifest does not satisfy its own contract'' (TurnManifest_Validate X manifest))
           (ret manifest))"

text \<open>Whether two manifests differ in what they encode to; a failed encoding counts as a difference.\<close>

definition manifestDiff :: "(TurnManifest \<Rightarrow> gerror + string) \<Rightarrow> TurnManifest \<Rightarrow> TurnManifest \<Rightarrow> gerror option" where
  "manifestDiff marshal existing composed =
     (case marshal existing of
        Inl err \<Rightarrow> Some (Errorf ''the archived manifest could not be re-encoded'')
      | Inr before \<Rightarrow>
        (case marshal composed of
           Inl err \<Rightarrow> Some (Errorf ''the composed manifest could not be encoded'')
         | Inr after \<Rightarrow> failIf (before \<noteq> after) (Errorf ''archived another manifest than the turn now composes'')))"

record ledger_Outcome =
  lo_Manifest :: TurnManifest
  lo_Appended :: bool

definition archiveTurn :: "ext \<Rightarrow> 'w Writer \<Rightarrow> string \<Rightarrow> EntityState option \<Rightarrow> ('w, ledger_Outcome) M" where
  "archiveTurn X W turnID state =
     bindM (liftR (SubjectFor X turnID)) (\<lambda>subject.
     bindM (liftR (Compose X turnID state (lw_campaignID W))) (\<lambda>manifest.
     bindM (Writer_archive W) (\<lambda>_.
     tryM (readManifest X (lw_LastMsg W) (lw_decode W) subject) (\<lambda>r. case r of
        Inr existing \<Rightarrow>
          checkM (wrapErr ''turn is already archived with a different manifest''
              (manifestDiff (lw_marshal W) existing manifest))
            (ret \<lparr>lo_Manifest = existing, lo_Appended = False\<rparr>)
      | Inl err \<Rightarrow>
          if \<not> errors_Is err ErrManifestNotFound then throw err
          else bindM (mapErr (Wrapf ''encode the manifest'') (liftR (lw_encode W manifest))) (\<lambda>body.
            bindM (mapErr (Wrapf ''append the manifest'') (lw_Publish W subject body turnID)) (\<lambda>_.
            ret \<lparr>lo_Manifest = manifest, lo_Appended = True\<rparr>))))))"

definition Append :: "ext \<Rightarrow> 'w Writer \<Rightarrow> string \<Rightarrow> ('w, ledger_Outcome) M" where
  "Append X W turnEntityID =
     bindM (liftR (ledger_turnIDOf X turnEntityID)) (\<lambda>turnID.
     bindM (mapErr (Wrapf ''read turn entity'') (lw_GetEntity W turnEntityID)) (\<lambda>state.
     archiveTurn X W turnID (Some state)))"

record ResolvedEvent =
  rv_TurnEntityID :: string
  rv_TurnID :: string

definition ParseResolvedEvent ::
    "ext \<Rightarrow> (string \<Rightarrow> gerror + rulePublication) \<Rightarrow> string \<Rightarrow> gerror + ResolvedEvent" where
  "ParseResolvedEvent X publication data =
     (case publication data of
        Inl err \<Rightarrow> Inl (Wrapf ''decode resolved-turn notification'' err)
      | Inr published \<Rightarrow>
          if rp_EntityID published = [] then Inl (Errorf ''resolved-turn notification names no entity'')
          else (case ledger_turnIDOf X (rp_EntityID published) of
              Inl err \<Rightarrow> Inl err
            | Inr turnID \<Rightarrow> Inr \<lparr>rv_TurnEntityID = rp_EntityID published, rv_TurnID = turnID\<rparr>))"

definition Writer_Handle :: "ext \<Rightarrow> 'w Writer \<Rightarrow> string \<Rightarrow> ('w, unit) M" where
  "Writer_Handle X W data =
     (case ParseResolvedEvent X (lw_publication W) data of
        Inl err \<Rightarrow> throw (TerminateDelivery err)
      | Inr event \<Rightarrow>
          bindM (mapErr (Wrapf ''archive turn'') (Append X W (rv_TurnEntityID event))) (\<lambda>_. ret ()))"

section \<open>Reconciliation\<close>

record TurnFailure =
  tf_TurnEntityID :: string
  tf_Err :: gerror

record Reconciliation =
  rn_Scanned :: nat
  rn_Archived :: nat
  rn_AlreadyArchived :: nat
  rn_InFlight :: nat
  rn_Failures :: "TurnFailure list"

definition noReconciliation :: Reconciliation where
  "noReconciliation =
     \<lparr>rn_Scanned = 0, rn_Archived = 0, rn_AlreadyArchived = 0, rn_InFlight = 0, rn_Failures = []\<rparr>"

definition failedTurn :: "string \<Rightarrow> gerror \<Rightarrow> Reconciliation \<Rightarrow> Reconciliation" where
  "failedTurn turnEntityID err report =
     report\<lparr>rn_Failures := rn_Failures report @ [\<lparr>tf_TurnEntityID = turnEntityID, tf_Err = err\<rparr>]\<rparr>"

text \<open>A turn's failure is collected in the report; the pass goes on.\<close>

definition reconcileTurn :: "ext \<Rightarrow> 'w Writer \<Rightarrow> EntityState \<Rightarrow> Reconciliation \<Rightarrow> 'w \<Rightarrow> Reconciliation \<times> 'w" where
  "reconcileTurn X W state report0 w =
     (let report = report0\<lparr>rn_Scanned := rn_Scanned report0 + 1\<rparr> in
      case ledger_turnIDOf X (esID state) of
        Inl err \<Rightarrow> (failedTurn (esID state) err report, w)
      | Inr turnID \<Rightarrow>
        (case recordedPhase state of
           Inl err \<Rightarrow> (failedTurn (esID state) err report, w)
         | Inr phase \<Rightarrow>
             if \<not> IsTerminal phase then (report\<lparr>rn_InFlight := rn_InFlight report + 1\<rparr>, w)
             else (case archiveTurn X W turnID (Some state) w of
                 (Inl err, w') \<Rightarrow> (failedTurn (esID state) err report, w')
               | (Inr outcome, w') \<Rightarrow>
                   (if lo_Appended outcome then report\<lparr>rn_Archived := rn_Archived report + 1\<rparr>
                    else report\<lparr>rn_AlreadyArchived := rn_AlreadyArchived report + 1\<rparr>, w'))))"

fun reconcilePage :: "ext \<Rightarrow> 'w Writer \<Rightarrow> EntityState list \<Rightarrow> Reconciliation \<Rightarrow> 'w \<Rightarrow> Reconciliation \<times> 'w" where
  "reconcilePage X W [] report w = (report, w)"
| "reconcilePage X W (s # ss) report w =
     (case reconcileTurn X W s report w of (report', w') \<Rightarrow> reconcilePage X W ss report' w')"

text \<open>The loop over the pages; the first argument counts the pages it may still read.\<close>

fun reconcilePages ::
    "ext \<Rightarrow> 'w Writer \<Rightarrow> nat \<Rightarrow> string \<Rightarrow> Reconciliation \<Rightarrow> 'w \<Rightarrow> (Reconciliation \<times> gerror option) \<times> 'w" where
  "reconcilePages X W 0 cursor report w =
     ((report, Some (Errorf ''reconciling the campaign ledger did not exhaust the cursor'')), w)"
| "reconcilePages X W (Suc n) cursor report w =
     (case lw_EntitiesWithPrefix W (lw_turnPrefix W) cursor (lw_pageLimit W) w of
        (Inl err, w1) \<Rightarrow> ((report, Some (Wrapf ''enumerate turns'' err)), w1)
      | (Inr (entities, nextCursor), w1) \<Rightarrow>
          (case reconcilePage X W entities report w1 of (report', w2) \<Rightarrow>
             if nextCursor = [] then ((report', None), w2)
             else if nextCursor = cursor
             then ((report', Some (Errorf ''the turn enumeration returned the same cursor twice'')), w2)
             else reconcilePages X W n nextCursor report' w2))"

text \<open>\<^verbatim>\<open>errors.Join\<close>: \<open>errors_As\<close> walks the joined errors in order.\<close>

fun joinErrors :: "gerror list \<Rightarrow> gerror option" where
  "joinErrors [] = None"
| "joinErrors (e # es) =
     Some (case joinErrors es of None \<Rightarrow> Wrapf '''' e | Some rest \<Rightarrow> Wrapf2 '''' e rest)"

definition Writer_Reconcile :: "ext \<Rightarrow> 'w Writer \<Rightarrow> 'w \<Rightarrow> (Reconciliation \<times> gerror option) \<times> 'w" where
  "Writer_Reconcile X W w =
     (case reconcilePages X W maxReconcilePages [] noReconciliation w of
        ((report, Some err), w1) \<Rightarrow> ((report, Some err), w1)
      | ((report, None), w1) \<Rightarrow>
          ((report, joinErrors (map (\<lambda>f. Wrapf ''turn'' (tf_Err f)) (rn_Failures report))), w1))"

text \<open>Starting opens the stream and reconciles before the consumer is bound, and goes on if that fails.\<close>

definition Writer_Start :: "ext \<Rightarrow> 'w Writer \<Rightarrow> ('w, unit) M \<Rightarrow> ('w, unit) M" where
  "Writer_Start X W bindConsumer =
     bindM (Writer_archive W) (\<lambda>_ w.
       case Writer_Reconcile X W w of (_, w1) \<Rightarrow>
         mapErr (Wrapf ''bind the campaign-ledger consumer'') bindConsumer w1)"

end
