(* ===== verification/Ledger_Once.thy ===== *)
theory Ledger_Once
  imports Ledger
begin

text \<open>
  What the ledger guarantees. A manifest says of a turn what the graph holds of it. Over a stream that
  keeps what was published, a subject never carries more than one record and no record is ever
  replaced, whatever appends, notifications and reconciliations run in whatever order.
\<close>

section \<open>A manifest is the turn's record\<close>

lemma triplesFor_objects: "objectsIn (esTriples st) p = map trObject (triplesFor st p)"
  by (simp add: objectsIn_filter triplesFor_def)

lemma soleTriple_Inr:
  "soleTriple st p = Inr None \<longleftrightarrow> triplesFor st p = []"
  "soleTriple st p = Inr (Some t) \<longleftrightarrow> triplesFor st p = [t]"
  by (cases "triplesFor st p"; cases "tl (triplesFor st p)"; auto simp: soleTriple_def Let_def)+

lemma optionalString_Inr:
  "optionalString st p = Inr v \<longleftrightarrow>
     objectsIn (esTriples st) p = [AString v] \<or> (v = [] \<and> objectsIn (esTriples st) p = [])"
  by (auto simp: optionalString_def triplesFor_objects soleTriple_Inr split: sum.splits option.splits)
    (auto simp: soleTriple_def Let_def split: if_splits list.splits)

lemma requiredString_Inr:
  "requiredString st p = Inr v \<longleftrightarrow> v \<noteq> [] \<and> objectsIn (esTriples st) p = [AString v]"
proof -
  have "requiredString st p = Inr v \<longleftrightarrow> optionalString st p = Inr v \<and> v \<noteq> []"
    by (auto simp: requiredString_def split: sum.splits if_splits)
  then show ?thesis by (auto simp: optionalString_Inr)
qed

lemma optionalBool_Inr:
  "optionalBool st p = Inr (flag, present) \<longleftrightarrow>
     (present \<and> objectsIn (esTriples st) p = [ABool flag])
     \<or> (\<not> present \<and> \<not> flag \<and> objectsIn (esTriples st) p = [])"
  by (auto simp: optionalBool_def triplesFor_objects soleTriple_Inr split: sum.splits option.splits any.splits)
    (auto simp: soleTriple_def Let_def split: if_splits list.splits)

lemma readAll_Inr: "readAll f ps = Inr vs \<longleftrightarrow> list_all2 (\<lambda>p v. f p = Inr v) ps vs"
proof (induction ps arbitrary: vs)
  case (Cons p ps)
  then show ?case
    by (cases "f p"; cases "readAll f ps") (auto simp: list_all2_Cons1 Cons.IH [symmetric])
qed auto

lemma terminalPhase_Inr:
  assumes "terminalPhase st = Inr (phase, at)"
  shows "objectsIn (esTriples st) TurnPhaseCurrent = [AString phase]" "IsTerminal phase" "\<not> time_IsZero at"
    "\<exists>t. triplesFor st TurnPhaseCurrent = [t] \<and> trTimestamp t = at"
  using assms
  by (auto simp: terminalPhase_def triplesFor_objects soleTriple_Inr ParseTurnPhase_def enum_parse_def
      split: sum.splits option.splits if_splits)

text \<open>The gate of a manifest is the turn's verdict scalars, all three or none.\<close>

lemma rollGate_Inr:
  assumes "rollGate st = Inr gate"
  shows "gate = None \<Longrightarrow> objectsIn (esTriples st) TurnVerdictRequiresRoll = []"
    and "gate = Some g \<Longrightarrow> objectsIn (esTriples st) TurnVerdictPlausibility = [AString (rg_Plausibility g)]
      \<and> objectsIn (esTriples st) TurnVerdictRisk = [AString (rg_Risk g)]
      \<and> objectsIn (esTriples st) TurnVerdictRequiresRoll = [ABool (rg_Reported g)]"
  using assms
  by (auto simp: rollGate_def RollGate_def Let_def optionalString_Inr optionalBool_Inr
      split: sum.splits prod.splits if_splits)

text \<open>A reference of a manifest: what the turn holds, the empty text where it holds none.\<close>

definition archived :: "EntityState \<Rightarrow> Predicate \<Rightarrow> string \<Rightarrow> bool" where
  "archived st p v =
     (objectsIn (esTriples st) p = [AString v] \<or> (v = [] \<and> objectsIn (esTriples st) p = []))"

definition manifestFacts :: "TurnManifest \<Rightarrow> (Predicate \<times> string) list" where
  "manifestFacts m =
     [(TurnPhaseCurrent, tm_Phase m), (TurnActionPlayer, tm_PlayerID m), (TurnActionScene, tm_SceneID m),
      (TurnActionRef, tm_ActionRef m), (TurnVerdictRef, tm_VerdictRef m), (TurnRollRef, tm_RollRef m),
      (TurnEffectsRef, tm_EffectBatchRef m), (TurnNarrationRef, tm_NarrationRef m),
      (TurnFailureReason, tm_FailureReason m)]"

lemma list_all2_lengths:
  "list_all2 P [a, b, c] vs \<longleftrightarrow> (\<exists>x y z. vs = [x, y, z] \<and> P a x \<and> P b y \<and> P c z)"
  "list_all2 P [a, b, c, d, e] vs \<longleftrightarrow>
     (\<exists>x y z u v. vs = [x, y, z, u, v] \<and> P a x \<and> P b y \<and> P c z \<and> P d u \<and> P e v)"
  by (auto simp: list_all2_Cons1)

lemma Compose_Inr:
  assumes "Compose X turnID (Some st) campaignID = Inr m"
  shows "tm_TurnID m = turnID" "tm_CampaignID m = campaignID" "ActionIDForTurn X turnID = Inr (tm_ActionID m)"
    "TurnManifest_Validate X m = None" "IsTerminal (tm_Phase m)"
    "list_all (\<lambda>(p, v). archived st p v) (manifestFacts m)"
    "rollGate st = Inr (tm_RollGate m)"
    "\<exists>t. triplesFor st TurnPhaseCurrent = [t] \<and> trTimestamp t = tm_RecordedAt m"
proof -
  from assms obtain actionID phase at required optionals gate where
    a: "ActionIDForTurn X turnID = Inr actionID" and p: "terminalPhase st = Inr (phase, at)"
    and r: "readAll (requiredString st) [TurnActionPlayer, TurnActionScene, TurnActionRef] = Inr required"
    and q: "readAll (optionalString st)
      [TurnVerdictRef, TurnRollRef, TurnEffectsRef, TurnNarrationRef, TurnFailureReason] = Inr optionals"
    and g: "rollGate st = Inr gate"
    and m: "m = manifestOf turnID actionID campaignID phase at required optionals gate"
    and v: "TurnManifest_Validate X m = None"
    unfolding Compose_def Let_def by (auto split: option.splits sum.splits prod.splits)
  from r q obtain r0 r1 r2 q0 q1 q2 q3 q4 where
    rs: "required = [r0, r1, r2]" "requiredString st TurnActionPlayer = Inr r0"
      "requiredString st TurnActionScene = Inr r1" "requiredString st TurnActionRef = Inr r2"
    and qs: "optionals = [q0, q1, q2, q3, q4]" "optionalString st TurnVerdictRef = Inr q0"
      "optionalString st TurnRollRef = Inr q1" "optionalString st TurnEffectsRef = Inr q2"
      "optionalString st TurnNarrationRef = Inr q3" "optionalString st TurnFailureReason = Inr q4"
    unfolding readAll_Inr list_all2_lengths by blast
  note fields = m [unfolded manifestOf_def rs(1) qs(1)]
  show "tm_TurnID m = turnID" "tm_CampaignID m = campaignID" "ActionIDForTurn X turnID = Inr (tm_ActionID m)"
    "IsTerminal (tm_Phase m)" "rollGate st = Inr (tm_RollGate m)"
    "\<exists>t. triplesFor st TurnPhaseCurrent = [t] \<and> trTimestamp t = tm_RecordedAt m"
    using a g terminalPhase_Inr [OF p] by (simp_all add: fields)
  show "TurnManifest_Validate X m = None" by (fact v)
  show "list_all (\<lambda>(p, v). archived st p v) (manifestFacts m)"
    using terminalPhase_Inr(1) [OF p] rs(2-) qs(2-)
    by (simp add: manifestFacts_def fields archived_def requiredString_Inr optionalString_Inr)
qed

section \<open>The stream\<close>

text \<open>
  What the writer relies on: reads change nothing; a message that was published is the last of its
  subject until another one is; a missing message means an empty subject; a publication appends the
  message, or, when the stream has it already under its message identifier, does nothing; one that
  fails did all of that or nothing. A record decodes to what was encoded, two manifests that encode
  alike are the same, and no error of the libraries carries the ledger's sentinel.
\<close>

locale campaign_ledger =
  fixes X :: ext
    and W :: "'w Writer"
    and ents :: "'w \<Rightarrow> string \<Rightarrow> EntityState option"
    and log :: "'w \<Rightarrow> string \<Rightarrow> string list"
  assumes entity_frame: "lw_GetEntity W i w = (q, w') \<Longrightarrow> ents w' = ents w \<and> log w' = log w"
    and entity_ok: "lw_GetEntity W i w = (Inr st, w') \<Longrightarrow> ents w i = Some st"
    and page_frame: "lw_EntitiesWithPrefix W pre cur lim w = (pg, w') \<Longrightarrow> ents w' = ents w \<and> log w' = log w"
    and open_frame: "ents (lw_keepOpen W w) = ents w" "log (lw_keepOpen W w) = log w"
    and ensure_frame: "lw_EnsureStream W w = (u, w') \<Longrightarrow> ents w' = ents w \<and> log w' = log w"
    and last_frame: "lw_LastMsg W s w = (d, w') \<Longrightarrow> ents w' = ents w \<and> log w' = log w"
    and last_ok: "lw_LastMsg W s w = (Inr b, w') \<Longrightarrow> log w s \<noteq> [] \<and> last (log w s) = b"
    and last_missing: "lw_LastMsg W s w = (Inl err, w') \<Longrightarrow> errors_Is err ErrMsgNotFound \<Longrightarrow> log w s = []"
    and publish_ok: "lw_Publish W s b i w = (Inr (), w') \<Longrightarrow>
      log w' = (log w)(s := log w s @ [b]) \<or> (log w' = log w \<and> log w s \<noteq> [])"
    and publish_failed: "lw_Publish W s b i w = (Inl err, w') \<Longrightarrow>
      log w' = log w \<or> log w' = (log w)(s := log w s @ [b])"
    and publish_ents: "lw_Publish W s b i w = (u, w') \<Longrightarrow> ents w' = ents w"
    and decode_encoded: "lw_encode W m = Inr b \<Longrightarrow> lw_decode W b = Inr (ArchivedManifest m)"
    and marshal_inject: "lw_marshal W m = Inr b \<Longrightarrow> lw_marshal W m' = Inr b \<Longrightarrow> m = m'"
    and last_foreign: "lw_LastMsg W s w = (Inl err, w') \<Longrightarrow> \<not> errors_Is err ErrManifestNotFound"
    and decode_foreign: "lw_decode W b = Inl err \<Longrightarrow> \<not> errors_Is err ErrManifestNotFound"
    and validate_foreign: "TurnManifest_Validate X m = Some err \<Longrightarrow> \<not> errors_Is err ErrManifestNotFound"
begin

text \<open>The stream grows by first records only.\<close>

definition kept :: "'w \<Rightarrow> 'w \<Rightarrow> bool" where
  "kept w w' \<longleftrightarrow> (\<forall>s. log w' s = log w s \<or> (log w s = [] \<and> (\<exists>b. log w' s = [b])))"

lemma kept_refl: "log w' = log w \<Longrightarrow> kept w w'"
  by (simp add: kept_def)

lemma kept_trans: "kept w w1 \<Longrightarrow> kept w1 w2 \<Longrightarrow> kept w w2"
  unfolding kept_def by (metis list.discI)

lemma archive_frame: "Writer_archive W w = (r, w') \<Longrightarrow> ents w' = ents w \<and> log w' = log w"
  using ensure_frame open_frame
  by (auto simp: Writer_archive_def archive_stream_def split: prod.splits sum.splits if_splits)

lemma readManifest_frame:
  "readManifest X (lw_LastMsg W) (lw_decode W) s w = (r, w') \<Longrightarrow> ents w' = ents w \<and> log w' = log w"
  using last_frame
  by (auto simp: readManifest_def mapErr_Inl checkM_eq elim!: bindM_cases split: sum.splits archivedRecord.splits)

lemma readManifest_Inr:
  assumes "readManifest X (lw_LastMsg W) (lw_decode W) s w = (Inr m, w')"
  shows "log w s \<noteq> [] \<and> lw_decode W (last (log w s)) = Inr (ArchivedManifest m)"
proof -
  from assms obtain b w1 where b: "lw_LastMsg W s w = (Inr b, w1)"
    and rest: "(case lw_decode W b of
       Inl err \<Rightarrow> throw (Wrapf ''decode the archived manifest'' err)
     | Inr (ArchivedOther ty) \<Rightarrow> throw (Errorf ''the archived record is not a turn manifest'')
     | Inr (ArchivedManifest manifest) \<Rightarrow>
         checkM (wrapErr ''the archived manifest does not satisfy its own contract'' (TurnManifest_Validate X manifest))
           (ret manifest)) w1 = (Inr m, w')"
    by (auto simp: readManifest_def bindM_Inr)
  from rest have "lw_decode W b = Inr (ArchivedManifest m)"
    by (cases "lw_decode W b") (auto simp: checkM_eq split: archivedRecord.splits)
  with last_ok [OF b] show ?thesis by simp
qed

lemma readManifest_missing:
  assumes "readManifest X (lw_LastMsg W) (lw_decode W) s w = (Inl err, w')" and "errors_Is err ErrManifestNotFound"
  shows "log w s = []"
proof -
  have sentinel: "ErrManifestNotFound \<noteq> Wrapf t e" "ErrManifestNotFound \<noteq> Errorf ''the archived record is not a turn manifest''"
    for t e by (simp_all add: ErrManifestNotFound_def)
  from assms(1) show ?thesis unfolding readManifest_def
  proof (cases rule: bindM_cases)
    case (Inl e)
    then obtain e0 where e0: "lw_LastMsg W s w = (Inl e0, w')"
        "err = (if errors_Is e0 ErrMsgNotFound then Wrapf ''ledger subject'' ErrManifestNotFound
          else Wrapf ''read the archived manifest'' e0)" by (auto simp: mapErr_Inl)
    with assms(2) have "errors_Is e0 ErrMsgNotFound"
      using last_foreign [OF e0(1)] sentinel by (auto split: if_splits)
    with e0(1) show ?thesis by (rule last_missing)
  next
    case (Inr b w1)
    then show ?thesis
      using assms(2) decode_foreign validate_foreign sentinel
      by (auto simp: checkM_eq wrapErr_def split: sum.splits archivedRecord.splits)
  qed
qed

lemma manifestDiff_None: "manifestDiff (lw_marshal W) a b = None \<Longrightarrow> a = b"
  by (auto simp: manifestDiff_def split: sum.splits dest: marshal_inject)

text \<open>
  Archiving a turn leaves the stream alone or gives the turn's empty subject its one record; if it
  succeeds, the subject's last record is the manifest the turn composes, and it says so.
\<close>

lemma archiveTurn_cases:
  assumes "archiveTurn X W turnID (Some st) w = (r, w')"
  obtains (kept) "ents w' = ents w" "log w' = log w"
      "\<And>x. r = Inr x \<Longrightarrow> \<not> lo_Appended x \<and> (\<exists>s. SubjectFor X turnID = Inr s
         \<and> Compose X turnID (Some st) (lw_campaignID W) = Inr (lo_Manifest x)
         \<and> log w s \<noteq> [] \<and> lw_decode W (last (log w s)) = Inr (ArchivedManifest (lo_Manifest x)))"
  | (added) s m b where "ents w' = ents w" "SubjectFor X turnID = Inr s"
      "Compose X turnID (Some st) (lw_campaignID W) = Inr m" "lw_encode W m = Inr b"
      "log w s = []" "log w' = (log w)(s := [b])" "\<And>x. r = Inr x \<Longrightarrow> lo_Appended x \<and> lo_Manifest x = m"
proof -
  show thesis
  proof (cases "\<exists>s m w1. SubjectFor X turnID = Inr s \<and> Compose X turnID (Some st) (lw_campaignID W) = Inr m
      \<and> Writer_archive W w = (Inr (), w1)")
    case False
    with assms have "(\<exists>e. r = Inl e) \<and> ents w' = ents w \<and> log w' = log w"
      using archive_frame
      by (fastforce simp: archiveTurn_def elim!: bindM_cases)
    then show thesis by (intro that(1)) auto
  next
    case True
    then obtain s m w1 where s: "SubjectFor X turnID = Inr s"
      and m: "Compose X turnID (Some st) (lw_campaignID W) = Inr m" and w1: "Writer_archive W w = (Inr (), w1)"
      by blast
    obtain q w2 where q: "readManifest X (lw_LastMsg W) (lw_decode W) s w1 = (q, w2)" by fastforce
    have same: "ents w2 = ents w" "log w2 = log w" "log w1 = log w"
      using archive_frame [OF w1] readManifest_frame [OF q] by auto
    have rest: "(case q of
        Inr existing \<Rightarrow>
          checkM (wrapErr ''turn is already archived with a different manifest''
              (manifestDiff (lw_marshal W) existing m))
            (ret \<lparr>lo_Manifest = existing, lo_Appended = False\<rparr>)
      | Inl err \<Rightarrow>
          if \<not> errors_Is err ErrManifestNotFound then throw err
          else bindM (mapErr (Wrapf ''encode the manifest'') (liftR (lw_encode W m))) (\<lambda>body.
            bindM (mapErr (Wrapf ''append the manifest'') (lw_Publish W s body turnID)) (\<lambda>_.
            ret \<lparr>lo_Manifest = m, lo_Appended = True\<rparr>))) w2 = (r, w')"
      using assms s m w1 q by (simp add: archiveTurn_def bindM_def liftR_def tryM_def)
    show thesis
    proof (cases q)
      case (Inr existing)
      with rest have "w' = w2" "\<And>x. r = Inr x \<Longrightarrow> x = \<lparr>lo_Manifest = existing, lo_Appended = False\<rparr> \<and> existing = m"
        by (auto simp: checkM_eq wrapErr_def dest: manifestDiff_None)
      with that(1) same s m readManifest_Inr [OF q [unfolded Inr]] show thesis by fastforce
    next
      case (Inl err)
      show thesis
      proof (cases "errors_Is err ErrManifestNotFound \<and> (\<exists>b. lw_encode W m = Inr b)")
        case False
        with rest Inl have "w' = w2 \<and> (\<exists>e. r = Inl e)"
          by (auto simp: mapErr_Inl split: if_splits elim!: bindM_cases)
        with that(1) same show thesis by auto
      next
        case True
        then obtain b where b: "lw_encode W m = Inr b" by blast
        have none: "log w s = []" using readManifest_missing [OF q [unfolded Inl]] True same by auto
        obtain u w3 where u: "lw_Publish W s b turnID w2 = (u, w3)" by fastforce
        have w': "w' = w3" "\<And>x. r = Inr x \<Longrightarrow> x = \<lparr>lo_Manifest = m, lo_Appended = True\<rparr> \<and> u = Inr ()"
          using rest Inl True b u by (auto simp: bindM_def liftR_def mapErr_def ret_def split: sum.splits)
        have "log w3 = log w \<and> u \<noteq> Inr () \<or> log w3 = (log w)(s := [b])"
          using publish_ok [of s b turnID w2 w3] publish_failed [of s b turnID w2 _ w3] u same none
          by (cases u) auto
        then show thesis
        proof
          assume "log w3 = log w \<and> u \<noteq> Inr ()"
          then show thesis using that(1) w' publish_ents [OF u] same by auto
        next
          assume "log w3 = (log w)(s := [b])"
          then have "log w' = (log w)(s := [b])" by (simp add: w'(1))
          moreover have "ents w' = ents w" using publish_ents [OF u] same(1) by (simp add: w'(1))
          ultimately show thesis using w'(2) by (intro that(2) [OF _ s m b none]) auto
        qed
      qed
    qed
  qed
qed

lemma archiveTurn_kept: "archiveTurn X W turnID (Some st) w = (r, w') \<Longrightarrow> kept w w' \<and> ents w' = ents w"
  by (erule archiveTurn_cases) (auto simp: kept_def)

lemma archiveTurn_Inr:
  assumes "archiveTurn X W turnID (Some st) w = (Inr x, w')"
  shows "\<exists>s. SubjectFor X turnID = Inr s \<and> Compose X turnID (Some st) (lw_campaignID W) = Inr (lo_Manifest x)
    \<and> log w' s \<noteq> [] \<and> lw_decode W (last (log w' s)) = Inr (ArchivedManifest (lo_Manifest x))
    \<and> (lo_Appended x \<longleftrightarrow> log w s = [])"
  using assms by (cases rule: archiveTurn_cases) (auto dest: decode_encoded)

lemma Append_cases:
  assumes "Append X W i w = (r, w')"
  obtains (refused) e where "r = Inl e" "ents w' = ents w" "log w' = log w"
  | (archived) turnID st w1 where "ledger_turnIDOf X i = Inr turnID" "ents w i = Some st" "ents w1 = ents w"
      "log w1 = log w" "archiveTurn X W turnID (Some st) w1 = (r, w')"
proof (cases "ledger_turnIDOf X i")
  case (Inl e)
  with assms show thesis by (intro that(1) [of e]) (auto simp: Append_def bindM_def liftR_def)
next
  case (Inr turnID)
  obtain q w1 where q: "lw_GetEntity W i w = (q, w1)" by fastforce
  note same = entity_frame [OF q]
  show thesis
  proof (cases q)
    case (Inl e)
    with assms Inr q same show thesis
      by (intro that(1)) (auto simp: Append_def bindM_def liftR_def mapErr_def)
  next
    case read: (Inr st)
    have "archiveTurn X W turnID (Some st) w1 = (r, w')"
      using assms Inr q read by (simp add: Append_def bindM_def liftR_def mapErr_def)
    with Inr same entity_ok [OF q [unfolded read]] show thesis by (intro that(2)) auto
  qed
qed

lemma Append_kept: "Append X W i w = (r, w') \<Longrightarrow> kept w w' \<and> ents w' = ents w"
  by (erule Append_cases) (auto simp: kept_def dest!: archiveTurn_kept)

lemma Handle_kept: "Writer_Handle X W data w = (r, w') \<Longrightarrow> kept w w' \<and> ents w' = ents w"
  by (auto simp: Writer_Handle_def mapErr_Inl kept_refl elim!: bindM_cases split: sum.splits dest: Append_kept)

lemma reconcileTurn_kept: "reconcileTurn X W st rep w = (rep', w') \<Longrightarrow> kept w w' \<and> ents w' = ents w"
  by (auto simp: reconcileTurn_def Let_def kept_refl split: sum.splits prod.splits if_splits dest: archiveTurn_kept)

lemma reconcilePage_kept: "reconcilePage X W sts rep w = (rep', w') \<Longrightarrow> kept w w' \<and> ents w' = ents w"
  by (induction sts arbitrary: rep w)
    (auto simp: kept_refl split: prod.splits dest!: reconcileTurn_kept intro: kept_trans)

lemma reconcilePages_kept: "reconcilePages X W n cur rep w = (x, w') \<Longrightarrow> kept w w' \<and> ents w' = ents w"
proof (induction n arbitrary: cur rep w)
  case (Suc n)
  obtain pg w1 where pg: "lw_EntitiesWithPrefix W (lw_turnPrefix W) cur (lw_pageLimit W) w = (pg, w1)" by fastforce
  have w1: "ents w1 = ents w" "kept w w1" using page_frame [OF pg] by (auto simp: kept_refl)
  show ?case
  proof (cases pg)
    case (Inl e)
    with Suc.prems pg w1 show ?thesis by auto
  next
    case (Inr p)
    obtain rep' w2 where page: "reconcilePage X W (fst p) rep w1 = (rep', w2)" by fastforce
    have w2: "kept w w2" "ents w2 = ents w" using reconcilePage_kept [OF page] w1 by (auto intro: kept_trans)
    from Suc.prems pg Inr page have "w' = w2 \<or> reconcilePages X W n (snd p) rep' w2 = (x, w')"
      by (auto split: if_splits prod.splits)
    then show ?thesis using Suc.IH w2 by (fastforce intro: kept_trans)
  qed
qed (auto simp: kept_refl)

lemma Reconcile_kept: "Writer_Reconcile X W w = (x, w') \<Longrightarrow> kept w w' \<and> ents w' = ents w"
  by (auto simp: Writer_Reconcile_def split: prod.splits option.splits dest: reconcilePages_kept)

end

section \<open>Runs of the writer\<close>

inductive ledger_step ::
    "ext \<Rightarrow> 'w Writer \<Rightarrow> ('w \<Rightarrow> string \<Rightarrow> string list) \<Rightarrow> 'w \<Rightarrow> 'w \<Rightarrow> bool"
  for X W log where
  appends: "Append X W i w = (r, w') \<Longrightarrow> ledger_step X W log w w'"
| handles: "Writer_Handle X W data w = (u, w') \<Longrightarrow> ledger_step X W log w w'"
| reconciles: "Writer_Reconcile X W w = (x, w') \<Longrightarrow> ledger_step X W log w w'"
| others: "log w' = log w \<Longrightarrow> ledger_step X W log w w'"

context campaign_ledger
begin

lemma run_kept: "(ledger_step X W log)\<^sup>*\<^sup>* w w' \<Longrightarrow> kept w w'"
proof (induction rule: rtranclp_induct)
  case (step w1 w2)
  from step.hyps(2) have "kept w1 w2"
    by cases (auto dest: Append_kept Handle_kept Reconcile_kept simp: kept_refl)
  with step.IH show ?case by (rule kept_trans)
qed (simp add: kept_refl)

lemma kept_record: "kept w w' \<Longrightarrow> log w s \<noteq> [] \<Longrightarrow> log w' s = log w s"
  by (auto simp: kept_def)

end

section \<open>The report of a reconciliation\<close>

definition reportBalanced :: "Reconciliation \<Rightarrow> bool" where
  "reportBalanced r =
     (rn_Scanned r = rn_Archived r + rn_AlreadyArchived r + rn_InFlight r + length (rn_Failures r))"

lemma reconcileTurn_balanced:
  "reconcileTurn X W st rep w = (rep', w') \<Longrightarrow> reportBalanced rep \<Longrightarrow>
     reportBalanced rep' \<and> rn_Scanned rep' = rn_Scanned rep + 1"
  by (auto simp: reconcileTurn_def Let_def reportBalanced_def failedTurn_def split: sum.splits prod.splits if_splits)

lemma reconcilePage_balanced:
  "reconcilePage X W sts rep w = (rep', w') \<Longrightarrow> reportBalanced rep \<Longrightarrow>
     reportBalanced rep' \<and> rn_Scanned rep' = rn_Scanned rep + length sts"
  by (induction sts arbitrary: rep w) (auto split: prod.splits dest!: reconcileTurn_balanced)

lemma reconcilePages_balanced:
  "reconcilePages X W n cur rep w = ((rep', e), w') \<Longrightarrow> reportBalanced rep \<Longrightarrow> reportBalanced rep'"
proof (induction n arbitrary: cur rep w)
  case (Suc n)
  then show ?case
    by (auto split: sum.splits prod.splits if_splits dest: reconcilePage_balanced)
qed simp

lemma joinErrors_None [simp]: "joinErrors es = None \<longleftrightarrow> es = []"
  by (cases es) auto

end
