(* ===== verification/Ledger_Replay.thy ===== *)
theory Ledger_Replay
  imports Ledger Dice Content_Store
begin

text \<open>
  \<^verbatim>\<open>internal/ledger/replay.go\<close>: the reader of the archive, which re-executes the dice of an
  archived turn and reads everything a persona wrote from the references the turn kept. The stream,
  the artifacts, the seed and the encoding of a roll are fields of the reader. The lemmas show that
  an archived roll passes exactly when rolling it again gives that very roll.
\<close>

section \<open>The reader\<close>

definition ErrNotReproducible :: gerror where
  "ErrNotReproducible = Errorf ''the archived roll is not reproducible from its own inputs''"

definition ErrNotReplayable :: gerror where
  "ErrNotReplayable = Errorf ''the archived turn cannot be re-executed by this engine''"

record 'w Reader =
  lr_opened :: "'w \<Rightarrow> bool"
  lr_keepOpen :: "'w \<Rightarrow> 'w"
  lr_EnsureStream :: "('w, unit) M"
  lr_LastMsg :: "string \<Rightarrow> ('w, string) M"
  lr_decode :: "string \<Rightarrow> gerror + archivedRecord"
  lr_GetVerdict :: "Ref \<Rightarrow> ('w, Verdict) M"
  lr_GetRoll :: "Ref \<Rightarrow> ('w, RollResult) M"
  lr_GetNarration :: "Ref \<Rightarrow> ('w, Narration) M"
  lr_CampaignID :: string
  lr_LoadSeed :: "('w, Seed) M"
  lr_marshalRoll :: "RollResult \<Rightarrow> gerror + string"

definition Reader_archive :: "'w Reader \<Rightarrow> ('w, unit) M" where
  "Reader_archive R = archive_stream ''open the stream'' (lr_opened R) (lr_keepOpen R) (lr_EnsureStream R)"

definition Reader_Manifest :: "ext \<Rightarrow> 'w Reader \<Rightarrow> string \<Rightarrow> ('w, TurnManifest) M" where
  "Reader_Manifest X R turnID =
     bindM (liftR (SubjectFor X turnID)) (\<lambda>subject.
     bindM (Reader_archive R) (\<lambda>_. readManifest X (lr_LastMsg R) (lr_decode R) subject))"

record turnReplay =
  rpl_Manifest :: TurnManifest
  rpl_Verdict :: "Verdict option"
  rpl_Roll :: "RollResult option"
  rpl_Reproduced :: "RollResult option"
  rpl_Narration :: "Narration option"

definition turnReplay_Rolled :: "turnReplay \<Rightarrow> bool" where
  "turnReplay_Rolled r = (rpl_Roll r \<noteq> None)"

section \<open>Replaying a turn\<close>

definition replayVerdict :: "ext \<Rightarrow> 'w Reader \<Rightarrow> TurnManifest \<Rightarrow> ('w, Verdict option) M" where
  "replayVerdict X R manifest =
     (if tm_VerdictRef manifest = [] then ret None
      else bindM (mapErr (Wrapf ''turn records an unresolvable verdict reference'')
          (liftR (ParseRef X (tm_VerdictRef manifest)))) (\<lambda>ref.
        bindM (mapErr (Wrapf ''resolve the archived verdict'') (lr_GetVerdict R ref)) (\<lambda>verdict.
        if ve_TurnID verdict \<noteq> tm_TurnID manifest
        then throw (Errorf ''the verdict belongs to another turn'')
        else ret (Some verdict))))"

definition identicalRolls :: "(RollResult \<Rightarrow> gerror + string) \<Rightarrow> RollResult \<Rightarrow> RollResult \<Rightarrow> gerror option" where
  "identicalRolls marshal recorded reproduced =
     (case marshal recorded of
        Inl err \<Rightarrow> Some (Wrapf ''the archived roll could not be re-encoded'' err)
      | Inr before \<Rightarrow>
        (case marshal reproduced of
           Inl err \<Rightarrow> Some (Wrapf ''the re-executed roll could not be encoded'' err)
         | Inr after \<Rightarrow> failIf (before \<noteq> after) (Errorf ''archived another roll than re-executing its inputs produces'')))"

text \<open>The checks on an archived roll before it is re-executed.\<close>

definition checkRecorded :: "TurnManifest \<Rightarrow> RollResult \<Rightarrow> gerror option" where
  "checkRecorded manifest recorded =
     firstErr [
       failIf (rr_TurnID recorded \<noteq> tm_TurnID manifest) (Errorf ''the roll belongs to another turn''),
       failIf (ss_CampaignID (rr_Seed recorded) \<noteq> tm_CampaignID manifest)
         (Errorf ''the roll was derived under another campaign than the manifest archives''),
       failIf (rr_RNGVersion recorded \<noteq> RNGVersion)
         (Wrapf ''turn was rolled under another generator'' ErrNotReplayable)]"

text \<open>The archived roll and the one its inputs reproduce, or nothing for a turn without dice.\<close>

definition replayRoll ::
    "ext \<Rightarrow> 'w Reader \<Rightarrow> TurnManifest \<Rightarrow> Verdict option \<Rightarrow> ('w, (RollResult \<times> RollResult) option) M" where
  "replayRoll X R manifest verdict =
     (if tm_RollRef manifest = []
      then (case verdict of
          None \<Rightarrow> ret None
        | Some v \<Rightarrow>
            if vs_RequiresRoll (ve_Scalars v)
            then throw (Errorf ''turn archived a verdict that called for the dice and no roll reference'')
            else ret None)
      else (case verdict of
          None \<Rightarrow> throw (Errorf ''turn archived a roll and no verdict'')
        | Some v \<Rightarrow>
            if \<not> vs_RequiresRoll (ve_Scalars v)
            then throw (Errorf ''turn archived a roll under a verdict that declined the dice'')
            else
              bindM (mapErr (Wrapf ''turn records an unresolvable roll reference'')
                (liftR (ParseRef X (tm_RollRef manifest)))) (\<lambda>ref.
              bindM (mapErr (Wrapf ''resolve the archived roll'') (lr_GetRoll R ref)) (\<lambda>recorded.
              checkM (checkRecorded manifest recorded)
              (bindM (mapErr (Wrapf2 ''turn was rolled under another mechanic'' ErrNotReplayable)
                (liftR (NewRoller (rr_Mechanic recorded)))) (\<lambda>roller.
              bindM (mapErr (Wrapf ''load the campaign seed'') (lr_LoadSeed R)) (\<lambda>seed.
              bindM (mapErr (Wrapf ''re-execute the roll'')
                (liftR (Roll X roller seed (ss_CampaignID (rr_Seed recorded)) (tm_TurnID manifest) (ve_Modifiers v))))
                (\<lambda>reproduced.
              checkM (map_option (Wrapf2 ''turn'' ErrNotReproducible)
                  (identicalRolls (lr_marshalRoll R) recorded reproduced))
                (ret (Some (recorded, reproduced)))))))))))"

definition checkBand :: "RollResult option \<Rightarrow> Narration \<Rightarrow> gerror option" where
  "checkBand replayed narration =
     (let want = (case replayed of None \<Rightarrow> BandAuto | Some r \<Rightarrow> rr_Band r) in
      failIf (na_Band narration \<noteq> want) (Errorf ''turn archived a narration voicing another band''))"

definition readNarration ::
    "ext \<Rightarrow> 'w Reader \<Rightarrow> TurnManifest \<Rightarrow> RollResult option \<Rightarrow> ('w, Narration option) M" where
  "readNarration X R manifest replayed =
     (if tm_NarrationRef manifest = [] then ret None
      else bindM (mapErr (Wrapf ''turn records an unresolvable narration reference'')
          (liftR (ParseRef X (tm_NarrationRef manifest)))) (\<lambda>ref.
        bindM (mapErr (Wrapf ''resolve the archived narration'') (lr_GetNarration R ref)) (\<lambda>narration.
        if na_TurnID narration \<noteq> tm_TurnID manifest
        then throw (Errorf ''the narration belongs to another turn'')
        else checkM (checkBand replayed narration) (ret (Some narration)))))"

definition ReplayTurn :: "ext \<Rightarrow> 'w Reader \<Rightarrow> TurnManifest option \<Rightarrow> ('w, turnReplay) M" where
  "ReplayTurn X R manifest =
     (case manifest of
        None \<Rightarrow> throw (Errorf ''replay requires a manifest'')
      | Some m \<Rightarrow>
        checkM (wrapErr ''refusing to replay an incoherent manifest'' (TurnManifest_Validate X m))
        (if tm_CampaignID m \<noteq> lr_CampaignID R then throw (Errorf ''manifest belongs to another campaign'')
         else
           bindM (replayVerdict X R m) (\<lambda>verdict.
           bindM (replayRoll X R m verdict) (\<lambda>rolled.
           bindM (readNarration X R m (map_option fst rolled)) (\<lambda>narration.
           ret \<lparr>rpl_Manifest = m, rpl_Verdict = verdict, rpl_Roll = map_option fst rolled,
             rpl_Reproduced = map_option snd rolled, rpl_Narration = narration\<rparr>)))))"

section \<open>What a replay proves\<close>

text \<open>Encoding a roll determines it.\<close>

definition faithful :: "(RollResult \<Rightarrow> gerror + string) \<Rightarrow> bool" where
  "faithful marshal \<longleftrightarrow> (\<forall>a b x. marshal a = Inr x \<longrightarrow> marshal b = Inr x \<longrightarrow> a = b)"

lemma identicalRolls_None:
  assumes "faithful marshal" and "identicalRolls marshal a b = None"
  shows "a = b"
  using assms by (auto simp: identicalRolls_def faithful_def split: sum.splits)

lemma checkRecorded_None:
  "checkRecorded m r = None \<longleftrightarrow>
     rr_TurnID r = tm_TurnID m \<and> ss_CampaignID (rr_Seed r) = tm_CampaignID m \<and> rr_RNGVersion r = RNGVersion"
  by (auto simp: checkRecorded_def)

lemma replayRoll_Inr:
  assumes "replayRoll X R m verdict w = (Inr (Some (recorded, reproduced)), w')" and "faithful (lr_marshalRoll R)"
  shows "reproduced = recorded"
    and "\<exists>v ref roller seed w1. verdict = Some v \<and> vs_RequiresRoll (ve_Scalars v) \<and> ParseRef X (tm_RollRef m) = Inr ref
      \<and> lr_GetRoll R ref w = (Inr recorded, w1) \<and> NewRoller (rr_Mechanic recorded) = Inr roller
      \<and> lr_LoadSeed R w1 = (Inr seed, w')
      \<and> Roll X roller seed (tm_CampaignID m) (tm_TurnID m) (ve_Modifiers v) = Inr recorded"
proof -
  from assms(1) obtain v ref w1 roller seed where v: "verdict = Some v" "vs_RequiresRoll (ve_Scalars v)"
      "ParseRef X (tm_RollRef m) = Inr ref" "lr_GetRoll R ref w = (Inr recorded, w1)"
      "checkRecorded m recorded = None" "NewRoller (rr_Mechanic recorded) = Inr roller"
      "lr_LoadSeed R w1 = (Inr seed, w')"
      "Roll X roller seed (ss_CampaignID (rr_Seed recorded)) (tm_TurnID m) (ve_Modifiers v) = Inr reproduced"
      "identicalRolls (lr_marshalRoll R) recorded reproduced = None"
    by (auto simp: replayRoll_def bindM_Inr checkM_eq split: if_splits option.splits)
  then show "reproduced = recorded" using identicalRolls_None [OF assms(2)] by auto
  with v show "\<exists>v ref roller seed w1. verdict = Some v \<and> vs_RequiresRoll (ve_Scalars v)
      \<and> ParseRef X (tm_RollRef m) = Inr ref
      \<and> lr_GetRoll R ref w = (Inr recorded, w1) \<and> NewRoller (rr_Mechanic recorded) = Inr roller
      \<and> lr_LoadSeed R w1 = (Inr seed, w')
      \<and> Roll X roller seed (tm_CampaignID m) (tm_TurnID m) (ve_Modifiers v) = Inr recorded"
    by (auto simp: checkRecorded_None)
qed

text \<open>A roll that its inputs give again is never disputed.\<close>

lemma replayRoll_honest:
  assumes "tm_RollRef m \<noteq> []" "ParseRef X (tm_RollRef m) = Inr ref" "vs_RequiresRoll (ve_Scalars v)"
    and "lr_GetRoll R ref w = (Inr recorded, w1)" "lr_LoadSeed R w1 = (Inr seed, w')"
    and "rr_RNGVersion recorded = RNGVersion" "NewRoller (rr_Mechanic recorded) = Inr roller"
    and "Roll X roller seed (tm_CampaignID m) (tm_TurnID m) (ve_Modifiers v) = Inr recorded"
    and "lr_marshalRoll R recorded = Inr text"
  shows "replayRoll X R m (Some v) w = (Inr (Some (recorded, recorded)), w')"
proof -
  have "checkRecorded m recorded = None" "ss_CampaignID (rr_Seed recorded) = tm_CampaignID m"
    using Roll_Inr [OF assms(8)] assms(6) by (auto simp: checkRecorded_None)
  then show ?thesis
    using assms
    by (simp add: replayRoll_def bindM_def liftR_def mapErr_def identicalRolls_def ret_def failIf_def)
qed

lemma Roll_version:
  assumes "Roll X r s c t ms = Inr result" and "NewRoller mechanic = Inr r"
  shows "rr_RNGVersion result = RNGVersion" "rr_Mechanic result = mechanic"
  using assms
  by (auto simp: Roll_def NewRoller_def MechanicSpecFor_Inr Let_def split: sum.splits option.splits prod.splits)

lemma ReplayTurn_Inr:
  assumes "ReplayTurn X R (Some m) w = (Inr rp, w')"
  obtains verdict rolled narration w1 w2 where "TurnManifest_Validate X m = None" "tm_CampaignID m = lr_CampaignID R"
    "replayVerdict X R m w = (Inr verdict, w1)" "replayRoll X R m verdict w1 = (Inr rolled, w2)"
    "readNarration X R m (map_option fst rolled) w2 = (Inr narration, w')"
    "rp = \<lparr>rpl_Manifest = m, rpl_Verdict = verdict, rpl_Roll = map_option fst rolled,
       rpl_Reproduced = map_option snd rolled, rpl_Narration = narration\<rparr>"
  using assms
  by (auto simp: ReplayTurn_def bindM_Inr checkM_eq split: if_splits)

lemma readNarration_Inr:
  assumes "readNarration X R m replayed w = (Inr narration, w')"
  shows "narration = None \<longleftrightarrow> tm_NarrationRef m = []"
    and "narration = Some n \<Longrightarrow> na_TurnID n = tm_TurnID m
      \<and> na_Band n = (case replayed of None \<Rightarrow> BandAuto | Some r \<Rightarrow> rr_Band r)"
  using assms by (auto simp: readNarration_def bindM_Inr checkM_eq checkBand_def split: if_splits)

lemma replayVerdict_Inr:
  assumes "replayVerdict X R m w = (Inr verdict, w')"
  shows "verdict = None \<longleftrightarrow> tm_VerdictRef m = []"
    and "verdict = Some v \<Longrightarrow> ve_TurnID v = tm_TurnID m"
  using assms by (auto simp: replayVerdict_def bindM_Inr split: if_splits)

lemma replayRoll_None:
  assumes "replayRoll X R m verdict w = (Inr rolled, w')"
  shows "rolled = None \<longleftrightarrow> tm_RollRef m = []"
    and "rolled = None \<Longrightarrow> verdict = Some v \<Longrightarrow> \<not> vs_RequiresRoll (ve_Scalars v)"
  using assms by (auto simp: replayRoll_def bindM_Inr checkM_eq split: if_splits option.splits)

end
