(* ===== verification/Reference_Ledger.thy ===== *)
theory Reference_Ledger
  imports Example_Turns Example_Rolls Ledger_Once Ledger_Replay
begin

text \<open>
  The ledger on the reference world, whose object store serves as the stream: a codec of manifests, the
  writer, the interpretation that discharges the laws of \<open>campaign_ledger\<close>, the archiving of a failed
  turn, and the replay of a turn whose archived roll is never evaluated.
\<close>

section \<open>A codec of manifests\<close>

definition encFlag :: "bool \<Rightarrow> string" where "encFlag b = (if b then ''1'' else '''')"

definition encGate :: "RollGateExpectation option \<Rightarrow> string list" where
  "encGate g =
     (case g of
        None \<Rightarrow> ['''', '''', '''', '''', '''', '''']
      | Some x \<Rightarrow> [''g'', rg_Plausibility x, rg_Risk x, encFlag (rg_Reported x), encFlag (rg_Advised x), rg_Mapping x])"

definition encManifest :: "TurnManifest \<Rightarrow> string list" where
  "encManifest m =
     [tm_TurnID m, tm_ActionID m, tm_CampaignID m, tm_SceneID m, tm_PlayerID m, tm_Phase m, tm_ActionRef m,
      tm_VerdictRef m, tm_RollRef m, tm_EffectBatchRef m, tm_NarrationRef m, tm_FailureReason m,
      encInt (tm_RecordedAt m), encInt (tm_WorldTime m)] @ encGate (tm_RollGate m)"

definition decManifest :: "string \<Rightarrow> gerror + archivedRecord" where
  "decManifest s =
     (case decFields 20 s of
        Some [a, b, c, d, e, f, g, h, i, j, k, l, m, n, tag, p, q, r, t, u] \<Rightarrow>
          Inr (ArchivedManifest \<lparr>tm_TurnID = a, tm_ActionID = b, tm_CampaignID = c, tm_SceneID = d,
            tm_PlayerID = e, tm_Phase = f, tm_ActionRef = g, tm_VerdictRef = h, tm_RollRef = i,
            tm_EffectBatchRef = j, tm_NarrationRef = k, tm_FailureReason = l,
            tm_RollGate = (if tag = [] then None
              else Some \<lparr>rg_Plausibility = p, rg_Risk = q, rg_Reported = (r \<noteq> []), rg_Advised = (t \<noteq> []),
                rg_Mapping = u\<rparr>),
            tm_RecordedAt = decInt m, tm_WorldTime = decInt n\<rparr>)
      | _ \<Rightarrow> Inl (External ''invalid character''))"

definition refManifest :: "TurnManifest \<Rightarrow> gerror + string" where
  "refManifest m = Inr (concat (map encField (encManifest m)))"

lemma refManifest_decodes:
  assumes "refManifest m = Inr b"
  shows "decManifest b = Inr (ArchivedManifest m)"
proof -
  have "length (encManifest m) = 20" by (simp add: encManifest_def encGate_def split: option.splits)
  then have "decFields 20 b = Some (encManifest m)"
    using assms decFields_enc [of 20 "encManifest m"] by (simp add: refManifest_def)
  then show ?thesis
    by (cases "tm_RollGate m")
      (simp_all add: decManifest_def encManifest_def encGate_def encFlag_def)
qed

lemma refManifest_inject: "refManifest m = Inr b \<Longrightarrow> refManifest m' = Inr b \<Longrightarrow> m = m'"
  by (auto dest!: refManifest_decodes)

section \<open>The writer\<close>

definition memLog :: "memWorld \<Rightarrow> string \<Rightarrow> string list" where
  "memLog w s = rev (map snd (filter (\<lambda>kd. fst kd = s) (mw_objects w)))"

definition memLast :: "string \<Rightarrow> (memWorld, string) M" where
  "memLast s = (\<lambda>w. case popFault w of
       (Some _, w1) \<Rightarrow> (Inl (External ''stream timed out''), w1)
     | (None, w1) \<Rightarrow>
         (case memLog w1 s of [] \<Rightarrow> (Inl ErrMsgNotFound, w1) | ds \<Rightarrow> (Inr (last ds), w1)))"

definition refWriter :: "string \<Rightarrow> memWorld Writer" where
  "refWriter campaignID =
     \<lparr>lw_GetEntity = gs_GetEntity memGraphStore,
      lw_EntitiesWithPrefix = (\<lambda>p c n w. (Inr (filter (\<lambda>e. hasPrefix (esID e) p) (map snd (mg_ents w)), []), w)),
      lw_opened = (\<lambda>_. True), lw_keepOpen = id, lw_EnsureStream = ret (),
      lw_LastMsg = memLast, lw_Publish = (\<lambda>s b _. memPut s b),
      lw_decode = decManifest, lw_encode = refManifest, lw_marshal = refManifest,
      lw_publication = (\<lambda>s. Inr \<lparr>rp_EntityID = s, rp_Subject = SubjectResolved\<rparr>),
      lw_campaignID = campaignID, lw_turnPrefix = ''o.p.w.s.turn'',
      lw_heartbeat = DefaultHeartbeat, lw_pageLimit = DefaultPageLimit\<rparr>"

lemma memLog_updates [simp]:
  "mw_objects v = mw_objects w \<Longrightarrow>
     memLog (v\<lparr>mw_objects := (k, d) # mw_objects w\<rparr>) = (memLog w)(k := memLog w k @ [d])"
  by (auto simp: memLog_def fun_eq_iff)

lemma popFault_log [simp]: "popFault w = (f, w1) \<Longrightarrow> memLog w1 = memLog w \<and> mw_objects w1 = mw_objects w"
  by (auto simp: popFault_def memLog_def split: list.splits)

lemma memGet_log: "gs_GetEntity memGraphStore i w = (r, w') \<Longrightarrow> memLog w' = memLog w"
  by (auto simp: memGraphStore_def graphioStore_def GetEntity_def memClient_def memRead_def tryM_def M_defs
      split: if_splits prod.splits option.splits sum.splits dest!: popFault_log)

lemma memPut_log:
  assumes "memPut s b w = (r, w')"
  shows "r = Inr () \<Longrightarrow> memLog w' = (memLog w)(s := memLog w s @ [b])"
    and "memLog w' = memLog w \<or> memLog w' = (memLog w)(s := memLog w s @ [b])"
  using assms by (auto simp: memPut_def split: prod.splits option.splits fault.splits if_splits dest!: popFault_log)

lemma memLast_facts:
  assumes "memLast s w = (d, w')"
  shows "memEnts w' = memEnts w \<and> memLog w' = memLog w"
    and "d = Inr b \<Longrightarrow> memLog w s \<noteq> [] \<and> last (memLog w s) = b"
    and "d = Inl err \<Longrightarrow> err = External ''stream timed out'' \<or> (err = ErrMsgNotFound \<and> memLog w s = [])"
  using assms
  by (auto simp: memLast_def split: prod.splits option.splits list.splits dest: popFault_log popFault_ents)

text \<open>No error of the grammar or of the closed vocabularies is the ledger's sentinel.\<close>

abbreviation noManifest :: "gerror \<Rightarrow> bool" where "noManifest e \<equiv> errors_Is e ErrManifestNotFound"

lemma noManifest_simps:
  "noManifest (Wrapf s e) = noManifest e" "noManifest (External s) = False"
  "noManifest (Errorf s) = (Errorf s = ErrManifestNotFound)" "noManifest (UnknownValueError a b c) = False"
  by (simp_all add: errors_Is_def ErrManifestNotFound_def)

lemma refExt_present:
  "ValidateEntityID refExt s = Some e \<Longrightarrow> \<not> noManifest e"
  "ValidateEntityIDPrefix refExt s = Some e \<Longrightarrow> \<not> noManifest e"
  by (auto simp: refExt_def noManifest_simps)

definition clear :: "gerror option \<Rightarrow> bool" where
  "clear r = (case r of None \<Rightarrow> True | Some e \<Rightarrow> \<not> noManifest e)"

lemma clear_simps [simp]:
  "clear None" "clear (Some e) = (\<not> noManifest e)" "clear (failIf b e) = (b \<longrightarrow> \<not> noManifest e)"
  "clear (wrapErr s r) = clear r"
  by (auto simp: clear_def failIf_def wrapErr_def noManifest_simps split: option.splits)

lemma clear_firstErr: "list_all clear es \<Longrightarrow> clear (firstErr es)"
  by (induction es rule: firstErr.induct) auto

lemma clear_parse: "clear (errOf (enum_parse k s))"
  by (simp add: enum_parse_def noManifest_simps)

lemma clear_segment: "clear (ValidateIDSegment refExt s)" "clear (requireIDSegment refExt f s)"
proof -
  have prefix: "clear (ValidateEntityIDPrefix refExt s)" for s
    using refExt_present(2) by (auto simp: clear_def split: option.splits)
  show segment: "clear (ValidateIDSegment refExt s)" for s
    unfolding ValidateIDSegment_def
    by (rule clear_firstErr) (use prefix in \<open>simp add: noManifest_simps ErrManifestNotFound_def\<close>)
  show "clear (requireIDSegment refExt f s)" by (simp add: requireIDSegment_def segment)
qed

lemma suffix_last: "last g \<noteq> last t \<Longrightarrow> g \<noteq> [] \<Longrightarrow> f @ g \<noteq> t"
  by (metis last_appendR)

lemma field_errors:
  "f @ '' is required'' \<noteq> ''no ledger manifest for this turn''"
  "f @ '' would exceed the segment budget'' \<noteq> ''no ledger manifest for this turn''"
  by (rule suffix_last, simp, simp)+

lemma clear_ids: "clear (requireEntityID refExt f s)" "clear (requireActionID refExt f s)"
proof -
  have valid: "clear (ValidateEntityID refExt s)" for s
    using refExt_present(1) by (auto simp: clear_def split: option.splits)
  show "clear (requireEntityID refExt f s)"
    unfolding requireEntityID_def
    by (rule clear_firstErr) (simp add: noManifest_simps ErrManifestNotFound_def valid field_errors)
  show "clear (requireActionID refExt f s)"
    unfolding requireActionID_def
    by (rule clear_firstErr) (simp add: noManifest_simps ErrManifestNotFound_def clear_segment field_errors)
qed

lemma clear_manifest: "clear (TurnManifest_Validate refExt m)"
proof -
  have gate: "clear (RollGateExpectation_Validate g)" for g
  proof -
    have "clear (errOf (AdviseRollGate (rg_Mapping g) (rg_Plausibility g) (rg_Risk g)))"
      by (simp add: AdviseRollGate_def noManifest_simps split: option.splits)
    then show ?thesis
      by (auto simp: RollGateExpectation_Validate_def noManifest_simps ErrManifestNotFound_def split: sum.splits)
  qed
  have name: "clear (requireNonEmpty ''action_ref'' r)" for r
    by (simp add: requireNonEmpty_def noManifest_simps ErrManifestNotFound_def)
  show ?thesis
    unfolding TurnManifest_Validate_def
    by (rule clear_firstErr)
      (simp add: clear_segment clear_ids gate name noManifest_simps ErrManifestNotFound_def
        ParseTurnPhase_def ParseFailureReason_def clear_parse clear_firstErr split: option.splits)
qed

section \<open>The writer keeps the laws\<close>

lemma refWriter_ledger: "campaign_ledger refExt (refWriter c) memEnts memLog"
proof unfold_locales
  fix i w q w' assume q: "lw_GetEntity (refWriter c) i w = (q, w')"
  then show "memEnts w' = memEnts w \<and> memLog w' = memLog w"
    using refTurns.get_frame memGet_log by (auto simp: refWriter_def)
next
  fix i w st w' assume "lw_GetEntity (refWriter c) i w = (Inr st, w')"
  then show "memEnts w i = Some st" using refTurns.get_ok by (simp add: refWriter_def)
next
  fix s w b w' assume "lw_LastMsg (refWriter c) s w = (Inr b, w')"
  then show "memLog w s \<noteq> [] \<and> last (memLog w s) = b"
    using memLast_facts(2) [of s w _ w' b] by (simp add: refWriter_def)
next
  fix s w err w' assume l: "lw_LastMsg (refWriter c) s w = (Inl err, w')"
  note e = memLast_facts(3) [OF l [unfolded refWriter_def, simplified], of err]
  show "\<not> noManifest err" using e by (auto simp: noManifest_simps ErrMsgNotFound_def)
  show "memLog w s = []" if "errors_Is err ErrMsgNotFound"
    using e that by (auto simp: errors_Is_def ErrMsgNotFound_def)
next
  fix s w d w' assume "lw_LastMsg (refWriter c) s w = (d, w')"
  then show "memEnts w' = memEnts w \<and> memLog w' = memLog w"
    using memLast_facts(1) by (simp add: refWriter_def)
next
  fix s b i w w' assume "lw_Publish (refWriter c) s b i w = (Inr (), w')"
  then show "memLog w' = (memLog w)(s := memLog w s @ [b]) \<or> (memLog w' = memLog w \<and> memLog w s \<noteq> [])"
    using memPut_log(1) by (simp add: refWriter_def)
next
  fix s b i w err w' assume "lw_Publish (refWriter c) s b i w = (Inl err, w')"
  then show "memLog w' = memLog w \<or> memLog w' = (memLog w)(s := memLog w s @ [b])"
    using memPut_log(2) by (simp add: refWriter_def)
next
  fix s b i w u w' assume "lw_Publish (refWriter c) s b i w = (u, w')"
  then show "memEnts w' = memEnts w" using memPut_cases(1) by (simp add: refWriter_def)
next
  fix b err assume "lw_decode (refWriter c) b = Inl err"
  then show "\<not> noManifest err"
    by (auto simp: refWriter_def decManifest_def noManifest_simps split: option.splits list.splits)
next
  fix m err assume "TurnManifest_Validate refExt m = Some err"
  then show "\<not> noManifest err" using clear_manifest [of m] by simp
qed (auto simp: refWriter_def dest: refManifest_decodes refManifest_inject)

interpretation refLedger: campaign_ledger refExt "refWriter c" memEnts memLog for c
  by (rule refWriter_ledger)

section \<open>A failed turn\<close>

definition exFailed :: "fault option list \<Rightarrow> memWorld" where
  "exFailed fs =
     (exWorld fs)\<lparr>mg_ents :=
        [exEntity exTurn [(TurnPhaseCurrent, AString PhaseFailed), (TurnFailureReason, AString FailureTurnStranded),
           (TurnActionPlayer, AString exPlayer), (TurnActionScene, AString exScene), (TurnActionRef, AString exRef)]]\<rparr>"

abbreviation exWriter :: "memWorld Writer" where "exWriter \<equiv> refWriter (exID ''k'' ''c'')"

text \<open>The publication loses its acknowledgement; the second attempt finds the record.\<close>

lemma exRun_append:
  "isl (fst (Append refExt exWriter exTurn (exFailed [None, None, Some AckLost])))"
  "map_sum id lo_Appended (fst (Append refExt exWriter exTurn (exFailed []))) = Inr True"
  "map_sum id lo_Appended (fst (Append refExt exWriter exTurn (snd (Append refExt exWriter exTurn (exFailed []))))) = Inr False"
  "map_sum id lo_Appended (fst (Append refExt exWriter exTurn
     (snd (Append refExt exWriter exTurn (exFailed [None, None, Some AckLost]))))) = Inr False"
  by code_simp+

lemma exRun_reconcile:
  "fst (Writer_Reconcile refExt exWriter (exFailed [])) =
     (\<lparr>rn_Scanned = 1, rn_Archived = 1, rn_AlreadyArchived = 0, rn_InFlight = 0, rn_Failures = []\<rparr>, None)"
  by code_simp

section \<open>A turn to replay\<close>

text \<open>An encoding of rolls: nested lists of fields.\<close>

definition encList :: "string list \<Rightarrow> string" where
  "encList xs = concat (map encField xs)"

lemma encList_inject [simp]: "encList xs = encList ys \<longleftrightarrow> xs = ys"
proof
  show "encList xs = encList ys \<Longrightarrow> xs = ys"
  proof (induction xs arbitrary: ys)
    case Nil
    then show ?case by (cases ys) (auto simp: encList_def encField_def)
  next
    case (Cons x xs)
    then obtain y ys' where ys: "ys = y # ys'" by (cases ys) (auto simp: encList_def encField_def)
    have "decField (encField x @ encList xs) = decField (encField y @ encList ys')"
      using Cons.prems ys by (simp add: encList_def)
    then have "x = y" "encList xs = encList ys'" by simp_all
    with Cons.IH ys show ?case by blast
  qed
qed simp

lemma encInt_inject [simp]: "encInt a = encInt b \<longleftrightarrow> a = b"
  by (metis decInt_enc)

definition encModifier :: "Modifier \<Rightarrow> string" where
  "encModifier m = encList [mo_Source m, encInt (mo_Value m), mo_Note m]"

definition encRoll :: "RollResult \<Rightarrow> gerror + string" where
  "encRoll r = Inr (encList
     [rr_TurnID r, rr_Mechanic r, rr_RNGVersion r, ss_CampaignID (rr_Seed r), ss_TurnID (rr_Seed r),
      encList (map encInt (rr_Dice r)), encList (map encModifier (rr_Modifiers r)),
      encInt (rr_ModifierTotal r), encInt (rr_Total r), rr_Band r])"

lemma inj_encodings: "inj encInt" "inj encModifier"
  by (auto simp: inj_def encModifier_def)

lemma encRoll_faithful: "faithful encRoll"
  using inj_encodings by (auto simp: faithful_def encRoll_def inj_map_eq_map)

definition exResolved :: TurnManifest where
  "exResolved =
     \<lparr>tm_TurnID = ''turn-a'', tm_ActionID = ''a'', tm_CampaignID = exID ''k'' ''c'', tm_SceneID = exScene,
      tm_PlayerID = exPlayer, tm_Phase = PhaseComplete, tm_ActionRef = exRef, tm_VerdictRef = ''obj://e/turn/turn-a/verdict'',
      tm_RollRef = ''obj://e/turn/turn-a/roll'', tm_EffectBatchRef = ''obj://e/turn/turn-a/effects'',
      tm_NarrationRef = ''obj://e/turn/turn-a/narration'', tm_FailureReason = [], tm_RollGate = None,
      tm_RecordedAt = 9, tm_WorldTime = 0\<rparr>"

definition exReader :: "RollResult \<Rightarrow> memWorld Reader" where
  "exReader r =
     \<lparr>lr_opened = (\<lambda>_. True), lr_keepOpen = id, lr_EnsureStream = ret (), lr_LastMsg = memLast,
      lr_decode = decManifest, lr_GetVerdict = (\<lambda>_. ret exVerdict), lr_GetRoll = (\<lambda>_. ret r),
      lr_GetNarration = (\<lambda>_. ret \<lparr>na_TurnID = ''turn-a'', na_Band = rr_Band r, na_Prose = ''p''\<rparr>),
      lr_CampaignID = exID ''k'' ''c'', lr_LoadSeed = ret exSeed, lr_marshalRoll = encRoll\<rparr>"

lemma exResolved_ref:
  "ParseRef refExt (tm_RollRef exResolved) = Inr \<lparr>rf_Instance = ''e'', rf_Key = ''turn/turn-a/roll''\<rparr>"
  by code_simp

end
