(* ===== verification/Payload_Submit.thy ===== *)
theory Payload_Submit
  imports Payload_Results
begin

text \<open>
  What a player sends and what the engine answers: the submission (\<^verbatim>\<open>submitaction.go\<close>) with its
  strict reading of the request's fields, the field errors of \<^verbatim>\<open>protocol.go\<close>, and the response
  with its closed refusal codes (\<^verbatim>\<open>submitresponse.go\<close>). Decoding JSON is the standard library's:
  the names of an object's fields and the decoded record are arguments. The lemmas show that a request
  naming any field of the server is refused and that a valid response tells its two endings apart.
\<close>

section \<open>Valid UTF-8\<close>

text \<open>\<^verbatim>\<open>utf8.ValidString\<close>: no surrogates, no overlong form, nothing past the last code point.\<close>

definition between :: "nat \<Rightarrow> nat \<Rightarrow> char \<Rightarrow> bool" where
  "between a b c = (a \<le> of_char c \<and> of_char c \<le> b)"

abbreviation continuation :: "char \<Rightarrow> bool" where "continuation \<equiv> between 0x80 0xBF"

definition twoBytes :: "char \<Rightarrow> char \<Rightarrow> bool" where
  "twoBytes a b = (between 0xC2 0xDF a \<and> continuation b)"

definition threeBytes :: "char \<Rightarrow> char \<Rightarrow> char \<Rightarrow> bool" where
  "threeBytes a b c =
     (continuation c \<and>
       (between 0xE0 0xE0 a \<and> between 0xA0 0xBF b \<or> between 0xE1 0xEC a \<and> continuation b
        \<or> between 0xED 0xED a \<and> between 0x80 0x9F b \<or> between 0xEE 0xEF a \<and> continuation b))"

definition fourBytes :: "char \<Rightarrow> char \<Rightarrow> char \<Rightarrow> char \<Rightarrow> bool" where
  "fourBytes a b c d =
     (continuation c \<and> continuation d \<and>
       (between 0xF0 0xF0 a \<and> between 0x90 0xBF b \<or> between 0xF1 0xF3 a \<and> continuation b
        \<or> between 0xF4 0xF4 a \<and> between 0x80 0x8F b))"

fun utf8Valid :: "string \<Rightarrow> bool" where
  "utf8Valid [] = True"
| "utf8Valid (a # s) =
     (if of_char a < (0x80 :: nat) then utf8Valid s
      else case s of
          b # c # d # r \<Rightarrow>
            twoBytes a b \<and> utf8Valid (c # d # r) \<or> threeBytes a b c \<and> utf8Valid (d # r)
            \<or> fourBytes a b c d \<and> utf8Valid r
        | [b, c] \<Rightarrow> twoBytes a b \<and> utf8Valid [c] \<or> threeBytes a b c
        | [b] \<Rightarrow> twoBytes a b
        | [] \<Rightarrow> False)"

section \<open>The submission\<close>

definition ErrServerOwnedField :: gerror where "ErrServerOwnedField = Errorf ''server-owned field''"

definition ErrUnknownField :: gerror where "ErrUnknownField = Errorf ''unknown field''"

definition fieldErrorf :: "string \<Rightarrow> gerror option \<Rightarrow> string \<Rightarrow> gerror" where
  "fieldErrorf name sentinel detail = FieldError name sentinel detail"

definition MaxIdempotencyKeyBytes :: nat where "MaxIdempotencyKeyBytes = 128"

definition CategorySubmitAction :: string where "CategorySubmitAction = ''submit_action''"

record SubmitAction =
  su_Protocol :: PlayerProtocolVersion
  su_Text :: string
  su_IdempotencyKey :: string

definition clientSuppliedActionField :: string where "clientSuppliedActionField = ''text''"

text \<open>What reflection over the JSON tags of the two records collects.\<close>

definition clientOwnedSubmitFields :: "string list" where
  "clientOwnedSubmitFields = [''protocol'', ''text'', ''idempotency_key'']"

definition playerActionFields :: "string list" where
  "playerActionFields =
     [''action_id'', ''player_id'', ''campaign_id'', ''scene_id'', ''text'', ''arrived_at'',
      ''channel'', ''adapter'', ''reply_to'']"

definition serverOwnedFields :: "string list" where
  "serverOwnedFields = removeAll clientSuppliedActionField playerActionFields"

definition serverOwnedActionFields :: "string list" where
  "serverOwnedActionFields = serverOwnedFields"

definition SubmitAction_Schema :: MessageType where
  "SubmitAction_Schema = payloadSchema CategorySubmitAction"

text \<open>
  A byte below \<open>0x20\<close> or \<open>0x7F\<close> of a valid text is a rune of its own.
\<close>

definition controlByte :: "char \<Rightarrow> bool" where
  "controlByte c = (of_char c < (0x20 :: nat) \<or> of_char c = (0x7F :: nat))"

definition validateIdempotencyKey :: "string \<Rightarrow> gerror option" where
  "validateIdempotencyKey key =
     firstErr [
       failIf (requireNonEmpty ''idempotency_key'' key \<noteq> None)
         (FieldError ''idempotency_key'' None ''idempotency_key is required''),
       failIf (MaxIdempotencyKeyBytes < length key)
         (fieldErrorf ''idempotency_key'' None ''idempotency_key exceeds the key budget''),
       failIf (\<not> utf8Valid key) (fieldErrorf ''idempotency_key'' None ''idempotency_key is not valid UTF-8''),
       failIf (list_ex controlByte key)
         (fieldErrorf ''idempotency_key'' None ''idempotency_key contains a control character'')]"

definition RequireIdempotencyKey :: "string \<Rightarrow> gerror option" where
  "RequireIdempotencyKey key = validateIdempotencyKey key"

definition SubmitAction_Validate :: "SubmitAction \<Rightarrow> gerror option" where
  "SubmitAction_Validate s =
     firstErr [
       errOf (ParsePlayerProtocolVersion (su_Protocol s)),
       failIf (requireNonEmpty ''text'' (su_Text s) \<noteq> None) (FieldError ''text'' None ''text is required''),
       failIf (TrimSpace (su_Text s) = [])
         (fieldErrorf ''text'' None ''text is whitespace and declares no action''),
       failIf (MaxActionTextBytes < length (su_Text s))
         (fieldErrorf ''text'' None ''text exceeds the action-text budget''),
       validateIdempotencyKey (su_IdempotencyKey s)]"

text \<open>
  \<^verbatim>\<open>UnmarshalJSON\<close>. Of the document, the library gives the names of its fields (\<open>None\<close> for
  \<^verbatim>\<open>null\<close>) and the decoded record.
\<close>

definition SubmitAction_UnmarshalJSON ::
    "(string \<Rightarrow> gerror + string list option) \<Rightarrow> (string \<Rightarrow> gerror + SubmitAction) \<Rightarrow> string
     \<Rightarrow> gerror + SubmitAction" where
  "SubmitAction_UnmarshalJSON fieldsOf alias data =
     (case fieldsOf data of
        Inl err \<Rightarrow> Inl (Wrapf ''a submission must be a JSON object'' err)
      | Inr None \<Rightarrow> Inl (Errorf ''a submission must be a JSON object, got null'')
      | Inr (Some keys) \<Rightarrow>
        (let names = sort (remdups keys) in
         case List.find (List.member serverOwnedActionFields) names of
           Some name \<Rightarrow>
             Inl (fieldErrorf name (Some ErrServerOwnedField) ''the field is set by the gateway, not by the client'')
         | None \<Rightarrow>
           (case List.find (\<lambda>n. \<not> List.member clientOwnedSubmitFields n) names of
              Some name \<Rightarrow> Inl (fieldErrorf name (Some ErrUnknownField) ''the field is not of player/v1'')
            | None \<Rightarrow> alias data)))"

section \<open>The response\<close>

type_synonym SubmitStatus = string
type_synonym SubmitRefusalCode = string

definition StatusAccepted :: SubmitStatus where "StatusAccepted = ''accepted''"
definition StatusRefused :: SubmitStatus where "StatusRefused = ''refused''"

named_theorems refusal_strings \<open>literal refusal codes\<close>

definition RefusalUnauthenticated :: SubmitRefusalCode where
  [refusal_strings]: "RefusalUnauthenticated = ''unauthenticated''"
definition RefusalUnsupportedProtocol :: SubmitRefusalCode where
  [refusal_strings]: "RefusalUnsupportedProtocol = ''unsupported_protocol''"
definition RefusalServerOwnedField :: SubmitRefusalCode where
  [refusal_strings]: "RefusalServerOwnedField = ''server_owned_field''"
definition RefusalUnknownField :: SubmitRefusalCode where
  [refusal_strings]: "RefusalUnknownField = ''unknown_field''"
definition RefusalMalformedRequest :: SubmitRefusalCode where
  [refusal_strings]: "RefusalMalformedRequest = ''malformed_request''"
definition RefusalInvalidField :: SubmitRefusalCode where
  [refusal_strings]: "RefusalInvalidField = ''invalid_field''"
definition RefusalTurnInProgress :: SubmitRefusalCode where
  [refusal_strings]: "RefusalTurnInProgress = ''turn_in_progress''"
definition RefusalUnavailable :: SubmitRefusalCode where
  [refusal_strings]: "RefusalUnavailable = ''unavailable''"

definition submitRefusalCodes :: "SubmitRefusalCode list" where
  "submitRefusalCodes =
     [RefusalUnauthenticated, RefusalUnsupportedProtocol, RefusalServerOwnedField, RefusalUnknownField,
      RefusalMalformedRequest, RefusalInvalidField, RefusalTurnInProgress, RefusalUnavailable]"

definition SubmitRefusalCodes :: "SubmitRefusalCode list" where
  "SubmitRefusalCodes = submitRefusalCodes"

definition SubmitRefusalCode_Valid :: "SubmitRefusalCode \<Rightarrow> bool" where
  "SubmitRefusalCode_Valid c = List.member submitRefusalCodes c"

record SubmitRefusal =
  sf_Code :: SubmitRefusalCode
  sf_Message :: string
  sf_Field :: string
  sf_ActiveTurnID :: string

definition SubmitRefusal_Validate :: "ext \<Rightarrow> SubmitRefusal \<Rightarrow> gerror option" where
  "SubmitRefusal_Validate X r =
     firstErr [
       failIf (\<not> SubmitRefusalCode_Valid (sf_Code r)) (Errorf ''submission refusal code is not registered''),
       failIf (sf_Message r = []) (Errorf ''a submission refusal needs a message''),
       (if sf_Code r = RefusalTurnInProgress
        then wrapErr ''a refusal must name the turn the player is waiting on''
          (requireIDSegment X ''active_turn_id'' (sf_ActiveTurnID r))
        else failIf (sf_ActiveTurnID r \<noteq> []) (Errorf ''refusal names an active turn''))]"

record SubmitResponse =
  sp_Protocol :: PlayerProtocolVersion
  sp_Status :: SubmitStatus
  sp_IdempotencyKey :: string
  sp_ActionID :: string
  sp_TurnID :: string
  sp_ArrivedAt :: time
  sp_Refusal :: "SubmitRefusal option"

definition acceptedResponse :: "ext \<Rightarrow> SubmitResponse \<Rightarrow> gerror option" where
  "acceptedResponse X r =
     firstErr [
       failIf (sp_Refusal r \<noteq> None) (Errorf ''an accepted submission carries a refusal''),
       requireActionID X ''action_id'' (sp_ActionID r),
       requireIDSegment X ''turn_id'' (sp_TurnID r),
       failIf (sp_TurnID r \<noteq> TurnIDForAction (sp_ActionID r))
         (Errorf ''accepted action reports another turn than the one derived from it''),
       failIf (time_IsZero (sp_ArrivedAt r)) (Errorf ''an accepted submission must report the arrival time''),
       validateIdempotencyKey (sp_IdempotencyKey r)]"

definition refusedResponse :: "ext \<Rightarrow> SubmitResponse \<Rightarrow> gerror option" where
  "refusedResponse X r =
     (case sp_Refusal r of
        None \<Rightarrow> Some (Errorf ''a refused submission carries no refusal'')
      | Some refusal \<Rightarrow>
          firstErr [
            failIf (sp_ActionID r \<noteq> [] \<or> sp_TurnID r \<noteq> []) (Errorf ''a refused submission reports an identity''),
            failIf (\<not> time_IsZero (sp_ArrivedAt r)) (Errorf ''a refused submission reports an arrival time''),
            SubmitRefusal_Validate X refusal])"

definition SubmitResponse_Validate :: "ext \<Rightarrow> SubmitResponse \<Rightarrow> gerror option" where
  "SubmitResponse_Validate X r =
     (case errOf (ParsePlayerProtocolVersion (sp_Protocol r)) of
        Some err \<Rightarrow> Some err
      | None \<Rightarrow>
          if sp_Status r = StatusAccepted then acceptedResponse X r
          else if sp_Status r = StatusRefused then refusedResponse X r
          else Some (Errorf ''submission status is neither accepted nor refused''))"

section \<open>Facts\<close>

text \<open>A submission that decodes names only the fields of the client, none of the server's.\<close>

lemma SubmitAction_UnmarshalJSON_Inr:
  assumes "SubmitAction_UnmarshalJSON fieldsOf alias data = Inr s"
  obtains keys where "fieldsOf data = Inr (Some keys)" "alias data = Inr s"
    "set keys \<subseteq> set clientOwnedSubmitFields" "set keys \<inter> set serverOwnedActionFields = {}"
  using assms
  by (auto simp: SubmitAction_UnmarshalJSON_def Let_def find_None_iff List.member_iff
      split: sum.splits option.splits)

text \<open>The key of a valid submission is short and printable, the text is not empty.\<close>

lemma SubmitAction_Validate_None:
  assumes "SubmitAction_Validate s = None"
  shows "su_Protocol s = PlayerProtocolV1" "su_Text s \<noteq> []" "TrimSpace (su_Text s) \<noteq> []"
    "length (su_Text s) \<le> MaxActionTextBytes" "validateIdempotencyKey (su_IdempotencyKey s) = None"
  using assms
  by (auto simp: SubmitAction_Validate_def ParsePlayerProtocolVersion_def playerProtocolVersions_def
      requireNonEmpty_def errOf_def List.member_iff failIf_def split: if_splits)

lemma validateIdempotencyKey_None:
  assumes "validateIdempotencyKey key = None"
  shows "key \<noteq> []" "length key \<le> 128"
  using assms by (auto simp: validateIdempotencyKey_def requireNonEmpty_def failIf_def MaxIdempotencyKeyBytes_def split: if_splits)

text \<open>A valid response accepts with an identity or refuses without one.\<close>

lemma SubmitResponse_Validate_None:
  assumes "SubmitResponse_Validate X r = None"
  obtains (accepted) "sp_Status r = StatusAccepted" "sp_Refusal r = None"
      "requireActionID X ''action_id'' (sp_ActionID r) = None"
      "sp_TurnID r = TurnIDForAction (sp_ActionID r)" "sp_ArrivedAt r \<noteq> 0"
  | (refused) refusal where "sp_Status r = StatusRefused" "sp_Refusal r = Some refusal" "sp_ActionID r = []"
      "sp_TurnID r = []" "sp_ArrivedAt r = 0" "SubmitRefusal_Validate X refusal = None"
proof (cases "sp_Status r = StatusAccepted")
  case True
  with assms have "acceptedResponse X r = None"
    by (auto simp: SubmitResponse_Validate_def split: option.splits)
  with True show ?thesis
    by (intro accepted) (auto simp: acceptedResponse_def time_IsZero_def)
next
  case False
  with assms have "sp_Status r = StatusRefused" "refusedResponse X r = None"
    by (auto simp: SubmitResponse_Validate_def split: option.splits if_splits)
  then show ?thesis
    by (auto simp: refusedResponse_def time_IsZero_def split: option.splits intro: refused)
qed

end
