(* ===== verification/Gateway_Session.thy ===== *)
theory Gateway_Session
  imports Payload_Submit
begin

text \<open>
  Who may submit, and from where: \<^verbatim>\<open>internal/gateway/session.go\<close>, the roster of credentials and
  the table of live sessions, and \<^verbatim>\<open>actionid.go\<close>, the action identity derived from a player and
  an idempotency key. The table keeps a session per connection and an index of connections per player;
  the lemmas show that the two always agree, that no player exceeds the cap, and that two submissions
  share an identity only if they are the same submission or SHA-256 collides.
\<close>

section \<open>Base 32\<close>

text \<open>\<^verbatim>\<open>base32.StdEncoding\<close> without padding: five bits to a digit, the last group filled with zeros.\<close>

definition byteBits :: "char \<Rightarrow> bool list" where
  "byteBits c = [digit7 c, digit6 c, digit5 c, digit4 c, digit3 c, digit2 c, digit1 c, digit0 c]"

definition base32Alphabet :: string where
  "base32Alphabet = ''ABCDEFGHIJKLMNOPQRSTUVWXYZ234567''"

definition base32Digit :: "bool \<Rightarrow> bool \<Rightarrow> bool \<Rightarrow> bool \<Rightarrow> bool \<Rightarrow> char" where
  "base32Digit a b c d e =
     base32Alphabet ! (16 * of_bool a + 8 * of_bool b + 4 * of_bool c + 2 * of_bool d + of_bool e)"

fun base32Bits :: "bool list \<Rightarrow> string" where
  "base32Bits [] = []"
| "base32Bits [a] = [base32Digit a False False False False]"
| "base32Bits [a, b] = [base32Digit a b False False False]"
| "base32Bits [a, b, c] = [base32Digit a b c False False]"
| "base32Bits [a, b, c, d] = [base32Digit a b c d False]"
| "base32Bits (a # b # c # d # e # r) = base32Digit a b c d e # base32Bits r"

definition base32Encode :: "string \<Rightarrow> string" where
  "base32Encode s = base32Bits (concat (map byteBits s))"

section \<open>The action identity\<close>

definition actionIDDomain :: string where "actionIDDomain = ''semmachina/action-id/v1'' @ [CHR 0x00]"

definition writeFramed :: "string \<Rightarrow> string \<Rightarrow> string" where
  "writeFramed digest v = digest @ bytes32 (of_nat (length v)) @ v"

definition actionIDPreimage :: "string \<Rightarrow> string \<Rightarrow> string" where
  "actionIDPreimage playerID key = writeFramed (writeFramed actionIDDomain playerID) key"

definition ActionIDFor :: "ext \<Rightarrow> string \<Rightarrow> string \<Rightarrow> gerror + string" where
  "ActionIDFor X playerID idempotencyKey =
     (case ValidateEntityID X playerID of
        Some err \<Rightarrow> Inl (Wrapf ''deriving an action id requires the player's canonical entity id'' err)
      | None \<Rightarrow>
        (case RequireIdempotencyKey idempotencyKey of
           Some err \<Rightarrow> Inl (Wrapf ''deriving an action id'' err)
         | None \<Rightarrow>
           (let actionID = base32Encode (sha256 (actionIDPreimage playerID idempotencyKey)) in
            case RequireActionID X actionID of
              Some err \<Rightarrow> Inl (Wrapf ''the derived action id is not usable as a turn identity'' err)
            | None \<Rightarrow> Inr actionID)))"

section \<open>Connections and sessions\<close>

definition ErrUnauthenticated :: gerror where "ErrUnauthenticated = Errorf ''unauthenticated''"

definition ErrTooManyConnections :: gerror where
  "ErrTooManyConnections = Errorf ''too many connections for this player''"

text \<open>The writer of a connection is the channel's own; the gateway never calls it.\<close>

record Connection =
  cx_ID :: string
  cx_Adapter :: ChannelAdapter
  cx_ReplyTo :: string
  cx_Writer :: string

definition Connection_Validate :: "Connection \<Rightarrow> gerror option" where
  "Connection_Validate c =
     firstErr [
       failIf (cx_ID c = []) (Errorf ''a connection needs an id to bind a session to''),
       errOf (ParseChannelAdapter (cx_Adapter c)),
       failIf (cx_ReplyTo c = []) (Errorf ''a connection needs a reply-to address'')]"

record Session =
  se_PlayerID :: string
  se_Connection :: Connection

subsection \<open>The roster\<close>

record rosterEntry =
  re_credential :: string
  re_playerID :: string

fun rosterEntries :: "ext \<Rightarrow> (string \<Rightarrow> string option) \<Rightarrow> string list \<Rightarrow> gerror + rosterEntry list" where
  "rosterEntries X m [] = Inr []"
| "rosterEntries X m (credential # cs) =
     (let playerID = (case m credential of None \<Rightarrow> [] | Some p \<Rightarrow> p) in
      if credential = [] then Inl (Errorf ''a roster entry with an empty credential'')
      else (case ValidateEntityID X playerID of
          Some err \<Rightarrow> Inl (Wrapf ''roster entry names a player that is not a canonical entity id'' err)
        | None \<Rightarrow>
            map_sum id (Cons \<lparr>re_credential = credential, re_playerID = playerID\<rparr>) (rosterEntries X m cs)))"

text \<open>The argument is the Go map, as the list of its entries in any order.\<close>

definition NewRoster :: "ext \<Rightarrow> (string \<times> string) list \<Rightarrow> gerror + rosterEntry list" where
  "NewRoster X entries =
     (if entries = [] then Inl (Errorf ''a roster with no entries authenticates nobody'')
      else rosterEntries X (map_of entries) (sort (remdups (map fst entries))))"

definition Roster_Authenticate :: "rosterEntry list \<Rightarrow> string \<Rightarrow> gerror + string" where
  "Roster_Authenticate roster credential =
     (let playerID = foldl (\<lambda>found e. if re_credential e = credential then re_playerID e else found) [] roster in
      if playerID = [] then Inl (Wrapf ''the credential names no player of this world'' ErrUnauthenticated)
      else Inr playerID)"

subsection \<open>The table\<close>

text \<open>The set of a player's connections is a list without repetitions; an absent entry is empty.\<close>

record sessions =
  ss_byConnID :: "string \<Rightarrow> Session option"
  ss_byPlayerID :: "string \<Rightarrow> string list option"
  ss_maxPerPlayer :: int

definition newSessions :: "int \<Rightarrow> sessions" where
  "newSessions maxPerPlayer =
     \<lparr>ss_byConnID = Map.empty, ss_byPlayerID = Map.empty, ss_maxPerPlayer = maxPerPlayer\<rparr>"

definition connectionsOf :: "sessions \<Rightarrow> string \<Rightarrow> string list" where
  "connectionsOf s playerID = (case ss_byPlayerID s playerID of None \<Rightarrow> [] | Some cs \<Rightarrow> cs)"

definition sessions_unbind :: "sessions \<Rightarrow> string \<Rightarrow> sessions" where
  "sessions_unbind s connID =
     (case ss_byConnID s connID of
        None \<Rightarrow> s
      | Some previous \<Rightarrow>
          (let connections = removeAll connID (connectionsOf s (se_PlayerID previous)) in
           s\<lparr>ss_byPlayerID := (ss_byPlayerID s)
               (se_PlayerID previous := if connections = [] then None else Some connections)\<rparr>))"

definition sessions_put :: "sessions \<Rightarrow> Session \<Rightarrow> (gerror + unit) \<times> sessions" where
  "sessions_put s0 session =
     (let connID = cx_ID (se_Connection session);
          s = sessions_unbind s0 connID;
          connections = connectionsOf s (se_PlayerID session) in
      if int (length connections) \<ge> ss_maxPerPlayer s
      then (Inl (Wrapf ''player already holds connections'' ErrTooManyConnections),
            s\<lparr>ss_byConnID := (ss_byConnID s)(connID := None)\<rparr>)
      else (Inr (),
            s\<lparr>ss_byConnID := (ss_byConnID s)(connID \<mapsto> session),
              ss_byPlayerID := (ss_byPlayerID s)(se_PlayerID session \<mapsto> List.insert connID connections)\<rparr>))"

definition sessions_get :: "sessions \<Rightarrow> string \<Rightarrow> Session option" where
  "sessions_get s connID = ss_byConnID s connID"

definition sessions_remove :: "sessions \<Rightarrow> string \<Rightarrow> sessions" where
  "sessions_remove s0 connID =
     (let s = sessions_unbind s0 connID in s\<lparr>ss_byConnID := (ss_byConnID s)(connID := None)\<rparr>)"

definition forPlayer :: "sessions \<Rightarrow> string \<Rightarrow> Session list" where
  "forPlayer s playerID =
     sort_key (\<lambda>session. cx_ID (se_Connection session))
       (List.map_filter (ss_byConnID s) (connectionsOf s playerID))"

section \<open>The two tables agree\<close>

text \<open>
  The index of a player is the list of the connections whose session is theirs, it is never an empty
  entry, and a session is filed under its own connection.
\<close>

definition sessions_wf :: "sessions \<Rightarrow> bool" where
  "sessions_wf s \<longleftrightarrow>
     (\<forall>c t. ss_byConnID s c = Some t \<longrightarrow> cx_ID (se_Connection t) = c)
     \<and> (\<forall>p c. c \<in> set (connectionsOf s p) \<longleftrightarrow> (\<exists>t. ss_byConnID s c = Some t \<and> se_PlayerID t = p))
     \<and> (\<forall>p. distinct (connectionsOf s p) \<and> ss_byPlayerID s p \<noteq> Some []
          \<and> int (length (connectionsOf s p)) \<le> ss_maxPerPlayer s)"

text \<open>A session that is bound, rebound or removed: the operations of the table, with the cap fixed.\<close>

inductive sessions_step :: "sessions \<Rightarrow> sessions \<Rightarrow> bool" where
  put: "sessions_put s t = (r, s') \<Longrightarrow> sessions_step s s'"
| remove: "sessions_remove s c = s' \<Longrightarrow> sessions_step s s'"

lemma sessions_unbind_facts:
  assumes "sessions_wf s"
  shows "ss_byConnID (sessions_unbind s c) = ss_byConnID s"
    and "ss_maxPerPlayer (sessions_unbind s c) = ss_maxPerPlayer s"
    and "connectionsOf (sessions_unbind s c) p = removeAll c (connectionsOf s p)"
    and "ss_byPlayerID (sessions_unbind s c) p \<noteq> Some []"
proof -
  show "ss_byConnID (sessions_unbind s c) = ss_byConnID s"
    "ss_maxPerPlayer (sessions_unbind s c) = ss_maxPerPlayer s"
    by (auto simp: sessions_unbind_def Let_def split: option.splits)
  have other: "removeAll c (connectionsOf s p) = connectionsOf s p"
    if "\<And>t. ss_byConnID s c = Some t \<Longrightarrow> se_PlayerID t \<noteq> p"
    using assms that by (intro removeAll_id) (auto simp: sessions_wf_def)
  then show "connectionsOf (sessions_unbind s c) p = removeAll c (connectionsOf s p)"
    by (cases "ss_byConnID s c") (auto simp: sessions_unbind_def Let_def connectionsOf_def)
  show "ss_byPlayerID (sessions_unbind s c) p \<noteq> Some []"
    using assms by (auto simp: sessions_unbind_def Let_def sessions_wf_def split: option.splits)
qed

lemma sessions_wf_shorter:
  assumes "sessions_wf s"
  shows "int (length (removeAll c (connectionsOf s p))) \<le> ss_maxPerPlayer s"
proof -
  have "int (length (removeAll c (connectionsOf s p))) \<le> int (length (connectionsOf s p))"
    by (simp add: length_removeAll_less_eq)
  also have "\<dots> \<le> ss_maxPerPlayer s" using assms by (simp add: sessions_wf_def)
  finally show ?thesis .
qed

lemma sessions_remove_wf:
  assumes "sessions_wf s"
  shows "sessions_wf (sessions_remove s c)"
proof -
  note u = sessions_unbind_facts [OF assms]
  have conns: "connectionsOf (sessions_remove s c) p = removeAll c (connectionsOf s p)" for p
    using u(3) by (simp add: sessions_remove_def Let_def connectionsOf_def)
  have entries: "ss_byPlayerID (sessions_remove s c) p \<noteq> Some []" for p
    using u(4) by (simp add: sessions_remove_def Let_def)
  have tab: "ss_byConnID (sessions_remove s c) = (ss_byConnID s)(c := None)"
    "ss_maxPerPlayer (sessions_remove s c) = ss_maxPerPlayer s"
    using u(1,2) by (simp_all add: sessions_remove_def Let_def)
  have len: "int (length (removeAll c (connectionsOf s p))) \<le> ss_maxPerPlayer s" for p
    by (rule sessions_wf_shorter [OF assms])
  show ?thesis
    unfolding sessions_wf_def conns tab
    using assms entries len
    by (auto simp: sessions_wf_def distinct_removeAll)
qed

lemma sessions_put_wf:
  assumes "sessions_wf s" and "sessions_put s t = (r, s')"
  shows "sessions_wf s'"
proof -
  let ?c = "cx_ID (se_Connection t)" and ?p = "se_PlayerID t"
  note u = sessions_unbind_facts [OF assms(1)]
  show ?thesis
  proof (cases "int (length (connectionsOf (sessions_unbind s ?c) ?p)) \<ge> ss_maxPerPlayer s")
    case True
    with assms(2) u(2) have "s' = sessions_remove s ?c"
      by (auto simp: sessions_put_def sessions_remove_def Let_def)
    with sessions_remove_wf [OF assms(1)] show ?thesis by simp
  next
    case False
    let ?cs = "removeAll ?c (connectionsOf s ?p)"
    from False assms(2) u have s': "s' = (sessions_unbind s ?c)
        \<lparr>ss_byConnID := (ss_byConnID s)(?c \<mapsto> t),
         ss_byPlayerID := (ss_byPlayerID (sessions_unbind s ?c))(?p \<mapsto> List.insert ?c ?cs)\<rparr>"
      by (auto simp: sessions_put_def Let_def)
    have conns: "connectionsOf s' p = (if p = ?p then ?c # ?cs else removeAll ?c (connectionsOf s p))" for p
      using u(3) [of ?c p] by (simp add: s' connectionsOf_def)
    have tab: "ss_byConnID s' = (ss_byConnID s)(?c \<mapsto> t)" "ss_maxPerPlayer s' = ss_maxPerPlayer s"
      using u(2) by (simp_all add: s')
    have entries: "ss_byPlayerID s' p \<noteq> Some []" for p
      using u(4) [of ?c p] by (auto simp: s')
    have len: "int (length (removeAll ?c (connectionsOf s p))) \<le> ss_maxPerPlayer s" for p
      by (rule sessions_wf_shorter [OF assms(1)])
    have cap: "int (length ?cs) < ss_maxPerPlayer s" using False u(3) by simp
    show ?thesis
      unfolding sessions_wf_def conns tab
      using assms(1) entries cap len
      by (auto simp: sessions_wf_def distinct_removeAll)
  qed
qed

lemma newSessions_wf: "0 \<le> n \<Longrightarrow> sessions_wf (newSessions n)"
  by (simp add: sessions_wf_def newSessions_def connectionsOf_def)

lemma sessions_reachable_wf:
  assumes "sessions_step\<^sup>*\<^sup>* (newSessions n) s" and "0 \<le> n"
  shows "sessions_wf s" "ss_maxPerPlayer s = n"
  using assms(1)
proof (induction rule: rtranclp_induct)
  case base
  show "sessions_wf (newSessions n)" "ss_maxPerPlayer (newSessions n) = n"
    using assms(2) by (simp_all add: newSessions_wf, simp add: newSessions_def)
next
  case (step s s')
  from step.hyps(2) step.IH show "sessions_wf s'"
    by (cases rule: sessions_step.cases) (auto intro: sessions_put_wf sessions_remove_wf)
  from step.hyps(2) step.IH show "ss_maxPerPlayer s' = n"
    by (cases rule: sessions_step.cases)
      (auto simp: sessions_put_def sessions_remove_def Let_def sessions_unbind_facts split: if_splits)
qed

text \<open>What the directory answers is exactly the sessions bound to the player, by connection.\<close>

lemma map_filter_Some: "(\<And>x. x \<in> set xs \<Longrightarrow> f x \<noteq> None) \<Longrightarrow> List.map_filter f xs = map (the \<circ> f) xs"
  by (induction xs) (auto simp: List.map_filter_def)

lemma forPlayer_facts:
  assumes "sessions_wf s"
  shows "t \<in> set (forPlayer s p) \<longleftrightarrow> ss_byConnID s (cx_ID (se_Connection t)) = Some t \<and> se_PlayerID t = p"
    and "sorted (map (\<lambda>t. cx_ID (se_Connection t)) (forPlayer s p))" "distinct (forPlayer s p)"
    and "int (length (forPlayer s p)) \<le> ss_maxPerPlayer s"
proof -
  let ?get = "\<lambda>c. the (ss_byConnID s c)" and ?cs = "connectionsOf s p"
  have bound: "\<exists>t. ss_byConnID s c = Some t \<and> se_PlayerID t = p \<and> cx_ID (se_Connection t) = c"
    if "c \<in> set ?cs" for c
    using assms that by (auto simp: sessions_wf_def)
  have eq: "List.map_filter (ss_byConnID s) ?cs = map ?get ?cs"
    using bound by (subst map_filter_Some) (auto simp: comp_def)
  show "t \<in> set (forPlayer s p) \<longleftrightarrow> ss_byConnID s (cx_ID (se_Connection t)) = Some t \<and> se_PlayerID t = p"
  proof
    assume "t \<in> set (forPlayer s p)"
    then obtain c where "c \<in> set ?cs" "t = ?get c" by (auto simp: forPlayer_def eq)
    with bound show "ss_byConnID s (cx_ID (se_Connection t)) = Some t \<and> se_PlayerID t = p" by force
  next
    assume t: "ss_byConnID s (cx_ID (se_Connection t)) = Some t \<and> se_PlayerID t = p"
    with assms have "cx_ID (se_Connection t) \<in> set ?cs" by (auto simp: sessions_wf_def)
    then have "?get (cx_ID (se_Connection t)) \<in> set (forPlayer s p)" by (simp add: forPlayer_def eq)
    with t show "t \<in> set (forPlayer s p)" by simp
  qed
  show "sorted (map (\<lambda>t. cx_ID (se_Connection t)) (forPlayer s p))"
    by (simp add: forPlayer_def)
  have "inj_on ?get (set ?cs)"
    by (rule inj_onI) (metis bound option.sel)
  then show "distinct (forPlayer s p)"
    using assms by (simp add: forPlayer_def eq distinct_map sessions_wf_def)
  show "int (length (forPlayer s p)) \<le> ss_maxPerPlayer s"
    using assms by (simp add: forPlayer_def eq sessions_wf_def)
qed

section \<open>Identities\<close>

lemma byteBits_inject: "byteBits c = byteBits d \<longleftrightarrow> c = d"
  by (cases c; cases d) (auto simp: byteBits_def)

lemma concat_byteBits_inject:
  "concat (map byteBits s) = concat (map byteBits t) \<longleftrightarrow> s = t"
proof
  show "concat (map byteBits s) = concat (map byteBits t) \<Longrightarrow> s = t"
  proof (induction s arbitrary: t)
    case Nil
    then show ?case by (cases t) (auto simp: byteBits_def)
  next
    case (Cons c s)
    then obtain d t' where t: "t = d # t'" by (cases t) (auto simp: byteBits_def)
    have "length (byteBits c) = length (byteBits d)" by (simp add: byteBits_def)
    with Cons.prems have "byteBits c = byteBits d" "concat (map byteBits s) = concat (map byteBits t')"
      by (simp_all add: t)
    with Cons.IH show ?case by (simp add: t byteBits_inject)
  qed
qed simp

lemma base32Digit_inject:
  "base32Digit a b c d e = base32Digit a' b' c' d' e' \<longleftrightarrow>
     a = a' \<and> b = b' \<and> c = c' \<and> d = d' \<and> e = e'"
proof -
  define v where "v a b c d e = (16 * of_bool a + 8 * of_bool b + 4 * of_bool c + 2 * of_bool d + of_bool e :: nat)"
    for a b c d e
  have small: "v a b c d e < 32" for a b c d e by (simp add: v_def of_bool_def)
  have "distinct base32Alphabet" "length base32Alphabet = 32" by (simp_all add: base32Alphabet_def)
  then have "base32Digit a b c d e = base32Digit a' b' c' d' e' \<longleftrightarrow> v a b c d e = v a' b' c' d' e'"
    using small by (simp add: base32Digit_def v_def nth_eq_iff_index_eq)
  also have "\<dots> \<longleftrightarrow> a = a' \<and> b = b' \<and> c = c' \<and> d = d' \<and> e = e'"
    unfolding v_def by (cases a; cases a'; cases b; cases b'; cases c; cases c'; simp; presburger?)
  finally show ?thesis .
qed

lemma base32Bits_inject: "length xs = length ys \<Longrightarrow> base32Bits xs = base32Bits ys \<longleftrightarrow> xs = ys"
proof (induction xs arbitrary: ys rule: base32Bits.induct)
  case (6 a b c d e r)
  from "6.prems" have "length ys = Suc (Suc (Suc (Suc (Suc (length r)))))" by simp
  then obtain a' b' c' d' e' r' where "ys = a' # b' # c' # d' # e' # r'" "length r = length r'"
    by (auto simp: length_Suc_conv)
  with "6.IH" show ?case by (auto simp: base32Digit_inject)
qed (auto simp: length_Suc_conv Suc_length_conv base32Digit_inject)

lemma length_byteBits: "length (concat (map byteBits s)) = 8 * length s"
  by (induction s) (simp_all add: byteBits_def)

lemma base32Encode_inject: "length s = length t \<Longrightarrow> base32Encode s = base32Encode t \<longleftrightarrow> s = t"
  by (simp add: base32Encode_def base32Bits_inject length_byteBits concat_byteBits_inject)

lemma base32Bits_facts: "set (base32Bits xs) \<subseteq> set base32Alphabet" "length (base32Bits xs) = (length xs + 4) div 5"
proof -
  have "base32Digit a b c d e \<in> set base32Alphabet" for a b c d e
    unfolding base32Digit_def by (rule nth_mem) (simp add: base32Alphabet_def of_bool_def)
  then show "set (base32Bits xs) \<subseteq> set base32Alphabet" by (induction xs rule: base32Bits.induct) auto
  show "length (base32Bits xs) = (length xs + 4) div 5" by (induction xs rule: base32Bits.induct) auto
qed

text \<open>An action identity is 52 letters and digits.\<close>

lemma base32_digest: "length (base32Encode (sha256 m)) = 52" "CHR ''.'' \<notin> set (base32Encode (sha256 m))"
  using base32Bits_facts [of "concat (map byteBits (sha256 m))"]
  by (auto simp: base32Encode_def length_byteBits length_sha256 base32Alphabet_def)

lemma actionIDPreimage_inject:
  assumes "length p < 2 ^ 32" "length k < 2 ^ 32" "length p' < 2 ^ 32" "length k' < 2 ^ 32"
  shows "actionIDPreimage p k = actionIDPreimage p' k' \<longleftrightarrow> p = p' \<and> k = k'"
proof -
  have eq: "actionIDPreimage q l = actionIDDomain @ concat (map memberBytes [q, l])" for q l
    by (simp add: actionIDPreimage_def writeFramed_def memberBytes_def)
  show ?thesis unfolding eq using members_inject [of "[p, k]" "[p', k']"] assms by auto
qed

text \<open>Two submissions share an identity only as the same submission or by a collision of SHA-256.\<close>

lemma ActionIDFor_distinct:
  assumes "ActionIDFor X p k = Inr a" "ActionIDFor X p' k' = Inr a" and "length p < 2 ^ 32" "length p' < 2 ^ 32"
  shows "(p = p' \<and> k = k')
    \<or> (actionIDPreimage p k \<noteq> actionIDPreimage p' k' \<and> sha256 (actionIDPreimage p k) = sha256 (actionIDPreimage p' k'))"
proof -
  from assms(1,2) have "base32Encode (sha256 (actionIDPreimage p k)) = base32Encode (sha256 (actionIDPreimage p' k'))"
    and keys: "RequireIdempotencyKey k = None" "RequireIdempotencyKey k' = None"
    by (auto simp: ActionIDFor_def Let_def split: option.splits)
  then have "sha256 (actionIDPreimage p k) = sha256 (actionIDPreimage p' k')"
    by (simp add: base32Encode_inject length_sha256)
  moreover have "length k < 2 ^ 32" "length k' < 2 ^ 32"
    using keys validateIdempotencyKey_None(2) [of k] validateIdempotencyKey_None(2) [of k']
    by (simp_all add: RequireIdempotencyKey_def)
  ultimately show ?thesis using actionIDPreimage_inject assms(3,4) by blast
qed

end
