(* ===== verification/Gateway.thy ===== *)
theory Gateway
  imports Gateway_Session Turn
begin

text \<open>
  \<^verbatim>\<open>internal/gateway/gateway.go\<close>: verifying a player, binding a connection, and taking a
  submission: its decoding, the gate that holds a player to one action at a time, the canonical action
  stamped from the session and the configuration, and its publication. The authenticator, the graph,
  the publisher, the clock, the JSON codec and the text of an error are fields of the gateway; the
  session table is a part of the world. The lemmas show what a submission may write and when.
\<close>

section \<open>The gateway\<close>

definition gateway_Source :: string where "gateway_Source = ''player-gateway''"

definition MaxRequestBytes :: nat where
  "MaxRequestBytes = 6 * (MaxActionTextBytes + MaxIdempotencyKeyBytes) + 512"

definition DefaultMaxConnectionsPerPlayer :: int where "DefaultMaxConnectionsPerPlayer = 4"

record GatewayConfig =
  gc_CampaignID :: string
  gc_SceneID :: string

definition GatewayConfig_Validate :: "ext \<Rightarrow> GatewayConfig \<Rightarrow> gerror option" where
  "GatewayConfig_Validate X c =
     firstErr [
       wrapErr ''gateway campaign id is not a canonical entity id'' (ValidateEntityID X (gc_CampaignID c)),
       wrapErr ''gateway scene id is not a canonical entity id'' (ValidateEntityID X (gc_SceneID c))]"

record 'w Gateway =
  gw_auth :: "string \<Rightarrow> ('w, string) M"
  gw_GetEntity :: "string \<Rightarrow> ('w, EntityState) M"
  gw_Publish :: "string \<Rightarrow> string \<Rightarrow> string \<Rightarrow> ('w, unit) M"
  gw_config :: GatewayConfig
  gw_subject :: string
  gw_now :: "'w \<Rightarrow> time \<times> 'w"
  gw_maxPerPlayer :: int
  gw_sessions :: "'w \<Rightarrow> sessions"
  gw_setSessions :: "sessions \<Rightarrow> 'w \<Rightarrow> 'w"
  gw_jsonFields :: "string \<Rightarrow> gerror + string list option"
  gw_jsonSubmit :: "string \<Rightarrow> gerror + SubmitAction"
  gw_jsonKey :: "string \<Rightarrow> gerror + string"
  gw_marshal :: "PlayerAction \<Rightarrow> gerror + string"
  gw_errorText :: "gerror \<Rightarrow> string"

text \<open>
  \<^verbatim>\<open>New\<close>, with its options already applied to \<open>G\<close>; a missing dependency cannot be expressed. The
  second result is the empty session table.
\<close>

definition gateway_New :: "ext \<Rightarrow> 'w Gateway \<Rightarrow> gerror + 'w Gateway \<times> sessions" where
  "gateway_New X G =
     (case firstErr [
         GatewayConfig_Validate X (gw_config G),
         failIf (gw_subject G = []) (Errorf ''the player gateway requires a publish subject''),
         failIf (gw_maxPerPlayer G < 1) (Errorf ''the player gateway allows no connections per player'')] of
        Some err \<Rightarrow> Inl err
      | None \<Rightarrow> Inr (G, newSessions (gw_maxPerPlayer G)))"

section \<open>Sessions\<close>

record VerifiedPlayer =
  vp_id :: string

definition gateway_Verify :: "ext \<Rightarrow> 'w Gateway \<Rightarrow> string \<Rightarrow> ('w, VerifiedPlayer) M" where
  "gateway_Verify X G credential =
     bindM (gw_auth G credential) (\<lambda>playerID.
     case ValidateEntityID X playerID of
       Some err \<Rightarrow> throw (Wrapf ''the credential names no canonical entity id'' ErrUnauthenticated)
     | None \<Rightarrow>
       bindM (mapErr (\<lambda>err. if errors_Is err ErrEntityNotFound
                 then Wrapf ''player is not an entity of this world'' ErrUnauthenticated
                 else Wrapf ''read player'' err) (gw_GetEntity G playerID)) (\<lambda>_.
       ret \<lparr>vp_id = playerID\<rparr>))"

definition Bind :: "ext \<Rightarrow> 'w Gateway \<Rightarrow> VerifiedPlayer \<Rightarrow> Connection \<Rightarrow> ('w, Session) M" where
  "Bind X G player conn =
     checkM (Connection_Validate conn)
     (checkM (wrapErr ''refusing to bind a session to no canonical entity id'' (ValidateEntityID X (vp_id player)))
       (\<lambda>w. let session = \<lparr>se_PlayerID = vp_id player, se_Connection = conn\<rparr> in
          (case sessions_put (gw_sessions G w) session of
             (Inl err, s) \<Rightarrow> (Inl err, gw_setSessions G s w)
           | (Inr _, s) \<Rightarrow> (Inr session, gw_setSessions G s w))))"

definition gateway_Authenticate :: "ext \<Rightarrow> 'w Gateway \<Rightarrow> string \<Rightarrow> Connection \<Rightarrow> ('w, Session) M" where
  "gateway_Authenticate X G credential conn =
     checkM (Connection_Validate conn)
     (bindM (gateway_Verify X G credential) (\<lambda>player. Bind X G player conn))"

definition gateway_Session :: "'w Gateway \<Rightarrow> string \<Rightarrow> 'w \<Rightarrow> Session option" where
  "gateway_Session G connID w = sessions_get (gw_sessions G w) connID"

definition SessionsFor :: "'w Gateway \<Rightarrow> string \<Rightarrow> 'w \<Rightarrow> Session list" where
  "SessionsFor G playerID w = forPlayer (gw_sessions G w) playerID"

definition Disconnect :: "'w Gateway \<Rightarrow> string \<Rightarrow> 'w \<Rightarrow> 'w" where
  "Disconnect G connID w = gw_setSessions G (sessions_remove (gw_sessions G w) connID) w"

section \<open>Taking a submission\<close>

subsection \<open>Decoding\<close>

definition classify_refusal :: "'w Gateway \<Rightarrow> gerror \<Rightarrow> SubmitRefusalCode \<Rightarrow> SubmitRefusal" where
  "classify_refusal G err fallback =
     \<lparr>sf_Code =
        (if errors_Is err ErrUnsupportedProtocol then RefusalUnsupportedProtocol
         else if errors_Is err ErrServerOwnedField then RefusalServerOwnedField
         else if errors_Is err ErrUnknownField then RefusalUnknownField
         else fallback),
      sf_Message = gw_errorText G err,
      sf_Field = (case errors_As (\<lambda>e. case e of FieldError name s d \<Rightarrow> Some name | _ \<Rightarrow> None) err of
          None \<Rightarrow> [] | Some name \<Rightarrow> name),
      sf_ActiveTurnID = []\<rparr>"

definition gateway_decode :: "'w Gateway \<Rightarrow> string \<Rightarrow> SubmitRefusal + SubmitAction" where
  "gateway_decode G raw =
     (if MaxRequestBytes < length raw
      then Inl \<lparr>sf_Code = RefusalMalformedRequest, sf_Message = ''the submission exceeds the request budget'',
        sf_Field = [], sf_ActiveTurnID = []\<rparr>
      else (case SubmitAction_UnmarshalJSON (gw_jsonFields G) (gw_jsonSubmit G) raw of
          Inl err \<Rightarrow> Inl (classify_refusal G err RefusalMalformedRequest)
        | Inr submission \<Rightarrow>
            (case SubmitAction_Validate submission of
               Some err \<Rightarrow> Inl (classify_refusal G err RefusalInvalidField)
             | None \<Rightarrow> Inr submission)))"

definition echoableKey :: "'w Gateway \<Rightarrow> string \<Rightarrow> string" where
  "echoableKey G raw =
     (case gw_jsonKey G raw of
        Inl err \<Rightarrow> []
      | Inr key \<Rightarrow> if RequireIdempotencyKey key \<noteq> None then [] else key)"

subsection \<open>One action at a time\<close>

definition gateway_turnIDOf :: "string \<Rightarrow> string" where
  "gateway_turnIDOf turnEntityID = last (splitOn CHR ''.'' turnEntityID)"

definition refuseIfLive :: "'w Gateway \<Rightarrow> string \<Rightarrow> ('w, SubmitRefusal option) M" where
  "refuseIfLive G turnEntityID =
     tryM (gw_GetEntity G turnEntityID) (\<lambda>r. case r of
        Inl err \<Rightarrow>
          if errors_Is err ErrEntityNotFound then ret None
          else throw (Wrapf ''read turn held by player'' err)
      | Inr state \<Rightarrow>
          bindM (mapErr (Wrapf ''read the phase of turn held by player'') (liftR (PhaseOf (Some state) turnEntityID)))
            (\<lambda>phase.
              if IsTerminal phase then ret None
              else ret (Some \<lparr>sf_Code = RefusalTurnInProgress,
                sf_Message = ''one action at a time, and this one was not taken'', sf_Field = [],
                sf_ActiveTurnID = gateway_turnIDOf turnEntityID\<rparr>)))"

text \<open>The loop over the turns a player holds; the turn this submission would make is not one of them.\<close>

fun admitLoop :: "ext \<Rightarrow> 'w Gateway \<Rightarrow> string \<Rightarrow> string list \<Rightarrow> ('w, SubmitRefusal option) M" where
  "admitLoop X G turnID [] = ret None"
| "admitLoop X G turnID (turnEntityID # held) =
     (if RequireTurnEntityID X turnID turnEntityID = None then admitLoop X G turnID held
      else bindM (refuseIfLive G turnEntityID) (\<lambda>refusal.
        case refusal of
          Some _ \<Rightarrow> ret refusal
        | None \<Rightarrow> admitLoop X G turnID held))"

definition admit :: "ext \<Rightarrow> 'w Gateway \<Rightarrow> string \<Rightarrow> string \<Rightarrow> ('w, SubmitRefusal option) M" where
  "admit X G playerID turnID =
     bindM (mapErr (\<lambda>err. if errors_Is err ErrEntityNotFound
               then Errorf ''player authenticated but their entity is gone'' else Wrapf ''read player'' err)
         (gw_GetEntity G playerID)) (\<lambda>state.
     admitLoop X G turnID (fst (HeldTurns (Some state))))"

subsection \<open>Publishing\<close>

definition canonical :: "'w Gateway \<Rightarrow> Session \<Rightarrow> SubmitAction \<Rightarrow> string \<Rightarrow> time \<Rightarrow> PlayerAction" where
  "canonical G session submission actionID arrivedAt =
     \<lparr>pa_ActionID = actionID, pa_PlayerID = se_PlayerID session, pa_CampaignID = gc_CampaignID (gw_config G),
      pa_SceneID = gc_SceneID (gw_config G), pa_Text = su_Text submission, pa_ArrivedAt = arrivedAt,
      pa_Channel = \<lparr>cb_Adapter = cx_Adapter (se_Connection session), cb_ReplyTo = cx_ReplyTo (se_Connection session)\<rparr>\<rparr>"

definition gateway_publish :: "'w Gateway \<Rightarrow> PlayerAction \<Rightarrow> ('w, unit) M" where
  "gateway_publish G action =
     bindM (mapErr (Wrapf ''marshal action'') (liftR (gw_marshal G action))) (\<lambda>data.
     mapErr (Wrapf ''publish action'') (gw_Publish G (gw_subject G) data (pa_ActionID action)))"

definition refuse :: "string \<Rightarrow> SubmitRefusal \<Rightarrow> SubmitResponse" where
  "refuse idempotencyKey refusal =
     \<lparr>sp_Protocol = PlayerProtocolV1, sp_Status = StatusRefused, sp_IdempotencyKey = idempotencyKey,
      sp_ActionID = [], sp_TurnID = [], sp_ArrivedAt = 0, sp_Refusal = Some refusal\<rparr>"

definition acceptance :: "string \<Rightarrow> string \<Rightarrow> time \<Rightarrow> SubmitResponse" where
  "acceptance idempotencyKey actionID arrivedAt =
     \<lparr>sp_Protocol = PlayerProtocolV1, sp_Status = StatusAccepted, sp_IdempotencyKey = idempotencyKey,
      sp_ActionID = actionID, sp_TurnID = TurnIDForAction actionID, sp_ArrivedAt = arrivedAt, sp_Refusal = None\<rparr>"

type_synonym SubmitResult = "SubmitResponse option \<times> gerror option"

definition unavailable :: "string \<Rightarrow> gerror \<Rightarrow> SubmitResult" where
  "unavailable idempotencyKey cause =
     (Some (refuse idempotencyKey
        \<lparr>sf_Code = RefusalUnavailable,
         sf_Message = ''the engine could not take this action; nothing was published, so it is safe to retry'',
         sf_Field = [], sf_ActiveTurnID = []\<rparr>), Some cause)"

text \<open>The part of \<^verbatim>\<open>Submit\<close> after the gate admitted the action.\<close>

definition takeAction :: "ext \<Rightarrow> 'w Gateway \<Rightarrow> Session \<Rightarrow> SubmitAction \<Rightarrow> string \<Rightarrow> 'w \<Rightarrow> SubmitResult \<times> 'w" where
  "takeAction X G session submission actionID w =
     (case gw_now G w of (at, w1) \<Rightarrow>
       let action = canonical G session submission actionID at in
       case PlayerAction_Validate X action of
         Some err \<Rightarrow>
           (unavailable (su_IdempotencyKey submission) (Wrapf ''the gateway composed an invalid canonical action'' err), w1)
       | None \<Rightarrow>
         (case gateway_publish G action w1 of
            (Inl err, w2) \<Rightarrow> (unavailable (su_IdempotencyKey submission) err, w2)
          | (Inr _, w2) \<Rightarrow>
              (let response = acceptance (su_IdempotencyKey submission) actionID (pa_ArrivedAt action) in
               case SubmitResponse_Validate X response of
                 Some err \<Rightarrow> ((None, Some (Wrapf ''compose the acceptance'' err)), w2)
               | None \<Rightarrow> ((Some response, None), w2))))"

definition Submit :: "ext \<Rightarrow> 'w Gateway \<Rightarrow> string \<Rightarrow> string \<Rightarrow> 'w \<Rightarrow> SubmitResult \<times> 'w" where
  "Submit X G connID raw w =
     (case sessions_get (gw_sessions G w) connID of
        None \<Rightarrow>
          ((Some (refuse []
              \<lparr>sf_Code = RefusalUnauthenticated, sf_Message = ''this connection has no session'',
               sf_Field = [], sf_ActiveTurnID = []\<rparr>), None), w)
      | Some session \<Rightarrow>
        (case gateway_decode G raw of
           Inl refusal \<Rightarrow> ((Some (refuse (echoableKey G raw) refusal), None), w)
         | Inr submission \<Rightarrow>
           (case ActionIDFor X (se_PlayerID session) (su_IdempotencyKey submission) of
              Inl err \<Rightarrow> (unavailable (su_IdempotencyKey submission) (Wrapf ''derive the action id'' err), w)
            | Inr actionID \<Rightarrow>
              (case admit X G (se_PlayerID session) (TurnIDForAction actionID) w of
                 (Inl err, w1) \<Rightarrow> (unavailable (su_IdempotencyKey submission) err, w1)
               | (Inr (Some refusal), w1) \<Rightarrow> ((Some (refuse (su_IdempotencyKey submission) refusal), None), w1)
               | (Inr None, w1) \<Rightarrow> takeAction X G session submission actionID w1))))"

section \<open>What a submission does\<close>

text \<open>A turn that no longer binds its player: it is gone or it is finished.\<close>

definition turnSettled :: "(string \<Rightarrow> EntityState option) \<Rightarrow> string \<Rightarrow> bool" where
  "turnSettled E t =
     (case E t of None \<Rightarrow> True
      | Some st \<Rightarrow> (case PhaseOf (Some st) t of Inl _ \<Rightarrow> False | Inr phase \<Rightarrow> IsTerminal phase))"

definition turnLive :: "(string \<Rightarrow> EntityState option) \<Rightarrow> string \<Rightarrow> bool" where
  "turnLive E t =
     (case E t of None \<Rightarrow> False
      | Some st \<Rightarrow> (case PhaseOf (Some st) t of Inl _ \<Rightarrow> False | Inr phase \<Rightarrow> \<not> IsTerminal phase))"

text \<open>Every turn the player holds, but the one of this action, is settled.\<close>

definition admitted :: "ext \<Rightarrow> (string \<Rightarrow> EntityState option) \<Rightarrow> string \<Rightarrow> string \<Rightarrow> bool" where
  "admitted X E playerID turnID =
     (case E playerID of None \<Rightarrow> False
      | Some st \<Rightarrow> list_all (\<lambda>t. RequireTurnEntityID X turnID t = None \<or> turnSettled E t) (fst (HeldTurns (Some st))))"

text \<open>
  What the gateway relies on, over the stream as the messages of each subject with their identifiers:
  reads and the clock change nothing; a publication appends the message to its subject, or does
  nothing because the stream has a message of that identifier already; one
  that fails did all of that or nothing; the session table is a cell of its own.
\<close>

locale player_gateway =
  fixes X :: ext
    and G :: "'w Gateway"
    and ents :: "'w \<Rightarrow> string \<Rightarrow> EntityState option"
    and log :: "'w \<Rightarrow> string \<Rightarrow> (string \<times> string) list"
  assumes read_frame: "gw_GetEntity G i w = (q, w') \<Longrightarrow>
      ents w' = ents w \<and> log w' = log w \<and> gw_sessions G w' = gw_sessions G w"
    and read_ok: "gw_GetEntity G i w = (Inr st, w') \<Longrightarrow> ents w i = Some st"
    and read_absent: "gw_GetEntity G i w = (Inl err, w') \<Longrightarrow> errors_Is err ErrEntityNotFound \<Longrightarrow> ents w i = None"
    and auth_frame: "gw_auth G c w = (a, w') \<Longrightarrow>
      ents w' = ents w \<and> log w' = log w \<and> gw_sessions G w' = gw_sessions G w"
    and clock_frame: "gw_now G w = (at, w') \<Longrightarrow>
      ents w' = ents w \<and> log w' = log w \<and> gw_sessions G w' = gw_sessions G w"
    and publish_ok: "gw_Publish G s b i w = (Inr (), w') \<Longrightarrow>
      log w' = (log w)(s := log w s @ [(i, b)]) \<or> (log w' = log w \<and> i \<in> fst ` set (log w s))"
    and publish_failed: "gw_Publish G s b i w = (Inl err, w') \<Longrightarrow>
      log w' = log w \<or> log w' = (log w)(s := log w s @ [(i, b)])"
    and publish_frame: "gw_Publish G s b i w = (u, w') \<Longrightarrow>
      ents w' = ents w \<and> gw_sessions G w' = gw_sessions G w"
    and table_set: "gw_sessions G (gw_setSessions G t w) = t" "ents (gw_setSessions G t w) = ents w"
      "log (gw_setSessions G t w) = log w"
begin

lemma refuseIfLive_frame: "refuseIfLive G t w = (r, w') \<Longrightarrow>
    ents w' = ents w \<and> log w' = log w \<and> gw_sessions G w' = gw_sessions G w"
proof -
  assume run: "refuseIfLive G t w = (r, w')"
  obtain q w1 where q: "gw_GetEntity G t w = (q, w1)" by fastforce
  have "w' = w1"
    using run q by (cases q) (auto simp: refuseIfLive_def M_defs split: if_splits sum.splits)
  with read_frame [OF q] show ?thesis by simp
qed

lemma refuseIfLive_Inr:
  assumes "refuseIfLive G t w = (Inr r, w')"
  shows "r = None \<Longrightarrow> turnSettled (ents w) t"
    and "r = Some f \<Longrightarrow> turnLive (ents w) t \<and> sf_Code f = RefusalTurnInProgress \<and> sf_ActiveTurnID f = gateway_turnIDOf t"
proof -
  obtain q w1 where q: "gw_GetEntity G t w = (q, w1)" by fastforce
  show "r = None \<Longrightarrow> turnSettled (ents w) t"
    using assms q read_ok read_absent
    by (cases q) (auto simp: refuseIfLive_def M_defs turnSettled_def split: if_splits sum.splits)
  show "r = Some f \<Longrightarrow> turnLive (ents w) t \<and> sf_Code f = RefusalTurnInProgress \<and> sf_ActiveTurnID f = gateway_turnIDOf t"
    using assms q read_ok
    by (cases q) (auto simp: refuseIfLive_def M_defs turnLive_def split: if_splits sum.splits)
qed

lemma admitLoop_frame: "admitLoop X G turnID held w = (r, w') \<Longrightarrow>
    ents w' = ents w \<and> log w' = log w \<and> gw_sessions G w' = gw_sessions G w"
proof (induction held arbitrary: w)
  case (Cons t held)
  show ?case
  proof (cases "RequireTurnEntityID X turnID t = None")
    case False
    from Cons.prems False have "bindM (refuseIfLive G t) (\<lambda>refusal. case refusal of
        Some _ \<Rightarrow> ret refusal | None \<Rightarrow> admitLoop X G turnID held) w = (r, w')" by simp
    then show ?thesis
    proof (cases rule: bindM_cases)
      case (Inl e)
      then show ?thesis using refuseIfLive_frame by blast
    next
      case (Inr f w1)
      then show ?thesis using refuseIfLive_frame [OF Inr(1)] Cons.IH by (cases f) fastforce+
    qed
  qed (use Cons in simp)
qed simp

lemma admitLoop_step:
  assumes "admitLoop X G turnID (t # held) w = (Inr r, w')"
  obtains (own) "RequireTurnEntityID X turnID t = None" "admitLoop X G turnID held w = (Inr r, w')"
  | (settled) w1 where "turnSettled (ents w) t" "ents w1 = ents w" "admitLoop X G turnID held w1 = (Inr r, w')"
  | (live) f where "r = Some f" "RequireTurnEntityID X turnID t \<noteq> None" "turnLive (ents w) t"
      "sf_Code f = RefusalTurnInProgress" "sf_ActiveTurnID f = gateway_turnIDOf t"
proof (cases "RequireTurnEntityID X turnID t = None")
  case False
  with assms obtain q w1 where t: "refuseIfLive G t w = (Inr q, w1)"
    and rest: "(case q of Some _ \<Rightarrow> ret q | None \<Rightarrow> admitLoop X G turnID held) w1 = (Inr r, w')"
    by (auto simp: bindM_Inr)
  show thesis
  proof (cases q)
    case None
    with rest t refuseIfLive_Inr(1) [OF t] refuseIfLive_frame [OF t] show thesis by (intro settled) auto
  next
    case (Some f)
    with rest False refuseIfLive_Inr(2) [OF t, of f] show thesis by (intro live) auto
  qed
qed (use assms own in simp)

lemma admitLoop_None:
  "admitLoop X G turnID held w = (Inr None, w') \<Longrightarrow>
     list_all (\<lambda>t. RequireTurnEntityID X turnID t = None \<or> turnSettled (ents w) t) held"
proof (induction held arbitrary: w)
  case (Cons t held)
  from Cons.prems show ?case by (cases rule: admitLoop_step) (use Cons.IH in fastforce)+
qed simp

lemma admitLoop_Some:
  "admitLoop X G turnID held w = (Inr (Some f), w') \<Longrightarrow>
     sf_Code f = RefusalTurnInProgress \<and> (\<exists>t \<in> set held.
       RequireTurnEntityID X turnID t \<noteq> None \<and> turnLive (ents w) t \<and> sf_ActiveTurnID f = gateway_turnIDOf t)"
proof (induction held arbitrary: w)
  case (Cons t held)
  from Cons.prems show ?case by (cases rule: admitLoop_step) (use Cons.IH in fastforce)+
qed simp

lemma admit_frame: "admit X G p turnID w = (r, w') \<Longrightarrow>
    ents w' = ents w \<and> log w' = log w \<and> gw_sessions G w' = gw_sessions G w"
  using read_frame admitLoop_frame by (fastforce simp: admit_def mapErr_Inl elim!: bindM_cases)

lemma admit_Inr:
  assumes "admit X G p turnID w = (Inr r, w')"
  shows "r = None \<Longrightarrow> admitted X (ents w) p turnID"
    and "r = Some f \<Longrightarrow> sf_Code f = RefusalTurnInProgress \<and> (\<exists>st. ents w p = Some st
      \<and> (\<exists>t \<in> set (fst (HeldTurns (Some st))). turnLive (ents w) t \<and> sf_ActiveTurnID f = gateway_turnIDOf t))"
proof -
  from assms obtain st w1 where st: "gw_GetEntity G p w = (Inr st, w1)"
    and loop: "admitLoop X G turnID (fst (HeldTurns (Some st))) w1 = (Inr r, w')"
    by (auto simp: admit_def bindM_Inr)
  note same = read_frame [OF st]
  show "r = None \<Longrightarrow> admitted X (ents w) p turnID"
    using admitLoop_None [of turnID _ w1 w'] loop same read_ok [OF st] by (simp add: admitted_def)
  show "r = Some f \<Longrightarrow> sf_Code f = RefusalTurnInProgress \<and> (\<exists>st. ents w p = Some st
      \<and> (\<exists>t \<in> set (fst (HeldTurns (Some st))). turnLive (ents w) t \<and> sf_ActiveTurnID f = gateway_turnIDOf t))"
    using admitLoop_Some [of turnID _ w1 f w'] loop same read_ok [OF st] by auto
qed

lemma publish_cases:
  assumes "gateway_publish G action w = (r, w')"
  shows "ents w' = ents w \<and> gw_sessions G w' = gw_sessions G w"
    and "log w' = log w \<or> (\<exists>b. gw_marshal G action = Inr b \<and> log w' = (log w)(gw_subject G := log w (gw_subject G) @ [(pa_ActionID action, b)]))"
    and "r = Inr () \<Longrightarrow> pa_ActionID action \<in> fst ` set (log w' (gw_subject G))"
proof -
  have "ents w' = ents w \<and> gw_sessions G w' = gw_sessions G w
    \<and> (log w' = log w \<or> (\<exists>b. gw_marshal G action = Inr b \<and> log w' = (log w)(gw_subject G := log w (gw_subject G) @ [(pa_ActionID action, b)])))
    \<and> (r = Inr () \<longrightarrow> pa_ActionID action \<in> fst ` set (log w' (gw_subject G)))"
  proof (cases "gw_marshal G action")
    case (Inl e)
    with assms show ?thesis by (auto simp: gateway_publish_def bindM_def liftR_def mapErr_def)
  next
    case (Inr b)
    obtain u w1 where u: "gw_Publish G (gw_subject G) b (pa_ActionID action) w = (u, w1)" by fastforce
    with assms Inr have r: "w' = w1" "r = map_sum (Wrapf ''publish action'') id u"
      by (auto simp: gateway_publish_def bindM_def liftR_def mapErr_def split: sum.splits)
    show ?thesis
      using publish_frame [OF u] publish_ok [of "gw_subject G" b "pa_ActionID action" w w1]
        publish_failed [of "gw_subject G" b "pa_ActionID action" w _ w1] u r Inr
      by (cases u) fastforce+
  qed
  then show "ents w' = ents w \<and> gw_sessions G w' = gw_sessions G w"
    "log w' = log w \<or> (\<exists>b. gw_marshal G action = Inr b \<and> log w' = (log w)(gw_subject G := log w (gw_subject G) @ [(pa_ActionID action, b)]))"
    "r = Inr () \<Longrightarrow> pa_ActionID action \<in> fst ` set (log w' (gw_subject G))" by auto
qed

text \<open>
  A submission either leaves the stream alone and is refused, or it got as far as publishing the one
  action the session, the configuration and the decoded submission make.
\<close>

lemma Submit_cases:
  assumes "Submit X G connID raw w = ((resp, err), w')"
  obtains (refused) refusal where "resp = Some refusal" "sp_Status refusal = StatusRefused"
      "ents w' = ents w" "log w' = log w" "gw_sessions G w' = gw_sessions G w"
  | (taken) session submission actionID at w1 u where "ss_byConnID (gw_sessions G w) connID = Some session"
      "gateway_decode G raw = Inr submission"
      "ActionIDFor X (se_PlayerID session) (su_IdempotencyKey submission) = Inr actionID"
      "admitted X (ents w) (se_PlayerID session) (TurnIDForAction actionID)"
      "PlayerAction_Validate X (canonical G session submission actionID at) = None"
      "ents w1 = ents w" "log w1 = log w" "gw_sessions G w1 = gw_sessions G w"
      "gateway_publish G (canonical G session submission actionID at) w1 = (u, w')"
      "u = Inr () \<Longrightarrow> (resp = Some (acceptance (su_IdempotencyKey submission) actionID at) \<and> err = None)
         \<or> (resp = None \<and> err \<noteq> None)"
      "u \<noteq> Inr () \<Longrightarrow> (\<exists>refusal. resp = Some refusal \<and> sp_Status refusal = StatusRefused) \<and> err \<noteq> None"
proof -
  show thesis
  proof (cases "\<exists>session submission actionID w0. ss_byConnID (gw_sessions G w) connID = Some session
      \<and> gateway_decode G raw = Inr submission
      \<and> ActionIDFor X (se_PlayerID session) (su_IdempotencyKey submission) = Inr actionID
      \<and> admit X G (se_PlayerID session) (TurnIDForAction actionID) w = (Inr None, w0)")
    case False
    have "\<exists>refusal. resp = Some refusal \<and> sp_Status refusal = StatusRefused \<and> ents w' = ents w \<and> log w' = log w
        \<and> gw_sessions G w' = gw_sessions G w"
      using assms False
      by (fastforce simp: Submit_def sessions_get_def unavailable_def refuse_def
          split: option.splits sum.splits prod.splits dest: admit_frame)
    then show thesis by (auto intro: refused)
  next
    case True
    then obtain session submission actionID w0 where t: "ss_byConnID (gw_sessions G w) connID = Some session"
        "gateway_decode G raw = Inr submission"
        "ActionIDFor X (se_PlayerID session) (su_IdempotencyKey submission) = Inr actionID"
        "admit X G (se_PlayerID session) (TurnIDForAction actionID) w = (Inr None, w0)" by blast
    obtain at w1 where at: "gw_now G w0 = (at, w1)" by fastforce
    have same: "ents w1 = ents w" "log w1 = log w" "gw_sessions G w1 = gw_sessions G w"
      using admit_frame [OF t(4)] clock_frame [OF at] by auto
    let ?a = "canonical G session submission actionID at"
    have run: "(case PlayerAction_Validate X ?a of
         Some e \<Rightarrow>
           (unavailable (su_IdempotencyKey submission) (Wrapf ''the gateway composed an invalid canonical action'' e), w1)
       | None \<Rightarrow>
         (case gateway_publish G ?a w1 of
            (Inl e, w2) \<Rightarrow> (unavailable (su_IdempotencyKey submission) e, w2)
          | (Inr _, w2) \<Rightarrow>
              (let response = acceptance (su_IdempotencyKey submission) actionID (pa_ArrivedAt ?a) in
               case SubmitResponse_Validate X response of
                 Some e \<Rightarrow> ((None, Some (Wrapf ''compose the acceptance'' e)), w2)
               | None \<Rightarrow> ((Some response, None), w2)))) = ((resp, err), w')"
      using assms t at by (simp add: Submit_def sessions_get_def takeAction_def Let_def)
    show thesis
    proof (cases "PlayerAction_Validate X ?a")
      case (Some e)
      with run same show thesis
        by (intro refused) (auto simp: unavailable_def refuse_def)
    next
      case None
      obtain u w2 where u: "gateway_publish G ?a w1 = (u, w2)" by fastforce
      from run None u have "w' = w2" by (auto simp: Let_def split: sum.splits option.splits)
      moreover from run None u have "u = Inr () \<Longrightarrow>
          (resp = Some (acceptance (su_IdempotencyKey submission) actionID at) \<and> err = None) \<or> (resp = None \<and> err \<noteq> None)"
        by (auto simp: Let_def canonical_def split: option.splits)
      moreover from run None u have "u \<noteq> Inr () \<Longrightarrow>
          (\<exists>refusal. resp = Some refusal \<and> sp_Status refusal = StatusRefused) \<and> err \<noteq> None"
        by (cases u) (auto simp: unavailable_def refuse_def)
      ultimately show thesis
        using taken [OF t(1-3) admit_Inr(1) [OF t(4) refl] None same] u by blast
    qed
  qed
qed

text \<open>Binding keeps the table's invariant and binds the verified player only.\<close>

lemma Bind_table:
  assumes "Bind X G player conn w = (r, w')" and "sessions_wf (gw_sessions G w)"
  shows "sessions_wf (gw_sessions G w')" "ents w' = ents w" "log w' = log w"
    and "r = Inr s \<Longrightarrow> s = \<lparr>se_PlayerID = vp_id player, se_Connection = conn\<rparr>
      \<and> ss_byConnID (gw_sessions G w') (cx_ID conn) = Some s"
proof -
  obtain q t where put: "sessions_put (gw_sessions G w) \<lparr>se_PlayerID = vp_id player, se_Connection = conn\<rparr> = (q, t)"
    by fastforce
  have "(w' = w \<and> (\<exists>e. r = Inl e)) \<or> (w' = gw_setSessions G t w
      \<and> (r = Inr s \<longrightarrow> q = Inr () \<and> s = \<lparr>se_PlayerID = vp_id player, se_Connection = conn\<rparr>))" for s
    using assms(1) put
    by (auto simp: Bind_def checkM_eq wrapErr_def Let_def split: option.splits sum.splits)
  moreover have "q = Inr () \<Longrightarrow> ss_byConnID t (cx_ID conn) = Some \<lparr>se_PlayerID = vp_id player, se_Connection = conn\<rparr>"
    using put by (auto simp: sessions_put_def Let_def split: if_splits)
  ultimately show "sessions_wf (gw_sessions G w')" "ents w' = ents w" "log w' = log w"
    "r = Inr s \<Longrightarrow> s = \<lparr>se_PlayerID = vp_id player, se_Connection = conn\<rparr>
      \<and> ss_byConnID (gw_sessions G w') (cx_ID conn) = Some s"
    using sessions_put_wf [OF assms(2) put] assms(2) table_set by (fastforce+)
qed

end

end
