(* ===== verification/Egress.thy ===== *)
theory Egress
  imports Ledger_Once Content_Store Gateway Rule_Subjects
begin

text \<open>
  \<^verbatim>\<open>internal/egress\<close>: what a player is told about a turn. \<^verbatim>\<open>results.go\<close> composes the delivery
  of a finished turn from its record and its artifacts and finds a player's latest one; \<^verbatim>\<open>router.go\<close>
  delivers to the live sessions of the turn's player; \<^verbatim>\<open>notifier.go\<close> reacts to the notification of a
  resolved turn. The graph, the artifacts, the session directory and the sink are fields. The lemmas
  show whose turns are delivered to whom.
\<close>

section \<open>Results\<close>

definition ErrNoTurnHistory :: gerror where "ErrNoTurnHistory = Errorf ''player has no turn history''"
definition ErrNoResult :: gerror where "ErrNoResult = Errorf ''no terminal result for this turn''"
definition ErrTurnNotFound :: gerror where "ErrTurnNotFound = Errorf ''no such turn''"
definition ErrResultNotAccessible :: gerror where
  "ErrResultNotAccessible = Errorf ''result is not accessible to this player''"
definition ErrNarrationMissing :: gerror where
  "ErrNarrationMissing = Errorf ''the prose this result references is not in the store''"

definition MaxLatestCandidates :: nat where "MaxLatestCandidates = 8"

record 'w Results =
  rs_GetEntity :: "string \<Rightarrow> ('w, EntityState) M"
  rs_GetRoll :: "Ref \<Rightarrow> ('w, RollResult) M"
  rs_GetNarration :: "Ref \<Rightarrow> ('w, Narration) M"
  rs_GetCompanionStageRecord :: "Ref \<Rightarrow> ('w, CompanionStageRecord) M"
  rs_GetCompanionDecision :: "Ref \<Rightarrow> ('w, CompanionDecision) M"
  rs_identity :: Identity
  rs_campaignID :: string

text \<open>A missing dependency cannot be expressed.\<close>

definition NewResults :: "ext \<Rightarrow> 'w Results \<Rightarrow> gerror + 'w Results" where
  "NewResults X R =
     (case firstErr [
         wrapErr ''the result surface requires a turn identity'' (Identity_Validate X (rs_identity R)),
         wrapErr ''the result surface requires a canonical campaign entity id'' (ValidateEntityID X (rs_campaignID R))] of
        Some err \<Rightarrow> Inl err
      | None \<Rightarrow> Inr R)"

subsection \<open>Reading a turn\<close>

definition egress_soleString :: "EntityState \<Rightarrow> Predicate \<Rightarrow> gerror + string" where
  "egress_soleString state predicate =
     (let objects = objectsIn (esTriples state) predicate in
      if list_ex (\<lambda>v. asString v = None) objects
      then Inl (Errorf ''turn records a value that is not a string'')
      else (case objects of
          [] \<Rightarrow> Inr []
        | [v] \<Rightarrow> (case asString v of None \<Rightarrow> Inl (Errorf ''unreachable'') | Some s \<Rightarrow> Inr s)
        | _ \<Rightarrow> Inl (Errorf ''turn holds several values for a single-valued predicate'')))"

definition egress_turnIDOf :: "ext \<Rightarrow> string \<Rightarrow> gerror + string" where
  "egress_turnIDOf X turnEntityID =
     (case ValidateEntityID X turnEntityID of
        Some err \<Rightarrow> Inl (Wrapf ''not a canonical six-part entity id'' err)
      | None \<Rightarrow>
        (let parts = splitOn CHR ''.'' turnEntityID in
         if parts ! (length parts - 2) \<noteq> TypeSegment then Inl (Errorf ''only turns have a result'')
         else (let turnID = last parts in
           case RequireTurnEntityID X turnID turnEntityID of
             Some err \<Rightarrow> Inl err
           | None \<Rightarrow> Inr turnID)))"

definition egress_read :: "'w Results \<Rightarrow> string \<Rightarrow> ('w, EntityState) M" where
  "egress_read R turnEntityID =
     mapErr (\<lambda>err. if errors_Is err ErrEntityNotFound then Wrapf ''turn'' ErrTurnNotFound
               else Wrapf ''read turn'' err)
       (rs_GetEntity R turnEntityID)"

definition resultOwner :: "ext \<Rightarrow> EntityState \<Rightarrow> gerror + string" where
  "resultOwner X state =
     (case egress_soleString state TurnActionPlayer of
        Inl err \<Rightarrow> Inl err
      | Inr playerID \<Rightarrow>
        (case ValidateEntityID X playerID of
           Some err \<Rightarrow> Inl (Wrapf ''turn records an invalid player'' err)
         | None \<Rightarrow> Inr playerID))"

fun candidateLoop :: "string list \<Rightarrow> string list \<Rightarrow> string list" where
  "candidateLoop candidates [] = candidates"
| "candidateLoop candidates (t # ts) =
     (if List.member candidates t \<or> MaxLatestCandidates \<le> length candidates then candidateLoop candidates ts
      else candidateLoop (candidates @ [t]) ts)"

definition candidateTurns :: "EntityState \<Rightarrow> string list" where
  "candidateTurns player =
     candidateLoop [] (fst (ResolvedTurns (Some player)) @ fst (HeldTurns (Some player)))"

subsection \<open>Composing a result\<close>

text \<open>The summary of a companion's decision, once the stage record is known to be this turn's.\<close>

definition decisionSummary ::
    "ext \<Rightarrow> 'w Results \<Rightarrow> TurnManifest \<Rightarrow> CompanionStageRecord \<Rightarrow> string \<Rightarrow> ('w, CompanionResolution) M" where
  "decisionSummary X R manifest stage decisionReference =
     (if decisionReference \<noteq> csr_DecisionRef stage
      then throw (Errorf ''companion decision reference disagrees with stage record reference'')
      else
        bindM (mapErr (Wrapf ''turn records an unresolvable companion decision reference'')
            (liftR (ParseRef X decisionReference))) (\<lambda>decisionRef.
        bindM (mapErr (Wrapf ''resolve the companion decision'') (rs_GetCompanionDecision R decisionRef)) (\<lambda>decision.
        checkM (wrapErr ''companion decision is invalid'' (CompanionDecision_Validate X (Some decision)))
        (if cn_TurnID decision \<noteq> tm_TurnID manifest \<or> cn_PlayerID decision \<noteq> tm_PlayerID manifest
            \<or> cn_CompanionID decision \<noteq> csr_CompanionID stage
         then throw (Errorf ''companion decision has another turn, player or companion'')
         else
           (let summary = \<lparr>crn_CompanionID = cn_CompanionID decision, crn_Kind = cn_Kind decision,
                  crn_HintLevel = cn_HintLevel decision\<rparr> in
            checkM (wrapErr ''companion summary is invalid'' (CompanionResolution_Validate X summary))
              (ret summary))))))"

definition companionResolution ::
    "ext \<Rightarrow> 'w Results \<Rightarrow> EntityState \<Rightarrow> TurnManifest \<Rightarrow> ('w, CompanionResolution option) M" where
  "companionResolution X R state manifest =
     bindM (liftR (egress_soleString state TurnCompanionStageRef)) (\<lambda>stageReference.
     if stageReference = []
     then (if tm_Phase manifest = PhaseComplete then throw (Errorf ''complete turn carries no companion stage'')
           else ret None)
     else
       bindM (mapErr (Wrapf ''turn records an unresolvable companion stage reference'')
           (liftR (ParseRef X stageReference))) (\<lambda>stageRef.
       bindM (mapErr (Wrapf ''resolve the companion stage'') (rs_GetCompanionStageRecord R stageRef)) (\<lambda>stage.
       checkM (wrapErr ''companion stage is invalid'' (CompanionStageRecord_Validate X (Some stage)))
       (if csr_TurnID stage \<noteq> tm_TurnID manifest \<or> csr_PlayerID stage \<noteq> tm_PlayerID manifest
        then throw (Errorf ''companion stage belongs to another turn or player'')
        else
          bindM (liftR (egress_soleString state TurnCompanionDecisionRef)) (\<lambda>decisionReference.
          if csr_Status stage = CompanionStageNoActiveBond \<or> csr_Status stage = CompanionStageNoTrigger
          then (if decisionReference \<noteq> [] then throw (Errorf ''companion stage status forbids a decision reference'')
                else ret None)
          else if csr_Status stage = CompanionStageDecision \<or> csr_Status stage = CompanionStageExhausted
          then (if decisionReference = [] then throw (Errorf ''companion stage status requires a decision reference'')
                else bindM (decisionSummary X R manifest stage decisionReference) (\<lambda>s. ret (Some s)))
          else throw (Errorf ''companion stage has unsupported status''))))))"

definition egress_roll :: "ext \<Rightarrow> 'w Results \<Rightarrow> TurnManifest \<Rightarrow> ('w, TurnResultRoll option) M" where
  "egress_roll X R manifest =
     (if tm_RollRef manifest = [] then ret None
      else
        bindM (mapErr (Wrapf ''turn records an unresolvable roll reference'')
            (liftR (ParseRef X (tm_RollRef manifest)))) (\<lambda>ref.
        bindM (mapErr (Wrapf ''resolve the roll'') (rs_GetRoll R ref)) (\<lambda>stored.
        if rr_TurnID stored \<noteq> tm_TurnID manifest then throw (Errorf ''the roll belongs to another turn'')
        else ret (Some \<lparr>tl_Mechanic = rr_Mechanic stored, tl_Dice = rr_Dice stored,
          tl_Modifiers = rr_Modifiers stored, tl_ModifierTotal = rr_ModifierTotal stored,
          tl_Total = rr_Total stored\<rparr>))))"

definition actedBand :: "EntityState \<Rightarrow> TurnManifest \<Rightarrow> bool \<Rightarrow> gerror + OutcomeBand" where
  "actedBand state manifest requiresRoll =
     (case egress_soleString state TurnRollBand of
        Inl err \<Rightarrow> Inl err
      | Inr recorded \<Rightarrow>
          if recorded \<noteq> []
          then (case ParseOutcomeBand recorded of
              Inl err \<Rightarrow> Inl (Wrapf ''turn'' err)
            | Inr band \<Rightarrow>
                if \<not> IsRollBand band then Inl (Errorf ''turn records a roll band which the dice cannot select'')
                else Inr band)
          else if \<not> requiresRoll \<and> tm_EffectBatchRef manifest \<noteq> [] then Inr BandAuto
          else Inr [])"

definition egress_resolution ::
    "ext \<Rightarrow> 'w Results \<Rightarrow> EntityState \<Rightarrow> TurnManifest \<Rightarrow> ('w, TurnResolution option) M" where
  "egress_resolution X R state manifest =
     (case tm_RollGate manifest of
        None \<Rightarrow> ret None
      | Some gate \<Rightarrow>
          bindM (liftR (egress_soleString state TurnVerdictConsequence)) (\<lambda>consequence.
          bindM (egress_roll X R manifest) (\<lambda>roll.
          bindM (liftR (actedBand state manifest (rg_Reported gate))) (\<lambda>band.
          ret (Some \<lparr>tsn_Verdict = \<lparr>vs_Plausibility = rg_Plausibility gate, vs_Risk = rg_Risk gate,
                vs_Consequence = consequence, vs_RequiresRoll = rg_Reported gate\<rparr>,
              tsn_Band = band, tsn_Roll = roll\<rparr>)))))"

definition egress_compose ::
    "ext \<Rightarrow> 'w Results \<Rightarrow> string \<Rightarrow> string \<Rightarrow> EntityState \<Rightarrow> ('w, TurnResult) M" where
  "egress_compose X R turnID turnEntityID state =
     bindM (liftR (PhaseOf (Some state) turnEntityID)) (\<lambda>phase.
     if \<not> IsTerminal phase then throw (Wrapf ''turn is not finished'' ErrNoResult)
     else
       bindM (liftR (Compose X turnID (Some state) (rs_campaignID R))) (\<lambda>manifest.
       bindM (egress_resolution X R state manifest) (\<lambda>resolution.
       bindM (companionResolution X R state manifest) (\<lambda>companion.
       (let result = \<lparr>trs_Protocol = PlayerProtocolV1, trs_TurnID = tm_TurnID manifest,
              trs_ActionID = tm_ActionID manifest, trs_PlayerID = tm_PlayerID manifest,
              trs_Phase = tm_Phase manifest, trs_Resolution = resolution,
              trs_CompanionResolution = companion, trs_NarrationRef = tm_NarrationRef manifest,
              trs_FailureReason = tm_FailureReason manifest, trs_ResolvedAt = tm_RecordedAt manifest\<rparr> in
        checkM (wrapErr ''turn does not compose a coherent result'' (TurnResult_Validate X result))
          (ret result))))))"

subsection \<open>Deliveries\<close>

definition egress_narration :: "ext \<Rightarrow> 'w Results \<Rightarrow> string \<Rightarrow> ('w, DeliveredNarration) M" where
  "egress_narration X R reference =
     bindM (mapErr (Wrapf ''turn records an unresolvable narration reference'') (liftR (ParseRef X reference))) (\<lambda>ref.
     bindM (mapErr (\<lambda>err. if errors_Is err ErrArtifactNotFound then Wrapf2 ''turn references'' ErrNarrationMissing err
               else Wrapf ''resolve the narration'' err) (rs_GetNarration R ref)) (\<lambda>stored.
     ret \<lparr>dn_TurnID = na_TurnID stored, dn_Band = na_Band stored, dn_Prose = na_Prose stored\<rparr>))"

definition deliverable ::
    "ext \<Rightarrow> 'w Results \<Rightarrow> string \<Rightarrow> string \<Rightarrow> EntityState \<Rightarrow> ('w, TurnDelivery) M" where
  "deliverable X R turnID turnEntityID state =
     bindM (egress_compose X R turnID turnEntityID state) (\<lambda>result.
     bindM (if trs_NarrationRef result = [] then ret None
            else bindM (egress_narration X R (trs_NarrationRef result)) (\<lambda>n. ret (Some n))) (\<lambda>narration.
     (let delivery = \<lparr>tdl_Protocol = PlayerProtocolV1, tdl_Result = Some result, tdl_Narration = narration\<rparr> in
      checkM (wrapErr ''turn does not compose a coherent delivery'' (TurnDelivery_Validate X delivery))
        (ret delivery))))"

definition ByTurn :: "ext \<Rightarrow> 'w Results \<Rightarrow> string \<Rightarrow> ('w, TurnDelivery) M" where
  "ByTurn X R turnID =
     bindM (liftR (EntityID X (rs_identity R) turnID)) (\<lambda>turnEntityID.
     bindM (egress_read R turnEntityID) (\<lambda>state.
     deliverable X R turnID turnEntityID state))"

definition ByTurnForPlayer :: "ext \<Rightarrow> 'w Results \<Rightarrow> string \<Rightarrow> string \<Rightarrow> ('w, TurnDelivery) M" where
  "ByTurnForPlayer X R playerID turnID =
     checkM (wrapErr ''a scoped result lookup needs a player entity id'' (ValidateEntityID X playerID))
     (bindM (liftR (EntityID X (rs_identity R) turnID)) (\<lambda>turnEntityID.
      bindM (egress_read R turnEntityID) (\<lambda>state.
      bindM (liftR (resultOwner X state)) (\<lambda>owner.
      if owner \<noteq> playerID then throw (Wrapf ''turn'' ErrResultNotAccessible)
      else deliverable X R turnID turnEntityID state))))"

definition ByAction :: "ext \<Rightarrow> 'w Results \<Rightarrow> string \<Rightarrow> ('w, TurnDelivery) M" where
  "ByAction X R actionID = checkM (RequireActionID X actionID) (ByTurn X R (TurnIDForAction actionID))"

definition ByActionForPlayer :: "ext \<Rightarrow> 'w Results \<Rightarrow> string \<Rightarrow> string \<Rightarrow> ('w, TurnDelivery) M" where
  "ByActionForPlayer X R playerID actionID =
     checkM (RequireActionID X actionID) (ByTurnForPlayer X R playerID (TurnIDForAction actionID))"

text \<open>The instant a delivery's turn ended; a delivery of the surface always carries its result.\<close>

definition resolvedAt :: "TurnDelivery \<Rightarrow> time" where
  "resolvedAt d = (case tdl_Result d of None \<Rightarrow> 0 | Some r \<Rightarrow> trs_ResolvedAt r)"

definition laterOf :: "TurnDelivery option \<Rightarrow> TurnDelivery \<Rightarrow> TurnDelivery" where
  "laterOf best delivery =
     (case best of None \<Rightarrow> delivery
      | Some b \<Rightarrow> if resolvedAt b < resolvedAt delivery then delivery else b)"

text \<open>The body of the loop for one candidate: \<open>None\<close> where the code goes on without a delivery.\<close>

definition candidateDelivery :: "ext \<Rightarrow> 'w Results \<Rightarrow> string \<Rightarrow> string \<Rightarrow> ('w, TurnDelivery option) M" where
  "candidateDelivery X R playerID turnEntityID =
     (case egress_turnIDOf X turnEntityID of
        Inl err \<Rightarrow> ret None
      | Inr turnID \<Rightarrow>
          tryM (egress_read R turnEntityID) (\<lambda>q. case q of
            Inl err \<Rightarrow> if errors_Is err ErrTurnNotFound then ret None else throw err
          | Inr state \<Rightarrow>
              bindM (liftR (resultOwner X state)) (\<lambda>owner.
              if owner \<noteq> playerID then ret None
              else tryM (deliverable X R turnID turnEntityID state) (\<lambda>d. case d of
                  Inl err \<Rightarrow> if errors_Is err ErrNoResult then ret None else throw err
                | Inr delivery \<Rightarrow> ret (Some delivery)))))"

fun latestLoop ::
    "ext \<Rightarrow> 'w Results \<Rightarrow> string \<Rightarrow> string list \<Rightarrow> TurnDelivery option \<Rightarrow> ('w, TurnDelivery option) M" where
  "latestLoop X R playerID [] best = ret best"
| "latestLoop X R playerID (t # ts) best =
     bindM (candidateDelivery X R playerID t) (\<lambda>d.
     latestLoop X R playerID ts (case d of None \<Rightarrow> best | Some delivery \<Rightarrow> Some (laterOf best delivery)))"

definition Latest :: "ext \<Rightarrow> 'w Results \<Rightarrow> string \<Rightarrow> ('w, TurnDelivery) M" where
  "Latest X R playerID =
     checkM (wrapErr ''a result lookup needs a player entity id'' (ValidateEntityID X playerID))
     (bindM (mapErr (\<lambda>err. if errors_Is err ErrEntityNotFound
               then Wrapf ''player is not an entity of this world'' ErrNoResult else Wrapf ''read player'' err)
         (rs_GetEntity R playerID)) (\<lambda>player.
      let candidates = candidateTurns player in
      if candidates = [] then throw (Wrapf ''player'' ErrNoTurnHistory)
      else bindM (latestLoop X R playerID candidates None) (\<lambda>best.
        case best of
          None \<Rightarrow> throw (Wrapf ''player has finished no turn'' ErrNoResult)
        | Some d \<Rightarrow> ret d)))"

section \<open>Delivery\<close>

record 'w Router =
  ro_SessionsFor :: "string \<Rightarrow> 'w \<Rightarrow> Session list"
  ro_Deliver :: "Session \<Rightarrow> TurnDelivery \<Rightarrow> ('w, unit) M"

record egress_Outcome =
  eo_PlayerID :: string
  eo_Recipients :: nat

text \<open>Every session is tried; the errors are collected.\<close>

fun deliverAll ::
    "'w Router \<Rightarrow> TurnDelivery \<Rightarrow> Session list \<Rightarrow> nat \<Rightarrow> gerror list \<Rightarrow> 'w \<Rightarrow> (nat \<times> gerror list) \<times> 'w" where
  "deliverAll R d [] sent errs w = ((sent, errs), w)"
| "deliverAll R d (s # ss) sent errs w =
     (case ro_Deliver R s d w of
        (Inl err, w1) \<Rightarrow> deliverAll R d ss sent (errs @ [Wrapf ''deliver turn to player'' err]) w1
      | (Inr _, w1) \<Rightarrow> deliverAll R d ss (sent + 1) errs w1)"

definition Router_Deliver ::
    "ext \<Rightarrow> 'w Router \<Rightarrow> TurnDelivery option \<Rightarrow> 'w \<Rightarrow> (egress_Outcome \<times> gerror option) \<times> 'w" where
  "Router_Deliver X R delivery w =
     (let none = \<lparr>eo_PlayerID = [], eo_Recipients = 0\<rparr> in
      case delivery of
        None \<Rightarrow> ((none, Some (Errorf ''delivery requires a document'')), w)
      | Some d \<Rightarrow>
        (case TurnDelivery_Validate X d of
           Some err \<Rightarrow> ((none, Some (Wrapf ''refusing to deliver an incoherent result'' err)), w)
         | None \<Rightarrow>
           (let playerID = (case tdl_Result d of None \<Rightarrow> [] | Some r \<Rightarrow> trs_PlayerID r) in
            case deliverAll R d (ro_SessionsFor R playerID w) 0 [] w of
              ((sent, errs), w') \<Rightarrow>
                ((\<lparr>eo_PlayerID = playerID, eo_Recipients = sent\<rparr>, joinErrors errs), w'))))"

section \<open>Notification\<close>

definition egress_ConsumerName :: string where "egress_ConsumerName = ''semmachina-player-egress''"
definition egress_DefaultAckWait :: time where "egress_DefaultAckWait = 30000000000"
definition egress_DefaultHeartbeat :: time where "egress_DefaultHeartbeat = 10000000000"

definition egress_ConsumerConfig :: StreamConsumerConfig where
  "egress_ConsumerConfig =
     \<lparr>scc_StreamName = StageStream, scc_ConsumerName = egress_ConsumerName,
      scc_FilterSubject = SubjectResolved, scc_DeliverPolicy = ''new'', scc_AckPolicy = ''explicit'',
      scc_MaxDeliver = 0, scc_AckWait = egress_DefaultAckWait\<rparr>"

record 'w Notifier =
  nt_results :: "'w Results"
  nt_router :: "'w Router"
  nt_publication :: "string \<Rightarrow> gerror + rulePublication"
  nt_heartbeat :: time

definition NewNotifier :: "'w Notifier \<Rightarrow> gerror + 'w Notifier" where
  "NewNotifier N =
     (if nt_heartbeat N \<le> 0 then Inl (Errorf ''the egress notifier requires a positive heartbeat'') else Inr N)"

definition Notifier_Handle ::
    "ext \<Rightarrow> 'w Notifier \<Rightarrow> string \<Rightarrow> ('w, unit) M" where
  "Notifier_Handle X N data =
     (case ParseResolvedEvent X (nt_publication N) data of
        Inl err \<Rightarrow> throw (TerminateDelivery err)
      | Inr event \<Rightarrow>
          bindM (mapErr (\<lambda>err.
              if errors_Is err ErrNoResult then Wrapf ''turn has not resolved yet from this reader's view'' err
              else if errors_Is err ErrTurnNotFound then TerminateDelivery err
              else if errors_Is err ErrNarrationMissing then TerminateDelivery err
              else Wrapf ''compose the result'' err)
            (ByTurn X (nt_results N) (rv_TurnID event))) (\<lambda>delivery w.
          (case Router_Deliver X (nt_router N) (Some delivery) w of
             ((_, Some err), w') \<Rightarrow> (Inl (Wrapf ''deliver turn'' err), w')
           | ((_, None), w') \<Rightarrow> (Inr (), w'))))"

end
