(* ===== verification/Egress_Scope.thy ===== *)
theory Egress_Scope
  imports Egress
begin

text \<open>
  Whom a result reaches. A delivery tells what the record of one turn holds, it is asked for by the
  player that record names, the latest result is the most recently finished of the turns the player's
  record lists, and a notification reaches live sessions of the turn's own player only.
\<close>

section \<open>A delivery tells of a turn\<close>

text \<open>What the record of a turn says of a delivery; the manifest is the turn's own.\<close>

definition tellsOf :: "ext \<Rightarrow> string \<Rightarrow> string \<Rightarrow> EntityState \<Rightarrow> TurnDelivery \<Rightarrow> bool" where
  "tellsOf X campaignID turnID st d \<longleftrightarrow>
     TurnDelivery_Validate X d = None
     \<and> (\<exists>m r. Compose X turnID (Some st) campaignID = Inr m \<and> tdl_Result d = Some r
         \<and> trs_TurnID r = tm_TurnID m \<and> trs_ActionID r = tm_ActionID m \<and> trs_PlayerID r = tm_PlayerID m
         \<and> trs_Phase r = tm_Phase m \<and> trs_NarrationRef r = tm_NarrationRef m
         \<and> trs_FailureReason r = tm_FailureReason m \<and> trs_ResolvedAt r = tm_RecordedAt m)"

lemma requireEntityID_ne: "requireEntityID X f v = None \<Longrightarrow> v \<noteq> []"
  by (auto simp: requireEntityID_def)

lemma tellsOf_facts:
  assumes "tellsOf X c turnID st d"
  obtains r where "tdl_Result d = Some r" "trs_TurnID r = turnID" "ActionIDForTurn X turnID = Inr (trs_ActionID r)"
    "objectsIn (esTriples st) TurnActionPlayer = [AString (trs_PlayerID r)]"
    "objectsIn (esTriples st) TurnPhaseCurrent = [AString (trs_Phase r)]" "IsTerminal (trs_Phase r)"
    "resolvedAt d = trs_ResolvedAt r"
proof -
  from assms obtain m r where m: "Compose X turnID (Some st) c = Inr m" and r: "tdl_Result d = Some r"
    and eq: "trs_TurnID r = tm_TurnID m" "trs_ActionID r = tm_ActionID m" "trs_PlayerID r = tm_PlayerID m"
      "trs_Phase r = tm_Phase m" by (auto simp: tellsOf_def)
  note C = Compose_Inr [OF m]
  have "tm_PlayerID m \<noteq> []" "tm_Phase m \<noteq> []"
    using C(4,5) requireEntityID_ne by (auto simp: TurnManifest_Validate_def IsTerminal_def vocab_strings)
  then have "objectsIn (esTriples st) TurnActionPlayer = [AString (tm_PlayerID m)]"
    "objectsIn (esTriples st) TurnPhaseCurrent = [AString (tm_Phase m)]"
    using C(6) by (auto simp: manifestFacts_def archived_def)
  with C r eq show thesis by (intro that [OF r]) (auto simp: resolvedAt_def)
qed

lemma egress_soleString_Inr:
  "egress_soleString st p = Inr v \<longleftrightarrow>
     objectsIn (esTriples st) p = [AString v] \<or> (v = [] \<and> objectsIn (esTriples st) p = [])"
  by (auto simp: egress_soleString_def Let_def split: list.splits option.splits)

lemma resultOwner_Inr:
  "resultOwner X st = Inr p \<Longrightarrow> egress_soleString st TurnActionPlayer = Inr p \<and> ValidateEntityID X p = None"
  by (auto simp: resultOwner_def split: sum.splits option.splits)

section \<open>The latest of some deliveries\<close>

definition latestOf :: "TurnDelivery option \<Rightarrow> TurnDelivery option list \<Rightarrow> TurnDelivery option" where
  "latestOf best answers =
     foldl (\<lambda>b a. case a of None \<Rightarrow> b | Some d \<Rightarrow> Some (laterOf b d)) best answers"

lemma latestOf_Some:
  assumes "latestOf best answers = Some d"
  shows "(Some d \<in> set answers \<or> best = Some d)
    \<and> (\<forall>d'. Some d' \<in> set answers \<or> best = Some d' \<longrightarrow> resolvedAt d' \<le> resolvedAt d)"
  using assms
proof (induction answers arbitrary: best)
  case (Cons a answers)
  show ?case
  proof (cases a)
    case None
    with Cons show ?thesis by (auto simp: latestOf_def)
  next
    case (Some e)
    have "latestOf (Some (laterOf best e)) answers = Some d" using Cons.prems Some by (simp add: latestOf_def)
    note IH = Cons.IH [OF this]
    have le: "resolvedAt e \<le> resolvedAt (laterOf best e)"
      "best = Some b \<Longrightarrow> resolvedAt b \<le> resolvedAt (laterOf best e)"
      "laterOf best e = e \<or> best = Some (laterOf best e)" for b
      by (auto simp: laterOf_def split: option.splits)
    from IH have m: "resolvedAt (laterOf best e) \<le> resolvedAt d" by blast
    have "resolvedAt e \<le> resolvedAt d" by (rule order_trans [OF le(1) m])
    moreover have "resolvedAt b \<le> resolvedAt d" if "best = Some b" for b
      by (rule order_trans [OF le(2) [OF that] m])
    moreover have "Some d \<in> set answers \<or> e = d \<or> best = Some d" using IH le(3) by auto
    ultimately show ?thesis using IH Some by auto
  qed
qed (auto simp: latestOf_def)

lemma candidateLoop_facts:
  "length cs \<le> MaxLatestCandidates \<Longrightarrow> distinct cs \<Longrightarrow>
     length (candidateLoop cs ts) \<le> MaxLatestCandidates \<and> distinct (candidateLoop cs ts)
     \<and> set (candidateLoop cs ts) \<subseteq> set cs \<union> set ts \<and> (\<exists>r. candidateLoop cs ts = cs @ r)"
proof (induction cs ts rule: candidateLoop.induct)
  case (2 cs t ts)
  show ?case
  proof (cases "List.member cs t \<or> MaxLatestCandidates \<le> length cs")
    case True
    with 2 show ?thesis by auto
  next
    case False
    with 2(2)[OF False] 2(3,4) have "length (candidateLoop (cs @ [t]) ts) \<le> MaxLatestCandidates
        \<and> distinct (candidateLoop (cs @ [t]) ts) \<and> set (candidateLoop (cs @ [t]) ts) \<subseteq> set (cs @ [t]) \<union> set ts
        \<and> (\<exists>r. candidateLoop (cs @ [t]) ts = (cs @ [t]) @ r)"
      by (auto simp: List.member_iff)
    with False show ?thesis by auto
  qed
qed simp

lemma candidateTurns_facts: "length (candidateTurns player) \<le> MaxLatestCandidates" "distinct (candidateTurns player)"
  using candidateLoop_facts [of "[]"] by (simp_all add: candidateTurns_def)

section \<open>The result surface\<close>

text \<open>Reading the graph or an artifact leaves what is observed of the world as it is.\<close>

locale quiet_reads =
  fixes X :: ext
    and R :: "'w Results"
    and view :: "'w \<Rightarrow> 'v"
  assumes read_frame: "rs_GetEntity R i w = (q, w') \<Longrightarrow> view w' = view w"
    and roll_frame: "rs_GetRoll R f w = (ro, w') \<Longrightarrow> view w' = view w"
    and narration_frame: "rs_GetNarration R f w = (na, w') \<Longrightarrow> view w' = view w"
    and stage_frame: "rs_GetCompanionStageRecord R f w = (sg, w') \<Longrightarrow> view w' = view w"
    and decision_frame: "rs_GetCompanionDecision R f w = (dc, w') \<Longrightarrow> view w' = view w"
begin

lemma egress_read_frame: "egress_read R i w = (q, w') \<Longrightarrow> view w' = view w"
  using read_frame by (auto simp: egress_read_def mapErr_def split: prod.splits sum.splits)

lemma egress_roll_frame: "egress_roll X R m w = (q, w') \<Longrightarrow> view w' = view w"
  using roll_frame by (auto simp: egress_roll_def mapErr_Inl split: if_splits elim!: bindM_cases)

lemma resolution_frame: "egress_resolution X R st m w = (q, w') \<Longrightarrow> view w' = view w"
  by (auto simp: egress_resolution_def split: option.splits elim!: bindM_cases dest: egress_roll_frame)

lemma summary_frame: "decisionSummary X R m stage ref w = (q, w') \<Longrightarrow> view w' = view w"
  using decision_frame
  by (auto simp: decisionSummary_def mapErr_Inl Let_def checkM_eq split: if_splits option.splits elim!: bindM_cases)

lemma companion_frame:
  assumes "companionResolution X R st m w = (q, w')"
  shows "view w' = view w"
  using assms stage_frame unfolding companionResolution_def
  by (auto simp: mapErr_Inl checkM_eq split: if_splits option.splits elim!: bindM_cases dest!: summary_frame)

lemma compose_frame: "egress_compose X R turnID i st w = (q, w') \<Longrightarrow> view w' = view w"
  by (auto simp: egress_compose_def Let_def checkM_eq split: if_splits option.splits elim!: bindM_cases
      dest!: resolution_frame companion_frame)

lemma narration_read_frame: "egress_narration X R ref w = (q, w') \<Longrightarrow> view w' = view w"
  using narration_frame by (auto simp: egress_narration_def mapErr_Inl elim!: bindM_cases)

lemma deliverable_frame:
  assumes "deliverable X R turnID i st w = (q, w')"
  shows "view w' = view w"
  using assms unfolding deliverable_def
  by (auto simp: Let_def checkM_eq split: if_splits option.splits elim!: bindM_cases
      dest!: compose_frame narration_read_frame)

lemma ByTurn_frame: "ByTurn X R turnID w = (q, w') \<Longrightarrow> view w' = view w"
  by (auto simp: ByTurn_def elim!: bindM_cases dest!: egress_read_frame deliverable_frame)

lemma candidate_frame:
  assumes "candidateDelivery X R p t w = (q, w')"
  shows "view w' = view w"
proof (cases "egress_turnIDOf X t")
  case (Inr turnID)
  obtain s w1 where s: "egress_read R t w = (s, w1)" by fastforce
  note same = egress_read_frame [OF s]
  show ?thesis
  proof (cases s)
    case (Inl e)
    with assms Inr s same show ?thesis by (auto simp: candidateDelivery_def tryM_def split: if_splits)
  next
    case read: (Inr st)
    obtain d w2 where d: "deliverable X R turnID t st w1 = (d, w2)" by fastforce
    show ?thesis
      using assms Inr s read d same deliverable_frame [OF d]
      by (cases d) (auto simp: candidateDelivery_def tryM_def bindM_def liftR_def split: sum.splits if_splits)
  qed
qed (use assms in \<open>auto simp: candidateDelivery_def\<close>)

lemma latestLoop_frame: "latestLoop X R p ts best w = (q, w') \<Longrightarrow> view w' = view w"
proof (induction ts arbitrary: best w)
  case (Cons t ts)
  from Cons.prems show ?case
    by (auto elim!: bindM_cases dest!: candidate_frame Cons.IH)
qed auto

end

locale turn_results = quiet_reads X R ents
  for X :: ext and R :: "'w Results" and ents :: "'w \<Rightarrow> string \<Rightarrow> EntityState option" +
  assumes read_ok: "rs_GetEntity R i w = (Inr st, w') \<Longrightarrow> ents w i = Some st"
begin

lemma egress_read_ok: "egress_read R i w = (Inr st, w') \<Longrightarrow> ents w i = Some st"
  using read_ok by (auto simp: egress_read_def)

lemma compose_Inr:
  assumes "egress_compose X R turnID i st w = (Inr r, w')"
  shows "\<exists>m. Compose X turnID (Some st) (rs_campaignID R) = Inr m
    \<and> trs_TurnID r = tm_TurnID m \<and> trs_ActionID r = tm_ActionID m \<and> trs_PlayerID r = tm_PlayerID m
    \<and> trs_Phase r = tm_Phase m \<and> trs_NarrationRef r = tm_NarrationRef m
    \<and> trs_FailureReason r = tm_FailureReason m \<and> trs_ResolvedAt r = tm_RecordedAt m"
  using assms by (auto simp: egress_compose_def bindM_Inr Let_def checkM_eq split: if_splits option.splits)

lemma deliverable_Inr:
  assumes "deliverable X R turnID i st w = (Inr d, w')"
  shows "tellsOf X (rs_campaignID R) turnID st d"
proof -
  from assms obtain r n w1 where r: "egress_compose X R turnID i st w = (Inr r, w1)"
    and d: "d = \<lparr>tdl_Protocol = PlayerProtocolV1, tdl_Result = Some r, tdl_Narration = n\<rparr>"
    and v: "TurnDelivery_Validate X d = None"
    by (auto simp: deliverable_def bindM_Inr Let_def checkM_eq wrapErr_def split: if_splits option.splits)
  from compose_Inr [OF r] v show ?thesis by (auto simp: tellsOf_def d)
qed

lemma ByTurn_Inr:
  assumes "ByTurn X R turnID w = (Inr d, w')"
  shows "\<exists>i st. EntityID X (rs_identity R) turnID = Inr i \<and> ents w i = Some st
    \<and> tellsOf X (rs_campaignID R) turnID st d"
  using assms by (auto simp: ByTurn_def bindM_Inr dest!: egress_read_ok deliverable_Inr)

lemma ByTurnForPlayer_Inr:
  assumes "ByTurnForPlayer X R p turnID w = (Inr d, w')"
  shows "\<exists>i st. EntityID X (rs_identity R) turnID = Inr i \<and> ents w i = Some st
    \<and> resultOwner X st = Inr p \<and> tellsOf X (rs_campaignID R) turnID st d"
  using assms
  by (auto simp: ByTurnForPlayer_def checkM_eq bindM_Inr split: option.splits if_splits
      dest!: egress_read_ok deliverable_Inr)

lemma candidate_Inr:
  assumes "candidateDelivery X R p t w = (Inr (Some d), w')"
  shows "\<exists>turnID st. egress_turnIDOf X t = Inr turnID \<and> ents w t = Some st \<and> resultOwner X st = Inr p
    \<and> tellsOf X (rs_campaignID R) turnID st d"
proof -
  from assms obtain turnID where t: "egress_turnIDOf X t = Inr turnID"
    by (auto simp: candidateDelivery_def split: sum.splits)
  obtain s w1 where s: "egress_read R t w = (s, w1)" by fastforce
  with assms t obtain st where st: "s = Inr st"
    by (cases s) (auto simp: candidateDelivery_def tryM_def split: if_splits)
  obtain e w2 where e: "deliverable X R turnID t st w1 = (e, w2)" by fastforce
  have "resultOwner X st = Inr p \<and> e = Inr d"
    using assms t s st e
    by (cases e) (auto simp: candidateDelivery_def tryM_def bindM_def liftR_def split: sum.splits if_splits)
  with t s st e egress_read_ok deliverable_Inr show ?thesis by blast
qed

text \<open>Every candidate was asked in the graph as it was; the answers decide the loop.\<close>

definition asked :: "string \<Rightarrow> (string \<Rightarrow> EntityState option) \<Rightarrow> string \<Rightarrow> TurnDelivery option \<Rightarrow> bool" where
  "asked p E t answer \<longleftrightarrow> (\<exists>v v'. ents v = E \<and> candidateDelivery X R p t v = (Inr answer, v'))"

lemma latestLoop_Inr:
  "latestLoop X R p ts best w = (Inr res, w') \<Longrightarrow>
     \<exists>answers. list_all2 (asked p (ents w)) ts answers \<and> res = latestOf best answers"
proof (induction ts arbitrary: best w)
  case (Cons t ts)
  then obtain a w1 where a: "candidateDelivery X R p t w = (Inr a, w1)"
    and rest: "latestLoop X R p ts (case a of None \<Rightarrow> best | Some d \<Rightarrow> Some (laterOf best d)) w1 = (Inr res, w')"
    by (auto simp: bindM_Inr)
  from Cons.IH [OF rest] candidate_frame [OF a] obtain answers where
    "list_all2 (asked p (ents w)) ts answers"
    "res = latestOf (case a of None \<Rightarrow> best | Some d \<Rightarrow> Some (laterOf best d)) answers" by auto
  moreover have "asked p (ents w) t a" using a by (auto simp: asked_def)
  ultimately show ?case
    by (intro exI [of _ "a # answers"]) (simp add: latestOf_def)
qed (auto simp: latestOf_def)

lemma Latest_Inr:
  assumes "Latest X R p w = (Inr d, w')"
  obtains player answers where "ents w p = Some player" "ents w' = ents w"
    "list_all2 (asked p (ents w)) (candidateTurns player) answers" "Some d \<in> set answers"
    "\<And>e. Some e \<in> set answers \<Longrightarrow> resolvedAt e \<le> resolvedAt d"
proof -
  from assms obtain player w1 where player: "rs_GetEntity R p w = (Inr player, w1)"
    and loop: "latestLoop X R p (candidateTurns player) None w1 = (Inr (Some d), w')"
    by (auto simp: Latest_def checkM_eq bindM_Inr Let_def split: option.splits if_splits)
  note same = read_frame [OF player]
  from latestLoop_Inr [OF loop] obtain answers where
    a: "list_all2 (asked p (ents w)) (candidateTurns player) answers" "latestOf None answers = Some d"
    unfolding same by metis
  show thesis
    using that [OF read_ok [OF player] _ a(1)] latestOf_Some [OF a(2)] latestLoop_frame [OF loop] same by auto
qed

end

section \<open>The router\<close>

text \<open>A sink appends what it is given or fails; the directory is not its business.\<close>

locale delivery_sink =
  fixes R :: "'w Router"
    and sent :: "'w \<Rightarrow> (Session \<times> TurnDelivery) list"
  assumes sink: "ro_Deliver R s d w = (r, w') \<Longrightarrow> sent w' = sent w \<or> sent w' = sent w @ [(s, d)]"
begin

lemma deliverAll_sent:
  "deliverAll R d ss n errs w = (x, w') \<Longrightarrow>
     \<exists>new. sent w' = sent w @ new \<and> set new \<subseteq> set ss \<times> {d}"
proof (induction ss arbitrary: n errs w)
  case (Cons s ss)
  obtain r w1 where r: "ro_Deliver R s d w = (r, w1)" by fastforce
  with Cons.prems obtain n' errs' where "deliverAll R d ss n' errs' w1 = (x, w')"
    by (cases r) auto
  from Cons.IH [OF this] obtain new where new: "sent w' = sent w1 @ new" "set new \<subseteq> set ss \<times> {d}" by blast
  from sink [OF r] show ?case
  proof
    assume "sent w1 = sent w"
    with new show ?thesis by (intro exI [of _ new]) auto
  next
    assume "sent w1 = sent w @ [(s, d)]"
    with new show ?thesis by (intro exI [of _ "(s, d) # new"]) auto
  qed
qed auto

lemma Router_Deliver_sent:
  assumes "Router_Deliver X R (Some d) w = (x, w')"
  shows "\<exists>new. sent w' = sent w @ new
    \<and> (new \<noteq> [] \<longrightarrow> (\<exists>r. tdl_Result d = Some r \<and> set new \<subseteq> set (ro_SessionsFor R (trs_PlayerID r) w) \<times> {d}))"
proof (cases "TurnDelivery_Validate X d")
  case (Some e)
  with assms show ?thesis by (auto simp: Router_Deliver_def Let_def)
next
  case None
  then obtain r where r: "tdl_Result d = Some r" by (auto simp: TurnDelivery_Validate_def split: sum.splits option.splits)
  obtain y where "deliverAll R d (ro_SessionsFor R (trs_PlayerID r) w) 0 [] w = (y, w')"
    using assms None r by (auto simp: Router_Deliver_def Let_def split: prod.splits)
  from deliverAll_sent [OF this] r show ?thesis by auto
qed

end

section \<open>Notification\<close>

text \<open>A notifier whose directory is the gateway's; its reads touch neither the sessions nor the sink.\<close>

locale player_egress =
  results: turn_results X "nt_results N" ents
  + quiet: quiet_reads X "nt_results N" "\<lambda>w. (sent w, gw_sessions G w)"
  + sinks: delivery_sink "nt_router N" sent
  for X :: ext and N :: "'w Notifier" and ents :: "'w \<Rightarrow> string \<Rightarrow> EntityState option"
    and sent :: "'w \<Rightarrow> (Session \<times> TurnDelivery) list" and G :: "'w Gateway" +
  assumes directory: "ro_SessionsFor (nt_router N) = SessionsFor G"
begin

lemma Handle_sent:
  assumes "Notifier_Handle X N data w = (r, w')"
  shows "\<exists>new. sent w' = sent w @ new \<and> (new \<noteq> [] \<longrightarrow> (\<exists>event i st d q.
      ParseResolvedEvent X (nt_publication N) data = Inr event
      \<and> EntityID X (rs_identity (nt_results N)) (rv_TurnID event) = Inr i \<and> ents w i = Some st
      \<and> tellsOf X (rs_campaignID (nt_results N)) (rv_TurnID event) st d \<and> tdl_Result d = Some q
      \<and> set new \<subseteq> set (forPlayer (gw_sessions G w) (trs_PlayerID q)) \<times> {d}))"
proof (cases "ParseResolvedEvent X (nt_publication N) data")
  case (Inl e)
  with assms show ?thesis by (auto simp: Notifier_Handle_def)
next
  case (Inr event)
  obtain b w1 where b: "ByTurn X (nt_results N) (rv_TurnID event) w = (b, w1)" by fastforce
  have same: "sent w1 = sent w" "gw_sessions G w1 = gw_sessions G w"
    using quiet.ByTurn_frame [OF b] by auto
  show ?thesis
  proof (cases b)
    case (Inl e)
    with assms Inr b have "w' = w1" by (auto simp: Notifier_Handle_def bindM_def mapErr_def)
    with same show ?thesis by (intro exI [of _ "[]"]) simp
  next
    case told: (Inr d)
    obtain x where x: "Router_Deliver X (nt_router N) (Some d) w1 = (x, w')"
      using assms Inr b told
      by (cases "Router_Deliver X (nt_router N) (Some d) w1")
        (auto simp: Notifier_Handle_def bindM_def mapErr_def split: prod.splits option.splits)
    from sinks.Router_Deliver_sent [OF x] obtain new where new: "sent w' = sent w1 @ new"
      "new \<noteq> [] \<longrightarrow> (\<exists>q. tdl_Result d = Some q
         \<and> set new \<subseteq> set (ro_SessionsFor (nt_router N) (trs_PlayerID q) w1) \<times> {d})" by blast
    have "ro_SessionsFor (nt_router N) p w1 = forPlayer (gw_sessions G w) p" for p
      by (simp add: directory SessionsFor_def same)
    with new same results.ByTurn_Inr [OF b [unfolded told]] Inr show ?thesis by auto
  qed
qed

end

end
