(* ===== verification/Reference_Gateway.thy ===== *)
theory Reference_Gateway
  imports Reference_Ledger Egress_Scope
begin

text \<open>
  The player's side on the reference world: a world of its own around the reference graph, with the
  session table, a stream that drops a message identifier it has already, and the log of a sink. The
  interpretations discharge the laws of \<open>player_gateway\<close>, \<open>turn_results\<close> and \<open>delivery_sink\<close>;
  the runs submit an action, refuse one and deliver a finished turn.
\<close>

section \<open>The world\<close>

record playWorld =
  pw_graph :: memWorld
  pw_sessions :: sessions
  pw_stream :: "(string \<times> string \<times> string) list"
  pw_sent :: "(Session \<times> TurnDelivery) list"

definition playEnts :: "playWorld \<Rightarrow> string \<Rightarrow> EntityState option" where
  "playEnts w = memEnts (pw_graph w)"

definition playLog :: "playWorld \<Rightarrow> string \<Rightarrow> (string \<times> string) list" where
  "playLog w s = map snd (filter (\<lambda>m. fst m = s) (pw_stream w))"

definition onGraph :: "(memWorld, 'a) M \<Rightarrow> (playWorld, 'a) M" where
  "onGraph m = (\<lambda>w. case m (pw_graph w) of (r, g) \<Rightarrow> (r, w\<lparr>pw_graph := g\<rparr>))"

text \<open>A publication may be refused, lose its acknowledgement or find its identifier taken.\<close>

definition playPublish :: "string \<Rightarrow> string \<Rightarrow> string \<Rightarrow> (playWorld, unit) M" where
  "playPublish s b i = (\<lambda>w. case popFault (pw_graph w) of
       (Some (Refused m), g) \<Rightarrow> (Inl (External ''stream refused''), w\<lparr>pw_graph := g\<rparr>)
     | (f, g) \<Rightarrow>
         (if f = Some AckLost then Inl (External ''stream timed out'') else Inr (),
          w\<lparr>pw_graph := g,
            pw_stream := (if List.member (map fst (playLog w s)) i then pw_stream w else pw_stream w @ [(s, i, b)])\<rparr>))"

lemma onGraph_read:
  assumes "onGraph (gs_GetEntity memGraphStore i) w = (q, w')"
  shows "playEnts w' = playEnts w \<and> playLog w' = playLog w \<and> pw_sessions w' = pw_sessions w \<and> pw_sent w' = pw_sent w"
    and "q = Inr st \<Longrightarrow> playEnts w i = Some st"
    and "q = Inl err \<Longrightarrow> errors_Is err ErrEntityNotFound \<Longrightarrow> playEnts w i = None"
proof -
  obtain g where g: "gs_GetEntity memGraphStore i (pw_graph w) = (q, g)" "w' = w\<lparr>pw_graph := g\<rparr>"
    using assms by (auto simp: onGraph_def split: prod.splits)
  show "playEnts w' = playEnts w \<and> playLog w' = playLog w \<and> pw_sessions w' = pw_sessions w \<and> pw_sent w' = pw_sent w"
    using refTurns.get_frame [OF g(1)] by (simp add: g(2) playEnts_def playLog_def fun_eq_iff)
  show "q = Inr st \<Longrightarrow> playEnts w i = Some st" "q = Inl err \<Longrightarrow> errors_Is err ErrEntityNotFound \<Longrightarrow> playEnts w i = None"
    using refTurns.get_ok refTurns.get_absent g(1) by (auto simp: playEnts_def)
qed

lemma playPublish_facts:
  assumes "playPublish s b i w = (r, w')"
  shows "playEnts w' = playEnts w \<and> pw_sessions w' = pw_sessions w"
    and "r = Inr () \<Longrightarrow> playLog w' = (playLog w)(s := playLog w s @ [(i, b)])
      \<or> (playLog w' = playLog w \<and> i \<in> fst ` set (playLog w s))"
    and "playLog w' = playLog w \<or> playLog w' = (playLog w)(s := playLog w s @ [(i, b)])"
  using assms
  by (auto simp: playPublish_def playEnts_def playLog_def fun_eq_iff List.member_iff
      split: prod.splits option.splits fault.splits if_splits dest: popFault_ents)

section \<open>The gateway\<close>

definition exRoster :: "rosterEntry list" where
  "exRoster = [\<lparr>re_credential = ''secret'', re_playerID = exPlayer\<rparr>]"

text \<open>A request is three named fields.\<close>

definition refRequest :: "(string \<times> string) list \<Rightarrow> string" where
  "refRequest fs = concat (map (\<lambda>(n, v). encField n @ encField v) fs)"

definition decRequest :: "string \<Rightarrow> (string \<times> string) list option" where
  "decRequest raw =
     (case decFields 6 raw of
        Some [a, b, c, d, e, f] \<Rightarrow> Some [(a, b), (c, d), (e, f)]
      | _ \<Rightarrow> None)"

definition requestField :: "(string \<times> string) list \<Rightarrow> string \<Rightarrow> string" where
  "requestField fs n = (case map_of fs n of None \<Rightarrow> [] | Some v \<Rightarrow> v)"

definition refGateway :: "playWorld Gateway" where
  "refGateway =
     \<lparr>gw_auth = (\<lambda>c. liftR (Roster_Authenticate exRoster c)),
      gw_GetEntity = (\<lambda>i. onGraph (gs_GetEntity memGraphStore i)), gw_Publish = playPublish,
      gw_config = \<lparr>gc_CampaignID = exID ''k'' ''c'', gc_SceneID = exScene\<rparr>, gw_subject = ActionSubject,
      gw_now = (\<lambda>w. (9, w)), gw_maxPerPlayer = DefaultMaxConnectionsPerPlayer,
      gw_sessions = pw_sessions, gw_setSessions = (\<lambda>t w. w\<lparr>pw_sessions := t\<rparr>),
      gw_jsonFields = (\<lambda>raw. case decRequest raw of None \<Rightarrow> Inl (External ''invalid character'')
         | Some fs \<Rightarrow> Inr (Some (map fst fs))),
      gw_jsonSubmit = (\<lambda>raw. case decRequest raw of None \<Rightarrow> Inl (External ''invalid character'')
         | Some fs \<Rightarrow> Inr \<lparr>su_Protocol = requestField fs ''protocol'', su_Text = requestField fs ''text'',
             su_IdempotencyKey = requestField fs ''idempotency_key''\<rparr>),
      gw_jsonKey = (\<lambda>raw. case decRequest raw of None \<Rightarrow> Inl (External ''invalid character'')
         | Some fs \<Rightarrow> Inr (requestField fs ''idempotency_key'')),
      gw_marshal = jc_marshal refActions, gw_errorText = (\<lambda>_. ''refused'')\<rparr>"

lemma refGateway_player: "player_gateway refGateway playEnts playLog"
proof unfold_locales
  fix s b i w w' assume "gw_Publish refGateway s b i w = (Inr (), w')"
  then show "playLog w' = (playLog w)(s := playLog w s @ [(i, b)])
      \<or> (playLog w' = playLog w \<and> i \<in> fst ` set (playLog w s))"
    using playPublish_facts(2) by (simp add: refGateway_def)
next
  fix s b i w err w' assume "gw_Publish refGateway s b i w = (Inl err, w')"
  then show "playLog w' = playLog w \<or> playLog w' = (playLog w)(s := playLog w s @ [(i, b)])"
    using playPublish_facts(3) by (simp add: refGateway_def)
next
  fix s b i w u w' assume "gw_Publish refGateway s b i w = (u, w')"
  then show "playEnts w' = playEnts w \<and> gw_sessions refGateway w' = gw_sessions refGateway w"
    using playPublish_facts(1) by (simp add: refGateway_def)
qed (auto simp: refGateway_def playEnts_def playLog_def liftR_def fun_eq_iff
    dest: onGraph_read [unfolded playEnts_def playLog_def fun_eq_iff])

interpretation refPlayer: player_gateway refExt refGateway playEnts playLog
  by (rule refGateway_player)

section \<open>Results and delivery\<close>

text \<open>A surface over turns that reached no artifact.\<close>

definition refResults :: "playWorld Results" where
  "refResults =
     \<lparr>rs_GetEntity = (\<lambda>i. onGraph (gs_GetEntity memGraphStore i)),
      rs_GetRoll = (\<lambda>_. throw ErrArtifactNotFound), rs_GetNarration = (\<lambda>_. throw ErrArtifactNotFound),
      rs_GetCompanionStageRecord = (\<lambda>_. throw ErrArtifactNotFound),
      rs_GetCompanionDecision = (\<lambda>_. throw ErrArtifactNotFound),
      rs_identity = exIdentity, rs_campaignID = exID ''k'' ''c''\<rparr>"

lemma refResults_turns: "turn_results refResults playEnts"
  by unfold_locales (auto simp: refResults_def dest: onGraph_read)

interpretation refResults: turn_results refExt refResults playEnts
  by (rule refResults_turns)

definition refRouter :: "playWorld Router" where
  "refRouter =
     \<lparr>ro_SessionsFor = SessionsFor refGateway,
      ro_Deliver = (\<lambda>s d w. (Inr (), w\<lparr>pw_sent := pw_sent w @ [(s, d)]\<rparr>))\<rparr>"

lemma refRouter_sink: "delivery_sink refRouter pw_sent"
  by unfold_locales (auto simp: refRouter_def)

interpretation refSink: delivery_sink refRouter pw_sent
  by (rule refRouter_sink)

text \<open>The whole path from a notification to the sink.\<close>

definition refNotifier :: "playWorld Notifier" where
  "refNotifier =
     \<lparr>nt_results = refResults, nt_router = refRouter,
      nt_publication = (\<lambda>s. Inr \<lparr>rp_EntityID = s, rp_Subject = SubjectResolved\<rparr>),
      nt_heartbeat = egress_DefaultHeartbeat\<rparr>"

lemma refNotifier_egress: "player_egress refNotifier playEnts pw_sent refGateway"
  by unfold_locales (auto simp: refNotifier_def refResults_def refRouter_def refGateway_def dest: onGraph_read)

interpretation refEgress: player_egress refExt refNotifier playEnts pw_sent refGateway
  by (rule refNotifier_egress)

section \<open>A player at the table\<close>

definition exConn :: "string \<Rightarrow> Connection" where
  "exConn c = \<lparr>cx_ID = c, cx_Adapter = AdapterWebSocket, cx_ReplyTo = ''r'', cx_Writer = ''w''\<rparr>"

definition exSession :: "string \<Rightarrow> Session" where
  "exSession c = \<lparr>se_PlayerID = exPlayer, se_Connection = exConn c\<rparr>"

text \<open>The turn \<open>exBorn\<close> failed; \<open>held\<close> are further facts of the player, \<open>extra\<close> further entities.\<close>

definition exPlay :: "(Predicate \<times> any) list \<Rightarrow> (string \<times> EntityState) list \<Rightarrow> fault option list \<Rightarrow> playWorld" where
  "exPlay held extra fs =
     \<lparr>pw_graph = (exWorld fs)\<lparr>mg_ents :=
        [exEntity exPlayer ([(WorldEntityKind, AString EntityKindPlayer)] @ held),
         exEntity exBorn [(TurnPhaseCurrent, AString PhaseFailed), (TurnFailureReason, AString FailureTurnStranded),
           (TurnActionPlayer, AString exPlayer), (TurnActionScene, AString exScene), (TurnActionRef, AString exRef)]]
        @ extra\<rparr>,
      pw_sessions = snd (sessions_put (newSessions 4) (exSession ''one'')), pw_stream = [], pw_sent = []\<rparr>"

text \<open>The player holds a turn in progress and has a finished one.\<close>

definition exBusy :: playWorld where
  "exBusy = exPlay [(PlayerTurnResolved, AString exBorn), (PlayerTurnCurrent, AString exTurn)]
     [exEntity exTurn [(TurnPhaseCurrent, AString PhaseApplying), (TurnActionPlayer, AString exPlayer)]] []"

definition exRequest :: string where
  "exRequest = refRequest [(''protocol'', ''player/v1''), (''text'', ''go''), (''idempotency_key'', ''k1'')]"

definition exForged :: string where
  "exForged = refRequest [(''protocol'', ''player/v1''), (''player_id'', ''x''), (''idempotency_key'', ''k1'')]"

lemma exRun_authenticate:
  "map_sum id se_PlayerID (fst (gateway_Authenticate refExt refGateway ''secret'' (exConn ''two'') exBusy)) = Inr exPlayer"
  "fst (gateway_Authenticate refExt refGateway ''guess'' (exConn ''two'') exBusy)
     = Inl (Wrapf ''the credential names no player of this world'' ErrUnauthenticated)"
  by code_simp+

lemma exRun_forged:
  "map_option (\<lambda>r. map_option sf_Code (sp_Refusal r)) (fst (fst (Submit refExt refGateway ''one'' exForged exBusy)))
     = Some (Some RefusalServerOwnedField)"
  by code_simp

lemma exRun_latest:
  "map_sum id (\<lambda>d. map_option trs_TurnID (tdl_Result d)) (fst (Latest refExt refResults exPlayer exBusy)) = Inr (Some ''turn-b'')"
  by code_simp

lemma exRun_notify:
  "map (cx_ID \<circ> se_Connection \<circ> fst) (pw_sent (snd (Notifier_Handle refExt refNotifier exBorn exBusy))) = [''one'']"
  by code_simp

section \<open>A submission\<close>

text \<open>The digest stays symbolic: of the identity, only that it is a legal segment matters.\<close>

definition exSubmission :: SubmitAction where
  "exSubmission = \<lparr>su_Protocol = PlayerProtocolV1, su_Text = ''go'', su_IdempotencyKey = ''k1''\<rparr>"

definition exIdle :: "fault option list \<Rightarrow> playWorld" where
  "exIdle fs = exPlay [] [] fs"

lemma refExt_segment:
  assumes "s \<noteq> []" "length s \<le> 128" "CHR ''.'' \<notin> set s"
  shows "ValidateIDSegment refExt s = None"
  using assms
  by (simp add: ValidateIDSegment_def MaxIDSegmentBytes_def refExt_def refSegments_def splitOn_no_sep
      wrapErr_def failIf_def List.member_iff)

lemma exIdentity_legal:
  fixes m defines "aid \<equiv> base32Encode (sha256 m)"
  shows "RequireActionID refExt aid = None" "requireIDSegment refExt f (TurnIDForAction aid) = None" "aid \<noteq> []"
proof -
  have aid: "length aid = 52" "CHR ''.'' \<notin> set aid" by (simp_all add: aid_def base32_digest)
  then show "aid \<noteq> []" by auto
  with aid show "RequireActionID refExt aid = None"
    by (simp add: RequireActionID_def requireActionID_def requireIDSegment_def refExt_segment wrapErr_def
        MaxActionIDBytes_def MaxIDSegmentBytes_def TurnIDPrefix_def refExt_def [THEN arg_cong [where f = MaxEntityIDBytes]])
  have "ValidateIDSegment refExt (TurnIDForAction aid) = None"
    by (rule refExt_segment) (use aid \<open>aid \<noteq> []\<close> in \<open>auto simp: TurnIDForAction_def TurnIDPrefix_def\<close>)
  then show "requireIDSegment refExt f (TurnIDForAction aid) = None" by (simp add: requireIDSegment_def wrapErr_def)
qed

definition exActionID :: string where
  "exActionID = base32Encode (sha256 (actionIDPreimage exPlayer ''k1''))"

lemma exActionID_for: "ActionIDFor refExt exPlayer ''k1'' = Inr exActionID"
proof -
  have "ValidateEntityID refExt exPlayer = None" "RequireIdempotencyKey ''k1'' = None" by code_simp+
  then show ?thesis by (simp add: ActionIDFor_def exActionID_def exIdentity_legal)
qed

lemma exSubmit_parts:
  "sessions_get (gw_sessions refGateway (exIdle fs)) ''one'' = Some (exSession ''one'')"
  "gateway_decode refGateway exRequest = Inr exSubmission"
  by (simp add: sessions_get_def refGateway_def exIdle_def exPlay_def sessions_put_def newSessions_def
      sessions_unbind_def connectionsOf_def Let_def exSession_def exConn_def, code_simp)

definition exIdler :: EntityState where
  "exIdler = snd (exEntity exPlayer [(WorldEntityKind, AString EntityKindPlayer)])"

lemma exRead:
  "gs_GetEntity memGraphStore exPlayer (pw_graph (exIdle [])) = (Inr exIdler, pw_graph (exIdle []))"
  "gs_GetEntity memGraphStore exPlayer (pw_graph (exIdle [None, Some AckLost])) = (Inr exIdler, pw_graph (exIdle [Some AckLost]))"
  "fst (HeldTurns (Some exIdler)) = []"
  by code_simp+

lemma exIdle_graph: "(exIdle fs)\<lparr>pw_graph := pw_graph (exIdle fs')\<rparr> = exIdle fs'"
  by (simp add: exIdle_def exPlay_def)

lemma exAdmit:
  "admit refExt refGateway exPlayer t (exIdle []) = (Inr None, exIdle [])"
  "admit refExt refGateway exPlayer t (exIdle [None, Some AckLost]) = (Inr None, exIdle [Some AckLost])"
  using exRead by (simp_all add: admit_def refGateway_def onGraph_def M_defs exIdle_graph)

lemma exAction_valid:
  "PlayerAction_Validate refExt (canonical refGateway (exSession ''one'') exSubmission exActionID 9) = None"
  "SubmitResponse_Validate refExt (acceptance ''k1'' exActionID 9) = None"
proof -
  note legal = exIdentity_legal [where m = "actionIDPreimage exPlayer ''k1''", folded exActionID_def]
  have ids: "requireEntityID refExt ''player_id'' exPlayer = None"
    "requireEntityID refExt ''campaign_id'' (exID ''k'' ''c'') = None"
    "requireEntityID refExt ''scene_id'' exScene = None"
    "ChannelBinding_Validate \<lparr>cb_Adapter = AdapterWebSocket, cb_ReplyTo = ''r''\<rparr> = None"
    "validateIdempotencyKey ''k1'' = None" by code_simp+
  show "PlayerAction_Validate refExt (canonical refGateway (exSession ''one'') exSubmission exActionID 9) = None"
    using legal ids
    by (simp add: PlayerAction_Validate_def canonical_def exSession_def exConn_def exSubmission_def refGateway_def
        RequireActionID_def requireNonEmpty_def MaxActionTextBytes_def time_IsZero_def)
  show "SubmitResponse_Validate refExt (acceptance ''k1'' exActionID 9) = None"
    using legal ids
    by (simp add: SubmitResponse_Validate_def acceptedResponse_def acceptance_def RequireActionID_def
        ParsePlayerProtocolVersion_def playerProtocolVersions_def List.member_iff errOf_def time_IsZero_def)
qed

text \<open>The bytes the submission publishes.\<close>

definition exBody :: string where
  "exBody = projr (jc_marshal refActions (canonical refGateway (exSession ''one'') exSubmission exActionID 9))"

lemma exPublish:
  "gateway_publish refGateway (canonical refGateway (exSession ''one'') exSubmission exActionID 9) (exIdle []) =
     (Inr (), (exIdle [])\<lparr>pw_stream := [(ActionSubject, exActionID, exBody)]\<rparr>)"
  "\<exists>e. gateway_publish refGateway (canonical refGateway (exSession ''one'') exSubmission exActionID 9) (exIdle [Some AckLost]) =
     (Inl e, (exIdle [])\<lparr>pw_stream := [(ActionSubject, exActionID, exBody)]\<rparr>)"
  by (simp_all add: gateway_publish_def exBody_def refGateway_def refActions_def M_defs playPublish_def exIdle_def
      exPlay_def popFault_def playLog_def canonical_def exWorld_def List.member_iff)

lemma exRun_submit:
  "Submit refExt refGateway ''one'' exRequest (exIdle []) =
     ((Some (acceptance ''k1'' exActionID 9), None), (exIdle [])\<lparr>pw_stream := [(ActionSubject, exActionID, exBody)]\<rparr>)"
proof -
  have "se_PlayerID (exSession ''one'') = exPlayer" "su_IdempotencyKey exSubmission = ''k1''"
    "gw_now refGateway v = (9, v)" "pa_ArrivedAt (canonical refGateway s u a 9) = 9" for v s u a
    by (simp_all add: exSession_def exSubmission_def refGateway_def canonical_def)
  then show ?thesis
    using exSubmit_parts exActionID_for exAdmit(1) exAction_valid exPublish(1)
    by (simp add: Submit_def takeAction_def Let_def)
qed

text \<open>The same with the acknowledgement of the publication lost.\<close>

lemma exRun_submit_lost:
  "\<exists>e. Submit refExt refGateway ''one'' exRequest (exIdle [None, Some AckLost]) =
     (unavailable ''k1'' e, (exIdle [])\<lparr>pw_stream := [(ActionSubject, exActionID, exBody)]\<rparr>)"
proof -
  have "se_PlayerID (exSession ''one'') = exPlayer" "su_IdempotencyKey exSubmission = ''k1''"
    "gw_now refGateway v = (9, v)" for v
    by (simp_all add: exSession_def exSubmission_def refGateway_def)
  then show ?thesis
    using exSubmit_parts exActionID_for exAdmit(2) exAction_valid(1) exPublish(2)
    by (auto simp: Submit_def takeAction_def Let_def)
qed

end
