(* ===== verification/Spec2Isabelle.thy ===== *)
theory Spec2Isabelle
  imports Reference_Cases Reference_Campaign Reference_Gateway
begin

text \<open>
  SemMachina is a turn engine for mystery role play on a semantic graph. A player submits an action;
  the engine records it as a turn, walks the turn through its phases, lets language models propose
  what the action means, checks every proposal against closed vocabularies and against the graph,
  rolls dice that can be replayed, applies effects that can be repeated without harm, reveals
  evidence and judges accusations only as the authored case allows, archives the turn and tells the
  player. This development models that core in HOL, function by function, and proves what makes it
  correct. The properties of this theory come last; the theories below hold the model and the lemmas
  they rest on.

  \<^bold>\<open>The program's parts and how they meet.\<close> A submission enters by the gateway
  (\<^verbatim>\<open>internal/gateway\<close>), which binds it to the player and actor of its session and publishes
  it on the ingress stream. The intake and the recorder (\<^verbatim>\<open>internal/turn\<close>) make one turn of it
  and move the turn through its phases; the rules (\<^verbatim>\<open>internal/rulepack\<close>) decide which phase
  starts which stage (\<^verbatim>\<open>internal/stage\<close>). The scene (\<^verbatim>\<open>internal/scene\<close>) and the
  epistemic projector (\<^verbatim>\<open>internal/epistemic\<close>) decide what each persona may see. The
  dice (\<^verbatim>\<open>internal/dice\<close>) roll, the applier (\<^verbatim>\<open>internal/effect\<close>) writes the effects, the
  granter (\<^verbatim>\<open>internal/knowledge\<close>) writes what an actor learned, the committer
  (\<^verbatim>\<open>internal/accusation\<close>) judges accusations and the lifecycle (\<^verbatim>\<open>internal/caseflow\<close>)
  moves the case. All of them reach the graph by one client (\<^verbatim>\<open>internal/graphio\<close>), under the
  ownership contracts of \<^verbatim>\<open>internal/projectioncontract\<close>, and the object store by another
  (\<^verbatim>\<open>internal/content\<close>). A finished turn is archived by the ledger
  (\<^verbatim>\<open>internal/ledger\<close>) and told to its player by the egress (\<^verbatim>\<open>internal/egress\<close>). The
  vocabulary (\<^verbatim>\<open>internal/vocabulary\<close>) and the payloads (\<^verbatim>\<open>internal/payload\<close>) are the
  data all of them exchange.

  \<^bold>\<open>How code is rendered.\<close> A function of the source is a definition of the same name, with the
  package in front where two packages share it; a struct is a record whose fields carry a prefix; a
  string is its list of bytes; an error is a \<open>gerror option\<close>, a value with an error is
  \<open>gerror + 'a\<close>, and error texts keep the head of their format only. A call with effects is of type
  \<open>('w, 'a) M\<close>: it takes the world and returns its result and the next world, so lost
  acknowledgements and other processes' writes are worlds like any other. \<^verbatim>\<open>int64\<close> and
  \<^verbatim>\<open>uint64\<close> are words where they can wrap. A Go map is an association list in the order Go
  ranges over it, or a partial map where the order cannot be seen.

  \<^bold>\<open>What is a parameter.\<close> Code outside the repository is never defined here. The record \<open>ext\<close>
  holds the SemStreams grammar of identifiers and its error codes; \<open>rule_ext\<close> the validator of
  rules; \<open>MutationClient\<close> and the requester the graph service; \<open>object_backend\<close> and
  \<open>exact_claims\<close> the stores; streams, publishers, JSON codecs, clocks, pauses, entropy,
  authenticators and sinks are fields of the component that uses them. What the code relies on of
  them are the assumptions of the locales, listed with the theories. Every locale is interpreted in a
  \<open>Reference_\<close> theory, where the parameters are concrete functions over an in-memory world with a
  schedule of faults, and the components are the code's own definitions.

  \<^bold>\<open>The theories.\<close>
  \<^item> \<open>Prelude\<close>: errors with \<^verbatim>\<open>errors.Is\<close> and \<^verbatim>\<open>errors.As\<close>, the string and slice functions the
    code calls, triples and entities, effectful calls, and the lemmas the components share.
  \<^item> \<open>Vocab_Enums\<close> (\<^verbatim>\<open>enum.go\<close>, \<^verbatim>\<open>classes.go\<close>, \<^verbatim>\<open>attributes.go\<close> and the other member sets;
    locale \<open>closed_enum\<close>), \<open>Vocab_Predicates\<close> (\<^verbatim>\<open>predicates.go\<close>, \<^verbatim>\<open>registration.go\<close>,
    \<^verbatim>\<open>world.go\<close>, \<^verbatim>\<open>references.go\<close>) and \<open>Vocab_Resolution\<close> (\<^verbatim>\<open>phases.go\<close>,
    \<^verbatim>\<open>resolution.go\<close>, \<^verbatim>\<open>artifacts.go\<close>; locale \<open>phase_graph\<close>): parsing a member is exact, every
    predicate is registered once, the phases form a ranked graph with terminal ends.
  \<^item> \<open>Hashing\<close> (SHA-256, the PCG generator, \<^verbatim>\<open>campaign/seed.go\<close>,
    \<^verbatim>\<open>payload/deterministic.go\<close>): what is hashed for a deterministic identity determines its
    members. The hash is computed by definitions but never evaluated in a proof; no collision resistance is assumed.
  \<^item> \<open>Payload_Core\<close>, \<open>Payload_Turn\<close>, \<open>Payload_Verdict\<close>, \<open>Payload_Case\<close>, \<open>Payload_Results\<close>,
    \<open>Payload_Submit\<close>: the files of \<^verbatim>\<open>internal/payload\<close> with their validators and their
    projections to triples: what validates, what is projected, and what can be read back.
  \<^item> \<open>Dice\<close> (\<^verbatim>\<open>roller.go\<close>, \<^verbatim>\<open>resolver.go\<close>): bounds of a roll, the seed of a turn, and the
    resolver that reports a recorded roll instead of a second one.
  \<^item> \<open>Projection_Contract\<close> (\<^verbatim>\<open>contracts.go\<close>): the predicate groups a component may write;
    every writable world fact has exactly one target among the effect groups.
  \<^item> \<open>Graphio\<close> (\<^verbatim>\<open>store.go\<close>, \<^verbatim>\<open>retry.go\<close>): locale \<open>mutation_client\<close> is the documented service,
    locale \<open>graph_store\<close> what the engine is promised; the sublocale proof is the correctness of the
    store's handling of conflicts and of commits of unknown fate.
  \<^item> \<open>Effect_Plan\<close>, \<open>Effect\<close> (\<^verbatim>\<open>plan.go\<close>, \<^verbatim>\<open>applier.go\<close>, \<^verbatim>\<open>errors.go\<close>): planning checks every
    intent, and applying refines the fold of the meanings of the intents over the graph.
  \<^item> \<open>Turn\<close>, \<open>Turn_Safety\<close> (\<^verbatim>\<open>identity.go\<close>, \<^verbatim>\<open>recorder.go\<close>, \<^verbatim>\<open>intake.go\<close>, \<^verbatim>\<open>stream.go\<close>;
    locales \<open>turn_recorder\<close>, \<open>plain_intake\<close>): every operation of the recorder on every branch, a step
    relation over its calls with interference, and the intake's acknowledgements.
  \<^item> \<open>Content_Ref\<close>, \<open>Content_Artifacts\<close>, \<open>Content_Store\<close> (\<^verbatim>\<open>ref.go\<close>, \<^verbatim>\<open>store.go\<close>,
    \<^verbatim>\<open>managed.go\<close>; locales \<open>object_backend\<close>, \<open>exact_claims\<close>): references and keys are
    unambiguous, an artifact is read back, an exact claim is decided once.
  \<^item> \<open>Knowledge\<close>, \<open>Knowledge_Commit\<close> (locale \<open>knowledge_granter\<close>): which evidence a decision may
    reveal to whom, and that the grants and their receipt are all that is written.
  \<^item> \<open>Accusation\<close>, \<open>Accusation_Commit\<close> (locale \<open>accusation_committer\<close>): the verdict, the authorizer
    of the denouement, the commit and the consumer's acknowledgement.
  \<^item> \<open>Caseflow\<close>, \<open>Case_Progress\<close> (locales \<open>receipt_recorder\<close>, \<open>exact_rule_engine\<close>,
    \<open>case_progressor\<close>): the declared workflow, the receipts, the rules that move the case, and the
    progress of a turn.
  \<^item> \<open>Rule_Subjects\<close>, \<open>Rule_Pack\<close>, \<open>Rule_Turns\<close> (\<^verbatim>\<open>subjects.go\<close>, \<^verbatim>\<open>pack.go\<close>,
    \<^verbatim>\<open>turn-sequencing.json\<close>; locale \<open>rule_engine\<close>): the load-time gate, the shipped rules, and what
    a pack that passed the gate can do to a turn.
  \<^item> \<open>Scene\<close> (locales \<open>batch_reader\<close>, \<open>scene_graph\<close>), \<open>Epistemic\<close>, \<open>Epistemic_Project\<close>,
    \<open>Epistemic_Policy\<close>, \<open>Epistemic_Sealed\<close>, \<open>Epistemic_Graph\<close> (locale \<open>projector_graph\<close>): the
    assembled scene, the scope of a case, the policy of every purpose, and what a projection can show.
  \<^item> \<open>Stage_Entry\<close> (\<^verbatim>\<open>trigger.go\<close>, \<^verbatim>\<open>enter.go\<close>, \<^verbatim>\<open>complete.go\<close>): triggers, entering a phase,
    and the stage that closes a turn.
  \<^item> \<open>Campaign\<close> (\<^verbatim>\<open>identity.go\<close>, \<^verbatim>\<open>experience.go\<close>, \<^verbatim>\<open>gate.go\<close>, \<^verbatim>\<open>marker.go\<close>; locales
    \<open>campaign_gate\<close>, \<open>campaign_waiter\<close>): the claim, the import marker, and the wait for it.
  \<^item> \<open>Ledger\<close>, \<open>Ledger_Once\<close>, \<open>Ledger_Replay\<close> (\<^verbatim>\<open>manifest.go\<close>, \<^verbatim>\<open>writer.go\<close>,
    \<^verbatim>\<open>reconcile.go\<close>, \<^verbatim>\<open>replay.go\<close>, \<^verbatim>\<open>stream.go\<close>; locale \<open>campaign_ledger\<close>): a turn is archived
    as it is and once, and an archived roll is verified by rolling it again.
  \<^item> \<open>Gateway_Session\<close>, \<open>Gateway\<close> (\<^verbatim>\<open>session.go\<close>, \<^verbatim>\<open>actionid.go\<close>, \<^verbatim>\<open>gateway.go\<close>; locale
    \<open>player_gateway\<close>): the session table, action identities, and each refusal of a submission.
  \<^item> \<open>Egress\<close>, \<open>Egress_Scope\<close> (\<^verbatim>\<open>results.go\<close>, \<^verbatim>\<open>router.go\<close>, \<^verbatim>\<open>notifier.go\<close>; locales
    \<open>quiet_reads\<close>, \<open>turn_results\<close>, \<open>delivery_sink\<close>, \<open>player_egress\<close>): what a delivery tells, whose
    latest result is found, and to which sessions it goes.
  \<^item> \<open>Reference_Graph\<close>, \<open>Reference_Engine\<close>, \<open>Reference_Knowledge\<close>, \<open>Reference_Scene\<close>,
    \<open>Reference_Cases\<close>, \<open>Reference_Campaign\<close>, \<open>Reference_Ledger\<close>, \<open>Reference_Gateway\<close>: the concrete
    world and the interpretations. \<open>Example_World\<close>, \<open>Example_Turns\<close>, \<open>Example_Rolls\<close> and
    \<open>Example_Rules\<close>: the runs at which the properties are applied.

  \<^bold>\<open>What the properties show.\<close> Effects: a batch has exactly its meaning, recovery by applying again
  converges, a refusal writes nothing, the marker comes last. Turns: phases only proceed along the
  graph, an action has one turn, redelivery overwrites nothing, a drop loses nothing and an
  acknowledgement is durable, and the shipped rules can drive every turn to an end. Knowledge and the
  case: projections show a persona only what its purpose allows and depend on the case only where they
  may, grants are authorised and accounted for, verdicts are exact, case receipts and progress land in
  order. Records: campaigns are claimed once, references read back, claims are immutable, turns are
  rolled once, archived once and replayed by the dice themselves. Players: a submission speaks for its
  session only, a result reaches nobody but its player. Two properties state how the code falls short
  of its words or rests on time: the gateway's answer to a lost acknowledgement, and the wait for
  another boot's import.

  \<^bold>\<open>Bounds and fuel.\<close> A reconcile is tried at most four times (\<open>revisionConflictAttempts\<close>), a
  reconciliation of the ledger reads at most 1000 pages (\<open>maxReconcilePages\<close>), a search for the
  latest result asks at most eight turns (\<open>MaxLatestCandidates\<close>); these are the code's own bounds. The
  decoders of bytes take the length of their text as fuel, and every step consumes at least one byte.
  The wait for an import has no bound of its own in the code but the clock: its fuel counts polls, and
  \<open>await_import_ends\<close> proves how many are enough.

  \<^bold>\<open>Not modelled.\<close> The stage processors, the persona loops and their prompts, and the companion's
  executor (they start language-model loops of SemStreams; their outputs enter as payloads, which are
  modelled with their validators), the resumption of interrupted turns, the import of world packages,
  the WebSocket transport of the player socket, boot, commands and the rule engine's configuration
  (wiring), the registry of payload types, and test support. Goroutines are not modelled as such: a
  component's calls are sequential, and concurrency appears as interference on the world between calls.
\<close>

section \<open>Effects\<close>

lemma applier_store: "ap_store \<lparr>ap_store = S, ap_specs = bnds\<rparr> = S"
  by simp





text \<open>
  C3: A batch that is refused for any reason other than an interrupted commit (invalid, missing
  or wrongly typed entities, out-of-bounds values, a different recorded batch, an unreadable
  turn) has written nothing: the graph is the one before.
\<close>

theorem effect_refusal_writes_nothing:
  assumes "mutation_client X c ents"
    and "Apply X \<lparr>ap_store = graphioStore X c, ap_specs = bnds\<rparr> at (Some b) turn ref w = (Inl e, w')"
    and "\<not> isCommitError e"
  shows "ents w' = ents w"
proof -
  note gs = mutation_client.store_contract [OF assms(1)]
  show ?thesis
  proof (cases rule: graph_store.Apply_cases [OF gs assms(2) applier_store, case_names refused already committing])
    case (committing w1 p)
    then have "isCommitError e"
      using graph_store.commit_cells(3) [OF gs committing(2), of "specBatch X (eb_Intents b) (objs ents w)" e]
      by auto
    with assms(3) show ?thesis by simp
  qed auto
qed

theorem effect_refusal_writes_nothing_witness:
  "memEnts (snd (Apply refExt exApplier 7 (Some exBadBatch) exTurn exRef (exGraph []))) = memEnts (exGraph [])"
proof -
  obtain r w' where run: "Apply refExt exApplier 7 (Some exBadBatch) exTurn exRef (exGraph []) = (r, w')"
    by fastforce
  then obtain e where "r = Inl e" "\<not> isCommitError e"
    using exRun_refused by (auto simp: isRefused_def split: sum.splits)
  with run show ?thesis
    using effect_refusal_writes_nothing [OF mem.mutation_client_axioms, of engineAttributeSpecs 7 exBadBatch
        exTurn exRef "exGraph []" e w'] by (simp add: exApplier_def)
qed



text \<open>
  C5: Immutable authored truth is never written: whatever a batch says and however its
  application ends, every protected predicate of every entity holds the same objects before and
  after.
\<close>

theorem effect_protected_untouched:
  assumes "mutation_client X c ents"
    and "Apply X \<lparr>ap_store = graphioStore X c, ap_specs = bnds\<rparr> at (Some b) turn ref w = (r, w')"
    and "IsProtectedPredicate p"
  shows "objs ents w' i p = objs ents w i p"
proof -
  note gs = mutation_client.store_contract [OF assms(1)]
  have nw: "\<not> writable p" using assms(3) writable_not_protected by blast
  have nm: "p \<noteq> TurnEffectsBatch" "p \<noteq> TurnEffectsRef" using assms(3) marker_not_protected by auto
  have same: "marked turn (eb_BatchID b) ref (specBatch X (eb_Intents b) (objs ents w)) i p = objs ents w i p"
    using nm specBatch_unwritable [OF nw] by (simp add: marked_def)
  show ?thesis
  proof (cases rule: graph_store.Apply_cases [OF gs assms(2) applier_store, case_names refused already committing])
    case (committing w1 p1)
    note cc = graph_store.commit_cells [OF gs committing(2)]
    show ?thesis
    proof (cases r)
      case (Inl e)
      with cc(3) [OF _ Inl] committing(1,3) same nw show ?thesis by metis
    next
      case (Inr out)
      with cc(2) [OF _ Inr] committing(1,3) same show ?thesis by simp
    qed
  qed auto
qed

theorem effect_protected_untouched_witness:
  "objs memEnts (snd (Apply refExt exApplier 7 (Some exBatch) exTurn exRef (exGraph exFaults))) exRook
     CaseSolutionCulprit = objs memEnts (exGraph exFaults) exRook CaseSolutionCulprit"
proof -
  obtain r w' where run: "Apply refExt exApplier 7 (Some exBatch) exTurn exRef (exGraph exFaults) = (r, w')"
    by fastforce
  have "IsProtectedPredicate CaseSolutionCulprit"
    by (simp add: IsProtectedPredicate_def immutablePredicates_def)
  with run show ?thesis
    using effect_protected_untouched [OF mem.mutation_client_axioms, of engineAttributeSpecs 7 exBatch exTurn
        exRef "exGraph exFaults" r w' CaseSolutionCulprit exRook] by (simp add: exApplier_def)
qed

text \<open>
  C7: Every intent of an applied batch was well typed against the graph it was applied to: its
  target exists with a kind that may carry the predicate, an attribute value is inside its
  configured bounds, and an entity reference names another existing entity of an allowed kind.
\<close>

theorem effect_intents_typed:
  assumes "mutation_client X c ents"
    and "Apply X \<lparr>ap_store = graphioStore X c, ap_specs = bnds\<rparr> at (Some b) turn ref w = (Inr out, w')"
    and "eo_Applied out" and "i \<in> set (eb_Intents b)"
    and "EffectIntent_Mutation X i = Inr (p, object)"
  shows "(\<exists>k. kindIn (ents w) (ei_Target i) k \<and> AllowsSubjectKind p k)
    \<and> (\<forall>a. AttributeForPredicate p = Some a \<longrightarrow> (\<exists>v. object = AInt v \<and> SpecSet_Check bnds a v = None))
    \<and> (IsEntityReference p \<longrightarrow> (\<exists>oid k. object = AString oid \<and> oid \<noteq> ei_Target i
         \<and> kindIn (ents w) oid k \<and> AllowsObjectKind p k))"
proof -
  note gs = mutation_client.store_contract [OF assms(1)]
  have "intentOK X bnds (ents w) i"
  proof (cases rule: graph_store.Apply_cases [OF gs assms(2) applier_store, case_names refused already committing])
    case (committing w1 p)
    then show ?thesis using assms(4) by simp
  qed (use assms(3) in auto)
  then show ?thesis
    using assms(5) by (auto simp: intentOK_def checkBounds_def split: any.splits)
qed

theorem effect_intents_typed_witness:
  "\<exists>k. kindIn (memEnts (exGraph [])) exRook k \<and> AllowsSubjectKind CharacterStatusCurrent k"
proof -
  let ?i = "(exIntent EffectSetStatus exRook)\<lparr>ei_Status := StatusWounded\<rparr>"
  obtain r w' where run: "Apply refExt exApplier 7 (Some exBatch) exTurn exRef (exGraph []) = (r, w')"
    by fastforce
  then obtain out where out: "r = Inr out" "eo_Applied out"
    using exRun_applied by (auto simp: isApplied_def split: sum.splits)
  have m: "EffectIntent_Mutation refExt ?i = Inr (CharacterStatusCurrent, AString StatusWounded)"
    by code_simp
  have "?i \<in> set (eb_Intents exBatch)" by (simp add: exBatch_def NewEffectBatch_def)
  then show ?thesis
    using run out effect_intents_typed [OF mem.mutation_client_axioms, of engineAttributeSpecs 7 exBatch exTurn
        exRef "exGraph []" out w' ?i CharacterStatusCurrent "AString StatusWounded"] m
    by (simp add: exApplier_def exIntent_def)
qed

section \<open>Turns\<close>

text \<open>
  The turn properties hold for a recorder over the graph client whose action store and clock leave the
  graph alone; the two facts are spelled out in each of them.
\<close>

lemma recorder_over_client:
  assumes "mutation_client X c ents" and "tr_store R = graphioStore X c"
    and "\<forall>i a w. ents (snd (tr_actions R i a w)) = ents w" and "\<forall>w. ents (snd (tr_now R w)) = ents w"
  shows "turn_recorder X (graphioStore X c) ents R"
  using assms(2-4)
  by (intro turn_recorder.intro turn_recorder_axioms.intro mutation_client.store_contract [OF assms(1)])
    (metis snd_conv)+

lemma exRecorder_fields:
  "tr_store exRecorder = graphioStore refExt memClient"
  "memEnts (snd (tr_actions exRecorder i a w)) = memEnts w" "memEnts (snd (tr_now exRecorder w)) = memEnts w"
  "tr_identity exRecorder = exIdentity"
  using refTurns.actions_frame [of exIdentity i a w "fst (tr_actions exRecorder i a w)" "snd (tr_actions exRecorder i a w)"]
    refTurns.clock_frame [of exIdentity w]
  by (simp_all add: exRecorder_def refTurns.store) (simp_all add: memGraphStore_def refRecorder_def)

lemma exTurn_phase: "inPhase (objs memEnts (exWorld fs)) exTurn PhaseApplying"
proof -
  have "TurnPhase_Valid PhaseApplying" by code_simp
  then show ?thesis
    by (simp add: inPhase_def graphOf_def memEnts_def exWorld_def exGraph_def exEntity_def exRook_def exVex_def
        exPlayer_def exTurn_def exID_def pred_strings)
qed

text \<open>
  C4: Over any run of recorder calls on any turns, whatever each call returns and with lost
  acknowledgements and other components' writes in between, a turn never goes back: its phase at
  the end is reachable from its phase at the start along the sequencing table, and a turn that
  was complete or failed stays exactly that.
\<close>

theorem turn_phases_only_proceed:
  assumes "mutation_client X c ents" and "tr_store R = graphioStore X c"
    and "\<forall>i a w. ents (snd (tr_actions R i a w)) = ents w" and "\<forall>w. ents (snd (tr_now R w)) = ents w"
    and "(recorder_step X ents R)\<^sup>*\<^sup>* w w'" and "inPhase (objs ents w) i p"
  shows "\<exists>q. inPhase (objs ents w') i q \<and> PhaseFollows\<^sup>*\<^sup>* p q \<and> (IsTerminal p \<longrightarrow> q = p)"
proof -
  note tr = recorder_over_client [OF assms(1-4)]
  from turn_recorder.recorder_run_proceeds [OF tr assms(5)] assms(6)
  obtain q where "inPhase (objs ents w') i q" "PhaseFollows\<^sup>*\<^sup>* p q" by (auto simp: phasesProceed_def)
  moreover have "IsTerminal p \<longrightarrow> q = p" using turn_phases.terminal_absorbs \<open>PhaseFollows\<^sup>*\<^sup>* p q\<close> by blast
  ultimately show ?thesis by blast
qed

theorem turn_phases_only_proceed_witness:
  "\<exists>q. inPhase (objs memEnts (snd (Fail refExt exRecorder ''turn-a'' exTurn FailureTurnStranded zeroRef
      (exWorld exFaults)))) exTurn q \<and> PhaseFollows\<^sup>*\<^sup>* PhaseApplying q \<and> (IsTerminal PhaseApplying \<longrightarrow> q = PhaseApplying)"
proof -
  let ?w' = "snd (Fail refExt exRecorder ''turn-a'' exTurn FailureTurnStranded zeroRef (exWorld exFaults))"
  have "recorder_step refExt memEnts exRecorder (exWorld exFaults) ?w'"
    by (rule recorder_step.fails) (rule prod.collapse [symmetric])
  then show ?thesis
    using turn_phases_only_proceed [OF mem.mutation_client_axioms exRecorder_fields(1) _ _
        r_into_rtranclp exTurn_phase] by (simp add: exRecorder_fields)
qed

text \<open>
  C14: What a transition reports is what happened: the turn was in the reported previous phase
  and is now in the reported phase; it advanced exactly along an edge of the sequencing table,
  resumed exactly when it already was in that live phase, or declined exactly when it was
  finished or further on; and only the turn's own phase facts and players' resolved pointers can
  have changed.
\<close>

theorem turn_transition_exact:
  assumes "mutation_client X c ents" and "tr_store R = graphioStore X c"
    and "\<forall>i a w. ents (snd (tr_actions R i a w)) = ents w" and "\<forall>w. ents (snd (tr_now R w)) = ents w"
    and "transition X R t i to reason d w = (Inr x, w')"
  shows "inPhase (objs ents w) i (tx_Previous x) \<and> inPhase (objs ents w') i (tx_Phase x)
    \<and> (tx_Outcome x = OutcomeAdvanced \<and> PhaseFollows (tx_Previous x) to \<and> tx_Phase x = to
       \<or> tx_Outcome x = OutcomeResumed \<and> tx_Previous x = to \<and> tx_Phase x = to \<and> \<not> IsTerminal to
       \<or> tx_Outcome x = OutcomeDeclined \<and> tx_Phase x = tx_Previous x \<and> \<not> PhaseFollows (tx_Previous x) to
         \<and> (IsTerminal (tx_Previous x) \<or>
            (\<exists>k j. PhaseRank (tx_Previous x) = Some k \<and> PhaseRank to = Some j \<and> j < k)))
    \<and> offCells ({i} \<times> {TurnPhaseCurrent, TurnFailureReason, TurnFailureRef} \<union> UNIV \<times> {PlayerTurnResolved})
        (objs ents w) (objs ents w')"
proof -
  note tr = recorder_over_client [OF assms(1-4)]
  from turn_recorder.transition_Inr [OF tr assms(5)] turn_recorder.transition_off [OF tr assms(5)]
  show ?thesis by blast
qed

theorem turn_transition_exact_witness:
  "\<exists>x. fst (transition refExt exRecorder ''turn-a'' exTurn PhaseCompanion [] zeroRef (exWorld [])) = Inr x
    \<and> inPhase (objs memEnts (exWorld [])) exTurn (tx_Previous x)
    \<and> inPhase (objs memEnts (snd (transition refExt exRecorder ''turn-a'' exTurn PhaseCompanion [] zeroRef (exWorld []))))
        exTurn (tx_Phase x)"
proof -
  have "Advance refExt exRecorder ''turn-a'' exTurn PhaseCompanion =
      transition refExt exRecorder ''turn-a'' exTurn PhaseCompanion [] zeroRef"
    by (simp add: Advance_def vocab_strings)
  then obtain x w' where "transition refExt exRecorder ''turn-a'' exTurn PhaseCompanion [] zeroRef (exWorld []) = (Inr x, w')"
    using exRun_advance by (cases "Advance refExt exRecorder ''turn-a'' exTurn PhaseCompanion (exWorld [])") auto
  then show ?thesis
    using turn_transition_exact [OF mem.mutation_client_axioms, of exRecorder "''turn-a''" exTurn PhaseCompanion
        "[]" zeroRef "exWorld []" x w'] by (auto simp: exRecorder_fields)
qed

text \<open>
  C21: An accepted action has exactly one turn, at the identifier derived from the action: a
  missing turn is created in phase accepted, an existing one is reported in the phase it is in,
  and afterwards either the turn is finished, or the player's pointer is at it, or it stayed at
  another turn of the player that is still live.
\<close>

theorem turn_accepted_once:
  assumes "mutation_client X c ents" and "tr_store R = graphioStore X c"
    and "\<forall>i a w. ents (snd (tr_actions R i a w)) = ents w" and "\<forall>w. ents (snd (tr_now R w)) = ents w"
    and "Accept X R (Some a) w = (Inr ac, w')"
  shows "EntityIDForAction X (tr_identity R) (pa_ActionID a) = Inr (ac_TurnID ac, ac_TurnEntityID ac)
    \<and> inPhase (objs ents w') (ac_TurnEntityID ac) (ac_Phase ac)
    \<and> (ents w (ac_TurnEntityID ac) = None \<longrightarrow> ac_Created ac)
    \<and> (ac_Created ac \<longrightarrow> ac_Phase ac = PhaseAccepted)
    \<and> (IsTerminal (ac_Phase ac)
       \<or> objs ents w' (pa_PlayerID a) PlayerTurnCurrent = {#AString (ac_TurnEntityID ac)#}
       \<or> (\<exists>i p. i \<noteq> ac_TurnEntityID ac \<and> AString i \<in># objs ents w' (pa_PlayerID a) PlayerTurnCurrent
            \<and> inPhase (objs ents w') i p \<and> \<not> IsTerminal p))"
  by (rule turn_recorder.Accept_Inr [OF recorder_over_client [OF assms(1-4)] assms(5)])

theorem turn_accepted_once_witness:
  "inPhase (objs memEnts exAccepted) exBorn PhaseAccepted"
proof -
  have "Accept refExt exRecorder (Some exAction) (exWorld []) =
      (Inr \<lparr>ac_TurnID = ''turn-b'', ac_TurnEntityID = exBorn, ac_Created = True, ac_Phase = PhaseAccepted\<rparr>, exAccepted)"
    by (simp add: exAccepted_def exRun_accept prod_eq_iff)
  from turn_accepted_once [OF mem.mutation_client_axioms _ _ _ this] show ?thesis
    by (simp add: exRecorder_fields)
qed

text \<open>
  C22: Redelivering an action is harmless: however accepting it ends, a turn that already exists
  keeps every fact, nothing else in the graph changes but the player's current-turn pointer, and
  not even that when the pointer names another turn of the player that is still live.
\<close>

theorem turn_accept_overwrites_nothing:
  assumes "mutation_client X c ents" and "tr_store R = graphioStore X c"
    and "\<forall>i a w. ents (snd (tr_actions R i a w)) = ents w" and "\<forall>w. ents (snd (tr_now R w)) = ents w"
    and "Accept X R (Some a) w = (r, w')"
    and "EntityIDForAction X (tr_identity R) (pa_ActionID a) = Inr (t, e)" and "ents w e \<noteq> None"
  shows "offCells {(pa_PlayerID a, PlayerTurnCurrent)} (objs ents w) (objs ents w')
    \<and> (\<forall>i p. i \<noteq> [] \<and> i \<noteq> e \<and> AString i \<in># objs ents w (pa_PlayerID a) PlayerTurnCurrent
          \<and> inPhase (objs ents w) i p \<and> \<not> IsTerminal p \<longrightarrow> objs ents w' = objs ents w)"
proof -
  note tr = recorder_over_client [OF assms(1-4)]
  from turn_recorder.Accept_off [OF tr assms(5,6)] assms(7)
    turn_recorder.Accept_keeps_live [OF tr assms(5,6) _ _ _ _ _ assms(7)]
  show ?thesis by auto
qed

theorem turn_accept_overwrites_nothing_witness:
  "offCells {(exPlayer, PlayerTurnCurrent)} (objs memEnts exAccepted)
     (objs memEnts (snd (Accept refExt exRecorder (Some exAction) exAccepted)))"
proof -
  have "objs memEnts exAccepted exBorn TurnPhaseCurrent \<noteq> {#}"
    using refTurns.Accept_Inr [of exIdentity exAction "exWorld []" _ exAccepted] exRun_accept
    by (auto simp: exAccepted_def exRecorder_def prod_eq_iff inPhase_def)
  then have "memEnts exAccepted exBorn \<noteq> None" by (cases "memEnts exAccepted exBorn") (simp_all add: graphOf_def)
  then show ?thesis
    using turn_accept_overwrites_nothing [OF mem.mutation_client_axioms, of exRecorder exAction exAccepted
        "fst (Accept refExt exRecorder (Some exAction) exAccepted)"
        "snd (Accept refExt exRecorder (Some exAction) exAccepted)" "''turn-b''" exBorn]
      exID_action by (simp add: exRecorder_fields exAction_def)
qed

text \<open>
  C25: A finished turn reaches its player: when a call that ends a turn reports success, the
  resolved pointer of the turn's one player is at it; and a repeated end of an already finished
  turn that the player still holds repairs the pointer if the earlier attempt failed to write
  it.
\<close>

theorem turn_finish_announced:
  assumes "mutation_client X c ents" and "tr_store R = graphioStore X c"
    and "\<forall>i a w. ents (snd (tr_actions R i a w)) = ents w" and "\<forall>w. ents (snd (tr_now R w)) = ents w"
    and "transition X R t i to reason d w = (Inr x, w')" and "IsTerminal to" and "i \<noteq> []"
    and "tx_Outcome x = OutcomeAdvanced \<or> IsTerminal (tx_Previous x)"
  shows "\<exists>pl. objs ents w i TurnActionPlayer = {#AString pl#}
    \<and> (tx_Outcome x = OutcomeAdvanced \<longrightarrow> objs ents w' pl PlayerTurnResolved = {#AString i#})
    \<and> (AString i \<in># objs ents w pl PlayerTurnCurrent \<longrightarrow> AString i \<in># objs ents w' pl PlayerTurnResolved)"
proof -
  note tr = recorder_over_client [OF assms(1-4)]
  show ?thesis
  proof (cases "tx_Outcome x = OutcomeAdvanced")
    case True
    with turn_recorder.transition_announces [OF tr assms(5,6)] show ?thesis by auto
  next
    case False
    with assms(8) turn_recorder.transition_repairs [OF tr assms(5,6) _ assms(7)] show ?thesis by blast
  qed
qed

theorem turn_finish_announced_witness:
  "\<exists>pl. objs memEnts (snd (Fail refExt exRecorder ''turn-a'' exTurn FailureTurnStranded zeroRef (exWorld [])))
     pl PlayerTurnResolved = {#AString exTurn#}"
proof -
  let ?run = "Fail refExt exRecorder ''turn-a'' exTurn FailureTurnStranded zeroRef (exWorld [])"
  have "ParseFailureReason FailureTurnStranded = Inr FailureTurnStranded" by code_simp
  then have "?run = transition refExt exRecorder ''turn-a'' exTurn PhaseFailed FailureTurnStranded zeroRef (exWorld [])"
    by (simp add: Fail_def wrapErr_def zeroRef_def Ref_IsZero_def)
  then have run: "transition refExt exRecorder ''turn-a'' exTurn PhaseFailed FailureTurnStranded zeroRef (exWorld []) =
      (Inr \<lparr>tx_Previous = PhaseApplying, tx_Phase = PhaseFailed, tx_Outcome = OutcomeAdvanced\<rparr>, snd ?run)"
    using exRun_fail by (simp add: prod_eq_iff)
  have "IsTerminal PhaseFailed" by code_simp
  then show ?thesis
    using turn_finish_announced [OF mem.mutation_client_axioms _ _ _ run]
    by (auto simp: exRecorder_fields exTurn_def exID_def)
qed

text \<open>
  C26: A delivery is dropped for good only when nothing was written: whenever the intake answers
  a message with a terminal error, the graph is the one before; a failure after the first write
  is always retried.
\<close>

theorem intake_drop_changes_nothing:
  assumes "mutation_client X c ents" and "tr_store R = graphioStore X c"
    and "\<forall>i a w. ents (snd (tr_actions R i a w)) = ents w" and "\<forall>w. ents (snd (tr_now R w)) = ents w"
    and "unrejected X (graphioStore X c)"
    and "Handle X decoder R data w = (Inl (TerminateDelivery e), w')"
  shows "ents w' = ents w"
  by (rule plain_intake.Handle_drops [OF plain_intake.intro [OF recorder_over_client [OF assms(1-4)]
        plain_intake_axioms.intro [OF assms(5)]] assms(6)])

theorem intake_drop_changes_nothing_witness:
  "\<exists>e w'. Handle refExt (\<lambda>d. Inr (DecodedAction (Some (exAction\<lparr>pa_Text := d\<rparr>)))) exRecorder [] (exWorld []) =
     (Inl (TerminateDelivery e), w') \<and> memEnts w' = memEnts (exWorld [])"
proof -
  let ?run = "Handle refExt (\<lambda>d. Inr (DecodedAction (Some (exAction\<lparr>pa_Text := d\<rparr>)))) exRecorder [] (exWorld [])"
  have "case fst ?run of Inl (TerminateDelivery e) \<Rightarrow> True | _ \<Rightarrow> False" by code_simp
  then obtain e where "fst ?run = Inl (TerminateDelivery e)" by (auto split: sum.splits gerror.splits)
  then have run: "?run = (Inl (TerminateDelivery e), snd ?run)" by (simp add: prod_eq_iff)
  have "unrejected refExt (graphioStore refExt memClient :: memWorld GraphStore)"
    using memGraphStore_unrejected by (simp add: memGraphStore_def)
  from intake_drop_changes_nothing [OF mem.mutation_client_axioms _ _ _ this run]
  have "memEnts (snd ?run) = memEnts (exWorld [])" by (simp add: exRecorder_fields)
  with run show ?thesis by blast
qed

text \<open>
  C27: A delivery is acknowledged only once its turn is in the graph: after the intake returned
  no error the message carried a player action and the turn derived from it is in a legal phase.
\<close>

theorem intake_ack_is_durable:
  assumes "mutation_client X c ents" and "tr_store R = graphioStore X c"
    and "\<forall>i a w. ents (snd (tr_actions R i a w)) = ents w" and "\<forall>w. ents (snd (tr_now R w)) = ents w"
    and "Handle X decoder R data w = (Inr (), w')"
  shows "\<exists>a t i p. decoder data = Inr (DecodedAction (Some a))
    \<and> EntityIDForAction X (tr_identity R) (pa_ActionID a) = Inr (t, i) \<and> inPhase (objs ents w') i p"
  by (rule turn_recorder.Handle_acks [OF recorder_over_client [OF assms(1-4)] assms(5)])

theorem intake_ack_is_durable_witness:
  "\<exists>p. inPhase (objs memEnts (snd (Handle refExt (\<lambda>d. Inr (DecodedAction (Some exAction))) exRecorder [] (exWorld []))))
     exBorn p"
proof -
  let ?run = "Handle refExt (\<lambda>d. Inr (DecodedAction (Some exAction))) exRecorder [] (exWorld [])"
  have "?run = (Inr (), snd ?run)"
    using exRun_accept by (cases "Accept refExt exRecorder (Some exAction) (exWorld [])")
      (simp add: Handle_def decodeAction_def tryM_def ret_def)
  from intake_ack_is_durable [OF mem.mutation_client_axioms _ _ _ this] show ?thesis
    using exID_action by (simp add: exRecorder_fields)
qed

section \<open>Knowledge\<close>





section \<open>Scene assembly\<close>

text \<open>
  A view that the assembler returns is of the turn it was asked for, holds at most the
  configured number of entities, lists nobody twice, carries only registered predicates, and
  when it names an actor without doubt, that character stands in the scene, is the one the
  player of the turn is bound to, and the player is the one the turn records.
\<close>

lemma scene_view_bounded:
  assumes "batch_reader (as_GetEntities a)" and "Assemble X a turnID turnEntityID w = (Inr v, w')"
  shows "vw_TurnID v = turnID \<and> vw_TurnEntityID v = turnEntityID
    \<and> int (length (View_Entities v)) \<le> as_maxEntities a
    \<and> distinct (idsOf (vw_Members v @ vw_Neighbours v))
    \<and> (\<forall>e \<in> set (View_Entities v). \<forall>t \<in> set (sn_Triples e). registered (trPredicate t))
    \<and> (Verified (vw_Actor v) \<longrightarrow>
         sa_CharacterID (vw_Actor v) \<in> set (idsOf (vw_Members v))
         \<and> scene_Objects (vw_Turn v) TurnActionPlayer = [AString (sa_PlayerID (vw_Actor v))]
         \<and> (\<exists>player \<in> set (View_Entities v). sn_ID player = sa_PlayerID (vw_Actor v)
              \<and> scene_Objects player PlayerCharacterCurrent = [AString (sa_CharacterID (vw_Actor v))]))"
proof -
  note sg = scene_graph.intro [OF assms(1)]
  show ?thesis
    using scene_graph.assemble_Inr [OF sg assms(2)] scene_graph.assemble_actor [OF sg assms(2)] by blast
qed

lemma scene_view_bounded_witness:
  "vw_TurnID exView = ''turn-a'' \<and> int (length (View_Entities exView)) \<le> 64
    \<and> exRook \<in> set (idsOf (vw_Members exView))"
proof -
  have "exRook \<noteq> []" by (simp add: exRook_def exID_def)
  then have "Verified (vw_Actor exView)" "sa_CharacterID (vw_Actor exView) = exRook"
    by (simp_all add: exView_def Verified_def)
  with scene_view_bounded [OF refScene.batch_reader_axioms exRun_assemble] show ?thesis
    by (simp add: refAssembler_def DefaultMaxEntities_def)
qed

section \<open>Epistemic projection\<close>







text \<open>
  C10: The projector of a player, of the public adjudicator or of a companion computes the same
  projection, errors and effects included, whatever case it is scoped to and whoever authorizes
  the denouement or the companion's evidence: nothing of the case can leak through it.
\<close>

theorem projection_independent_of_case:
  assumes "au_purpose a \<in> {PurposePlayer, PurposePublicAdjudicator, PurposeCompanion}"
  shows "Project (p\<lparr>pr_scope := s, pr_denouement := d, pr_evidence := r\<rparr>) a = Project p a"
  using Project_recased [OF assms] by (simp add: recased_def)

theorem projection_independent_of_case_witness:
  "Project (refProjector\<lparr>pr_scope := \<lparr>sc_caseID = exDesk, sc_beliefs = []\<rparr>, pr_denouement := None, pr_evidence := None\<rparr>)
     exPlayerAudience (exMystery []) = (Inr exProjection, exLater)"
proof -
  have purpose: "au_purpose exPlayerAudience \<in> {PurposePlayer, PurposePublicAdjudicator, PurposeCompanion}"
    by (simp add: exPlayerAudience_def PlayerAudience_def noAudience_def)
  show ?thesis unfolding projection_independent_of_case [OF purpose] by (rule exRun_project)
qed

section \<open>Rules\<close>

text \<open>
  C15: When a rule of an accepted pack fires on a turn, every phase it drives the turn into
  legally follows the turn's current phase, so the recorder will take it as an advance, and a
  rule that matches a phase beyond the first by equality fires only once an artifact of that
  stage is on the turn.
\<close>

theorem rules_only_legal_hops:
  assumes "rule_engine holds" and "Check R defs = None" and "d \<in> set defs"
    and "fires holds d previous st" and "PhaseOf (Some st) i = Inr p"
  shows "(\<forall>action q. action \<in> set (rd_OnEnter d @ rd_OnRecovery d) \<and> PhaseForSubject (ra_Subject action) = Some q
      \<longrightarrow> PhaseFollows p q \<and> classify p q = (OutcomeAdvanced, []))
    \<and> (\<forall>g artifacts. g \<in> set (phaseGates d) \<and> pg_operator g = ''eq'' \<and> p \<noteq> PhaseAccepted
        \<and> StageArtifacts p = Some artifacts
      \<longrightarrow> pg_phase g = p \<and> (\<exists>artifact \<in> set artifacts. objectsIn (esTriples st) artifact \<noteq> []))"
  using rule_engine.fired_edge [OF assms] rule_engine.fired_artifact [OF assms] rule_engine.fired_gates [OF assms(1,4,5)]
    follows_advances by blast

theorem rules_only_legal_hops_witness:
  "classify PhaseApplying PhaseCompanion = (OutcomeAdvanced, [])"
  using rules_only_legal_hops [OF refEngine.rule_engine_axioms turnPack_accepted exFires_at(1) exFires exFires_at(2)]
    exFires_at(3,4) by blast

text \<open>
  C16: The shipped rules pass the load-time gate whenever the rule package itself finds them
  valid, and by their hops a turn gets from exactly the phases other than the failed one to the
  complete phase: no live phase is a dead end.
\<close>

theorem shipped_rules_drive_every_turn:
  assumes "\<And>d. d \<in> set turnPack \<Longrightarrow> re_ValidateDefinition R d = None"
    and "re_ActionTypePublish R = ''publish''"
  shows "Check R turnPack = None
    \<and> {p. (hop turnPack)\<^sup>*\<^sup>* p PhaseComplete} = set TurnPhases - {PhaseFailed}"
proof -
  have "Check R turnPack = Check refRules turnPack"
    by (rule Check_cong) (simp_all add: refRules_def assms)
  with turnPack_accepted hops_complete hops_sources show ?thesis by auto
qed

theorem shipped_rules_drive_every_turn_witness:
  "Check refRules turnPack = None \<and> (hop turnPack)\<^sup>*\<^sup>* PhaseAccepted PhaseComplete"
proof -
  have "re_ValidateDefinition refRules d = None" "re_ActionTypePublish refRules = ''publish''" for d
    by (simp_all add: refRules_def)
  note drive = shipped_rules_drive_every_turn [OF this]
  have "PhaseAccepted \<in> set TurnPhases - {PhaseFailed}" by code_simp
  with drive have "PhaseAccepted \<in> {p. (hop turnPack)\<^sup>*\<^sup>* p PhaseComplete}" by blast
  with drive show ?thesis by blast
qed

section \<open>The case\<close>

text \<open>
  The three tables that move a case agree: the declared workflow permits exactly the moves some
  event kind stands for, the recorder's edges are exactly the edges of the lifecycle rules,
  every such move goes up by one rank, and the rules built from the table are all of them.
\<close>

lemma case_tables_agree:
  shows "(permits Workflow a b \<longleftrightarrow> (\<exists>kind. edgeFor kind = Some (a, b)))
    \<and> (edgeFor k = Some (a, b) \<longleftrightarrow> (\<exists>e \<in> set caseEdges. ce_kind e = k \<and> ce_from e = a \<and> ce_to e = b))
    \<and> (edgeFor k = Some (a, b) \<longrightarrow> phaseRank b = phaseRank a + 1)
    \<and> (CaseLifecycleDefinitions R = Inr defs \<longrightarrow> set defs = caseRule R ` set caseEdges)"
  using permits_edges edgeFor_edges [of k a b] edgeFor_ranks CaseLifecycleDefinitions_set by fastforce

lemma case_tables_agree_witness:
  "edgeFor CaseEventBodyObserved = Some (CasePhaseColdOpen, CasePhaseDiscovery)
    \<and> permits Workflow CasePhaseColdOpen CasePhaseDiscovery
    \<and> phaseRank CasePhaseDiscovery = phaseRank CasePhaseColdOpen + 1"
proof -
  have "edgeFor CaseEventBodyObserved = Some (CasePhaseColdOpen, CasePhaseDiscovery)" by code_simp
  with case_tables_agree [of CasePhaseColdOpen CasePhaseDiscovery CaseEventBodyObserved] show ?thesis by blast
qed

text \<open>
  C17: Recording a case event either changes nothing, or writes on the case exactly the four
  facts of a receipt and nothing else anywhere, and then only when the case is in the phase the
  event moves it out of; it reports a receipt as recorded only when it is in the graph, and it
  reports an event out of order only when the case has not reached that phase.
\<close>

theorem case_receipt_exact:
  assumes "receipt_recorder X S ents r" and "Record r q w = (res, w')"
  shows "(ents w' = ents w
      \<or> (\<exists>a b st. edgeFor (rq_Kind q) = Some (a, b) \<and> ents w (rq_CaseEntityID q) = Some st
           \<and> literal st CaseLifecyclePhase = a
           \<and> (\<forall>i p. objs ents w' i p = (if i = rq_CaseEntityID q \<and> p \<in> set receiptPredicates
                then {#AString (receiptFact q a b p)#} else objs ents w i p))))
    \<and> (\<forall>out. res = Inr out \<longrightarrow> edgeFor (rq_Kind q) = Some (ro_From out, ro_To out)
        \<and> (ro_Recorded out \<longrightarrow> (\<forall>p \<in> set receiptPredicates.
              objs ents w' (rq_CaseEntityID q) p = {#AString (receiptFact q (ro_From out) (ro_To out) p)#}))
        \<and> (\<not> ro_Recorded out \<longrightarrow> ents w' = ents w))
    \<and> (\<forall>c e k current required. res = Inl (CaseOrderError c e k current required) \<longrightarrow>
        ents w' = ents w \<and> phaseRank current < phaseRank required)"
proof (cases rule: receipt_recorder.Record_cases [OF assms, consumes 0, case_names refused kept written])
  case (refused err)
  then show ?thesis by auto
next
  case (kept a b st)
  then show ?thesis by auto
next
  case (written a b st)
  with receiptStep_Write [OF written(3,1)] show ?thesis by auto
qed

theorem case_receipt_exact_witness:
  "\<exists>w'. Record refLifecycle exEvent exInquest =
      (Inr \<lparr>ro_Recorded = True, ro_From = CasePhaseDiscovery, ro_To = CasePhaseInvestigation\<rparr>, w')
    \<and> objs memEnts w' exCase CaseLifecycleEventID = {#AString ''e1''#}"
proof -
  obtain w' where run: "Record refLifecycle exEvent exInquest =
      (Inr \<lparr>ro_Recorded = True, ro_From = CasePhaseDiscovery, ro_To = CasePhaseInvestigation\<rparr>, w')"
    using exRun_record by (metis prod.collapse)
  have "objs memEnts w' (rq_CaseEntityID exEvent) CaseLifecycleEventID
      = {#AString (receiptFact exEvent CasePhaseDiscovery CasePhaseInvestigation CaseLifecycleEventID)#}"
    using case_receipt_exact [OF refLifecycle_recorder run] by (simp add: receiptPredicates_def)
  with run show ?thesis by (simp add: exEvent_def receiptFact_def)
qed

text \<open>
  A recorded receipt of a case that holds one phase fires exactly one lifecycle rule, the one
  whose edge leaves the phase the case is in, and that rule moves the case to the phase the
  event stands for.
\<close>

lemma case_receipt_moves_the_case:
  assumes "receipt_recorder X S ents r" and "exact_rule_engine holds"
    and "Record r q w = (Inr out, w')" and "ro_Recorded out"
    and "ents w' (rq_CaseEntityID q) = Some st'" and "objs ents w (rq_CaseEntityID q) CaseLifecyclePhase = {#v#}"
  shows "\<exists>e \<in> set caseEdges. ce_kind e = rq_Kind q \<and> ce_from e = ro_From out \<and> ce_to e = ro_To out
    \<and> fires holds (caseRule R e) previous st'
    \<and> (\<forall>e' \<in> set caseEdges. fires holds (caseRule R e') previous st' \<longrightarrow> e' = e)"
  by (rule receipt_recorder.receipt_fires [OF assms(1,2,3,4,5,6)])

lemma case_receipt_moves_the_case_witness:
  "\<exists>(w' :: memWorld) st' e. memEnts w' exCase = Some st' \<and> e \<in> set caseEdges \<and> ce_to e = CasePhaseInvestigation
    \<and> fires refHolds (caseRule refRules e) None st'"
proof -
  obtain w' where run: "Record refLifecycle exEvent exInquest =
      (Inr \<lparr>ro_Recorded = True, ro_From = CasePhaseDiscovery, ro_To = CasePhaseInvestigation\<rparr>, w')"
    using exRun_record by (metis prod.collapse)
  have phase: "objs memEnts exInquest exCase CaseLifecyclePhase = {#AString CasePhaseDiscovery#}" by code_simp
  moreover have "objs memEnts w' exCase CaseLifecyclePhase = objs memEnts exInquest exCase CaseLifecyclePhase"
    using receipt_recorder.Record_phase [OF refLifecycle_recorder run] .
  ultimately obtain st' where "memEnts w' exCase = Some st'" by (auto simp: graphOf_def split: option.splits)
  then have st': "memEnts w' (rq_CaseEntityID exEvent) = Some st'" by (simp add: exEvent_def)
  have "objs memEnts exInquest (rq_CaseEntityID exEvent) CaseLifecyclePhase = {#AString CasePhaseDiscovery#}"
    using phase by (simp add: exEvent_def)
  from case_receipt_moves_the_case [OF refLifecycle_recorder refExactEngine.exact_rule_engine_axioms run _ st' this,
      of refRules None]
  obtain e where "e \<in> set caseEdges" "ce_to e = CasePhaseInvestigation" "fires refHolds (caseRule refRules e) None st'"
    by auto
  with \<open>memEnts w' exCase = Some st'\<close> show ?thesis by blast
qed



section \<open>Accusations\<close>

text \<open>
  C11: The denouement authorizer says yes only for a reference that is the deterministic
  accusation slot of that turn, that the turn itself holds as its only accusation reference, and
  whose stored, valid record carries a correct result of that turn and that case.
\<close>

theorem denouement_needs_a_proof:
  assumes "Authorized X az turnID caseID refText w = (Inr b, w')"
  shows "b \<and> (\<exists>ref i st rec result u v v'. ParseRef X refText = Inr ref \<and> \<not> Ref_IsZero ref
    \<and> KeyFor X TurnAccusationRef SubjectTurn turnID = Inr (rf_Key ref)
    \<and> da_GetEntity az i u = (Inr st, v) \<and> last (splitOn CHR ''.'' i) = turnID
    \<and> accusation_soleObject st TurnAccusationRef = Inr refText
    \<and> da_GetAccusationRecord az ref v = (Inr (Some rec), v') \<and> AccusationRecord_Validate X (Some rec) = None
    \<and> acr_Result rec = Some result \<and> ar_Outcome result = AccusationCorrect
    \<and> ar_TurnID result = turnID \<and> ar_CaseID result = caseID)"
  by (rule Authorized_Inr [OF assms]) blast

theorem denouement_needs_a_proof_witness:
  "Authorized refExt exAuthorizer ''turn-a'' exCase (exObj ''accusation'') exSettled = (Inr True, exSettled)
    \<and> (\<exists>(rec :: AccusationRecord) result. acr_Result rec = Some result \<and> ar_Outcome result = AccusationCorrect \<and> ar_CaseID result = exCase)"
proof -
  from denouement_needs_a_proof [OF exRun_authorized] obtain rec :: AccusationRecord and result
    where "acr_Result rec = Some result" "ar_Outcome result = AccusationCorrect" "ar_CaseID result = exCase"
    by (elim conjE exE) blast
  with exRun_authorized show ?thesis by blast
qed

text \<open>
  C19: A verified accusation is correct exactly when the culprit, the method and the motive it
  names are all three those of the solution, and its result carries the identities of the turn,
  the case and the decision; verification refuses exactly what is absent, invalid or no
  accusation.
\<close>

theorem accusation_verdict_exact:
  shows "(Verify X (Some d) solution = Inr result \<longrightarrow>
      (ar_Outcome result = AccusationCorrect
        \<longleftrightarrow> \<lparr>so_Culprit = cd_CulpritRef d, so_Method = cd_MethodRef d, so_Motive = cd_MotiveRef d\<rparr> = solution)
      \<and> (ar_Outcome result = AccusationIncorrect
        \<longleftrightarrow> \<lparr>so_Culprit = cd_CulpritRef d, so_Method = cd_MethodRef d, so_Motive = cd_MotiveRef d\<rparr> \<noteq> solution)
      \<and> ar_ResultID result = AccusationResultID (cd_TurnID d) (cd_CaseID d) (cd_DecisionID d)
      \<and> ar_TurnID result = cd_TurnID d \<and> ar_CaseID result = cd_CaseID d \<and> ar_DecisionID result = cd_DecisionID d)
    \<and> ((\<exists>err. Verify X od solution = Inl err) \<longleftrightarrow>
        (case od of None \<Rightarrow> True | Some d' \<Rightarrow> CaseDecision_Validate X d' \<noteq> None \<or> cd_Kind d' \<noteq> CaseDecisionAccuse))"
proof -
  have "AccusationCorrect \<noteq> AccusationIncorrect" by (simp add: case_names_set)
  then show ?thesis by (cases solution) (auto simp: Verify_def split: option.splits if_splits)
qed

theorem accusation_verdict_exact_witness:
  "Verify refExt (Some exAccuse) exProof = Inr exResult \<and> ar_CaseID exResult = exCase \<and> ar_Outcome exResult = AccusationCorrect"
  using accusation_verdict_exact [of refExt exAccuse exProof exResult None] exRun_verify
  by (simp add: exAccuse_def exProof_def)

text \<open>
  A commit of an accusation record changes nothing in the graph but the accusation reference of
  that turn, and that only from absent to a reference of the record it just stored; where the
  turn already holds one nothing is written and the commit succeeds only when the resident
  record is the one to commit.
\<close>

lemma accusation_recorded_once:
  assumes "accusation_committer X S ents c" and "accusation_Commit X c turn r w = (res, w')"
  shows "(\<not> (i = turn \<and> p = TurnAccusationRef) \<longrightarrow> objs ents w' i p = objs ents w i p)
    \<and> (objs ents w' turn TurnAccusationRef \<noteq> objs ents w turn TurnAccusationRef \<longrightarrow>
        (\<exists>rec ref st u u'. r = Some rec \<and> AccusationRecord_Validate X (Some rec) = None
           \<and> RequireTurnEntityID X (acr_TurnID rec) turn = None
           \<and> ents w turn = Some st \<and> accusation_stringObjects st TurnAccusationRef = []
           \<and> ac_PutAccusationRecord c turn rec u = (Inr ref, u')
           \<and> objs ents w' turn TurnAccusationRef = {#AString (Ref_String ref)#}))
    \<and> (\<forall>ref. res = Inr ref \<longrightarrow> ents w' = ents w \<and> (\<exists>rec u u'. r = Some rec
             \<and> ac_GetAccusationRecord c ref u = (Inr (Some rec), u'))
           \<or> objs ents w' turn TurnAccusationRef = {#AString (Ref_String ref)#})"
proof (cases rule: accusation_committer.commit_cases [OF assms, consumes 0, case_names refused resident written])
  case (refused err)
  then show ?thesis by (simp add: graphOf_def)
next
  case (resident rec ref st w1 w2)
  then show ?thesis by (simp add: graphOf_def) blast
next
  case (written rec ref st w1 w2)
  then show ?thesis by blast
qed

lemma accusation_recorded_once_witness:
  "\<exists>w'. accusation_Commit refExt refCommitter exTurn (Some exNoAccusation) exInquest = (Inr exAccusationRef, w')
    \<and> objs memEnts w' exCase CaseLifecyclePhase = objs memEnts exInquest exCase CaseLifecyclePhase"
proof -
  obtain w' where run: "accusation_Commit refExt refCommitter exTurn (Some exNoAccusation) exInquest = (Inr exAccusationRef, w')"
    using exRun_no_accusation by (metis prod.collapse)
  have "exCase \<noteq> exTurn" by code_simp
  with accusation_recorded_once [OF refCommitter_committer run, of exCase CaseLifecyclePhase] run show ?thesis by blast
qed



section \<open>Stored artifacts\<close>

text \<open>
  C31: A reference handed out by the content store resolves to the artifact that was stored, as
  long as nothing overwrote its key and the codec decodes what it encodes: the only other
  outcome is that the object store itself fails to read, never a refused reference, a corruption
  report or a different artifact.
\<close>

theorem artifact_read_back:
  assumes "object_backend b stored"
    and "put_artifact X b J validate p k i a w = (Inr ref, w1)"
    and "stored w2 (rf_Key ref) = stored w1 (rf_Key ref)"
    and "\<And>d. jc_marshal J a = Inr d \<Longrightarrow> jc_unmarshal J d = Inr a"
    and "get_artifact X b J validate p ref w2 = (r, w3)"
  shows "r = Inr a \<or> (\<exists>err. be_Get b (rf_Key ref) w2 = (Inl err, w3))"
  by (rule object_backend.get_after_put [OF assms(1,2,3) _ assms(5)]) (rule assms(4))

theorem artifact_read_back_witness:
  "\<exists>ref w1. PutAction refExt memBackend refActions exBorn (Some exAction) (exWorld []) = (Inr ref, w1)
    \<and> fst (GetAction refExt memBackend refActions ref w1) = Inr exAction"
proof -
  obtain ref w1 where put: "PutAction refExt memBackend refActions exBorn (Some exAction) (exWorld []) = (Inr ref, w1)"
    and got: "\<not> isl (fst (be_Get memBackend (rf_Key ref) w1))"
    using exRun_put by (auto split: prod.splits sum.splits)
  from put have "put_artifact refExt memBackend refActions (PlayerAction_Validate refExt) TurnActionRef SubjectTurn
      (TurnIDForAction (pa_ActionID exAction)) exAction (exWorld []) = (Inr ref, w1)"
    by (simp add: PutAction_def put_for_turn_def checkM_eq)
  from artifact_read_back [OF memObjects.object_backend_axioms this refl refActions_roundtrip prod.collapse [symmetric]]
  have "fst (GetAction refExt memBackend refActions ref w1) = Inr exAction"
    using got by (auto simp: GetAction_def)
  with put show ?thesis by blast
qed

text \<open>
  A reference to one kind of artifact is never decoded as another kind: reading it under a
  predicate with another slot is refused as an invalid reference before the object store is
  asked.
\<close>

lemma artifact_kinds_apart:
  assumes "object_backend b stored"
    and "put_artifact X b J validate p k i a w = (Inr ref, w1)"
    and "ArtifactSlot X p = Inr slot" "ArtifactSlot X p' = Inr slot'" "slot \<noteq> slot'"
    and "RefSeparator \<notin> set slot" "RefSeparator \<notin> set slot'"
  shows "\<exists>e. get_artifact X b J' validate' p' ref w2 = (Inl e, w2) \<and> errors_Is e ErrArtifactReference"
  by (rule object_backend.get_other_kind [OF assms])

lemma artifact_kinds_apart_witness:
  "\<forall>J. \<exists>ref w1 e. PutAction refExt memBackend refActions exBorn (Some exAction) (exWorld []) = (Inr ref, w1)
    \<and> GetVerdict refExt memBackend J ref w1 = (Inl e, w1) \<and> errors_Is e ErrArtifactReference"
proof
  fix J :: "Verdict codec"
  show "\<exists>ref w1 e. PutAction refExt memBackend refActions exBorn (Some exAction) (exWorld []) = (Inr ref, w1)
    \<and> GetVerdict refExt memBackend J ref w1 = (Inl e, w1) \<and> errors_Is e ErrArtifactReference"
  proof -
    obtain ref w1 where put: "PutAction refExt memBackend refActions exBorn (Some exAction) (exWorld []) = (Inr ref, w1)"
      using exRun_put by (auto split: prod.splits sum.splits)
    then have stored: "put_artifact refExt memBackend refActions (PlayerAction_Validate refExt) TurnActionRef SubjectTurn
        (TurnIDForAction (pa_ActionID exAction)) exAction (exWorld []) = (Inr ref, w1)"
      by (simp add: PutAction_def put_for_turn_def checkM_eq)
    have slots: "ArtifactSlot refExt TurnActionRef = Inr ''action''" "ArtifactSlot refExt TurnVerdictRef = Inr ''verdict''"
      by code_simp+
    from artifact_kinds_apart [OF memObjects.object_backend_axioms stored slots] put show ?thesis
      unfolding GetVerdict_def by (fastforce simp: RefSeparator_def)
  qed
qed

text \<open>
  C32: A companion decision is decided once: after one caller's exact claim returned a value,
  every later successful claim on the same key returns that same value, whatever it proposed and
  however many other claims succeeded, failed or were interrupted in between.
\<close>

theorem companion_claim_immutable:
  assumes "exact_claims kv put get claims"
    and "ClaimExact put get kv k c w = (Inr x, w1)"
    and "(\<lambda>w w'. \<exists>j d r. ClaimExact put get kv j d w = (r, w'))\<^sup>*\<^sup>* w1 w2"
    and "ClaimExact put get kv k c' w2 = (Inr y, w3)"
  shows "y = x"
proof -
  have "claims w2 k = Some x" using assms(3)
  proof (induction rule: rtranclp_induct)
    case base
    then show ?case using exact_claims.ClaimExact_Inr [OF assms(1,2)] by simp
  next
    case (step v v')
    then show ?case using exact_claims.claims_stand [OF assms(1)] by blast
  qed
  then show ?thesis using exact_claims.ClaimExact_Inr [OF assms(1,4)] by simp
qed

theorem companion_claim_immutable_witness:
  "\<exists>w1 w2. ClaimExact memPut memGet memKeyValue ''k'' ''one'' (exWorld []) = (Inr ''one'', w1)
    \<and> ClaimExact memPut memGet memKeyValue ''k'' ''two'' w1 = (Inr ''one'', w2)"
proof -
  let ?first = "ClaimExact memPut memGet memKeyValue ''k'' ''one'' (exWorld [])"
  let ?second = "ClaimExact memPut memGet memKeyValue ''k'' ''two'' (snd ?first)"
  have "fst ?first = Inr ''one''" "\<not> isl (fst ?second)" by code_simp+
  then obtain y where first: "?first = (Inr ''one'', snd ?first)" and second: "?second = (Inr y, snd ?second)"
    by (cases "fst ?second") (auto simp: prod_eq_iff)
  from companion_claim_immutable [OF memExact.exact_claims_axioms first rtranclp.rtrancl_refl second]
  show ?thesis using first second by blast
qed

text \<open>
  References survive the graph: a valid reference parses back from its string form, the zero
  reference is the empty string, and whatever string parses is the canonical form of a valid
  reference, so two strings never denote the same artifact.
\<close>

lemma storage_reference_roundtrip:
  "(Ref_Validate X r = None \<longrightarrow> ParseRef X (Ref_String r) = Inr r)
    \<and> ParseRef X (Ref_String zeroRef) = Inr zeroRef
    \<and> (ParseRef X s = Inr q \<longrightarrow> Ref_String q = s \<and> (s \<noteq> [] \<longrightarrow> Ref_Validate X q = None))"
  using ParseRef_String ParseRef_zero ParseRef_Inr by blast

lemma storage_reference_roundtrip_witness:
  "ParseRef refExt ''obj://i/turn/t/action'' = Inr \<lparr>rf_Instance = ''i'', rf_Key = ''turn/t/action''\<rparr>"
proof -
  let ?r = "\<lparr>rf_Instance = ''i'', rf_Key = ''turn/t/action''\<rparr>"
  have "Ref_Validate refExt ?r = None" "Ref_String ?r = ''obj://i/turn/t/action''" by code_simp+
  with storage_reference_roundtrip [of refExt ?r] show ?thesis by simp
qed

lemma artifact_keys_apart:
  assumes "KeyFor X p k s = Inr key" and "KeyFor X p' k' s' = Inr key"
    and "RefSeparator \<notin> set s" and "RefSeparator \<notin> set s'"
  shows "k = k' \<and> s = s' \<and> ArtifactSlot X p = ArtifactSlot X p'"
  by (rule KeyFor_inject [OF assms])

lemma artifact_keys_apart_witness:
  "KeyFor refExt TurnActionRef SubjectTurn ''t'' = Inr ''turn/t/action''
    \<and> (\<forall>k s p. RefSeparator \<notin> set s \<longrightarrow> KeyFor refExt p k s = Inr ''turn/t/action'' \<longrightarrow> k = SubjectTurn \<and> s = ''t'')"
proof -
  have key: "KeyFor refExt TurnActionRef SubjectTurn ''t'' = Inr ''turn/t/action''" by code_simp
  with artifact_keys_apart [of refExt TurnActionRef SubjectTurn "''t''" "''turn/t/action''"] show ?thesis
    by (fastforce simp: RefSeparator_def)
qed

section \<open>Phases, rolls and retries\<close>

text \<open>
  The sequencing table has no cycle and no dead end: no run of transitions returns to a phase it
  left, a finished phase has no way out, and every live phase can fail at once and can still
  reach complete.
\<close>

lemma every_turn_can_end:
  assumes "TurnPhase_Valid p"
  shows "\<not> PhaseFollows\<^sup>+\<^sup>+ p p
    \<and> (if IsTerminal p then \<forall>q. \<not> PhaseFollows p q
       else PhaseFollows p PhaseFailed \<and> PhaseFollows\<^sup>*\<^sup>* p PhaseComplete)"
proof -
  obtain i where "PhaseRank p = Some i" using assms PhaseRank_Some_iff by blast
  then have "\<not> IsTerminal p \<Longrightarrow> PhaseFollows p PhaseFailed"
    by (cases rule: turnPhase_cases) (simp_all add: PhaseFollows_iff IsTerminal_def)
  then show ?thesis
    using turn_phases.no_return turn_phases.terminal_stuck every_live_phase_can_complete [OF assms] by auto
qed

lemma every_turn_can_end_witness: "PhaseFollows\<^sup>*\<^sup>* PhaseAdjudicating PhaseComplete"
proof -
  have "TurnPhase_Valid PhaseAdjudicating" "\<not> IsTerminal PhaseAdjudicating" by code_simp+
  with every_turn_can_end [of PhaseAdjudicating] show ?thesis by simp
qed

text \<open>
  C33: A roll with legal inputs never fails and never leaves its range: for any seed, turn and
  admissible modifiers the roller returns two dice from 1 to 6, the total is their plain sum
  with the modifiers, between 0 and 16 with no 64-bit wrap-around, the band is the one the
  thresholds give, and the result passes its own validator.
\<close>

theorem roll_always_legal:
  assumes "NewRoller m = Inr r" and "\<not> Seed_IsZero s" and "requireIDSegment X ''turn_id'' t = None"
    and "requireEntityID X ''seed.campaign_id'' c = None" and "validateModifiers ms = None"
  shows "\<exists>result. Roll X r s c t ms = Inr result \<and> RollResult_Validate X result = None
    \<and> length (rr_Dice result) = 2 \<and> (\<forall>d \<in> set (rr_Dice result). 1 \<le> d \<and> d \<le> 6)
    \<and> rr_Total result = sum_list (rr_Dice result) + sum_list (map mo_Value ms)
    \<and> 0 \<le> rr_Total result \<and> rr_Total result \<le> 16
    \<and> rr_Band result = (if rr_Total result \<le> 6 then BandMiss
                         else if rr_Total result \<le> 9 then BandPartial else BandFull)"
proof -
  obtain result where roll: "Roll X r s c t ms = Inr result" "RollResult_Validate X result = None"
    "rr_Modifiers result = ms" using Roll_succeeds [OF assms] by blast
  note v = RollResult_Validate_None [OF roll(2)]
  have "0 \<le> rr_Total result \<and> rr_Total result \<le> 16"
    using dice_sum(2,3) [OF v(2,3)] validateModifiers_None(1-3) [OF assms(5)] v(5) roll(3) by simp
  with roll v show ?thesis by (intro exI [of _ result]) simp
qed

theorem roll_always_legal_witness:
  "\<exists>result. Roll refExt exRoller exSeed (exID ''k'' ''c'') ''turn-a'' [] = Inr result
    \<and> 0 \<le> rr_Total result \<and> rr_Total result \<le> 16"
  using roll_always_legal [OF exRoller_new exRoll_inputs] by blast



text \<open>The results of \<open>n\<close> calls of an operation in a row, and the world after them.\<close>

fun callsInARow :: "('w, unit) M \<Rightarrow> nat \<Rightarrow> 'w \<Rightarrow> (gerror + unit) list \<times> 'w" where
  "callsInARow f 0 w = ([], w)"
| "callsInARow f (Suc n) w =
     (case f w of (r, w1) \<Rightarrow> (case callsInARow f n w1 of (rs, w2) \<Rightarrow> (r # rs, w2)))"

definition conflicted :: "gerror + unit \<Rightarrow> bool" where
  "conflicted r = (case r of Inl e \<Rightarrow> isRevisionConflict e | Inr _ \<Rightarrow> False)"

lemma retryLoop_calls:
  assumes "\<forall>k. ctxErr k = None" and "retryLoop ctxErr f a (Suc n) l w = (r, w')"
  shows "\<exists>m rs. m \<le> n \<and> callsInARow f (Suc m) w = (rs @ [r], w') \<and> (\<forall>q \<in> set rs. conflicted q)
    \<and> (m < n \<longrightarrow> \<not> conflicted r)"
  using assms(2)
proof (induction n arbitrary: a l w)
  case 0
  then show ?case
    using assms(1)
    by (cases "f w") (auto simp: checkM_eq tryM_def ret_def throw_def split: sum.splits if_splits)
next
  case (Suc n)
  obtain q w1 where q: "f w = (q, w1)" by fastforce
  show ?case
  proof (cases "conflicted q")
    case True
    then obtain e where e: "q = Inl e" "isRevisionConflict e" by (auto simp: conflicted_def split: sum.splits)
    have "retryLoop ctxErr f a (Suc (Suc n)) l w = retryLoop ctxErr f (Suc a) (Suc n) (Some e) w1"
      by (subst retryLoop.simps(2))
        (simp add: checkM_def tryM_def q e assms(1) [rule_format] del: retryLoop.simps(2))
    then have "retryLoop ctxErr f (Suc a) (Suc n) (Some e) w1 = (r, w')" using Suc.prems by simp
    from Suc.IH [OF this] obtain m rs where
      m: "m \<le> n" "callsInARow f (Suc m) w1 = (rs @ [r], w')" "\<forall>q \<in> set rs. conflicted q"
      "m < n \<longrightarrow> \<not> conflicted r" by blast
    then show ?thesis
      using q True by (intro exI [of _ "Suc m"] exI [of _ "q # rs"]) simp
  next
    case False
    then have "r = q \<and> w' = w1"
      using Suc.prems q assms(1)
      by (auto simp: checkM_eq tryM_def ret_def throw_def conflicted_def split: sum.splits if_splits)
    then show ?thesis using q False by (intro exI [of _ 0] exI [of _ "[]"]) simp
  qed
qed

text \<open>
  A conflicting write is retried at most four times in all: under a live context the retry makes
  between one and four calls in a row, every call but the last was an uncommitted revision
  conflict, the last call's result is the answer, and fewer than four calls means that result
  was no conflict.
\<close>

lemma retry_is_bounded:
  assumes "\<forall>k. ctxErr k = None" and "RetryRevisionConflict ctxErr f w = (r, w')"
  shows "\<exists>n rs. 1 \<le> n \<and> n \<le> revisionConflictAttempts \<and> callsInARow f n w = (rs @ [r], w')
    \<and> (\<forall>q \<in> set rs. conflicted q) \<and> (n < revisionConflictAttempts \<longrightarrow> \<not> conflicted r)"
proof -
  have "retryLoop ctxErr f 0 (Suc 3) None w = (r, w')"
    using assms(2) by (simp only: RetryRevisionConflict_def revisionConflictAttempts_def) simp
  from retryLoop_calls [OF assms(1) this] obtain m rs where
    "m \<le> 3" "callsInARow f (Suc m) w = (rs @ [r], w')" "\<forall>q \<in> set rs. conflicted q" "m < 3 \<longrightarrow> \<not> conflicted r"
    by blast
  then show ?thesis
    by (intro exI [of _ "Suc m"] exI [of _ rs]) (simp add: revisionConflictAttempts_def)
qed

lemma retry_is_bounded_witness:
  "\<exists>n rs. n \<le> revisionConflictAttempts
    \<and> callsInARow (\<lambda>k. (Inl (MutationError MutationRevisionConflict CommitNotCommitted), Suc k)) n 0 =
        (rs @ [Inl (MutationError MutationRevisionConflict CommitNotCommitted)], 4)"
proof -
  let ?f = "\<lambda>k. (Inl (MutationError MutationRevisionConflict CommitNotCommitted), Suc k) :: (gerror + unit) \<times> nat"
  have "RetryRevisionConflict (\<lambda>_. None) ?f 0 = (Inl (MutationError MutationRevisionConflict CommitNotCommitted), 4)"
    by code_simp
  from retry_is_bounded [OF _ this] show ?thesis by auto
qed

section \<open>Identifiers, intents and projections\<close>

text \<open>
  The bytes a deterministic identifier hashes determine its domain and every member: no two
  different lists of members shorter than 4 GiB, under whatever domains, feed SHA-256 the same
  bytes; and the identifier is always 64 hexadecimal characters.
\<close>

lemma deterministic_id_preimage:
  assumes "\<forall>v \<in> set (d # vs). length v < 2 ^ 32" and "\<forall>v \<in> set (d' # vs'). length v < 2 ^ 32"
    and "memberStream d vs = memberStream d' vs'"
  shows "d = d' \<and> vs = vs' \<and> length (deterministicID d vs) = 64"
  using members_inject [OF assms(1,2)] assms(3)
  by (simp add: memberStream_eq deterministicID_def length_sha256)

lemma deterministic_id_preimage_witness:
  "length (deterministicID ''d'' [''ab'', ''c'']) = 64
    \<and> memberStream ''d'' [''ab'', ''c''] \<noteq> memberStream ''d'' [''a'', ''bc'']"
  using deterministic_id_preimage [of "''d''" "[''ab'', ''c'']" "''d''" "[''ab'', ''c'']"]
    deterministic_id_preimage [of "''d''" "[''ab'', ''c'']" "''d''" "[''a'', ''bc'']"] by auto

lemma seed_roundtrip:
  "(seed_wf s \<and> \<not> Seed_IsZero s \<longrightarrow> ParseSeed (Seed_String s) = Inr s)
    \<and> (ParseSeed t = Inr q \<longrightarrow> seed_wf q \<and> \<not> Seed_IsZero q \<and> hexDecode t = Some q)"
  using ParseSeed_String ParseSeed_Inr by blast

lemma seed_roundtrip_witness: "ParseSeed (Seed_String exSeed) = Inr exSeed"
proof -
  have "seed_wf exSeed" "\<not> Seed_IsZero exSeed" by code_simp+
  with seed_roundtrip [of exSeed] show ?thesis by blast
qed

lemma valid_intent_has_mutation:
  assumes "EffectIntent_Validate X i = None"
  shows "\<exists>p v t. EffectIntent_Mutation X i = Inr (p, v) \<and> \<not> IsProtectedPredicate p
    \<and> EffectTargetForPredicate p = Some t \<and> p \<in> set (Predicates t)"
  using Mutation_total [OF assms] Mutation_writable writable_not_protected EffectTargetForPredicate_total
    effect_group_member by metis

lemma valid_intent_has_mutation_witness:
  "\<exists>p v. EffectIntent_Mutation refExt ((exIntent EffectSetStatus exRook)\<lparr>ei_Status := StatusWounded\<rparr>) = Inr (p, v)
    \<and> \<not> IsProtectedPredicate p"
proof -
  have "EffectIntent_Validate refExt ((exIntent EffectSetStatus exRook)\<lparr>ei_Status := StatusWounded\<rparr>) = None"
    by code_simp
  from valid_intent_has_mutation [OF this] show ?thesis by blast
qed

lemma resume_attempts_survive:
  assumes "TurnResume_Triples X r eid source at = Inr ts" and "objectsIn others TurnResumeAttempts = []"
  shows "ResumeAttemptsFromTriples (others @ ts) = Inr (tu_Attempts r)"
  by (rule ResumeAttempts_roundtrip [OF assms])

lemma resume_attempts_survive_witness:
  "\<exists>ts. TurnResume_Triples refExt exResume exTurn ''resume'' 1 = Inr ts \<and> ResumeAttemptsFromTriples ts = Inr 2"
proof -
  obtain ts where ts: "TurnResume_Triples refExt exResume exTurn ''resume'' 1 = Inr ts"
    using exResume_projects by blast
  have "objectsIn [] TurnResumeAttempts = []" "tu_Attempts exResume = 2" by (simp_all add: exResume_def)
  with resume_attempts_survive [OF ts, of "[]"] ts show ?thesis by auto
qed

text \<open>
  Whatever a payload's projection emits is well formed: the payload passed its own validator,
  every triple is about the projected subject with a source and a non-zero timestamp, and no
  predicate occurs twice.
\<close>

lemma projection_well_formed:
  assumes "build X p = Inr ts"
  shows "tp_payload p = Some None \<and> checkSubject X p = None \<and> distinct (map trPredicate ts)
    \<and> (\<forall>t \<in> set ts. trSubject t = tp_subject p \<and> trSource t = tp_source p \<and> trSource t \<noteq> []
         \<and> \<not> time_IsZero (trTimestamp t))"
  using build_Inr [OF assms] by (auto simp: projectionTriple_def refTriples_def)

lemma projection_well_formed_witness:
  "\<exists>ts. TurnResume_Triples refExt exResume exTurn ''resume'' 1 = Inr ts \<and> distinct (map trPredicate ts)"
proof -
  obtain ts where ts: "TurnResume_Triples refExt exResume exTurn ''resume'' 1 = Inr ts"
    using exResume_projects by blast
  from projection_well_formed [OF ts [unfolded TurnResume_Triples_def]] ts show ?thesis by blast
qed

section \<open>Campaigns\<close>

text \<open>A gate over the store client is a gate of the graph.\<close>

lemma gate_over_client:
  assumes "mutation_client X c ents" and "gt_store g = graphioStore X c"
    and "\<forall>w. ents (snd (gt_newSeed g w)) = ents w" and "\<forall>w. ents (snd (gt_now g w)) = ents w"
  shows "campaign_gate X (graphioStore X c) ents g"
  by (intro campaign_gate.intro campaign_gate_axioms.intro mutation_client.store_contract [OF assms(1)] assms(2))
    (metis assms(3,4) snd_conv)+

lemma refGate_client:
  assumes "\<exists>s. g = refGate s"
  shows "gt_store g = graphioStore refExt memClient \<and> gt_campaignID g = exCampaignID
    \<and> (\<forall>w. memEnts (snd (gt_newSeed g w)) = memEnts w) \<and> (\<forall>w. memEnts (snd (gt_now g w)) = memEnts w)"
  using assms by (auto simp: refGate_def memGraphStore_def ret_def memNow_def)

text \<open>
  C28: A campaign is instantiated once: after one boot's claim succeeded, every later successful
  claim on the same campaign, by any boot, whatever seed it mints and whatever claims, marks and
  lost acknowledgements lie between, returns the same seed and the same experience, and it asked
  for that experience; only a boot that minted the very same seed can be told again that its
  claim was fresh.
\<close>

theorem campaign_claimed_once:
  assumes "mutation_client X c ents"
    and gates: "\<And>g. gates g \<Longrightarrow> gt_store g = graphioStore X c \<and> gt_campaignID g = i
      \<and> (\<forall>w. ents (snd (gt_newSeed g w)) = ents w) \<and> (\<forall>w. ents (snd (gt_now g w)) = ents w)"
    and "gates g1" "gates g2"
    and "Claim X g1 x1 w = (Inr a, w1)"
    and "(campaign_step X ents gates i)\<^sup>*\<^sup>* w1 w2"
    and "Claim X g2 x2 w2 = (Inr b, w3)"
  shows "in_Seed b = in_Seed a \<and> in_Experience b = in_Experience a \<and> x2 = x1
    \<and> (in_Fresh b \<longrightarrow> fst (gt_newSeed g2 w2) = Inr (in_Seed a))"
proof -
  have laws: "campaign_gate X (graphioStore X c) ents g" if "gates g" for g
    using gates [OF that] by (intro gate_over_client assms(1)) auto
  have at: "gt_campaignID g1 = i" "gt_campaignID g2 = i" using gates assms(3,4) by auto
  note first = campaign_gate.Claim_Inr [OF laws [OF assms(3)] assms(5)]
  note second = campaign_gate.Claim_Inr [OF laws [OF assms(4)] assms(7)]
  have held: "provenance X (ents w1) i = Some (in_Seed a, in_Experience a)" using first(1) at by simp
  have "provenance X (ents w2) i = Some (in_Seed a, in_Experience a)"
    by (rule campaign_run_keeps [OF assms(6) _ held]) (rule laws)
  then have "provenance X (ents w3) i = Some (in_Seed a, in_Experience a)"
    by (rule campaign_gate.Claim_keeps_provenance [OF laws [OF assms(4)] assms(7)])
  then show ?thesis using first(2) second(1,2,5) at by auto
qed

theorem campaign_claimed_once_witness:
  "\<exists>w1 w2. Claim refExt (refGate exFirstSeed) exExperience (emptyWorld [Some AckLost])
      = (Inr (newInstantiation exCampaignID exFirstSeed exExperience True), w1)
    \<and> Claim refExt (refGate exSecondSeed) exExperience w1
      = (Inr (newInstantiation exCampaignID exFirstSeed exExperience False), w2)
    \<and> in_Seed (newInstantiation exCampaignID exFirstSeed exExperience False) = exFirstSeed"
proof -
  let ?a = "newInstantiation exCampaignID exFirstSeed exExperience True"
  let ?b = "newInstantiation exCampaignID exFirstSeed exExperience False"
  have "in_Seed ?b = in_Seed ?a \<and> in_Experience ?b = in_Experience ?a \<and> exExperience = exExperience
      \<and> (in_Fresh ?b \<longrightarrow> fst (gt_newSeed (refGate exSecondSeed) (exClaimed (Seed_String exFirstSeed))) = Inr (in_Seed ?a))"
    by (rule campaign_claimed_once [where gates = "\<lambda>g. \<exists>s. g = refGate s",
          OF mem.mutation_client_axioms refGate_client _ _ exRun_claim rtranclp.rtrancl_refl exRun_second]) blast+
  then show ?thesis using exRun_claim exRun_second by (auto simp: newInstantiation_def)
qed

text \<open>
  C29: A world is declared imported only by the boot whose claim created the campaign: whatever
  became of the exported fields of a claim's answer, marking with it either changes nothing in
  the graph or the answer is exactly what that claim returned, it was fresh and it is of this
  campaign, and then the marker is the only fact that changes. An answer that never came out of
  a claim marks nothing.
\<close>

theorem import_marked_by_winner:
  assumes "mutation_client X c ents"
    and gates: "\<And>g. gates g \<Longrightarrow> gt_store g = graphioStore X c
      \<and> (\<forall>w. ents (snd (gt_newSeed g w)) = ents w) \<and> (\<forall>w. ents (snd (gt_now g w)) = ents w)"
    and "gates g1" "gates g2"
    and "Claim X g1 x w = (Inr a, w1)"
    and "in_proof b = in_proof a \<or> \<not> ip_sealed (in_proof b)"
    and "MarkImported g2 b w2 = (r, w3)"
  shows "ents w3 = ents w2
    \<or> (b = a \<and> in_Fresh a \<and> gt_campaignID g2 = gt_campaignID g1
       \<and> (\<exists>at. \<forall>j q. objs ents w3 j q = (if j = gt_campaignID g1 \<and> q = CampaignImportCompleted
            then {#AString (gt_formatTime g2 at)#} else objs ents w2 j q)))"
proof -
  have laws: "campaign_gate X (graphioStore X c) ents g" if "gates g" for g
    using gates [OF that] by (intro gate_over_client assms(1)) auto
  note claimed = campaign_gate.Claim_Inr [OF laws [OF assms(3)] assms(5)]
  from laws [OF assms(4)] assms(7) show ?thesis
  proof (cases rule: campaign_gate.MarkImported_cases [consumes 2, case_names kept marked])
    case (marked at)
    with assms(6) claimed(4) have "instantiation_snapshot b = instantiation_snapshot a" "in_proof b = in_proof a"
      by (auto simp: hasValidProof_def)
    then have "b = a" by (auto simp: instantiation_snapshot_def)
    then show ?thesis using marked claimed(3) by auto
  qed simp
qed

theorem import_marked_by_winner_witness:
  "\<exists>w3. MarkImported (refGate exFirstSeed) (newInstantiation exCampaignID exFirstSeed exExperience True)
      (exClaimed (Seed_String exFirstSeed)) = (Inr 8, w3)
    \<and> (memEnts w3 = memEnts (exClaimed (Seed_String exFirstSeed))
       \<or> (\<exists>at. objs memEnts w3 exCampaignID CampaignImportCompleted = {#AString (encInt at)#}))"
proof -
  obtain w3 where mark: "MarkImported (refGate exFirstSeed) (newInstantiation exCampaignID exFirstSeed exExperience True)
      (exClaimed (Seed_String exFirstSeed)) = (Inr 8, w3)"
    using exRun_mark by (metis prod.collapse)
  let ?a = "newInstantiation exCampaignID exFirstSeed exExperience True"
  have fmt: "gt_formatTime (refGate exFirstSeed) = encInt" by (simp add: refGate_def)
  have "memEnts w3 = memEnts (exClaimed (Seed_String exFirstSeed))
    \<or> (?a = ?a \<and> in_Fresh ?a \<and> gt_campaignID (refGate exFirstSeed) = gt_campaignID (refGate exFirstSeed)
       \<and> (\<exists>at. \<forall>j q. objs memEnts w3 j q =
            (if j = gt_campaignID (refGate exFirstSeed) \<and> q = CampaignImportCompleted
             then {#AString (gt_formatTime (refGate exFirstSeed) at)#}
             else objs memEnts (exClaimed (Seed_String exFirstSeed)) j q)))"
    by (rule import_marked_by_winner [where gates = "\<lambda>g. \<exists>s. g = refGate s",
          OF mem.mutation_client_axioms _ _ _ exRun_claim _ mark]) (use refGate_client in blast)+
  with mark fmt show ?thesis by fastforce
qed

text \<open>
  C40: Waiting for another boot's import ends: when the clock does not go back and pauses last
  as long as asked, one poll more than the pauses that cover the wait is enough, whatever other
  processes do meanwhile; and the wait reports a completion only if the campaign carries that
  very instant as its one marker.
\<close>

theorem await_import_ends:
  assumes "campaign_waiter X S ents g clock" and "wait \<le> int n * poll"
  shows "\<exists>r w'. AwaitImportCompletion g wait poll (Suc n) w = Some (r, w')
    \<and> (\<forall>at. r = Inr at \<longrightarrow> (\<exists>v. objs ents w' (gt_campaignID g) CampaignImportCompleted = {#AString v#}
         \<and> gt_parseTime g v = Inr at))"
  by (rule campaign_waiter.AwaitImportCompletion_ends [OF assms])

theorem await_import_ends_witness:
  "\<exists>r w'. AwaitImportCompletion (refGate exSecondSeed) 3 2 3 (exClaimed ''seed'') = Some (r, w')
    \<and> r = Inl (Wrapf ''campaign has existed for the whole wait unmarked'' ErrImportInterrupted)"
proof -
  obtain r w' where "AwaitImportCompletion (refGate exSecondSeed) 3 2 (Suc 2) (exClaimed ''seed'') = Some (r, w')"
    using await_import_ends [OF refGate_waiter, of 3 2 2 exSecondSeed "exClaimed ''seed''"] by auto
  then show ?thesis using exRun_await [of exSecondSeed "''seed''"] by (simp add: numeral_3_eq_3)
qed

section \<open>The ledger\<close>

text \<open>
  C36: What is archived is the turn: after an append succeeded, the last record on the turn's
  subject decodes to the returned manifest, which is valid, is of this campaign, ends in a
  terminal phase and carries, for the phase, the player, the scene, every reference and the
  failure reason, exactly what the graph holds of the turn; the append reports a new record
  exactly when the subject was empty before.
\<close>

theorem ledger_archives_the_turn:
  assumes "campaign_ledger X W ents log" and "Append X W i w = (Inr a, w')"
  shows "\<exists>turnID st subject. ledger_turnIDOf X i = Inr turnID \<and> ents w i = Some st \<and> ents w' = ents w
    \<and> SubjectFor X turnID = Inr subject
    \<and> log w' subject \<noteq> [] \<and> lw_decode W (last (log w' subject)) = Inr (ArchivedManifest (lo_Manifest a))
    \<and> (lo_Appended a \<longleftrightarrow> log w subject = [])
    \<and> tm_TurnID (lo_Manifest a) = turnID \<and> tm_CampaignID (lo_Manifest a) = lw_campaignID W
    \<and> TurnManifest_Validate X (lo_Manifest a) = None \<and> IsTerminal (tm_Phase (lo_Manifest a))
    \<and> list_all (\<lambda>(p, v). archived st p v) (manifestFacts (lo_Manifest a))"
proof -
  note L = assms(1)
  from L assms(2) obtain turnID st w1 where t: "ledger_turnIDOf X i = Inr turnID" "ents w i = Some st"
      "ents w1 = ents w" "log w1 = log w" "archiveTurn X W turnID (Some st) w1 = (Inr a, w')"
    by (cases rule: campaign_ledger.Append_cases [consumes 2, case_names refused archived]) auto
  obtain subject where s: "SubjectFor X turnID = Inr subject"
      "Compose X turnID (Some st) (lw_campaignID W) = Inr (lo_Manifest a)"
      "log w' subject \<noteq> []" "lw_decode W (last (log w' subject)) = Inr (ArchivedManifest (lo_Manifest a))"
      "lo_Appended a \<longleftrightarrow> log w1 subject = []"
    using campaign_ledger.archiveTurn_Inr [OF L t(5)] by blast
  have "ents w' = ents w" using campaign_ledger.Append_kept [OF L assms(2)] by simp
  with t s Compose_Inr(1,2,4,5,6) [OF s(2)] show ?thesis by auto
qed

theorem ledger_archives_the_turn_witness:
  "\<exists>a w'. Append refExt exWriter exTurn (exFailed []) = (Inr a, w')
    \<and> list_all (\<lambda>(p, v). archived (snd (hd (map (\<lambda>e. (fst e, snd e)) (mg_ents (exFailed []))))) p v) (manifestFacts (lo_Manifest a))
    \<and> tm_TurnID (lo_Manifest a) = ''turn-a''"
proof -
  obtain a w' where run: "Append refExt exWriter exTurn (exFailed []) = (Inr a, w')"
    using exRun_append(2) by (cases "Append refExt exWriter exTurn (exFailed [])") auto
  have at: "ledger_turnIDOf refExt exTurn = Inr ''turn-a''" by code_simp
  have held: "memEnts (exFailed []) exTurn = Some (snd (hd (mg_ents (exFailed []))))"
    by (simp add: memEnts_def exFailed_def exEntity_def)
  from ledger_archives_the_turn [OF refWriter_ledger run] at held run show ?thesis
    by (intro exI [of _ a] exI [of _ w']) auto
qed

text \<open>
  C37: History is written once: after a turn was archived, over any run of appends,
  notifications and reconciliations with lost acknowledgements and any change of the graph in
  between, every record on the stream stays the only record of its subject, and a later append
  of the same turn either fails or returns the very same manifest and adds nothing.
\<close>

theorem ledger_never_rewritten:
  assumes L: "campaign_ledger X W ents log"
    and "Append X W i w = (Inr a, w1)"
    and "(ledger_step X W log)\<^sup>*\<^sup>* w1 w2"
    and "Append X W i w2 = (Inr b, w3)"
  shows "lo_Manifest b = lo_Manifest a \<and> \<not> lo_Appended b
    \<and> (\<forall>s. log w3 s = log w s \<or> (log w s = [] \<and> (\<exists>r. log w3 s = [r])))"
proof -
  from L assms(2) obtain turnID st v where t: "ledger_turnIDOf X i = Inr turnID" "archiveTurn X W turnID (Some st) v = (Inr a, w1)"
    by (cases rule: campaign_ledger.Append_cases [consumes 2, case_names refused archived]) auto
  from L assms(4) t(1) obtain st' v' where t': "log v' = log w2" "archiveTurn X W turnID (Some st') v' = (Inr b, w3)"
    by (cases rule: campaign_ledger.Append_cases [consumes 2, case_names refused archived]) auto
  obtain s where s: "SubjectFor X turnID = Inr s" "log w1 s \<noteq> []"
      "lw_decode W (last (log w1 s)) = Inr (ArchivedManifest (lo_Manifest a))"
    using campaign_ledger.archiveTurn_Inr [OF L t(2)] by blast
  have s': "lw_decode W (last (log w3 s)) = Inr (ArchivedManifest (lo_Manifest b))" "lo_Appended b \<longleftrightarrow> log w2 s = []"
    using campaign_ledger.archiveTurn_Inr [OF L t'(2)] s(1) t'(1) by auto
  note run = campaign_ledger.run_kept [OF L assms(3)]
  have k: "campaign_ledger.kept log w w1" "campaign_ledger.kept log w2 w3"
    using campaign_ledger.Append_kept [OF L] assms(2,4) by blast+
  have "log w2 s = log w1 s" "log w3 s = log w1 s"
    using campaign_ledger.kept_record [OF L] run k(2) s(2) by metis+
  with s s' have "lo_Manifest b = lo_Manifest a \<and> \<not> lo_Appended b" by simp
  moreover have "campaign_ledger.kept log w w3"
    using campaign_ledger.kept_trans [OF L] k run by blast
  ultimately show ?thesis by (simp add: campaign_ledger.kept_def [OF L])
qed

theorem ledger_never_rewritten_witness:
  "\<exists>a w1 b w3. Append refExt exWriter exTurn (exFailed []) = (Inr a, w1) \<and> lo_Appended a
    \<and> Append refExt exWriter exTurn w1 = (Inr b, w3) \<and> lo_Manifest b = lo_Manifest a \<and> \<not> lo_Appended b"
proof -
  obtain a w1 where first: "Append refExt exWriter exTurn (exFailed []) = (Inr a, w1)" "lo_Appended a"
    using exRun_append(2) by (cases "Append refExt exWriter exTurn (exFailed [])") auto
  obtain b w3 where second: "Append refExt exWriter exTurn w1 = (Inr b, w3)"
    using exRun_append(3) first(1) by (cases "Append refExt exWriter exTurn w1") auto
  from ledger_never_rewritten [OF refWriter_ledger first(1) rtranclp.rtrancl_refl second] first second
  show ?thesis by blast
qed

text \<open>
  C30: Replay is the dice themselves: an archived roll under a verdict that called for one
  passes the replay exactly when this engine knows its mechanic and rolling the turn again, with
  the campaign's seed and the verdict's modifiers, gives that very roll; what the replay returns
  is then the archived roll and its equal reproduction.
\<close>

theorem replay_verifies_the_dice:
  assumes "tm_RollRef m \<noteq> []" "ParseRef X (tm_RollRef m) = Inr ref" "vs_RequiresRoll (ve_Scalars v)"
    and "lr_GetRoll R ref w = (Inr recorded, w1)" "lr_LoadSeed R w1 = (Inr seed, w2)"
    and "faithful (lr_marshalRoll R)" "lr_marshalRoll R recorded = Inr coded"
  shows "replayRoll X R m (Some v) w = (Inr x, w') \<longleftrightarrow>
      x = Some (recorded, recorded) \<and> w' = w2
      \<and> (\<exists>roller. NewRoller (rr_Mechanic recorded) = Inr roller
           \<and> Roll X roller seed (tm_CampaignID m) (tm_TurnID m) (ve_Modifiers v) = Inr recorded)"
proof
  assume r: "replayRoll X R m (Some v) w = (Inr x, w')"
  obtain p q where x: "x = Some (p, q)" using replayRoll_None(1) [OF r] assms(1) by (cases x) auto
  from replayRoll_Inr [OF r [unfolded x] assms(6)] assms(2,4,5) x
  show "x = Some (recorded, recorded) \<and> w' = w2
      \<and> (\<exists>roller. NewRoller (rr_Mechanic recorded) = Inr roller
           \<and> Roll X roller seed (tm_CampaignID m) (tm_TurnID m) (ve_Modifiers v) = Inr recorded)" by auto
next
  assume "x = Some (recorded, recorded) \<and> w' = w2
      \<and> (\<exists>roller. NewRoller (rr_Mechanic recorded) = Inr roller
           \<and> Roll X roller seed (tm_CampaignID m) (tm_TurnID m) (ve_Modifiers v) = Inr recorded)"
  then show "replayRoll X R m (Some v) w = (Inr x, w')"
    using replayRoll_honest [OF assms(1-5) _ _ _ assms(7)] Roll_version(1) by metis
qed

theorem replay_verifies_the_dice_witness:
  "\<exists>recorded. Roll refExt exRoller exSeed (exID ''k'' ''c'') ''turn-a'' [] = Inr recorded
    \<and> replayRoll refExt (exReader recorded) exResolved (Some exVerdict) (exWorld []) = (Inr (Some (recorded, recorded)), exWorld [])"
proof -
  obtain recorded where r: "Roll refExt exRoller exSeed (exID ''k'' ''c'') ''turn-a'' [] = Inr recorded"
    using Roll_succeeds [OF exRoller_new exRoll_inputs] by blast
  have fields: "lr_GetRoll (exReader recorded) ref w = (Inr recorded, w)" "lr_LoadSeed (exReader recorded) w = (Inr exSeed, w)"
    "lr_marshalRoll (exReader recorded) = encRoll" "tm_RollRef exResolved \<noteq> []" "vs_RequiresRoll (ve_Scalars exVerdict)"
    "ve_Modifiers exVerdict = []" "tm_TurnID exResolved = ''turn-a''" "tm_CampaignID exResolved = exID ''k'' ''c''"
    for ref and w :: memWorld
    by (simp_all add: exReader_def exResolved_def exVerdict_def ret_def)
  have "NewRoller (rr_Mechanic recorded) = Inr exRoller"
    using Roll_version(2) [OF r exRoller_new] exRoller_new by simp
  moreover have "encRoll recorded = Inr (projr (encRoll recorded))" by (simp add: encRoll_def)
  ultimately have "replayRoll refExt (exReader recorded) exResolved (Some exVerdict) (exWorld []) = (Inr (Some (recorded, recorded)), exWorld [])"
    using replay_verifies_the_dice [OF fields(4) exResolved_ref fields(5) fields(1) fields(2)] r fields encRoll_faithful
    by metis
  with r show ?thesis by blast
qed

section \<open>The player\<close>



text \<open>
  C38: The gateway's answer to a failed publication says that nothing was published, and that
  can be false: when the stream stores the action and its acknowledgement is lost, the player is
  told the action was not taken while the stream already holds it.
\<close>

theorem unavailable_answer_may_be_wrong:
  "\<exists>refusal e w'. Submit refExt refGateway ''one'' exRequest (exIdle [None, Some AckLost]) =
       ((Some (refuse ''k1'' refusal), Some e), w')
     \<and> sf_Code refusal = RefusalUnavailable
     \<and> sf_Message refusal = ''the engine could not take this action; nothing was published, so it is safe to retry''
     \<and> playLog (exIdle []) ActionSubject = [] \<and> playLog w' ActionSubject = [(exActionID, exBody)]"
proof -
  have empty: "playLog (exIdle []) ActionSubject = []" by (simp add: playLog_def exIdle_def exPlay_def)
  from exRun_submit_lost obtain e where "Submit refExt refGateway ''one'' exRequest (exIdle [None, Some AckLost]) =
    (unavailable ''k1'' e, (exIdle [])\<lparr>pw_stream := [(ActionSubject, exActionID, exBody)]\<rparr>)" by blast
  then show ?thesis
    unfolding unavailable_def
    by (intro exI conjI, assumption) (simp_all add: empty, simp add: playLog_def)
qed

text \<open>
  C24: A result reaches nobody but its player: whatever sessions were bound, rebound, refused
  and removed before, everything a notification sends goes to a live session of the player whom
  the graph's record of the notified turn names, and carries a valid delivery of exactly that
  turn, as it ended.
\<close>

theorem result_reaches_its_player:
  assumes L: "player_egress N ents sent G"
    and table: "sessions_step\<^sup>*\<^sup>* (newSessions n) (gw_sessions G w)" "0 \<le> n"
    and run: "Notifier_Handle X N data w = (r, w')"
  shows "\<exists>new. sent w' = sent w @ new \<and> list_all (\<lambda>(s, d). \<exists>event i st q.
      ParseResolvedEvent X (nt_publication N) data = Inr event
      \<and> EntityID X (rs_identity (nt_results N)) (rv_TurnID event) = Inr i \<and> ents w i = Some st
      \<and> tellsOf X (rs_campaignID (nt_results N)) (rv_TurnID event) st d
      \<and> tdl_Result d = Some q \<and> trs_TurnID q = rv_TurnID event \<and> IsTerminal (trs_Phase q)
      \<and> objectsIn (esTriples st) TurnActionPlayer = [AString (se_PlayerID s)] \<and> trs_PlayerID q = se_PlayerID s
      \<and> ss_byConnID (gw_sessions G w) (cx_ID (se_Connection s)) = Some s) new"
proof -
  obtain new where new: "sent w' = sent w @ new" and why: "new \<noteq> [] \<Longrightarrow> \<exists>event i st d q.
      ParseResolvedEvent X (nt_publication N) data = Inr event
      \<and> EntityID X (rs_identity (nt_results N)) (rv_TurnID event) = Inr i \<and> ents w i = Some st
      \<and> tellsOf X (rs_campaignID (nt_results N)) (rv_TurnID event) st d \<and> tdl_Result d = Some q
      \<and> set new \<subseteq> set (forPlayer (gw_sessions G w) (trs_PlayerID q)) \<times> {d}"
    using player_egress.Handle_sent [OF L run] by blast
  show ?thesis
  proof (cases "new = []")
    case False
    then obtain event i st d q where f: "ParseResolvedEvent X (nt_publication N) data = Inr event"
        "EntityID X (rs_identity (nt_results N)) (rv_TurnID event) = Inr i" "ents w i = Some st"
        "tellsOf X (rs_campaignID (nt_results N)) (rv_TurnID event) st d" "tdl_Result d = Some q"
        "set new \<subseteq> set (forPlayer (gw_sessions G w) (trs_PlayerID q)) \<times> {d}" using why by blast
    from f(4,5) have q: "trs_TurnID q = rv_TurnID event" "IsTerminal (trs_Phase q)"
      "objectsIn (esTriples st) TurnActionPlayer = [AString (trs_PlayerID q)]"
      by (auto elim!: tellsOf_facts)
    note live = forPlayer_facts(1) [OF sessions_reachable_wf(1) [OF table]]
    have "list_all (\<lambda>(s, e). e = d \<and> se_PlayerID s = trs_PlayerID q
        \<and> ss_byConnID (gw_sessions G w) (cx_ID (se_Connection s)) = Some s) new"
      using f(6) live by (fastforce simp: list_all_iff)
    with f q new show ?thesis by (intro exI [of _ new]) (auto simp: list_all_iff)
  qed (use new in simp)
qed

theorem result_reaches_its_player_witness:
  "\<exists>new r w'. Notifier_Handle refExt refNotifier exBorn exBusy = (r, w') \<and> pw_sent w' = new
    \<and> map (cx_ID \<circ> se_Connection \<circ> fst) new = [''one''] \<and> list_all (\<lambda>(s, d). se_PlayerID s = exPlayer
      \<and> (\<exists>q. tdl_Result d = Some q \<and> trs_PlayerID q = exPlayer)) new"
proof -
  obtain r w' where run: "Notifier_Handle refExt refNotifier exBorn exBusy = (r, w')" by fastforce
  have table: "sessions_step\<^sup>*\<^sup>* (newSessions 4) (gw_sessions refGateway exBusy)"
    by (rule r_into_rtranclp, rule sessions_step.put [of _ "exSession ''one''" "fst (sessions_put (newSessions 4) (exSession ''one''))"])
      (simp add: refGateway_def exBusy_def exPlay_def)
  have none: "pw_sent exBusy = []" by (simp add: exBusy_def exPlay_def)
  have bound: "ss_byConnID (gw_sessions refGateway exBusy) c = Some s \<Longrightarrow> se_PlayerID s = exPlayer" for c s
    by (auto simp: refGateway_def exBusy_def exPlay_def sessions_put_def sessions_unbind_def newSessions_def
        connectionsOf_def Let_def exSession_def split: if_splits)
  from result_reaches_its_player [OF refNotifier_egress table _ run] none obtain new where
    new: "pw_sent w' = new" and to: "list_all (\<lambda>(s, d). \<exists>q. tdl_Result d = Some q \<and> trs_PlayerID q = se_PlayerID s
      \<and> ss_byConnID (gw_sessions refGateway exBusy) (cx_ID (se_Connection s)) = Some s) new"
    by (auto simp: list_all_iff) fastforce
  have "map (cx_ID \<circ> se_Connection \<circ> fst) new = [''one'']" using exRun_notify run new by simp
  moreover have "list_all (\<lambda>(s, d). se_PlayerID s = exPlayer
      \<and> (\<exists>q. tdl_Result d = Some q \<and> trs_PlayerID q = exPlayer)) new"
  proof (rule list.pred_mono_strong [OF to])
    fix z assume "case z of (s, d) \<Rightarrow> \<exists>q. tdl_Result d = Some q \<and> trs_PlayerID q = se_PlayerID s
      \<and> ss_byConnID (gw_sessions refGateway exBusy) (cx_ID (se_Connection s)) = Some s"
    then obtain s d q where z: "z = (s, d)" "tdl_Result d = Some q" "trs_PlayerID q = se_PlayerID s"
      "ss_byConnID (gw_sessions refGateway exBusy) (cx_ID (se_Connection s)) = Some s" by (cases z) auto
    from bound [OF z(4)] z(1-3)
    show "case z of (s, d) \<Rightarrow> se_PlayerID s = exPlayer \<and> (\<exists>q. tdl_Result d = Some q \<and> trs_PlayerID q = exPlayer)"
      by simp
  qed
  ultimately show ?thesis using run new by (intro exI conjI)
qed



end
